(* ===== verification/Prelude.thy ===== *)
theory Prelude
  imports Main
begin

text \<open>
  What every component of the runtime model shares: errors as values, the loops of the source as
  folds that stop at the first error, JavaScript objects used as dictionaries, insertion-ordered
  maps, stable sorting, and the character classes of the source's regular expressions.

  \<^item> \<open>result\<close>: a TypeScript function that can throw returns \<open>Inl\<close> of the error or \<open>Inr\<close> of the
    value. An error is its code (the prefix of the message, or the class of a built-in exception)
    and the constant part of its message.
  \<^item> \<open>throw_if b e k\<close> is \<open>if (b) throw e; k\<close>; \<open>bindR\<close> sequences; \<open>foldR\<close> is a \<open>for .. of\<close> loop whose
    body may throw; \<open>mapR\<close> is \<open>Array.map\<close> with a callback that may throw.
  \<^item> The locale \<open>replay_machine\<close> states what every event-sourced component of the repository relies
    on: a reducer and an invariant that each successful step keeps. Its lemmas about whole
    histories are proved once and interpreted for each reducer.
\<close>

named_theorems result_simps \<open>unfolding the result of throwing code\<close>
named_theorems char_class \<open>the character classes of the regular expressions\<close>

section \<open>Errors as values\<close>

datatype err_code =
    BROKER_STATE_CORRUPT
  | INVALID_CONTRACT
  | INVALID_BINDING_HEALTH_EVIDENCE
  | INVALID_EFFICIENCY_EVIDENCE
  | EXECUTOR_POLICY_VIOLATION
  | CAPABILITY_UNVERIFIED
  | SOURCE_SENSITIVITY_UNSUPPORTED
  | REPOSITORY_NOT_ALLOWED
  | PROCESS_SANDBOX_UNAVAILABLE
  | REPOSITORY_BUSY
  | OUT_OF_SCOPE_CHANGE
  | ECONOMY_POLICY_VIOLATION
  | DISPATCHER_BUSY
  | INVALID_STATE
  | PILOT_ERROR
  | TYPE_ERROR
  | RANGE_ERROR
  | PORT_ERROR
  | ZOD_ERROR
  | GENERIC_ERROR
  | SUPERVISOR_BUDGET_EXHAUSTED
  | SUPERVISOR_POLICY_VIOLATION
  | EVIDENCE_HASH_MISMATCH
  | FINALIZATION_FAILED
  | REVIEW_ATTESTATION_INVALID
  | PUBLICATION_POLICY_DENIED
  | PUBLICATION_FAILED
  | DELEGATION_PROVENANCE_REQUIRED
  | DELEGATION_PROVENANCE_INVALID

datatype error = Error (code_of: err_code) (message_of: string)

type_synonym 'a result = "error + 'a"

definition throw_if :: "bool \<Rightarrow> 'e \<Rightarrow> 'e + 'a \<Rightarrow> 'e + 'a" where
  "throw_if bad e k = (if bad then Inl e else k)"

definition bindR :: "'e + 'a \<Rightarrow> ('a \<Rightarrow> 'e + 'b) \<Rightarrow> 'e + 'b" where
  "bindR m k = (case m of Inl e \<Rightarrow> Inl e | Inr x \<Rightarrow> k x)"

lemma throw_if_Inr [simp, result_simps]: "throw_if b e k = Inr x \<longleftrightarrow> \<not> b \<and> k = Inr x"
  by (simp add: throw_if_def)

lemma throw_if_Inr' [simp, result_simps]: "Inr x = throw_if b e k \<longleftrightarrow> \<not> b \<and> k = Inr x"
  by (auto simp add: throw_if_def)

lemma throw_if_Inl [result_simps]: "throw_if b e k = Inl f \<longleftrightarrow> (b \<and> e = f) \<or> (\<not> b \<and> k = Inl f)"
  by (simp add: throw_if_def)

lemma throw_if_True [simp]: "throw_if True e k = Inl e"
  and throw_if_False [simp]: "throw_if False e k = k"
  by (simp_all add: throw_if_def)

lemma bindR_Inl [simp]: "bindR (Inl e) k = Inl e"
  and bindR_Inr [simp]: "bindR (Inr x) k = k x"
  by (simp_all add: bindR_def)

lemma bindR_eq_Inr [simp, result_simps]: "bindR m k = Inr y \<longleftrightarrow> (\<exists>x. m = Inr x \<and> k x = Inr y)"
  by (cases m) simp_all

lemma bindR_eq_Inl [result_simps]:
  "bindR m k = Inl e \<longleftrightarrow> m = Inl e \<or> (\<exists>x. m = Inr x \<and> k x = Inl e)"
  by (cases m) simp_all

lemma bindR_assoc: "bindR (bindR m f) g = bindR m (\<lambda>x. bindR (f x) g)"
  by (cases m) simp_all

lemma bindR_Inr_id [simp]: "bindR m Inr = m"
  by (cases m) simp_all

lemma bindR_throw_if [simp]: "bindR (throw_if b e m) k = throw_if b e (bindR m k)"
  by (simp add: throw_if_def)

lemma result_cases [case_names error ok]:
  obtains e where "(r :: 'e + 'a) = Inl e" | x where "r = Inr x"
  by (cases r) auto

definition is_ok :: "'e + 'a \<Rightarrow> bool" where
  "is_ok r = (case r of Inl _ \<Rightarrow> False | Inr _ \<Rightarrow> True)"

lemma is_ok_simps [simp]: "\<not> is_ok (Inl e)" "is_ok (Inr x)"
  by (simp_all add: is_ok_def)

lemma is_ok_iff: "is_ok r \<longleftrightarrow> (\<exists>x. r = Inr x)"
  by (cases r) simp_all

lemma is_ok_throw_if [simp]: "is_ok (throw_if b e k) \<longleftrightarrow> \<not> b \<and> is_ok k"
  by (simp add: throw_if_def)

section \<open>Loops whose body may throw\<close>

fun foldR :: "('s \<Rightarrow> 'a \<Rightarrow> 'e + 's) \<Rightarrow> 's \<Rightarrow> 'a list \<Rightarrow> 'e + 's" where
  "foldR f s [] = Inr s"
| "foldR f s (x # xs) = bindR (f s x) (\<lambda>s'. foldR f s' xs)"

fun mapR :: "('a \<Rightarrow> 'e + 'b) \<Rightarrow> 'a list \<Rightarrow> 'e + 'b list" where
  "mapR f [] = Inr []"
| "mapR f (x # xs) = bindR (f x) (\<lambda>y. bindR (mapR f xs) (\<lambda>ys. Inr (y # ys)))"

lemma foldR_cong [fundef_cong]:
  assumes "xs = ys" and "s = t" and "\<And>x u. x \<in> set ys \<Longrightarrow> f u x = g u x"
  shows "foldR f s xs = foldR g t ys"
proof -
  have "foldR f s ys = foldR g s ys" if "\<And>x u. x \<in> set ys \<Longrightarrow> f u x = g u x" for ys s
    using that by (induction ys arbitrary: s) (auto simp: bindR_def split: sum.splits)
  then show ?thesis using assms by simp
qed

lemma mapR_cong [fundef_cong]: "xs = ys \<Longrightarrow> (\<And>x. x \<in> set ys \<Longrightarrow> f x = g x) \<Longrightarrow> mapR f xs = mapR g ys"
  by (induction xs arbitrary: ys) auto

lemma foldR_append: "foldR f s (xs @ ys) = bindR (foldR f s xs) (\<lambda>s'. foldR f s' ys)"
  by (induction xs arbitrary: s) (simp_all add: bindR_assoc)

lemma foldR_snoc: "foldR f s (xs @ [x]) = bindR (foldR f s xs) (\<lambda>s'. f s' x)"
  by (simp add: foldR_append)

lemma foldR_invariant:
  assumes "foldR f s xs = Inr t" and "P s"
    and "\<And>s x s'. x \<in> set xs \<Longrightarrow> P s \<Longrightarrow> f s x = Inr s' \<Longrightarrow> P s'"
  shows "P t"
  using assms
proof (induction xs arbitrary: s)
  case Nil
  then show ?case by simp
next
  case (Cons x xs)
  from Cons.prems(1) obtain u where u: "f s x = Inr u" and rest: "foldR f u xs = Inr t"
    by auto
  have "P u" using Cons.prems(3) [of x s u] Cons.prems(2) u by simp
  moreover have "\<And>y v w. y \<in> set xs \<Longrightarrow> P v \<Longrightarrow> f v y = Inr w \<Longrightarrow> P w"
    by (rule Cons.prems(3)) auto
  ultimately show ?case by (rule Cons.IH [OF rest])
qed

lemma foldR_prefix:
  assumes "foldR f s (xs @ ys) = Inr t"
  obtains u where "foldR f s xs = Inr u" and "foldR f u ys = Inr t"
  using assms by (auto simp: foldR_append)

lemma mapR_length: "mapR f xs = Inr ys \<Longrightarrow> length ys = length xs"
  by (induction xs arbitrary: ys) auto

lemma mapR_Inr_iff: "mapR f xs = Inr ys \<longleftrightarrow> list_all2 (\<lambda>x y. f x = Inr y) xs ys"
  by (induction xs arbitrary: ys) (auto simp: list_all2_Cons1)

lemma mapR_mono:
  "mapR f xs = Inr ys \<Longrightarrow> (\<And>x y. x \<in> set xs \<Longrightarrow> f x = Inr y \<Longrightarrow> g x = Inr y) \<Longrightarrow> mapR g xs = Inr ys"
  by (induction xs arbitrary: ys) auto

lemma mapR_mem: "mapR f xs = Inr ys \<Longrightarrow> y \<in> set ys \<Longrightarrow> \<exists>x \<in> set xs. f x = Inr y"
  by (induction xs arbitrary: ys) auto

lemma mapR_member: "mapR f xs = Inr ys \<Longrightarrow> x \<in> set xs \<Longrightarrow> \<exists>y \<in> set ys. f x = Inr y"
  by (induction xs arbitrary: ys) auto

lemma mapR_ok: "is_ok (mapR f xs) \<longleftrightarrow> list_all (\<lambda>x. is_ok (f x)) xs"
  by (induction xs) (auto simp: is_ok_iff)

lemma mapR_same: "(\<And>x. x \<in> set xs \<Longrightarrow> f x = Inr x) \<Longrightarrow> mapR f xs = Inr xs"
  by (induction xs) auto

section \<open>Event-sourced components\<close>

text \<open>
  A component that rebuilds its state by folding a log of commands: \<open>step\<close> is its reducer, \<open>inv\<close>
  the consistency of its state. What a whole replay keeps follows from what one step keeps.
\<close>

locale replay_machine =
  fixes step :: "'s \<Rightarrow> 'c \<Rightarrow> 'e + 's"
    and start :: "'s"
    and inv :: "'s \<Rightarrow> bool"
  assumes start_inv: "inv start"
    and step_inv: "inv s \<Longrightarrow> step s c = Inr s' \<Longrightarrow> inv s'"
begin

lemma replay_inv: "foldR step start cs = Inr s \<Longrightarrow> inv s"
  by (erule foldR_invariant) (auto intro: start_inv step_inv)

lemma replay_extends:
  "foldR step start (cs @ ds) = bindR (foldR step start cs) (\<lambda>s. foldR step s ds)"
  by (rule foldR_append)

lemma replay_prefix_inv:
  assumes "foldR step start (cs @ ds) = Inr t"
  shows "\<exists>s. foldR step start cs = Inr s \<and> inv s \<and> foldR step s ds = Inr t"
proof -
  from assms obtain s where s: "foldR step start cs = Inr s" and t: "foldR step s ds = Inr t"
    by (rule foldR_prefix)
  with replay_inv [OF s] show ?thesis by blast
qed

lemma replay_steps:
  assumes "foldR step start (cs @ [c]) = Inr t"
  shows "\<exists>s. foldR step start cs = Inr s \<and> inv s \<and> step s c = Inr t \<and> inv t"
  using assms by (auto simp: foldR_snoc dest: replay_inv intro: step_inv)

lemma replay_stuck:
  "foldR step start cs = Inl e \<Longrightarrow> foldR step start (cs @ ds) = Inl e"
  by (simp add: foldR_append)

end

end
