(* ===== verification/JS_Lib.thy ===== *)
theory JS_Lib
  imports Prelude "HOL-Library.AList" "HOL-Library.Multiset"
begin

text \<open>
  The parts of the JavaScript language and its standard library that the modelled components use.

  \<^item> Dictionaries: a plain object indexed by a computed key also answers for the keys of
    \<open>Object.prototype\<close>; \<open>js_get\<close> keeps the three outcomes apart. A \<open>Map\<close> is an association list in
    insertion order (\<open>AList.update\<close> is \<open>Map.set\<close>, \<open>map_of\<close> is \<open>Map.get\<close>).
  \<^item> \<open>js_sort\<close> is \<open>Array.prototype.sort\<close>: stable, by a comparison that returns a number.
  \<^item> Strings are lists of characters, one per UTF-16 unit; the identifiers, hashes and paths of the
    modelled code are ASCII, on which \<open>toLowerCase\<close> and \<open>toLocaleLowerCase('en-US')\<close> agree.
  \<^item> Numbers that the code checks with \<open>Number.isSafeInteger\<close> are integers, exact on that range.
\<close>

section \<open>Plain objects and insertion-ordered maps\<close>

datatype 'v slot = Absent | Own 'v | Inherited

definition object_prototype_keys :: "string list" where
  "object_prototype_keys =
    [''constructor'', ''__defineGetter__'', ''__defineSetter__'', ''hasOwnProperty'',
     ''__lookupGetter__'', ''__lookupSetter__'', ''isPrototypeOf'', ''propertyIsEnumerable'',
     ''toString'', ''valueOf'', ''__proto__'', ''toLocaleString'']"

definition js_get :: "(string \<rightharpoonup> 'v) \<Rightarrow> string \<Rightarrow> 'v slot" where
  "js_get m k = (case m k of
     Some v \<Rightarrow> Own v
   | None \<Rightarrow> if k \<in> set object_prototype_keys then Inherited else Absent)"

lemma js_get_Own [simp]: "js_get m k = Own v \<longleftrightarrow> m k = Some v"
  by (simp add: js_get_def split: option.splits)

lemma js_get_Absent: "js_get m k = Absent \<longleftrightarrow> m k = None \<and> k \<notin> set object_prototype_keys"
  by (simp add: js_get_def split: option.splits)

lemma js_get_Inherited: "js_get m k = Inherited \<longleftrightarrow> m k = None \<and> k \<in> set object_prototype_keys"
  by (simp add: js_get_def split: option.splits)

lemma js_get_update [simp]: "js_get (m(k \<mapsto> v)) k = Own v"
  by simp

lemma js_get_update_other [simp]: "k' \<noteq> k \<Longrightarrow> js_get (m(k \<mapsto> v)) k' = js_get m k'"
  by (simp add: js_get_def)

lemma map_of_alist_update [simp]: "map_of (AList.update k v al) k' = ((map_of al)(k \<mapsto> v)) k'"
  by (simp add: update_conv)

lemma distinct_keys_alist_update [simp]:
  "distinct (map fst (AList.update k v al)) \<longleftrightarrow> distinct (map fst al)"
  by (induction al) (auto simp: update_keys)

lemma keys_alist_update: "set (map fst (AList.update k v al)) = insert k (set (map fst al))"
  by (induction al) auto

lemma alist_update_fresh: "k \<notin> fst ` set al \<Longrightarrow> AList.update k v al = al @ [(k, v)]"
  by (induction al) auto

section \<open>Stable sorting by a comparison function\<close>

fun js_insert :: "('a \<Rightarrow> 'a \<Rightarrow> int) \<Rightarrow> 'a \<Rightarrow> 'a list \<Rightarrow> 'a list" where
  "js_insert cmp x [] = [x]"
| "js_insert cmp x (y # ys) = (if cmp x y \<le> 0 then x # y # ys else y # js_insert cmp x ys)"

definition js_sort :: "('a \<Rightarrow> 'a \<Rightarrow> int) \<Rightarrow> 'a list \<Rightarrow> 'a list" where
  "js_sort cmp xs = foldr (js_insert cmp) xs []"

lemma set_js_insert [simp]: "set (js_insert cmp x ys) = insert x (set ys)"
  by (induction ys) auto

lemma length_js_insert [simp]: "length (js_insert cmp x ys) = Suc (length ys)"
  by (induction ys) auto

lemma js_sort_simps [simp]:
  "js_sort cmp [] = []"
  "js_sort cmp (x # xs) = js_insert cmp x (js_sort cmp xs)"
  by (simp_all add: js_sort_def)

lemma set_js_sort [simp]: "set (js_sort cmp xs) = set xs"
  by (induction xs) auto

lemma length_js_sort [simp]: "length (js_sort cmp xs) = length xs"
  by (induction xs) auto

lemma js_sort_eq_Nil [simp]: "js_sort cmp xs = [] \<longleftrightarrow> xs = []"
  using length_js_sort [of cmp xs] by (metis length_0_conv)

lemma distinct_js_insert [simp]: "distinct (js_insert cmp x ys) \<longleftrightarrow> x \<notin> set ys \<and> distinct ys"
  by (induction ys) auto

lemma distinct_js_sort [simp]: "distinct (js_sort cmp xs) \<longleftrightarrow> distinct xs"
  by (induction xs) auto

definition total_comparison :: "('a \<Rightarrow> 'a \<Rightarrow> int) \<Rightarrow> bool" where
  "total_comparison cmp \<longleftrightarrow>
     (\<forall>x y. cmp x y \<le> 0 \<or> cmp y x \<le> 0) \<and>
     (\<forall>x y z. cmp x y \<le> 0 \<longrightarrow> cmp y z \<le> 0 \<longrightarrow> cmp x z \<le> 0)"

lemma total_comparison_cases:
  "total_comparison cmp \<Longrightarrow> \<not> cmp x y \<le> 0 \<Longrightarrow> cmp y x \<le> 0"
  by (auto simp: total_comparison_def)

lemma total_comparison_trans:
  "total_comparison cmp \<Longrightarrow> cmp x y \<le> 0 \<Longrightarrow> cmp y z \<le> 0 \<Longrightarrow> cmp x z \<le> 0"
  unfolding total_comparison_def by blast

lemma js_insert_sorted:
  assumes cmp: "total_comparison cmp" and ys: "sorted_wrt (\<lambda>x y. cmp x y \<le> 0) ys"
  shows "sorted_wrt (\<lambda>x y. cmp x y \<le> 0) (js_insert cmp x ys)"
  using ys
proof (induction ys)
  case Nil
  then show ?case by simp
next
  case (Cons y ys)
  then show ?case
    using total_comparison_cases [OF cmp, of x y] total_comparison_trans [OF cmp, of x y] by auto
qed

lemma js_sort_sorted:
  "total_comparison cmp \<Longrightarrow> sorted_wrt (\<lambda>x y. cmp x y \<le> 0) (js_sort cmp xs)"
  by (induction xs) (auto intro: js_insert_sorted)

lemma js_sort_id:
  "sorted_wrt (\<lambda>x y. cmp x y \<le> 0) xs \<Longrightarrow> js_sort cmp xs = xs"
proof (induction xs)
  case Nil
  then show ?case by simp
next
  case (Cons x xs)
  then have "js_sort cmp xs = xs" by simp
  then show ?case using Cons.prems by (cases xs) auto
qed

lemma mset_js_insert [simp]: "mset (js_insert cmp x ys) = add_mset x (mset ys)"
  by (induction ys) auto

lemma mset_js_sort [simp]: "mset (js_sort cmp xs) = mset xs"
  by (induction xs) auto

lemma length_filter_js_sort: "length (filter P (js_sort cmp xs)) = length (filter P xs)"
  by (metis mset_filter mset_js_sort size_mset)

text \<open>A sort by a comparison that separates the elements of the list has one result.\<close>

lemma js_sort_unique:
  assumes cmp: "total_comparison cmp" and "mset xs = mset ys"
    and anti: "\<And>x y. x \<in> set xs \<Longrightarrow> y \<in> set xs \<Longrightarrow> cmp x y \<le> 0 \<Longrightarrow> cmp y x \<le> 0 \<Longrightarrow> x = y"
  shows "js_sort cmp xs = js_sort cmp ys"
proof -
  have uniq: "as = bs" if "sorted_wrt (\<lambda>x y. cmp x y \<le> 0) as" "sorted_wrt (\<lambda>x y. cmp x y \<le> 0) bs"
    "mset as = mset bs" "set as \<subseteq> set xs" for as bs
    using that
  proof (induction as arbitrary: bs)
    case Nil
    then show ?case by simp
  next
    case (Cons a as)
    then obtain b bs' where bs: "bs = b # bs'" by (cases bs) auto
    have sets: "set (a # as) = set (b # bs')" using Cons.prems(3) bs by (metis set_mset_mset)
    have "a = b"
    proof (rule ccontr)
      assume "a \<noteq> b"
      with sets have "b \<in> set as" "a \<in> set bs'" by auto
      with Cons.prems bs have "cmp a b \<le> 0" "cmp b a \<le> 0" by auto
      moreover have "a \<in> set xs" "b \<in> set xs" using Cons.prems(4) \<open>b \<in> set as\<close> by auto
      ultimately show False using anti \<open>a \<noteq> b\<close> by blast
    qed
    moreover have "as = bs'" using Cons.prems bs \<open>a = b\<close> by (intro Cons.IH) auto
    ultimately show ?case using bs by simp
  qed
  show ?thesis
    by (rule uniq) (simp_all add: js_sort_sorted cmp assms(2))
qed

section \<open>Strings\<close>

definition lower_char :: "char \<Rightarrow> char" where
  "lower_char c = (let n = of_char c :: nat in if 65 \<le> n \<and> n \<le> 90 then char_of (n + 32) else c)"

lemma lower_char_code [code]: "lower_char (Char b0 b1 b2 b3 b4 b5 b6 b7) =
    (if \<not> b7 \<and> b6 \<and> \<not> b5 \<and> (b0 \<or> b1 \<or> b2 \<or> b3 \<or> b4) \<and> \<not> (b4 \<and> b3 \<and> (b2 \<or> b1 \<and> b0))
     then Char b0 b1 b2 b3 b4 True b6 b7 else Char b0 b1 b2 b3 b4 b5 b6 b7)"
  by (cases b7; cases b6; cases b5; cases b4; cases b3; cases b2; cases b1; cases b0) (simp_all add: lower_char_def Let_def char_of_def bit_Suc_0_iff)

definition to_lower :: "string \<Rightarrow> string" where
  "to_lower s = map lower_char s"

fun split_on :: "char \<Rightarrow> string \<Rightarrow> string list" where
  "split_on d [] = [[]]"
| "split_on d (c # cs) = (if c = d then [] # split_on d cs
     else (case split_on d cs of [] \<Rightarrow> [[c]] | w # ws \<Rightarrow> (c # w) # ws))"

fun join_with :: "char \<Rightarrow> string list \<Rightarrow> string" where
  "join_with d [] = []"
| "join_with d [w] = w"
| "join_with d (w # ws) = w @ d # join_with d ws"

text \<open>\<open>xs.join(sep)\<close> with a separator of any length.\<close>

fun join_str :: "string \<Rightarrow> string list \<Rightarrow> string" where
  "join_str sep [] = []"
| "join_str sep [x] = x"
| "join_str sep (x # xs) = x @ sep @ join_str sep xs"

lemma length_join_str:
  assumes "\<forall>x \<in> set xs. length x \<le> m"
  shows "length (join_str sep xs) \<le> length xs * (m + length sep)"
  using assms by (induction sep xs rule: join_str.induct) (auto simp: algebra_simps)

lemma split_on_not_Nil [simp]: "split_on d s \<noteq> []"
  by (induction s) (auto split: list.splits)

lemma join_split: "join_with d (split_on d s) = s"
proof (induction s)
  case Nil
  then show ?case by simp
next
  case (Cons c cs)
  obtain w ws where w: "split_on d cs = w # ws"
    by (cases "split_on d cs") auto
  then show ?case using Cons.IH by (cases ws) auto
qed

lemma split_on_no_sep: "w \<in> set (split_on d s) \<Longrightarrow> d \<notin> set w"
  by (induction s arbitrary: w) (auto split: list.splits if_splits)

lemma split_join:
  "ws \<noteq> [] \<Longrightarrow> (\<And>w. w \<in> set ws \<Longrightarrow> d \<notin> set w) \<Longrightarrow> split_on d (join_with d ws) = ws"
proof (induction d ws rule: join_with.induct)
  case (2 d w)
  have "d \<notin> set w \<Longrightarrow> split_on d w = [w]" by (induction w) auto
  with 2 show ?case by simp
next
  case (3 d w v vs)
  have "d \<notin> set w \<Longrightarrow> split_on d (w @ d # r) = w # split_on d r" for r
    by (induction w) auto
  with 3 show ?case by simp
qed simp

fun starts_with :: "string \<Rightarrow> string \<Rightarrow> bool" where
  "starts_with s [] = True"
| "starts_with [] (p # ps) = False"
| "starts_with (c # cs) (p # ps) = (c = p \<and> starts_with cs ps)"

lemma starts_with_iff: "starts_with s p \<longleftrightarrow> (\<exists>r. s = p @ r)"
  by (induction s p rule: starts_with.induct) auto

definition ends_with :: "string \<Rightarrow> string \<Rightarrow> bool" where
  "ends_with s p = starts_with (rev s) (rev p)"

lemma ends_with_iff: "ends_with s p \<longleftrightarrow> (\<exists>r. s = r @ p)"
  by (auto simp: ends_with_def starts_with_iff) (metis rev_append rev_rev_ident)

fun contains :: "string \<Rightarrow> string \<Rightarrow> bool" where
  "contains [] p = (p = [])"
| "contains (c # cs) p = (starts_with (c # cs) p \<or> contains cs p)"

lemma contains_iff: "contains s p \<longleftrightarrow> (\<exists>l r. s = l @ p @ r)"
proof (induction s)
  case Nil
  then show ?case by simp
next
  case (Cons c cs)
  note IH = Cons.IH
  show ?case
  proof
    assume "contains (c # cs) p"
    then show "\<exists>l r. c # cs = l @ p @ r"
    proof (cases "starts_with (c # cs) p")
      case True
      then obtain r where "c # cs = [] @ p @ r" by (auto simp: starts_with_iff)
      then show ?thesis by blast
    next
      case False
      with \<open>contains (c # cs) p\<close> Cons.IH obtain l r where "cs = l @ p @ r" by auto
      then have "c # cs = (c # l) @ p @ r" by simp
      then show ?thesis by blast
    qed
  next
    assume "\<exists>l r. c # cs = l @ p @ r"
    then obtain l r where lr: "c # cs = l @ p @ r" by blast
    then show "contains (c # cs) p"
    proof (cases l)
      case Nil
      with lr have "starts_with (c # cs) p" by (simp add: starts_with_iff)
      then show ?thesis by simp
    next
      case (Cons d l')
      with lr have "cs = l' @ p @ r" by simp
      then have "contains cs p" using IH by blast
      then show ?thesis by simp
    qed
  qed
qed

text \<open>The order of \<open><\<close> on strings: by code unit, a prefix first.\<close>

fun str_less :: "string \<Rightarrow> string \<Rightarrow> bool" where
  "str_less s [] = False"
| "str_less [] (c # cs) = True"
| "str_less (c # cs) (d # ds) =
     ((of_char c :: nat) < of_char d \<or> (c = d \<and> str_less cs ds))"

text \<open>The order of code units on the bits of the characters, for evaluation.\<close>

lemma bit_less: "of_bool a + 2 * x < of_bool b + 2 * y \<longleftrightarrow> x < y \<or> x = y \<and> \<not> a \<and> b" for x y :: nat
  by (cases a; cases b) (simp_all, linarith+)

lemma bit_eq: "of_bool a + 2 * x = of_bool b + 2 * y \<longleftrightarrow> x = y \<and> a = b" for x y :: nat
  by (cases a; cases b) (simp_all, presburger+)

definition char_less :: "char \<Rightarrow> char \<Rightarrow> bool" where
  "char_less c d = ((of_char c :: nat) < of_char d)"

lemma char_less_code [code]: "char_less (Char a0 a1 a2 a3 a4 a5 a6 a7) (Char b0 b1 b2 b3 b4 b5 b6 b7) \<longleftrightarrow>
   \<not> a7 \<and> b7 \<or> a7 = b7 \<and> (\<not> a6 \<and> b6 \<or> a6 = b6 \<and> (\<not> a5 \<and> b5 \<or> a5 = b5 \<and> (\<not> a4 \<and> b4 \<or> a4 = b4 \<and>
   (\<not> a3 \<and> b3 \<or> a3 = b3 \<and> (\<not> a2 \<and> b2 \<or> a2 = b2 \<and> (\<not> a1 \<and> b1 \<or> a1 = b1 \<and> \<not> a0 \<and> b0))))))"
  using bit_less [of a7 0 b7 0] bit_eq [of a7 0 b7 0]
  by (simp only: char_less_def of_char_Char horner_sum_simps bit_less bit_eq mult_0_right add_0_right of_bool_eq_iff) auto

lemma str_less_code [code]:
  "str_less s [] = False" "str_less [] (c # cs) = True"
  "str_less (c # cs) (d # ds) = (if c = d then str_less cs ds else char_less c d)"
  by (auto simp: char_less_def)

definition compare_code_units :: "string \<Rightarrow> string \<Rightarrow> int" where
  "compare_code_units l r = (if str_less l r then - 1 else if str_less r l then 1 else 0)"

lemma str_less_irrefl [simp]: "\<not> str_less s s"
  by (induction s) auto

lemma str_less_linear: "str_less s t \<or> s = t \<or> str_less t s"
proof (induction s t rule: str_less.induct)
  case (1 s)
  then show ?case by (cases s) auto
next
  case (3 c cs d ds)
  have "(of_char c :: nat) < of_char d \<or> c = d \<or> (of_char d :: nat) < of_char c"
    by (metis linorder_less_linear of_char_eq_iff)
  with 3 show ?case by auto
qed simp

lemma str_less_trans: "str_less s t \<Longrightarrow> str_less t u \<Longrightarrow> str_less s u"
proof (induction s t arbitrary: u rule: str_less.induct)
  case (3 c cs d ds)
  then show ?case by (cases u) auto
next
  case (2 c cs)
  then show ?case by (cases u) auto
qed simp

lemma str_less_asym: "str_less s t \<Longrightarrow> \<not> str_less t s"
  using str_less_trans str_less_irrefl by blast

lemma compare_code_units_le: "compare_code_units s t \<le> 0 \<longleftrightarrow> s = t \<or> str_less s t"
  unfolding compare_code_units_def using str_less_linear str_less_asym by auto

lemma total_comparison_code_units: "total_comparison compare_code_units"
  unfolding total_comparison_def compare_code_units_le
  using str_less_linear str_less_trans by blast

lemma compare_code_units_antisym:
  "compare_code_units s t \<le> 0 \<Longrightarrow> compare_code_units t s \<le> 0 \<Longrightarrow> s = t"
  using str_less_asym by (auto simp: compare_code_units_le)

definition sort_strings :: "string list \<Rightarrow> string list" where
  "sort_strings = js_sort compare_code_units"

lemma mset_sort_strings [simp]: "mset (sort_strings xs) = mset xs"
  by (simp add: sort_strings_def)

section \<open>Character classes of the regular expressions\<close>

definition lower_hex :: "char \<Rightarrow> bool" where
  [char_class]: "lower_hex c = (c \<in> set ''0123456789abcdef'')"

definition alnum :: "char \<Rightarrow> bool" where
  [char_class]: "alnum c =
     (c \<in> set ''0123456789ABCDEFGHIJKLMNOPQRSTUVWXYZabcdefghijklmnopqrstuvwxyz'')"

text \<open>The same classes on the bits of a character, for evaluation.\<close>

lemma lower_hex_code [code]: "lower_hex (Char b0 b1 b2 b3 b4 b5 b6 b7) \<longleftrightarrow> \<not> b7 \<and> b5 \<and>
    (if b6 then \<not> b4 \<and> \<not> b3 \<and> (b0 \<or> b1 \<or> b2) \<and> \<not> (b0 \<and> b1 \<and> b2) else b4 \<and> \<not> (b3 \<and> (b1 \<or> b2)))"
  by (cases b7; cases b6; cases b5; cases b4; cases b3; cases b2; cases b1; cases b0) (simp_all add: lower_hex_def)

lemma alnum_code [code]: "alnum (Char b0 b1 b2 b3 b4 b5 b6 b7) \<longleftrightarrow> \<not> b7 \<and>
    (if b6 then (b0 \<or> b1 \<or> b2 \<or> b3 \<or> b4) \<and> \<not> (b4 \<and> b3 \<and> (b2 \<or> b1 \<and> b0)) else b5 \<and> b4 \<and> \<not> (b3 \<and> (b1 \<or> b2)))"
  by (cases b7; cases b6; cases b5; cases b4; cases b3; cases b2; cases b1; cases b0) (simp_all add: alnum_def)

definition id_char :: "char \<Rightarrow> bool" where
  [char_class]: "id_char c = (alnum c \<or> c = CHR ''_'' \<or> c = CHR ''-'')"

definition is_hex :: "nat \<Rightarrow> string \<Rightarrow> bool" where
  "is_hex n s = (length s = n \<and> list_all lower_hex s)"

abbreviation is_hash :: "string \<Rightarrow> bool" where "is_hash s \<equiv> is_hex 64 s"
abbreviation is_git_sha :: "string \<Rightarrow> bool" where "is_git_sha s \<equiv> is_hex 40 s"

lemma is_hex_replicate [simp]: "is_hex n (replicate m c) \<longleftrightarrow> m = n \<and> (m = 0 \<or> lower_hex c)"
  by (auto simp: is_hex_def list_all_iff)

definition bounded_length :: "nat \<Rightarrow> nat \<Rightarrow> string \<Rightarrow> bool" where
  "bounded_length lo hi s = (lo \<le> length s \<and> length s \<le> hi)"

text \<open>\<open>tagged_id p lo hi\<close> is the regular expression \<open>^p[A-Za-z0-9_-]{lo,hi}$\<close>.\<close>

definition tagged_id :: "string \<Rightarrow> nat \<Rightarrow> nat \<Rightarrow> string \<Rightarrow> bool" where
  "tagged_id p lo hi s = (starts_with s p \<and>
     (let r = drop (length p) s in bounded_length lo hi r \<and> list_all id_char r))"

text \<open>\<open>lead_class first rest hi\<close> is \<open>^[first][rest]{0,hi}$\<close>.\<close>

definition lead_class :: "(char \<Rightarrow> bool) \<Rightarrow> (char \<Rightarrow> bool) \<Rightarrow> nat \<Rightarrow> string \<Rightarrow> bool" where
  "lead_class first rest hi s = (case s of [] \<Rightarrow> False
     | c # cs \<Rightarrow> first c \<and> length cs \<le> hi \<and> list_all rest cs)"

text \<open>Array and nullable schemas: \<open>z.array(P).min(lo).max(hi)\<close> and \<open>P.nullable()\<close>.\<close>

definition list_between :: "nat \<Rightarrow> nat \<Rightarrow> ('a \<Rightarrow> bool) \<Rightarrow> 'a list \<Rightarrow> bool" where
  "list_between lo hi P xs = (list_all P xs \<and> lo \<le> length xs \<and> length xs \<le> hi)"

definition opt_all :: "('a \<Rightarrow> bool) \<Rightarrow> 'a option \<Rightarrow> bool" where
  "opt_all P x = (case x of None \<Rightarrow> True | Some v \<Rightarrow> P v)"

text \<open>A constant hash, to instantiate hash parameters on concrete inputs.\<close>

definition const_hash :: "char \<Rightarrow> 'a \<Rightarrow> string" where
  "const_hash c x = replicate 64 c"

lemma is_hash_const [simp]: "is_hash (const_hash c x) \<longleftrightarrow> lower_hex c"
  by (simp add: const_hash_def)

section \<open>Numbers\<close>

definition max_safe_integer :: int where
  "max_safe_integer = 9007199254740991"

definition safe_int :: "int \<Rightarrow> bool" where
  "safe_int n = (\<bar>n\<bar> \<le> max_safe_integer)"

definition int_between :: "int \<Rightarrow> int \<Rightarrow> int \<Rightarrow> bool" where
  "int_between lo hi n = (lo \<le> n \<and> n \<le> hi)"

text \<open>\<open>Math.round\<close> of a quotient of integers: to nearest, a half towards plus infinity.\<close>

definition round_div :: "int \<Rightarrow> int \<Rightarrow> int" where
  "round_div a b = (2 * a + b) div (2 * b)"

lemma round_div_bounds:
  assumes "0 < b"
  shows "2 * b * round_div a b \<le> 2 * a + b" and "2 * a + b < 2 * b * round_div a b + 2 * b"
proof -
  have "(2 * a + b) = 2 * b * ((2 * a + b) div (2 * b)) + (2 * a + b) mod (2 * b)" by simp
  moreover have "0 \<le> (2 * a + b) mod (2 * b)" and "(2 * a + b) mod (2 * b) < 2 * b"
    using assms by simp_all
  ultimately show "2 * b * round_div a b \<le> 2 * a + b" and "2 * a + b < 2 * b * round_div a b + 2 * b"
    unfolding round_div_def by linarith+
qed

lemma round_div_mono: "0 < b \<Longrightarrow> a \<le> a' \<Longrightarrow> round_div a b \<le> round_div a' b"
  by (simp add: round_div_def zdiv_mono1)

lemma round_div_exact [simp]: "0 < b \<Longrightarrow> round_div (b * k) b = k"
proof -
  assume b: "0 < b"
  have "(2 * (b * k) + b) div (2 * b) = k"
    using b by (intro int_div_pos_eq [of _ _ _ b]) (simp_all add: algebra_simps)
  then show ?thesis by (simp add: round_div_def)
qed

text \<open>\<open>String(n)\<close> for an integer.\<close>

fun nat_digits :: "nat \<Rightarrow> string" where
  "nat_digits n = (if n < 10 then [char_of (48 + n)] else nat_digits (n div 10) @ [char_of (48 + n mod 10)])"

declare nat_digits.simps [simp del]

definition decimal :: "int \<Rightarrow> string" where
  "decimal n = (if n < 0 then CHR ''-'' # nat_digits (nat (- n)) else nat_digits (nat n))"

lemma nat_digits_not_Nil [simp]: "nat_digits n \<noteq> []"
  by (subst nat_digits.simps) simp

lemma length_nat_digits: "n < 10 ^ Suc k \<Longrightarrow> length (nat_digits n) \<le> Suc k"
proof (induction k arbitrary: n)
  case 0
  then show ?case by (subst nat_digits.simps) simp
next
  case (Suc k)
  show ?case
  proof (cases "n < 10")
    case True
    then show ?thesis by (subst nat_digits.simps) simp
  next
    case False
    have "n div 10 < 10 ^ Suc k" using Suc.prems by (simp add: div_less_iff_less_mult)
    from Suc.IH [OF this] False show ?thesis by (subst nat_digits.simps) simp
  qed
qed

lemma length_decimal: "0 \<le> n \<Longrightarrow> n < 10 ^ Suc k \<Longrightarrow> length (decimal n) \<le> Suc k"
  using length_nat_digits [of "nat n" k] by (simp add: decimal_def nat_less_iff)

lemma notin_map_neq: "y \<notin> set (map f xs) \<Longrightarrow> x \<in> set xs \<Longrightarrow> f x \<noteq> y"
  by auto

lemma int_dup_free_size: "distinct xs \<longleftrightarrow> card (set xs) = length xs"
  by (metis card_distinct distinct_card)

end
