(* ===== verification/Idempotency.thy ===== *)
theory Idempotency
  imports JS_Lib
begin

text \<open>
  Request idempotency (\<open>src/runtime/request-idempotency.ts\<close>): the index from request identifiers to
  the hash of the accepted request and its run. The locale \<open>request_registry\<close> is the contract the
  broker's reducer relies on; its lemmas (registered identities never change, a retry returns the
  first run, a conflicting retry is refused) are interpreted on \<open>registerRequestV4\<close>.

  The index is a plain object, so a lookup also finds the members of \<open>Object.prototype\<close>; such a
  key is answered by a function without a \<open>request_hash\<close>, which the code reports as a conflict.
\<close>

record request_identity =
  ri_request_hash :: string
  ri_run_id :: string

type_synonym request_index = "string \<rightharpoonup> request_identity"

record request_registration =
  rg_index :: request_index
  rg_run_id :: string
  rg_created :: bool

definition registerRequestV4 ::
    "request_index \<Rightarrow> string \<Rightarrow> string \<Rightarrow> string \<Rightarrow> request_registration result" where
  "registerRequestV4 index requestId requestHash runId =
     (case js_get index requestId of
        Own existing \<Rightarrow>
          throw_if (ri_request_hash existing \<noteq> requestHash)
            (Error INVALID_CONTRACT ''request_id was already used for different canonical bytes'')
            (Inr \<lparr>rg_index = index, rg_run_id = ri_run_id existing, rg_created = False\<rparr>)
      | Inherited \<Rightarrow>
          Inl (Error INVALID_CONTRACT ''request_id was already used for different canonical bytes'')
      | Absent \<Rightarrow>
          Inr \<lparr>rg_index = index(requestId \<mapsto> \<lparr>ri_request_hash = requestHash, ri_run_id = runId\<rparr>),
               rg_run_id = runId, rg_created = True\<rparr>)"

record request_record =
  rq_request_id :: string
  rq_request_hash :: string
  rq_run_id :: string

definition replayRequestStep :: "request_index \<Rightarrow> request_record \<Rightarrow> request_index result" where
  "replayRequestStep index rc =
     throw_if
       (case js_get index (rq_request_id rc) of
          Own existing \<Rightarrow> ri_request_hash existing \<noteq> rq_request_hash rc \<or> ri_run_id existing \<noteq> rq_run_id rc
        | Inherited \<Rightarrow> True
        | Absent \<Rightarrow> False)
       (Error BROKER_STATE_CORRUPT ''request_id has conflicting accepted records'')
       (bindR (registerRequestV4 index (rq_request_id rc) (rq_request_hash rc) (rq_run_id rc))
          (\<lambda>reg. Inr (rg_index reg)))"

definition replayRequestIndexV4 :: "request_record list \<Rightarrow> request_index result" where
  "replayRequestIndexV4 records = foldR replayRequestStep Map.empty records"

section \<open>The registry contract\<close>

locale request_registry =
  fixes lookup :: "'i \<Rightarrow> string \<Rightarrow> (string \<times> string) option"
    and register :: "'i \<Rightarrow> string \<Rightarrow> string \<Rightarrow> string \<Rightarrow> 'e + ('i \<times> string \<times> bool)"
  assumes register_new: "register i k h r = Inr (i', r', True) \<Longrightarrow>
      lookup i k = None \<and> r' = r \<and> lookup i' k = Some (h, r)"
    and register_old: "register i k h r = Inr (i', r', False) \<Longrightarrow>
      i' = i \<and> lookup i k = Some (h, r')"
    and register_frame: "register i k h r = Inr (i', r', b) \<Longrightarrow> q \<noteq> k \<Longrightarrow> lookup i' q = lookup i q"
    and register_known: "lookup i k = Some (h, r) \<Longrightarrow> register i k h r2 = Inr (i, r, False)"
    and register_conflict: "lookup i k = Some (h', r) \<Longrightarrow> h' \<noteq> h \<Longrightarrow> \<exists>e. register i k h r2 = Inl e"
begin

lemma registered: "register i k h r = Inr (i', r', b) \<Longrightarrow> lookup i' k = Some (h, r')"
  by (cases b) (auto dest: register_new register_old)

lemma lookup_stable:
  assumes "register i k h r = Inr (i', r', b)" and "lookup i q = Some v"
  shows "lookup i' q = Some v"
proof (cases b)
  case True
  with assms(1) have "register i k h r = Inr (i', r', True)" by simp
  from register_new [OF this] have "lookup i k = None" by (rule conjunct1)
  with assms(2) have "q \<noteq> k" by (metis option.distinct(1))
  from register_frame [OF assms(1) this] assms(2) show ?thesis by (rule trans)
next
  case False
  with assms(1) have "register i k h r = Inr (i', r', False)" by simp
  from register_old [OF this] have "i' = i" by (rule conjunct1)
  with assms(2) show ?thesis by (simp only:)
qed

lemma retry_returns_first:
  "register i k h r = Inr (i', r', b) \<Longrightarrow> register i' k h r2 = Inr (i', r', False)"
  by (rule register_known) (rule registered)

lemma conflict_refused:
  assumes "register i k h r = Inr (i', r', b)" and "h2 \<noteq> h"
  shows "\<exists>e. register i' k h2 r2 = Inl e"
  by (rule register_conflict [OF registered [OF assms(1)] assms(2) [symmetric]])

lemma retry_after_history:
  assumes "register i k h r = Inr (i', r', b)"
    and "foldR (\<lambda>j (q, g, s). bindR (register j q g s) (\<lambda>(j', _, _). Inr j')) i' ops = Inr j"
  shows "register j k h r2 = Inr (j, r', False)"
proof -
  have "lookup j k = Some (h, r')"
    using assms(2)
  proof (rule foldR_invariant [where P = "\<lambda>j. lookup j k = Some (h, r')"])
    show "lookup i' k = Some (h, r')" by (rule registered [OF assms(1)])
  qed (auto split: prod.splits dest: lookup_stable)
  then show ?thesis by (rule register_known)
qed

end

definition index_lookup :: "request_index \<Rightarrow> string \<Rightarrow> (string \<times> string) option" where
  "index_lookup index k = map_option (\<lambda>v. (ri_request_hash v, ri_run_id v)) (index k)"

definition index_register ::
    "request_index \<Rightarrow> string \<Rightarrow> string \<Rightarrow> string \<Rightarrow> error + (request_index \<times> string \<times> bool)" where
  "index_register index k h r = bindR (registerRequestV4 index k h r)
     (\<lambda>reg. Inr (rg_index reg, rg_run_id reg, rg_created reg))"

lemma registerRequest_created:
  "registerRequestV4 index k h r = Inr reg \<Longrightarrow> rg_created reg \<Longrightarrow>
   index k = None \<and> rg_run_id reg = r \<and>
   rg_index reg = index(k \<mapsto> \<lparr>ri_request_hash = h, ri_run_id = r\<rparr>)"
  by (auto simp: registerRequestV4_def js_get_def split: option.splits if_splits)

lemma registerRequest_existing:
  "registerRequestV4 index k h r = Inr reg \<Longrightarrow> \<not> rg_created reg \<Longrightarrow>
   rg_index reg = index \<and> index k = Some \<lparr>ri_request_hash = h, ri_run_id = rg_run_id reg\<rparr>"
  by (auto simp: registerRequestV4_def js_get_def split: option.splits if_splits)

lemma registerRequest_known:
  "index k = Some \<lparr>ri_request_hash = h, ri_run_id = r\<rparr> \<Longrightarrow>
   registerRequestV4 index k h r2 = Inr \<lparr>rg_index = index, rg_run_id = r, rg_created = False\<rparr>"
  by (simp add: registerRequestV4_def js_get_def)

interpretation requests: request_registry index_lookup index_register
proof unfold_locales
  fix i k h r i' r'
  assume "index_register i k h r = Inr (i', r', True)"
  then show "index_lookup i k = None \<and> r' = r \<and> index_lookup i' k = Some (h, r)"
    by (auto simp: index_register_def index_lookup_def dest: registerRequest_created)
next
  fix i k h r i' r'
  assume "index_register i k h r = Inr (i', r', False)"
  then show "i' = i \<and> index_lookup i k = Some (h, r')"
    by (auto simp: index_register_def index_lookup_def dest: registerRequest_existing)
next
  fix i k h r i' r' b and q :: string
  assume "index_register i k h r = Inr (i', r', b)" "q \<noteq> k"
  then show "index_lookup i' q = index_lookup i q"
    by (cases b) (auto simp: index_register_def index_lookup_def
        dest: registerRequest_created registerRequest_existing)
next
  fix i k h r r2
  assume "index_lookup i k = Some (h, r)"
  then have "i k = Some \<lparr>ri_request_hash = h, ri_run_id = r\<rparr>"
    by (auto simp: index_lookup_def)
  then show "index_register i k h r2 = Inr (i, r, False)"
    by (simp add: index_register_def registerRequest_known)
next
  fix i k h h' r r2
  assume "index_lookup i k = Some (h', r)" "h' \<noteq> h"
  then show "\<exists>e. index_register i k h r2 = Inl e"
    by (auto simp: index_lookup_def index_register_def registerRequestV4_def js_get_def throw_if_def)
qed

lemma replayRequestStep_registers:
  assumes "replayRequestStep index rc = Inr index'"
  shows "index' (rq_request_id rc) =
      Some \<lparr>ri_request_hash = rq_request_hash rc, ri_run_id = rq_run_id rc\<rparr>"
    and "index (rq_request_id rc) \<in>
      {None, Some \<lparr>ri_request_hash = rq_request_hash rc, ri_run_id = rq_run_id rc\<rparr>}"
    and "q \<noteq> rq_request_id rc \<Longrightarrow> index' q = index q"
  using assms
  by (auto simp: replayRequestStep_def registerRequestV4_def js_get_def split: option.splits if_splits)

lemma replayRequestStep_keeps:
  assumes "replayRequestStep index rc = Inr index'" and "index q = Some v"
  shows "index' q = Some v"
  using replayRequestStep_registers [OF assms(1)] assms(2) by (cases "q = rq_request_id rc") auto

lemma replayRequestIndex_complete:
  assumes "foldR replayRequestStep index rs = Inr index'" and "rc \<in> set rs"
  shows "index' (rq_request_id rc) =
    Some \<lparr>ri_request_hash = rq_request_hash rc, ri_run_id = rq_run_id rc\<rparr>"
proof -
  obtain as bs where rs: "rs = (as @ [rc]) @ bs"
    using assms(2) by (metis append.assoc append_Cons append_Nil split_list)
  then obtain u where u: "foldR replayRequestStep index (as @ [rc]) = Inr u"
    and rest: "foldR replayRequestStep u bs = Inr index'"
    using assms(1) by (metis foldR_prefix)
  show ?thesis
    by (rule foldR_invariant [OF rest, where P = "\<lambda>m. m (rq_request_id rc) =
          Some \<lparr>ri_request_hash = rq_request_hash rc, ri_run_id = rq_run_id rc\<rparr>"])
      (use u in \<open>auto simp: foldR_snoc replayRequestStep_registers(1) dest: replayRequestStep_keeps\<close>)
qed

end
