(* ===== verification/JS_Date.thy ===== *)
theory JS_Date
  imports JS_Lib
begin

text \<open>
  The \<open>Date\<close> operations the source uses, as ECMAScript defines them on the proleptic Gregorian
  calendar: \<open>MakeDay\<close>, \<open>YearFromTime\<close>, \<open>MonthFromTime\<close>, \<open>DateFromTime\<close>, the time within the day,
  \<open>toISOString\<close> and the parse of its output. Times are integers in milliseconds since 1970; a
  month is counted from 0. The lemmas show that the getters invert the setters on every date, that
  \<open>toISOString\<close> is inverted by the parse, and how the order of two times follows from their fields.
\<close>

section \<open>Years, months and days\<close>

definition is_leap :: "int \<Rightarrow> bool" where
  "is_leap y = ((y mod 4 = 0 \<and> y mod 100 \<noteq> 0) \<or> y mod 400 = 0)"

definition days_in_year :: "int \<Rightarrow> int" where
  "days_in_year y = (if is_leap y then 366 else 365)"

definition days_before_year :: "int \<Rightarrow> int" where
  "days_before_year y = 365 * y + ((y + 3) div 4 - (y + 99) div 100 + (y + 399) div 400)"

definition day_from_year :: "int \<Rightarrow> int" where
  "day_from_year y = days_before_year y - 719528"

text \<open>The day of the year a month starts on, with \<open>month_start y 12\<close> the length of the year.\<close>

definition month_start :: "int \<Rightarrow> int \<Rightarrow> int" where
  "month_start y m =
     (if m \<le> 0 then 0
      else if m = 1 then 31
      else (if is_leap y then 1 else 0) +
        (if m = 2 then 59 else if m = 3 then 90 else if m = 4 then 120 else if m = 5 then 151
         else if m = 6 then 181 else if m = 7 then 212 else if m = 8 then 243
         else if m = 9 then 273 else if m = 10 then 304 else if m = 11 then 334 else 365))"

definition days_in_month :: "int \<Rightarrow> int \<Rightarrow> int" where
  "days_in_month y m = month_start y (m + 1) - month_start y m"

definition make_day :: "int \<Rightarrow> int \<Rightarrow> int \<Rightarrow> int" where
  "make_day y m d =
     (let ym = y + m div 12; mn = m mod 12 in day_from_year ym + month_start ym mn + d - 1)"

definition year_from_day :: "int \<Rightarrow> int" where
  "year_from_day n =
     (let y = (400 * (n + 719528)) div 146097
      in if n < day_from_year y then y - 1
         else if day_from_year (y + 1) \<le> n then y + 1 else y)"

definition month_in_year :: "int \<Rightarrow> int \<Rightarrow> int" where
  "month_in_year y k =
     (if k < month_start y 1 then 0 else if k < month_start y 2 then 1
      else if k < month_start y 3 then 2 else if k < month_start y 4 then 3
      else if k < month_start y 5 then 4 else if k < month_start y 6 then 5
      else if k < month_start y 7 then 6 else if k < month_start y 8 then 7
      else if k < month_start y 9 then 8 else if k < month_start y 10 then 9
      else if k < month_start y 11 then 10 else 11)"

definition month_from_day :: "int \<Rightarrow> int" where
  "month_from_day n = (let y = year_from_day n in month_in_year y (n - day_from_year y))"

definition date_from_day :: "int \<Rightarrow> int" where
  "date_from_day n = (let y = year_from_day n
     in n - day_from_year y - month_start y (month_from_day n) + 1)"

lemma div_mult_bounds:
  fixes a b :: int
  assumes "0 < b"
  shows "b * (a div b) \<le> a \<and> a < b * (a div b) + b"
proof -
  have "a = b * (a div b) + a mod b" by simp
  moreover have "0 \<le> a mod b" "a mod b < b" using assms by simp_all
  ultimately show ?thesis by linarith
qed

lemma days_before_next_multiple:
  fixes y k :: int
  assumes "0 < k"
  shows "(y + k) div k = (y + (k - 1)) div k + (if y mod k = 0 then 1 else 0)"
proof -
  define q r where "q = y div k" and "r = y mod k"
  have y: "y = k * q + r" and r: "0 \<le> r" "r < k"
    using assms by (simp_all add: q_def r_def)
  have up: "(y + k) div k = q + 1"
    using r by (intro int_div_pos_eq [of _ _ _ r]) (simp_all add: y algebra_simps)
  have "(y + (k - 1)) div k = q + (if r = 0 then 0 else 1)"
  proof (cases "r = 0")
    case True
    then show ?thesis
      using assms by (intro int_div_pos_eq [of _ _ _ "k - 1"]) (simp_all add: y)
  next
    case False
    then show ?thesis
      using r by (intro int_div_pos_eq [of _ _ _ "r - 1"]) (simp_all add: y algebra_simps)
  qed
  with up show ?thesis by (simp add: r_def)
qed

lemma days_before_year_Suc: "days_before_year (y + 1) = days_before_year y + days_in_year y"
proof -
  have 4: "(y + 1 + 3) div 4 = (y + 3) div 4 + (if y mod 4 = 0 then 1 else 0)"
    using days_before_next_multiple [of 4 y] by (simp add: add.assoc)
  have 100: "(y + 1 + 99) div 100 = (y + 99) div 100 + (if y mod 100 = 0 then 1 else 0)"
    using days_before_next_multiple [of 100 y] by (simp add: add.assoc)
  have 400: "(y + 1 + 399) div 400 = (y + 399) div 400 + (if y mod 400 = 0 then 1 else 0)"
    using days_before_next_multiple [of 400 y] by (simp add: add.assoc)
  have "y mod 400 = 0 \<Longrightarrow> y mod 100 = 0" and "y mod 100 = 0 \<Longrightarrow> y mod 4 = 0"
    by presburger+
  then show ?thesis
    unfolding days_before_year_def days_in_year_def is_leap_def 4 100 400 by auto
qed

lemma day_from_year_Suc: "day_from_year (y + 1) = day_from_year y + days_in_year y"
  by (simp add: day_from_year_def days_before_year_Suc)

lemma days_in_year_pos [simp]: "0 < days_in_year y"
  by (simp add: days_in_year_def)

lemma day_from_year_mono: "x \<le> y \<Longrightarrow> day_from_year x \<le> day_from_year y"
proof (induction y rule: int_ge_induct)
  case (step i)
  then show ?case unfolding day_from_year_Suc using days_in_year_pos [of i] by linarith
qed simp

lemma days_before_year_bounds:
  "146097 * y - 396 \<le> 400 * days_before_year y" "400 * days_before_year y \<le> 146097 * y + 699"
proof -
  define p q r where "p = (y + 3) div 4" and "q = (y + 99) div 100" and "r = (y + 399) div 400"
  have "4 * p \<le> y + 3" "y + 3 < 4 * p + 4" "100 * q \<le> y + 99" "y + 99 < 100 * q + 100"
    "400 * r \<le> y + 399" "y + 399 < 400 * r + 400"
    using div_mult_bounds [of 4 "y + 3"] div_mult_bounds [of 100 "y + 99"]
      div_mult_bounds [of 400 "y + 399"] by (simp_all add: p_def q_def r_def)
  moreover have "days_before_year y = 365 * y + (p - q + r)"
    by (simp add: days_before_year_def p_def q_def r_def)
  ultimately show "146097 * y - 396 \<le> 400 * days_before_year y"
    "400 * days_before_year y \<le> 146097 * y + 699" by linarith+
qed

lemma year_from_day_eq:
  assumes lo: "day_from_year y \<le> n" and hi: "n < day_from_year (y + 1)"
  shows "year_from_day n = y"
proof -
  define e where "e = (400 * (n + 719528)) div 146097"
  have e: "146097 * e \<le> 400 * (n + 719528)" "400 * (n + 719528) < 146097 * e + 146097"
    using div_mult_bounds [of 146097 "400 * (n + 719528)"] by (simp_all add: e_def)
  have "146097 * y - 396 \<le> 400 * (n + 719528)"
    using days_before_year_bounds(1) [of y] lo by (simp add: day_from_year_def)
  then have "y < e + 2" using e by linarith
  have "400 * (n + 719528) \<le> 146097 * (y + 1) + 299"
    using days_before_year_bounds(2) [of "y + 1"] hi by (simp add: day_from_year_def)
  with e(1) have "146097 * e \<le> 146097 * (y + 1) + 299" by (rule order_trans)
  then have "146097 * e < 146097 * (y + 2)" by (simp add: algebra_simps)
  then have "e < y + 2" by simp
  with \<open>y < e + 2\<close> have "e = y - 1 \<or> e = y \<or> e = y + 1" by arith
  moreover have "day_from_year (y - 1) \<le> n"
    using day_from_year_mono [of "y - 1" y] lo by simp
  moreover have "year_from_day n = (if n < day_from_year e then e - 1
      else if day_from_year (e + 1) \<le> n then e + 1 else e)"
    unfolding year_from_day_def Let_def e_def ..
  ultimately show ?thesis using lo hi by auto
qed

lemma year_from_day_bounds:
  "day_from_year (year_from_day n) \<le> n \<and> n < day_from_year (year_from_day n + 1)"
proof -
  define e where "e = (400 * (n + 719528)) div 146097"
  have e: "146097 * e \<le> 400 * (n + 719528)" "400 * (n + 719528) < 146097 * e + 146097"
    using div_mult_bounds [of 146097 "400 * (n + 719528)"] by (simp_all add: e_def)
  have "day_from_year (e - 1) \<le> n"
    using days_before_year_bounds(2) [of "e - 1"] e by (simp add: day_from_year_def)
  moreover have "n < day_from_year (e + 1 + 1)"
    using days_before_year_bounds(1) [of "e + 1 + 1"] e by (simp add: day_from_year_def)
  moreover have "year_from_day n = (if n < day_from_year e then e - 1
      else if day_from_year (e + 1) \<le> n then e + 1 else e)"
    unfolding year_from_day_def Let_def e_def ..
  ultimately show ?thesis by auto
qed

lemma month_start_12: "month_start y 12 = days_in_year y"
  by (simp add: month_start_def days_in_year_def)

lemma month_cases:
  assumes "0 \<le> m" and "m < (12::int)"
  shows "m \<in> {0, 1, 2, 3, 4, 5, 6, 7, 8, 9, 10, 11}"
  unfolding insert_iff empty_iff using assms by presburger

lemma days_in_month_bounds:
  assumes "0 \<le> m" and "m < 12"
  shows "28 \<le> days_in_month y m \<and> days_in_month y m \<le> 31"
  using month_cases [OF assms] by (cases "is_leap y") (auto simp: days_in_month_def month_start_def)

lemma month_in_year_eq:
  assumes m: "0 \<le> m" "m < 12" and k: "month_start y m \<le> k" "k < month_start y (m + 1)"
  shows "month_in_year y k = m"
  using month_cases [OF m] k by (cases "is_leap y") (auto simp: month_in_year_def month_start_def)

lemma month_in_year_bounds:
  assumes "0 \<le> k" and "k < days_in_year y"
  shows "0 \<le> month_in_year y k \<and> month_in_year y k < 12
    \<and> month_start y (month_in_year y k) \<le> k \<and> k < month_start y (month_in_year y k + 1)"
  using assms by (cases "is_leap y") (simp_all add: month_in_year_def month_start_def days_in_year_def)

lemma month_start_le_year:
  assumes "0 \<le> m" and "m < 12"
  shows "0 \<le> month_start y m \<and> month_start y (m + 1) \<le> days_in_year y"
  using month_cases [OF assms] by (cases "is_leap y") (auto simp: month_start_def days_in_year_def)

text \<open>The getters invert the setters: every calendar date is read back as it was set.\<close>

lemma make_day_fields:
  assumes m: "0 \<le> m" "m < 12" and d: "1 \<le> d" "d \<le> days_in_month y m"
  shows "year_from_day (make_day y m d) = y"
    and "month_from_day (make_day y m d) = m"
    and "date_from_day (make_day y m d) = d"
proof -
  have n: "make_day y m d = day_from_year y + (month_start y m + d - 1)"
    using m by (simp add: make_day_def)
  have k: "month_start y m \<le> month_start y m + d - 1" "month_start y m + d - 1 < month_start y (m + 1)"
    using d by (simp_all add: days_in_month_def)
  show y: "year_from_day (make_day y m d) = y"
    using month_start_le_year [OF m, of y] k
    by (intro year_from_day_eq) (simp_all add: n day_from_year_Suc)
  show mm: "month_from_day (make_day y m d) = m"
    using month_in_year_eq [OF m k] by (simp add: month_from_day_def Let_def y) (simp add: n)
  show "date_from_day (make_day y m d) = d"
    by (simp add: date_from_day_def Let_def y mm) (simp add: n)
qed

lemma day_fields_bounds:
  "0 \<le> month_from_day n \<and> month_from_day n < 12
    \<and> 1 \<le> date_from_day n \<and> date_from_day n \<le> days_in_month (year_from_day n) (month_from_day n)"
proof -
  let ?y = "year_from_day n"
  have "0 \<le> n - day_from_year ?y" "n - day_from_year ?y < days_in_year ?y"
    using year_from_day_bounds [of n] by (simp_all add: day_from_year_Suc)
  from month_in_year_bounds [OF this] show ?thesis
    by (simp add: month_from_day_def date_from_day_def days_in_month_def Let_def)
qed

lemma make_day_inverse:
  "make_day (year_from_day n) (month_from_day n) (date_from_day n) = n"
  using day_fields_bounds [of n] by (simp add: make_day_def date_from_day_def Let_def)

section \<open>Times\<close>

definition ms_per_day :: int where
  "ms_per_day = 86400000"

definition make_time :: "int \<Rightarrow> int \<Rightarrow> int \<Rightarrow> int \<Rightarrow> int" where
  "make_time h mi s ms = ((h * 60 + mi) * 60 + s) * 1000 + ms"

definition make_date :: "int \<Rightarrow> int \<Rightarrow> int" where
  "make_date day time = day * ms_per_day + time"

definition hours_of :: "int \<Rightarrow> int" where
  "hours_of t = (t mod ms_per_day) div 3600000"

definition minutes_of :: "int \<Rightarrow> int" where
  "minutes_of t = (t div 60000) mod 60"

definition seconds_of :: "int \<Rightarrow> int" where
  "seconds_of t = (t div 1000) mod 60"

definition millis_of :: "int \<Rightarrow> int" where
  "millis_of t = t mod 1000"

definition max_time :: int where
  "max_time = 8640000000000000"

definition finite_time :: "int \<Rightarrow> bool" where
  "finite_time t = (\<bar>t\<bar> \<le> max_time)"

definition valid_clock :: "int \<Rightarrow> int \<Rightarrow> int \<Rightarrow> int \<Rightarrow> bool" where
  "valid_clock h mi s ms =
     (int_between 0 23 h \<and> int_between 0 59 mi \<and> int_between 0 59 s \<and> int_between 0 999 ms)"

lemma make_time_bounds:
  "valid_clock h mi s ms \<Longrightarrow> 0 \<le> make_time h mi s ms \<and> make_time h mi s ms < ms_per_day"
  by (auto simp: valid_clock_def int_between_def make_time_def ms_per_day_def)

lemma make_date_day:
  assumes "valid_clock h mi s ms"
  shows "make_date day (make_time h mi s ms) div ms_per_day = day"
    and "make_date day (make_time h mi s ms) mod ms_per_day = make_time h mi s ms"
  using make_time_bounds [OF assms] by (simp_all add: make_date_def ms_per_day_def)

lemma make_time_fields:
  assumes "valid_clock h mi s ms"
  shows "hours_of (make_date day (make_time h mi s ms)) = h"
    and "minutes_of (make_date day (make_time h mi s ms)) = mi"
    and "seconds_of (make_date day (make_time h mi s ms)) = s"
    and "millis_of (make_date day (make_time h mi s ms)) = ms"
proof -
  have b: "0 \<le> h" "h \<le> 23" "0 \<le> mi" "mi \<le> 59" "0 \<le> s" "s \<le> 59" "0 \<le> ms" "ms \<le> 999"
    using assms by (simp_all add: valid_clock_def int_between_def)
  let ?t = "make_date day (make_time h mi s ms)"
  have t: "?t = day * 86400000 + h * 3600000 + mi * 60000 + s * 1000 + ms"
    unfolding make_date_def make_time_def ms_per_day_def by (simp add: algebra_simps)
  have "make_time h mi s ms = 3600000 * h + (mi * 60000 + s * 1000 + ms)"
    unfolding make_time_def by (simp add: algebra_simps)
  then show "hours_of ?t = h"
    unfolding hours_of_def make_date_day(2) [OF assms]
    by (rule int_div_pos_eq) (use b in linarith)+
  have "?t = 60000 * (day * 1440 + h * 60 + mi) + (s * 1000 + ms)"
    unfolding t by simp
  then have "?t div 60000 = day * 1440 + h * 60 + mi"
    by (rule int_div_pos_eq) (use b in linarith)+
  then have "?t div 60000 = mi + 60 * (day * 24 + h)" by simp
  then have "minutes_of ?t = mi mod 60"
    unfolding minutes_of_def by (simp only: mod_mult_self2)
  then show "minutes_of ?t = mi" using b by simp
  have "?t = 1000 * (day * 86400 + h * 3600 + mi * 60 + s) + ms"
    unfolding t by simp
  then have "?t div 1000 = day * 86400 + h * 3600 + mi * 60 + s"
    by (rule int_div_pos_eq) (use b in linarith)+
  then have "?t div 1000 = s + 60 * (day * 1440 + h * 60 + mi)" by simp
  then have "seconds_of ?t = s mod 60"
    unfolding seconds_of_def by (simp only: mod_mult_self2)
  then show "seconds_of ?t = s" using b by simp
  have "?t = ms + 1000 * (day * 86400 + h * 3600 + mi * 60 + s)"
    unfolding t by simp
  then have "millis_of ?t = ms mod 1000"
    unfolding millis_of_def by (simp only: mod_mult_self2)
  then show "millis_of ?t = ms" using b by simp
qed

lemma clock_fields: "valid_clock (hours_of t) (minutes_of t) (seconds_of t) (millis_of t)"
proof -
  have "0 \<le> t mod ms_per_day" "t mod ms_per_day < 3600000 * 24"
    by (simp_all add: ms_per_day_def)
  then have "0 \<le> hours_of t" "hours_of t < 24"
    unfolding hours_of_def by (simp_all add: div_less_iff_less_mult pos_imp_zdiv_nonneg_iff)
  moreover have "minutes_of t < 60" "seconds_of t < 60" "millis_of t < 1000"
    "0 \<le> minutes_of t" "0 \<le> seconds_of t" "0 \<le> millis_of t"
    by (simp_all add: minutes_of_def seconds_of_def millis_of_def)
  ultimately show ?thesis by (simp add: valid_clock_def int_between_def)
qed

lemma clock_sum:
  fixes t a b c d h m s ms :: int
  assumes "t = 1000 * a + ms" and "a = 60 * b + s" and "b = 60 * c + m" and "c = 24 * d + h"
  shows "make_date d (make_time h m s ms) = t"
  unfolding make_date_def make_time_def ms_per_day_def assms by simp

lemma clock_inverse:
  "make_date (t div ms_per_day) (make_time (hours_of t) (minutes_of t) (seconds_of t) (millis_of t)) = t"
proof -
  define a b c d where "a = t div 1000" and "b = a div 60" and "c = b div 60" and "d = c div 24"
  have "t div 60000 = b" "(t mod ms_per_day) div 3600000 = c mod 24" "t div ms_per_day = d"
    unfolding d_def a_def b_def c_def ms_per_day_def
    by (simp_all flip: zdiv_zmult2_eq add: zmod_zmult2_eq [of 24 t 3600000, simplified])
  then have f: "hours_of t = c mod 24" "minutes_of t = b mod 60" "seconds_of t = a mod 60"
    "t div ms_per_day = d"
    by (simp_all add: hours_of_def minutes_of_def seconds_of_def a_def)
  show ?thesis
    unfolding f(4)
    by (rule clock_sum [of _ a _ b _ c]) (simp_all add: f(1-3) a_def b_def c_def d_def millis_of_def)
qed

section \<open>Decimal digits and templates\<close>

definition digit_char :: "nat \<Rightarrow> char" where
  "digit_char d = char_of (48 + d)"

definition digit_value :: "char \<Rightarrow> nat option" where
  "digit_value c = (let n = of_char c :: nat in if 48 \<le> n \<and> n \<le> 57 then Some (n - 48) else None)"

fun pad :: "nat \<Rightarrow> nat \<Rightarrow> string" where
  "pad 0 n = []"
| "pad (Suc k) n = pad k (n div 10) @ [digit_char (n mod 10)]"

definition number_of_digits :: "nat list \<Rightarrow> nat" where
  "number_of_digits ds = foldl (\<lambda>acc d. 10 * acc + d) 0 ds"

text \<open>
  A template is a string whose \<open>d\<close> stands for \<open>\d\<close> and every other character for itself; a match
  returns the digits in order.
\<close>

fun template_digits :: "string \<Rightarrow> string \<Rightarrow> nat list option" where
  "template_digits [] [] = Some []"
| "template_digits (t # ts) (c # cs) =
     (if t = CHR ''d''
      then (case digit_value c of None \<Rightarrow> None
            | Some v \<Rightarrow> map_option (Cons v) (template_digits ts cs))
      else if t = c then template_digits ts cs else None)"
| "template_digits _ _ = None"

lemma digit_value_char [simp]: "d < 10 \<Longrightarrow> digit_value (digit_char d) = Some d"
  by (simp add: digit_value_def digit_char_def Let_def)

lemma digit_value_Some: "digit_value c = Some v \<Longrightarrow> v < 10 \<and> c = digit_char v"
  by (auto simp: digit_value_def digit_char_def Let_def split: if_splits)

lemma length_pad [simp]: "length (pad k n) = k"
  by (induction k arbitrary: n) auto

lemma template_append:
  "length ts = length cs \<Longrightarrow> template_digits (ts @ ts') (cs @ cs') =
    (case template_digits ts cs of None \<Rightarrow> None
     | Some ds \<Rightarrow> map_option (append ds) (template_digits ts' cs'))"
  by (induction ts cs rule: list_induct2)
    (auto split: option.splits simp: map_option_case)

lemma template_pad: "n < 10 ^ k \<Longrightarrow>
  \<exists>ds. template_digits (replicate k CHR ''d'') (pad k n) = Some ds
    \<and> length ds = k \<and> number_of_digits ds = n"
proof (induction k arbitrary: n)
  case 0
  then show ?case by (simp add: number_of_digits_def)
next
  case (Suc k)
  from Suc.prems have "n div 10 < 10 ^ k" by (simp add: less_mult_imp_div_less mult.commute)
  from Suc.IH [OF this] obtain ds where ds:
    "template_digits (replicate k CHR ''d'') (pad k (n div 10)) = Some ds"
    "length ds = k" "number_of_digits ds = n div 10" by blast
  have "template_digits (replicate k CHR ''d'' @ ''d'') (pad k (n div 10) @ [digit_char (n mod 10)])
      = Some (ds @ [n mod 10])"
    by (simp add: template_append ds(1))
  moreover have "number_of_digits (ds @ [n mod 10]) = n"
    using ds(3) by (simp add: number_of_digits_def)
  ultimately show ?case
    using ds(2) by (simp flip: replicate_append_same)
qed

section \<open>ISO strings\<close>

text \<open>
  \<open>toISOString\<close> writes the year with four digits from 0 to 9999 and with a sign and six digits
  outside; a time beyond \<open>8.64e15\<close> throws \<open>RangeError\<close> (\<open>None\<close>).
\<close>

definition iso_year :: "int \<Rightarrow> string" where
  "iso_year y = (if 0 \<le> y \<and> y \<le> 9999 then pad 4 (nat y)
     else (if y < 0 then CHR ''-'' else CHR ''+'') # pad 6 (nat \<bar>y\<bar>))"

definition iso_string :: "int \<Rightarrow> string" where
  "iso_string t = (let n = t div ms_per_day in
     iso_year (year_from_day n) @ ''-'' @ pad 2 (nat (month_from_day n + 1)) @ ''-''
       @ pad 2 (nat (date_from_day n)) @ ''T'' @ pad 2 (nat (hours_of t)) @ '':''
       @ pad 2 (nat (minutes_of t)) @ '':'' @ pad 2 (nat (seconds_of t)) @ ''.''
       @ pad 3 (nat (millis_of t)) @ ''Z'')"

definition to_iso :: "int \<Rightarrow> string option" where
  "to_iso t = (if finite_time t then Some (iso_string t) else None)"

definition iso_fields :: "nat list \<Rightarrow> nat list" where
  "iso_fields ds = (let k = length ds - 13; r0 = drop k ds; r1 = drop 2 r0; r2 = drop 2 r1;
        r3 = drop 2 r2; r4 = drop 2 r3; r5 = drop 2 r4 in
     [number_of_digits (take k ds), number_of_digits (take 2 r0), number_of_digits (take 2 r1),
      number_of_digits (take 2 r2), number_of_digits (take 2 r3), number_of_digits (take 2 r4),
      number_of_digits r5])"

definition time_of_fields :: "int \<Rightarrow> nat list \<Rightarrow> int" where
  "time_of_fields sg fs = make_date
     (make_day (sg * int (fs ! 0)) (int (fs ! 1) - 1) (int (fs ! 2)))
     (make_time (int (fs ! 3)) (int (fs ! 4)) (int (fs ! 5)) (int (fs ! 6)))"

definition iso_tail :: string where
  "iso_tail = ''-'' @ replicate 2 CHR ''d'' @ ''-'' @ replicate 2 CHR ''d'' @ ''T''
     @ replicate 2 CHR ''d'' @ '':'' @ replicate 2 CHR ''d'' @ '':'' @ replicate 2 CHR ''d''
     @ ''.'' @ replicate 3 CHR ''d'' @ ''Z''"

definition parse_iso_raw :: "string \<Rightarrow> int option" where
  "parse_iso_raw s =
     (case template_digits (''dddd'' @ iso_tail) s of
        Some ds \<Rightarrow> Some (time_of_fields 1 (iso_fields ds))
      | None \<Rightarrow>
     (case template_digits (''+dddddd'' @ iso_tail) s of
        Some ds \<Rightarrow> Some (time_of_fields 1 (iso_fields ds))
      | None \<Rightarrow>
     (case template_digits (''-dddddd'' @ iso_tail) s of
        Some ds \<Rightarrow> Some (time_of_fields (- 1) (iso_fields ds))
      | None \<Rightarrow> None)))"

text \<open>
  \<open>Date.parse(s)\<close> finite and \<open>new Date(Date.parse(s)).toISOString() === s\<close>: the time of a canonical
  UTC string, \<open>None\<close> for every other string.
\<close>

definition canonical_time :: "string \<Rightarrow> int option" where
  "canonical_time s = (case parse_iso_raw s of
     Some t \<Rightarrow> if to_iso t = Some s then Some t else None
   | None \<Rightarrow> None)"

lemma canonical_time_Some: "canonical_time s = Some t \<Longrightarrow> to_iso t = Some s"
  by (auto simp: canonical_time_def split: option.splits if_splits)

lemma canonical_time_inj: "canonical_time s = Some t \<Longrightarrow> canonical_time s' = Some t \<Longrightarrow> s = s'"
  by (auto dest!: canonical_time_Some)

lemma template_literal [simp]:
  "c \<noteq> CHR ''d'' \<Longrightarrow> template_digits (c # ts) (c # cs) = template_digits ts cs"
  by simp

lemma template_number:
  assumes "template_digits (replicate k CHR ''d'') (pad k n) = Some ds"
  shows "template_digits (replicate k CHR ''d'' @ ts) (pad k n @ cs) =
    map_option (append ds) (template_digits ts cs)"
  using assms by (simp add: template_append)

lemma iso_tail_digits:
  assumes "mo < 100" "d < 100" "h < 100" "mi < 100" "s < 100" "ms < 1000"
  shows "\<exists>r. length r = 13 \<and>
    template_digits iso_tail (''-'' @ pad 2 mo @ ''-'' @ pad 2 d @ ''T'' @ pad 2 h @ '':''
      @ pad 2 mi @ '':'' @ pad 2 s @ ''.'' @ pad 3 ms @ ''Z'') = Some r \<and>
    (\<forall>y. iso_fields (y @ r) = [number_of_digits y, mo, d, h, mi, s, ms])"
proof -
  have two: "\<exists>ds. template_digits (replicate 2 CHR ''d'') (pad 2 n) = Some ds
      \<and> length ds = 2 \<and> number_of_digits ds = n" if "n < 100" for n
    using template_pad [of n 2] that by simp
  obtain a where a: "template_digits (replicate 2 CHR ''d'') (pad 2 mo) = Some a"
    "length a = 2" "number_of_digits a = mo" using two [OF assms(1)] by blast
  obtain b where b: "template_digits (replicate 2 CHR ''d'') (pad 2 d) = Some b"
    "length b = 2" "number_of_digits b = d" using two [OF assms(2)] by blast
  obtain c where c: "template_digits (replicate 2 CHR ''d'') (pad 2 h) = Some c"
    "length c = 2" "number_of_digits c = h" using two [OF assms(3)] by blast
  obtain e where e: "template_digits (replicate 2 CHR ''d'') (pad 2 mi) = Some e"
    "length e = 2" "number_of_digits e = mi" using two [OF assms(4)] by blast
  obtain f where f: "template_digits (replicate 2 CHR ''d'') (pad 2 s) = Some f"
    "length f = 2" "number_of_digits f = s" using two [OF assms(5)] by blast
  obtain g where g: "template_digits (replicate 3 CHR ''d'') (pad 3 ms) = Some g"
    "length g = 3" "number_of_digits g = ms" using template_pad [of ms 3] assms(6) by auto
  have "template_digits iso_tail (''-'' @ pad 2 mo @ ''-'' @ pad 2 d @ ''T'' @ pad 2 h @ '':''
      @ pad 2 mi @ '':'' @ pad 2 s @ ''.'' @ pad 3 ms @ ''Z'') = Some (a @ b @ c @ e @ f @ g)"
    unfolding iso_tail_def append_Cons append_Nil
    by (simp only: template_number [OF a(1)] template_number [OF b(1)] template_number [OF c(1)]
        template_number [OF e(1)] template_number [OF f(1)] template_number [OF g(1)]
        template_literal template_digits.simps(1) option.map char.inject simp_thms append_Nil2)
  moreover have "iso_fields (y @ a @ b @ c @ e @ f @ g) = [number_of_digits y, mo, d, h, mi, s, ms]" for y
  proof -
    have "length (y @ a @ b @ c @ e @ f @ g) - 13 = length y"
      using a(2) b(2) c(2) e(2) f(2) g(2) by simp
    moreover have "take 2 (v @ w) = v \<and> drop 2 (v @ w) = w" if "length v = 2" for v w :: "nat list"
      using that by simp
    ultimately show ?thesis
      unfolding iso_fields_def Let_def using a(2,3) b(2,3) c(2,3) e(2,3) f(2,3) g(3) by simp
  qed
  ultimately show ?thesis
    using a(2) b(2) c(2) e(2) f(2) g(2) by (intro exI [of _ "a @ b @ c @ e @ f @ g"]) simp
qed

lemma iso_year_template:
  assumes "\<bar>y\<bar> < 1000000"
  shows "(0 \<le> y \<and> y \<le> 9999 \<and> iso_year y = pad 4 (nat y)) \<or>
    (9999 < y \<and> iso_year y = CHR ''+'' # pad 6 (nat y)) \<or>
    (y < 0 \<and> iso_year y = CHR ''-'' # pad 6 (nat (- y)))"
  using assms by (auto simp: iso_year_def)

lemma year_bound:
  assumes "finite_time t"
  shows "\<bar>year_from_day (t div ms_per_day)\<bar> < 1000000"
proof -
  let ?n = "t div ms_per_day" let ?y = "year_from_day ?n"
  have t: "- 8640000000000000 \<le> t" "t \<le> 8640000000000000"
    using assms by (auto simp: finite_time_def max_time_def)
  have "- 8640000000000000 div ms_per_day \<le> ?n" "?n \<le> 8640000000000000 div ms_per_day"
    using t by (intro zdiv_mono1; simp add: ms_per_day_def)+
  then have n: "- 100000000 \<le> ?n" "?n \<le> 100000000" by (simp_all add: ms_per_day_def)
  have "day_from_year ?y \<le> ?n" "?n < day_from_year (?y + 1)"
    using year_from_day_bounds [of ?n] by simp_all
  then have lo: "400 * days_before_year ?y \<le> 400 * (?n + 719528)"
    and hi: "400 * (?n + 719528) < 400 * days_before_year (?y + 1)"
    by (simp_all add: day_from_year_def)
  from days_before_year_bounds(1) lo have "146097 * ?y - 396 \<le> 400 * (?n + 719528)"
    by (rule order_trans)
  with n have "146097 * ?y < 146097 * 1000000" by simp
  then have "?y < 1000000" by simp
  from hi days_before_year_bounds(2) have "400 * (?n + 719528) < 146097 * (?y + 1) + 699"
    by (rule less_le_trans)
  with n have "146097 * (- 1000000) < 146097 * ?y" by simp
  then have "- 1000000 < ?y" by simp
  with \<open>?y < 1000000\<close> show ?thesis by simp
qed

theorem canonical_time_to_iso:
  assumes "to_iso t = Some s"
  shows "canonical_time s = Some t"
proof -
  define n where "n = t div ms_per_day"
  have fin: "finite_time t" and s: "s = iso_string t"
    using assms by (auto simp: to_iso_def split: if_splits)
  let ?y = "year_from_day n" let ?mo = "month_from_day n + 1" let ?d = "date_from_day n"
  have df: "1 \<le> ?mo" "?mo \<le> 12" "1 \<le> ?d" "?d \<le> 31"
    using day_fields_bounds [of n] days_in_month_bounds [of "month_from_day n" ?y] by auto
  have cf: "int_between 0 23 (hours_of t)" "int_between 0 59 (minutes_of t)"
    "int_between 0 59 (seconds_of t)" "int_between 0 999 (millis_of t)"
    using clock_fields [of t] by (simp_all add: valid_clock_def)
  define tail where "tail = ''-'' @ pad 2 (nat ?mo) @ ''-'' @ pad 2 (nat ?d) @ ''T''
    @ pad 2 (nat (hours_of t)) @ '':'' @ pad 2 (nat (minutes_of t)) @ '':''
    @ pad 2 (nat (seconds_of t)) @ ''.'' @ pad 3 (nat (millis_of t)) @ ''Z''"
  have s': "s = iso_year ?y @ tail"
    by (simp add: s iso_string_def tail_def Let_def n_def)
  have bounds: "nat ?mo < 100" "nat ?d < 100" "nat (hours_of t) < 100" "nat (minutes_of t) < 100"
    "nat (seconds_of t) < 100" "nat (millis_of t) < 1000"
    using df cf by (simp_all add: int_between_def nat_less_iff)
  from iso_tail_digits [OF bounds] obtain r where
    tail: "template_digits iso_tail tail = Some r" and
    fields: "\<And>y. iso_fields (y @ r) = [number_of_digits y, nat ?mo, nat ?d, nat (hours_of t),
      nat (minutes_of t), nat (seconds_of t), nat (millis_of t)]"
    unfolding tail_def by blast
  have time: "time_of_fields sg (iso_fields (y @ r)) = t" if "sg * int (number_of_digits y) = ?y" for sg y
    using that df cf clock_inverse [of t] make_day_inverse [of n]
    by (simp add: time_of_fields_def fields int_between_def flip: n_def)
  have d4: "replicate 4 CHR ''d'' = ''dddd''" and d6: "replicate 6 CHR ''d'' = ''dddddd''"
    by (simp_all add: numeral_eq_Suc)
  have no_sign: "template_digits (''dddd'' @ iso_tail) (c # cs) = None"
    if "digit_value c = None" for c cs
    using that by simp
  have signs: "digit_value (CHR ''+'') = None" "digit_value (CHR ''-'') = None"
    by (simp_all add: digit_value_def)
  have "parse_iso_raw s = Some t"
    using iso_year_template [OF year_bound [OF fin], folded n_def]
  proof (elim disjE conjE)
    assume y: "0 \<le> ?y" "?y \<le> 9999" and iy: "iso_year ?y = pad 4 (nat ?y)"
    have "nat ?y < 10 ^ 4" using y by simp
    from template_pad [OF this] obtain ds where ds:
      "template_digits (replicate 4 CHR ''d'') (pad 4 (nat ?y)) = Some ds"
      "number_of_digits ds = nat ?y" by blast
    have "template_digits (''dddd'' @ iso_tail) s = Some (ds @ r)"
      using template_number [OF ds(1), of iso_tail tail] tail by (simp add: s' iy d4)
    then show ?thesis using time [of 1 ds] ds(2) y by (simp add: parse_iso_raw_def)
  next
    assume y: "9999 < ?y" and iy: "iso_year ?y = CHR ''+'' # pad 6 (nat ?y)"
    have "nat ?y < 10 ^ 6" using year_bound [OF fin, folded n_def] by (simp add: nat_less_iff)
    from template_pad [OF this] obtain ds where ds:
      "template_digits (replicate 6 CHR ''d'') (pad 6 (nat ?y)) = Some ds"
      "number_of_digits ds = nat ?y" by blast
    have "template_digits (''+dddddd'' @ iso_tail) s = Some (ds @ r)"
      using template_number [OF ds(1), of iso_tail tail] tail by (simp add: s' iy d6)
    moreover have "template_digits (''dddd'' @ iso_tail) s = None"
      unfolding s' iy append_Cons [of "CHR ''+''"] by (rule no_sign [OF signs(1)])
    ultimately show ?thesis using time [of 1 ds] ds(2) y by (simp add: parse_iso_raw_def)
  next
    assume y: "?y < 0" and iy: "iso_year ?y = CHR ''-'' # pad 6 (nat (- ?y))"
    have "nat (- ?y) < 10 ^ 6" using year_bound [OF fin, folded n_def] by (simp add: nat_less_iff)
    from template_pad [OF this] obtain ds where ds:
      "template_digits (replicate 6 CHR ''d'') (pad 6 (nat (- ?y))) = Some ds"
      "number_of_digits ds = nat (- ?y)" by blast
    have "template_digits (''-dddddd'' @ iso_tail) s = Some (ds @ r)"
      using template_number [OF ds(1), of iso_tail tail] tail by (simp add: s' iy d6)
    moreover have "template_digits (''dddd'' @ iso_tail) s = None"
      unfolding s' iy append_Cons [of "CHR ''-''"] by (rule no_sign [OF signs(2)])
    moreover have "template_digits (''+dddddd'' @ iso_tail) s = None"
      by (simp add: s' iy)
    ultimately show ?thesis using time [of "- 1" ds] ds(2) y by (simp add: parse_iso_raw_def)
  qed
  with assms show ?thesis by (simp add: canonical_time_def)
qed

end
