(* ===== verification/Contracts.thy ===== *)
theory Contracts
  imports JS_Date Complex_Main
begin

text \<open>
  The data model of the runtime (\<open>src/runtime/contracts.ts\<close>, \<open>src/runtime/failures.ts\<close>): task
  requests, profiles and their model bindings, repository policies, work contracts, results and
  review attestations. Each interface is a record with its fields in the order of the source, each
  union of string literals a datatype, \<open>null\<close> and an optional property an \<open>option\<close>. Field names
  carry a prefix for their interface (\<open>tr\<close> task request, \<open>wc\<close> work contract, \<open>rr\<close> result, ...).
\<close>

section \<open>Failures\<close>

datatype failure_code =
    F_INVALID_CONTRACT | F_REPOSITORY_NOT_ALLOWED | F_REPOSITORY_BUSY | F_BROKER_STATE_CORRUPT
  | F_BASE_SHA_INVALID | F_WORKTREE_CREATION_FAILED | F_CAPABILITY_UNVERIFIED
  | F_SOURCE_SENSITIVITY_UNSUPPORTED | F_PROCESS_SANDBOX_UNAVAILABLE | F_REVIEW_SANDBOX_UNAVAILABLE
  | F_AUTHENTICATION_FAILED | F_PROVIDER_UNAVAILABLE | F_EXECUTOR_INVALID_OUTPUT
  | F_EXECUTOR_POLICY_VIOLATION | F_ECONOMY_POLICY_VIOLATION | F_OUT_OF_SCOPE_CHANGE
  | F_VALIDATION_FAILED | F_REVIEW_REJECTED | F_REVIEW_ATTESTATION_INVALID | F_EVIDENCE_HASH_MISMATCH
  | F_DELEGATION_PROVENANCE_INVALID | F_DELEGATION_PROVENANCE_REQUIRED
  | F_FINALIZATION_ISOLATION_FAILED | F_FINALIZATION_FAILED | F_PUBLICATION_POLICY_DENIED
  | F_PUBLICATION_FAILED | F_ABORTED | F_UNKNOWN_FAILURE

record runtime_failure =
  rf_code :: failure_code
  rf_message :: string
  rf_retryable :: bool
  rf_evidence_hashes :: "string list"

section \<open>Enumerations\<close>

datatype data_scope = SOURCE_CODE_ONLY
datatype source_sensitivity = PUBLIC | PRIVATE
datatype requested_route = REQ_AUTO | REQ_ECONOMY | REQ_FRONTIER
datatype effective_route = ECONOMY | FRONTIER
datatype change_operation = CREATE | MODIFY | DELETE
datatype review_decision = REQUEST_CONTEXT | ACCEPT | REJECT
datatype runtime_role = orchestrator | executor | reasoningExecutor | escalationExecutor
  | frontierExecutor | reviewer
datatype task_trait = mechanical | localized | semantic_debugging | cross_file_reasoning
  | multimodal | long_horizon | architecture | security_sensitive | migration
datatype execution_lane = MECHANICAL_ECONOMY | REASONING_ECONOMY | FRONTIER_EXECUTION
datatype repair_base = LAST_ACCEPTED_TREE | FAILED_CANDIDATE_TREE
datatype prompt_format = plain | markdown | xml
datatype context_placement = before_task | after_task
datatype authentication = provider_api_key | chatgpt_subscription
datatype tier = frontier | economy
datatype permissions = read_only | contract_write
datatype verbosity = V_low | V_medium | V_high
datatype merge_method = squash | merge_commit | rebase
datatype publication_state = NOT_STARTED | PUSHED | PR_OPEN | CHECKS_PASSED | MERGED | SKIPPED

section \<open>Requests, profiles and policies\<close>

record model_guidance =
  mg_id :: string
  mg_revision :: string
  mg_sourceUrls :: "string list"
  mg_promptFormat :: prompt_format
  mg_contextPlacement :: context_placement
  mg_reasoningEffort :: string
  mg_textVerbosity :: verbosity
  mg_temperature :: "rat option"
  mg_maxSteps :: int
  mg_instructions :: "string list"

record binding_execution =
  be_supportedTaskTraits :: "task_trait list"
  be_maxSteps :: int
  be_maxToolUses :: int
  be_maxNoMutationSteps :: int
  be_timeoutSeconds :: int
  be_supportsFailedCandidateRepair :: bool

record execution_requirements =
  er_taskTraits :: "task_trait list"
  er_contextBytes :: int
  er_acceptanceCriteriaCount :: int

record execution_policy_body =
  ep_lane :: execution_lane
  ep_executorRole :: runtime_role
  ep_taskTraits :: "task_trait list"
  ep_maxSteps :: int
  ep_maxToolUses :: int
  ep_maxNoMutationSteps :: int
  ep_timeoutSeconds :: int
  ep_maxAttempts :: int
  ep_repairBase :: repair_base
  ep_reasons :: "string list"
  ep_healthEvidenceHashes :: "string list option"

record execution_policy = execution_policy_body +
  ep_policyHash :: string

record allowed_change =
  ac_path :: string
  ac_operations :: "change_operation list"

record task_request =
  tr_task_id :: string
  tr_request_id :: string
  tr_repository_id :: string
  tr_objective :: string
  tr_task_class :: string
  tr_requested_risk_class :: string
  tr_requested_route :: requested_route
  tr_execution_requirements :: "execution_requirements option"
  tr_allowed_changes :: "allowed_change list"
  tr_acceptance_tests :: "string list"
  tr_implementation_targets :: "allowed_change list"
  tr_allowed_validation_ids :: "string list"
  tr_inputs :: "string list"
  tr_constraints :: "string list"
  tr_success_criteria :: "string list"
  tr_max_files_changed :: int
  tr_max_changed_lines :: int
  tr_max_attempts :: int
  tr_prohibited_actions :: "string list"

record binding =
  b_harness :: string
  b_provider :: string
  b_model :: string
  b_tier :: tier
  b_authentication :: "authentication option"
  b_capability :: string
  b_allowedDataScopes :: "data_scope list"
  b_allowedSourceSensitivity :: "source_sensitivity list"
  b_permissions :: permissions
  b_guidance :: model_guidance
  b_execution :: "binding_execution option"

record runtime_profile =
  rp_id :: string
  rp_orchestrator :: binding
  rp_executor :: binding
  rp_reasoningExecutor :: "binding option"
  rp_escalationExecutor :: binding
  rp_frontierExecutor :: binding
  rp_reviewer :: binding
  rp_maxEconomyParallelRequests :: int
  rp_maxConcurrentRunsPerRepository :: int

text \<open>\<open>profile.bindings[role]\<close>.\<close>

fun profile_binding :: "runtime_profile \<Rightarrow> runtime_role \<Rightarrow> binding option" where
  "profile_binding p orchestrator = Some (rp_orchestrator p)"
| "profile_binding p executor = Some (rp_executor p)"
| "profile_binding p reasoningExecutor = rp_reasoningExecutor p"
| "profile_binding p escalationExecutor = Some (rp_escalationExecutor p)"
| "profile_binding p frontierExecutor = Some (rp_frontierExecutor p)"
| "profile_binding p reviewer = Some (rp_reviewer p)"

record validation_spec =
  vs_argv :: "string list"
  vs_workingDirectory :: string
  vs_timeoutSeconds :: int
  vs_sandboxProfile :: string

record publication_policy =
  pp_enabled :: bool
  pp_remote :: string
  pp_baseBranch :: string
  pp_mergeMethod :: merge_method
  pp_requireRequiredChecks :: bool
  pp_timeoutSeconds :: int

record repository_policy =
  po_repositoryId :: string
  po_allowedBranches :: "string list"
  po_worktreeParentRef :: string
  po_frontierRiskClasses :: "string list"
  po_frontierTaskClasses :: "string list"
  po_frontierPaths :: "string list"
  po_frontierSourceSensitivity :: "source_sensitivity list"
  po_validation :: "(string \<times> validation_spec) list"
  po_dataScope :: data_scope
  po_sourceSensitivity :: source_sensitivity
  po_requiredBackend :: string
  po_requiredProfiles :: "string list"
  po_approvedSources :: "string list"
  po_publication :: publication_policy

section \<open>Work contracts and results\<close>

record work_contract = task_request +
  wc_run_id :: string
  wc_repository_root_hash :: string
  wc_base_sha :: string
  wc_effective_risk_class :: string
  wc_effective_route :: effective_route
  wc_route_decision_reasons :: "string list"
  wc_route_decision_hash :: string
  wc_execution_policy :: "execution_policy option"
  wc_effective_data_scope :: data_scope
  wc_effective_source_sensitivity :: source_sensitivity
  wc_sandbox_profile_hashes :: "(string \<times> string) list"
  wc_policy_hash :: string
  wc_profile_hash :: string
  wc_contract_hash :: string

record runtime_attempt =
  at_attempt :: int
  at_executor_binding_ref :: string
  at_result_hash :: string

record validation_result =
  vr_validation_id :: string
  vr_exit_code :: int
  vr_result_hash :: string

record publication =
  pu_state :: publication_state
  pu_remote :: "string option"
  pu_base_branch :: "string option"
  pu_pull_request :: "int option"
  pu_pull_request_url :: "string option"
  pu_merge_commit_sha :: "string option"

record runtime_result =
  rr_run_id :: string
  rr_request_id :: string
  rr_state :: string
  rr_effective_route :: effective_route
  rr_route_decision_hash :: string
  rr_effective_data_scope :: data_scope
  rr_effective_source_sensitivity :: source_sensitivity
  rr_branch :: string
  rr_base_sha :: string
  rr_head_sha :: "string option"
  rr_contract_hash :: string
  rr_policy_hash :: string
  rr_profile_hash :: string
  rr_attempts :: "runtime_attempt list"
  rr_validation_results :: "validation_result list"
  rr_diff_hash :: string
  rr_tree_hash :: string
  rr_changed_files :: "string list"
  rr_review_attestation_hash :: "string option"
  rr_commit_sha :: "string option"
  rr_publication :: publication
  rr_failure :: "runtime_failure option"
  rr_artifact_manifest_hash :: string

record review_finding =
  rv_id :: string
  rv_severity :: string
  rv_message :: string

record review_attestation =
  ra_review_id :: string
  ra_reviewer_binding_ref :: string
  ra_reviewer_session_id :: string
  ra_run_id :: string
  ra_contract_hash :: string
  ra_base_sha :: string
  ra_reviewed_tree_hash :: string
  ra_reviewed_diff_hash :: string
  ra_validation_manifest_hash :: string
  ra_decision :: review_decision
  ra_findings :: "review_finding list"
  ra_requested_context_hashes :: "string list"
  ra_unresolved_finding_ids :: "string list"
  ra_created_at :: string
  ra_attestation_hash :: string

end
