(* ===== verification/Binding_Health.thy ===== *)
theory Binding_Health
  imports Contracts
begin

text \<open>
  Binding health (\<open>src/runtime/binding-health.ts\<close>): the evidence about how a model binding performed
  on a task trait, the state machine that turns a history of observations into a health status, and
  the routing gate that reads snapshots. A snapshot's evaluation is the fold of \<open>health_step\<close> over the
  observations in time order, as in the loop of \<open>evaluateRuntimeBindingHealthV4\<close>.

  Hashes of canonical JSON are parameters (\<open>obs_hash\<close>, \<open>policy_hash\<close>, \<open>snapshot_hash\<close>), as is the
  locale-dependent \<open>localeCompare\<close>.
\<close>

section \<open>Data\<close>

datatype health_outcome =
    ACCEPTED | CANARY_ACCEPTED | VALIDATION_FAILED | REVIEW_REJECTED | INVALID_OUTPUT
  | BUDGET_EXCEEDED | PROVIDER_UNAVAILABLE | AUTHORITY_VIOLATION | FALSE_ACCEPTANCE

datatype health_status = HEALTHY | QUARANTINED | PROBATION
datatype health_action = USE | QUARANTINE | RUN_CANARY

record observation_body =
  bo_observationId :: string
  bo_bindingHash :: string
  bo_taskTrait :: task_trait
  bo_recordedAt :: string
  bo_outcome :: health_outcome

record observation = observation_body +
  bo_observationHash :: string

record health_policy =
  hp_windowSize :: int
  hp_minimumObservations :: int
  hp_maximumFailureRateBasisPoints :: int
  hp_maximumConsecutiveFailures :: int
  hp_cooldownSeconds :: int
  hp_recoveryCanarySuccesses :: int

record health_snapshot_body =
  hs_bindingHash :: string
  hs_taskTrait :: task_trait
  hs_evaluatedAt :: string
  hs_status :: health_status
  hs_normalRoutingAllowed :: bool
  hs_recommendedAction :: health_action
  hs_consecutiveFailures :: int
  hs_failureRateBasisPoints :: int
  hs_recoveryCanarySuccesses :: int
  hs_quarantineTriggeredAt :: "string option"
  hs_observationHashes :: "string list"
  hs_policyHash :: string

record health_snapshot = health_snapshot_body +
  hs_snapshotHash :: string

definition DEFAULT_RUNTIME_BINDING_HEALTH_POLICY_V4 :: health_policy where
  "DEFAULT_RUNTIME_BINDING_HEALTH_POLICY_V4 =
     \<lparr>hp_windowSize = 20, hp_minimumObservations = 5, hp_maximumFailureRateBasisPoints = 4000,
      hp_maximumConsecutiveFailures = 2, hp_cooldownSeconds = 3600, hp_recoveryCanarySuccesses = 3\<rparr>"

fun failed_outcome :: "health_outcome \<Rightarrow> bool" where
  "failed_outcome ACCEPTED = False"
| "failed_outcome CANARY_ACCEPTED = False"
| "failed_outcome _ = True"

definition critical_outcome :: "health_outcome \<Rightarrow> bool" where
  "critical_outcome o1 = (o1 \<in> {AUTHORITY_VIOLATION, FALSE_ACCEPTANCE})"

section \<open>Loading evidence\<close>

abbreviation invalid_health :: "string \<Rightarrow> error" where
  "invalid_health m \<equiv> Error INVALID_BINDING_HEALTH_EVIDENCE m"

definition timestamp :: "string \<Rightarrow> int result" where
  "timestamp value = (case canonical_time value of
      None \<Rightarrow> Inl (invalid_health ''timestamp is not canonical UTC'')
    | Some t \<Rightarrow> Inr t)"

text \<open>The instant of a timestamp that has been checked.\<close>

definition time_value :: "string \<Rightarrow> int" where
  "time_value value = (case canonical_time value of None \<Rightarrow> 0 | Some t \<Rightarrow> t)"

definition health_policy_ok :: "health_policy \<Rightarrow> bool" where
  "health_policy_ok p =
     (int_between 1 1000 (hp_windowSize p) \<and>
      int_between 1 (hp_windowSize p) (hp_minimumObservations p) \<and>
      int_between 1 10000 (hp_maximumFailureRateBasisPoints p) \<and>
      int_between 1 (hp_windowSize p) (hp_maximumConsecutiveFailures p) \<and>
      int_between 1 2592000 (hp_cooldownSeconds p) \<and>
      int_between 1 100 (hp_recoveryCanarySuccesses p))"

definition verifyPolicy :: "(health_policy \<Rightarrow> string) \<Rightarrow> health_policy \<Rightarrow> string result" where
  "verifyPolicy policy_hash p = throw_if (\<not> health_policy_ok p) (invalid_health ''is outside policy'')
     (Inr (policy_hash p))"

definition createRuntimeBindingHealthObservationV4 ::
    "(observation_body \<Rightarrow> string) \<Rightarrow> observation_body \<Rightarrow> observation result" where
  "createRuntimeBindingHealthObservationV4 obs_hash input =
     throw_if (\<not> tagged_id ''health_'' 8 96 (bo_observationId input) \<or> \<not> is_hash (bo_bindingHash input))
       (invalid_health ''observation identity is invalid'')
       (bindR (timestamp (bo_recordedAt input))
         (\<lambda>_. Inr (observation_body.extend input (observation.fields (obs_hash input)))))"

definition loadObservation :: "(observation_body \<Rightarrow> string) \<Rightarrow> observation \<Rightarrow> observation result" where
  "loadObservation obs_hash v =
     throw_if (\<not> is_hash (bo_observationHash v) \<or>
         bo_observationHash v \<noteq> obs_hash (observation_body.truncate v))
       (invalid_health ''observation hash is invalid'')
       (createRuntimeBindingHealthObservationV4 obs_hash (observation_body.truncate v))"

lemma loadObservation_id: "loadObservation obs_hash v = Inr w \<Longrightarrow> w = v"
  by (cases v) (auto simp: loadObservation_def createRuntimeBindingHealthObservationV4_def
      observation_body.defs observation.defs)

lemma loadObservation_time:
  "loadObservation obs_hash v = Inr w \<Longrightarrow> \<exists>t. canonical_time (bo_recordedAt v) = Some t"
  by (auto simp: loadObservation_def createRuntimeBindingHealthObservationV4_def timestamp_def
      observation_body.defs split: option.splits)

section \<open>The state machine\<close>

record health_state =
  st_status :: health_status
  st_quarantineTriggeredAt :: "string option"
  st_recoveryCanarySuccesses :: int
  st_recent :: "observation list"
  st_consecutiveFailures :: int

definition initial_health :: health_state where
  "initial_health = \<lparr>st_status = HEALTHY, st_quarantineTriggeredAt = None,
     st_recoveryCanarySuccesses = 0, st_recent = [], st_consecutiveFailures = 0\<rparr>"

text \<open>\<open>xs.slice(-n)\<close> for a positive \<open>n\<close>.\<close>

definition last_n :: "int \<Rightarrow> 'a list \<Rightarrow> 'a list" where
  "last_n n xs = drop (length xs - nat n) xs"

definition failure_rate :: "observation list \<Rightarrow> int" where
  "failure_rate w = (if w = [] then 0
     else round_div (int (length (filter (\<lambda>v. failed_outcome (bo_outcome v)) w)) * 10000) (int (length w)))"

definition cooldown_end :: "health_policy \<Rightarrow> string option \<Rightarrow> int" where
  "cooldown_end p trig = (case trig of None \<Rightarrow> 0 | Some s \<Rightarrow> time_value s) + hp_cooldownSeconds p * 1000"

definition healthy_step :: "health_policy \<Rightarrow> health_state \<Rightarrow> observation \<Rightarrow> health_state" where
  "healthy_step p st ob =
     (let recent = (if bo_outcome ob \<noteq> CANARY_ACCEPTED
                    then last_n (hp_windowSize p) (st_recent st @ [ob]) else st_recent st);
          consecutive = (if failed_outcome (bo_outcome ob) then st_consecutiveFailures st + 1 else 0);
          rate = failure_rate recent;
          st' = st\<lparr>st_recent := recent, st_consecutiveFailures := consecutive\<rparr>
      in if critical_outcome (bo_outcome ob) \<or> consecutive \<ge> hp_maximumConsecutiveFailures p \<or>
            (int (length recent) \<ge> hp_minimumObservations p \<and> rate > hp_maximumFailureRateBasisPoints p)
         then st'\<lparr>st_status := QUARANTINED, st_quarantineTriggeredAt := Some (bo_recordedAt ob),
                  st_recoveryCanarySuccesses := 0\<rparr>
         else st')"

definition unhealthy_step :: "health_policy \<Rightarrow> health_state \<Rightarrow> observation \<Rightarrow> health_state" where
  "unhealthy_step p st ob =
     (if failed_outcome (bo_outcome ob)
      then st\<lparr>st_status := QUARANTINED, st_quarantineTriggeredAt := Some (bo_recordedAt ob),
              st_recoveryCanarySuccesses := 0, st_consecutiveFailures := st_consecutiveFailures st + 1\<rparr>
      else if bo_outcome ob = CANARY_ACCEPTED \<and>
              time_value (bo_recordedAt ob) \<ge> cooldown_end p (st_quarantineTriggeredAt st)
      then (let n = st_recoveryCanarySuccesses st + 1;
                st' = st\<lparr>st_recoveryCanarySuccesses := n, st_status := PROBATION\<rparr>
            in if n \<ge> hp_recoveryCanarySuccesses p
               then st'\<lparr>st_status := HEALTHY, st_quarantineTriggeredAt := None,
                        st_consecutiveFailures := 0, st_recent := []\<rparr>
               else st')
      else st)"

definition health_step :: "health_policy \<Rightarrow> health_state \<Rightarrow> observation \<Rightarrow> health_state" where
  "health_step p st ob =
     (if st_status st = HEALTHY then healthy_step p st ob else unhealthy_step p st ob)"

definition health_run :: "health_policy \<Rightarrow> observation list \<Rightarrow> health_state" where
  "health_run p obs = foldl (health_step p) initial_health obs"

section \<open>Evaluation and the routing gate\<close>

definition observation_order :: "(string \<Rightarrow> string \<Rightarrow> int) \<Rightarrow> observation \<Rightarrow> observation \<Rightarrow> int" where
  "observation_order localeCompare l r =
     (let d = time_value (bo_recordedAt l) - time_value (bo_recordedAt r)
      in if d \<noteq> 0 then d else localeCompare (bo_observationId l) (bo_observationId r))"

record health_input =
  hi_bindingHash :: string
  hi_taskTrait :: task_trait
  hi_observations :: "observation list"
  hi_policy :: "health_policy option"
  hi_evaluatedAt :: string

definition effective_policy :: "health_input \<Rightarrow> health_policy" where
  "effective_policy i = (case hi_policy i of None \<Rightarrow> DEFAULT_RUNTIME_BINDING_HEALTH_POLICY_V4 | Some p \<Rightarrow> p)"

definition snapshot_of ::
    "(health_snapshot_body \<Rightarrow> string) \<Rightarrow> health_input \<Rightarrow> string \<Rightarrow> int \<Rightarrow> observation list \<Rightarrow> health_snapshot" where
  "snapshot_of snapshot_hash i policyHash evaluatedAt obs =
     (let p = effective_policy i;
          st = health_run p obs;
          window = last_n (hp_windowSize p) (st_recent st);
          cooldownElapsed = (st_quarantineTriggeredAt st \<noteq> None \<and>
            evaluatedAt \<ge> cooldown_end p (st_quarantineTriggeredAt st));
          body = \<lparr>hs_bindingHash = hi_bindingHash i, hs_taskTrait = hi_taskTrait i,
            hs_evaluatedAt = hi_evaluatedAt i, hs_status = st_status st,
            hs_normalRoutingAllowed = (st_status st = HEALTHY),
            hs_recommendedAction = (if st_status st = HEALTHY then USE
              else if cooldownElapsed then RUN_CANARY else QUARANTINE),
            hs_consecutiveFailures = st_consecutiveFailures st,
            hs_failureRateBasisPoints = failure_rate window,
            hs_recoveryCanarySuccesses = st_recoveryCanarySuccesses st,
            hs_quarantineTriggeredAt = st_quarantineTriggeredAt st,
            hs_observationHashes = map bo_observationHash obs,
            hs_policyHash = policyHash\<rparr>
      in health_snapshot_body.extend body (health_snapshot.fields (snapshot_hash body)))"

definition evaluateRuntimeBindingHealthV4 ::
    "(observation_body \<Rightarrow> string) \<Rightarrow> (health_policy \<Rightarrow> string) \<Rightarrow> (health_snapshot_body \<Rightarrow> string) \<Rightarrow>
     (string \<Rightarrow> string \<Rightarrow> int) \<Rightarrow> health_input \<Rightarrow> health_snapshot result" where
  "evaluateRuntimeBindingHealthV4 obs_hash policy_hash snapshot_hash localeCompare i =
     throw_if (\<not> is_hash (hi_bindingHash i)) (invalid_health ''binding scope is invalid'')
     (bindR (timestamp (hi_evaluatedAt i)) (\<lambda>evaluatedAt.
      bindR (verifyPolicy policy_hash (effective_policy i)) (\<lambda>policyHash.
      bindR (mapR (loadObservation obs_hash) (hi_observations i)) (\<lambda>loaded.
      let observations = js_sort (observation_order localeCompare) loaded in
      throw_if (\<not> distinct (map bo_observationId observations))
        (invalid_health ''observation IDs are not unique'')
      (throw_if (list_ex (\<lambda>v. bo_bindingHash v \<noteq> hi_bindingHash i \<or> bo_taskTrait v \<noteq> hi_taskTrait i \<or>
           time_value (bo_recordedAt v) > evaluatedAt) observations)
        (invalid_health ''observation scope or time is invalid'')
      (Inr (snapshot_of snapshot_hash i policyHash evaluatedAt observations)))))))"

definition snapshot_evidence_ok :: "(health_snapshot_body \<Rightarrow> string) \<Rightarrow> health_snapshot \<Rightarrow> bool" where
  "snapshot_evidence_ok snapshot_hash s =
     (is_hash (hs_bindingHash s) \<and> hs_snapshotHash s = snapshot_hash (health_snapshot_body.truncate s))"

definition runtimeBindingHealthAllowsV4 ::
    "(health_snapshot_body \<Rightarrow> string) \<Rightarrow> health_snapshot list \<Rightarrow> string \<Rightarrow> task_trait list \<Rightarrow> bool result" where
  "runtimeBindingHealthAllowsV4 snapshot_hash snapshots bindingHash traits =
     throw_if (length snapshots > 128 \<or> \<not> distinct (map hs_snapshotHash snapshots) \<or>
         \<not> distinct (map (\<lambda>s. (hs_bindingHash s, hs_taskTrait s)) snapshots))
       (invalid_health ''snapshot set is unbounded, duplicated or ambiguous'')
     (bindR (mapR (\<lambda>s. bindR (timestamp (hs_evaluatedAt s)) (\<lambda>_.
          throw_if (\<not> snapshot_evidence_ok snapshot_hash s)
            (invalid_health ''snapshot hash or scope is invalid'') (Inr s))) snapshots) (\<lambda>_.
      Inr (list_all (\<lambda>trait.
        case List.find (\<lambda>s. hs_bindingHash s = bindingHash \<and> hs_taskTrait s = trait) snapshots of
          None \<Rightarrow> True | Some s \<Rightarrow> hs_normalRoutingAllowed s) traits)))"

section \<open>Invariant of the state machine\<close>

lemma last_n_length: "0 \<le> n \<Longrightarrow> int (length (last_n n xs)) \<le> n"
  by (simp add: last_n_def)

lemma last_n_set: "x \<in> set (last_n n xs) \<Longrightarrow> x \<in> set xs"
  by (auto simp: last_n_def dest: in_set_dropD)

lemma last_n_short: "int (length xs) \<le> n \<Longrightarrow> last_n n xs = xs"
  by (simp add: last_n_def)

lemma failure_rate_bounds: "0 \<le> failure_rate w \<and> failure_rate w \<le> 10000"
proof (cases "w = []")
  case False
  let ?f = "int (length (filter (\<lambda>v. failed_outcome (bo_outcome v)) w))"
  let ?n = "int (length w)"
  have n: "0 < ?n" and f: "?f \<le> ?n" using False by (simp_all add: length_filter_le)
  have "round_div (?f * 10000) ?n \<le> round_div (?n * 10000) ?n"
    using f by (intro round_div_mono [OF n]) simp
  moreover have "round_div (?n * 10000) ?n = 10000" by (rule round_div_exact [OF n])
  moreover have "round_div (?n * 0) ?n \<le> round_div (?f * 10000) ?n"
    by (intro round_div_mono [OF n]) simp
  moreover have "round_div (?n * 0) ?n = 0" by (rule round_div_exact [OF n])
  ultimately show ?thesis using False by (simp add: failure_rate_def)
qed (simp add: failure_rate_def)

definition health_inv :: "health_policy \<Rightarrow> health_state \<Rightarrow> bool" where
  "health_inv p st =
     ((st_status st = HEALTHY) = (st_quarantineTriggeredAt st = None) \<and>
      int (length (st_recent st)) \<le> hp_windowSize p \<and>
      0 \<le> st_consecutiveFailures st \<and>
      (st_status st = HEALTHY \<longrightarrow>
         st_consecutiveFailures st < hp_maximumConsecutiveFailures p \<and>
         list_all (\<lambda>v. \<not> critical_outcome (bo_outcome v)) (st_recent st) \<and>
         (int (length (st_recent st)) < hp_minimumObservations p \<or>
          failure_rate (st_recent st) \<le> hp_maximumFailureRateBasisPoints p)) \<and>
      (st_status st = QUARANTINED \<longrightarrow> st_recoveryCanarySuccesses st = 0) \<and>
      (st_status st = PROBATION \<longrightarrow>
         1 \<le> st_recoveryCanarySuccesses st \<and>
         st_recoveryCanarySuccesses st < hp_recoveryCanarySuccesses p))"

lemma health_inv_initial: "health_policy_ok p \<Longrightarrow> health_inv p initial_health"
  by (simp add: health_inv_def initial_health_def health_policy_ok_def int_between_def)

lemma healthy_step_inv:
  assumes "health_policy_ok p" "health_inv p st" "st_status st = HEALTHY"
  shows "health_inv p (healthy_step p st ob)"
proof -
  have w: "0 \<le> hp_windowSize p" using assms(1) by (simp add: health_policy_ok_def int_between_def)
  show ?thesis
    using assms last_n_length [OF w, of "st_recent st @ [ob]"]
      last_n_set [of _ "hp_windowSize p" "st_recent st @ [ob]"]
    by (auto simp: health_inv_def healthy_step_def Let_def list_all_iff not_le)
qed

lemma unhealthy_step_inv:
  assumes "health_policy_ok p" "health_inv p st" "st_status st \<noteq> HEALTHY"
  shows "health_inv p (unhealthy_step p st ob)"
  using assms
  by (cases "st_status st")
    (auto simp: health_inv_def unhealthy_step_def Let_def health_policy_ok_def int_between_def)

lemma health_step_inv:
  "health_policy_ok p \<Longrightarrow> health_inv p st \<Longrightarrow> health_inv p (health_step p st ob)"
  by (simp add: health_step_def healthy_step_inv unhealthy_step_inv)

interpretation health: replay_machine
  "\<lambda>st ob. if health_policy_ok p then Inr (health_step p st ob) else Inl INVALID_BINDING_HEALTH_EVIDENCE"
  "initial_health" "\<lambda>st. health_policy_ok p \<longrightarrow> health_inv p st" for p
  by unfold_locales (auto simp: health_inv_initial health_step_inv split: if_splits)

lemma health_run_foldR: "health_policy_ok p \<Longrightarrow>
   foldR (\<lambda>st ob. if health_policy_ok p then Inr (health_step p st ob)
      else Inl INVALID_BINDING_HEALTH_EVIDENCE) st obs = Inr (foldl (health_step p) st obs)"
  by (induction obs arbitrary: st) simp_all

lemma health_run_inv: "health_policy_ok p \<Longrightarrow> health_inv p (health_run p obs)"
  using health.replay_inv [OF health_run_foldR, of p obs] by (simp add: health_run_def)

section \<open>Recovery\<close>

definition recovery_canary :: "int \<Rightarrow> observation \<Rightarrow> bool" where
  "recovery_canary t ob = (bo_outcome ob = CANARY_ACCEPTED \<and> t \<le> time_value (bo_recordedAt ob))"

definition time_sorted :: "observation list \<Rightarrow> bool" where
  "time_sorted obs = sorted_wrt (\<lambda>a b. time_value (bo_recordedAt a) \<le> time_value (bo_recordedAt b)) obs"

definition canaries :: "int \<Rightarrow> observation list \<Rightarrow> int" where
  "canaries t obs = int (length (filter (recovery_canary t) obs))"

lemma canaries_simps [simp]:
  "canaries t [] = 0"
  "canaries t (x # xs) = (if recovery_canary t x then 1 else 0) + canaries t xs"
  by (simp_all add: canaries_def)

lemma canaries_nonneg [simp]: "0 \<le> canaries t obs"
  by (simp add: canaries_def)

lemma canaries_anti: "s \<le> t \<Longrightarrow> canaries t obs \<le> canaries s obs"
  by (induction obs) (auto simp: recovery_canary_def)

lemma recovery_counts:
  assumes "time_sorted obs" and "health_inv p st" and "health_policy_ok p"
    and "st_status st \<noteq> HEALTHY"
    and "\<forall>ob \<in> set obs. cooldown_end p (st_quarantineTriggeredAt st) \<le>
           time_value (bo_recordedAt ob) + hp_cooldownSeconds p * 1000"
    and "st_status (foldl (health_step p) st obs) = HEALTHY"
  shows "hp_recoveryCanarySuccesses p \<le>
    st_recoveryCanarySuccesses st + canaries (cooldown_end p (st_quarantineTriggeredAt st)) obs"
  using assms
proof (induction obs arbitrary: st)
  case Nil
  then show ?case by simp
next
  case (Cons ob obs)
  let ?st = "health_step p st ob"
  let ?c = "cooldown_end p (st_quarantineTriggeredAt st)"
  have srt: "time_sorted obs" and le: "\<forall>b \<in> set obs. time_value (bo_recordedAt ob) \<le> time_value (bo_recordedAt b)"
    using Cons.prems(1) by (auto simp: time_sorted_def)
  have inv: "health_inv p ?st" by (rule health_step_inv [OF Cons.prems(3,2)])
  have step: "?st = unhealthy_step p st ob" using Cons.prems(4) by (simp add: health_step_def)
  have fin: "st_status (foldl (health_step p) ?st obs) = HEALTHY" using Cons.prems(6) by simp
  consider (fail) "failed_outcome (bo_outcome ob)"
    | (canary) "\<not> failed_outcome (bo_outcome ob)" "recovery_canary ?c ob"
    | (other) "\<not> failed_outcome (bo_outcome ob)" "\<not> recovery_canary ?c ob" by blast
  then show ?case
  proof cases
    case fail
    then have st: "st_status ?st \<noteq> HEALTHY" "st_recoveryCanarySuccesses ?st = 0"
      "st_quarantineTriggeredAt ?st = Some (bo_recordedAt ob)"
      by (simp_all add: step unhealthy_step_def)
    have c: "?c \<le> cooldown_end p (st_quarantineTriggeredAt ?st)"
      using Cons.prems(5) by (simp add: st cooldown_end_def)
    have "hp_recoveryCanarySuccesses p \<le> 0 + canaries (cooldown_end p (st_quarantineTriggeredAt ?st)) obs"
      using Cons.IH [OF srt inv Cons.prems(3) st(1) _ fin] le st by (simp add: cooldown_end_def)
    moreover have "0 \<le> st_recoveryCanarySuccesses st"
      using Cons.prems(2,4) by (cases "st_status st") (simp_all add: health_inv_def)
    moreover have "canaries (cooldown_end p (st_quarantineTriggeredAt ?st)) obs \<le> canaries ?c (ob # obs)"
      using canaries_anti [OF c, of obs] by simp
    ultimately show ?thesis by linarith
  next
    case canary
    let ?n = "st_recoveryCanarySuccesses st + 1"
    show ?thesis
    proof (cases "hp_recoveryCanarySuccesses p \<le> ?n")
      case True
      have "canaries ?c (ob # obs) = 1 + canaries ?c obs" using canary(2) by simp
      with True canaries_nonneg [of ?c obs] show ?thesis by linarith
    next
      case False
      then have st: "st_status ?st \<noteq> HEALTHY" "st_recoveryCanarySuccesses ?st = ?n"
        "st_quarantineTriggeredAt ?st = st_quarantineTriggeredAt st"
        using canary by (simp_all add: step unhealthy_step_def recovery_canary_def)
      show ?thesis
        using Cons.IH [OF srt inv Cons.prems(3) st(1) _ fin] Cons.prems(5) canary(2) by (simp add: st)
    qed
  next
    case other
    then have "?st = st" by (auto simp: step unhealthy_step_def recovery_canary_def)
    then show ?thesis
      using Cons.IH [OF srt inv Cons.prems(3) _ _ fin] Cons.prems(4,5) other(2) by simp
  qed
qed

lemma failure_quarantines:
  assumes "critical_outcome (bo_outcome ob)"
  shows "st_status (health_step p st ob) = QUARANTINED"
    and "st_quarantineTriggeredAt (health_step p st ob) = Some (bo_recordedAt ob)"
    and "st_recoveryCanarySuccesses (health_step p st ob) = 0"
proof -
  have f: "failed_outcome (bo_outcome ob)"
    using assms by (cases "bo_outcome ob") (simp_all add: critical_outcome_def)
  show "st_status (health_step p st ob) = QUARANTINED"
    and "st_quarantineTriggeredAt (health_step p st ob) = Some (bo_recordedAt ob)"
    and "st_recoveryCanarySuccesses (health_step p st ob) = 0"
    using assms f by (simp_all add: health_step_def healthy_step_def unhealthy_step_def Let_def)
qed

lemma critical_recovery:
  assumes p: "health_policy_ok p" and srt: "time_sorted (pre @ ob # post)"
    and crit: "critical_outcome (bo_outcome ob)"
    and fin: "st_status (health_run p (pre @ ob # post)) = HEALTHY"
  shows "hp_recoveryCanarySuccesses p \<le>
    canaries (time_value (bo_recordedAt ob) + hp_cooldownSeconds p * 1000) post"
proof -
  let ?st = "health_step p (health_run p pre) ob"
  note q = failure_quarantines [OF crit, of p "health_run p pre"]
  have inv: "health_inv p ?st" by (rule health_step_inv [OF p health_run_inv [OF p]])
  have srt': "time_sorted post" and le: "\<forall>b \<in> set post. time_value (bo_recordedAt ob) \<le> time_value (bo_recordedAt b)"
    using srt by (auto simp: time_sorted_def sorted_wrt_append)
  have fin': "st_status (foldl (health_step p) ?st post) = HEALTHY"
    using fin by (simp add: health_run_def)
  have "hp_recoveryCanarySuccesses p \<le> st_recoveryCanarySuccesses ?st +
      canaries (cooldown_end p (st_quarantineTriggeredAt ?st)) post"
    by (rule recovery_counts [OF srt' inv p _ _ fin']) (use le in \<open>auto simp: q cooldown_end_def\<close>)
  then show ?thesis by (simp add: q cooldown_end_def)
qed

section \<open>Evaluation\<close>

lemma mapR_loadObservation: "mapR (loadObservation h) obs = Inr obs' \<Longrightarrow>
    obs' = obs \<and> list_all (\<lambda>v. loadObservation h v = Inr v) obs"
  by (induction obs arbitrary: obs') (auto dest: loadObservation_id)

lemma observation_order_total:
  assumes "total_comparison lc"
  shows "total_comparison (observation_order lc)"
  using assms unfolding total_comparison_def observation_order_def Let_def
  by (smt (verit, ccfv_threshold))

lemma sorted_time: 
  assumes "total_comparison lc"
  shows "time_sorted (js_sort (observation_order lc) obs)"
  unfolding time_sorted_def
  by (rule sorted_wrt_mono_rel [OF _ js_sort_sorted [OF observation_order_total [OF assms]]])
    (auto simp: observation_order_def Let_def split: if_splits)

lemma evaluate_Inr:
  assumes "evaluateRuntimeBindingHealthV4 oh ph sh lc i = Inr s"
  obtains t where "canonical_time (hi_evaluatedAt i) = Some t"
    and "health_policy_ok (effective_policy i)"
    and "s = snapshot_of sh i (ph (effective_policy i)) t
           (js_sort (observation_order lc) (hi_observations i))"
    and "list_all (\<lambda>v. loadObservation oh v = Inr v) (hi_observations i)"
    and "distinct (map bo_observationId (js_sort (observation_order lc) (hi_observations i)))"
    and "\<forall>v \<in> set (hi_observations i). bo_bindingHash v = hi_bindingHash i \<and>
           bo_taskTrait v = hi_taskTrait i \<and> time_value (bo_recordedAt v) \<le> t"
    and "is_hash (hi_bindingHash i)"
proof -
  from assms obtain t obs' where t: "timestamp (hi_evaluatedAt i) = Inr t"
    and ok: "health_policy_ok (effective_policy i)" and b: "is_hash (hi_bindingHash i)"
    and l: "mapR (loadObservation oh) (hi_observations i) = Inr obs'"
    and d: "distinct (map bo_observationId (js_sort (observation_order lc) obs'))"
    and e: "\<not> list_ex (\<lambda>v. bo_bindingHash v \<noteq> hi_bindingHash i \<or> bo_taskTrait v \<noteq> hi_taskTrait i \<or>
           time_value (bo_recordedAt v) > t) (js_sort (observation_order lc) obs')"
    and s: "s = snapshot_of sh i (ph (effective_policy i)) t (js_sort (observation_order lc) obs')"
    unfolding evaluateRuntimeBindingHealthV4_def Let_def verifyPolicy_def by auto
  from mapR_loadObservation [OF l] have "obs' = hi_observations i"
    and ld: "list_all (\<lambda>v. loadObservation oh v = Inr v) (hi_observations i)" by auto
  with t ok b d e s show thesis
    by (intro that [of t]) (auto simp: timestamp_def list_ex_iff not_less split: option.splits)
qed

lemma snapshot_of_fields [simp]:
  "hs_status (snapshot_of sh i ph t obs) = st_status (health_run (effective_policy i) obs)"
  "hs_normalRoutingAllowed (snapshot_of sh i ph t obs) =
     (st_status (health_run (effective_policy i) obs) = HEALTHY)"
  "hs_snapshotHash (snapshot_of sh i ph t obs) =
     sh (health_snapshot_body.truncate (snapshot_of sh i ph t obs))"
  "hs_bindingHash (snapshot_of sh i ph t obs) = hi_bindingHash i"
  "hs_taskTrait (snapshot_of sh i ph t obs) = hi_taskTrait i"
  "hs_evaluatedAt (snapshot_of sh i ph t obs) = hi_evaluatedAt i"
  "hs_consecutiveFailures (snapshot_of sh i ph t obs) =
     st_consecutiveFailures (health_run (effective_policy i) obs)"
  "hs_quarantineTriggeredAt (snapshot_of sh i ph t obs) =
     st_quarantineTriggeredAt (health_run (effective_policy i) obs)"
  "hs_failureRateBasisPoints (snapshot_of sh i ph t obs) =
     failure_rate (last_n (hp_windowSize (effective_policy i)) (st_recent (health_run (effective_policy i) obs)))"
  by (simp_all add: snapshot_of_def Let_def health_snapshot_body.defs health_snapshot.defs)


text \<open>What the routing gate has checked when it answers.\<close>

lemma gate_evidence:
  assumes "runtimeBindingHealthAllowsV4 sh snapshots h traits = Inr r"
  shows "length snapshots \<le> 128" and "distinct (map hs_snapshotHash snapshots)"
    and "distinct (map (\<lambda>s. (hs_bindingHash s, hs_taskTrait s)) snapshots)"
    and "s \<in> set snapshots \<Longrightarrow> snapshot_evidence_ok sh s"
proof -
  show "length snapshots \<le> 128" and "distinct (map hs_snapshotHash snapshots)"
    and "distinct (map (\<lambda>s. (hs_bindingHash s, hs_taskTrait s)) snapshots)"
    using assms by (auto simp: runtimeBindingHealthAllowsV4_def)
  from assms have "is_ok (mapR (\<lambda>s. bindR (timestamp (hs_evaluatedAt s)) (\<lambda>_.
          throw_if (\<not> snapshot_evidence_ok sh s)
            (invalid_health ''snapshot hash or scope is invalid'') (Inr s))) snapshots)"
    by (auto simp: runtimeBindingHealthAllowsV4_def is_ok_iff)
  then show "s \<in> set snapshots \<Longrightarrow> snapshot_evidence_ok sh s"
    by (auto simp: is_ok_iff mapR_Inr_iff list_all2_conv_all_nth in_set_conv_nth)
qed

lemma gate_blocks:
  assumes "runtimeBindingHealthAllowsV4 sh snapshots h traits = Inr True"
    and "s \<in> set snapshots" and "hs_bindingHash s = h" and "hs_taskTrait s \<in> set traits"
  shows "hs_normalRoutingAllowed s"
proof -
  let ?P = "\<lambda>v. hs_bindingHash v = h \<and> hs_taskTrait v = hs_taskTrait s"
  note d = gate_evidence(3) [OF assms(1)]
  from assms(1) have a: "list_all (\<lambda>trait.
        case List.find (\<lambda>s. hs_bindingHash s = h \<and> hs_taskTrait s = trait) snapshots of
          None \<Rightarrow> True | Some s \<Rightarrow> hs_normalRoutingAllowed s) traits"
    by (auto simp: runtimeBindingHealthAllowsV4_def)
  from assms(2,3) obtain v where v: "List.find ?P snapshots = Some v"
    by (metis (mono_tags, lifting) find_None_iff2 option.exhaust)
  then have "v \<in> set snapshots" and "?P v" by (auto simp: find_Some_iff)
  with d assms(2,3) have "v = s" by (auto simp: distinct_map dest: inj_onD)
  with v a assms(4) show ?thesis by (auto simp: list_all_iff)
qed

section \<open>Properties\<close>

lemma snapshot_recent_window:
  assumes "health_policy_ok p"
  shows "last_n (hp_windowSize p) (st_recent (health_run p obs)) = st_recent (health_run p obs)"
  using health_run_inv [OF assms, of obs] by (intro last_n_short) (simp add: health_inv_def)

text \<open>
  A snapshot that opens normal routing is the snapshot of a healthy history: no quarantine is
  pending, the consecutive failures are below the policy's limit, the failure rate is within the
  policy's limit or too few observations count, and the stored hash is the hash of the snapshot's
  body. Every snapshot's failure rate is between 0 and 10000 basis points.
\<close>
theorem health_snapshot_sound:
  assumes "evaluateRuntimeBindingHealthV4 oh ph sh lc i = Inr s"
  shows "(hs_normalRoutingAllowed s \<longleftrightarrow> hs_status s = HEALTHY) \<and>
    (hs_normalRoutingAllowed s \<longleftrightarrow> hs_quarantineTriggeredAt s = None) \<and>
    (hs_normalRoutingAllowed s \<longrightarrow>
       hs_consecutiveFailures s < hp_maximumConsecutiveFailures (effective_policy i) \<and>
       (int (length (st_recent (health_run (effective_policy i)
          (js_sort (observation_order lc) (hi_observations i)))))
             < hp_minimumObservations (effective_policy i) \<or>
        hs_failureRateBasisPoints s \<le> hp_maximumFailureRateBasisPoints (effective_policy i))) \<and>
    0 \<le> hs_failureRateBasisPoints s \<and> hs_failureRateBasisPoints s \<le> 10000 \<and>
    snapshot_evidence_ok sh s"
proof -
  let ?p = "effective_policy i"
  let ?obs = "js_sort (observation_order lc) (hi_observations i)"
  from assms obtain t where ok: "health_policy_ok ?p" and b: "is_hash (hi_bindingHash i)"
    and s: "s = snapshot_of sh i (ph ?p) t ?obs" by (rule evaluate_Inr)
  from health_run_inv [OF ok, of ?obs] have inv: "health_inv ?p (health_run ?p ?obs)" .
  show ?thesis
    using inv failure_rate_bounds [of "st_recent (health_run ?p ?obs)"] b
    unfolding health_inv_def
    by (simp add: s snapshot_recent_window [OF ok] snapshot_evidence_ok_def)
qed

text \<open>
  C34. After an authority violation or a false acceptance, a binding is routed to again only if the
  history holds at least the required number of accepted canaries, each recorded at least the
  cooldown after the violation: ordinary successes never lift a quarantine.
\<close>
theorem critical_evidence_needs_canaries:
  assumes "evaluateRuntimeBindingHealthV4 oh ph sh lc i = Inr s"
    and "total_comparison lc"
    and "ob \<in> set (hi_observations i)" and "critical_outcome (bo_outcome ob)"
    and "hs_normalRoutingAllowed s"
  shows "hp_recoveryCanarySuccesses (effective_policy i) \<le>
    canaries (time_value (bo_recordedAt ob) + hp_cooldownSeconds (effective_policy i) * 1000)
      (hi_observations i)"
proof -
  let ?p = "effective_policy i"
  let ?obs = "js_sort (observation_order lc) (hi_observations i)"
  let ?c = "time_value (bo_recordedAt ob) + hp_cooldownSeconds ?p * 1000"
  from assms(1) obtain t where ok: "health_policy_ok ?p"
    and s: "s = snapshot_of sh i (ph ?p) t ?obs" by (rule evaluate_Inr)
  from assms(3) have "ob \<in> set ?obs" by simp
  then obtain pre post where obs: "?obs = pre @ ob # post" by (metis split_list)
  have "hp_recoveryCanarySuccesses ?p \<le> canaries ?c post"
    by (rule critical_recovery [OF ok _ assms(4)])
      (use assms(5) sorted_time [OF assms(2), of "hi_observations i"] in \<open>simp_all add: s obs\<close>)
  also have "\<dots> \<le> canaries ?c (pre @ ob # post)" by (simp add: canaries_def)
  also have "\<dots> = canaries ?c (hi_observations i)"
    unfolding obs [symmetric] by (simp add: canaries_def length_filter_js_sort)
  finally show ?thesis .
qed

text \<open>
  C35. The evaluation does not depend on the order in which the observations are handed over: two
  permutations of the same evidence give the same snapshot, as long as the locale comparison tells
  two different observation identifiers apart.
\<close>
theorem health_order_independent:
  assumes "evaluateRuntimeBindingHealthV4 oh ph sh lc i = Inr s"
    and "total_comparison lc"
    and "\<And>a b. tagged_id ''health_'' 8 96 a \<Longrightarrow> tagged_id ''health_'' 8 96 b \<Longrightarrow>
           lc a b \<le> 0 \<Longrightarrow> lc b a \<le> 0 \<Longrightarrow> a = b"
    and "mset obs = mset (hi_observations i)"
  shows "evaluateRuntimeBindingHealthV4 oh ph sh lc (i\<lparr>hi_observations := obs\<rparr>) = Inr s"
proof -
  let ?o = "observation_order lc"
  have sets: "set obs = set (hi_observations i)" using assms(4) by (metis set_mset_mset)
  from assms(1) obtain t where t: "canonical_time (hi_evaluatedAt i) = Some t"
    and ok: "health_policy_ok (effective_policy i)" and b: "is_hash (hi_bindingHash i)"
    and s: "s = snapshot_of sh i (ph (effective_policy i)) t (js_sort ?o (hi_observations i))"
    and ld: "list_all (\<lambda>v. loadObservation oh v = Inr v) (hi_observations i)"
    and d: "distinct (map bo_observationId (js_sort ?o (hi_observations i)))"
    and e: "\<forall>v \<in> set (hi_observations i). bo_bindingHash v = hi_bindingHash i \<and>
           bo_taskTrait v = hi_taskTrait i \<and> time_value (bo_recordedAt v) \<le> t"
    by (rule evaluate_Inr)
  have ids: "tagged_id ''health_'' 8 96 (bo_observationId v)" if "v \<in> set obs" for v
    using ld that sets
    by (auto simp: list_all_iff loadObservation_def createRuntimeBindingHealthObservationV4_def
        observation_body.defs)
  have inj: "inj_on bo_observationId (set obs)"
    using d by (simp add: distinct_map sets)
  have srt: "js_sort ?o obs = js_sort ?o (hi_observations i)"
  proof (rule js_sort_unique [OF observation_order_total [OF assms(2)] assms(4)])
    fix x y
    assume xy: "x \<in> set obs" "y \<in> set obs" "?o x y \<le> 0" "?o y x \<le> 0"
    then have "lc (bo_observationId x) (bo_observationId y) \<le> 0"
      and "lc (bo_observationId y) (bo_observationId x) \<le> 0"
      by (auto simp: observation_order_def Let_def split: if_splits)
    then have "bo_observationId x = bo_observationId y"
      by (rule assms(3) [OF ids [OF xy(1)] ids [OF xy(2)]])
    with inj xy show "x = y" by (auto dest: inj_onD)
  qed
  have ld': "mapR (loadObservation oh) obs = Inr obs"
    using ld sets by (intro mapR_same) (simp add: list_all_iff)
  have eff: "effective_policy (i\<lparr>hi_observations := obs\<rparr>) = effective_policy i"
    by (simp add: effective_policy_def)
  have "evaluateRuntimeBindingHealthV4 oh ph sh lc (i\<lparr>hi_observations := obs\<rparr>) =
      Inr (snapshot_of sh (i\<lparr>hi_observations := obs\<rparr>) (ph (effective_policy i)) t
        (js_sort ?o (hi_observations i)))"
    using t ok b d e unfolding evaluateRuntimeBindingHealthV4_def
    by (simp add: Let_def eff ld' srt timestamp_def verifyPolicy_def throw_if_def list_ex_iff not_less)
  also have "\<dots> = Inr s"
    by (simp add: s snapshot_of_def Let_def eff)
  finally show ?thesis .
qed

text \<open>
  The routing gate lets a binding through only if no snapshot of that binding on one of the
  requested traits forbids normal routing, and only on evidence whose hashes verify.
\<close>
theorem health_gate_blocks:
  assumes "runtimeBindingHealthAllowsV4 sh snapshots h traits = Inr True"
    and "s \<in> set snapshots" and "hs_bindingHash s = h" and "hs_taskTrait s \<in> set traits"
  shows "hs_normalRoutingAllowed s \<and> snapshot_evidence_ok sh s"
  using gate_blocks [OF assms] gate_evidence(4) [OF assms(1,2)] by (rule conjI)

section \<open>Witnesses\<close>

definition sample_observation :: "string \<Rightarrow> string \<Rightarrow> health_outcome \<Rightarrow> observation" where
  "sample_observation n time oc = \<lparr>bo_observationId = ''health_0000000'' @ n,
     bo_bindingHash = replicate 64 CHR ''b'', bo_taskTrait = localized, bo_recordedAt = time,
     bo_outcome = oc, bo_observationHash = replicate 64 CHR ''c''\<rparr>"

definition sample_health_input :: "health_input" where
  "sample_health_input = \<lparr>hi_bindingHash = replicate 64 CHR ''b'', hi_taskTrait = localized,
     hi_observations =
       [sample_observation ''2'' ''2026-01-01T02:00:00.000Z'' CANARY_ACCEPTED,
        sample_observation ''1'' ''2026-01-01T00:00:00.000Z'' FALSE_ACCEPTANCE],
     hi_policy = Some \<lparr>hp_windowSize = 20, hp_minimumObservations = 5,
       hp_maximumFailureRateBasisPoints = 4000, hp_maximumConsecutiveFailures = 2,
       hp_cooldownSeconds = 3600, hp_recoveryCanarySuccesses = 1\<rparr>,
     hi_evaluatedAt = ''2026-01-02T00:00:00.000Z''\<rparr>"

definition sample_snapshot :: "health_snapshot" where
  "sample_snapshot = snapshot_of (const_hash CHR ''e'') sample_health_input
     (replicate 64 CHR ''d'') 1767312000000 (rev (hi_observations sample_health_input))"

lemma sample_times:
  "canonical_time ''2026-01-01T00:00:00.000Z'' = Some 1767225600000"
  "canonical_time ''2026-01-01T02:00:00.000Z'' = Some 1767232800000"
  "canonical_time ''2026-01-02T00:00:00.000Z'' = Some 1767312000000"
  by code_simp+


lemma sample_time_values [simp]:
  "time_value ''2026-01-01T00:00:00.000Z'' = 1767225600000"
  "time_value ''2026-01-01T02:00:00.000Z'' = 1767232800000"
  by (simp_all add: time_value_def sample_times)

lemma sample_ids:
  "tagged_id ''health_'' 8 96 ''health_00000001''"
  "tagged_id ''health_'' 8 96 ''health_00000002''"
  by code_simp+

lemma sample_loads:
  "loadObservation (const_hash CHR ''c'') (sample_observation ''1'' ''2026-01-01T00:00:00.000Z'' FALSE_ACCEPTANCE)
    = Inr (sample_observation ''1'' ''2026-01-01T00:00:00.000Z'' FALSE_ACCEPTANCE)"
  "loadObservation (const_hash CHR ''c'') (sample_observation ''2'' ''2026-01-01T02:00:00.000Z'' CANARY_ACCEPTED)
    = Inr (sample_observation ''2'' ''2026-01-01T02:00:00.000Z'' CANARY_ACCEPTED)"
  by (simp_all add: loadObservation_def createRuntimeBindingHealthObservationV4_def throw_if_def
      const_hash_def sample_observation_def observation_body.defs observation.defs sample_ids
      timestamp_def sample_times lower_hex_def)

lemma sample_evaluation:
  "evaluateRuntimeBindingHealthV4 (const_hash CHR ''c'') (const_hash CHR ''d'')
     (const_hash CHR ''e'') compare_code_units sample_health_input = Inr sample_snapshot"
  by (simp add: evaluateRuntimeBindingHealthV4_def sample_snapshot_def sample_health_input_def
      sample_loads timestamp_def sample_times verifyPolicy_def effective_policy_def health_policy_ok_def
      int_between_def throw_if_def lower_hex_def Let_def observation_order_def)
    (simp add: sample_observation_def const_hash_def)

lemma sample_allowed: "hs_normalRoutingAllowed sample_snapshot" 
  by (simp add: sample_snapshot_def sample_health_input_def effective_policy_def health_run_def
      health_step_def healthy_step_def unhealthy_step_def initial_health_def sample_observation_def
      critical_outcome_def cooldown_end_def Let_def)

theorem health_snapshot_sound_witness:
  "hs_normalRoutingAllowed sample_snapshot \<and> hs_quarantineTriggeredAt sample_snapshot = None"
  using health_snapshot_sound [OF sample_evaluation] sample_allowed by blast

theorem critical_evidence_needs_canaries_witness:
  "(1 :: int) \<le> canaries (1767225600000 + 3600 * 1000) (hi_observations sample_health_input)"
  using critical_evidence_needs_canaries [OF sample_evaluation total_comparison_code_units _ _ sample_allowed,
      of "sample_observation ''1'' ''2026-01-01T00:00:00.000Z'' FALSE_ACCEPTANCE"]
  by (simp add: sample_health_input_def sample_observation_def critical_outcome_def
      effective_policy_def time_value_def sample_times)

theorem health_order_independent_witness:
  "evaluateRuntimeBindingHealthV4 (const_hash CHR ''c'') (const_hash CHR ''d'')
     (const_hash CHR ''e'') compare_code_units
     (sample_health_input\<lparr>hi_observations := rev (hi_observations sample_health_input)\<rparr>) = Inr sample_snapshot"
  by (rule health_order_independent [OF sample_evaluation total_comparison_code_units])
    (auto dest: compare_code_units_antisym)

theorem health_gate_blocks_witness:
  "hs_normalRoutingAllowed sample_snapshot"
proof -
  have "snapshot_evidence_ok (const_hash CHR ''e'') sample_snapshot"
    by (simp add: snapshot_evidence_ok_def sample_snapshot_def sample_health_input_def lower_hex_def)
  then have "runtimeBindingHealthAllowsV4 (const_hash CHR ''e'') [sample_snapshot] (replicate 64 CHR ''b'')
      [localized] = Inr True"
    using sample_allowed
    by (simp add: runtimeBindingHealthAllowsV4_def throw_if_def timestamp_def sample_times
        sample_snapshot_def sample_health_input_def)
  from health_gate_blocks [OF this, of sample_snapshot] show ?thesis
    by (simp add: sample_snapshot_def sample_health_input_def)
qed

end
