(* ===== verification/Contract_Schemas.thy ===== *)
theory Contract_Schemas
  imports Contracts
begin

text \<open>
  The contract schemas of \<open>src/runtime/contract-schemas.ts\<close> as predicates on the records of
  \<open>Contracts\<close>: a value the loader accepts is a value on which the predicate holds (unknown and
  missing properties are excluded by the record types). First the path grammar that every write
  authority goes through, then one predicate per schema, then what an accepted contract guarantees:
  its paths have no empty, \<open>.\<close> or \<open>..\<close> segment, acceptance tests are never writable, and the
  allowed changes are the implementation targets up to order.
\<close>

section \<open>Repository-relative paths\<close>

definition prohibited_path_char :: "char \<Rightarrow> bool" where
  "prohibited_path_char c = (c = CHR 0x00 \<or> c = CHR 0x5C \<or> c \<in> set '':*?<>|[]{}'' \<or> c = CHR 0x22)"

definition line_terminator :: "char \<Rightarrow> bool" where
  "line_terminator c = (c = CHR 0x0A \<or> c = CHR 0x0D)"

definition reserved_device_names :: "string list" where
  "reserved_device_names = [''con'', ''prn'', ''aux'', ''nul'',
     ''com1'', ''com2'', ''com3'', ''com4'', ''com5'', ''com6'', ''com7'', ''com8'', ''com9'',
     ''lpt1'', ''lpt2'', ''lpt3'', ''lpt4'', ''lpt5'', ''lpt6'', ''lpt7'', ''lpt8'', ''lpt9'']"

definition windows_reserved_device_name :: "string \<Rightarrow> bool" where
  "windows_reserved_device_name s = list_ex (\<lambda>n. starts_with (to_lower s) n \<and>
     (case drop (length n) s of [] \<Rightarrow> True
      | c # cs \<Rightarrow> c = CHR ''.'' \<and> list_all (\<lambda>x. \<not> line_terminator x) cs)) reserved_device_names"

definition path_segment_ok :: "string \<Rightarrow> bool" where
  "path_segment_ok seg = (seg \<noteq> [] \<and> seg \<noteq> ''.'' \<and> seg \<noteq> ''..'' \<and>
     list_all (\<lambda>c. \<not> prohibited_path_char c) seg \<and>
     \<not> (seg \<noteq> [] \<and> (last seg = CHR ''.'' \<or> last seg = CHR '' '')) \<and>
     \<not> windows_reserved_device_name seg)"

definition isNormalizedRepositoryRelativePathV4 :: "string \<Rightarrow> bool" where
  "isNormalizedRepositoryRelativePathV4 v =
     (if v = [] \<or> starts_with v ''/'' then False
      else list_all path_segment_ok (split_on CHR ''/'' v))"

definition spec_or_test_file :: "string \<Rightarrow> bool" where
  "spec_or_test_file v = (ends_with v ''.spec.ts'' \<or> ends_with v ''.spec.tsx'' \<or>
     ends_with v ''.test.ts'' \<or> ends_with v ''.test.tsx'')"

definition typescript_file :: "string \<Rightarrow> bool" where
  "typescript_file v = (ends_with v ''.ts'' \<or> ends_with v ''.tsx'')"

definition acceptance_test_path_ok :: "string \<Rightarrow> bool" where
  "acceptance_test_path_ok v = (isNormalizedRepositoryRelativePathV4 v \<and> spec_or_test_file v)"

definition operations_ok :: "change_operation list \<Rightarrow> bool" where
  "operations_ok ops = (distinct ops \<and> ops \<noteq> [])"

definition allowed_change_ok :: "allowed_change \<Rightarrow> bool" where
  "allowed_change_ok c =
     (isNormalizedRepositoryRelativePathV4 (ac_path c) \<and> operations_ok (ac_operations c))"

definition implementation_target_ok :: "allowed_change \<Rightarrow> bool" where
  "implementation_target_ok c = (allowed_change_ok c \<and>
     typescript_file (ac_path c) \<and> \<not> spec_or_test_file (ac_path c))"

section \<open>Strict test-driven policy\<close>

fun operation_string :: "change_operation \<Rightarrow> string" where
  "operation_string CREATE = ''CREATE''"
| "operation_string MODIFY = ''MODIFY''"
| "operation_string DELETE = ''DELETE''"

definition changeKey :: "allowed_change \<Rightarrow> string" where
  "changeKey c = ac_path c @ CHR 0x00 #
     join_with CHR '','' (sort_strings (map operation_string (ac_operations c)))"

definition refineSddStrictPolicy ::
    "allowed_change list \<Rightarrow> string list \<Rightarrow> allowed_change list \<Rightarrow> bool" where
  "refineSddStrictPolicy allowed tests targets =
     (distinct (map to_lower tests) \<and>
      distinct (map (to_lower \<circ> ac_path) targets) \<and>
      list_all (\<lambda>t. t \<notin> set (map (to_lower \<circ> ac_path) targets)) (map to_lower tests) \<and>
      sort_strings (map changeKey allowed) = sort_strings (map changeKey targets))"

section \<open>The schemas\<close>

definition identifier_ok :: "string \<Rightarrow> bool" where
  "identifier_ok s = bounded_length 1 128 s"

definition sha_ok :: "string \<Rightarrow> bool" where
  "sha_ok s = (bounded_length 40 64 s \<and> list_all lower_hex s)"

definition run_id_ok :: "string \<Rightarrow> bool" where
  "run_id_ok s = tagged_id ''run_'' 16 96 s"

definition request_id_ok :: "string \<Rightarrow> bool" where
  "request_id_ok s = tagged_id ''req_'' 16 96 s"

definition lower_alnum :: "char \<Rightarrow> bool" where
  [char_class]: "lower_alnum c = (c \<in> set ''0123456789abcdefghijklmnopqrstuvwxyz'')"

definition repository_id_ok :: "string \<Rightarrow> bool" where
  "repository_id_ok s = lead_class lower_alnum (\<lambda>c. lower_alnum c \<or> c \<in> set ''._-'') 127 s"

definition remote_ok :: "string \<Rightarrow> bool" where
  "remote_ok s = lead_class alnum (\<lambda>c. alnum c \<or> c \<in> set ''._-'') 63 s"

definition unique_between :: "nat \<Rightarrow> nat \<Rightarrow> ('a \<Rightarrow> bool) \<Rightarrow> 'a list \<Rightarrow> bool" where
  "unique_between lo hi P xs = (list_all P xs \<and> lo \<le> length xs \<and> length xs \<le> hi \<and> distinct xs)"

definition execution_requirements_ok :: "execution_requirements \<Rightarrow> bool" where
  "execution_requirements_ok r =
     (unique_between 1 9 (\<lambda>_. True) (er_taskTraits r) \<and>
      int_between 0 16777216 (er_contextBytes r) \<and>
      int_between 1 64 (er_acceptanceCriteriaCount r))"

definition task_request_fields_ok :: "'a task_request_scheme \<Rightarrow> bool" where
  "task_request_fields_ok r =
     (identifier_ok (tr_task_id r) \<and> request_id_ok (tr_request_id r) \<and>
      repository_id_ok (tr_repository_id r) \<and> bounded_length 1 4000 (tr_objective r) \<and>
      identifier_ok (tr_task_class r) \<and> identifier_ok (tr_requested_risk_class r) \<and>
      opt_all execution_requirements_ok (tr_execution_requirements r) \<and>
      list_between 1 256 allowed_change_ok (tr_allowed_changes r) \<and>
      unique_between 1 64 acceptance_test_path_ok (tr_acceptance_tests r) \<and>
      list_between 1 256 implementation_target_ok (tr_implementation_targets r) \<and>
      unique_between 1 64 identifier_ok (tr_allowed_validation_ids r) \<and>
      list_between 0 64 (bounded_length 0 2000) (tr_inputs r) \<and>
      list_between 0 64 (bounded_length 0 2000) (tr_constraints r) \<and>
      list_between 1 64 (bounded_length 0 2000) (tr_success_criteria r) \<and>
      int_between 1 256 (tr_max_files_changed r) \<and>
      int_between 1 100000 (tr_max_changed_lines r) \<and>
      int_between 1 3 (tr_max_attempts r) \<and>
      unique_between 0 64 identifier_ok (tr_prohibited_actions r))"

definition sdd_strict :: "'a task_request_scheme \<Rightarrow> bool" where
  "sdd_strict r = refineSddStrictPolicy (tr_allowed_changes r) (tr_acceptance_tests r)
     (tr_implementation_targets r)"

definition runtimeTaskRequestV4Schema :: "task_request \<Rightarrow> bool" where
  "runtimeTaskRequestV4Schema r = (task_request_fields_ok r \<and> sdd_strict r)"

definition execution_policy_ok :: "execution_policy \<Rightarrow> bool" where
  "execution_policy_ok p =
     (ep_executorRole p \<in> {executor, reasoningExecutor, frontierExecutor} \<and>
      unique_between 1 9 (\<lambda>_. True) (ep_taskTraits p) \<and>
      int_between 1 128 (ep_maxSteps p) \<and> int_between 1 256 (ep_maxToolUses p) \<and>
      int_between 1 32 (ep_maxNoMutationSteps p) \<and> int_between 30 3600 (ep_timeoutSeconds p) \<and>
      int_between 1 3 (ep_maxAttempts p) \<and>
      list_between 1 16 (bounded_length 1 2000) (ep_reasons p) \<and>
      opt_all (unique_between 0 128 is_hash) (ep_healthEvidenceHashes p) \<and>
      is_hash (ep_policyHash p))"

definition runtimeWorkContractV4Schema :: "work_contract \<Rightarrow> bool" where
  "runtimeWorkContractV4Schema c =
     (task_request_fields_ok c \<and>
      run_id_ok (wc_run_id c) \<and> is_hash (wc_repository_root_hash c) \<and> sha_ok (wc_base_sha c) \<and>
      identifier_ok (wc_effective_risk_class c) \<and>
      list_between 1 64 (bounded_length 1 2000) (wc_route_decision_reasons c) \<and>
      is_hash (wc_route_decision_hash c) \<and> opt_all execution_policy_ok (wc_execution_policy c) \<and>
      list_all (\<lambda>(k, h). identifier_ok k \<and> is_hash h) (wc_sandbox_profile_hashes c) \<and>
      wc_sandbox_profile_hashes c \<noteq> [] \<and>
      is_hash (wc_policy_hash c) \<and> is_hash (wc_profile_hash c) \<and> is_hash (wc_contract_hash c) \<and>
      sdd_strict c)"

definition failure_ok :: "runtime_failure \<Rightarrow> bool" where
  "failure_ok f = (bounded_length 1 2000 (rf_message f) \<and>
     unique_between 0 64 is_hash (rf_evidence_hashes f))"

text \<open>\<open>url_ok\<close> stands for the URL check of the schema library (zod's \<open>url()\<close>).\<close>

definition publication_ok :: "(string \<Rightarrow> bool) \<Rightarrow> publication \<Rightarrow> bool" where
  "publication_ok url_ok p =
     (opt_all remote_ok (pu_remote p) \<and> opt_all (bounded_length 1 192) (pu_base_branch p) \<and>
      opt_all (\<lambda>n. 0 < n \<and> safe_int n) (pu_pull_request p) \<and>
      opt_all (\<lambda>u. url_ok u \<and> starts_with u ''https://github.com/'' \<and> bounded_length 0 2048 u)
        (pu_pull_request_url p) \<and>
      opt_all sha_ok (pu_merge_commit_sha p))"

definition runtimeResultV4Schema :: "(string \<Rightarrow> bool) \<Rightarrow> runtime_result \<Rightarrow> bool" where
  "runtimeResultV4Schema url_ok r =
     (run_id_ok (rr_run_id r) \<and> request_id_ok (rr_request_id r) \<and> identifier_ok (rr_state r) \<and>
      is_hash (rr_route_decision_hash r) \<and> bounded_length 1 512 (rr_branch r) \<and>
      sha_ok (rr_base_sha r) \<and> opt_all sha_ok (rr_head_sha r) \<and> is_hash (rr_contract_hash r) \<and>
      is_hash (rr_policy_hash r) \<and> is_hash (rr_profile_hash r) \<and>
      list_between 0 3 (\<lambda>a. 0 < at_attempt a \<and> safe_int (at_attempt a) \<and> identifier_ok (at_executor_binding_ref a) \<and>
        is_hash (at_result_hash a)) (rr_attempts r) \<and>
      list_between 0 64 (\<lambda>v. identifier_ok (vr_validation_id v) \<and> safe_int (vr_exit_code v) \<and> is_hash (vr_result_hash v))
        (rr_validation_results r) \<and>
      is_hash (rr_diff_hash r) \<and> is_hash (rr_tree_hash r) \<and>
      unique_between 0 256 (bounded_length 1 512) (rr_changed_files r) \<and>
      opt_all is_hash (rr_review_attestation_hash r) \<and> opt_all sha_ok (rr_commit_sha r) \<and>
      publication_ok url_ok (rr_publication r) \<and> opt_all failure_ok (rr_failure r) \<and>
      is_hash (rr_artifact_manifest_hash r))"

definition created_at_ok :: "string \<Rightarrow> bool" where
  "created_at_ok s = (13 \<le> length s \<and>
     template_digits ''dddd-dd-ddT'' (take 11 s) \<noteq> None \<and> last s = CHR ''Z'' \<and>
     list_all (\<lambda>c. \<not> line_terminator c) (drop 11 (butlast s)))"

definition reviewAttestationV4Schema :: "review_attestation \<Rightarrow> bool" where
  "reviewAttestationV4Schema a =
     (identifier_ok (ra_review_id a) \<and> identifier_ok (ra_reviewer_binding_ref a) \<and>
      identifier_ok (ra_reviewer_session_id a) \<and> run_id_ok (ra_run_id a) \<and>
      is_hash (ra_contract_hash a) \<and> sha_ok (ra_base_sha a) \<and> is_hash (ra_reviewed_tree_hash a) \<and>
      is_hash (ra_reviewed_diff_hash a) \<and> is_hash (ra_validation_manifest_hash a) \<and>
      list_between 0 128 (\<lambda>f. identifier_ok (rv_id f) \<and> identifier_ok (rv_severity f) \<and>
        bounded_length 1 2000 (rv_message f)) (ra_findings a) \<and>
      unique_between 0 64 is_hash (ra_requested_context_hashes a) \<and>
      unique_between 0 128 identifier_ok (ra_unresolved_finding_ids a) \<and>
      created_at_ok (ra_created_at a) \<and> is_hash (ra_attestation_hash a) \<and>
      \<not> (ra_decision a = ACCEPT \<and> ra_unresolved_finding_ids a \<noteq> []) \<and>
      \<not> (ra_decision a = ACCEPT \<and> ra_requested_context_hashes a \<noteq> []))"

section \<open>Profiles and repository policies\<close>

definition reasoning_effort_ok :: "string \<Rightarrow> bool" where
  "reasoning_effort_ok s =
     lead_class (\<lambda>c. lower_alnum c \<and> \<not> c \<in> set ''0123456789'') (\<lambda>c. lower_alnum c \<or> c \<in> set ''_-'') 31 s"

definition model_guidance_ok :: "(string \<Rightarrow> bool) \<Rightarrow> model_guidance \<Rightarrow> bool" where
  "model_guidance_ok url_ok g =
     (identifier_ok (mg_id g) \<and> identifier_ok (mg_revision g) \<and>
      unique_between 1 8 (\<lambda>u. url_ok u \<and> bounded_length 0 2048 u \<and> starts_with u ''https://'')
        (mg_sourceUrls g) \<and>
      reasoning_effort_ok (mg_reasoningEffort g) \<and>
      opt_all (\<lambda>t. 0 \<le> t \<and> t \<le> 2) (mg_temperature g) \<and>
      int_between 1 128 (mg_maxSteps g) \<and>
      unique_between 0 16 (bounded_length 1 500) (mg_instructions g))"

definition binding_execution_ok :: "binding_execution \<Rightarrow> bool" where
  "binding_execution_ok e =
     (unique_between 1 9 (\<lambda>_. True) (be_supportedTaskTraits e) \<and>
      int_between 1 128 (be_maxSteps e) \<and> int_between 1 256 (be_maxToolUses e) \<and>
      int_between 1 32 (be_maxNoMutationSteps e) \<and> int_between 30 3600 (be_timeoutSeconds e))"

definition binding_ok :: "(string \<Rightarrow> bool) \<Rightarrow> binding \<Rightarrow> bool" where
  "binding_ok url_ok b =
     (identifier_ok (b_harness b) \<and> identifier_ok (b_provider b) \<and> identifier_ok (b_model b) \<and>
      identifier_ok (b_capability b) \<and> unique_between 1 1 (\<lambda>_. True) (b_allowedDataScopes b) \<and>
      unique_between 1 2 (\<lambda>_. True) (b_allowedSourceSensitivity b) \<and>
      model_guidance_ok url_ok (b_guidance b) \<and> opt_all binding_execution_ok (b_execution b))"

definition profile_roles :: "runtime_role list" where
  "profile_roles = [orchestrator, executor, reasoningExecutor, escalationExecutor,
     frontierExecutor, reviewer]"

fun expected_tier :: "runtime_role \<Rightarrow> tier" where
  "expected_tier orchestrator = frontier"
| "expected_tier executor = economy"
| "expected_tier reasoningExecutor = economy"
| "expected_tier escalationExecutor = economy"
| "expected_tier frontierExecutor = frontier"
| "expected_tier reviewer = frontier"

fun expected_permissions :: "runtime_role \<Rightarrow> permissions" where
  "expected_permissions orchestrator = read_only"
| "expected_permissions executor = contract_write"
| "expected_permissions reasoningExecutor = contract_write"
| "expected_permissions escalationExecutor = contract_write"
| "expected_permissions frontierExecutor = contract_write"
| "expected_permissions reviewer = read_only"

definition role_binding_ok :: "runtime_role \<Rightarrow> binding \<Rightarrow> bool" where
  "role_binding_ok role b =
     (b_tier b = expected_tier role \<and>
      b_permissions b = expected_permissions role \<and>
      \<not> (b_permissions b = contract_write \<and> b_execution b = None) \<and>
      (b_authentication b \<noteq> Some chatgpt_subscription \<or>
       \<not> (b_harness b \<noteq> ''codex'' \<or> b_permissions b \<noteq> read_only \<or>
          (role \<noteq> orchestrator \<and> role \<noteq> reviewer))))"

definition runtimeProfileV4Schema :: "(string \<Rightarrow> bool) \<Rightarrow> runtime_profile \<Rightarrow> bool" where
  "runtimeProfileV4Schema url_ok p =
     (identifier_ok (rp_id p) \<and>
      list_all (\<lambda>role. opt_all (binding_ok url_ok) (profile_binding p role)) profile_roles \<and>
      int_between 1 64 (rp_maxEconomyParallelRequests p) \<and>
      int_between 1 64 (rp_maxConcurrentRunsPerRepository p) \<and>
      list_all (\<lambda>role. opt_all (role_binding_ok role) (profile_binding p role)) profile_roles)"

definition validation_spec_ok :: "validation_spec \<Rightarrow> bool" where
  "validation_spec_ok v =
     (list_between 1 32 identifier_ok (vs_argv v) \<and> bounded_length 1 512 (vs_workingDirectory v) \<and>
      int_between 1 86400 (vs_timeoutSeconds v) \<and> identifier_ok (vs_sandboxProfile v))"

definition branch_name_ok :: "string \<Rightarrow> bool" where
  "branch_name_ok s = lead_class alnum (\<lambda>c. alnum c \<or> c \<in> set ''._/-'') 191 s"

definition publication_policy_ok :: "publication_policy \<Rightarrow> bool" where
  "publication_policy_ok p =
     (remote_ok (pp_remote p) \<and> branch_name_ok (pp_baseBranch p) \<and>
      \<not> contains (pp_baseBranch p) ''..'' \<and> \<not> ends_with (pp_baseBranch p) ''.'' \<and>
      \<not> ends_with (pp_baseBranch p) ''/'' \<and> int_between 30 3600 (pp_timeoutSeconds p))"

definition policy_path_ok :: "string \<Rightarrow> bool" where
  "policy_path_ok v = (isNormalizedRepositoryRelativePathV4 v \<and> bounded_length 1 512 v)"

definition runtimeRepositoryPolicyV4Schema :: "repository_policy \<Rightarrow> bool" where
  "runtimeRepositoryPolicyV4Schema p =
     (repository_id_ok (po_repositoryId p) \<and>
      unique_between 1 64 identifier_ok (po_allowedBranches p) \<and>
      identifier_ok (po_worktreeParentRef p) \<and>
      unique_between 0 64 identifier_ok (po_frontierRiskClasses p) \<and>
      unique_between 0 64 identifier_ok (po_frontierTaskClasses p) \<and>
      unique_between 0 256 policy_path_ok (po_frontierPaths p) \<and>
      unique_between 0 2 (\<lambda>_. True) (po_frontierSourceSensitivity p) \<and>
      list_all (\<lambda>(k, v). identifier_ok k \<and> validation_spec_ok v) (po_validation p) \<and>
      po_validation p \<noteq> [] \<and>
      identifier_ok (po_requiredBackend p) \<and>
      unique_between 1 16 identifier_ok (po_requiredProfiles p) \<and>
      unique_between 1 64 policy_path_ok (po_approvedSources p) \<and>
      publication_policy_ok (po_publication p))"

section \<open>What an accepted contract guarantees\<close>

lemma normalized_path_segments:
  assumes "isNormalizedRepositoryRelativePathV4 v" and "w \<in> set (split_on CHR ''/'' v)"
  shows "path_segment_ok w"
  using assms by (auto simp: isNormalizedRepositoryRelativePathV4_def list_all_iff split: if_splits)

lemma path_segment_ok_dest:
  "path_segment_ok w \<Longrightarrow> w \<noteq> [] \<and> w \<noteq> ''.'' \<and> w \<noteq> ''..''"
  by (simp add: path_segment_ok_def)

lemma no_null_in_normalized_path:
  assumes "isNormalizedRepositoryRelativePathV4 v"
  shows "CHR 0x00 \<notin> set v"
proof
  assume "CHR 0x00 \<in> set v"
  moreover have "c \<in> set v \<Longrightarrow> c = CHR ''/'' \<or> (\<exists>w \<in> set (split_on CHR ''/'' v). c \<in> set w)" for c
    by (induction v) (auto split: list.splits)
  ultimately obtain w where w: "w \<in> set (split_on CHR ''/'' v)" "CHR 0x00 \<in> set w"
    by force
  from normalized_path_segments [OF assms w(1)] w(2) show False
    by (auto simp: path_segment_ok_def list_all_iff prohibited_path_char_def)
qed

lemma operation_string_inj: "operation_string x = operation_string y \<longleftrightarrow> x = y"
  by (cases x; cases y) simp_all

lemma operation_string_no_comma: "CHR '','' \<notin> set (operation_string x)"
  by (cases x) simp_all

lemma set_sort_strings [simp]: "set (sort_strings xs) = set xs"
  by (simp add: sort_strings_def)

lemma split_at_null:
  "CHR 0x00 \<notin> set p \<Longrightarrow> CHR 0x00 \<notin> set p' \<Longrightarrow>
   p @ CHR 0x00 # r = p' @ CHR 0x00 # r' \<Longrightarrow> p = p' \<and> r = r'"
  by (induction p arbitrary: p') (auto simp: Cons_eq_append_conv append_eq_Cons_conv)

text \<open>Two accepted changes with the same key have the same path and the same operations.\<close>

lemma changeKey_eq:
  assumes "changeKey c = changeKey d"
    and "isNormalizedRepositoryRelativePathV4 (ac_path c)"
    and "isNormalizedRepositoryRelativePathV4 (ac_path d)"
    and "ac_operations c \<noteq> []" and "ac_operations d \<noteq> []"
  shows "ac_path c = ac_path d \<and> set (ac_operations c) = set (ac_operations d)"
proof -
  let ?ops = "\<lambda>c. sort_strings (map operation_string (ac_operations c))"
  have eq: "ac_path c = ac_path d \<and> join_with CHR '','' (?ops c) = join_with CHR '','' (?ops d)"
    using assms(1) unfolding changeKey_def
    by (intro split_at_null) (simp_all add: no_null_in_normalized_path assms)
  have nosep: "CHR '','' \<notin> set w" if "w \<in> set (?ops e)" for w e
    using that operation_string_no_comma by auto
  have ne: "?ops e \<noteq> []" if "ac_operations e \<noteq> []" for e
    using that by (simp add: sort_strings_def)
  have split: "split_on CHR '','' (join_with CHR '','' (?ops e)) = ?ops e"
    if "ac_operations e \<noteq> []" for e
    using ne [OF that] nosep by (rule split_join)
  have "?ops c = split_on CHR '','' (join_with CHR '','' (?ops c))"
    by (rule split [OF assms(4), symmetric])
  also have "\<dots> = split_on CHR '','' (join_with CHR '','' (?ops d))"
    by (rule arg_cong [OF conjunct2 [OF eq]])
  also have "\<dots> = ?ops d"
    by (rule split [OF assms(5)])
  finally have "?ops c = ?ops d" .
  then have "set (?ops c) = set (?ops d)" by simp
  then have "operation_string ` set (ac_operations c) = operation_string ` set (ac_operations d)"
    by simp
  moreover have "inj operation_string" by (simp add: inj_def operation_string_inj)
  ultimately show ?thesis using eq by (simp add: inj_image_eq_iff)
qed

lemma sdd_allowed_is_target:
  assumes sdd: "refineSddStrictPolicy allowed tests targets"
    and "list_all allowed_change_ok allowed" and "list_all allowed_change_ok targets"
    and c: "c \<in> set allowed"
  shows "\<exists>d \<in> set targets. ac_path d = ac_path c \<and> set (ac_operations d) = set (ac_operations c)"
proof -
  have "set (map changeKey allowed) = set (map changeKey targets)"
    using sdd unfolding refineSddStrictPolicy_def by (metis set_sort_strings)
  with c obtain d where d: "d \<in> set targets" "changeKey c = changeKey d" by auto
  have ok: "allowed_change_ok c" "allowed_change_ok d"
    using assms c d(1) by (simp_all add: list_all_iff)
  have "ac_path c = ac_path d \<and> set (ac_operations c) = set (ac_operations d)"
    using ok by (intro changeKey_eq [OF d(2)]) (simp_all add: allowed_change_ok_def operations_ok_def)
  with d(1) show ?thesis by auto
qed

lemma sdd_tests_not_allowed:
  assumes sdd: "refineSddStrictPolicy allowed tests targets"
    and "list_all allowed_change_ok allowed" and "list_all allowed_change_ok targets"
    and "c \<in> set allowed" and "t \<in> set tests"
  shows "to_lower (ac_path c) \<noteq> to_lower t"
proof -
  obtain d where d: "d \<in> set targets" "ac_path d = ac_path c"
    using sdd_allowed_is_target [OF assms(1-4)] by blast
  have "to_lower t \<notin> set (map (to_lower \<circ> ac_path) targets)"
    using sdd assms(5) by (auto simp: refineSddStrictPolicy_def list_all_iff)
  from notin_map_neq [OF this d(1)] d(2) show ?thesis by simp
qed

lemma implementation_targets_are_changes:
  "list_between lo hi implementation_target_ok ts \<Longrightarrow> list_all allowed_change_ok ts"
  by (simp add: list_between_def list_all_iff implementation_target_ok_def)

lemma fields_ok_changes:
  assumes "task_request_fields_ok r"
  shows "list_all allowed_change_ok (tr_allowed_changes r)"
    and "list_all allowed_change_ok (tr_implementation_targets r)"
  using assms implementation_targets_are_changes
  by (auto simp: task_request_fields_ok_def list_between_def)

lemma work_contract_write_authority:
  assumes "runtimeWorkContractV4Schema c"
    and "ch \<in> set (tr_allowed_changes c) \<union> set (tr_implementation_targets c)"
    and "t \<in> set (tr_acceptance_tests c)"
  shows "to_lower (ac_path ch) \<noteq> to_lower t"
proof -
  have f: "task_request_fields_ok c" and s: "sdd_strict c"
    using assms(1) by (simp_all add: runtimeWorkContractV4Schema_def)
  from assms(2) consider "ch \<in> set (tr_allowed_changes c)" | "ch \<in> set (tr_implementation_targets c)"
    by blast
  then show ?thesis
  proof cases
    case 1
    with s assms(3) fields_ok_changes [OF f] show ?thesis
      unfolding sdd_strict_def by (intro sdd_tests_not_allowed)
  next
    case 2
    have "to_lower t \<notin> set (map (to_lower \<circ> ac_path) (tr_implementation_targets c))"
      using s assms(3) by (auto simp: sdd_strict_def refineSddStrictPolicy_def list_all_iff)
    from notin_map_neq [OF this 2] show ?thesis by simp
  qed
qed

end
