(* ===== verification/Samples.thy ===== *)
theory Samples
  imports Contract_Schemas
begin

text \<open>
  One accepted request, profile, work contract and result: the concrete inputs at which the
  witnesses of the other theories apply their theorems.
\<close>

definition sample_change :: allowed_change where
  "sample_change = \<lparr>ac_path = ''src/a.ts'', ac_operations = [MODIFY]\<rparr>"

definition sample_request :: task_request where
  "sample_request = \<lparr>tr_task_id = ''task'', tr_request_id = ''req_0123456789abcdef'',
     tr_repository_id = ''repo'', tr_objective = ''x'', tr_task_class = ''docs'',
     tr_requested_risk_class = ''low'', tr_requested_route = REQ_AUTO,
     tr_execution_requirements = None, tr_allowed_changes = [sample_change],
     tr_acceptance_tests = [''src/a.test.ts''], tr_implementation_targets = [sample_change],
     tr_allowed_validation_ids = [''unit''], tr_inputs = [], tr_constraints = [],
     tr_success_criteria = [''works''], tr_max_files_changed = 1, tr_max_changed_lines = 10,
     tr_max_attempts = 2, tr_prohibited_actions = []\<rparr>"

definition sample_guidance :: model_guidance where
  "sample_guidance = \<lparr>mg_id = ''g'', mg_revision = ''1'', mg_sourceUrls = [''https://x''],
     mg_promptFormat = plain, mg_contextPlacement = before_task, mg_reasoningEffort = ''low'',
     mg_textVerbosity = V_low, mg_temperature = None, mg_maxSteps = 10, mg_instructions = []\<rparr>"

definition sample_envelope :: binding_execution where
  "sample_envelope = \<lparr>be_supportedTaskTraits = [mechanical, localized], be_maxSteps = 20,
     be_maxToolUses = 30, be_maxNoMutationSteps = 4, be_timeoutSeconds = 60,
     be_supportsFailedCandidateRepair = True\<rparr>"

definition sample_binding :: "tier \<Rightarrow> permissions \<Rightarrow> binding" where
  "sample_binding t p = \<lparr>b_harness = ''opencode'', b_provider = ''p'', b_model = ''m'', b_tier = t,
     b_authentication = None, b_capability = ''c'', b_allowedDataScopes = [SOURCE_CODE_ONLY],
     b_allowedSourceSensitivity = [PUBLIC, PRIVATE], b_permissions = p,
     b_guidance = sample_guidance, b_execution = Some sample_envelope\<rparr>"

definition sample_profile :: runtime_profile where
  "sample_profile = \<lparr>rp_id = ''profile'', rp_orchestrator = sample_binding frontier read_only,
     rp_executor = sample_binding economy contract_write, rp_reasoningExecutor = None,
     rp_escalationExecutor = sample_binding economy contract_write,
     rp_frontierExecutor = sample_binding frontier contract_write,
     rp_reviewer = sample_binding frontier read_only,
     rp_maxEconomyParallelRequests = 1, rp_maxConcurrentRunsPerRepository = 1\<rparr>"

definition all_urls :: "string \<Rightarrow> bool" where
  "all_urls u = True"

lemma sample_request_accepted: "runtimeTaskRequestV4Schema sample_request"
  by code_simp

lemma sample_profile_accepted: "runtimeProfileV4Schema all_urls sample_profile"
  by code_simp

definition hash_of :: "char \<Rightarrow> string" where
  "hash_of c = replicate 64 c"

definition sample_contract :: work_contract where
  "sample_contract = task_request.extend sample_request
     (work_contract.fields ''run_0123456789abcdef'' (hash_of CHR ''1'') (replicate 40 CHR ''2'') ''low''
        ECONOMY [''eligible''] (hash_of CHR ''3'') None SOURCE_CODE_ONLY PUBLIC
        [(''sandbox'', hash_of CHR ''4'')] (hash_of CHR ''5'') (hash_of CHR ''6'') (hash_of CHR ''7''))"

definition sample_publication :: publication where
  "sample_publication = \<lparr>pu_state = NOT_STARTED, pu_remote = None, pu_base_branch = None,
     pu_pull_request = None, pu_pull_request_url = None, pu_merge_commit_sha = None\<rparr>"

definition sample_result :: runtime_result where
  "sample_result = \<lparr>rr_run_id = ''run_0123456789abcdef'', rr_request_id = ''req_0123456789abcdef'',
     rr_state = ''READY_FOR_EXECUTOR'', rr_effective_route = ECONOMY,
     rr_route_decision_hash = hash_of CHR ''3'', rr_effective_data_scope = SOURCE_CODE_ONLY,
     rr_effective_source_sensitivity = PUBLIC, rr_branch = ''codex/auto/run_0123456789abcdef'',
     rr_base_sha = replicate 40 CHR ''2'', rr_head_sha = None, rr_contract_hash = hash_of CHR ''7'',
     rr_policy_hash = hash_of CHR ''5'', rr_profile_hash = hash_of CHR ''6'', rr_attempts = [],
     rr_validation_results = [], rr_diff_hash = hash_of CHR ''0'', rr_tree_hash = hash_of CHR ''0'',
     rr_changed_files = [], rr_review_attestation_hash = None, rr_commit_sha = None,
     rr_publication = sample_publication, rr_failure = None,
     rr_artifact_manifest_hash = hash_of CHR ''8''\<rparr>"

lemma sample_contract_accepted: "runtimeWorkContractV4Schema sample_contract"
  by code_simp

lemma sample_result_accepted: "runtimeResultV4Schema all_urls sample_result"
  by code_simp

end
