(* ===== verification/Adaptive_Execution.thy ===== *)
theory Adaptive_Execution
  imports Binding_Health Samples
begin

text \<open>
  Choice of the execution lane (\<open>src/runtime/adaptive-execution.ts\<close>): from a request, a profile and
  the health evidence of its bindings to the lane, the binding and the budget of a run. Every branch
  of \<open>resolveAdaptiveExecutionPolicyV4\<close> is a branch of the model, the thrown errors included; the
  hashes of a binding and of a policy body are parameters.
\<close>

section \<open>Task traits\<close>

fun trait_string :: "task_trait \<Rightarrow> string" where
  "trait_string mechanical = ''mechanical''"
| "trait_string localized = ''localized''"
| "trait_string semantic_debugging = ''semantic-debugging''"
| "trait_string cross_file_reasoning = ''cross-file-reasoning''"
| "trait_string multimodal = ''multimodal''"
| "trait_string long_horizon = ''long-horizon''"
| "trait_string architecture = ''architecture''"
| "trait_string security_sensitive = ''security-sensitive''"
| "trait_string migration = ''migration''"

fun role_string :: "runtime_role \<Rightarrow> string" where
  "role_string orchestrator = ''orchestrator''"
| "role_string executor = ''executor''"
| "role_string reasoningExecutor = ''reasoningExecutor''"
| "role_string escalationExecutor = ''escalationExecutor''"
| "role_string frontierExecutor = ''frontierExecutor''"
| "role_string reviewer = ''reviewer''"

definition frontierTraits :: "task_trait list" where
  "frontierTraits = [architecture, security_sensitive, migration, long_horizon]"

definition reasoningTraits :: "task_trait list" where
  "reasoningTraits = [semantic_debugging, cross_file_reasoning, multimodal]"

definition contains_any :: "string \<Rightarrow> string list \<Rightarrow> bool" where
  "contains_any v ws = list_ex (contains v) ws"

definition inferredTraits :: "string \<Rightarrow> task_trait list" where
  "inferredTraits taskClass =
     (let v = to_lower taskClass in
      if contains_any v [''security'', ''architecture'', ''migration'']
      then [if contains v ''security'' then security_sensitive
            else if contains v ''migration'' then migration else architecture]
      else if contains_any v [''debug'', ''reason'', ''cross-file'', ''bug-fix'', ''bugfix'']
      then [semantic_debugging]
      else if contains_any v [''multimodal'', ''vision'', ''audio''] then [multimodal]
      else if contains_any v [''mechanical'', ''localized'', ''fixture'', ''format'', ''doc'']
      then [mechanical, localized]
      else [localized])"

definition sort_traits :: "task_trait list \<Rightarrow> task_trait list" where
  "sort_traits ts = js_sort (\<lambda>a b. compare_code_units (trait_string a) (trait_string b)) ts"

definition request_traits :: "task_request \<Rightarrow> task_trait list" where
  "request_traits r = sort_traits (case tr_execution_requirements r of
      None \<Rightarrow> inferredTraits (tr_task_class r) | Some q \<Rightarrow> er_taskTraits q)"

section \<open>Qualification and lanes\<close>

definition executionEnvelope :: "binding \<Rightarrow> binding_execution result" where
  "executionEnvelope b = (case b_execution b of
      None \<Rightarrow> Inl (Error CAPABILITY_UNVERIFIED ''writable binding lacks an explicit execution envelope'')
    | Some e \<Rightarrow> Inr e)"

definition qualified_binding :: "binding option \<Rightarrow> source_sensitivity \<Rightarrow> task_trait list \<Rightarrow> bool result" where
  "qualified_binding bo sensitivity traits = (case bo of
      None \<Rightarrow> Inr False
    | Some b \<Rightarrow>
        if b_permissions b \<noteq> contract_write \<or> sensitivity \<notin> set (b_allowedSourceSensitivity b)
        then Inr False
        else bindR (executionEnvelope b)
          (\<lambda>e. Inr (list_all (\<lambda>t. t \<in> set (be_supportedTaskTraits e)) traits)))"

definition healthy ::
    "(health_snapshot_body \<Rightarrow> string) \<Rightarrow> (binding \<Rightarrow> string) \<Rightarrow> binding \<Rightarrow> task_trait list \<Rightarrow>
     health_snapshot list \<Rightarrow> bool result" where
  "healthy snapshot_hash binding_hash b traits snapshots =
     runtimeBindingHealthAllowsV4 snapshot_hash snapshots (binding_hash b) traits"

definition requestedLane :: "task_request \<Rightarrow> task_trait list \<Rightarrow> execution_lane" where
  "requestedLane r traits =
     (if tr_requested_route r = REQ_FRONTIER \<or> list_ex (\<lambda>t. t \<in> set frontierTraits) traits
      then FRONTIER_EXECUTION
      else if list_ex (\<lambda>t. t \<in> set reasoningTraits) traits then REASONING_ECONOMY
      else MECHANICAL_ECONOMY)"

record adaptive_input =
  ad_request :: task_request
  ad_profile :: runtime_profile
  ad_sourceSensitivity :: source_sensitivity
  ad_forceFrontier :: bool
  ad_bindingHealth :: "health_snapshot list option"

definition ad_health :: "adaptive_input \<Rightarrow> health_snapshot list" where
  "ad_health i = (case ad_bindingHealth i of None \<Rightarrow> [] | Some s \<Rightarrow> s)"

text \<open>\<open>qualified(b) && healthy(b)\<close>: both values.\<close>

definition usable ::
    "(health_snapshot_body \<Rightarrow> string) \<Rightarrow> (binding \<Rightarrow> string) \<Rightarrow> adaptive_input \<Rightarrow> task_trait list \<Rightarrow>
     binding option \<Rightarrow> (bool \<times> bool) result" where
  "usable snapshot_hash binding_hash i traits bo =
     bindR (qualified_binding bo (ad_sourceSensitivity i) traits) (\<lambda>q.
       case bo of None \<Rightarrow> Inr (q, False)
       | Some b \<Rightarrow>
          if q then bindR (healthy snapshot_hash binding_hash b traits (ad_health i)) (\<lambda>h. Inr (True, h))
          else Inr (False, False))"

text \<open>The explanations a policy can carry besides its traits and its budget.\<close>

definition note_primary_quarantined :: string where
  "note_primary_quarantined = ''primary economy binding is quarantined for a requested task trait''"

definition note_reasoning_quarantined :: string where
  "note_reasoning_quarantined = ''reasoning economy binding is quarantined for a requested task trait''"

definition note_primary_lacks :: string where
  "note_primary_lacks = ''primary economy binding lacks the required qualified traits''"

definition note_economy_lack :: string where
  "note_economy_lack = ''economy bindings lack the required qualified traits''"

definition traits_reason :: "task_trait list \<Rightarrow> string" where
  "traits_reason traits = ''task traits: '' @ join_str '', '' (map trait_string traits)"

record lane_choice =
  lc_lane :: execution_lane
  lc_role :: runtime_role
  lc_binding :: binding
  lc_reasons :: "string list"

definition frontier_choice ::
    "(health_snapshot_body \<Rightarrow> string) \<Rightarrow> (binding \<Rightarrow> string) \<Rightarrow> adaptive_input \<Rightarrow> task_trait list \<Rightarrow>
     execution_lane \<Rightarrow> string list \<Rightarrow> lane_choice result" where
  "frontier_choice snapshot_hash binding_hash i traits requested reasons =
     (let b = rp_frontierExecutor (ad_profile i) in
      bindR (qualified_binding (Some b) (ad_sourceSensitivity i) traits) (\<lambda>q.
      throw_if (\<not> q) (Error CAPABILITY_UNVERIFIED
        ''no writable binding supports the requested task traits and source sensitivity'')
      (bindR (healthy snapshot_hash binding_hash b traits (ad_health i)) (\<lambda>h.
      throw_if (\<not> h) (Error CAPABILITY_UNVERIFIED
        ''frontier binding is quarantined for a requested task trait'')
      (Inr \<lparr>lc_lane = FRONTIER_EXECUTION, lc_role = frontierExecutor, lc_binding = b,
         lc_reasons = reasons @ (if requested \<noteq> FRONTIER_EXECUTION
           then [note_economy_lack] else [])\<rparr>)))))"

definition requested_lane_of :: "adaptive_input \<Rightarrow> execution_lane" where
  "requested_lane_of i = (if ad_forceFrontier i then FRONTIER_EXECUTION
     else requestedLane (ad_request i) (request_traits (ad_request i)))"

text \<open>The three arms of the lane choice; \<open>eh\<close> and \<open>rh\<close> say which economy bindings are healthy.\<close>

definition select_lane ::
    "(health_snapshot_body \<Rightarrow> string) \<Rightarrow> (binding \<Rightarrow> string) \<Rightarrow> adaptive_input \<Rightarrow> bool \<Rightarrow> bool \<Rightarrow>
     string list \<Rightarrow> lane_choice result" where
  "select_lane snapshot_hash binding_hash i eh rh reasons =
     (let requested = requested_lane_of i;
          frontier = frontier_choice snapshot_hash binding_hash i (request_traits (ad_request i)) requested reasons
      in if requested = MECHANICAL_ECONOMY \<and> eh
         then Inr \<lparr>lc_lane = MECHANICAL_ECONOMY, lc_role = executor,
                lc_binding = rp_executor (ad_profile i), lc_reasons = reasons\<rparr>
         else if requested \<noteq> FRONTIER_EXECUTION \<and> rh
         then (case rp_reasoningExecutor (ad_profile i) of
             Some b \<Rightarrow> Inr \<lparr>lc_lane = REASONING_ECONOMY, lc_role = reasoningExecutor, lc_binding = b,
               lc_reasons = reasons @ (if requested = MECHANICAL_ECONOMY then [note_primary_lacks] else [])\<rparr>
           | None \<Rightarrow> frontier)
         else frontier)"

definition choose_reasons :: "task_trait list \<Rightarrow> bool \<times> bool \<Rightarrow> bool \<times> bool \<Rightarrow> string list" where
  "choose_reasons traits e r = traits_reason traits #
     (if fst e \<and> \<not> snd e then [note_primary_quarantined] else []) @
     (if fst r \<and> \<not> snd r then [note_reasoning_quarantined] else [])"

definition choose_lane ::
    "(health_snapshot_body \<Rightarrow> string) \<Rightarrow> (binding \<Rightarrow> string) \<Rightarrow> adaptive_input \<Rightarrow> lane_choice result" where
  "choose_lane snapshot_hash binding_hash i =
     (let traits = request_traits (ad_request i) in
      bindR (usable snapshot_hash binding_hash i traits (Some (rp_executor (ad_profile i)))) (\<lambda>e.
      bindR (usable snapshot_hash binding_hash i traits (rp_reasoningExecutor (ad_profile i))) (\<lambda>r.
      select_lane snapshot_hash binding_hash i (snd e) (snd r) (choose_reasons traits e r))))"

section \<open>Budgets\<close>

definition lane_floor :: "execution_lane \<Rightarrow> int" where
  "lane_floor l = (case l of MECHANICAL_ECONOMY \<Rightarrow> 8 | REASONING_ECONOMY \<Rightarrow> 16 | FRONTIER_EXECUTION \<Rightarrow> 24)"

definition desired_steps :: "execution_lane \<Rightarrow> int \<Rightarrow> int \<Rightarrow> int" where
  "desired_steps lane files criteria =
     lane_floor lane + min 12 (max 0 (files - 1) * 2) + min 8 (max 0 (criteria - 1))"

definition criteria_count :: "task_request \<Rightarrow> int" where
  "criteria_count r = (case tr_execution_requirements r of
      None \<Rightarrow> int (length (tr_success_criteria r)) | Some q \<Rightarrow> er_acceptanceCriteriaCount q)"

definition policy_body ::
    "adaptive_input \<Rightarrow> lane_choice \<Rightarrow> binding_execution \<Rightarrow> execution_policy_body" where
  "policy_body i c e =
     (let r = ad_request i;
          files = int (length (tr_implementation_targets r));
          maxSteps = min (be_maxSteps e) (desired_steps (lc_lane c) files (criteria_count r));
          maxNoMutationSteps = min (be_maxNoMutationSteps e) (min (max 3 (files + 2)) (max 1 (maxSteps - 1)));
          maxToolUses = min (be_maxToolUses e) (max maxSteps (maxSteps * 2));
          maxAttempts = (if lc_lane c = FRONTIER_EXECUTION then 1 else min 2 (tr_max_attempts r))
      in \<lparr>ep_lane = lc_lane c, ep_executorRole = lc_role c,
          ep_taskTraits = request_traits r,
          ep_maxSteps = maxSteps, ep_maxToolUses = maxToolUses,
          ep_maxNoMutationSteps = maxNoMutationSteps, ep_timeoutSeconds = be_timeoutSeconds e,
          ep_maxAttempts = maxAttempts,
          ep_repairBase = (if maxAttempts > 1 \<and> be_supportsFailedCandidateRepair e
             then FAILED_CANDIDATE_TREE else LAST_ACCEPTED_TREE),
          ep_reasons = lc_reasons c @ [''selected '' @ role_string (lc_role c) @ '' with '' @ decimal maxSteps
             @ '' steps and '' @ decimal maxAttempts @ '' attempt(s)''],
          ep_healthEvidenceHashes = Some (sort_strings (map hs_snapshotHash (ad_health i)))\<rparr>)"

definition resolveAdaptiveExecutionPolicyV4 ::
    "(health_snapshot_body \<Rightarrow> string) \<Rightarrow> (binding \<Rightarrow> string) \<Rightarrow> (execution_policy_body \<Rightarrow> string) \<Rightarrow>
     adaptive_input \<Rightarrow> execution_policy result" where
  "resolveAdaptiveExecutionPolicyV4 snapshot_hash binding_hash policy_hash i =
     bindR (choose_lane snapshot_hash binding_hash i) (\<lambda>c.
     bindR (executionEnvelope (lc_binding c)) (\<lambda>e.
     let body = policy_body i c e in
     Inr (execution_policy_body.extend body (execution_policy.fields (policy_hash body)))))"

definition verifyRuntimeExecutionPolicyV4 ::
    "(execution_policy_body \<Rightarrow> string) \<Rightarrow> execution_policy \<Rightarrow> execution_policy result" where
  "verifyRuntimeExecutionPolicyV4 policy_hash p =
     throw_if (ep_policyHash p \<noteq> policy_hash (execution_policy_body.truncate p))
       (Error INVALID_CONTRACT ''adaptive execution policy hash is invalid'') (Inr p)"

section \<open>What a resolved policy guarantees\<close>

lemma qualified_binding_True: "qualified_binding bo s ts = Inr True \<Longrightarrow>
  \<exists>b e. bo = Some b \<and> b_permissions b = contract_write \<and> s \<in> set (b_allowedSourceSensitivity b) \<and>
    b_execution b = Some e \<and> set ts \<subseteq> set (be_supportedTaskTraits e)"
  by (auto simp: qualified_binding_def executionEnvelope_def list_all_iff
      split: option.splits if_splits)

definition lane_role_ok :: "execution_lane \<Rightarrow> runtime_role \<Rightarrow> bool" where
  "lane_role_ok l r = (case l of MECHANICAL_ECONOMY \<Rightarrow> r = executor
     | REASONING_ECONOMY \<Rightarrow> r = reasoningExecutor | FRONTIER_EXECUTION \<Rightarrow> r = frontierExecutor)"

definition choice_ok ::
    "(health_snapshot_body \<Rightarrow> string) \<Rightarrow> (binding \<Rightarrow> string) \<Rightarrow> adaptive_input \<Rightarrow> lane_choice \<Rightarrow> bool" where
  "choice_ok sh bh i c =
     (profile_binding (ad_profile i) (lc_role c) = Some (lc_binding c) \<and>
      lane_role_ok (lc_lane c) (lc_role c) \<and>
      qualified_binding (Some (lc_binding c)) (ad_sourceSensitivity i) (request_traits (ad_request i)) = Inr True \<and>
      healthy sh bh (lc_binding c) (request_traits (ad_request i)) (ad_health i) = Inr True \<and>
      (requested_lane_of i = FRONTIER_EXECUTION \<longrightarrow> lc_lane c = FRONTIER_EXECUTION) \<and>
      (requested_lane_of i = REASONING_ECONOMY \<longrightarrow> lc_lane c \<noteq> MECHANICAL_ECONOMY))"

lemma usable_True: "usable sh bh i ts bo = Inr (q, True) \<Longrightarrow>
   \<exists>b. bo = Some b \<and> qualified_binding (Some b) (ad_sourceSensitivity i) ts = Inr True \<and>
     healthy sh bh b ts (ad_health i) = Inr True"
  by (auto simp: usable_def split: option.splits if_splits)

lemma usable_None: "usable sh bh i ts None = Inr (q, h) \<Longrightarrow> \<not> h"
  by (auto simp: usable_def)

lemma frontier_choice_ok:
  assumes "frontier_choice sh bh i (request_traits (ad_request i)) req rs = Inr c"
  shows "choice_ok sh bh i c"
  using assms by (auto simp: frontier_choice_def Let_def choice_ok_def lane_role_ok_def)

lemma select_lane_cases:
  assumes "select_lane sh bh i eh rh reasons = Inr c"
  obtains (economy) "requested_lane_of i = MECHANICAL_ECONOMY" eh
      "c = \<lparr>lc_lane = MECHANICAL_ECONOMY, lc_role = executor,
            lc_binding = rp_executor (ad_profile i), lc_reasons = reasons\<rparr>"
    | (reasoning) b xs where "requested_lane_of i \<noteq> FRONTIER_EXECUTION" rh
      "rp_reasoningExecutor (ad_profile i) = Some b" "xs \<in> {[], [note_primary_lacks]}"
      "c = \<lparr>lc_lane = REASONING_ECONOMY, lc_role = reasoningExecutor, lc_binding = b, lc_reasons = reasons @ xs\<rparr>"
    | (frontier) "frontier_choice sh bh i (request_traits (ad_request i)) (requested_lane_of i) reasons = Inr c"
proof -
  consider "requested_lane_of i = MECHANICAL_ECONOMY \<and> eh"
    | b where "\<not> (requested_lane_of i = MECHANICAL_ECONOMY \<and> eh)"
        "requested_lane_of i \<noteq> FRONTIER_EXECUTION \<and> rh" "rp_reasoningExecutor (ad_profile i) = Some b"
    | "\<not> (requested_lane_of i = MECHANICAL_ECONOMY \<and> eh)"
        "\<not> (requested_lane_of i \<noteq> FRONTIER_EXECUTION \<and> rh) \<or> rp_reasoningExecutor (ad_profile i) = None"
    by fastforce
  then show thesis
  proof cases
    case 1
    with assms show thesis by (intro economy) (simp_all add: select_lane_def)
  next
    case (2 b)
    from assms have "c = \<lparr>lc_lane = REASONING_ECONOMY, lc_role = reasoningExecutor, lc_binding = b,
        lc_reasons = reasons @ (if requested_lane_of i = MECHANICAL_ECONOMY then [note_primary_lacks] else [])\<rparr>"
      unfolding select_lane_def Let_def if_not_P [OF 2(1)] if_P [OF 2(2)] by (simp add: 2(3))
    with 2 show thesis by (intro reasoning) auto
  next
    case 3
    have "frontier_choice sh bh i (request_traits (ad_request i)) (requested_lane_of i) reasons = Inr c"
      using assms 3(2) unfolding select_lane_def Let_def if_not_P [OF 3(1)] by (auto split: if_splits)
    then show thesis by (rule frontier)
  qed
qed

lemma choose_lane_Inr:
  assumes "choose_lane sh bh i = Inr c"
  obtains e r where
    "usable sh bh i (request_traits (ad_request i)) (Some (rp_executor (ad_profile i))) = Inr e"
    "usable sh bh i (request_traits (ad_request i)) (rp_reasoningExecutor (ad_profile i)) = Inr r"
    "select_lane sh bh i (snd e) (snd r) (choose_reasons (request_traits (ad_request i)) e r) = Inr c"
  using assms unfolding choose_lane_def Let_def bindR_eq_Inr by blast

lemma choose_lane_ok:
  assumes "choose_lane sh bh i = Inr c"
  shows "choice_ok sh bh i c"
  using assms
proof (rule choose_lane_Inr)
  fix e r
  let ?ts = "request_traits (ad_request i)"
  assume e: "usable sh bh i ?ts (Some (rp_executor (ad_profile i))) = Inr e"
    and r: "usable sh bh i ?ts (rp_reasoningExecutor (ad_profile i)) = Inr r"
    and s: "select_lane sh bh i (snd e) (snd r) (choose_reasons ?ts e r) = Inr c"
  from s show "choice_ok sh bh i c"
  proof (cases rule: select_lane_cases)
    case economy
    with e show ?thesis by (cases e) (auto simp: choice_ok_def lane_role_ok_def dest: usable_True)
  next
    case reasoning
    with r show ?thesis by (cases r) (auto simp: choice_ok_def lane_role_ok_def dest: usable_True)
  next
    case frontier
    then show ?thesis by (rule frontier_choice_ok)
  qed
qed

lemma resolve_Inr:
  assumes "resolveAdaptiveExecutionPolicyV4 sh bh ph i = Inr p"
  obtains c e where "choose_lane sh bh i = Inr c" and "choice_ok sh bh i c"
    and "b_execution (lc_binding c) = Some e"
    and "execution_policy_body.truncate p = policy_body i c e"
    and "ep_policyHash p = ph (policy_body i c e)"
proof -
  from assms obtain c e where c: "choose_lane sh bh i = Inr c"
    and e: "executionEnvelope (lc_binding c) = Inr e"
    and p: "p = execution_policy_body.extend (policy_body i c e)
        (execution_policy.fields (ph (policy_body i c e)))"
    by (auto simp: resolveAdaptiveExecutionPolicyV4_def Let_def)
  from e have "b_execution (lc_binding c) = Some e"
    by (simp add: executionEnvelope_def split: option.splits)
  moreover have "execution_policy_body.truncate p = policy_body i c e"
    and "ep_policyHash p = ph (policy_body i c e)"
    unfolding p by (simp_all add: execution_policy_body.defs execution_policy.defs)
  ultimately show thesis using c choose_lane_ok [OF c] by (intro that)
qed

text \<open>The fields of a policy, read off its body.\<close>

lemma policy_fields:
  assumes "execution_policy_body.truncate p = b"
  shows "ep_lane p = ep_lane b" "ep_executorRole p = ep_executorRole b"
    "ep_taskTraits p = ep_taskTraits b" "ep_maxSteps p = ep_maxSteps b"
    "ep_maxToolUses p = ep_maxToolUses b" "ep_maxNoMutationSteps p = ep_maxNoMutationSteps b"
    "ep_timeoutSeconds p = ep_timeoutSeconds b" "ep_maxAttempts p = ep_maxAttempts b"
    "ep_repairBase p = ep_repairBase b" "ep_reasons p = ep_reasons b"
    "ep_healthEvidenceHashes p = ep_healthEvidenceHashes b"
  using assms by (auto simp: execution_policy_body.defs)

lemma length_trait_string: "length (trait_string t) \<le> 20"
  by (cases t) simp_all

lemma length_role_string: "length (role_string r) \<le> 18"
  by (cases r) simp_all

lemma request_traits_ok:
  assumes "runtimeTaskRequestV4Schema r"
  shows "unique_between 1 9 (\<lambda>_. True) (request_traits r)"
proof (cases "tr_execution_requirements r")
  case None
  have "unique_between 1 9 (\<lambda>_. True) (inferredTraits k)" for k
    by (simp add: inferredTraits_def Let_def unique_between_def)
  with None show ?thesis
    by (simp add: request_traits_def sort_traits_def unique_between_def list_all_iff)
next
  case (Some q)
  with assms show ?thesis
    by (simp add: runtimeTaskRequestV4Schema_def task_request_fields_ok_def opt_all_def
        execution_requirements_ok_def request_traits_def sort_traits_def unique_between_def list_all_iff)
qed

definition lane_notes :: "string list" where
  "lane_notes = [note_primary_quarantined, note_reasoning_quarantined, note_primary_lacks, note_economy_lack]"

lemma length_lane_notes: "s \<in> set lane_notes \<Longrightarrow> 1 \<le> length s \<and> length s \<le> 80"
  by (auto simp: lane_notes_def note_primary_quarantined_def note_reasoning_quarantined_def
      note_primary_lacks_def note_economy_lack_def)

lemma frontier_choice_reasons:
  assumes "frontier_choice sh bh i ts req rs = Inr c"
  shows "\<exists>xs. lc_reasons c = rs @ xs \<and> length xs \<le> 1 \<and> set xs \<subseteq> set lane_notes"
  using assms by (auto simp: frontier_choice_def Let_def lane_notes_def)

lemma choose_lane_reasons:
  assumes "choose_lane sh bh i = Inr c"
  shows "\<exists>xs. lc_reasons c = traits_reason (request_traits (ad_request i)) # xs \<and> length xs \<le> 3 \<and>
    set xs \<subseteq> set lane_notes"
  using assms
proof (rule choose_lane_Inr)
  fix e r
  let ?rs = "choose_reasons (request_traits (ad_request i)) e r"
  assume s: "select_lane sh bh i (snd e) (snd r) ?rs = Inr c"
  then have "\<exists>ys. lc_reasons c = ?rs @ ys \<and> length ys \<le> 1 \<and> set ys \<subseteq> set lane_notes"
    by (cases rule: select_lane_cases) (auto simp: lane_notes_def dest: frontier_choice_reasons)
  then obtain ys where "lc_reasons c = ?rs @ ys" "length ys \<le> 1" "set ys \<subseteq> set lane_notes"
    by blast
  then show ?thesis by (auto simp: choose_reasons_def lane_notes_def)
qed

lemma profile_binding_ok:
  assumes "runtimeProfileV4Schema u p" and "profile_binding p role = Some b"
  shows "binding_ok u b" and "role_binding_ok role b"
proof -
  have "role \<in> set profile_roles" by (cases role) (simp_all add: profile_roles_def)
  with assms show "binding_ok u b" and "role_binding_ok role b"
    unfolding runtimeProfileV4Schema_def by (auto simp: list_all_iff opt_all_def split: option.splits)
qed

lemma profile_envelope_ok:
  "runtimeProfileV4Schema u p \<Longrightarrow> profile_binding p role = Some b \<Longrightarrow> b_execution b = Some e \<Longrightarrow>
   binding_execution_ok e"
  using profile_binding_ok(1) [of u p role b] by (simp add: binding_ok_def opt_all_def)

lemma length_traits_reason:
  assumes "length ts \<le> 9"
  shows "1 \<le> length (traits_reason ts) \<and> length (traits_reason ts) \<le> 300"
proof -
  have "length (join_str '', '' (map trait_string ts)) \<le> length (map trait_string ts) * (20 + length '', '')"
    by (rule length_join_str) (simp add: length_trait_string)
  with assms show ?thesis by (simp add: traits_reason_def)
qed

definition budget_note :: "runtime_role \<Rightarrow> int \<Rightarrow> int \<Rightarrow> string" where
  "budget_note role steps attempts = ''selected '' @ role_string role @ '' with '' @ decimal steps
     @ '' steps and '' @ decimal attempts @ '' attempt(s)''"

lemma length_budget_note:
  assumes "0 \<le> m" "m < 1000" "0 \<le> n" "n < 1000"
  shows "1 \<le> length (budget_note r m n) \<and> length (budget_note r m n) \<le> 100"
  using length_decimal [of m 2] length_decimal [of n 2] length_role_string [of r] assms
  by (simp add: budget_note_def)

lemma resolved_reasons_ok:
  assumes cl: "choose_lane sh bh i = Inr c"
    and tr: "unique_between 1 9 (\<lambda>_. True) (request_traits (ad_request i))"
    and "0 \<le> m" "m < 1000" "0 \<le> n" "n < 1000"
  shows "list_between 1 16 (bounded_length 1 2000) (lc_reasons c @ [budget_note r m n])"
proof -
  let ?ts = "request_traits (ad_request i)"
  from choose_lane_reasons [OF cl] obtain xs where
    xs: "lc_reasons c = traits_reason ?ts # xs" "length xs \<le> 3" "set xs \<subseteq> set lane_notes" by blast
  have "bounded_length 1 2000 x" if "x \<in> set xs" for x
    using length_lane_notes [of x] xs(3) that by (auto simp: bounded_length_def)
  moreover have "bounded_length 1 2000 (traits_reason ?ts)"
    using length_traits_reason [of ?ts] tr by (simp add: unique_between_def bounded_length_def)
  moreover have "bounded_length 1 2000 (budget_note r m n)"
    using length_budget_note [OF assms(3-6), of r] by (simp add: bounded_length_def)
  ultimately show ?thesis using xs(1,2) by (simp add: list_between_def list_all_iff)
qed

text \<open>The budget of a policy is within its binding's envelope.\<close>

lemma policy_body_budget:
  assumes "binding_execution_ok e" and "int_between 1 3 (tr_max_attempts (ad_request i))"
  shows "1 \<le> ep_maxSteps (policy_body i c e)" "ep_maxSteps (policy_body i c e) \<le> be_maxSteps e"
    "1 \<le> ep_maxToolUses (policy_body i c e)" "ep_maxToolUses (policy_body i c e) \<le> be_maxToolUses e"
    "1 \<le> ep_maxNoMutationSteps (policy_body i c e)"
    "ep_maxNoMutationSteps (policy_body i c e) \<le> be_maxNoMutationSteps e"
    "ep_maxNoMutationSteps (policy_body i c e) \<le> max 1 (ep_maxSteps (policy_body i c e) - 1)"
    "ep_timeoutSeconds (policy_body i c e) = be_timeoutSeconds e"
    "1 \<le> ep_maxAttempts (policy_body i c e)" "ep_maxAttempts (policy_body i c e) \<le> 2"
    "ep_maxAttempts (policy_body i c e) \<le> tr_max_attempts (ad_request i)"
    "ep_maxSteps (policy_body i c e) \<le> 44"
proof -
  have d: "8 \<le> desired_steps l f k" "desired_steps l f k \<le> 44" for l f k
    by (auto simp: desired_steps_def lane_floor_def split: execution_lane.split)
  let ?D = "desired_steps (lc_lane c) (int (length (tr_implementation_targets (ad_request i))))
    (criteria_count (ad_request i))"
  let ?F = "int (length (tr_implementation_targets (ad_request i)))"
  have f: "ep_maxSteps (policy_body i c e) = min (be_maxSteps e) ?D"
    "ep_maxToolUses (policy_body i c e) =
       min (be_maxToolUses e) (max (min (be_maxSteps e) ?D) (min (be_maxSteps e) ?D * 2))"
    "ep_maxNoMutationSteps (policy_body i c e) =
       min (be_maxNoMutationSteps e) (min (max 3 (?F + 2)) (max 1 (min (be_maxSteps e) ?D - 1)))"
    "ep_maxAttempts (policy_body i c e) =
       (if lc_lane c = FRONTIER_EXECUTION then 1 else min 2 (tr_max_attempts (ad_request i)))"
    by (simp_all add: policy_body_def Let_def)
  have e: "1 \<le> be_maxSteps e" "1 \<le> be_maxToolUses e" "1 \<le> be_maxNoMutationSteps e"
    using assms(1) by (simp_all add: binding_execution_ok_def int_between_def)
  have a: "1 \<le> tr_max_attempts (ad_request i)" using assms(2) by (simp add: int_between_def)
  note D = d [of "lc_lane c" ?F "criteria_count (ad_request i)"]
  show "1 \<le> ep_maxSteps (policy_body i c e)" unfolding f using e D by linarith
  show "ep_maxSteps (policy_body i c e) \<le> be_maxSteps e" unfolding f using e D by linarith
  show "ep_maxSteps (policy_body i c e) \<le> 44" unfolding f using e D by linarith
  show "1 \<le> ep_maxToolUses (policy_body i c e)" unfolding f using e D by linarith
  show "ep_maxToolUses (policy_body i c e) \<le> be_maxToolUses e" unfolding f by linarith
  show "1 \<le> ep_maxNoMutationSteps (policy_body i c e)" unfolding f using e D by linarith
  show "ep_maxNoMutationSteps (policy_body i c e) \<le> be_maxNoMutationSteps e" unfolding f by linarith
  show "ep_maxNoMutationSteps (policy_body i c e) \<le> max 1 (ep_maxSteps (policy_body i c e) - 1)"
    unfolding f by linarith
  show "ep_timeoutSeconds (policy_body i c e) = be_timeoutSeconds e"
    by (simp add: policy_body_def Let_def)
  show "1 \<le> ep_maxAttempts (policy_body i c e)" unfolding f using a by simp
  show "ep_maxAttempts (policy_body i c e) \<le> 2" unfolding f by simp
  show "ep_maxAttempts (policy_body i c e) \<le> tr_max_attempts (ad_request i)" unfolding f using a by simp
qed

section \<open>Properties\<close>

text \<open>
  C32. The selected lane is safe: the policy names the profile's binding of its lane's role, that
  binding may write, accepts the repository's sensitivity, supports every requested trait and is not
  quarantined on any of them; and a frontier request, a forced frontier route or a frontier trait
  always runs on the frontier lane with a single attempt.
\<close>
theorem resolved_lane_safe:
  assumes "resolveAdaptiveExecutionPolicyV4 sh bh ph i = Inr p"
  shows "(\<exists>b e. profile_binding (ad_profile i) (ep_executorRole p) = Some b \<and>
      lane_role_ok (ep_lane p) (ep_executorRole p) \<and>
      b_permissions b = contract_write \<and>
      ad_sourceSensitivity i \<in> set (b_allowedSourceSensitivity b) \<and>
      b_execution b = Some e \<and> set (ep_taskTraits p) \<subseteq> set (be_supportedTaskTraits e) \<and>
      (\<forall>s \<in> set (ad_health i). hs_bindingHash s = bh b \<and> hs_taskTrait s \<in> set (ep_taskTraits p) \<longrightarrow>
         hs_normalRoutingAllowed s)) \<and>
    (ad_forceFrontier i \<or> tr_requested_route (ad_request i) = REQ_FRONTIER \<or>
       (\<exists>t \<in> set (ep_taskTraits p). t \<in> set frontierTraits) \<longrightarrow>
       ep_lane p = FRONTIER_EXECUTION \<and> ep_maxAttempts p = 1)"
proof -
  from assms obtain c e where ok: "choice_ok sh bh i c" and e: "b_execution (lc_binding c) = Some e"
    and body: "execution_policy_body.truncate p = policy_body i c e" by (rule resolve_Inr)
  let ?ts = "request_traits (ad_request i)"
  have f: "ep_lane p = lc_lane c" "ep_executorRole p = lc_role c" "ep_taskTraits p = ?ts"
    "ep_maxAttempts p = (if lc_lane c = FRONTIER_EXECUTION then 1 else min 2 (tr_max_attempts (ad_request i)))"
    by (simp_all add: policy_fields [OF body] policy_body_def Let_def)
  have q: "qualified_binding (Some (lc_binding c)) (ad_sourceSensitivity i) ?ts = Inr True"
    and h: "healthy sh bh (lc_binding c) ?ts (ad_health i) = Inr True"
    and r: "profile_binding (ad_profile i) (lc_role c) = Some (lc_binding c)" "lane_role_ok (lc_lane c) (lc_role c)"
    and l: "requested_lane_of i = FRONTIER_EXECUTION \<longrightarrow> lc_lane c = FRONTIER_EXECUTION"
    using ok by (simp_all add: choice_ok_def)
  have gate: "\<forall>s \<in> set (ad_health i). hs_bindingHash s = bh (lc_binding c) \<and> hs_taskTrait s \<in> set ?ts \<longrightarrow>
      hs_normalRoutingAllowed s"
    using gate_blocks [OF h [unfolded healthy_def]] by blast
  have req: "ad_forceFrontier i \<or> tr_requested_route (ad_request i) = REQ_FRONTIER \<or>
      (\<exists>t \<in> set ?ts. t \<in> set frontierTraits) \<longrightarrow> requested_lane_of i = FRONTIER_EXECUTION"
    unfolding requested_lane_of_def requestedLane_def list_ex_iff by simp
  obtain e' where b: "b_permissions (lc_binding c) = contract_write"
    "ad_sourceSensitivity i \<in> set (b_allowedSourceSensitivity (lc_binding c))"
    "b_execution (lc_binding c) = Some e'" "set ?ts \<subseteq> set (be_supportedTaskTraits e')"
    using qualified_binding_True [OF q] by blast
  show ?thesis
    unfolding f
    by (intro conjI exI [of _ "lc_binding c"] exI [of _ e'] r b gate) (use req l in simp)
qed

text \<open>
  C33. A resolved policy for an accepted request and profile is itself an accepted contract: it meets
  every bound of the execution-policy schema, stays within the envelope of its binding, is never
  allowed more attempts than the request, and passes the hash verification of the loader.
\<close>
theorem resolved_policy_accepted:
  assumes "resolveAdaptiveExecutionPolicyV4 sh bh ph i = Inr p"
    and "runtimeTaskRequestV4Schema (ad_request i)" and "runtimeProfileV4Schema u (ad_profile i)"
    and "\<And>b. is_hash (ph b)" and "\<And>b. is_hash (sh b)"
  shows "execution_policy_ok p \<and> verifyRuntimeExecutionPolicyV4 ph p = Inr p \<and>
    ep_maxAttempts p \<le> tr_max_attempts (ad_request i) \<and>
    (\<exists>b e. profile_binding (ad_profile i) (ep_executorRole p) = Some b \<and> b_execution b = Some e \<and>
       ep_maxSteps p \<le> be_maxSteps e \<and> ep_maxToolUses p \<le> be_maxToolUses e \<and>
       ep_maxNoMutationSteps p \<le> be_maxNoMutationSteps e \<and> ep_timeoutSeconds p = be_timeoutSeconds e)"
proof -
  from assms(1) obtain c e where cl: "choose_lane sh bh i = Inr c" and ok: "choice_ok sh bh i c"
    and e: "b_execution (lc_binding c) = Some e"
    and body: "execution_policy_body.truncate p = policy_body i c e"
    and hash: "ep_policyHash p = ph (policy_body i c e)" by (rule resolve_Inr)
  let ?ts = "request_traits (ad_request i)"
  have role: "profile_binding (ad_profile i) (lc_role c) = Some (lc_binding c)" "lane_role_ok (lc_lane c) (lc_role c)"
    and h: "healthy sh bh (lc_binding c) ?ts (ad_health i) = Inr True"
    using ok by (simp_all add: choice_ok_def)
  have env: "binding_execution_ok e" by (rule profile_envelope_ok [OF assms(3) role(1) e])
  have att: "int_between 1 3 (tr_max_attempts (ad_request i))"
    using assms(2) by (simp add: runtimeTaskRequestV4Schema_def task_request_fields_ok_def)
  note bud = policy_body_budget [OF env att, of c]
  note f = policy_fields [OF body]
  have fs: "ep_taskTraits (policy_body i c e) = ?ts" "ep_executorRole (policy_body i c e) = lc_role c"
    "ep_reasons (policy_body i c e) = lc_reasons c @ [budget_note (lc_role c)
       (ep_maxSteps (policy_body i c e)) (ep_maxAttempts (policy_body i c e))]"
    "ep_healthEvidenceHashes (policy_body i c e) = Some (sort_strings (map hs_snapshotHash (ad_health i)))"
    by (simp_all add: policy_body_def Let_def budget_note_def)
  have er: "lc_role c \<in> {executor, reasoningExecutor, frontierExecutor}"
    using role(2) by (simp add: lane_role_ok_def split: execution_lane.splits)
  have tr: "unique_between 1 9 (\<lambda>_. True) ?ts" by (rule request_traits_ok [OF assms(2)])
  have rs: "list_between 1 16 (bounded_length 1 2000) (ep_reasons (policy_body i c e))"
    unfolding fs by (rule resolved_reasons_ok [OF cl tr]) (use bud in simp_all)
  have hh: "unique_between 0 128 is_hash (sort_strings (map hs_snapshotHash (ad_health i)))"
    using gate_evidence [OF h [unfolded healthy_def]] assms(5)
    by (auto simp: unique_between_def list_all_iff sort_strings_def snapshot_evidence_ok_def)
  have "execution_policy_ok p"
    using er tr rs hh bud env assms(4)
    by (simp add: execution_policy_ok_def f fs hash int_between_def opt_all_def binding_execution_ok_def)
  moreover have "verifyRuntimeExecutionPolicyV4 ph p = Inr p"
    by (simp add: verifyRuntimeExecutionPolicyV4_def throw_if_def body hash)
  ultimately show ?thesis using role(1) e bud by (simp add: f fs)
qed

section \<open>Witnesses\<close>

definition sample_adaptive :: adaptive_input where
  "sample_adaptive = \<lparr>ad_request = sample_request, ad_profile = sample_profile,
     ad_sourceSensitivity = PUBLIC, ad_forceFrontier = False, ad_bindingHealth = None\<rparr>"

definition sample_policy :: execution_policy where
  "sample_policy = execution_policy_body.extend
     (policy_body sample_adaptive \<lparr>lc_lane = MECHANICAL_ECONOMY, lc_role = executor,
        lc_binding = sample_binding economy contract_write,
        lc_reasons = [traits_reason [localized, mechanical]]\<rparr> sample_envelope)
     (execution_policy.fields (hash_of CHR ''9''))"

lemma sample_resolution:
  "resolveAdaptiveExecutionPolicyV4 (const_hash CHR ''e'') (const_hash CHR ''b'') (const_hash CHR ''9'')
     sample_adaptive = Inr sample_policy"
  by code_simp

theorem resolved_lane_safe_witness:
  "ep_lane sample_policy = MECHANICAL_ECONOMY \<and> lane_role_ok (ep_lane sample_policy) (ep_executorRole sample_policy)"
  using resolved_lane_safe [OF sample_resolution]
  by (simp add: sample_policy_def policy_body_def Let_def execution_policy_body.defs execution_policy.defs)

theorem resolved_policy_accepted_witness: "execution_policy_ok sample_policy"
  using resolved_policy_accepted [OF sample_resolution, of all_urls] sample_request_accepted
    sample_profile_accepted
  by (simp add: sample_adaptive_def lower_hex_def)

end
