(* ===== verification/Run_State.thy ===== *)
theory Run_State
  imports Idempotency Adaptive_Execution
begin

text \<open>
  The broker's state (\<open>src/runtime/run-state.ts\<close>): the commands of the journal, the loader that
  checks a command read from disk, the reducer with one definition per command, the replay of a
  journal and the recovery from a cached state. Then the invariants of every replayed state.

  A command has a \<open>command_id\<close>; every command but \<open>RUN_CODING_TASK\<close> and \<open>RUN_ACCEPTED\<close> is an event
  of an accepted run. The runs are a plain object indexed by run identifier, read with \<open>js_get\<close>.
\<close>

section \<open>Commands and state\<close>

datatype broker_verdict = APPROVED | REJECTED
datatype skip_reason = POLICY_DISABLED | CONTRACT_PROHIBITED

record process_identity =
  px_pid :: int
  px_boot_nonce :: string

record review_verdict_body =
  bv_review_packet_hash :: string
  bv_contract_hash :: string
  bv_diff_hash :: string
  bv_tree_hash :: string
  bv_capability_snapshot_hash :: string
  bv_verdict :: broker_verdict
  bv_reason :: string

record review_verdict = review_verdict_body +
  bv_verdict_hash :: string

record run_accepted =
  acc_request_hash :: string
  acc_contract :: work_contract
  acc_result :: runtime_result
  acc_inspection_epoch :: int

record candidate_accepted =
  cd_validation_results :: "validation_result list"
  cd_diff_hash :: string
  cd_tree_hash :: string
  cd_changed_files :: "string list"
  cd_review_attestation_hash :: string

record commit_created =
  cm_task_ref :: string
  cm_base_sha :: string
  cm_git_tree_sha :: string
  cm_evidence_tree_hash :: string
  cm_commit_sha :: string
  cm_contract_hash :: string
  cm_diff_hash :: string
  cm_validation_manifest_hash :: string
  cm_review_attestation_hash :: string

record branch_pushed =
  bp_commit_sha :: string
  bp_branch :: string
  bp_remote :: string
  bp_publication_policy_hash :: string

record pull_request_recorded =
  pr_commit_sha :: string
  pr_pull_request :: int
  pr_pull_request_url :: string
  pr_base_branch :: string
  pr_publication_policy_hash :: string

record checks_passed =
  ck_commit_sha :: string
  ck_pull_request :: int
  ck_publication_policy_hash :: string

record run_merged =
  me_commit_sha :: string
  me_pull_request :: int
  me_pull_request_url :: string
  me_merge_commit_sha :: string
  me_publication_policy_hash :: string

record publication_skipped =
  sk_commit_sha :: string
  sk_publication_policy_hash :: string
  sk_reason :: skip_reason

datatype run_event =
    ATTEMPT_RECORDED runtime_attempt
  | PATHS_REINSPECTED int
  | EXTERNAL_PROCESS_STARTED process_identity
  | CANDIDATE_ACCEPTED candidate_accepted
  | REVIEW_VERDICT_RECORDED review_verdict
  | COMMIT_CREATED commit_created
  | BRANCH_PUSHED branch_pushed
  | PULL_REQUEST_RECORDED pull_request_recorded
  | REQUIRED_CHECKS_PASSED checks_passed
  | RUN_MERGED run_merged
  | PUBLICATION_SKIPPED publication_skipped
  | RUN_FAILED runtime_failure
  | RUN_ABORTED runtime_failure

datatype broker_command =
    RUN_CODING_TASK (command_id: string) task_request
  | RUN_ACCEPTED (command_id: string) (command_run: string) run_accepted
  | RUN_EVENT (command_id: string) (command_run: string) run_event

record run_state =
  rs_contract :: work_contract
  rs_result :: runtime_result
  rs_request_hash :: string
  rs_inspection_epoch :: int
  rs_inspection_required :: bool
  rs_external_process :: "process_identity option"
  rs_review_verdict :: "review_verdict option"

record broker_state =
  bs_runs :: "string \<rightharpoonup> run_state"
  bs_requests :: request_index

abbreviation corrupt :: "string \<Rightarrow> error" where
  "corrupt m \<equiv> Error BROKER_STATE_CORRUPT m"

text \<open>The values of \<open>result.state\<close>, a free identifier in the result schema.\<close>

definition S_READY_FOR_EXECUTOR :: string where
  "S_READY_FOR_EXECUTOR = ''READY_FOR_EXECUTOR''"

definition S_EXECUTION_STARTED :: string where
  "S_EXECUTION_STARTED = ''EXECUTION_STARTED''"

definition S_AWAITING_REINSPECTION :: string where
  "S_AWAITING_REINSPECTION = ''AWAITING_REINSPECTION''"

definition S_REVIEW_ACCEPTED :: string where
  "S_REVIEW_ACCEPTED = ''REVIEW_ACCEPTED''"

definition S_READY_FOR_PUBLICATION :: string where
  "S_READY_FOR_PUBLICATION = ''READY_FOR_PUBLICATION''"

definition S_PUBLICATION_PUSHED :: string where
  "S_PUBLICATION_PUSHED = ''PUBLICATION_PUSHED''"

definition S_PULL_REQUEST_OPEN :: string where
  "S_PULL_REQUEST_OPEN = ''PULL_REQUEST_OPEN''"

definition S_REQUIRED_CHECKS_PASSED :: string where
  "S_REQUIRED_CHECKS_PASSED = ''REQUIRED_CHECKS_PASSED''"

definition S_FINALIZED :: string where
  "S_FINALIZED = ''FINALIZED''"

definition S_FAILED :: string where
  "S_FAILED = ''FAILED''"

definition S_ABORTED :: string where
  "S_ABORTED = ''ABORTED''"

lemmas run_state_defs = S_READY_FOR_EXECUTOR_def
  S_EXECUTION_STARTED_def
  S_AWAITING_REINSPECTION_def
  S_REVIEW_ACCEPTED_def
  S_READY_FOR_PUBLICATION_def
  S_PUBLICATION_PUSHED_def
  S_PULL_REQUEST_OPEN_def
  S_REQUIRED_CHECKS_PASSED_def
  S_FINALIZED_def
  S_FAILED_def
  S_ABORTED_def

lemma run_states_distinct [simp]:
  "S_READY_FOR_EXECUTOR \<noteq> S_EXECUTION_STARTED" "S_READY_FOR_EXECUTOR \<noteq> S_AWAITING_REINSPECTION"
  "S_READY_FOR_EXECUTOR \<noteq> S_REVIEW_ACCEPTED" "S_READY_FOR_EXECUTOR \<noteq> S_READY_FOR_PUBLICATION"
  "S_READY_FOR_EXECUTOR \<noteq> S_PUBLICATION_PUSHED" "S_READY_FOR_EXECUTOR \<noteq> S_PULL_REQUEST_OPEN"
  "S_READY_FOR_EXECUTOR \<noteq> S_REQUIRED_CHECKS_PASSED" "S_READY_FOR_EXECUTOR \<noteq> S_FINALIZED"
  "S_READY_FOR_EXECUTOR \<noteq> S_FAILED" "S_READY_FOR_EXECUTOR \<noteq> S_ABORTED"
  "S_EXECUTION_STARTED \<noteq> S_READY_FOR_EXECUTOR" "S_EXECUTION_STARTED \<noteq> S_AWAITING_REINSPECTION"
  "S_EXECUTION_STARTED \<noteq> S_REVIEW_ACCEPTED" "S_EXECUTION_STARTED \<noteq> S_READY_FOR_PUBLICATION"
  "S_EXECUTION_STARTED \<noteq> S_PUBLICATION_PUSHED" "S_EXECUTION_STARTED \<noteq> S_PULL_REQUEST_OPEN"
  "S_EXECUTION_STARTED \<noteq> S_REQUIRED_CHECKS_PASSED" "S_EXECUTION_STARTED \<noteq> S_FINALIZED"
  "S_EXECUTION_STARTED \<noteq> S_FAILED" "S_EXECUTION_STARTED \<noteq> S_ABORTED"
  "S_AWAITING_REINSPECTION \<noteq> S_READY_FOR_EXECUTOR" "S_AWAITING_REINSPECTION \<noteq> S_EXECUTION_STARTED"
  "S_AWAITING_REINSPECTION \<noteq> S_REVIEW_ACCEPTED" "S_AWAITING_REINSPECTION \<noteq> S_READY_FOR_PUBLICATION"
  "S_AWAITING_REINSPECTION \<noteq> S_PUBLICATION_PUSHED" "S_AWAITING_REINSPECTION \<noteq> S_PULL_REQUEST_OPEN"
  "S_AWAITING_REINSPECTION \<noteq> S_REQUIRED_CHECKS_PASSED" "S_AWAITING_REINSPECTION \<noteq> S_FINALIZED"
  "S_AWAITING_REINSPECTION \<noteq> S_FAILED" "S_AWAITING_REINSPECTION \<noteq> S_ABORTED"
  "S_REVIEW_ACCEPTED \<noteq> S_READY_FOR_EXECUTOR" "S_REVIEW_ACCEPTED \<noteq> S_EXECUTION_STARTED"
  "S_REVIEW_ACCEPTED \<noteq> S_AWAITING_REINSPECTION" "S_REVIEW_ACCEPTED \<noteq> S_READY_FOR_PUBLICATION"
  "S_REVIEW_ACCEPTED \<noteq> S_PUBLICATION_PUSHED" "S_REVIEW_ACCEPTED \<noteq> S_PULL_REQUEST_OPEN"
  "S_REVIEW_ACCEPTED \<noteq> S_REQUIRED_CHECKS_PASSED" "S_REVIEW_ACCEPTED \<noteq> S_FINALIZED"
  "S_REVIEW_ACCEPTED \<noteq> S_FAILED" "S_REVIEW_ACCEPTED \<noteq> S_ABORTED"
  "S_READY_FOR_PUBLICATION \<noteq> S_READY_FOR_EXECUTOR" "S_READY_FOR_PUBLICATION \<noteq> S_EXECUTION_STARTED"
  "S_READY_FOR_PUBLICATION \<noteq> S_AWAITING_REINSPECTION" "S_READY_FOR_PUBLICATION \<noteq> S_REVIEW_ACCEPTED"
  "S_READY_FOR_PUBLICATION \<noteq> S_PUBLICATION_PUSHED" "S_READY_FOR_PUBLICATION \<noteq> S_PULL_REQUEST_OPEN"
  "S_READY_FOR_PUBLICATION \<noteq> S_REQUIRED_CHECKS_PASSED" "S_READY_FOR_PUBLICATION \<noteq> S_FINALIZED"
  "S_READY_FOR_PUBLICATION \<noteq> S_FAILED" "S_READY_FOR_PUBLICATION \<noteq> S_ABORTED"
  "S_PUBLICATION_PUSHED \<noteq> S_READY_FOR_EXECUTOR" "S_PUBLICATION_PUSHED \<noteq> S_EXECUTION_STARTED"
  "S_PUBLICATION_PUSHED \<noteq> S_AWAITING_REINSPECTION" "S_PUBLICATION_PUSHED \<noteq> S_REVIEW_ACCEPTED"
  "S_PUBLICATION_PUSHED \<noteq> S_READY_FOR_PUBLICATION" "S_PUBLICATION_PUSHED \<noteq> S_PULL_REQUEST_OPEN"
  "S_PUBLICATION_PUSHED \<noteq> S_REQUIRED_CHECKS_PASSED" "S_PUBLICATION_PUSHED \<noteq> S_FINALIZED"
  "S_PUBLICATION_PUSHED \<noteq> S_FAILED" "S_PUBLICATION_PUSHED \<noteq> S_ABORTED"
  "S_PULL_REQUEST_OPEN \<noteq> S_READY_FOR_EXECUTOR" "S_PULL_REQUEST_OPEN \<noteq> S_EXECUTION_STARTED"
  "S_PULL_REQUEST_OPEN \<noteq> S_AWAITING_REINSPECTION" "S_PULL_REQUEST_OPEN \<noteq> S_REVIEW_ACCEPTED"
  "S_PULL_REQUEST_OPEN \<noteq> S_READY_FOR_PUBLICATION" "S_PULL_REQUEST_OPEN \<noteq> S_PUBLICATION_PUSHED"
  "S_PULL_REQUEST_OPEN \<noteq> S_REQUIRED_CHECKS_PASSED" "S_PULL_REQUEST_OPEN \<noteq> S_FINALIZED"
  "S_PULL_REQUEST_OPEN \<noteq> S_FAILED" "S_PULL_REQUEST_OPEN \<noteq> S_ABORTED"
  "S_REQUIRED_CHECKS_PASSED \<noteq> S_READY_FOR_EXECUTOR" "S_REQUIRED_CHECKS_PASSED \<noteq> S_EXECUTION_STARTED"
  "S_REQUIRED_CHECKS_PASSED \<noteq> S_AWAITING_REINSPECTION" "S_REQUIRED_CHECKS_PASSED \<noteq> S_REVIEW_ACCEPTED"
  "S_REQUIRED_CHECKS_PASSED \<noteq> S_READY_FOR_PUBLICATION" "S_REQUIRED_CHECKS_PASSED \<noteq> S_PUBLICATION_PUSHED"
  "S_REQUIRED_CHECKS_PASSED \<noteq> S_PULL_REQUEST_OPEN" "S_REQUIRED_CHECKS_PASSED \<noteq> S_FINALIZED"
  "S_REQUIRED_CHECKS_PASSED \<noteq> S_FAILED" "S_REQUIRED_CHECKS_PASSED \<noteq> S_ABORTED"
  "S_FINALIZED \<noteq> S_READY_FOR_EXECUTOR" "S_FINALIZED \<noteq> S_EXECUTION_STARTED"
  "S_FINALIZED \<noteq> S_AWAITING_REINSPECTION" "S_FINALIZED \<noteq> S_REVIEW_ACCEPTED"
  "S_FINALIZED \<noteq> S_READY_FOR_PUBLICATION" "S_FINALIZED \<noteq> S_PUBLICATION_PUSHED"
  "S_FINALIZED \<noteq> S_PULL_REQUEST_OPEN" "S_FINALIZED \<noteq> S_REQUIRED_CHECKS_PASSED"
  "S_FINALIZED \<noteq> S_FAILED" "S_FINALIZED \<noteq> S_ABORTED"
  "S_FAILED \<noteq> S_READY_FOR_EXECUTOR" "S_FAILED \<noteq> S_EXECUTION_STARTED"
  "S_FAILED \<noteq> S_AWAITING_REINSPECTION" "S_FAILED \<noteq> S_REVIEW_ACCEPTED"
  "S_FAILED \<noteq> S_READY_FOR_PUBLICATION" "S_FAILED \<noteq> S_PUBLICATION_PUSHED"
  "S_FAILED \<noteq> S_PULL_REQUEST_OPEN" "S_FAILED \<noteq> S_REQUIRED_CHECKS_PASSED"
  "S_FAILED \<noteq> S_FINALIZED" "S_FAILED \<noteq> S_ABORTED"
  "S_ABORTED \<noteq> S_READY_FOR_EXECUTOR" "S_ABORTED \<noteq> S_EXECUTION_STARTED"
  "S_ABORTED \<noteq> S_AWAITING_REINSPECTION" "S_ABORTED \<noteq> S_REVIEW_ACCEPTED"
  "S_ABORTED \<noteq> S_READY_FOR_PUBLICATION" "S_ABORTED \<noteq> S_PUBLICATION_PUSHED"
  "S_ABORTED \<noteq> S_PULL_REQUEST_OPEN" "S_ABORTED \<noteq> S_REQUIRED_CHECKS_PASSED"
  "S_ABORTED \<noteq> S_FINALIZED" "S_ABORTED \<noteq> S_FAILED"
  by (simp_all add: run_state_defs)

section \<open>Loading a journal command\<close>

definition js_space :: "char \<Rightarrow> bool" where
  "js_space c = (c \<in> {CHR 0x09, CHR 0x0A, CHR 0x0B, CHR 0x0C, CHR 0x0D, CHR '' '', CHR 0xA0})"

definition positive_safe :: "int \<Rightarrow> bool" where
  "positive_safe n = (safe_int n \<and> 1 \<le> n)"

definition owner_char :: "char \<Rightarrow> bool" where
  "owner_char c = (alnum c \<or> c \<in> set ''_.-'')"

definition decimal_number :: "string \<Rightarrow> bool" where
  "decimal_number s = lead_class (\<lambda>c. c \<in> set ''123456789'') (\<lambda>c. c \<in> set ''0123456789'') (length s) s"

definition pullRequestUrl_ok :: "string \<Rightarrow> int \<Rightarrow> bool" where
  "pullRequestUrl_ok url n =
     (length url \<le> 2048 \<and> starts_with url ''https://github.com/'' \<and>
      (case split_on CHR ''/'' (drop 19 url) of
         [owner, repo, p, number] \<Rightarrow> owner \<noteq> [] \<and> list_all owner_char owner \<and> repo \<noteq> [] \<and>
           list_all owner_char repo \<and> p = ''pull'' \<and> decimal_number number
       | _ \<Rightarrow> False) \<and>
      ends_with url (''/pull/'' @ decimal n))"

definition failureContract_ok :: "runtime_failure \<Rightarrow> bool" where
  "failureContract_ok f = (1 \<le> length (rf_message f) \<and> length (rf_message f) \<le> 2000 \<and>
     length (rf_evidence_hashes f) \<le> 64 \<and> list_all is_hash (rf_evidence_hashes f) \<and>
     distinct (rf_evidence_hashes f))"

definition validation_results_ok :: "validation_result list \<Rightarrow> bool" where
  "validation_results_ok vs = (1 \<le> length vs \<and> length vs \<le> 64 \<and>
     list_all (\<lambda>v. identifier_ok (vr_validation_id v) \<and> vr_exit_code v = 0 \<and> is_hash (vr_result_hash v)) vs \<and>
     distinct (map vr_validation_id vs))"

definition changed_files_ok :: "string list \<Rightarrow> bool" where
  "changed_files_ok fs = (1 \<le> length fs \<and> length fs \<le> 256 \<and>
     list_all (\<lambda>f. length f \<le> 512 \<and> isNormalizedRepositoryRelativePathV4 f) fs \<and>
     distinct (map to_lower fs))"

definition verdict_ok :: "(string \<Rightarrow> review_verdict_body \<Rightarrow> string) \<Rightarrow> string \<Rightarrow> review_verdict \<Rightarrow> bool" where
  "verdict_ok verdict_hash rid v =
     (\<not> list_all js_space (bv_reason v) \<and> length (bv_reason v) \<le> 4000 \<and> CHR 0x00 \<notin> set (bv_reason v) \<and>
      is_hash (bv_review_packet_hash v) \<and> is_hash (bv_contract_hash v) \<and> is_hash (bv_diff_hash v) \<and>
      is_hash (bv_tree_hash v) \<and> is_hash (bv_capability_snapshot_hash v) \<and> is_hash (bv_verdict_hash v) \<and>
      verdict_hash rid (review_verdict_body.truncate v) = bv_verdict_hash v)"

definition commit_ok :: "commit_created \<Rightarrow> bool" where
  "commit_ok m =
     (starts_with (cm_task_ref m) ''refs/heads/codex/auto/'' \<and> branch_name_ok (drop 22 (cm_task_ref m)) \<and>
      is_git_sha (cm_base_sha m) \<and> is_git_sha (cm_git_tree_sha m) \<and> is_hash (cm_evidence_tree_hash m) \<and>
      is_git_sha (cm_commit_sha m) \<and> is_hash (cm_contract_hash m) \<and> is_hash (cm_diff_hash m) \<and>
      is_hash (cm_validation_manifest_hash m) \<and> is_hash (cm_review_attestation_hash m))"

definition publication_event_ok :: "run_event \<Rightarrow> bool" where
  "publication_event_ok ev = (case ev of
      BRANCH_PUSHED b \<Rightarrow> tagged_id ''codex/auto/run_'' 16 96 (bp_branch b) \<and> remote_ok (bp_remote b) \<and>
        is_git_sha (bp_commit_sha b) \<and> is_hash (bp_publication_policy_hash b)
    | PULL_REQUEST_RECORDED p \<Rightarrow> positive_safe (pr_pull_request p) \<and> branch_name_ok (pr_base_branch p) \<and>
        \<not> contains (pr_base_branch p) ''..'' \<and> is_git_sha (pr_commit_sha p) \<and>
        pullRequestUrl_ok (pr_pull_request_url p) (pr_pull_request p) \<and> is_hash (pr_publication_policy_hash p)
    | REQUIRED_CHECKS_PASSED k \<Rightarrow> is_git_sha (ck_commit_sha k) \<and> positive_safe (ck_pull_request k) \<and>
        is_hash (ck_publication_policy_hash k)
    | RUN_MERGED m \<Rightarrow> positive_safe (me_pull_request m) \<and> is_git_sha (me_commit_sha m) \<and>
        pullRequestUrl_ok (me_pull_request_url m) (me_pull_request m) \<and> is_git_sha (me_merge_commit_sha m) \<and>
        is_hash (me_publication_policy_hash m)
    | PUBLICATION_SKIPPED k \<Rightarrow> is_git_sha (sk_commit_sha k) \<and> is_hash (sk_publication_policy_hash k)
    | _ \<Rightarrow> True)"

definition run_event_ok :: "(string \<Rightarrow> review_verdict_body \<Rightarrow> string) \<Rightarrow> string \<Rightarrow> run_event \<Rightarrow> bool" where
  "run_event_ok verdict_hash rid ev = (case ev of
      ATTEMPT_RECORDED a \<Rightarrow> positive_safe (at_attempt a) \<and> identifier_ok (at_executor_binding_ref a) \<and>
        is_hash (at_result_hash a)
    | PATHS_REINSPECTED n \<Rightarrow> positive_safe n
    | EXTERNAL_PROCESS_STARTED p \<Rightarrow> positive_safe (px_pid p) \<and> identifier_ok (px_boot_nonce p)
    | CANDIDATE_ACCEPTED c \<Rightarrow> validation_results_ok (cd_validation_results c) \<and>
        changed_files_ok (cd_changed_files c) \<and> is_hash (cd_diff_hash c) \<and> is_hash (cd_tree_hash c) \<and>
        is_hash (cd_review_attestation_hash c)
    | REVIEW_VERDICT_RECORDED v \<Rightarrow> verdict_ok verdict_hash rid v
    | COMMIT_CREATED m \<Rightarrow> commit_ok m
    | RUN_FAILED f \<Rightarrow> failureContract_ok f
    | RUN_ABORTED f \<Rightarrow> failureContract_ok f \<and> rf_code f = F_ABORTED
    | _ \<Rightarrow> publication_event_ok ev)"

text \<open>
  The parameters of the loader: the URL check of the schema library, and the hashes of a policy body
  and of a verdict body.
\<close>

record load_env =
  le_url_ok :: "string \<Rightarrow> bool"
  le_policy_hash :: "execution_policy_body \<Rightarrow> string"
  le_verdict_hash :: "string \<Rightarrow> review_verdict_body \<Rightarrow> string"

definition loadRuntimeWorkContractV4 :: "load_env \<Rightarrow> work_contract \<Rightarrow> work_contract result" where
  "loadRuntimeWorkContractV4 env c =
     throw_if (\<not> runtimeWorkContractV4Schema c) (Error INVALID_CONTRACT ''Runtime contract validation failed'')
     (case wc_execution_policy c of
        None \<Rightarrow> Inr c
      | Some p \<Rightarrow> bindR (verifyRuntimeExecutionPolicyV4 (le_policy_hash env) p) (\<lambda>_. Inr c))"

definition acceptance_ok :: "load_env \<Rightarrow> run_accepted \<Rightarrow> bool" where
  "acceptance_ok env a =
     (positive_safe (acc_inspection_epoch a) \<and> is_hash (acc_request_hash a) \<and>
      is_ok (loadRuntimeWorkContractV4 env (acc_contract a)) \<and>
      runtimeResultV4Schema (le_url_ok env) (acc_result a))"

definition loadJournalCommandV4 :: "load_env \<Rightarrow> broker_command \<Rightarrow> broker_command result" where
  "loadJournalCommandV4 env c =
     throw_if (\<not> identifier_ok (command_id c)) (corrupt ''command_id is invalid'')
     (case c of
        RUN_CODING_TASK _ _ \<Rightarrow> Inl (corrupt ''unknown journal command'')
      | RUN_ACCEPTED _ rid a \<Rightarrow>
          throw_if (\<not> run_id_ok rid \<or> \<not> acceptance_ok env a)
            (corrupt ''RUN_ACCEPTED is invalid'') (Inr c)
      | RUN_EVENT _ rid ev \<Rightarrow>
          throw_if (\<not> run_id_ok rid \<or> \<not> run_event_ok (le_verdict_hash env) rid ev)
            (corrupt ''run event is invalid'') (Inr c))"

section \<open>The reducer\<close>

definition initialBrokerStateV4 :: broker_state where
  "initialBrokerStateV4 = \<lparr>bs_runs = Map.empty, bs_requests = Map.empty\<rparr>"

abbreviation set_result :: "(runtime_result \<Rightarrow> runtime_result) \<Rightarrow> run_state \<Rightarrow> run_state" where
  "set_result f r \<equiv> r\<lparr>rs_result := f (rs_result r)\<rparr>"

definition terminal_state :: "string \<Rightarrow> bool" where
  "terminal_state s = (s \<in> {S_FAILED, S_ABORTED, S_FINALIZED})"

definition accept_run :: "broker_state \<Rightarrow> string \<Rightarrow> run_accepted \<Rightarrow> broker_state result" where
  "accept_run s rid a =
     throw_if (js_get (bs_runs s) rid \<noteq> Absent) (corrupt ''run_id was accepted twice'')
     (throw_if (wc_run_id (acc_contract a) \<noteq> rid \<or> rr_run_id (acc_result a) \<noteq> rid \<or>
         tr_request_id (acc_contract a) \<noteq> rr_request_id (acc_result a))
       (corrupt ''accepted run has inconsistent identities'')
     (bindR (registerRequestV4 (bs_requests s) (tr_request_id (acc_contract a)) (acc_request_hash a) rid) (\<lambda>reg.
      throw_if (\<not> rg_created reg) (corrupt ''request_id was accepted twice'')
      (Inr \<lparr>bs_runs = (bs_runs s)(rid \<mapsto>
              \<lparr>rs_contract = acc_contract a, rs_result = acc_result a, rs_request_hash = acc_request_hash a,
               rs_inspection_epoch = acc_inspection_epoch a, rs_inspection_required = False,
               rs_external_process = None, rs_review_verdict = None\<rparr>),
            bs_requests = rg_index reg\<rparr>))))"

definition attempt_step :: "run_state \<Rightarrow> runtime_attempt \<Rightarrow> run_state result" where
  "attempt_step r a =
     throw_if (rr_state (rs_result r) \<noteq> S_EXECUTION_STARTED \<or> rs_external_process r = None)
       (corrupt ''attempt can only complete active execution'')
     (throw_if (at_attempt a \<noteq> int (length (rr_attempts (rs_result r))) + 1)
       (corrupt ''attempt sequence is invalid'')
     (Inr (set_result (\<lambda>x. x\<lparr>rr_state := S_AWAITING_REINSPECTION, rr_attempts := rr_attempts x @ [a]\<rparr>)
        (r\<lparr>rs_inspection_required := True, rs_external_process := None, rs_review_verdict := None\<rparr>))))"

definition reinspect_step :: "run_state \<Rightarrow> int \<Rightarrow> run_state result" where
  "reinspect_step r epoch =
     throw_if (rr_state (rs_result r) \<noteq> S_AWAITING_REINSPECTION \<or> \<not> rs_inspection_required r \<or>
         rs_external_process r \<noteq> None) (corrupt ''reinspection is not pending'')
     (throw_if (epoch \<le> rs_inspection_epoch r) (corrupt ''inspection epoch did not advance'')
     (Inr (set_result (\<lambda>x. x\<lparr>rr_state := S_READY_FOR_EXECUTOR\<rparr>)
        (r\<lparr>rs_inspection_epoch := epoch, rs_inspection_required := False\<rparr>))))"

definition process_step :: "run_state \<Rightarrow> process_identity \<Rightarrow> run_state result" where
  "process_step r p =
     throw_if (rr_state (rs_result r) \<noteq> S_READY_FOR_EXECUTOR \<or> rs_inspection_required r \<or>
         rs_external_process r \<noteq> None) (corrupt ''executor launch is not allowed'')
     (Inr (set_result (\<lambda>x. x\<lparr>rr_state := S_EXECUTION_STARTED\<rparr>) (r\<lparr>rs_external_process := Some p\<rparr>)))"

definition candidate_authorized :: "run_state \<Rightarrow> candidate_accepted \<Rightarrow> bool" where
  "candidate_authorized r c =
     (let k = rs_contract r; allowed = tr_allowed_validation_ids k;
          targets = map (\<lambda>ch. to_lower (ac_path ch)) (tr_implementation_targets k) in
      rr_state (rs_result r) = S_READY_FOR_EXECUTOR \<and>
      rr_attempts (rs_result r) \<noteq> [] \<and>
      \<not> rs_inspection_required r \<and>
      rs_external_process r = None \<and>
      length (cd_validation_results c) = length allowed \<and>
      list_all2 (\<lambda>v i. vr_validation_id v = i \<and> vr_validation_id v \<in> set allowed) (cd_validation_results c) allowed \<and>
      list_all (\<lambda>p. to_lower p \<in> set targets) (cd_changed_files c) \<and>
      int (length (cd_changed_files c)) \<le> tr_max_files_changed k)"

definition candidate_step :: "run_state \<Rightarrow> candidate_accepted \<Rightarrow> run_state result" where
  "candidate_step r c =
     throw_if (\<not> candidate_authorized r c) (corrupt ''accepted candidate evidence is not authorized'')
     (Inr (set_result (\<lambda>x. x\<lparr>rr_state := S_REVIEW_ACCEPTED,
          rr_validation_results := cd_validation_results c, rr_diff_hash := cd_diff_hash c,
          rr_tree_hash := cd_tree_hash c, rr_changed_files := cd_changed_files c,
          rr_review_attestation_hash := Some (cd_review_attestation_hash c)\<rparr>)
        (r\<lparr>rs_review_verdict := None\<rparr>)))"

definition verdict_step :: "run_state \<Rightarrow> review_verdict \<Rightarrow> run_state result" where
  "verdict_step r v =
     throw_if (rr_state (rs_result r) \<noteq> S_REVIEW_ACCEPTED \<or>
         rr_contract_hash (rs_result r) \<noteq> bv_contract_hash v \<or>
         rr_diff_hash (rs_result r) \<noteq> bv_diff_hash v \<or>
         rr_tree_hash (rs_result r) \<noteq> bv_tree_hash v \<or>
         rs_review_verdict r \<noteq> None)
       (corrupt ''review verdict is not authorized'')
     (Inr (r\<lparr>rs_review_verdict := Some v\<rparr>))"

definition commit_step :: "run_state \<Rightarrow> commit_created \<Rightarrow> run_state result" where
  "commit_step r m =
     throw_if (rr_state (rs_result r) \<noteq> S_REVIEW_ACCEPTED \<or> rs_inspection_required r \<or>
         rs_external_process r \<noteq> None \<or>
         cm_task_ref m \<noteq> ''refs/heads/'' @ rr_branch (rs_result r) \<or>
         cm_base_sha m \<noteq> wc_base_sha (rs_contract r) \<or>
         cm_contract_hash m \<noteq> wc_contract_hash (rs_contract r) \<or>
         cm_diff_hash m \<noteq> rr_diff_hash (rs_result r) \<or>
         cm_evidence_tree_hash m \<noteq> rr_tree_hash (rs_result r) \<or>
         Some (cm_review_attestation_hash m) \<noteq> rr_review_attestation_hash (rs_result r))
       (corrupt ''commit evidence does not match accepted run'')
     (Inr (set_result (\<lambda>x. x\<lparr>rr_state := S_READY_FOR_PUBLICATION,
          rr_head_sha := Some (cm_commit_sha m), rr_commit_sha := Some (cm_commit_sha m)\<rparr>)
        (r\<lparr>rs_external_process := None\<rparr>)))"

definition push_step :: "run_state \<Rightarrow> branch_pushed \<Rightarrow> run_state result" where
  "push_step r b =
     throw_if (rr_state (rs_result r) \<noteq> S_READY_FOR_PUBLICATION \<or>
         Some (bp_commit_sha b) \<noteq> rr_commit_sha (rs_result r) \<or>
         bp_branch b \<noteq> rr_branch (rs_result r) \<or>
         bp_publication_policy_hash b \<noteq> wc_policy_hash (rs_contract r))
       (corrupt ''pushed branch does not match finalized run'')
     (Inr (set_result (\<lambda>x. x\<lparr>rr_state := S_PUBLICATION_PUSHED,
          rr_publication := (rr_publication x)\<lparr>pu_state := PUSHED, pu_remote := Some (bp_remote b)\<rparr>\<rparr>) r))"

definition pull_request_step :: "run_state \<Rightarrow> pull_request_recorded \<Rightarrow> run_state result" where
  "pull_request_step r p =
     throw_if (rr_state (rs_result r) \<noteq> S_PUBLICATION_PUSHED \<or>
         Some (pr_commit_sha p) \<noteq> rr_commit_sha (rs_result r) \<or>
         pr_publication_policy_hash p \<noteq> wc_policy_hash (rs_contract r))
       (corrupt ''pull request does not match pushed run'')
     (Inr (set_result (\<lambda>x. x\<lparr>rr_state := S_PULL_REQUEST_OPEN,
          rr_publication := (rr_publication x)\<lparr>pu_state := PR_OPEN, pu_base_branch := Some (pr_base_branch p),
            pu_pull_request := Some (pr_pull_request p), pu_pull_request_url := Some (pr_pull_request_url p)\<rparr>\<rparr>) r))"

definition checks_step :: "run_state \<Rightarrow> checks_passed \<Rightarrow> run_state result" where
  "checks_step r k =
     throw_if (rr_state (rs_result r) \<noteq> S_PULL_REQUEST_OPEN \<or>
         Some (ck_commit_sha k) \<noteq> rr_commit_sha (rs_result r) \<or>
         Some (ck_pull_request k) \<noteq> pu_pull_request (rr_publication (rs_result r)) \<or>
         ck_publication_policy_hash k \<noteq> wc_policy_hash (rs_contract r))
       (corrupt ''required checks do not match pull request'')
     (Inr (set_result (\<lambda>x. x\<lparr>rr_state := S_REQUIRED_CHECKS_PASSED,
          rr_publication := (rr_publication x)\<lparr>pu_state := CHECKS_PASSED\<rparr>\<rparr>) r))"

definition merge_step :: "run_state \<Rightarrow> run_merged \<Rightarrow> run_state result" where
  "merge_step r m =
     throw_if (rr_state (rs_result r) \<notin> {S_PULL_REQUEST_OPEN, S_REQUIRED_CHECKS_PASSED} \<or>
         Some (me_commit_sha m) \<noteq> rr_commit_sha (rs_result r) \<or>
         Some (me_pull_request m) \<noteq> pu_pull_request (rr_publication (rs_result r)) \<or>
         Some (me_pull_request_url m) \<noteq> pu_pull_request_url (rr_publication (rs_result r)) \<or>
         me_publication_policy_hash m \<noteq> wc_policy_hash (rs_contract r))
       (corrupt ''merge does not match pull request'')
     (Inr (set_result (\<lambda>x. x\<lparr>rr_state := S_FINALIZED, rr_head_sha := Some (me_merge_commit_sha m),
          rr_publication := (rr_publication x)\<lparr>pu_state := MERGED,
            pu_merge_commit_sha := Some (me_merge_commit_sha m)\<rparr>\<rparr>) r))"

definition skip_step :: "run_state \<Rightarrow> publication_skipped \<Rightarrow> run_state result" where
  "skip_step r k =
     throw_if (rr_state (rs_result r) \<noteq> S_READY_FOR_PUBLICATION \<or>
         Some (sk_commit_sha k) \<noteq> rr_commit_sha (rs_result r) \<or>
         sk_publication_policy_hash k \<noteq> wc_policy_hash (rs_contract r))
       (corrupt ''publication skip does not match finalized run'')
     (Inr (set_result (\<lambda>x. x\<lparr>rr_state := S_FINALIZED,
          rr_publication := (rr_publication x)\<lparr>pu_state := SKIPPED\<rparr>\<rparr>) r))"

definition abort_step :: "run_state \<Rightarrow> runtime_failure \<Rightarrow> run_state result" where
  "abort_step r f =
     throw_if (rf_code f \<noteq> F_ABORTED \<or> terminal_state (rr_state (rs_result r)))
       (corrupt ''abort evidence is invalid'')
     (Inr (set_result (\<lambda>x. x\<lparr>rr_state := S_ABORTED, rr_failure := Some f\<rparr>) (r\<lparr>rs_external_process := None\<rparr>)))"

definition fail_step :: "run_state \<Rightarrow> runtime_failure \<Rightarrow> run_state result" where
  "fail_step r f =
     throw_if (terminal_state (rr_state (rs_result r))) (corrupt ''failure evidence is invalid for terminal run'')
     (Inr (set_result (\<lambda>x. x\<lparr>rr_state := S_FAILED, rr_failure := Some f\<rparr>) (r\<lparr>rs_external_process := None\<rparr>)))"

definition run_step :: "run_state \<Rightarrow> run_event \<Rightarrow> run_state result" where
  "run_step r ev =
     throw_if (terminal_state (rr_state (rs_result r))) (corrupt ''terminal run cannot transition'')
     (case ev of
        ATTEMPT_RECORDED a \<Rightarrow> attempt_step r a
      | PATHS_REINSPECTED n \<Rightarrow> reinspect_step r n
      | EXTERNAL_PROCESS_STARTED p \<Rightarrow> process_step r p
      | CANDIDATE_ACCEPTED c \<Rightarrow> candidate_step r c
      | REVIEW_VERDICT_RECORDED v \<Rightarrow> verdict_step r v
      | COMMIT_CREATED m \<Rightarrow> commit_step r m
      | BRANCH_PUSHED b \<Rightarrow> push_step r b
      | PULL_REQUEST_RECORDED p \<Rightarrow> pull_request_step r p
      | REQUIRED_CHECKS_PASSED k \<Rightarrow> checks_step r k
      | RUN_MERGED m \<Rightarrow> merge_step r m
      | PUBLICATION_SKIPPED k \<Rightarrow> skip_step r k
      | RUN_ABORTED f \<Rightarrow> abort_step r f
      | RUN_FAILED f \<Rightarrow> fail_step r f)"

definition requireRun :: "broker_state \<Rightarrow> string \<Rightarrow> run_state result" where
  "requireRun s rid = (case js_get (bs_runs s) rid of
      Own r \<Rightarrow> Inr r
    | Absent \<Rightarrow> Inl (corrupt ''command references unknown run'')
    | Inherited \<Rightarrow> Inl (Error TYPE_ERROR ''run.result is undefined''))"

fun reduceBrokerStateV4 :: "broker_state \<Rightarrow> broker_command \<Rightarrow> broker_state result" where
  "reduceBrokerStateV4 s (RUN_CODING_TASK _ _) =
     Inl (corrupt ''unaccepted caller command cannot enter the journal'')"
| "reduceBrokerStateV4 s (RUN_ACCEPTED _ rid a) = accept_run s rid a"
| "reduceBrokerStateV4 s (RUN_EVENT _ rid ev) =
     bindR (requireRun s rid) (\<lambda>r. bindR (run_step r ev) (\<lambda>r'.
       Inr (s\<lparr>bs_runs := (bs_runs s)(rid \<mapsto> r')\<rparr>)))"

definition replayBrokerStateV4 :: "broker_command list \<Rightarrow> broker_state result" where
  "replayBrokerStateV4 cs = foldR reduceBrokerStateV4 initialBrokerStateV4 cs"

section \<open>Recovery\<close>

text \<open>
  The cache read back from disk: absent, not JSON, or a sequence with a state and its hash. What is
  read is given (\<open>None\<close> for a missing file); the result carries the cache that is written, if any.
\<close>

record 'st state_cache =
  sc_sequence :: int
  sc_state_hash :: string
  sc_state :: 'st

datatype 'st cache_read = Cache_Missing | Cache_Invalid_JSON | Cache_Read "'st state_cache"

record recovery =
  rec_state :: broker_state
  rec_sequence :: nat
  rec_written :: "broker_state state_cache option"

definition writeBrokerStateCacheV4 ::
    "(broker_state \<Rightarrow> string) \<Rightarrow> broker_state \<Rightarrow> nat \<Rightarrow> broker_state state_cache" where
  "writeBrokerStateCacheV4 state_hash s n = \<lparr>sc_sequence = int n, sc_state_hash = state_hash s, sc_state = s\<rparr>"

definition recoverBrokerStateV4 ::
    "(broker_state \<Rightarrow> string) \<Rightarrow> broker_command list \<Rightarrow> broker_state cache_read \<Rightarrow> recovery result" where
  "recoverBrokerStateV4 state_hash cs cache =
     bindR (replayBrokerStateV4 cs) (\<lambda>s.
       let n = length cs; fresh = writeBrokerStateCacheV4 state_hash s n in
       case cache of
         Cache_Missing \<Rightarrow> Inr \<lparr>rec_state = s, rec_sequence = n, rec_written = Some fresh\<rparr>
       | Cache_Invalid_JSON \<Rightarrow> Inl (corrupt ''current-state cache is invalid JSON'')
       | Cache_Read c \<Rightarrow>
           throw_if (\<not> safe_int (sc_sequence c) \<or> sc_sequence c < 0 \<or> sc_sequence c > int n)
             (corrupt ''current-state cache sequence is outside the journal'')
           (bindR (replayBrokerStateV4 (take (nat (sc_sequence c)) cs)) (\<lambda>p.
            throw_if (sc_state_hash c \<noteq> state_hash p \<or> sc_state_hash c \<noteq> state_hash (sc_state c))
              (corrupt ''current-state cache disagrees with journal replay'')
            (Inr \<lparr>rec_state = s, rec_sequence = n,
              rec_written = (if sc_sequence c < int n then Some fresh else None)\<rparr>))))"

section \<open>One step of a run\<close>

lemmas run_step_defs = attempt_step_def reinspect_step_def process_step_def candidate_step_def
  verdict_step_def commit_step_def push_step_def pull_request_step_def checks_step_def merge_step_def
  skip_step_def abort_step_def fail_step_def

text \<open>What no event of a run changes.\<close>

definition run_identity :: "run_state \<Rightarrow> work_contract \<times> string \<times> string \<times> string \<times> string \<times> string \<times> string \<times> string" where
  "run_identity r = (rs_contract r, rs_request_hash r, rr_run_id (rs_result r), rr_request_id (rs_result r),
     rr_branch (rs_result r), rr_base_sha (rs_result r), rr_contract_hash (rs_result r), rr_policy_hash (rs_result r))"

lemma run_step_identity: "run_step r ev = Inr r' \<Longrightarrow> run_identity r' = run_identity r"
  by (cases ev) (auto simp: run_step_def run_step_defs run_identity_def)

lemma run_step_not_terminal: "run_step r ev = Inr r' \<Longrightarrow> \<not> terminal_state (rr_state (rs_result r))"
  by (simp add: run_step_def)

lemma run_step_epoch: "run_step r ev = Inr r' \<Longrightarrow> rs_inspection_epoch r \<le> rs_inspection_epoch r'"
  by (cases ev) (auto simp: run_step_def run_step_defs)

definition phase :: "string \<Rightarrow> nat" where
  "phase s = (if terminal_state s then 6 else if s = S_REQUIRED_CHECKS_PASSED then 5
     else if s = S_PULL_REQUEST_OPEN then 4 else if s = S_PUBLICATION_PUSHED then 3
     else if s = S_READY_FOR_PUBLICATION then 2 else if s = S_REVIEW_ACCEPTED then 1 else 0)"

lemma phase_simps [simp]:
  "phase S_READY_FOR_EXECUTOR = 0" "phase S_EXECUTION_STARTED = 0" "phase S_AWAITING_REINSPECTION = 0"
  "phase S_REVIEW_ACCEPTED = 1" "phase S_READY_FOR_PUBLICATION = 2" "phase S_PUBLICATION_PUSHED = 3"
  "phase S_PULL_REQUEST_OPEN = 4" "phase S_REQUIRED_CHECKS_PASSED = 5" "phase S_FINALIZED = 6"
  "phase S_FAILED = 6" "phase S_ABORTED = 6"
  by (simp_all add: phase_def terminal_state_def)

lemma phase_le_6: "phase s \<le> 6"
  by (simp add: phase_def)

lemma run_step_phase: "run_step r ev = Inr r' \<Longrightarrow> phase (rr_state (rs_result r)) \<le> phase (rr_state (rs_result r'))"
  using phase_le_6 [of "rr_state (rs_result r)"]
  by (cases ev) (auto simp: run_step_def run_step_defs candidate_authorized_def Let_def)

section \<open>Lifecycle of a run\<close>

definition active_states :: "string list" where
  "active_states = [S_READY_FOR_EXECUTOR, S_EXECUTION_STARTED, S_AWAITING_REINSPECTION, S_REVIEW_ACCEPTED,
     S_READY_FOR_PUBLICATION, S_PUBLICATION_PUSHED, S_PULL_REQUEST_OPEN, S_REQUIRED_CHECKS_PASSED, S_FINALIZED]"

definition numbered :: "runtime_attempt list \<Rightarrow> bool" where
  "numbered as = (map at_attempt as = map int [1..<Suc (length as)])"

definition process_inv :: "run_state \<Rightarrow> bool" where
  "process_inv r =
     (rr_state (rs_result r) \<in> set active_states \<union> {S_FAILED, S_ABORTED} \<and>
      (rs_external_process r \<noteq> None \<longleftrightarrow> rr_state (rs_result r) = S_EXECUTION_STARTED) \<and>
      (rr_state (rs_result r) \<in> set active_states \<longrightarrow>
         (rs_inspection_required r \<longleftrightarrow> rr_state (rs_result r) = S_AWAITING_REINSPECTION)) \<and>
      numbered (rr_attempts (rs_result r)) \<and>
      (rr_failure (rs_result r) \<noteq> None \<longleftrightarrow> rr_state (rs_result r) \<in> {S_FAILED, S_ABORTED}) \<and>
      1 \<le> rs_inspection_epoch r)"

lemma numbered_snoc [simp]:
  "numbered as \<Longrightarrow> at_attempt a = int (length as) + 1 \<Longrightarrow> numbered (as @ [a])"
  by (simp add: numbered_def)

lemma process_inv_step:
  assumes "run_step r ev = Inr r'" and "process_inv r"
  shows "process_inv r'"
  using assms
  by (cases ev; clarsimp simp: run_step_def run_step_defs process_inv_def active_states_def
      candidate_authorized_def Let_def terminal_state_def; (elim disjE; simp)?)

text \<open>The evidence that a run has accumulated.\<close>

definition candidate_inv :: "run_state \<Rightarrow> bool" where
  "candidate_inv r =
     (let x = rs_result r; k = rs_contract r in
      (1 \<le> phase (rr_state x) \<and> rr_state x \<in> set active_states \<longrightarrow> rr_review_attestation_hash x \<noteq> None) \<and>
      (rr_review_attestation_hash x \<noteq> None \<longrightarrow>
         rr_attempts x \<noteq> [] \<and>
         map vr_validation_id (rr_validation_results x) = tr_allowed_validation_ids k \<and>
         list_all (\<lambda>v. vr_exit_code v = 0) (rr_validation_results x) \<and>
         list_all (\<lambda>p. isNormalizedRepositoryRelativePathV4 p \<and>
           to_lower p \<in> set (map (\<lambda>ch. to_lower (ac_path ch)) (tr_implementation_targets k))) (rr_changed_files x) \<and>
         distinct (map to_lower (rr_changed_files x)) \<and>
         int (length (rr_changed_files x)) \<le> tr_max_files_changed k))"

lemma list_all2_ids:
  "list_all2 (\<lambda>v i. vr_validation_id v = i \<and> vr_validation_id v \<in> S) vs ids \<Longrightarrow> map vr_validation_id vs = ids"
  by (induction rule: list_all2_induct) auto

lemma candidate_inv_step:
  assumes "run_step r ev = Inr r'" and "candidate_inv r" and "run_event_ok vh rid ev"
  shows "candidate_inv r'"
proof (cases "\<exists>c. ev = CANDIDATE_ACCEPTED c")
  case True
  then obtain c where c: "ev = CANDIDATE_ACCEPTED c" by blast
  with assms(1) have auth: "candidate_authorized r c"
    and r': "rr_state (rs_result r') = S_REVIEW_ACCEPTED" "rs_contract r' = rs_contract r"
      "rr_validation_results (rs_result r') = cd_validation_results c"
      "rr_changed_files (rs_result r') = cd_changed_files c"
      "rr_attempts (rs_result r') = rr_attempts (rs_result r)"
      "rr_review_attestation_hash (rs_result r') = Some (cd_review_attestation_hash c)"
    by (auto simp: run_step_def candidate_step_def)
  have ok: "validation_results_ok (cd_validation_results c)" "changed_files_ok (cd_changed_files c)"
    using assms(3) by (simp_all add: c run_event_ok_def)
  show ?thesis
    using auth ok
    by (auto simp: candidate_inv_def r' candidate_authorized_def Let_def validation_results_ok_def
        changed_files_ok_def list_all_iff dest: list_all2_ids)
next
  case False
  then show ?thesis
    using assms(1,2)
    by (cases ev; clarsimp simp: run_step_def run_step_defs candidate_inv_def active_states_def Let_def;
        (elim disjE; simp)?)
qed

definition publication_inv :: "run_state \<Rightarrow> bool" where
  "publication_inv r =
     (let x = rs_result r; p = rr_publication x; s = rr_state x in
      (rr_commit_sha x \<noteq> None \<longrightarrow> rr_review_attestation_hash x \<noteq> None) \<and>
      (s \<in> set active_states \<longrightarrow> (rr_commit_sha x \<noteq> None \<longleftrightarrow> 2 \<le> phase s)) \<and>
      (s \<in> set active_states \<and> phase s \<le> 2 \<longrightarrow> pu_state p = NOT_STARTED) \<and>
      (s = S_PUBLICATION_PUSHED \<longrightarrow> pu_state p = PUSHED) \<and>
      (s \<in> {S_PULL_REQUEST_OPEN, S_REQUIRED_CHECKS_PASSED} \<longrightarrow>
         pu_pull_request p \<noteq> None \<and> pu_pull_request_url p \<noteq> None) \<and>
      (s = S_FINALIZED \<longrightarrow> pu_state p \<in> {MERGED, SKIPPED} \<and>
         (pu_state p = MERGED \<longrightarrow> pu_pull_request p \<noteq> None \<and> pu_pull_request_url p \<noteq> None \<and>
            rr_head_sha x = pu_merge_commit_sha p \<and> pu_merge_commit_sha p \<noteq> None) \<and>
         (pu_state p = SKIPPED \<longrightarrow> rr_head_sha x = rr_commit_sha x)) \<and>
      (s \<in> {S_READY_FOR_PUBLICATION, S_PUBLICATION_PUSHED, S_PULL_REQUEST_OPEN, S_REQUIRED_CHECKS_PASSED} \<longrightarrow>
         rr_head_sha x = rr_commit_sha x))"

lemma publication_inv_step:
  assumes "run_step r ev = Inr r'" and "publication_inv r" and "process_inv r" and "candidate_inv r"
  shows "publication_inv r'"
  using assms
  by (cases ev; clarsimp simp: run_step_def run_step_defs publication_inv_def process_inv_def candidate_inv_def
      active_states_def Let_def candidate_authorized_def terminal_state_def; (elim disjE; simp)?)

text \<open>
  The result with which the broker daemon accepts a run (\<open>initialResult\<close> of
  \<open>src/runtime/broker-daemon.ts\<close>); the hashes of the empty diff, of the base tree and of the empty
  artifact list are parameters.
\<close>

record init_hashes =
  ih_diff :: string
  ih_tree :: "string \<Rightarrow> string"
  ih_artifacts :: "string \<Rightarrow> string"

definition initialResult :: "init_hashes \<Rightarrow> string \<Rightarrow> work_contract \<Rightarrow> runtime_result" where
  "initialResult h runId c =
     \<lparr>rr_run_id = runId, rr_request_id = tr_request_id c, rr_state = S_READY_FOR_EXECUTOR,
      rr_effective_route = wc_effective_route c, rr_route_decision_hash = wc_route_decision_hash c,
      rr_effective_data_scope = wc_effective_data_scope c,
      rr_effective_source_sensitivity = wc_effective_source_sensitivity c,
      rr_branch = ''codex/auto/'' @ runId, rr_base_sha = wc_base_sha c, rr_head_sha = None,
      rr_contract_hash = wc_contract_hash c, rr_policy_hash = wc_policy_hash c,
      rr_profile_hash = wc_profile_hash c, rr_attempts = [], rr_validation_results = [],
      rr_diff_hash = ih_diff h, rr_tree_hash = ih_tree h (wc_base_sha c), rr_changed_files = [],
      rr_review_attestation_hash = None, rr_commit_sha = None,
      rr_publication = \<lparr>pu_state = NOT_STARTED, pu_remote = None, pu_base_branch = None,
        pu_pull_request = None, pu_pull_request_url = None, pu_merge_commit_sha = None\<rparr>,
      rr_failure = None, rr_artifact_manifest_hash = ih_artifacts h runId\<rparr>"

definition broker_acceptance :: "init_hashes \<Rightarrow> broker_command \<Rightarrow> bool" where
  "broker_acceptance h c = (case c of
      RUN_ACCEPTED _ rid a \<Rightarrow> acc_result a = initialResult h rid (acc_contract a)
    | _ \<Rightarrow> True)"

definition accepted_run :: "run_accepted \<Rightarrow> run_state" where
  "accepted_run a = \<lparr>rs_contract = acc_contract a, rs_result = acc_result a, rs_request_hash = acc_request_hash a,
     rs_inspection_epoch = acc_inspection_epoch a, rs_inspection_required = False,
     rs_external_process = None, rs_review_verdict = None\<rparr>"

definition run_inv :: "run_state \<Rightarrow> bool" where
  "run_inv r = (process_inv r \<and> candidate_inv r \<and> publication_inv r)"

lemma run_inv_fresh:
  "acc_result a = initialResult h rid (acc_contract a) \<Longrightarrow> 1 \<le> acc_inspection_epoch a \<Longrightarrow>
   run_inv (accepted_run a)"
  by (simp add: run_inv_def process_inv_def candidate_inv_def publication_inv_def initialResult_def
      accepted_run_def active_states_def numbered_def Let_def)

lemma run_inv_step:
  "run_step r ev = Inr r' \<Longrightarrow> run_inv r \<Longrightarrow> run_event_ok vh rid ev \<Longrightarrow> run_inv r'"
  by (simp add: run_inv_def process_inv_step candidate_inv_step publication_inv_step)

section \<open>One step of the broker\<close>

lemma accept_run_Inr:
  assumes "accept_run s rid a = Inr s'"
  shows "bs_runs s rid = None \<and> bs_runs s' = (bs_runs s)(rid \<mapsto> accepted_run a) \<and>
    wc_run_id (acc_contract a) = rid \<and> rr_run_id (acc_result a) = rid \<and>
    rr_request_id (acc_result a) = tr_request_id (acc_contract a) \<and>
    bs_requests s (tr_request_id (acc_contract a)) = None \<and>
    bs_requests s' = (bs_requests s)(tr_request_id (acc_contract a) \<mapsto>
      \<lparr>ri_request_hash = acc_request_hash a, ri_run_id = rid\<rparr>)"
  using assms
  by (auto simp: accept_run_def accepted_run_def js_get_Absent dest!: registerRequest_created)

lemma reduce_event_Inr:
  assumes "reduceBrokerStateV4 s (RUN_EVENT cid rid ev) = Inr s'"
  obtains r r' where "bs_runs s rid = Some r" "run_step r ev = Inr r'"
    "bs_runs s' = (bs_runs s)(rid \<mapsto> r')" "bs_requests s' = bs_requests s"
  using assms by (auto simp: requireRun_def split: slot.splits)

text \<open>Each request has exactly one run, each run exactly one request.\<close>

definition identity_inv :: "broker_state \<Rightarrow> bool" where
  "identity_inv s =
     ((\<forall>rid r. bs_runs s rid = Some r \<longrightarrow>
         wc_run_id (rs_contract r) = rid \<and> rr_run_id (rs_result r) = rid \<and>
         rr_request_id (rs_result r) = tr_request_id (rs_contract r) \<and>
         bs_requests s (tr_request_id (rs_contract r)) =
           Some \<lparr>ri_request_hash = rs_request_hash r, ri_run_id = rid\<rparr>) \<and>
      (\<forall>q v. bs_requests s q = Some v \<longrightarrow>
         (\<exists>r. bs_runs s (ri_run_id v) = Some r \<and> tr_request_id (rs_contract r) = q)))"

lemma identity_inv_initial: "identity_inv initialBrokerStateV4"
  by (simp add: identity_inv_def initialBrokerStateV4_def)

lemma identity_inv_accept:
  assumes "identity_inv s" and "accept_run s rid a = Inr s'"
  shows "identity_inv s'"
proof -
  note acc = accept_run_Inr [OF assms(2)]
  have other: "tr_request_id (rs_contract r) \<noteq> tr_request_id (acc_contract a)"
    if "bs_runs s k = Some r" for k r
    using assms(1) that acc unfolding identity_inv_def by (metis option.distinct(1))
  have kept: "ri_run_id v \<noteq> rid" if "bs_requests s q = Some v" for q v
    using assms(1) that acc unfolding identity_inv_def by (metis option.distinct(1))
  show ?thesis
    unfolding identity_inv_def
  proof (intro conjI allI impI)
    fix k r
    assume "bs_runs s' k = Some r"
    then show "wc_run_id (rs_contract r) = k" "rr_run_id (rs_result r) = k"
      "rr_request_id (rs_result r) = tr_request_id (rs_contract r)"
      "bs_requests s' (tr_request_id (rs_contract r)) =
         Some \<lparr>ri_request_hash = rs_request_hash r, ri_run_id = k\<rparr>"
      using acc assms(1) other by (auto simp: identity_inv_def accepted_run_def split: if_splits)
  next
    fix q v
    assume "bs_requests s' q = Some v"
    then show "\<exists>r. bs_runs s' (ri_run_id v) = Some r \<and> tr_request_id (rs_contract r) = q"
      using acc assms(1) kept by (auto simp: identity_inv_def accepted_run_def split: if_splits)
  qed
qed

lemma identity_inv_event:
  assumes "identity_inv s" and "reduceBrokerStateV4 s (RUN_EVENT cid rid ev) = Inr s'"
  shows "identity_inv s'"
  using assms(2)
proof (rule reduce_event_Inr)
  fix r r'
  assume r: "bs_runs s rid = Some r" and step: "run_step r ev = Inr r'"
    and s': "bs_runs s' = (bs_runs s)(rid \<mapsto> r')" "bs_requests s' = bs_requests s"
  have id: "rs_contract r' = rs_contract r" "rs_request_hash r' = rs_request_hash r"
    "rr_run_id (rs_result r') = rr_run_id (rs_result r)"
    "rr_request_id (rs_result r') = rr_request_id (rs_result r)"
    using run_step_identity [OF step] by (simp_all add: run_identity_def)
  show "identity_inv s'"
    unfolding identity_inv_def s'
  proof (intro conjI allI impI)
    fix k q
    assume k: "((bs_runs s)(rid \<mapsto> r')) k = Some q"
    have "\<exists>p. bs_runs s k = Some p \<and> rs_contract q = rs_contract p \<and> rs_request_hash q = rs_request_hash p \<and>
        rr_run_id (rs_result q) = rr_run_id (rs_result p) \<and>
        rr_request_id (rs_result q) = rr_request_id (rs_result p)"
      using k r id by (cases "k = rid") auto
    then show "wc_run_id (rs_contract q) = k" "rr_run_id (rs_result q) = k"
      "rr_request_id (rs_result q) = tr_request_id (rs_contract q)"
      "bs_requests s (tr_request_id (rs_contract q)) =
         Some \<lparr>ri_request_hash = rs_request_hash q, ri_run_id = k\<rparr>"
      using assms(1) unfolding identity_inv_def by auto
  next
    fix q v
    assume "bs_requests s q = Some v"
    then obtain p where "bs_runs s (ri_run_id v) = Some p" "tr_request_id (rs_contract p) = q"
      using assms(1) unfolding identity_inv_def by blast
    then show "\<exists>x. ((bs_runs s)(rid \<mapsto> r')) (ri_run_id v) = Some x \<and> tr_request_id (rs_contract x) = q"
      using r id by (cases "ri_run_id v = rid") auto
  qed
qed

lemma identity_inv_reduce:
  assumes "identity_inv s" and "reduceBrokerStateV4 s c = Inr s'"
  shows "identity_inv s'"
proof (cases c)
  case (RUN_CODING_TASK x1 x2)
  with assms(2) show ?thesis by simp
next
  case (RUN_ACCEPTED x1 rid a)
  with assms(2) have "accept_run s rid a = Inr s'" by simp
  then show ?thesis by (rule identity_inv_accept [OF assms(1)])
next
  case (RUN_EVENT cid rid ev)
  with assms show ?thesis by (blast intro: identity_inv_event)
qed

interpretation broker: replay_machine reduceBrokerStateV4 initialBrokerStateV4 identity_inv
  by unfold_locales (auto intro: identity_inv_initial identity_inv_reduce)

section \<open>Histories\<close>

text \<open>What a command does to a run that already exists.\<close>

definition run_successor :: "run_state \<Rightarrow> run_state \<Rightarrow> bool" where
  "run_successor r r' =
     (run_identity r' = run_identity r \<and>
      phase (rr_state (rs_result r)) \<le> phase (rr_state (rs_result r')) \<and>
      rs_inspection_epoch r \<le> rs_inspection_epoch r' \<and>
      (terminal_state (rr_state (rs_result r)) \<longrightarrow> r' = r))"

lemma run_successor_refl: "run_successor r r"
  by (simp add: run_successor_def)

lemma terminal_phase: "terminal_state s \<Longrightarrow> phase s = 6"
  by (simp add: phase_def)

lemma run_successor_trans: "run_successor p q \<Longrightarrow> run_successor q r \<Longrightarrow> run_successor p r"
  by (auto simp: run_successor_def)

lemma run_step_successor: "run_step r ev = Inr r' \<Longrightarrow> run_successor r r'"
  using run_step_identity run_step_phase run_step_epoch run_step_not_terminal
  by (auto simp: run_successor_def)

lemma reduce_keeps_runs:
  assumes "reduceBrokerStateV4 s c = Inr s'" and "bs_runs s rid = Some r"
  shows "\<exists>r'. bs_runs s' rid = Some r' \<and> run_successor r r'"
proof (cases c)
  case (RUN_CODING_TASK x1 x2)
  with assms(1) show ?thesis by simp
next
  case (RUN_ACCEPTED x1 k a)
  with assms(1) have "accept_run s k a = Inr s'" by simp
  note acc = accept_run_Inr [OF this]
  then have "k \<noteq> rid" using assms(2) by auto
  with acc assms(2) show ?thesis by (auto intro: run_successor_refl)
next
  case (RUN_EVENT cid k ev)
  with assms(1) have "reduceBrokerStateV4 s (RUN_EVENT cid k ev) = Inr s'" by simp
  then show ?thesis
  proof (rule reduce_event_Inr)
    fix p p'
    assume p: "bs_runs s k = Some p" "run_step p ev = Inr p'" "bs_runs s' = (bs_runs s)(k \<mapsto> p')"
    show ?thesis
    proof (cases "k = rid")
      case True
      with p assms(2) show ?thesis by (auto intro: run_step_successor)
    next
      case False
      with p assms(2) show ?thesis by (auto intro: run_successor_refl)
    qed
  qed
qed

lemma replay_keeps_runs:
  assumes "foldR reduceBrokerStateV4 s cs = Inr s'" and "bs_runs s rid = Some r"
  shows "\<exists>r'. bs_runs s' rid = Some r' \<and> run_successor r r'"
  using assms
proof (induction cs arbitrary: s r)
  case Nil
  then show ?case by (auto intro: run_successor_refl)
next
  case (Cons c cs)
  from Cons.prems(1) obtain t where t: "reduceBrokerStateV4 s c = Inr t" "foldR reduceBrokerStateV4 t cs = Inr s'"
    by auto
  from reduce_keeps_runs [OF t(1) Cons.prems(2)] obtain q where q: "bs_runs t rid = Some q" "run_successor r q"
    by blast
  from Cons.IH [OF t(2) q(1)] q(2) show ?case by (auto intro: run_successor_trans)
qed

end
