(* ===== verification/Run_History.thy ===== *)
theory Run_History
  imports Run_State
begin

text \<open>
  Whole journals: what the history of a run holds about its result (the evidence behind each hash,
  commit and publication), the invariant of every state replayed from loaded commands, and the
  properties of the broker's reducer. The last part replays one complete journal, from acceptance to
  merge, which the witnesses use.
\<close>

section \<open>The evidence behind a run\<close>

text \<open>
  \<open>H\<close> is the set of the events that the history holds for the run: the candidate that produced its
  evidence hashes, the commit built from it, and the push, pull request and merge (or the recorded
  decision to skip publication).
\<close>

definition candidate_evidence :: "run_event set \<Rightarrow> runtime_result \<Rightarrow> bool" where
  "candidate_evidence H x = (rr_review_attestation_hash x \<noteq> None \<longrightarrow>
     (\<exists>c. CANDIDATE_ACCEPTED c \<in> H \<and> cd_diff_hash c = rr_diff_hash x \<and> cd_tree_hash c = rr_tree_hash x \<and>
        cd_changed_files c = rr_changed_files x \<and> cd_validation_results c = rr_validation_results x \<and>
        Some (cd_review_attestation_hash c) = rr_review_attestation_hash x))"

definition commit_evidence :: "run_event set \<Rightarrow> work_contract \<Rightarrow> runtime_result \<Rightarrow> bool" where
  "commit_evidence H k x = (rr_commit_sha x \<noteq> None \<longrightarrow>
     (\<exists>m. COMMIT_CREATED m \<in> H \<and> Some (cm_commit_sha m) = rr_commit_sha x \<and>
        cm_evidence_tree_hash m = rr_tree_hash x \<and> cm_diff_hash m = rr_diff_hash x \<and>
        Some (cm_review_attestation_hash m) = rr_review_attestation_hash x \<and>
        cm_base_sha m = wc_base_sha k \<and> cm_contract_hash m = wc_contract_hash k \<and>
        cm_task_ref m = ''refs/heads/'' @ rr_branch x))"

definition push_evidence :: "run_event set \<Rightarrow> work_contract \<Rightarrow> runtime_result \<Rightarrow> bool" where
  "push_evidence H k x = (\<exists>b. BRANCH_PUSHED b \<in> H \<and> Some (bp_commit_sha b) = rr_commit_sha x \<and>
     bp_branch b = rr_branch x \<and> bp_publication_policy_hash b = wc_policy_hash k)"

definition pull_request_evidence :: "run_event set \<Rightarrow> work_contract \<Rightarrow> runtime_result \<Rightarrow> bool" where
  "pull_request_evidence H k x = (push_evidence H k x \<and>
     (\<exists>p. PULL_REQUEST_RECORDED p \<in> H \<and> Some (pr_commit_sha p) = rr_commit_sha x \<and>
        Some (pr_pull_request p) = pu_pull_request (rr_publication x) \<and>
        Some (pr_pull_request_url p) = pu_pull_request_url (rr_publication x) \<and>
        pr_publication_policy_hash p = wc_policy_hash k))"

definition merge_evidence :: "run_event set \<Rightarrow> work_contract \<Rightarrow> runtime_result \<Rightarrow> bool" where
  "merge_evidence H k x = (pull_request_evidence H k x \<and>
     (\<exists>m. RUN_MERGED m \<in> H \<and> Some (me_commit_sha m) = rr_commit_sha x \<and>
        Some (me_pull_request m) = pu_pull_request (rr_publication x) \<and>
        Some (me_merge_commit_sha m) = pu_merge_commit_sha (rr_publication x) \<and>
        me_publication_policy_hash m = wc_policy_hash k))"

definition skip_evidence :: "run_event set \<Rightarrow> work_contract \<Rightarrow> runtime_result \<Rightarrow> bool" where
  "skip_evidence H k x = (\<exists>q. PUBLICATION_SKIPPED q \<in> H \<and> Some (sk_commit_sha q) = rr_commit_sha x \<and>
     sk_publication_policy_hash q = wc_policy_hash k)"

definition publication_evidence :: "run_event set \<Rightarrow> work_contract \<Rightarrow> runtime_result \<Rightarrow> bool" where
  "publication_evidence H k x =
     ((rr_state x = S_PUBLICATION_PUSHED \<longrightarrow> push_evidence H k x) \<and>
      (rr_state x \<in> {S_PULL_REQUEST_OPEN, S_REQUIRED_CHECKS_PASSED} \<longrightarrow> pull_request_evidence H k x) \<and>
      (rr_state x = S_FINALIZED \<longrightarrow>
         (pu_state (rr_publication x) = MERGED \<and> merge_evidence H k x) \<or>
         (pu_state (rr_publication x) = SKIPPED \<and> skip_evidence H k x)))"

definition evidence_inv :: "run_event set \<Rightarrow> run_state \<Rightarrow> bool" where
  "evidence_inv H r =
     (candidate_evidence H (rs_result r) \<and> commit_evidence H (rs_contract r) (rs_result r) \<and>
      publication_evidence H (rs_contract r) (rs_result r))"

lemma candidate_evidence_step:
  assumes "run_step r ev = Inr r'" and "candidate_evidence H (rs_result r)"
  shows "candidate_evidence (insert ev H) (rs_result r')"
proof (cases "\<exists>c. ev = CANDIDATE_ACCEPTED c")
  case True
  then obtain c where "ev = CANDIDATE_ACCEPTED c" by blast
  with assms(1) show ?thesis
    by (auto simp: run_step_def candidate_step_def candidate_evidence_def intro!: exI [of _ c])
next
  case False
  then have "rr_review_attestation_hash (rs_result r') = rr_review_attestation_hash (rs_result r)"
    "rr_diff_hash (rs_result r') = rr_diff_hash (rs_result r)"
    "rr_tree_hash (rs_result r') = rr_tree_hash (rs_result r)"
    "rr_changed_files (rs_result r') = rr_changed_files (rs_result r)"
    "rr_validation_results (rs_result r') = rr_validation_results (rs_result r)"
    using assms(1) by (cases ev; clarsimp simp: run_step_def run_step_defs)+
  with assms(2) show ?thesis by (auto simp: candidate_evidence_def)
qed

lemma commit_evidence_step:
  assumes "run_step r ev = Inr r'" and "publication_inv r"
    and "commit_evidence H (rs_contract r) (rs_result r)"
  shows "commit_evidence (insert ev H) (rs_contract r') (rs_result r')"
proof -
  consider (com) m where "ev = COMMIT_CREATED m" | (cand) c where "ev = CANDIDATE_ACCEPTED c"
    | (other) "\<forall>m. ev \<noteq> COMMIT_CREATED m" "\<forall>c. ev \<noteq> CANDIDATE_ACCEPTED c" by blast
  then show ?thesis
  proof cases
    case com
    with assms(1) show ?thesis by (auto simp: run_step_def commit_step_def commit_evidence_def)
  next
    case cand
    with assms(1,2) show ?thesis
      by (auto simp: run_step_def candidate_step_def commit_evidence_def candidate_authorized_def
          publication_inv_def active_states_def Let_def)
  next
    case other
    then have "rr_review_attestation_hash (rs_result r') = rr_review_attestation_hash (rs_result r)"
      "rr_diff_hash (rs_result r') = rr_diff_hash (rs_result r)"
      "rr_tree_hash (rs_result r') = rr_tree_hash (rs_result r)"
      "rr_commit_sha (rs_result r') = rr_commit_sha (rs_result r)"
      using assms(1) by (cases ev; clarsimp simp: run_step_def run_step_defs)+
    with assms(3) run_step_identity [OF assms(1)] show ?thesis
      by (auto simp: commit_evidence_def run_identity_def)
  qed
qed

lemma evidence_mono:
  assumes "H \<subseteq> H'"
  shows "push_evidence H k x \<Longrightarrow> push_evidence H' k x"
    and "pull_request_evidence H k x \<Longrightarrow> pull_request_evidence H' k x"
proof -
  show push: "push_evidence H k x \<Longrightarrow> push_evidence H' k x"
    using assms unfolding push_evidence_def by blast
  show "pull_request_evidence H k x \<Longrightarrow> pull_request_evidence H' k x"
    using assms push unfolding pull_request_evidence_def by blast
qed

lemma push_evidence_cong:
  "rr_commit_sha x = rr_commit_sha y \<Longrightarrow> rr_branch x = rr_branch y \<Longrightarrow> push_evidence H k x = push_evidence H k y"
  by (simp add: push_evidence_def)

lemma pull_request_evidence_cong:
  "rr_commit_sha x = rr_commit_sha y \<Longrightarrow> rr_branch x = rr_branch y \<Longrightarrow>
   pu_pull_request (rr_publication x) = pu_pull_request (rr_publication y) \<Longrightarrow>
   pu_pull_request_url (rr_publication x) = pu_pull_request_url (rr_publication y) \<Longrightarrow>
   pull_request_evidence H k x = pull_request_evidence H k y"
  by (simp add: pull_request_evidence_def push_evidence_cong [of x y])

lemma publication_evidence_step:
  assumes "run_step r ev = Inr r'" and "publication_evidence H (rs_contract r) (rs_result r)"
  shows "publication_evidence (insert ev H) (rs_contract r') (rs_result r')"
proof -
  let ?H = "insert ev H" and ?k = "rs_contract r" and ?x = "rs_result r" and ?y = "rs_result r'"
  have sub: "H \<subseteq> ?H" by blast
  have k: "rs_contract r' = ?k" and b: "rr_branch ?y = rr_branch ?x"
    using run_step_identity [OF assms(1)] by (simp_all add: run_identity_def)
  consider (push) bp where "ev = BRANCH_PUSHED bp" | (pr) p where "ev = PULL_REQUEST_RECORDED p"
    | (checks) c where "ev = REQUIRED_CHECKS_PASSED c" | (merge) m where "ev = RUN_MERGED m"
    | (skip) q where "ev = PUBLICATION_SKIPPED q"
    | (other) "\<forall>z. ev \<noteq> BRANCH_PUSHED z" "\<forall>z. ev \<noteq> PULL_REQUEST_RECORDED z"
        "\<forall>z. ev \<noteq> REQUIRED_CHECKS_PASSED z" "\<forall>z. ev \<noteq> RUN_MERGED z" "\<forall>z. ev \<noteq> PUBLICATION_SKIPPED z"
    by blast
  then show ?thesis
  proof cases
    case push
    with assms(1) show ?thesis
      by (auto simp: run_step_def push_step_def publication_evidence_def push_evidence_def)
  next
    case pr
    from pr assms have e: "push_evidence ?H ?k ?x"
      using evidence_mono(1) [OF sub]
      by (auto simp: run_step_def pull_request_step_def publication_evidence_def)
    from pr assms(1) have c: "rr_commit_sha ?y = rr_commit_sha ?x"
      by (auto simp: run_step_def pull_request_step_def)
    have "push_evidence ?H ?k ?y" using e push_evidence_cong [OF c b] by simp
    with pr assms(1) show ?thesis
      by (auto simp: run_step_def pull_request_step_def publication_evidence_def pull_request_evidence_def)
  next
    case checks
    from checks assms have e: "pull_request_evidence ?H ?k ?x"
      using evidence_mono(2) [OF sub]
      by (auto simp: run_step_def checks_step_def publication_evidence_def)
    from checks assms(1) have "rr_commit_sha ?y = rr_commit_sha ?x"
      "pu_pull_request (rr_publication ?y) = pu_pull_request (rr_publication ?x)"
      "pu_pull_request_url (rr_publication ?y) = pu_pull_request_url (rr_publication ?x)"
      "rr_state ?y = S_REQUIRED_CHECKS_PASSED"
      by (auto simp: run_step_def checks_step_def)
    with e b show ?thesis
      by (simp add: publication_evidence_def k pull_request_evidence_cong [of ?y ?x])
  next
    case merge
    from merge assms have e: "pull_request_evidence ?H ?k ?x"
      using evidence_mono(2) [OF sub]
      by (auto simp: run_step_def merge_step_def publication_evidence_def)
    from merge assms(1) have f: "rr_commit_sha ?y = rr_commit_sha ?x"
      "pu_pull_request (rr_publication ?y) = pu_pull_request (rr_publication ?x)"
      "pu_pull_request_url (rr_publication ?y) = pu_pull_request_url (rr_publication ?x)"
      "rr_state ?y = S_FINALIZED" "pu_state (rr_publication ?y) = MERGED"
      "Some (me_commit_sha m) = rr_commit_sha ?y"
      "Some (me_pull_request m) = pu_pull_request (rr_publication ?y)"
      "Some (me_merge_commit_sha m) = pu_merge_commit_sha (rr_publication ?y)"
      "me_publication_policy_hash m = wc_policy_hash ?k"
      by (auto simp: run_step_def merge_step_def)
    have "pull_request_evidence ?H ?k ?y"
      using e f b by (simp add: pull_request_evidence_cong [of ?y ?x])
    with f merge show ?thesis
      by (auto simp: publication_evidence_def k merge_evidence_def)
  next
    case skip
    with assms(1) show ?thesis
      by (auto simp: run_step_def skip_step_def publication_evidence_def skip_evidence_def)
  next
    case other
    then have s: "rr_state ?y \<in> {rr_state ?x} \<union> {S_AWAITING_REINSPECTION, S_READY_FOR_EXECUTOR,
        S_EXECUTION_STARTED, S_REVIEW_ACCEPTED, S_READY_FOR_PUBLICATION, S_ABORTED, S_FAILED}"
      "rr_state ?y = rr_state ?x \<Longrightarrow> rr_state ?x = S_REVIEW_ACCEPTED"
      using assms(1) by (cases ev; clarsimp simp: run_step_def run_step_defs terminal_state_def)+
    then have "rr_state ?y \<in> {S_AWAITING_REINSPECTION, S_READY_FOR_EXECUTOR,
        S_EXECUTION_STARTED, S_REVIEW_ACCEPTED, S_READY_FOR_PUBLICATION, S_ABORTED, S_FAILED}" by auto
    then show ?thesis by (auto simp: publication_evidence_def)
  qed
qed

lemma evidence_inv_step:
  "run_step r ev = Inr r' \<Longrightarrow> publication_inv r \<Longrightarrow> evidence_inv H r \<Longrightarrow> evidence_inv (insert ev H) r'"
  by (simp add: evidence_inv_def candidate_evidence_step commit_evidence_step publication_evidence_step)

section \<open>Loaded histories\<close>

definition admitted_inv :: "string \<Rightarrow> run_state \<Rightarrow> bool" where
  "admitted_inv rid r =
     (runtimeWorkContractV4Schema (rs_contract r) \<and>
      rr_branch (rs_result r) = ''codex/auto/'' @ rid \<and>
      rr_base_sha (rs_result r) = wc_base_sha (rs_contract r) \<and>
      rr_contract_hash (rs_result r) = wc_contract_hash (rs_contract r) \<and>
      rr_policy_hash (rs_result r) = wc_policy_hash (rs_contract r))"

lemma admitted_inv_step: "run_step r ev = Inr r' \<Longrightarrow> admitted_inv rid r \<Longrightarrow> admitted_inv rid r'"
  by (drule run_step_identity) (simp add: admitted_inv_def run_identity_def)

definition run_events :: "broker_command list \<Rightarrow> string \<Rightarrow> run_event set" where
  "run_events cs rid = {ev. \<exists>cid. RUN_EVENT cid rid ev \<in> set cs}"

definition history_inv :: "broker_command list \<Rightarrow> broker_state \<Rightarrow> bool" where
  "history_inv cs s = (\<forall>rid r. bs_runs s rid = Some r \<longrightarrow>
     run_inv r \<and> admitted_inv rid r \<and> evidence_inv (run_events cs rid) r)"

text \<open>A command as the broker writes it to the journal and reads it back.\<close>

definition journal_command :: "load_env \<Rightarrow> init_hashes \<Rightarrow> broker_command \<Rightarrow> bool" where
  "journal_command env h c = (loadJournalCommandV4 env c = Inr c \<and> broker_acceptance h c)"

lemma evidence_inv_start:
  assumes "rr_review_attestation_hash (rs_result r) = None" "rr_commit_sha (rs_result r) = None"
    and "rr_state (rs_result r) = S_READY_FOR_EXECUTOR"
  shows "evidence_inv H r"
  using assms
  by (simp add: evidence_inv_def candidate_evidence_def commit_evidence_def publication_evidence_def)

lemma evidence_inv_mono:
  assumes "evidence_inv H r" and "H \<subseteq> H'"
  shows "evidence_inv H' r"
proof -
  note m = evidence_mono [OF assms(2)]
  have "merge_evidence H k x \<Longrightarrow> merge_evidence H' k x" "skip_evidence H k x \<Longrightarrow> skip_evidence H' k x" for k x
    using m assms(2) unfolding merge_evidence_def skip_evidence_def by blast+
  with assms m show ?thesis
    unfolding evidence_inv_def candidate_evidence_def commit_evidence_def publication_evidence_def by blast
qed

lemma history_inv_step:
  assumes "history_inv cs s" and "reduceBrokerStateV4 s c = Inr s'" and "journal_command env h c"
  shows "history_inv (cs @ [c]) s'"
proof -
  have mono: "run_events cs rid \<subseteq> run_events (cs @ [c]) rid" for rid
    by (auto simp: run_events_def)
  show ?thesis
  proof (cases c)
    case (RUN_CODING_TASK x1 x2)
    with assms(2) show ?thesis by simp
  next
    case (RUN_ACCEPTED cid k a)
    with assms(2) have "accept_run s k a = Inr s'" by simp
    note acc = accept_run_Inr [OF this]
    have a: "acceptance_ok env a" "acc_result a = initialResult h k (acc_contract a)"
      using assms(3) RUN_ACCEPTED
      by (simp_all add: journal_command_def loadJournalCommandV4_def broker_acceptance_def)
    have sch: "runtimeWorkContractV4Schema (acc_contract a)" and ep: "1 \<le> acc_inspection_epoch a"
      using a(1) by (simp_all add: acceptance_ok_def loadRuntimeWorkContractV4_def positive_safe_def)
    have fresh: "run_inv (accepted_run a)" by (rule run_inv_fresh [OF a(2) ep])
    have adm: "admitted_inv k (accepted_run a)"
      using sch by (simp add: admitted_inv_def accepted_run_def a(2) initialResult_def)
    have ev: "evidence_inv (run_events (cs @ [c]) k) (accepted_run a)"
      by (rule evidence_inv_start) (simp_all add: accepted_run_def a(2) initialResult_def)
    show ?thesis
      using acc assms(1) fresh adm ev evidence_inv_mono [OF _ mono]
      by (auto simp: history_inv_def)
  next
    case (RUN_EVENT cid k ev)
    with assms(2) have red: "reduceBrokerStateV4 s (RUN_EVENT cid k ev) = Inr s'" by simp
    have ok: "run_event_ok (le_verdict_hash env) k ev"
      using assms(3) RUN_EVENT by (simp add: journal_command_def loadJournalCommandV4_def)
    from red show ?thesis
    proof (rule reduce_event_Inr)
      fix r r'
      assume r: "bs_runs s k = Some r" and step: "run_step r ev = Inr r'"
        and s': "bs_runs s' = (bs_runs s)(k \<mapsto> r')"
      have old: "run_inv r" "admitted_inv k r" "evidence_inv (run_events cs k) r"
        using assms(1) r by (auto simp: history_inv_def)
      have "run_inv r'" by (rule run_inv_step [OF step old(1) ok])
      moreover have "admitted_inv k r'" by (rule admitted_inv_step [OF step old(2)])
      moreover have "evidence_inv (run_events (cs @ [c]) k) r'"
      proof (rule evidence_inv_mono)
        show "evidence_inv (insert ev (run_events cs k)) r'"
          using evidence_inv_step [OF step _ old(3)] old(1) by (simp add: run_inv_def)
        show "insert ev (run_events cs k) \<subseteq> run_events (cs @ [c]) k"
          by (auto simp: run_events_def RUN_EVENT)
      qed
      ultimately show ?thesis
        using assms(1) evidence_inv_mono [OF _ mono] by (auto simp: history_inv_def s')
    qed
  qed
qed

lemma history_inv_replay:
  assumes "replayBrokerStateV4 cs = Inr s" and "list_all (journal_command env h) cs"
  shows "history_inv cs s"
  using assms
proof (induction cs arbitrary: s rule: rev_induct)
  case Nil
  then have "s = initialBrokerStateV4" by (simp add: replayBrokerStateV4_def)
  then show ?case by (simp add: history_inv_def initialBrokerStateV4_def)
next
  case (snoc c cs)
  from snoc.prems(1) obtain t where t: "replayBrokerStateV4 cs = Inr t" "reduceBrokerStateV4 t c = Inr s"
    by (auto simp: replayBrokerStateV4_def foldR_snoc)
  have "history_inv cs t" using snoc.IH [OF t(1)] snoc.prems(2) by simp
  then show ?case using snoc.prems(2) by (auto intro: history_inv_step [OF _ t(2)])
qed

section \<open>Sample journal\<close>

definition sample_run_id :: string where
  "sample_run_id = ''run_0123456789abcdef''"

definition sample_env :: load_env where
  "sample_env = \<lparr>le_url_ok = all_urls, le_policy_hash = const_hash CHR ''9'',
     le_verdict_hash = (\<lambda>_. const_hash CHR ''a'')\<rparr>"

definition sample_hashes :: init_hashes where
  "sample_hashes = \<lparr>ih_diff = hash_of CHR ''0'', ih_tree = const_hash CHR ''0'', ih_artifacts = const_hash CHR ''8''\<rparr>"

definition sample_commit_sha :: string where
  "sample_commit_sha = replicate 40 CHR ''c''"

definition sample_accept :: broker_command where
  "sample_accept = RUN_ACCEPTED ''c1'' sample_run_id
     \<lparr>acc_request_hash = hash_of CHR ''a'', acc_contract = sample_contract,
      acc_result = initialResult sample_hashes sample_run_id sample_contract, acc_inspection_epoch = 1\<rparr>"

definition sample_candidate :: candidate_accepted where
  "sample_candidate = \<lparr>cd_validation_results =
       [\<lparr>vr_validation_id = ''unit'', vr_exit_code = 0, vr_result_hash = hash_of CHR ''b''\<rparr>],
     cd_diff_hash = hash_of CHR ''d'', cd_tree_hash = hash_of CHR ''e'', cd_changed_files = [''src/a.ts''],
     cd_review_attestation_hash = hash_of CHR ''f''\<rparr>"

definition sample_verdict :: review_verdict where
  "sample_verdict = \<lparr>bv_review_packet_hash = hash_of CHR ''1'', bv_contract_hash = hash_of CHR ''7'',
     bv_diff_hash = hash_of CHR ''d'', bv_tree_hash = hash_of CHR ''e'',
     bv_capability_snapshot_hash = hash_of CHR ''2'', bv_verdict = REJECTED, bv_reason = ''no'',
     bv_verdict_hash = hash_of CHR ''a''\<rparr>"

definition sample_commit :: commit_created where
  "sample_commit = \<lparr>cm_task_ref = ''refs/heads/codex/auto/'' @ sample_run_id,
     cm_base_sha = replicate 40 CHR ''2'', cm_git_tree_sha = replicate 40 CHR ''3'',
     cm_evidence_tree_hash = hash_of CHR ''e'', cm_commit_sha = sample_commit_sha,
     cm_contract_hash = hash_of CHR ''7'', cm_diff_hash = hash_of CHR ''d'',
     cm_validation_manifest_hash = hash_of CHR ''b'', cm_review_attestation_hash = hash_of CHR ''f''\<rparr>"

definition sample_url :: string where
  "sample_url = ''https://github.com/o/r/pull/7''"

definition sample_events :: "run_event list" where
  "sample_events =
     [EXTERNAL_PROCESS_STARTED \<lparr>px_pid = 7, px_boot_nonce = ''n''\<rparr>,
      ATTEMPT_RECORDED \<lparr>at_attempt = 1, at_executor_binding_ref = ''x'', at_result_hash = hash_of CHR ''1''\<rparr>,
      PATHS_REINSPECTED 2,
      CANDIDATE_ACCEPTED sample_candidate,
      REVIEW_VERDICT_RECORDED sample_verdict,
      COMMIT_CREATED sample_commit,
      BRANCH_PUSHED \<lparr>bp_commit_sha = sample_commit_sha, bp_branch = ''codex/auto/'' @ sample_run_id,
        bp_remote = ''origin'', bp_publication_policy_hash = hash_of CHR ''5''\<rparr>,
      PULL_REQUEST_RECORDED \<lparr>pr_commit_sha = sample_commit_sha, pr_pull_request = 7,
        pr_pull_request_url = sample_url, pr_base_branch = ''main'', pr_publication_policy_hash = hash_of CHR ''5''\<rparr>,
      RUN_MERGED \<lparr>me_commit_sha = sample_commit_sha, me_pull_request = 7, me_pull_request_url = sample_url,
        me_merge_commit_sha = replicate 40 CHR ''d'', me_publication_policy_hash = hash_of CHR ''5''\<rparr>]"

definition sample_journal :: "broker_command list" where
  "sample_journal = sample_accept #
     map (\<lambda>(i, ev). RUN_EVENT (''e'' @ decimal (int i)) sample_run_id ev) (enumerate 0 sample_events)"

definition state_of :: "broker_command list \<Rightarrow> broker_state" where
  "state_of cs = (case replayBrokerStateV4 cs of Inr s \<Rightarrow> s | Inl _ \<Rightarrow> initialBrokerStateV4)"

definition run_of :: "broker_command list \<Rightarrow> run_state" where
  "run_of cs = (case bs_runs (state_of cs) sample_run_id of Some r \<Rightarrow> r)"

lemma sample_journal_ok: "list_all (journal_command sample_env sample_hashes) sample_journal"
  by code_simp

lemma sample_replay_ok: "is_ok (replayBrokerStateV4 sample_journal)"
  by code_simp

lemma sample_replay: "replayBrokerStateV4 sample_journal = Inr (state_of sample_journal)"
  using sample_replay_ok by (auto simp: state_of_def is_ok_iff)

lemma sample_run_exists: "bs_runs (state_of sample_journal) sample_run_id \<noteq> None"
  by code_simp

lemma sample_run: "bs_runs (state_of sample_journal) sample_run_id = Some (run_of sample_journal)"
  using sample_run_exists by (auto simp: run_of_def)

lemma sample_run_fields:
  "rr_state (rs_result (run_of sample_journal)) = ''FINALIZED''"
  "rr_commit_sha (rs_result (run_of sample_journal)) = Some sample_commit_sha"
  "rr_changed_files (rs_result (run_of sample_journal)) = [''src/a.ts'']"
  "rs_contract (run_of sample_journal) = sample_contract"
  by code_simp+

section \<open>Properties\<close>

text \<open>
  C1. Every commit of a replayed run is backed by its journal: a \<open>COMMIT_CREATED\<close> record with that
  commit, built from the accepted candidate's tree, diff and review attestation, on the contract's
  base, and targeting the run's own automation branch.
\<close>
theorem commit_backed_by_evidence:
  assumes "replayBrokerStateV4 cs = Inr s" and "list_all (journal_command env h) cs"
    and "bs_runs s rid = Some r" and "rr_commit_sha (rs_result r) = Some sha"
  shows "\<exists>m c. COMMIT_CREATED m \<in> run_events cs rid \<and> CANDIDATE_ACCEPTED c \<in> run_events cs rid \<and>
    cm_commit_sha m = sha \<and> cm_evidence_tree_hash m = cd_tree_hash c \<and> cm_diff_hash m = cd_diff_hash c \<and>
    cm_review_attestation_hash m = cd_review_attestation_hash c \<and>
    cm_base_sha m = wc_base_sha (rs_contract r) \<and> cm_contract_hash m = wc_contract_hash (rs_contract r) \<and>
    cm_task_ref m = ''refs/heads/codex/auto/'' @ rid \<and>
    cd_changed_files c = rr_changed_files (rs_result r)"
proof -
  have h: "publication_inv r" "candidate_evidence (run_events cs rid) (rs_result r)"
    "commit_evidence (run_events cs rid) (rs_contract r) (rs_result r)" "admitted_inv rid r"
    using history_inv_replay [OF assms(1,2)] assms(3)
    by (auto simp: history_inv_def run_inv_def evidence_inv_def)
  from h(3) assms(4) obtain m where m: "COMMIT_CREATED m \<in> run_events cs rid" "cm_commit_sha m = sha"
    "cm_evidence_tree_hash m = rr_tree_hash (rs_result r)" "cm_diff_hash m = rr_diff_hash (rs_result r)"
    "Some (cm_review_attestation_hash m) = rr_review_attestation_hash (rs_result r)"
    "cm_base_sha m = wc_base_sha (rs_contract r)" "cm_contract_hash m = wc_contract_hash (rs_contract r)"
    "cm_task_ref m = ''refs/heads/'' @ rr_branch (rs_result r)"
    by (auto simp: commit_evidence_def)
  from h(1) have "rr_commit_sha (rs_result r) \<noteq> None \<longrightarrow> rr_review_attestation_hash (rs_result r) \<noteq> None"
    unfolding publication_inv_def Let_def by (rule conjunct1)
  with assms(4) obtain att where att: "rr_review_attestation_hash (rs_result r) = Some att" by auto
  with h(2) obtain c where "CANDIDATE_ACCEPTED c \<in> run_events cs rid"
    "cd_diff_hash c = rr_diff_hash (rs_result r)" "cd_tree_hash c = rr_tree_hash (rs_result r)"
    "cd_changed_files c = rr_changed_files (rs_result r)"
    "Some (cd_review_attestation_hash c) = rr_review_attestation_hash (rs_result r)"
    by (auto simp: candidate_evidence_def)
  moreover from this m(5) att have "cm_review_attestation_hash m = cd_review_attestation_hash c" by simp
  moreover have "rr_branch (rs_result r) = ''codex/auto/'' @ rid" using h(4) by (simp add: admitted_inv_def)
  ultimately show ?thesis
    using m by (intro exI [of _ m] exI [of _ c] conjI) simp_all
qed

text \<open>
  C2. A run is finalized only after publication was decided on its own commit: either its branch was
  pushed, a pull request recorded and that pull request merged, each on the run's commit and under the
  contract's policy hash, or a record skips publication of that commit under that policy.
\<close>
theorem finalized_run_published_or_skipped:
  assumes "replayBrokerStateV4 cs = Inr s" and "list_all (journal_command env h) cs"
    and "bs_runs s rid = Some r" and "rr_state (rs_result r) = ''FINALIZED''"
  shows "\<exists>sha. rr_commit_sha (rs_result r) = Some sha \<and>
    ((\<exists>b p m. BRANCH_PUSHED b \<in> run_events cs rid \<and> PULL_REQUEST_RECORDED p \<in> run_events cs rid \<and>
        RUN_MERGED m \<in> run_events cs rid \<and>
        bp_commit_sha b = sha \<and> pr_commit_sha p = sha \<and> me_commit_sha m = sha \<and>
        bp_branch b = ''codex/auto/'' @ rid \<and> me_pull_request m = pr_pull_request p \<and>
        bp_publication_policy_hash b = wc_policy_hash (rs_contract r) \<and>
        pr_publication_policy_hash p = wc_policy_hash (rs_contract r) \<and>
        me_publication_policy_hash m = wc_policy_hash (rs_contract r) \<and>
        rr_head_sha (rs_result r) = Some (me_merge_commit_sha m)) \<or>
     (\<exists>q. PUBLICATION_SKIPPED q \<in> run_events cs rid \<and> sk_commit_sha q = sha \<and>
        sk_publication_policy_hash q = wc_policy_hash (rs_contract r) \<and>
        rr_head_sha (rs_result r) = Some sha))"
proof -
  let ?x = "rs_result r"
  have fin: "rr_state ?x = S_FINALIZED" using assms(4) by (simp add: S_FINALIZED_def)
  have h: "publication_inv r" "publication_evidence (run_events cs rid) (rs_contract r) ?x"
    "admitted_inv rid r"
    using history_inv_replay [OF assms(1,2)] assms(3)
    by (auto simp: history_inv_def run_inv_def evidence_inv_def)
  have p: "rr_commit_sha ?x \<noteq> None"
    "pu_state (rr_publication ?x) = MERGED \<Longrightarrow> rr_head_sha ?x = pu_merge_commit_sha (rr_publication ?x)"
    "pu_state (rr_publication ?x) = SKIPPED \<Longrightarrow> rr_head_sha ?x = rr_commit_sha ?x"
    using h(1) fin by (simp_all add: publication_inv_def active_states_def Let_def)
  from p(1) obtain sha where sha: "rr_commit_sha ?x = Some sha" by blast
  from h(2) fin consider
      (merged) "pu_state (rr_publication ?x) = MERGED" "merge_evidence (run_events cs rid) (rs_contract r) ?x"
    | (skipped) "pu_state (rr_publication ?x) = SKIPPED" "skip_evidence (run_events cs rid) (rs_contract r) ?x"
    by (auto simp: publication_evidence_def)
  then show ?thesis
  proof cases
    case merged
    from merged(2) obtain b q m where
      "BRANCH_PUSHED b \<in> run_events cs rid" "PULL_REQUEST_RECORDED q \<in> run_events cs rid"
      "RUN_MERGED m \<in> run_events cs rid"
      "bp_commit_sha b = sha" "pr_commit_sha q = sha" "me_commit_sha m = sha" "bp_branch b = rr_branch ?x"
      "Some (pr_pull_request q) = pu_pull_request (rr_publication ?x)"
      "Some (me_pull_request m) = pu_pull_request (rr_publication ?x)"
      "Some (me_merge_commit_sha m) = pu_merge_commit_sha (rr_publication ?x)"
      "bp_publication_policy_hash b = wc_policy_hash (rs_contract r)"
      "pr_publication_policy_hash q = wc_policy_hash (rs_contract r)"
      "me_publication_policy_hash m = wc_policy_hash (rs_contract r)"
      by (auto simp: merge_evidence_def pull_request_evidence_def push_evidence_def sha)
    moreover from this have "me_pull_request m = pr_pull_request q" by (metis option.inject)
    moreover have "rr_branch ?x = ''codex/auto/'' @ rid" using h(3) by (simp add: admitted_inv_def)
    ultimately show ?thesis
      using p(2) merged(1) sha
      by (intro exI [of _ sha] conjI disjI1 exI [of _ b] exI [of _ q] exI [of _ m]) simp_all
  next
    case skipped
    with p(3) sha show ?thesis by (auto simp: skip_evidence_def)
  qed
qed

text \<open>
  C3. What a run changes stays inside its contract: once a candidate is accepted, every changed file
  is a normalized path that names an implementation target, none of them is an acceptance test, there
  are at most as many as the contract allows, and every validation of the contract passed, in order.
\<close>
theorem accepted_candidate_in_scope:
  assumes "replayBrokerStateV4 cs = Inr s" and "list_all (journal_command env h) cs"
    and "bs_runs s rid = Some r" and "rr_review_attestation_hash (rs_result r) \<noteq> None"
  shows "(\<forall>p \<in> set (rr_changed_files (rs_result r)).
      isNormalizedRepositoryRelativePathV4 p \<and>
      (\<exists>t \<in> set (tr_implementation_targets (rs_contract r)). to_lower (ac_path t) = to_lower p) \<and>
      (\<forall>t \<in> set (tr_acceptance_tests (rs_contract r)). to_lower t \<noteq> to_lower p)) \<and>
    int (length (rr_changed_files (rs_result r))) \<le> tr_max_files_changed (rs_contract r) \<and>
    map vr_validation_id (rr_validation_results (rs_result r)) = tr_allowed_validation_ids (rs_contract r) \<and>
    (\<forall>v \<in> set (rr_validation_results (rs_result r)). vr_exit_code v = 0)"
proof -
  have h: "candidate_inv r" "admitted_inv rid r"
    using history_inv_replay [OF assms(1,2)] assms(3) by (auto simp: history_inv_def run_inv_def)
  have sch: "runtimeWorkContractV4Schema (rs_contract r)" using h(2) by (simp add: admitted_inv_def)
  have c: "list_all (\<lambda>p. isNormalizedRepositoryRelativePathV4 p \<and>
        to_lower p \<in> set (map (\<lambda>ch. to_lower (ac_path ch)) (tr_implementation_targets (rs_contract r))))
        (rr_changed_files (rs_result r))"
    "int (length (rr_changed_files (rs_result r))) \<le> tr_max_files_changed (rs_contract r)"
    "map vr_validation_id (rr_validation_results (rs_result r)) = tr_allowed_validation_ids (rs_contract r)"
    "list_all (\<lambda>v. vr_exit_code v = 0) (rr_validation_results (rs_result r))"
    using h(1) assms(4) by (simp_all add: candidate_inv_def Let_def)
  have scope: "isNormalizedRepositoryRelativePathV4 p \<and>
      (\<exists>t \<in> set (tr_implementation_targets (rs_contract r)). to_lower (ac_path t) = to_lower p) \<and>
      (\<forall>t \<in> set (tr_acceptance_tests (rs_contract r)). to_lower t \<noteq> to_lower p)"
    if "p \<in> set (rr_changed_files (rs_result r))" for p
  proof -
    from c(1) that obtain t where t: "isNormalizedRepositoryRelativePathV4 p"
      "t \<in> set (tr_implementation_targets (rs_contract r))" "to_lower (ac_path t) = to_lower p"
      by (auto simp: list_all_iff)
    have "to_lower q \<noteq> to_lower p" if "q \<in> set (tr_acceptance_tests (rs_contract r))" for q
      using work_contract_write_authority [OF sch _ that, of t] t by auto
    with t show ?thesis by blast
  qed
  with c show ?thesis by (simp add: list_all_iff)
qed

text \<open>
  C4. The executor lifecycle of every replayed run: an external process is recorded exactly while an
  execution is started, an active run waits for reinspection exactly after an attempt ended, attempts
  are numbered from one without gaps, and a failure is recorded exactly in the failed and aborted
  states.
\<close>
theorem run_lifecycle:
  assumes "replayBrokerStateV4 cs = Inr s" and "list_all (journal_command env h) cs"
    and "bs_runs s rid = Some r"
  shows "(rs_external_process r \<noteq> None \<longleftrightarrow> rr_state (rs_result r) = ''EXECUTION_STARTED'') \<and>
    (rr_failure (rs_result r) \<noteq> None \<longleftrightarrow> rr_state (rs_result r) \<in> {''FAILED'', ''ABORTED''}) \<and>
    (rr_failure (rs_result r) = None \<longrightarrow>
       (rs_inspection_required r \<longleftrightarrow> rr_state (rs_result r) = ''AWAITING_REINSPECTION'')) \<and>
    map at_attempt (rr_attempts (rs_result r)) = map int [1..<Suc (length (rr_attempts (rs_result r)))]"
proof -
  have "process_inv r"
    using history_inv_replay [OF assms(1,2)] assms(3) by (auto simp: history_inv_def run_inv_def)
  then show ?thesis
    unfolding process_inv_def numbered_def run_state_defs [symmetric] by auto
qed

text \<open>
  C30. Requests and runs are in bijection in every replayed state: each run is indexed under its own
  identifier and its request maps back to it with its request hash, and each indexed request belongs to
  an existing run with that request identifier.
\<close>
theorem requests_runs_bijection:
  assumes "replayBrokerStateV4 cs = Inr s"
  shows "(\<forall>rid r. bs_runs s rid = Some r \<longrightarrow>
      wc_run_id (rs_contract r) = rid \<and> rr_run_id (rs_result r) = rid \<and>
      bs_requests s (tr_request_id (rs_contract r)) =
        Some \<lparr>ri_request_hash = rs_request_hash r, ri_run_id = rid\<rparr>) \<and>
    (\<forall>q v. bs_requests s q = Some v \<longrightarrow>
      (\<exists>r. bs_runs s (ri_run_id v) = Some r \<and> tr_request_id (rs_contract r) = q))"
  using broker.replay_inv [OF assms [unfolded replayBrokerStateV4_def]]
  by (simp add: identity_inv_def)

text \<open>
  Extending a journal never rewrites a run: its contract, request hash, branch and base stay, its
  phase (execution, review, ready, pushed, pull request, checks, terminal) and its inspection epoch
  never go back, and a failed, aborted or finalized run does not change at all.
\<close>
theorem replay_never_rewrites_runs:
  assumes "replayBrokerStateV4 cs = Inr s" and "replayBrokerStateV4 (cs @ ds) = Inr t"
    and "bs_runs s rid = Some r"
  shows "\<exists>r'. bs_runs t rid = Some r' \<and> rs_contract r' = rs_contract r \<and>
    rs_request_hash r' = rs_request_hash r \<and> rr_branch (rs_result r') = rr_branch (rs_result r) \<and>
    rr_base_sha (rs_result r') = rr_base_sha (rs_result r) \<and>
    phase (rr_state (rs_result r)) \<le> phase (rr_state (rs_result r')) \<and>
    rs_inspection_epoch r \<le> rs_inspection_epoch r' \<and>
    (rr_state (rs_result r) \<in> {''FAILED'', ''ABORTED'', ''FINALIZED''} \<longrightarrow> r' = r)"
proof -
  have "foldR reduceBrokerStateV4 s ds = Inr t"
    using assms(1,2) by (simp add: replayBrokerStateV4_def foldR_append)
  from replay_keeps_runs [OF this assms(3)] show ?thesis
    by (auto simp: run_successor_def run_identity_def terminal_state_def run_state_defs)
qed

text \<open>
  C31. Recovery trusts the journal and not the cache: when it succeeds, the state is the replay of the
  whole journal, the sequence its length, and an existing cache was the hash of the replay of the
  prefix it claims to cover.
\<close>
theorem recovery_is_replay:
  assumes "recoverBrokerStateV4 state_hash cs cache = Inr rec"
  shows "replayBrokerStateV4 cs = Inr (rec_state rec) \<and> rec_sequence rec = length cs \<and>
    (\<forall>c. cache = Cache_Read c \<longrightarrow>
      (\<exists>p. replayBrokerStateV4 (take (nat (sc_sequence c)) cs) = Inr p \<and>
        sc_state_hash c = state_hash p \<and> sc_state_hash c = state_hash (sc_state c) \<and>
        0 \<le> sc_sequence c \<and> sc_sequence c \<le> int (length cs))) \<and>
    (\<forall>w. rec_written rec = Some w \<longrightarrow> sc_state w = rec_state rec \<and> sc_sequence w = int (length cs) \<and>
       recoverBrokerStateV4 state_hash cs (Cache_Read w) =
         (if safe_int (int (length cs)) then Inr (rec\<lparr>rec_written := None\<rparr>)
          else Inl (corrupt ''current-state cache sequence is outside the journal'')))"
proof -
  let ?fresh = "\<lambda>s. writeBrokerStateCacheV4 state_hash s (length cs)"
  from assms obtain s where s: "replayBrokerStateV4 cs = Inr s"
    by (auto simp: recoverBrokerStateV4_def)
  have r: "rec_state rec = s" "rec_sequence rec = length cs" "rec_written rec \<in> {None, Some (?fresh s)}"
    using assms by (auto simp: recoverBrokerStateV4_def Let_def s split: cache_read.splits if_splits)
  have c: "\<exists>p. replayBrokerStateV4 (take (nat (sc_sequence c)) cs) = Inr p \<and>
        sc_state_hash c = state_hash p \<and> sc_state_hash c = state_hash (sc_state c) \<and>
        0 \<le> sc_sequence c \<and> sc_sequence c \<le> int (length cs)" if "cache = Cache_Read c" for c
    using assms by (auto simp: recoverBrokerStateV4_def Let_def s that)
  have w: "recoverBrokerStateV4 state_hash cs (Cache_Read (?fresh s)) =
      (if safe_int (int (length cs)) then Inr (rec\<lparr>rec_written := None\<rparr>)
       else Inl (corrupt ''current-state cache sequence is outside the journal''))"
    using r by (cases rec) (simp add: recoverBrokerStateV4_def Let_def s writeBrokerStateCacheV4_def throw_if_def)
  have f: "sc_state (?fresh s) = s" "sc_sequence (?fresh s) = int (length cs)"
    by (simp_all add: writeBrokerStateCacheV4_def)
  show ?thesis
    using s r c w f by auto
qed

text \<open>
  A recorded \<open>REJECTED\<close> verdict does not stop a commit: there is a journal that the loader accepts
  and the reducer replays in which a run carries a rejecting verdict and is nevertheless committed,
  merged and finalized.
\<close>
theorem rejected_run_can_be_finalized:
  "\<exists>cs s r v. list_all (journal_command sample_env sample_hashes) cs \<and> replayBrokerStateV4 cs = Inr s \<and>
     bs_runs s sample_run_id = Some r \<and> rs_review_verdict r = Some v \<and> bv_verdict v = REJECTED \<and>
     rr_state (rs_result r) = ''FINALIZED'' \<and> rr_commit_sha (rs_result r) \<noteq> None"
proof -
  have "rs_review_verdict (run_of sample_journal) = Some sample_verdict" by code_simp
  moreover have "bv_verdict sample_verdict = REJECTED" by (simp add: sample_verdict_def)
  ultimately show ?thesis
    using sample_journal_ok sample_replay sample_run sample_run_fields(1,2) by blast
qed

section \<open>Witnesses\<close>

theorem commit_backed_by_evidence_witness:
  "\<exists>m. COMMIT_CREATED m \<in> run_events sample_journal sample_run_id \<and> cm_commit_sha m = sample_commit_sha"
  using commit_backed_by_evidence [OF sample_replay sample_journal_ok sample_run sample_run_fields(2)] by blast

theorem finalized_run_published_or_skipped_witness:
  "\<exists>sha. rr_commit_sha (rs_result (run_of sample_journal)) = Some sha"
  using finalized_run_published_or_skipped [OF sample_replay sample_journal_ok sample_run sample_run_fields(1)]
  by blast

theorem accepted_candidate_in_scope_witness:
  "isNormalizedRepositoryRelativePathV4 ''src/a.ts'' \<and> to_lower ''src/a.test.ts'' \<noteq> to_lower ''src/a.ts''"
proof -
  have "rr_review_attestation_hash (rs_result (run_of sample_journal)) = Some (hash_of CHR ''f'')" by code_simp
  then show ?thesis
    using accepted_candidate_in_scope [OF sample_replay sample_journal_ok sample_run]
    by (simp add: sample_run_fields sample_contract_def sample_request_def task_request.defs)
qed

theorem run_lifecycle_witness:
  "rs_external_process (run_of sample_journal) = None"
  using run_lifecycle [OF sample_replay sample_journal_ok sample_run]
  by (simp add: sample_run_fields)

theorem requests_runs_bijection_witness:
  "wc_run_id (rs_contract (run_of sample_journal)) = sample_run_id"
  using requests_runs_bijection [OF sample_replay] sample_run by blast

theorem replay_never_rewrites_runs_witness:
  "\<exists>r'. bs_runs (state_of sample_journal) sample_run_id = Some r' \<and> rs_contract r' = sample_contract"
proof -
  have "is_ok (replayBrokerStateV4 [sample_accept])" by code_simp
  then have s: "replayBrokerStateV4 [sample_accept] = Inr (state_of [sample_accept])"
    by (auto simp: state_of_def is_ok_iff)
  have r: "map_option rs_contract (bs_runs (state_of [sample_accept]) sample_run_id) = Some sample_contract"
    by code_simp
  then obtain r where r: "bs_runs (state_of [sample_accept]) sample_run_id = Some r" "rs_contract r = sample_contract"
    by auto
  have "replayBrokerStateV4 ([sample_accept] @ tl sample_journal) = Inr (state_of sample_journal)"
    using sample_replay by (simp add: sample_journal_def)
  from replay_never_rewrites_runs [OF s this r(1)] r(2) show ?thesis by auto
qed

theorem recovery_is_replay_witness:
  "replayBrokerStateV4 [sample_accept] = Inr (state_of [sample_accept])"
proof -
  have "is_ok (replayBrokerStateV4 [sample_accept])" by code_simp
  then have "recoverBrokerStateV4 (const_hash CHR ''a'') [sample_accept] Cache_Missing =
      Inr \<lparr>rec_state = state_of [sample_accept], rec_sequence = 1,
        rec_written = Some (writeBrokerStateCacheV4 (const_hash CHR ''a'') (state_of [sample_accept]) 1)\<rparr>"
    by (auto simp: recoverBrokerStateV4_def state_of_def is_ok_iff Let_def)
  from recovery_is_replay [OF this] show ?thesis by simp
qed

end
