(* ===== verification/Journal.thy ===== *)
theory Journal
  imports Run_History
begin

text \<open>
  The durable journal (\<open>src/runtime/journal.ts\<close>): the parser that verifies a file line by line, the
  append operation with its idempotence by \<open>command_id\<close>, and the byte loop that writes one record.

  Parameters (\<open>codec\<close>): the canonical JSON text of a record and of a command, the JSON parser, the
  validity of a date string, and the hash of a record without its hash field.
\<close>

section \<open>Records\<close>

record journal_draft =
  jr_sequence :: int
  jr_previous_hash :: "string option"
  jr_command :: broker_command
  jr_recorded_at :: string

record journal_record = journal_draft +
  jr_record_hash :: string

record codec =
  cc_env :: load_env
  cc_encode :: "journal_record \<Rightarrow> string"
  cc_decode :: "string \<Rightarrow> journal_record option"
  cc_command_bytes :: "broker_command \<Rightarrow> string"
  cc_date_ok :: "string \<Rightarrow> bool"
  cc_hash :: "journal_draft \<Rightarrow> string"

definition isRecord :: "codec \<Rightarrow> journal_record \<Rightarrow> bool" where
  "isRecord C r =
     (positive_safe (jr_sequence r) \<and> opt_all is_hash (jr_previous_hash r) \<and>
      cc_date_ok C (jr_recorded_at r) \<and> is_hash (jr_record_hash r) \<and> command_id (jr_command r) \<noteq> [])"

definition recordDraft :: "journal_record \<Rightarrow> journal_draft" where
  "recordDraft r = journal_draft.truncate r"

section \<open>Parsing a journal\<close>

record parse_state =
  ps_records :: "journal_record list"
  ps_bytes :: "string \<rightharpoonup> string"

definition last_hash :: "journal_record list \<Rightarrow> string option" where
  "last_hash rs = (if rs = [] then None else Some (jr_record_hash (last rs)))"

definition parse_record :: "codec \<Rightarrow> string \<Rightarrow> journal_record result" where
  "parse_record C line =
     throw_if (line = []) (corrupt ''journal record is empty'')
     (case cc_decode C line of
        None \<Rightarrow> Inl (corrupt ''journal record is not valid JSON'')
      | Some r \<Rightarrow>
          throw_if (\<not> isRecord C r) (corrupt ''journal record has invalid bytes'')
          (throw_if (cc_encode C r \<noteq> line) (corrupt ''journal record is not canonical JSON'') (Inr r)))"

definition accept_record :: "codec \<Rightarrow> parse_state \<Rightarrow> journal_record \<Rightarrow> parse_state result" where
  "accept_record C st r =
     (let c = jr_command r; cid = command_id c; bytes = cc_command_bytes C c in
      bindR (loadJournalCommandV4 (cc_env C) c) (\<lambda>_.
      throw_if (jr_sequence r \<noteq> int (length (ps_records st)) + 1) (corrupt ''journal sequence does not follow'')
      (throw_if (jr_previous_hash r \<noteq> last_hash (ps_records st)) (corrupt ''journal previous hash is broken'')
      (throw_if (cc_hash C (recordDraft r) \<noteq> jr_record_hash r) (corrupt ''journal record hash is broken'')
      (throw_if (ps_bytes st cid \<notin> {None, Some bytes}) (corrupt ''command_id has conflicting canonical bytes'')
      (Inr \<lparr>ps_records = ps_records st @ [r], ps_bytes = (ps_bytes st)(cid \<mapsto> bytes)\<rparr>))))))"

definition parse_line :: "codec \<Rightarrow> parse_state \<Rightarrow> string \<Rightarrow> parse_state result" where
  "parse_line C st line = bindR (parse_record C line) (accept_record C st)"

definition empty_parse :: parse_state where
  "empty_parse = \<lparr>ps_records = [], ps_bytes = Map.empty\<rparr>"

definition newline :: char where
  "newline = CHR 0x0A"

definition parseRecords :: "codec \<Rightarrow> string \<Rightarrow> parse_state result" where
  "parseRecords C bytes =
     (if bytes = [] then Inr empty_parse
      else throw_if (last bytes \<noteq> newline) (corrupt ''journal has a partial trailing record'')
        (foldR (parse_line C) empty_parse (split_on newline (butlast bytes))))"

section \<open>Appending\<close>

text \<open>
  The write loop: \<open>answers\<close> are the byte counts that the file system reports, in order; a list that
  runs out stands for a write that throws. The result is the number of bytes written and the outcome.
\<close>

fun write_loop :: "nat \<Rightarrow> nat \<Rightarrow> int list \<Rightarrow> nat \<times> unit result" where
  "write_loop n_bytes offset answers =
     (if n_bytes \<le> offset then (offset, Inr ())
      else case answers of
        [] \<Rightarrow> (offset, Inl (Error PORT_ERROR ''write failed''))
      | n # rest \<Rightarrow>
          if n \<le> 0 \<or> n > int (n_bytes - offset)
          then (offset, Inl (corrupt ''journal write did not make valid forward progress''))
          else write_loop n_bytes (offset + nat n) rest)"

definition appendJournalRecord :: "codec \<Rightarrow> string \<Rightarrow> int list \<Rightarrow> journal_record \<Rightarrow> string \<times> unit result" where
  "appendJournalRecord C file answers r =
     (let bytes = cc_encode C r @ [newline]; w = write_loop (length bytes) 0 answers in
      (file @ take (fst w) bytes, snd w))"

declare write_loop.simps [simp del]

record journal =
  jn_file :: string
  jn_records :: "journal_record list"
  jn_bytes :: "string \<rightharpoonup> string"
  jn_closed :: bool

definition openJournal :: "codec \<Rightarrow> string \<Rightarrow> journal result" where
  "openJournal C file = bindR (parseRecords C file) (\<lambda>st.
     Inr \<lparr>jn_file = file, jn_records = ps_records st, jn_bytes = ps_bytes st, jn_closed = False\<rparr>)"

definition draft_for :: "journal \<Rightarrow> broker_command \<Rightarrow> string \<Rightarrow> journal_draft" where
  "draft_for j c now = \<lparr>jr_sequence = int (length (jn_records j)) + 1,
     jr_previous_hash = last_hash (jn_records j), jr_command = c, jr_recorded_at = now\<rparr>"

definition record_for :: "codec \<Rightarrow> journal_draft \<Rightarrow> journal_record" where
  "record_for C d = journal_draft.extend d (journal_record.fields (cc_hash C d))"

text \<open>An append changes the journal even when it throws: what was written stays in the file.\<close>

definition journal_append ::
    "codec \<Rightarrow> journal \<Rightarrow> broker_command \<Rightarrow> string \<Rightarrow> int list \<Rightarrow> journal \<times> journal_record result" where
  "journal_append C j c now answers =
     (if jn_closed j then (j, Inl (corrupt ''journal is closed''))
      else case loadJournalCommandV4 (cc_env C) c of
        Inl e \<Rightarrow> (j, Inl e)
      | Inr c \<Rightarrow>
      (case jn_bytes j (command_id c) of
        Some prior \<Rightarrow>
          (j, throw_if (prior \<noteq> cc_command_bytes C c) (corrupt ''command_id has conflicting canonical bytes'')
            (case List.find (\<lambda>r. command_id (jr_command r) = command_id c) (jn_records j) of
               None \<Rightarrow> Inl (corrupt ''command_id index is inconsistent'')
             | Some r \<Rightarrow> Inr r))
      | None \<Rightarrow>
          (let r = record_for C (draft_for j c now); w = appendJournalRecord C (jn_file j) answers r in
           case snd w of
             Inl e \<Rightarrow> (j\<lparr>jn_file := fst w\<rparr>, Inl e)
           | Inr _ \<Rightarrow>
               (j\<lparr>jn_file := fst w, jn_records := jn_records j @ [r],
                  jn_bytes := (jn_bytes j)(command_id c \<mapsto> cc_command_bytes C c)\<rparr>, Inr r))))"

section \<open>The parsed chain\<close>

lemma load_id: "loadJournalCommandV4 env c = Inr d \<Longrightarrow> d = c"
  by (cases c) (auto simp: loadJournalCommandV4_def)

definition chain_ok :: "codec \<Rightarrow> journal_record list \<Rightarrow> bool" where
  "chain_ok C rs = (\<forall>i < length rs.
     jr_sequence (rs ! i) = int i + 1 \<and>
     jr_previous_hash (rs ! i) = (if i = 0 then None else Some (jr_record_hash (rs ! (i - 1)))) \<and>
     jr_record_hash (rs ! i) = cc_hash C (recordDraft (rs ! i)) \<and>
     loadJournalCommandV4 (cc_env C) (jr_command (rs ! i)) = Inr (jr_command (rs ! i)))"

definition index_ok :: "codec \<Rightarrow> journal_record list \<Rightarrow> (string \<rightharpoonup> string) \<Rightarrow> bool" where
  "index_ok C rs b =
     ((\<forall>r \<in> set rs. b (command_id (jr_command r)) = Some (cc_command_bytes C (jr_command r))) \<and>
      (\<forall>cid. b cid \<noteq> None \<longrightarrow> (\<exists>r \<in> set rs. command_id (jr_command r) = cid)))"

definition journal_inv :: "codec \<Rightarrow> parse_state \<Rightarrow> bool" where
  "journal_inv C st = (chain_ok C (ps_records st) \<and> index_ok C (ps_records st) (ps_bytes st))"

lemma last_hash_nth: "last_hash rs = (if length rs = 0 then None else Some (jr_record_hash (rs ! (length rs - 1))))"
  by (simp add: last_hash_def last_conv_nth)

lemma chain_ok_snoc:
  assumes "chain_ok C rs" and "jr_sequence r = int (length rs) + 1" and "jr_previous_hash r = last_hash rs"
    and "jr_record_hash r = cc_hash C (recordDraft r)"
    and "loadJournalCommandV4 (cc_env C) (jr_command r) = Inr (jr_command r)"
  shows "chain_ok C (rs @ [r])"
  unfolding chain_ok_def
proof (intro allI impI)
  fix i
  assume i: "i < length (rs @ [r])"
  show "jr_sequence ((rs @ [r]) ! i) = int i + 1 \<and>
     jr_previous_hash ((rs @ [r]) ! i) = (if i = 0 then None else Some (jr_record_hash ((rs @ [r]) ! (i - 1)))) \<and>
     jr_record_hash ((rs @ [r]) ! i) = cc_hash C (recordDraft ((rs @ [r]) ! i)) \<and>
     loadJournalCommandV4 (cc_env C) (jr_command ((rs @ [r]) ! i)) = Inr (jr_command ((rs @ [r]) ! i))"
  proof (cases "i < length rs")
    case True
    then have "i - 1 < length rs" by linarith
    with True assms(1) show ?thesis by (simp add: chain_ok_def nth_append)
  next
    case False
    with i have "i = length rs" by simp
    with assms(2-5) show ?thesis by (simp add: nth_append last_hash_nth)
  qed
qed

lemma accept_record_Inr:
  assumes "accept_record C st r = Inr st'"
  shows "ps_records st' = ps_records st @ [r] \<and>
    ps_bytes st' = (ps_bytes st)(command_id (jr_command r) \<mapsto> cc_command_bytes C (jr_command r)) \<and>
    loadJournalCommandV4 (cc_env C) (jr_command r) = Inr (jr_command r) \<and>
    jr_sequence r = int (length (ps_records st)) + 1 \<and> jr_previous_hash r = last_hash (ps_records st) \<and>
    jr_record_hash r = cc_hash C (recordDraft r) \<and>
    ps_bytes st (command_id (jr_command r)) \<in> {None, Some (cc_command_bytes C (jr_command r))}"
proof -
  from assms obtain d where d: "loadJournalCommandV4 (cc_env C) (jr_command r) = Inr d"
    by (auto simp: accept_record_def Let_def)
  then have "loadJournalCommandV4 (cc_env C) (jr_command r) = Inr (jr_command r)"
    using load_id by blast
  with assms show ?thesis by (simp add: accept_record_def Let_def) (metis parse_state.select_convs)
qed

lemma accept_record_inv:
  assumes "accept_record C st r = Inr st'" and "journal_inv C st"
  shows "journal_inv C st'"
proof -
  note a = accept_record_Inr [OF assms(1)]
  have "chain_ok C (ps_records st')"
    using a assms(2) by (simp add: journal_inv_def chain_ok_snoc)
  moreover have "index_ok C (ps_records st') (ps_bytes st')"
    unfolding index_ok_def
  proof (intro conjI ballI allI impI)
    fix q
    assume "q \<in> set (ps_records st')"
    then show "ps_bytes st' (command_id (jr_command q)) = Some (cc_command_bytes C (jr_command q))"
      using a assms(2) by (fastforce simp: journal_inv_def index_ok_def)
  next
    fix cid
    assume "ps_bytes st' cid \<noteq> None"
    then show "\<exists>q \<in> set (ps_records st'). command_id (jr_command q) = cid"
      using a assms(2) by (cases "cid = command_id (jr_command r)") (auto simp: journal_inv_def index_ok_def)
  qed
  ultimately show ?thesis by (simp add: journal_inv_def)
qed

lemma journal_inv_empty: "journal_inv C empty_parse"
  by (simp add: journal_inv_def empty_parse_def chain_ok_def index_ok_def)

interpretation journal_parse: replay_machine "parse_line C" empty_parse "journal_inv C" for C
  by unfold_locales (auto simp: parse_line_def intro: journal_inv_empty accept_record_inv)

lemma parseRecords_inv: "parseRecords C bytes = Inr st \<Longrightarrow> journal_inv C st"
  by (auto simp: parseRecords_def split: if_splits intro: journal_inv_empty journal_parse.replay_inv)

section \<open>Appending and reparsing\<close>

lemma split_on_append: "split_on d (a @ d # b) = split_on d a @ split_on d b"
proof (induction a)
  case Nil
  then show ?case by simp
next
  case (Cons x a)
  then show ?case by (cases "split_on d a") (auto split: list.splits)
qed

lemma split_on_single: "d \<notin> set w \<Longrightarrow> split_on d w = [w]"
  by (induction w) auto

lemma write_loop_written:
  "write_loop n off answers = (m, res) \<Longrightarrow> off \<le> n \<Longrightarrow>
   off \<le> m \<and> m \<le> n \<and> (is_ok res \<longleftrightarrow> m = n)"
proof (induction n off answers rule: write_loop.induct)
  case (1 n off answers)
  show ?case
  proof (cases "n \<le> off")
    case True
    with "1.prems" show ?thesis by (auto simp: write_loop.simps [of n off])
  next
    case False
    consider (stop) e where "write_loop n off answers = (off, Inl e)"
      | (go) k rest where "answers = k # rest" "\<not> (k \<le> 0 \<or> k > int (n - off))"
          "write_loop n off answers = write_loop n (off + nat k) rest"
    proof (cases answers)
      case Nil
      with False show thesis by (intro stop) (simp add: write_loop.simps [of n off])
    next
      case (Cons k rest)
      with False show thesis
        by (cases "k \<le> 0 \<or> k > int (n - off)") (auto simp: write_loop.simps [of n off] intro: stop go)
    qed
    then show ?thesis
    proof cases
      case stop
      with "1.prems" False show ?thesis by auto
    next
      case go
      have "off + nat k \<le> n" using go(2) False by linarith
      with "1.IH" [OF False go(1,2)] go(3) "1.prems" show ?thesis by auto
    qed
  qed
qed

lemma appendJournalRecord_cases:
  assumes "appendJournalRecord C file answers r = (file', res)"
  shows "if is_ok res then file' = file @ cc_encode C r @ [newline]
    else \<exists>m \<le> length (cc_encode C r). file' = file @ take m (cc_encode C r)"
proof -
  obtain m q where w: "write_loop (length (cc_encode C r @ [newline])) 0 answers = (m, q)" by fastforce
  from write_loop_written [OF w] have "m \<le> length (cc_encode C r) + 1"
    "is_ok q \<longleftrightarrow> m = length (cc_encode C r) + 1" by simp_all
  with assms w show ?thesis
    by (auto simp: appendJournalRecord_def Let_def intro!: exI [of _ m])
qed

lemma parse_append:
  assumes "parseRecords C file = Inr st" and "newline \<notin> set line"
  shows "parseRecords C (file @ line @ [newline]) = parse_line C st line"
proof (cases "file = []")
  case True
  with assms show ?thesis
    by (simp add: parseRecords_def split_on_single throw_if_def butlast_append)
next
  case False
  with assms(1) have l: "last file = newline"
    and f: "foldR (parse_line C) empty_parse (split_on newline (butlast file)) = Inr st"
    by (auto simp: parseRecords_def)
  have fl: "file = butlast file @ [newline]" using False l by (metis append_butlast_last_id)
  have "butlast (file @ line @ [newline]) = butlast file @ newline # line"
    by (subst fl) (simp add: butlast_append)
  then have "split_on newline (butlast (file @ line @ [newline])) = split_on newline (butlast file) @ [line]"
    by (simp add: split_on_append split_on_single assms(2))
  then show ?thesis
    using False f by (simp add: parseRecords_def foldR_snoc throw_if_def)
qed

lemma record_for_fields [simp]:
  "recordDraft (record_for C d) = d" "jr_record_hash (record_for C d) = cc_hash C d"
  "jr_sequence (record_for C d) = jr_sequence d" "jr_previous_hash (record_for C d) = jr_previous_hash d"
  "jr_command (record_for C d) = jr_command d" "jr_recorded_at (record_for C d) = jr_recorded_at d"
  by (simp_all add: record_for_def recordDraft_def journal_draft.defs journal_record.defs)

lemma draft_for_fields [simp]:
  "jr_sequence (draft_for j c now) = int (length (jn_records j)) + 1"
  "jr_previous_hash (draft_for j c now) = last_hash (jn_records j)"
  "jr_command (draft_for j c now) = c" "jr_recorded_at (draft_for j c now) = now"
  by (simp_all add: draft_for_def)

lemma openJournal_Inr: "openJournal C file = Inr j \<Longrightarrow>
   parseRecords C file = Inr \<lparr>ps_records = jn_records j, ps_bytes = jn_bytes j\<rparr> \<and> jn_file j = file \<and> \<not> jn_closed j"
  by (auto simp: openJournal_def)

lemma journal_append_new:
  assumes "journal_append C j c now answers = (j', Inr r)" and "jn_bytes j (command_id c) = None"
  shows "r = record_for C (draft_for j c now) \<and> loadJournalCommandV4 (cc_env C) c = Inr c \<and>
    j' = j\<lparr>jn_file := jn_file j @ cc_encode C r @ [newline], jn_records := jn_records j @ [r],
           jn_bytes := (jn_bytes j)(command_id c \<mapsto> cc_command_bytes C c)\<rparr>"
proof -
  let ?r = "record_for C (draft_for j c now)"
  obtain d where d: "loadJournalCommandV4 (cc_env C) c = Inr d"
    using assms(1) by (auto simp: journal_append_def split: sum.splits if_splits)
  with load_id have dc: "d = c" by blast
  obtain f q where w: "appendJournalRecord C (jn_file j) answers ?r = (f, q)" by fastforce
  have "is_ok q" "r = ?r" "j' = j\<lparr>jn_file := f, jn_records := jn_records j @ [?r],
           jn_bytes := (jn_bytes j)(command_id c \<mapsto> cc_command_bytes C c)\<rparr>"
    using assms d dc w by (auto simp: journal_append_def Let_def is_ok_iff split: sum.splits if_splits)
  with appendJournalRecord_cases [OF w] d dc show ?thesis by simp
qed

lemma append_failed_file:
  assumes "journal_append C j c now answers = (j', Inl e)"
  shows "\<exists>m \<le> length (cc_encode C (record_for C (draft_for j c now))).
    jn_file j' = jn_file j @ take m (cc_encode C (record_for C (draft_for j c now)))"
proof -
  let ?r = "record_for C (draft_for j c now)"
  obtain f q where w: "appendJournalRecord C (jn_file j) answers ?r = (f, q)" by fastforce
  have "j' = j \<or> (\<not> is_ok q \<and> jn_file j' = f)"
  proof (cases "loadJournalCommandV4 (cc_env C) c")
    case (Inl x)
    with assms show ?thesis by (auto simp: journal_append_def split: if_splits)
  next
    case (Inr d)
    then have "d = c" by (rule load_id)
    with Inr assms w show ?thesis
      by (auto simp: journal_append_def Let_def split: sum.splits if_splits option.splits)
  qed
  then show ?thesis
  proof
    assume "j' = j"
    then show ?thesis by (intro exI [of _ 0]) simp
  next
    assume "\<not> is_ok q \<and> jn_file j' = f"
    with appendJournalRecord_cases [OF w] show ?thesis by simp
  qed
qed

lemma journal_append_known:
  assumes "journal_append C j c now answers = (j', res)" and "jn_bytes j (command_id c) = Some b"
  shows "j' = j \<and> (res = Inr r \<longrightarrow> r \<in> set (jn_records j) \<and> command_id (jr_command r) = command_id c \<and>
    b = cc_command_bytes C c \<and> loadJournalCommandV4 (cc_env C) c = Inr c)"
proof (cases "loadJournalCommandV4 (cc_env C) c")
  case (Inl e)
  with assms show ?thesis by (auto simp: journal_append_def split: if_splits)
next
  case (Inr d)
  then have "d = c" by (rule load_id)
  with Inr assms show ?thesis
    by (auto simp: journal_append_def Let_def find_Some_iff split: option.splits if_splits)
qed

lemma journal_record_eqI:
  "recordDraft p = recordDraft q \<Longrightarrow> jr_record_hash p = jr_record_hash q \<Longrightarrow> p = q"
  by (cases p; cases q) (simp add: recordDraft_def journal_draft.defs)

lemma chain_determined:
  assumes "chain_ok C rs" and "chain_ok C rs'" and len: "length rs = length rs'"
    and last: "last_hash rs = last_hash rs'"
    and inj: "inj_on (cc_hash C) (recordDraft ` (set rs \<union> set rs'))"
  shows "rs = rs'"
proof -
  let ?n = "length rs"
  have rec: "rs ! i = rs' ! i" if i: "i < ?n" and h: "jr_record_hash (rs ! i) = jr_record_hash (rs' ! i)" for i
  proof -
    have m: "rs ! i \<in> set rs" "rs' ! i \<in> set rs'" using i len by simp_all
    have "cc_hash C (recordDraft (rs ! i)) = cc_hash C (recordDraft (rs' ! i))"
      using assms(1,2) i len h by (simp add: chain_ok_def)
    with inj m have "recordDraft (rs ! i) = recordDraft (rs' ! i)" by (auto dest: inj_onD)
    then show ?thesis using h by (rule journal_record_eqI)
  qed
  have "k < ?n \<longrightarrow> jr_record_hash (rs ! (?n - 1 - k)) = jr_record_hash (rs' ! (?n - 1 - k))" for k
  proof (induction k)
    case 0
    show ?case using last len by (auto simp: last_hash_nth split: if_splits)
  next
    case (Suc k)
    show ?case
    proof
      assume k: "Suc k < ?n"
      let ?i = "?n - 1 - k"
      have i: "?i < ?n" "?i \<noteq> 0" "?i - 1 = ?n - 1 - Suc k" using k by simp_all
      have "rs ! ?i = rs' ! ?i" using rec [OF i(1)] Suc.IH k by simp
      then have "jr_previous_hash (rs ! ?i) = jr_previous_hash (rs' ! ?i)" by simp
      then show "jr_record_hash (rs ! (?n - 1 - Suc k)) = jr_record_hash (rs' ! (?n - 1 - Suc k))"
        using assms(1,2) i len by (simp add: chain_ok_def)
    qed
  qed
  note hashes = this
  show ?thesis
  proof (rule nth_equalityI [OF len])
    fix i
    assume i: "i < ?n"
    then have "?n - 1 - (?n - 1 - i) = i" "?n - 1 - i < ?n" by simp_all
    with hashes [of "?n - 1 - i"] have "jr_record_hash (rs ! i) = jr_record_hash (rs' ! i)" by simp
    with i show "rs ! i = rs' ! i" by (rule rec)
  qed
qed

lemma append_index:
  assumes "index_ok C (jn_records j) (jn_bytes j)" and "journal_append C j c now answers = (j', Inr r)"
  shows "index_ok C (jn_records j') (jn_bytes j')" and "loadJournalCommandV4 (cc_env C) c = Inr c"
    and "jn_bytes j' (command_id c) = Some (cc_command_bytes C c)" and "jn_closed j' = jn_closed j"
proof -
  from assms(2) obtain d where d: "loadJournalCommandV4 (cc_env C) c = Inr d"
    by (auto simp: journal_append_def split: sum.splits if_splits)
  with load_id show load: "loadJournalCommandV4 (cc_env C) c = Inr c" by blast
  have "index_ok C (jn_records j') (jn_bytes j') \<and>
    jn_bytes j' (command_id c) = Some (cc_command_bytes C c) \<and> jn_closed j' = jn_closed j"
  proof (cases "jn_bytes j (command_id c)")
    case None
    from journal_append_new [OF assms(2) None] have j': "jn_records j' = jn_records j @ [r]"
      "jn_bytes j' = (jn_bytes j)(command_id c \<mapsto> cc_command_bytes C c)" "jr_command r = c"
      "jn_closed j' = jn_closed j"
      by (simp_all add: draft_for_def)
    moreover have "command_id (jr_command q) \<noteq> command_id c" if "q \<in> set (jn_records j)" for q
      using assms(1) that None by (auto simp: index_ok_def)
    ultimately show ?thesis using assms(1) by (auto simp: index_ok_def)
  next
    case (Some b)
    from journal_append_known [OF assms(2) Some] Some assms(1) show ?thesis by simp
  qed
  then show "index_ok C (jn_records j') (jn_bytes j')"
    and "jn_bytes j' (command_id c) = Some (cc_command_bytes C c)" and "jn_closed j' = jn_closed j" by simp_all
qed

lemma append_known:
  assumes "index_ok C (jn_records j) (jn_bytes j)" and "\<not> jn_closed j"
    and "jn_bytes j (command_id c) = Some (cc_command_bytes C c)"
    and "loadJournalCommandV4 (cc_env C) c = Inr c"
    and inj: "\<And>d. command_id d = command_id c \<Longrightarrow> cc_command_bytes C d = cc_command_bytes C c \<Longrightarrow> d = c"
  shows "(\<exists>q. journal_append C j c now answers = (j, Inr q) \<and> jr_command q = c) \<and>
    (\<forall>d. command_id d = command_id c \<and> d \<noteq> c \<longrightarrow> (\<exists>e. journal_append C j d now answers = (j, Inl e)))"
proof
  let ?P = "\<lambda>r. command_id (jr_command r) = command_id c"
  obtain q where q: "List.find ?P (jn_records j) = Some q"
    using assms(1,3) by (cases "List.find ?P (jn_records j)") (auto simp: find_None_iff index_ok_def)
  then have m: "q \<in> set (jn_records j)" "?P q" by (auto simp: find_Some_iff)
  have "cc_command_bytes C (jr_command q) = cc_command_bytes C c"
    using assms(1,3) m by (auto simp: index_ok_def)
  with inj m(2) have "jr_command q = c" by blast
  with q assms(2-4) show "\<exists>q. journal_append C j c now answers = (j, Inr q) \<and> jr_command q = c"
    by (simp add: journal_append_def throw_if_def)
  show "\<forall>d. command_id d = command_id c \<and> d \<noteq> c \<longrightarrow> (\<exists>e. journal_append C j d now answers = (j, Inl e))"
  proof (intro allI impI)
    fix d
    assume d: "command_id d = command_id c \<and> d \<noteq> c"
    then have neq: "cc_command_bytes C d \<noteq> cc_command_bytes C c"
      using inj by blast
    show "\<exists>e. journal_append C j d now answers = (j, Inl e)"
    proof (cases "loadJournalCommandV4 (cc_env C) d")
      case (Inl e)
      with assms(2) show ?thesis by (simp add: journal_append_def throw_if_def)
    next
      case (Inr x)
      then have "x = d" by (rule load_id)
      with Inr assms(2,3) d neq show ?thesis by (simp add: journal_append_def throw_if_def)
    qed
  qed
qed

section \<open>Properties\<close>

text \<open>
  C28. Appending is durable: after a successful append, reopening the file gives back exactly the
  journal in memory, whatever partial writes the file system reported on the way.
\<close>
theorem append_then_reopen:
  assumes "openJournal C file = Inr j" and "journal_append C j c now answers = (j', Inr r)"
    and "cc_decode C (cc_encode C r) = Some r" and "newline \<notin> set (cc_encode C r)" and "cc_encode C r \<noteq> []"
    and "is_hash (cc_hash C (recordDraft r))" and "opt_all is_hash (last_hash (jn_records j))"
    and "cc_date_ok C now" and "safe_int (int (length (jn_records j)) + 1)"
  shows "openJournal C (jn_file j') = Inr j'"
proof (cases "jn_bytes j (command_id c)")
  case (Some b)
  from journal_append_known [OF assms(2) Some] openJournal_Inr [OF assms(1)] assms(1)
  show ?thesis by simp
next
  case None
  note n = journal_append_new [OF assms(2) None]
  note o = openJournal_Inr [OF assms(1)]
  let ?st = "\<lparr>ps_records = jn_records j, ps_bytes = jn_bytes j\<rparr>"
  let ?st' = "\<lparr>ps_records = jn_records j @ [r], ps_bytes = (jn_bytes j)(command_id c \<mapsto> cc_command_bytes C c)\<rparr>"
  have c: "jr_command r = c" "jr_sequence r = int (length (jn_records j)) + 1"
    "jr_previous_hash r = last_hash (jn_records j)" "jr_recorded_at r = now"
    "jr_record_hash r = cc_hash C (recordDraft r)"
    using n by simp_all
  have ne: "command_id c \<noteq> []"
    using n by (auto simp: loadJournalCommandV4_def identifier_ok_def bounded_length_def)
  have "isRecord C r"
    using assms(6-9) ne by (simp add: isRecord_def c positive_safe_def)
  then have p: "parse_record C (cc_encode C r) = Inr r"
    using assms(3,5) by (simp add: parse_record_def)
  have a: "accept_record C ?st r = Inr ?st'"
    using n None by (simp add: accept_record_def Let_def c throw_if_def)
  have "parseRecords C (file @ cc_encode C r @ [newline]) = Inr ?st'"
    using parse_append [OF conjunct1 [OF o] assms(4)] p a by (simp add: parse_line_def)
  with n o show ?thesis by (simp add: openJournal_def)
qed

text \<open>
  A torn write is never taken for a record: if an append fails after some but not all of its bytes
  reached the file, reopening the file reports a corrupt journal; if nothing was written, reopening
  gives the journal before the append.
\<close>
theorem torn_append_detected:
  assumes "openJournal C file = Inr j" and "journal_append C j c now answers = (j', Inl e)"
    and "newline \<notin> set (cc_encode C (record_for C (draft_for j c now)))"
  shows "openJournal C (jn_file j') =
    (if jn_file j' = file then Inr j else Inl (corrupt ''journal has a partial trailing record''))"
proof -
  let ?r = "record_for C (draft_for j c now)"
  note o = openJournal_Inr [OF assms(1)]
  have "\<exists>m \<le> length (cc_encode C ?r). jn_file j' = file @ take m (cc_encode C ?r)"
    using append_failed_file [OF assms(2)] o by simp
  then obtain m where m: "jn_file j' = file @ take m (cc_encode C ?r)" by blast
  show ?thesis
  proof (cases "take m (cc_encode C ?r) = []")
    case True
    with m assms(1) show ?thesis by simp
  next
    case False
    from False have "last (file @ take m (cc_encode C ?r)) = last (take m (cc_encode C ?r))"
      by (rule last_appendR)
    with False have "last (file @ take m (cc_encode C ?r)) \<in> set (take m (cc_encode C ?r))"
      using last_in_set by metis
    then have "last (file @ take m (cc_encode C ?r)) \<in> set (cc_encode C ?r)"
      by (rule in_set_takeD)
    then have "last (jn_file j') \<noteq> newline" "jn_file j' \<noteq> []" "jn_file j' \<noteq> file"
      using assms(3) m False by auto
    then show ?thesis by (simp add: openJournal_def parseRecords_def)
  qed
qed

text \<open>
  C29. The journal is tamper evident: if no two drafts of two journals that parse have the same hash,
  two journals of the same length whose last records carry the same hash hold the same records, so a
  change to any earlier record is visible in the last hash.
\<close>
theorem journal_tamper_evident:
  assumes "openJournal C file = Inr j" and "openJournal C file' = Inr j'"
    and "length (jn_records j) = length (jn_records j')"
    and "last_hash (jn_records j) = last_hash (jn_records j')"
    and "inj_on (cc_hash C) (recordDraft ` (set (jn_records j) \<union> set (jn_records j')))"
  shows "jn_records j = jn_records j'"
proof -
  have chain: "chain_ok C (jn_records j)" "chain_ok C (jn_records j')"
    using parseRecords_inv openJournal_Inr [OF assms(1)] openJournal_Inr [OF assms(2)]
    by (fastforce simp: journal_inv_def)+
  show ?thesis by (rule chain_determined [OF chain assms(3-5)])
qed

text \<open>
  Appending is idempotent by command identifier: once a command is recorded, repeating it returns
  its record and leaves the journal and its file as they are, and the same identifier with other
  canonical bytes is refused.
\<close>
theorem append_idempotent:
  assumes "openJournal C file = Inr j" and "journal_append C j c now answers = (j', Inr r)"
    and "\<And>d. command_id d = command_id c \<Longrightarrow> cc_command_bytes C d = cc_command_bytes C c \<Longrightarrow> d = c"
  shows "(\<exists>q. journal_append C j' c now' answers' = (j', Inr q) \<and> jr_command q = c) \<and>
    (\<forall>d. command_id d = command_id c \<and> d \<noteq> c \<longrightarrow> (\<exists>e. journal_append C j' d now' answers' = (j', Inl e)))"
proof -
  have idx: "index_ok C (jn_records j) (jn_bytes j)" and op: "\<not> jn_closed j"
    using parseRecords_inv openJournal_Inr [OF assms(1)] by (fastforce simp: journal_inv_def)+
  note a = append_index [OF idx assms(2)]
  have "\<not> jn_closed j'" using op a(4) by simp
  from append_known [OF a(1) this a(3,2) assms(3)] show ?thesis by blast
qed

section \<open>Witnesses\<close>

text \<open>A codec for one record: the canonical text of every record is \<open>x\<close>.\<close>

definition sample_codec :: codec where
  "sample_codec = \<lparr>cc_env = sample_env, cc_encode = (\<lambda>_. ''x''),
     cc_decode = (\<lambda>s. if s = ''x'' then Some (journal_draft.extend
         \<lparr>jr_sequence = 1, jr_previous_hash = None, jr_command = sample_accept, jr_recorded_at = ''t''\<rparr>
         (journal_record.fields (hash_of CHR ''a''))) else None),
     cc_command_bytes = (\<lambda>c. if c = sample_accept then ''a'' else ''b''),
     cc_date_ok = (\<lambda>_. True), cc_hash = const_hash CHR ''a''\<rparr>"

definition sample_record :: journal_record where
  "sample_record = journal_draft.extend
     \<lparr>jr_sequence = 1, jr_previous_hash = None, jr_command = sample_accept, jr_recorded_at = ''t''\<rparr>
     (journal_record.fields (hash_of CHR ''a''))"

definition sample_open :: journal where
  "sample_open = \<lparr>jn_file = '''', jn_records = [], jn_bytes = Map.empty, jn_closed = False\<rparr>"

definition sample_appended :: journal where
  "sample_appended = \<lparr>jn_file = ''x'' @ [newline], jn_records = [sample_record],
     jn_bytes = [''c1'' \<mapsto> ''a''], jn_closed = False\<rparr>"

lemma sample_open_ok: "openJournal sample_codec '''' = Inr sample_open"
  by (simp add: openJournal_def parseRecords_def empty_parse_def sample_open_def)

lemma sample_accept_loads: "loadJournalCommandV4 sample_env sample_accept = Inr sample_accept"
  using sample_journal_ok by (simp add: sample_journal_def journal_command_def)

lemma sample_record_for: "record_for sample_codec (draft_for sample_open sample_accept ''t'') = sample_record"
  by (simp add: record_for_def draft_for_def sample_codec_def sample_open_def sample_record_def
      last_hash_def const_hash_def hash_of_def)

lemma sample_append:
  "journal_append sample_codec sample_open sample_accept ''t'' [1, 1] = (sample_appended, Inr sample_record)"
proof -
  have "appendJournalRecord sample_codec '''' [1, 1] sample_record = (''x'' @ [newline], Inr ())"
    by (simp add: appendJournalRecord_def sample_codec_def Let_def write_loop.simps throw_if_def)
  then show ?thesis
    using sample_accept_loads sample_record_for
    by (simp add: journal_append_def Let_def throw_if_def sample_open_def sample_appended_def)
      (simp add: sample_codec_def sample_accept_def)
qed

lemma sample_reopened: "openJournal sample_codec (''x'' @ [newline]) = Inr sample_appended"
proof -
  have "parse_record sample_codec ''x'' = Inr sample_record"
    by (simp add: parse_record_def sample_codec_def isRecord_def sample_record_def journal_draft.defs
        journal_record.defs positive_safe_def safe_int_def max_safe_integer_def opt_all_def hash_of_def
        lower_hex_def throw_if_def sample_accept_def)
  moreover have "accept_record sample_codec empty_parse sample_record =
      Inr \<lparr>ps_records = [sample_record], ps_bytes = [''c1'' \<mapsto> ''a'']\<rparr>"
    using sample_accept_loads
    by (simp add: accept_record_def Let_def throw_if_def empty_parse_def sample_record_def recordDraft_def
        last_hash_def journal_draft.defs journal_record.defs const_hash_def hash_of_def sample_codec_def)
      (simp add: sample_accept_def)
  ultimately show ?thesis
    by (simp add: openJournal_def parseRecords_def parse_line_def throw_if_def newline_def sample_appended_def)
qed

theorem append_then_reopen_witness: "openJournal sample_codec (jn_file sample_appended) = Inr sample_appended"
  by (rule append_then_reopen [OF sample_open_ok sample_append])
    (simp_all add: sample_codec_def sample_record_def newline_def hash_of_def lower_hex_def sample_open_def
      last_hash_def opt_all_def safe_int_def max_safe_integer_def)

theorem torn_append_detected_witness:
  "\<exists>j e. journal_append sample_codec sample_open sample_accept ''t'' [1] = (j, Inl e) \<and>
     openJournal sample_codec (jn_file j) = Inl (corrupt ''journal has a partial trailing record'')"
proof -
  have "appendJournalRecord sample_codec '''' [1] sample_record =
      (''x'', Inl (Error PORT_ERROR ''write failed''))"
    by (simp add: appendJournalRecord_def sample_codec_def Let_def write_loop.simps)
  then have a: "journal_append sample_codec sample_open sample_accept ''t'' [1] =
      (sample_open\<lparr>jn_file := ''x''\<rparr>, Inl (Error PORT_ERROR ''write failed''))"
    using sample_accept_loads sample_record_for
    by (simp add: journal_append_def Let_def sample_open_def)
      (simp add: sample_codec_def)
  have "newline \<notin> set (cc_encode sample_codec (record_for sample_codec (draft_for sample_open sample_accept ''t'')))"
    by (simp add: sample_codec_def newline_def)
  from torn_append_detected [OF sample_open_ok a this]
  have "openJournal sample_codec (jn_file (sample_open\<lparr>jn_file := ''x''\<rparr>)) =
      Inl (corrupt ''journal has a partial trailing record'')" by simp
  with a show ?thesis by blast
qed

theorem journal_tamper_evident_witness:
  "jn_records sample_appended = jn_records sample_appended"
  by (rule journal_tamper_evident [of sample_codec "jn_file sample_appended"])
    (use sample_reopened in \<open>simp_all add: sample_appended_def\<close>)

theorem append_idempotent_witness:
  "\<exists>q. journal_append sample_codec sample_appended sample_accept ''u'' [] = (sample_appended, Inr q) \<and>
     jr_command q = sample_accept"
  by (rule conjunct1 [OF append_idempotent [OF sample_open_ok sample_append]])
    (simp add: sample_codec_def split: if_splits)

end
