(* ===== verification/Broker_Daemon.thy ===== *)
theory Broker_Daemon
  imports Journal
begin

text \<open>
  The one write path of the broker daemon (\<open>persist\<close> in \<open>src/runtime/broker-daemon.ts\<close>): find the
  command in the journal, reduce, append, replace the cached state, move the in-memory state, project
  to the audit trail. The outcomes of the file operations are inputs: \<open>answers\<close> for the journal write,
  \<open>cache_ok\<close> for the cache file, \<open>audit_ok\<close> for the audit trail.
\<close>

record daemon =
  dm_state :: broker_state
  dm_journal :: journal

definition persist ::
    "codec \<Rightarrow> daemon \<Rightarrow> broker_command \<Rightarrow> string \<Rightarrow> int list \<Rightarrow> bool \<Rightarrow> bool \<Rightarrow> daemon \<times> unit result" where
  "persist C d c now answers cache_ok audit_ok =
     (case List.find (\<lambda>r. command_id (jr_command r) = command_id c) (jn_records (dm_journal d)) of
        Some prior \<Rightarrow>
          (d, throw_if (cc_command_bytes C (jr_command prior) \<noteq> cc_command_bytes C c)
             (corrupt ''command_id has conflicting canonical bytes'') (Inr ()))
      | None \<Rightarrow>
      (case reduceBrokerStateV4 (dm_state d) c of
        Inl e \<Rightarrow> (d, Inl e)
      | Inr next_state \<Rightarrow>
      (case journal_append C (dm_journal d) c now answers of
        (j, Inl e) \<Rightarrow> (d\<lparr>dm_journal := j\<rparr>, Inl (Error BROKER_STATE_CORRUPT (message_of e)))
      | (j, Inr _) \<Rightarrow>
          (if \<not> cache_ok
           then (d\<lparr>dm_journal := j\<rparr>, Inl (corrupt ''durable state cache replacement failed''))
           else (d\<lparr>dm_journal := j, dm_state := next_state\<rparr>,
                 if audit_ok then Inr () else Inl (corrupt ''audit trail projection failed''))))))"

definition journal_commands :: "daemon \<Rightarrow> broker_command list" where
  "journal_commands d = map jr_command (jn_records (dm_journal d))"

definition daemon_inv :: "codec \<Rightarrow> daemon \<Rightarrow> bool" where
  "daemon_inv C d =
     (replayBrokerStateV4 (journal_commands d) = Inr (dm_state d) \<and>
      index_ok C (jn_records (dm_journal d)) (jn_bytes (dm_journal d)))"

text \<open>What \<open>doRecover\<close> starts from: the journal that was opened and the state replayed from it.\<close>

definition recovered :: "codec \<Rightarrow> string \<Rightarrow> broker_state cache_read \<Rightarrow> (broker_state \<Rightarrow> string) \<Rightarrow> daemon result" where
  "recovered C file cache state_hash =
     bindR (openJournal C file) (\<lambda>j.
     bindR (recoverBrokerStateV4 state_hash (map jr_command (jn_records j)) cache) (\<lambda>rec.
     Inr \<lparr>dm_state = rec_state rec, dm_journal = j\<rparr>))"

lemma recover_state: "recoverBrokerStateV4 h cs cache = Inr rec \<Longrightarrow> replayBrokerStateV4 cs = Inr (rec_state rec)"
  by (cases cache) (auto simp: recoverBrokerStateV4_def Let_def)

lemma recovered_inv: "recovered C file cache state_hash = Inr d \<Longrightarrow> daemon_inv C d"
proof -
  assume a: "recovered C file cache state_hash = Inr d"
  then obtain j rec where j: "openJournal C file = Inr j"
    and r: "recoverBrokerStateV4 state_hash (map jr_command (jn_records j)) cache = Inr rec"
    and d: "d = \<lparr>dm_state = rec_state rec, dm_journal = j\<rparr>"
    by (auto simp: recovered_def)
  have "index_ok C (jn_records j) (jn_bytes j)"
    using parseRecords_inv openJournal_Inr [OF j] by (fastforce simp: journal_inv_def)
  moreover have "replayBrokerStateV4 (map jr_command (jn_records j)) = Inr (rec_state rec)"
    by (rule recover_state [OF r])
  ultimately show ?thesis by (simp add: daemon_inv_def journal_commands_def d)
qed

lemma append_fresh:
  assumes "index_ok C (jn_records j) (jn_bytes j)"
    and "List.find (\<lambda>r. command_id (jr_command r) = command_id c) (jn_records j) = None"
    and "journal_append C j c now answers = (j', res)"
  shows "index_ok C (jn_records j') (jn_bytes j') \<and>
    (is_ok res \<longrightarrow> map jr_command (jn_records j') = map jr_command (jn_records j) @ [c]) \<and>
    (\<not> is_ok res \<longrightarrow> jn_records j' = jn_records j)"
proof (cases res)
  case (Inl e)
  have "jn_bytes j (command_id c) = None"
    using assms(1,2) by (auto simp: index_ok_def find_None_iff)
  then have "jn_records j' = jn_records j \<and> jn_bytes j' = jn_bytes j"
    using assms(3) Inl load_id [of "cc_env C" c]
    by (cases "loadJournalCommandV4 (cc_env C) c") (auto simp: journal_append_def Let_def split: sum.splits if_splits)
  with Inl assms(1) show ?thesis by simp
next
  case (Inr r)
  have n: "jn_bytes j (command_id c) = None"
    using assms(1,2) by (auto simp: index_ok_def find_None_iff)
  with journal_append_new [OF _ n] assms(3) Inr append_index(1) [OF assms(1)] show ?thesis by fastforce
qed

lemma persist_inv:
  assumes "daemon_inv C d" and "persist C d c now answers True audit_ok = (d', res)"
  shows "daemon_inv C d' \<and> (is_ok res \<longrightarrow> (\<exists>q \<in> set (journal_commands d'). command_id q = command_id c))"
proof (cases "List.find (\<lambda>r. command_id (jr_command r) = command_id c) (jn_records (dm_journal d))")
  case (Some q)
  then have "q \<in> set (jn_records (dm_journal d))" "command_id (jr_command q) = command_id c"
    by (auto simp: find_Some_iff)
  with Some assms show ?thesis by (auto simp: persist_def journal_commands_def)
next
  case None
  have idx: "index_ok C (jn_records (dm_journal d)) (jn_bytes (dm_journal d))"
    and rep: "replayBrokerStateV4 (journal_commands d) = Inr (dm_state d)"
    using assms(1) by (simp_all add: daemon_inv_def)
  show ?thesis
  proof (cases "reduceBrokerStateV4 (dm_state d) c")
    case (Inl e)
    with None assms show ?thesis by (auto simp: persist_def)
  next
    case (Inr s')
    obtain j ra where a: "journal_append C (dm_journal d) c now answers = (j, ra)" by fastforce
    note f = append_fresh [OF idx None a]
    show ?thesis
    proof (cases ra)
      case (Inl e)
      from Inl None Inr a assms(2) have "d' = d\<lparr>dm_journal := j\<rparr>" "\<not> is_ok res"
        by (auto simp: persist_def)
      moreover from f Inl have "jn_records j = jn_records (dm_journal d)" "index_ok C (jn_records j) (jn_bytes j)"
        by auto
      ultimately show ?thesis using rep by (auto simp: daemon_inv_def journal_commands_def)
    next
      case (Inr r)
      with None \<open>reduceBrokerStateV4 (dm_state d) c = Inr s'\<close> a assms(2)
      have d': "d' = d\<lparr>dm_journal := j, dm_state := s'\<rparr>" by (auto simp: persist_def)
      have cmds: "journal_commands d' = journal_commands d @ [c]"
        using f Inr by (simp add: journal_commands_def d')
      have "replayBrokerStateV4 (journal_commands d') = Inr s'"
        using rep \<open>reduceBrokerStateV4 (dm_state d) c = Inr s'\<close>
        by (simp add: cmds replayBrokerStateV4_def foldR_snoc)
      with f d' cmds show ?thesis by (simp add: daemon_inv_def)
    qed
  qed
qed

section \<open>A failed cache write\<close>

definition sample_start :: "string \<Rightarrow> broker_command" where
  "sample_start cid = RUN_EVENT cid sample_run_id (EXTERNAL_PROCESS_STARTED \<lparr>px_pid = 7, px_boot_nonce = ''n''\<rparr>)"

lemma sample_accepted_ok: "is_ok (replayBrokerStateV4 [sample_accept])"
  by code_simp

lemma sample_accepted_replay: "replayBrokerStateV4 [sample_accept] = Inr (state_of [sample_accept])"
  using sample_accepted_ok by (auto simp: state_of_def is_ok_iff)

lemma sample_start_reduces:
  "is_ok (reduceBrokerStateV4 (state_of [sample_accept]) (sample_start ''p1''))"
  "is_ok (reduceBrokerStateV4 (state_of [sample_accept]) (sample_start ''p2''))"
  "\<not> is_ok (replayBrokerStateV4 [sample_accept, sample_start ''p1'', sample_start ''p2''])"
  by code_simp+

lemma sample_start_loads:
  "loadJournalCommandV4 sample_env (sample_start ''p1'') = Inr (sample_start ''p1'')"
  "loadJournalCommandV4 sample_env (sample_start ''p2'') = Inr (sample_start ''p2'')"
  by code_simp+

lemma sample_start_append:
  assumes "\<not> jn_closed j" and "jn_bytes j cid = None" and "cid \<in> {''p1'', ''p2''}"
  shows "\<exists>r. journal_append sample_codec j (sample_start cid) ''t'' [2] =
      (j\<lparr>jn_file := jn_file j @ ''x'' @ [newline], jn_records := jn_records j @ [r],
         jn_bytes := (jn_bytes j)(cid \<mapsto> cc_command_bytes sample_codec (sample_start cid))\<rparr>, Inr r) \<and>
      jr_command r = sample_start cid"
proof -
  have l: "loadJournalCommandV4 (cc_env sample_codec) (sample_start cid) = Inr (sample_start cid)"
    using assms(3) sample_start_loads by (auto simp: sample_codec_def)
  have w: "appendJournalRecord sample_codec f [2] q = (f @ ''x'' @ [newline], Inr ())" for f q
    by (simp add: appendJournalRecord_def sample_codec_def Let_def write_loop.simps)
  have i: "command_id (sample_start cid) = cid" by (simp add: sample_start_def)
  show ?thesis
    using assms(1,2) by (simp add: journal_append_def l i w Let_def)
qed

lemma sample_persist:
  assumes "dm_state d = state_of [sample_accept]" and "\<not> jn_closed (dm_journal d)"
    and "jn_bytes (dm_journal d) cid = None" and "cid \<in> {''p1'', ''p2''}"
    and "\<forall>c \<in> set (journal_commands d). command_id c \<noteq> cid"
  shows "\<exists>d'. persist sample_codec d (sample_start cid) ''t'' [2] cache_ok True =
      (d', if cache_ok then Inr () else Inl (corrupt ''durable state cache replacement failed'')) \<and>
    journal_commands d' = journal_commands d @ [sample_start cid] \<and>
    (\<not> cache_ok \<longrightarrow> dm_state d' = dm_state d) \<and> \<not> jn_closed (dm_journal d') \<and>
    (\<forall>k. k \<noteq> cid \<longrightarrow> jn_bytes (dm_journal d') k = jn_bytes (dm_journal d) k)"
proof -
  have i: "command_id (sample_start cid) = cid" by (simp add: sample_start_def)
  have f: "List.find (\<lambda>r. command_id (jr_command r) = cid) (jn_records (dm_journal d)) = None"
    using assms(5) by (auto simp: find_None_iff journal_commands_def)
  obtain s' where s': "reduceBrokerStateV4 (dm_state d) (sample_start cid) = Inr s'"
    using assms(1,4) sample_start_reduces by (auto simp: is_ok_iff)
  obtain r where a: "journal_append sample_codec (dm_journal d) (sample_start cid) ''t'' [2] =
      ((dm_journal d)\<lparr>jn_file := jn_file (dm_journal d) @ ''x'' @ [newline],
         jn_records := jn_records (dm_journal d) @ [r],
         jn_bytes := (jn_bytes (dm_journal d))(cid \<mapsto> cc_command_bytes sample_codec (sample_start cid))\<rparr>, Inr r)"
    and r: "jr_command r = sample_start cid"
    using sample_start_append [OF assms(2,3,4)] by blast
  show ?thesis
    using assms(2) by (simp add: persist_def i f s' a journal_commands_def r)
qed

section \<open>Properties\<close>

text \<open>
  C5. While cache writes succeed, the daemon's memory is the replay of its journal: starting from a
  recovery, after any sequence of \<open>persist\<close> calls, whatever the outcomes of the journal writes and of the
  audit projection, the state in memory is the replay of the journal in memory.
\<close>
theorem daemon_state_is_journal_replay:
  assumes "recovered C file cache state_hash = Inr d"
    and "d' = foldl (\<lambda>d (c, now, answers, audit_ok). fst (persist C d c now answers True audit_ok)) d calls"
  shows "replayBrokerStateV4 (journal_commands d') = Inr (dm_state d')"
proof -
  have "daemon_inv C (foldl (\<lambda>d (c, now, answers, audit_ok). fst (persist C d c now answers True audit_ok)) d calls)"
    using recovered_inv [OF assms(1)]
  proof (induction calls rule: rev_induct)
    case Nil
    then show ?case by simp
  next
    case (snoc x xs)
    obtain c now answers audit_ok where x: "x = (c, now, answers, audit_ok)" by (cases x)
    from snoc show ?case by (simp add: x) (metis persist_inv prod.collapse)
  qed
  then show ?thesis by (simp add: assms(2) daemon_inv_def)
qed

text \<open>
  A failed cache write breaks that: from a daemon whose state is the replay of its journal, a
  \<open>persist\<close> whose cache write fails followed by one that succeeds (the retry of the same step under its
  new command identifier) leaves a journal that no longer replays, although the second call returned.
\<close>
theorem failed_cache_write_corrupts_journal:
  "\<exists>C d c1 c2 d1 d2 e. daemon_inv C d \<and>
     persist C d c1 ''t'' [2] False True = (d1, Inl (corrupt ''durable state cache replacement failed'')) \<and>
     persist C d1 c2 ''t'' [2] True True = (d2, Inr ()) \<and>
     replayBrokerStateV4 (journal_commands d2) = Inl e"
proof -
  let ?d = "\<lparr>dm_state = state_of [sample_accept], dm_journal = sample_appended\<rparr>"
  have cmds: "journal_commands ?d = [sample_accept]"
    by (simp add: journal_commands_def sample_appended_def sample_record_def journal_draft.defs journal_record.defs)
  have id: "command_id sample_accept = ''c1''" by (simp add: sample_accept_def)
  have inv: "daemon_inv sample_codec ?d"
    using cmds sample_accepted_replay id
    by (simp add: daemon_inv_def index_ok_def sample_appended_def sample_record_def journal_draft.defs
        journal_record.defs) (simp add: sample_codec_def)
  have pre: "\<not> jn_closed sample_appended" "jn_bytes sample_appended ''p1'' = None"
    "jn_bytes sample_appended ''p2'' = None" by (simp_all add: sample_appended_def)
  obtain d1 where d1: "persist sample_codec ?d (sample_start ''p1'') ''t'' [2] False True =
      (d1, Inl (corrupt ''durable state cache replacement failed''))"
    and j1: "dm_state d1 = state_of [sample_accept]" "journal_commands d1 = [sample_accept, sample_start ''p1'']"
      "\<not> jn_closed (dm_journal d1)" "jn_bytes (dm_journal d1) ''p2'' = None"
    using sample_persist [of ?d "''p1''" False] pre cmds id by auto
  obtain d2 where d2: "persist sample_codec d1 (sample_start ''p2'') ''t'' [2] True True = (d2, Inr ())"
    "journal_commands d2 = [sample_accept, sample_start ''p1'', sample_start ''p2'']"
    using sample_persist [OF j1(1,3,4), of True] j1(2) id by (auto simp: sample_start_def)
  obtain e where "replayBrokerStateV4 (journal_commands d2) = Inl e"
    using sample_start_reduces(3) d2(2)
    by (cases "replayBrokerStateV4 [sample_accept, sample_start ''p1'', sample_start ''p2'']") auto
  with inv d1 d2(1) show ?thesis by blast
qed

text \<open>The recovered sample daemon and one call.\<close>

theorem daemon_state_is_journal_replay_witness:
  "\<exists>d. recovered sample_codec (''x'' @ [newline]) Cache_Missing (const_hash CHR ''a'') = Inr d \<and>
     replayBrokerStateV4 (journal_commands (fst (persist sample_codec d (sample_start ''p1'') ''t'' [2] True False))) =
     Inr (dm_state (fst (persist sample_codec d (sample_start ''p1'') ''t'' [2] True False)))"
proof -
  have "map jr_command (jn_records sample_appended) = [sample_accept]"
    by (simp add: sample_appended_def sample_record_def journal_draft.defs journal_record.defs)
  then obtain d where d: "recovered sample_codec (''x'' @ [newline]) Cache_Missing (const_hash CHR ''a'') = Inr d"
    using sample_reopened sample_accepted_replay by (simp add: recovered_def recoverBrokerStateV4_def Let_def)
  from daemon_state_is_journal_replay [OF d, of _ "[(sample_start ''p1'', ''t'', [2], False)]"] d
  show ?thesis by simp
qed

end
