(* ===== verification/Routing.thy ===== *)
theory Routing
  imports Run_State
begin

text \<open>
  From an accepted request to a work contract: the resolution of a binding
  (\<open>src/runtime/bindings.ts\<close>), route coverage and activation readiness (\<open>src/runtime/readiness.ts\<close>),
  and the derivation of the work contract (\<open>src/runtime/routing.ts\<close>).

  Hashes of canonical JSON are parameters, collected in \<open>routing_env\<close>. Deep copies and freezing have
  no effect on values and are not modelled.
\<close>

section \<open>Resolving a binding\<close>

datatype binding_stage = STAGE_PRIMARY | STAGE_REASONING | STAGE_ESCALATION

record resolution_input =
  bi_profile :: runtime_profile
  bi_route :: effective_route
  bi_stage :: "binding_stage option"
  bi_sourceSensitivity :: source_sensitivity

record resolved_binding =
  rb_role :: runtime_role
  rb_binding :: binding
  rb_binding_hash :: string

definition stage_role :: "effective_route \<Rightarrow> binding_stage \<Rightarrow> runtime_role" where
  "stage_role route stage =
     (if route = FRONTIER then frontierExecutor
      else if stage = STAGE_ESCALATION then escalationExecutor
      else if stage = STAGE_REASONING then reasoningExecutor else executor)"

definition check_binding :: "runtime_role \<Rightarrow> source_sensitivity \<Rightarrow> binding \<Rightarrow> binding result" where
  "check_binding role sensitivity b =
     throw_if (b_permissions b \<noteq> contract_write)
       (Error INVALID_CONTRACT (role_string role @ '' must have contract-write permission''))
     (throw_if (b_tier b \<noteq> (if role = frontierExecutor then frontier else economy))
       (Error INVALID_CONTRACT (role_string role @ '' must use the expected tier''))
     (throw_if (b_execution b = None)
       (Error CAPABILITY_UNVERIFIED (role_string role @ '' lacks an explicit execution envelope''))
     (throw_if (sensitivity \<notin> set (b_allowedSourceSensitivity b))
       (Error SOURCE_SENSITIVITY_UNSUPPORTED (role_string role @ '' cannot process the source sensitivity''))
     (Inr b))))"

definition resolveBinding :: "(binding \<Rightarrow> string) \<Rightarrow> resolution_input \<Rightarrow> resolved_binding result" where
  "resolveBinding binding_hash i =
     (let stage = (case bi_stage i of None \<Rightarrow> STAGE_PRIMARY | Some s \<Rightarrow> s);
          role = stage_role (bi_route i) stage
      in throw_if (bi_route i = FRONTIER \<and> stage = STAGE_ESCALATION)
           (Error INVALID_CONTRACT ''direct frontier routes cannot select the economy escalation binding'')
         (case profile_binding (bi_profile i) role of
            None \<Rightarrow> Inl (Error INVALID_CONTRACT (''required '' @ role_string role @ '' binding is unavailable''))
          | Some b \<Rightarrow> bindR (check_binding role (bi_sourceSensitivity i) b) (\<lambda>owned.
              Inr \<lparr>rb_role = role, rb_binding = owned, rb_binding_hash = binding_hash owned\<rparr>)))"

section \<open>Route coverage\<close>

datatype coverage_reason = SUPPORTED | COV_SOURCE_SENSITIVITY | COV_PERMISSION | COV_TIER

record route_availability =
  ra_available :: bool
  ra_reason :: coverage_reason

record route_coverage =
  cov_economy :: route_availability
  cov_frontier :: route_availability
  cov_automaticRoute :: "effective_route option"

definition roleCoverage ::
    "runtime_profile \<Rightarrow> runtime_role list \<Rightarrow> source_sensitivity \<Rightarrow> permissions \<Rightarrow> tier option \<Rightarrow> coverage_reason" where
  "roleCoverage p roles sensitivity permission t =
     (if list_ex (\<lambda>role. map_option b_permissions (profile_binding p role) \<noteq> Some permission) roles
      then COV_PERMISSION
      else if t \<noteq> None \<and> list_ex (\<lambda>role. map_option b_tier (profile_binding p role) \<noteq> t) roles
      then COV_TIER
      else if list_ex (\<lambda>role. case profile_binding p role of None \<Rightarrow> True
          | Some b \<Rightarrow> sensitivity \<notin> set (b_allowedSourceSensitivity b)) roles
      then COV_SOURCE_SENSITIVITY else SUPPORTED)"

definition loadRuntimeProfileV4 :: "(string \<Rightarrow> bool) \<Rightarrow> runtime_profile \<Rightarrow> runtime_profile result" where
  "loadRuntimeProfileV4 url_ok p =
     throw_if (\<not> runtimeProfileV4Schema url_ok p) (Error INVALID_CONTRACT ''Runtime contract validation failed'') (Inr p)"

definition loadRuntimeRepositoryPolicyV4 :: "repository_policy \<Rightarrow> repository_policy result" where
  "loadRuntimeRepositoryPolicyV4 p =
     throw_if (\<not> runtimeRepositoryPolicyV4Schema p) (Error INVALID_CONTRACT ''Runtime contract validation failed'') (Inr p)"

definition coverage_of :: "runtime_profile \<Rightarrow> source_sensitivity \<Rightarrow> route_coverage" where
  "coverage_of p sensitivity =
     (let er = roleCoverage p [executor, escalationExecutor] sensitivity contract_write (Some economy);
          fr = roleCoverage p [frontierExecutor] sensitivity contract_write (Some frontier)
      in \<lparr>cov_economy = \<lparr>ra_available = (er = SUPPORTED), ra_reason = er\<rparr>,
          cov_frontier = \<lparr>ra_available = (fr = SUPPORTED), ra_reason = fr\<rparr>,
          cov_automaticRoute = (if er = SUPPORTED then Some ECONOMY
             else if fr = SUPPORTED then Some FRONTIER else None)\<rparr>)"

definition analyzeRuntimeRouteCoverageV4 ::
    "(string \<Rightarrow> bool) \<Rightarrow> runtime_profile \<Rightarrow> source_sensitivity \<Rightarrow> route_coverage result" where
  "analyzeRuntimeRouteCoverageV4 url_ok p sensitivity =
     bindR (loadRuntimeProfileV4 url_ok p) (\<lambda>p'. Inr (coverage_of p' sensitivity))"

section \<open>Activation readiness\<close>

datatype activation_target = ANALYSIS_ONLY | ISOLATED_EXECUTION | AUTONOMOUS_PUBLICATION
datatype check_status = CHECK_PASS | CHECK_WARNING | CHECK_BLOCKED
datatype readiness_status = READY | NOT_READY
datatype evidence_status = EV_VERIFIED | EV_UNAVAILABLE

datatype host_check_code =
    NATIVE_HOST_COMPOSITION | IMMUTABLE_RUNTIME_BUNDLE | CREDENTIAL_ISOLATION
  | PROVIDER_GATEWAY_COMPATIBILITY | CAPABILITY_QUALIFICATION | DOCKER_SANDBOX_CERTIFICATION
  | GITHUB_PUBLICATION_LEASE | V3_TELEMETRY_ADAPTER

datatype check_code = DELEGATION_TOPOLOGY | CORE_ROLE_COVERAGE | ROUTE_COVERAGE
  | PUBLICATION_BOUNDARY | HOST host_check_code

record host_evidence =
  ev_code :: host_check_code
  ev_status :: evidence_status
  ev_evidenceHash :: "string option"

record readiness_check =
  ck_code :: check_code
  ck_status :: check_status
  ck_evidenceHash :: "string option"

record readiness_body =
  rd_target :: activation_target
  rd_status :: readiness_status
  rd_assessedAt :: string
  rd_policyHash :: string
  rd_profileHash :: string
  rd_routeCoverage :: route_coverage
  rd_checks :: "readiness_check list"

record readiness_report = readiness_body +
  rd_reportHash :: string

record activation_input =
  ai_target :: activation_target
  ai_policy :: repository_policy
  ai_profile :: runtime_profile
  ai_hostEvidence :: "host_evidence list"
  ai_assessedAt :: string

record routing_env =
  re_load :: load_env
  re_health_hash :: "health_snapshot_body \<Rightarrow> string"
  re_binding_hash :: "binding \<Rightarrow> string"
  re_policy_hash :: "repository_policy \<Rightarrow> string"
  re_profile_hash :: "runtime_profile \<Rightarrow> string"
  re_report_hash :: "readiness_body \<Rightarrow> string"
  re_root_hash :: "string \<Rightarrow> string"
  re_route_hash :: "effective_route \<Rightarrow> string list \<Rightarrow> string"
  re_contract_hash :: "work_contract \<Rightarrow> string"

definition hostCheckCodes :: "host_check_code list" where
  "hostCheckCodes = [NATIVE_HOST_COMPOSITION, IMMUTABLE_RUNTIME_BUNDLE, CREDENTIAL_ISOLATION,
     PROVIDER_GATEWAY_COMPATIBILITY, CAPABILITY_QUALIFICATION, DOCKER_SANDBOX_CERTIFICATION,
     GITHUB_PUBLICATION_LEASE, V3_TELEMETRY_ADAPTER]"

definition executionChecks :: "host_check_code list" where
  "executionChecks = filter (\<lambda>c. c \<notin> {GITHUB_PUBLICATION_LEASE, V3_TELEMETRY_ADAPTER}) hostCheckCodes"

type_synonym evidence_map = "host_check_code \<rightharpoonup> host_evidence"

definition evidence_step :: "evidence_map \<Rightarrow> host_evidence \<Rightarrow> evidence_map result" where
  "evidence_step m supplied =
     throw_if (ev_code supplied \<notin> set hostCheckCodes \<or> m (ev_code supplied) \<noteq> None)
       (Error INVALID_CONTRACT ''host readiness evidence is unknown or duplicated'')
     (throw_if (\<not> (if ev_status supplied = EV_VERIFIED
           then is_hash (case ev_evidenceHash supplied of None \<Rightarrow> [] | Some h \<Rightarrow> h)
           else ev_status supplied = EV_UNAVAILABLE \<and> ev_evidenceHash supplied = None))
       (Error INVALID_CONTRACT ''host readiness evidence status and hash disagree'')
     (Inr (m(ev_code supplied \<mapsto> supplied))))"

definition loadEvidence :: "host_evidence list \<Rightarrow> evidence_map result" where
  "loadEvidence values = foldR evidence_step (\<lambda>_. None) values"

definition graded :: "bool \<Rightarrow> bool \<Rightarrow> check_status" where
  "graded good required = (if good then CHECK_PASS else if required then CHECK_BLOCKED else CHECK_WARNING)"

definition verified :: "evidence_map \<Rightarrow> host_check_code \<Rightarrow> bool" where
  "verified m c = (map_option ev_status (m c) = Some EV_VERIFIED)"

definition host_check :: "evidence_map \<Rightarrow> bool \<Rightarrow> host_check_code \<Rightarrow> readiness_check" where
  "host_check m required c = \<lparr>ck_code = HOST c, ck_status = graded (verified m c) required,
     ck_evidenceHash = (case m c of None \<Rightarrow> None | Some e \<Rightarrow> ev_evidenceHash e)\<rparr>"

definition topologyValid :: "runtime_profile \<Rightarrow> bool" where
  "topologyValid p =
     (b_tier (rp_orchestrator p) = frontier \<and> b_tier (rp_reviewer p) = frontier \<and>
      b_tier (rp_executor p) = economy \<and> b_tier (rp_escalationExecutor p) = economy \<and>
      b_tier (rp_frontierExecutor p) = frontier \<and>
      (case rp_reasoningExecutor p of None \<Rightarrow> True | Some b \<Rightarrow> b_tier b = economy))"

definition readiness_checks ::
    "activation_target \<Rightarrow> repository_policy \<Rightarrow> runtime_profile \<Rightarrow> evidence_map \<Rightarrow> readiness_check list" where
  "readiness_checks target policy p m =
     (let execution = (target \<noteq> ANALYSIS_ONLY);
          sensitivity = po_sourceSensitivity policy;
          core = roleCoverage p [orchestrator, reviewer] sensitivity read_only (Some frontier);
          publicationMatches = (if target = AUTONOMOUS_PUBLICATION then pp_enabled (po_publication policy)
             else \<not> pp_enabled (po_publication policy));
          simple = (\<lambda>c good. \<lparr>ck_code = c, ck_status = graded good execution, ck_evidenceHash = None\<rparr>)
      in [simple DELEGATION_TOPOLOGY (topologyValid p),
          simple CORE_ROLE_COVERAGE (core = SUPPORTED),
          simple ROUTE_COVERAGE (cov_automaticRoute (coverage_of p sensitivity) \<noteq> None),
          simple PUBLICATION_BOUNDARY publicationMatches] @
         map (host_check m execution) executionChecks @
         [host_check m (target = AUTONOMOUS_PUBLICATION) GITHUB_PUBLICATION_LEASE,
          host_check m False V3_TELEMETRY_ADAPTER])"

definition assessRuntimeActivationV4 :: "routing_env \<Rightarrow> activation_input \<Rightarrow> readiness_report result" where
  "assessRuntimeActivationV4 env i =
     bindR (loadRuntimeRepositoryPolicyV4 (ai_policy i)) (\<lambda>policy.
     bindR (loadRuntimeProfileV4 (le_url_ok (re_load env)) (ai_profile i)) (\<lambda>p.
     throw_if (canonical_time (ai_assessedAt i) = None)
       (Error INVALID_CONTRACT ''readiness assessment timestamp is invalid'')
     (bindR (loadEvidence (ai_hostEvidence i)) (\<lambda>m.
     bindR (analyzeRuntimeRouteCoverageV4 (le_url_ok (re_load env)) p (po_sourceSensitivity policy)) (\<lambda>coverage.
     let checks = readiness_checks (ai_target i) policy p m;
         draft = \<lparr>rd_target = ai_target i,
            rd_status = (if list_ex (\<lambda>c. ck_status c = CHECK_BLOCKED) checks then NOT_READY else READY),
            rd_assessedAt = ai_assessedAt i, rd_policyHash = re_policy_hash env policy,
            rd_profileHash = re_profile_hash env p, rd_routeCoverage = coverage, rd_checks = checks\<rparr>
     in Inr (readiness_body.extend draft (readiness_report.fields (re_report_hash env draft))))))))"

section \<open>Deriving the work contract\<close>

record registered_repository =
  rg_repository_id :: string
  rg_canonical_root :: string
  rg_policy_ref :: string
  rg_profile_ref :: string
  rg_worktree_parent :: string
  rg_state_path :: string

record frozen_policy =
  fp_policy :: repository_policy
  fp_hash :: string

definition freezeRepositoryPolicy :: "(repository_policy \<Rightarrow> string) \<Rightarrow> repository_policy \<Rightarrow> frozen_policy result" where
  "freezeRepositoryPolicy policy_hash p =
     bindR (loadRuntimeRepositoryPolicyV4 p) (\<lambda>p'. Inr \<lparr>fp_policy = p', fp_hash = policy_hash p'\<rparr>)"

text \<open>\<open>dw_sandbox_profiles\<close> holds the hash of each profile of the plain object \<open>sandbox_profiles\<close>.\<close>

record derive_input =
  dw_request :: task_request
  dw_run_id :: string
  dw_registration :: registered_repository
  dw_policy :: frozen_policy
  dw_profile :: runtime_profile
  dw_base_sha :: string
  dw_sandbox_profiles :: "string \<rightharpoonup> string"
  dw_binding_health :: "health_snapshot list option"

definition effectiveRoute :: "requested_route \<Rightarrow> bool \<Rightarrow> effective_route" where
  "effectiveRoute requested policyRequiresFrontier =
     (if requested = REQ_FRONTIER \<or> policyRequiresFrontier then FRONTIER else ECONOMY)"

fun sensitivity_string :: "source_sensitivity \<Rightarrow> string" where
  "sensitivity_string PUBLIC = ''PUBLIC''"
| "sensitivity_string PRIVATE = ''PRIVATE''"

definition under_path :: "string \<Rightarrow> string \<Rightarrow> bool" where
  "under_path protected p = (p = protected \<or> starts_with p (protected @ ''/''))"

definition policyRouteReasons :: "task_request \<Rightarrow> repository_policy \<Rightarrow> string list" where
  "policyRouteReasons r policy =
     (if tr_requested_route r = REQ_FRONTIER then [''request requires frontier route''] else []) @
     (if tr_requested_risk_class r \<in> set (po_frontierRiskClasses policy)
      then [''risk class requires frontier: '' @ tr_requested_risk_class r] else []) @
     (if tr_task_class r \<in> set (po_frontierTaskClasses policy)
      then [''task class requires frontier: '' @ tr_task_class r] else []) @
     (if po_sourceSensitivity policy \<in> set (po_frontierSourceSensitivity policy)
      then [''source sensitivity requires frontier: '' @ sensitivity_string (po_sourceSensitivity policy)] else []) @
     map (\<lambda>protected. ''path requires frontier: '' @ protected)
       (filter (\<lambda>protected. list_ex (\<lambda>c. under_path protected (ac_path c)) (tr_implementation_targets r))
          (po_frontierPaths policy))"

text \<open>
  A plain object: a name of \<open>Object.prototype\<close> reads an inherited function, whose hash throws, except
  \<open>__proto__\<close>, which reads an object and assigns nothing.
\<close>

definition sandbox_step ::
    "(string \<rightharpoonup> string) \<Rightarrow> (string \<times> string) list \<Rightarrow> string \<Rightarrow> (string \<times> string) list result" where
  "sandbox_step profiles hashes name =
     (case js_get profiles name of
        Absent \<Rightarrow> Inl (Error PROCESS_SANDBOX_UNAVAILABLE (''missing '' @ name))
      | Own h \<Rightarrow> Inr (AList.update name h hashes)
      | Inherited \<Rightarrow> if name = ''__proto__'' then Inr hashes
          else Inl (Error PORT_ERROR ''canonical JSON does not support function''))"

definition sandboxProfileHashes ::
    "(string \<rightharpoonup> string) \<Rightarrow> repository_policy \<Rightarrow> (string \<times> string) list result" where
  "sandboxProfileHashes profiles policy = foldR (sandbox_step profiles) [] (po_requiredProfiles policy)"

definition assertRouteCoverage :: "effective_route \<Rightarrow> route_coverage \<Rightarrow> unit result" where
  "assertRouteCoverage route coverage =
     (let selected = (if route = ECONOMY then cov_economy coverage else cov_frontier coverage) in
      if ra_available selected then Inr ()
      else if ra_reason selected = COV_SOURCE_SENSITIVITY
      then Inl (Error SOURCE_SENSITIVITY_UNSUPPORTED ''route cannot process repository source sensitivity'')
      else Inl (Error INVALID_CONTRACT ''execution route has incompatible role permissions''))"

definition note_coverage :: string where
  "note_coverage =
     ''economy route is incompatible with the effective runtime contract; compatible frontier route selected''"

fun lane_string :: "execution_lane \<Rightarrow> string" where
  "lane_string MECHANICAL_ECONOMY = ''mechanical_economy''"
| "lane_string REASONING_ECONOMY = ''reasoning_economy''"
| "lane_string FRONTIER_EXECUTION = ''frontier_execution''"

text \<open>The route before the execution policy is resolved, with the reasons found so far.\<close>

definition initial_route :: "derive_input \<Rightarrow> route_coverage \<Rightarrow> effective_route \<times> string list" where
  "initial_route i coverage =
     (let reasons = policyRouteReasons (dw_request i) (fp_policy (dw_policy i));
          route = effectiveRoute (tr_requested_route (dw_request i)) (reasons \<noteq> [])
      in if tr_requested_route (dw_request i) = REQ_AUTO \<and> reasons = [] \<and>
            cov_automaticRoute coverage = Some FRONTIER
         then (FRONTIER, [note_coverage]) else (route, reasons))"

definition route_reasons :: "string list \<Rightarrow> execution_policy \<Rightarrow> string list" where
  "route_reasons reasons p =
     (let rs = reasons @ filter (\<lambda>r. contains r ''lack the required'') (ep_reasons p)
      in if rs = [] then [''eligible for '' @ lane_string (ep_lane p)] else rs)"

definition lane_route :: "execution_policy \<Rightarrow> effective_route" where
  "lane_route p = (if ep_lane p = FRONTIER_EXECUTION then FRONTIER else ECONOMY)"

text \<open>The contract before its own hash: the field holds the empty string where the source has none.\<close>

definition contract_draft ::
    "routing_env \<Rightarrow> derive_input \<Rightarrow> execution_policy \<Rightarrow> string list \<Rightarrow> (string \<times> string) list \<Rightarrow> string \<Rightarrow> work_contract" where
  "contract_draft env i p reasons sandboxes contract_hash =
     (let policy = fp_policy (dw_policy i); r = dw_request i in
      task_request.extend r (work_contract.fields
        (dw_run_id i) (re_root_hash env (rg_canonical_root (dw_registration i))) (dw_base_sha i)
        (tr_requested_risk_class r) (lane_route p) reasons (re_route_hash env (lane_route p) reasons) (Some p)
        (po_dataScope policy) (po_sourceSensitivity policy) sandboxes
        (fp_hash (dw_policy i)) (re_profile_hash env (dw_profile i)) contract_hash))"

definition adaptive_input_of :: "derive_input \<Rightarrow> effective_route \<Rightarrow> adaptive_input" where
  "adaptive_input_of i route = \<lparr>ad_request = dw_request i, ad_profile = dw_profile i,
     ad_sourceSensitivity = po_sourceSensitivity (fp_policy (dw_policy i)),
     ad_forceFrontier = (route = FRONTIER), ad_bindingHealth = dw_binding_health i\<rparr>"

definition resolution_of :: "derive_input \<Rightarrow> execution_policy \<Rightarrow> resolution_input" where
  "resolution_of i p = \<lparr>bi_profile = dw_profile i, bi_route = lane_route p,
     bi_stage = Some (if ep_executorRole p = reasoningExecutor then STAGE_REASONING else STAGE_PRIMARY),
     bi_sourceSensitivity = po_sourceSensitivity (fp_policy (dw_policy i))\<rparr>"

definition deriveWorkContract :: "routing_env \<Rightarrow> derive_input \<Rightarrow> work_contract result" where
  "deriveWorkContract env i =
     throw_if (tr_repository_id (dw_request i) \<noteq> rg_repository_id (dw_registration i) \<or>
         tr_repository_id (dw_request i) \<noteq> po_repositoryId (fp_policy (dw_policy i)))
       (Error REPOSITORY_NOT_ALLOWED (tr_repository_id (dw_request i)))
     (bindR (analyzeRuntimeRouteCoverageV4 (le_url_ok (re_load env)) (dw_profile i)
        (po_sourceSensitivity (fp_policy (dw_policy i)))) (\<lambda>coverage.
      let (route, reasons) = initial_route i coverage in
      bindR (assertRouteCoverage route coverage) (\<lambda>_.
      bindR (resolveAdaptiveExecutionPolicyV4 (re_health_hash env) (re_binding_hash env)
        (le_policy_hash (re_load env)) (adaptive_input_of i route)) (\<lambda>p.
      let allReasons = route_reasons reasons p in
      bindR (resolveBinding (re_binding_hash env) (resolution_of i p)) (\<lambda>_.
      bindR (sandboxProfileHashes (dw_sandbox_profiles i) (fp_policy (dw_policy i))) (\<lambda>sandboxes.
      loadRuntimeWorkContractV4 (re_load env)
        (contract_draft env i p allReasons sandboxes
           (re_contract_hash env (contract_draft env i p allReasons sandboxes []))))))))) "

section \<open>Lemmas\<close>

lemma check_binding_Inr [simp]: "check_binding role s b = Inr b' \<longleftrightarrow>
   b' = b \<and> b_permissions b = contract_write \<and> b_tier b = (if role = frontierExecutor then frontier else economy) \<and>
   b_execution b \<noteq> None \<and> s \<in> set (b_allowedSourceSensitivity b)"
  by (auto simp: check_binding_def)

lemma roleCoverage_SUPPORTED: "roleCoverage p roles s pm (Some t) = SUPPORTED \<longleftrightarrow>
   (\<forall>role \<in> set roles. \<exists>b. profile_binding p role = Some b \<and> b_permissions b = pm \<and> b_tier b = t \<and>
      s \<in> set (b_allowedSourceSensitivity b))"
proof -
  have ne: "(case x of None \<Rightarrow> True | Some b \<Rightarrow> s \<notin> set (b_allowedSourceSensitivity b)) \<longleftrightarrow>
      \<not> (\<exists>b. x = Some b \<and> s \<in> set (b_allowedSourceSensitivity b))" for x
    by (cases x) simp_all
  show ?thesis
    unfolding roleCoverage_def list_ex_iff ne map_option_eq_Some
    by (simp split: if_splits) (metis option.inject)
qed

lemma foldR_evidence:
  assumes "foldR evidence_step m es = Inr m'" and "m' c = Some e"
  shows "m c = Some e \<or> (e \<in> set es \<and> ev_code e = c \<and>
     (ev_status e = EV_VERIFIED \<longrightarrow> (\<exists>h. ev_evidenceHash e = Some h \<and> is_hash h)))"
  using assms
proof (induction es arbitrary: m)
  case Nil
  then show ?case by simp
next
  case (Cons x xs)
  from Cons.prems(1) obtain m1 where m1: "evidence_step m x = Inr m1" and rest: "foldR evidence_step m1 xs = Inr m'"
    by auto
  from m1 have "m1 = m(ev_code x \<mapsto> x)"
    "ev_status x = EV_VERIFIED \<longrightarrow> (\<exists>h. ev_evidenceHash x = Some h \<and> is_hash h)"
    by (auto simp: evidence_step_def is_hex_def split: option.splits if_splits)
  with Cons.IH [OF rest Cons.prems(2)] show ?case by (auto split: if_splits)
qed

lemma loadEvidence_verified:
  assumes "loadEvidence es = Inr m" and "verified m c"
  shows "\<exists>e \<in> set es. ev_code e = c \<and> ev_status e = EV_VERIFIED \<and> (\<exists>h. ev_evidenceHash e = Some h \<and> is_hash h)"
  using assms foldR_evidence [of "\<lambda>_. None" es m c] by (auto simp: loadEvidence_def verified_def)

lemma graded_blocked [simp]: "graded g r = CHECK_BLOCKED \<longleftrightarrow> \<not> g \<and> r"
  by (simp add: graded_def)

lemma readiness_blocked:
  "list_ex (\<lambda>c. ck_status c = CHECK_BLOCKED) (readiness_checks t policy p m) \<longleftrightarrow>
   t \<noteq> ANALYSIS_ONLY \<and>
   \<not> (topologyValid p \<and> roleCoverage p [orchestrator, reviewer] (po_sourceSensitivity policy) read_only (Some frontier) = SUPPORTED \<and>
      cov_automaticRoute (coverage_of p (po_sourceSensitivity policy)) \<noteq> None \<and>
      pp_enabled (po_publication policy) = (t = AUTONOMOUS_PUBLICATION) \<and>
      (\<forall>c \<in> set executionChecks. verified m c) \<and>
      (t = AUTONOMOUS_PUBLICATION \<longrightarrow> verified m GITHUB_PUBLICATION_LEASE))"
  by (cases t) (auto simp: readiness_checks_def Let_def list_ex_iff host_check_def)

text \<open>What a derivation that succeeds went through.\<close>

lemma derive_Inr:
  assumes "deriveWorkContract env i = Inr c"
  obtains coverage route reasons p rb sandboxes where
    "tr_repository_id (dw_request i) = rg_repository_id (dw_registration i)"
    "tr_repository_id (dw_request i) = po_repositoryId (fp_policy (dw_policy i))"
    "runtimeProfileV4Schema (le_url_ok (re_load env)) (dw_profile i)"
    "coverage = coverage_of (dw_profile i) (po_sourceSensitivity (fp_policy (dw_policy i)))"
    "initial_route i coverage = (route, reasons)" "assertRouteCoverage route coverage = Inr ()"
    "resolveAdaptiveExecutionPolicyV4 (re_health_hash env) (re_binding_hash env)
        (le_policy_hash (re_load env)) (adaptive_input_of i route) = Inr p"
    "resolveBinding (re_binding_hash env) (resolution_of i p) = Inr rb"
    "sandboxProfileHashes (dw_sandbox_profiles i) (fp_policy (dw_policy i)) = Inr sandboxes"
    "c = contract_draft env i p (route_reasons reasons p) sandboxes
       (re_contract_hash env (contract_draft env i p (route_reasons reasons p) sandboxes []))"
    "runtimeWorkContractV4Schema c"
proof -
  obtain route reasons where ir: "initial_route i (coverage_of (dw_profile i)
      (po_sourceSensitivity (fp_policy (dw_policy i)))) = (route, reasons)" by fastforce
  have load: "loadRuntimeWorkContractV4 e d = Inr c \<Longrightarrow> c = d \<and> runtimeWorkContractV4Schema d" for e d
    by (auto simp: loadRuntimeWorkContractV4_def split: option.splits)
  from assms ir show thesis
    by (auto simp: deriveWorkContract_def analyzeRuntimeRouteCoverageV4_def loadRuntimeProfileV4_def
        Let_def dest!: load intro!: that)
qed

lemma contract_draft_fields:
  "task_request.truncate (contract_draft env i p rs sb h) = dw_request i"
  "wc_run_id (contract_draft env i p rs sb h) = dw_run_id i"
  "wc_base_sha (contract_draft env i p rs sb h) = dw_base_sha i"
  "wc_repository_root_hash (contract_draft env i p rs sb h) = re_root_hash env (rg_canonical_root (dw_registration i))"
  "wc_route_decision_hash (contract_draft env i p rs sb h) = re_route_hash env (lane_route p) rs"
  "wc_effective_route (contract_draft env i p rs sb h) = lane_route p"
  "wc_route_decision_reasons (contract_draft env i p rs sb h) = rs"
  "wc_execution_policy (contract_draft env i p rs sb h) = Some p"
  "wc_sandbox_profile_hashes (contract_draft env i p rs sb h) = sb"
  "wc_policy_hash (contract_draft env i p rs sb h) = fp_hash (dw_policy i)"
  "wc_profile_hash (contract_draft env i p rs sb h) = re_profile_hash env (dw_profile i)"
  "wc_effective_source_sensitivity (contract_draft env i p rs sb h) = po_sourceSensitivity (fp_policy (dw_policy i))"
  "wc_contract_hash (contract_draft env i p rs sb h) = h"
  "contract_draft env i p rs sb h \<lparr>wc_contract_hash := h'\<rparr> = contract_draft env i p rs sb h'"
  by (simp_all add: contract_draft_def Let_def task_request.defs work_contract.defs)

lemma resolveBinding_Inr:
  assumes "resolveBinding bh i = Inr rb"
  shows "profile_binding (bi_profile i) (rb_role rb) = Some (rb_binding rb)"
    and "rb_role rb = stage_role (bi_route i) (case bi_stage i of None \<Rightarrow> STAGE_PRIMARY | Some s \<Rightarrow> s)"
    and "check_binding (rb_role rb) (bi_sourceSensitivity i) (rb_binding rb) = Inr (rb_binding rb)"
  using assms by (auto simp: resolveBinding_def Let_def split: option.splits if_splits)

lemma sandbox_hashes_cover:
  assumes "foldR (sandbox_step profiles) hs names = Inr out"
  shows "(\<forall>n \<in> set names. n \<noteq> ''__proto__'' \<longrightarrow> (\<exists>h. profiles n = Some h \<and> map_of out n = Some h)) \<and>
    (\<forall>n. n \<notin> set names \<longrightarrow> map_of out n = map_of hs n)"
  using assms
proof (induction names arbitrary: out rule: rev_induct)
  case Nil
  then show ?case by simp
next
  case (snoc n ns)
  from snoc.prems obtain mid where mid: "foldR (sandbox_step profiles) hs ns = Inr mid"
    and s: "sandbox_step profiles mid n = Inr out" by (auto simp: foldR_snoc)
  from s consider h where "profiles n = Some h" "out = AList.update n h mid"
    | "n = ''__proto__''" "out = mid"
    by (auto simp: sandbox_step_def split: slot.splits if_splits)
  then show ?case using snoc.IH [OF mid] by cases (auto simp: update_conv)
qed

lemma lane_role_of_policy:
  assumes "resolveAdaptiveExecutionPolicyV4 sh bh ph i = Inr p"
  shows "lane_role_ok (ep_lane p) (ep_executorRole p)"
    and "ad_forceFrontier i \<Longrightarrow> ep_lane p = FRONTIER_EXECUTION"
proof -
  from assms obtain c e where ok: "choice_ok sh bh i c"
    and body: "execution_policy_body.truncate p = policy_body i c e" by (rule resolve_Inr)
  have f: "ep_lane p = lc_lane c" "ep_executorRole p = lc_role c"
    by (simp_all add: policy_fields [OF body] policy_body_def Let_def)
  show "lane_role_ok (ep_lane p) (ep_executorRole p)"
    and "ad_forceFrontier i \<Longrightarrow> ep_lane p = FRONTIER_EXECUTION"
    using ok unfolding f by (simp_all add: choice_ok_def requested_lane_of_def)
qed

lemma resolve_frontier_attempts:
  assumes "resolveAdaptiveExecutionPolicyV4 sh bh ph i = Inr p" and "ep_lane p = FRONTIER_EXECUTION"
  shows "ep_maxAttempts p = 1"
proof -
  from assms(1) obtain c e where body: "execution_policy_body.truncate p = policy_body i c e"
    by (rule resolve_Inr)
  show ?thesis using assms(2) by (simp add: policy_fields [OF body] policy_body_def Let_def)
qed

lemma stage_role_of_policy:
  assumes "lane_role_ok (ep_lane p) (ep_executorRole p)"
  shows "stage_role (lane_route p) (if ep_executorRole p = reasoningExecutor then STAGE_REASONING else STAGE_PRIMARY)
    = ep_executorRole p"
  using assms by (auto simp: lane_role_ok_def stage_role_def lane_route_def split: execution_lane.splits)

section \<open>Properties\<close>

text \<open>
  C37. A derived work contract is an accepted contract that carries the request unchanged under the
  policy and the profile it was derived from, and names the executor it is bound to: the profile's
  binding of the policy's role, with write permission, the tier of its route, the repository's
  sensitivity and an execution envelope. It is sealed by the hash of its own content; its repository root hash is
  that of the registered root, its route decision hash that of the effective route and the recorded reasons, its
  policy and profile hashes those of the policy and the profile; and every required sandbox profile (other than the
  name \<open>__proto__\<close>) is pinned by its hash.
\<close>
theorem derived_contract_sound:
  assumes "deriveWorkContract env i = Inr c"
  shows "task_request.truncate c = dw_request i \<and> runtimeWorkContractV4Schema c \<and>
    wc_run_id c = dw_run_id i \<and> wc_base_sha c = dw_base_sha i \<and>
    wc_policy_hash c = fp_hash (dw_policy i) \<and> wc_profile_hash c = re_profile_hash env (dw_profile i) \<and>
    wc_contract_hash c = re_contract_hash env (c\<lparr>wc_contract_hash := []\<rparr>) \<and>
    tr_repository_id (dw_request i) = rg_repository_id (dw_registration i) \<and>
    tr_repository_id (dw_request i) = po_repositoryId (fp_policy (dw_policy i)) \<and>
    wc_repository_root_hash c = re_root_hash env (rg_canonical_root (dw_registration i)) \<and>
    wc_route_decision_hash c = re_route_hash env (wc_effective_route c) (wc_route_decision_reasons c) \<and>
    (\<exists>p b. wc_execution_policy c = Some p \<and> lane_role_ok (ep_lane p) (ep_executorRole p) \<and>
       (wc_effective_route c = FRONTIER \<longleftrightarrow> ep_lane p = FRONTIER_EXECUTION) \<and>
       profile_binding (dw_profile i) (ep_executorRole p) = Some b \<and>
       check_binding (ep_executorRole p) (wc_effective_source_sensitivity c) b = Inr b) \<and>
    (\<forall>n \<in> set (po_requiredProfiles (fp_policy (dw_policy i))). n \<noteq> ''__proto__'' \<longrightarrow>
       (\<exists>h. dw_sandbox_profiles i n = Some h \<and> map_of (wc_sandbox_profile_hashes c) n = Some h))"
  using assms
proof (rule derive_Inr)
  fix coverage route reasons p rb sandboxes
  assume repo: "tr_repository_id (dw_request i) = rg_repository_id (dw_registration i)"
      "tr_repository_id (dw_request i) = po_repositoryId (fp_policy (dw_policy i))"
    and pol: "resolveAdaptiveExecutionPolicyV4 (re_health_hash env) (re_binding_hash env)
        (le_policy_hash (re_load env)) (adaptive_input_of i route) = Inr p"
    and rb: "resolveBinding (re_binding_hash env) (resolution_of i p) = Inr rb"
    and sb: "sandboxProfileHashes (dw_sandbox_profiles i) (fp_policy (dw_policy i)) = Inr sandboxes"
    and c: "c = contract_draft env i p (route_reasons reasons p) sandboxes
       (re_contract_hash env (contract_draft env i p (route_reasons reasons p) sandboxes []))"
    and schema: "runtimeWorkContractV4Schema c"
  note role = lane_role_of_policy(1) [OF pol]
  have "rb_role rb = ep_executorRole p"
    using resolveBinding_Inr(2) [OF rb] stage_role_of_policy [OF role] by (simp add: resolution_of_def)
  then have b: "profile_binding (dw_profile i) (ep_executorRole p) = Some (rb_binding rb)"
    "check_binding (ep_executorRole p) (wc_effective_source_sensitivity c) (rb_binding rb) = Inr (rb_binding rb)"
    using resolveBinding_Inr(1,3) [OF rb] unfolding c contract_draft_fields
    by (simp_all add: resolution_of_def)
  have route: "wc_effective_route c = FRONTIER \<longleftrightarrow> ep_lane p = FRONTIER_EXECUTION"
    unfolding c contract_draft_fields lane_route_def by simp
  have sandbox: "\<forall>n \<in> set (po_requiredProfiles (fp_policy (dw_policy i))). n \<noteq> ''__proto__'' \<longrightarrow>
       (\<exists>h. dw_sandbox_profiles i n = Some h \<and> map_of (wc_sandbox_profile_hashes c) n = Some h)"
    unfolding c contract_draft_fields
    using sandbox_hashes_cover [OF sb [unfolded sandboxProfileHashes_def]] by blast
  have "wc_execution_policy c = Some p" unfolding c contract_draft_fields ..
  then show ?thesis
    using repo role b route sandbox schema
    by (intro conjI exI [of _ p] exI [of _ "rb_binding rb"]) (simp_all add: c contract_draft_fields)
qed

text \<open>
  C38. Repository policy cannot be weakened by a request: when any frontier rule of the policy applies
  (a risk class, a task class, the source sensitivity, or a target on or below a frontier path), or
  the request asks for the frontier route, the derived contract runs on the frontier route with the
  frontier executor and a single attempt.
\<close>
theorem frontier_rules_force_frontier:
  assumes "deriveWorkContract env i = Inr c"
    and "tr_requested_route (dw_request i) = REQ_FRONTIER \<or>
      tr_requested_risk_class (dw_request i) \<in> set (po_frontierRiskClasses (fp_policy (dw_policy i))) \<or>
      tr_task_class (dw_request i) \<in> set (po_frontierTaskClasses (fp_policy (dw_policy i))) \<or>
      po_sourceSensitivity (fp_policy (dw_policy i)) \<in> set (po_frontierSourceSensitivity (fp_policy (dw_policy i))) \<or>
      (\<exists>t \<in> set (tr_implementation_targets (dw_request i)). \<exists>f \<in> set (po_frontierPaths (fp_policy (dw_policy i))).
         ac_path t = f \<or> (\<exists>rest. ac_path t = f @ ''/'' @ rest))"
  shows "wc_effective_route c = FRONTIER \<and>
    (\<exists>p. wc_execution_policy c = Some p \<and> ep_executorRole p = frontierExecutor \<and> ep_maxAttempts p = 1)"
  using assms(1)
proof (rule derive_Inr)
  fix coverage route reasons p rb sandboxes
  assume ir: "initial_route i coverage = (route, reasons)"
    and pol: "resolveAdaptiveExecutionPolicyV4 (re_health_hash env) (re_binding_hash env)
        (le_policy_hash (re_load env)) (adaptive_input_of i route) = Inr p"
    and c: "c = contract_draft env i p (route_reasons reasons p) sandboxes
       (re_contract_hash env (contract_draft env i p (route_reasons reasons p) sandboxes []))"
  have "policyRouteReasons (dw_request i) (fp_policy (dw_policy i)) \<noteq> []"
    using assms(2) by (auto simp: policyRouteReasons_def filter_empty_conv list_ex_iff under_path_def starts_with_iff)
  then have "route = FRONTIER" using ir by (simp add: initial_route_def effectiveRoute_def Let_def)
  then have force: "ad_forceFrontier (adaptive_input_of i route)" by (simp add: adaptive_input_of_def)
  have lane: "ep_lane p = FRONTIER_EXECUTION" by (rule lane_role_of_policy(2) [OF pol force])
  have "ep_maxAttempts p = 1" using resolve_frontier_attempts [OF pol lane] .
  then show ?thesis
    using lane lane_role_of_policy(1) [OF pol]
    by (simp add: c contract_draft_fields lane_route_def lane_role_ok_def)
qed

text \<open>
  A report that is ready for execution rests on evidence: a target that executes is READY only
  when the delegation topology and the core roles fit the profile, some route accepts the repository's
  sensitivity, publication is enabled exactly for the publication target, and every required host
  check has verified evidence with a hash; the analysis target is never blocked.
\<close>
theorem ready_report_rests_on_evidence:
  assumes "assessRuntimeActivationV4 env i = Inr r"
  shows "(ai_target i = ANALYSIS_ONLY \<longrightarrow> rd_status r = READY) \<and>
    (rd_status r = READY \<and> ai_target i \<noteq> ANALYSIS_ONLY \<longrightarrow>
      topologyValid (ai_profile i) \<and>
      (\<forall>role \<in> {orchestrator, reviewer}. \<exists>b. profile_binding (ai_profile i) role = Some b \<and>
         b_permissions b = read_only \<and> po_sourceSensitivity (ai_policy i) \<in> set (b_allowedSourceSensitivity b)) \<and>
      cov_automaticRoute (rd_routeCoverage r) \<noteq> None \<and>
      pp_enabled (po_publication (ai_policy i)) = (ai_target i = AUTONOMOUS_PUBLICATION) \<and>
      (\<forall>code \<in> set executionChecks \<union> (if ai_target i = AUTONOMOUS_PUBLICATION then {GITHUB_PUBLICATION_LEASE} else {}).
         \<exists>e \<in> set (ai_hostEvidence i). ev_code e = code \<and> ev_status e = EV_VERIFIED \<and>
           (\<exists>h. ev_evidenceHash e = Some h \<and> is_hash h)))"
proof -
  from assms obtain m where m: "loadEvidence (ai_hostEvidence i) = Inr m"
    and st: "rd_status r = (if list_ex (\<lambda>c. ck_status c = CHECK_BLOCKED)
        (readiness_checks (ai_target i) (ai_policy i) (ai_profile i) m) then NOT_READY else READY)"
    and cov: "rd_routeCoverage r = coverage_of (ai_profile i) (po_sourceSensitivity (ai_policy i))"
    by (auto simp: assessRuntimeActivationV4_def analyzeRuntimeRouteCoverageV4_def loadRuntimeProfileV4_def
        loadRuntimeRepositoryPolicyV4_def Let_def readiness_body.defs readiness_report.defs)
  show ?thesis
    using st loadEvidence_verified [OF m] unfolding readiness_blocked roleCoverage_SUPPORTED cov
    by (auto split: if_splits)
qed

text \<open>
  A policy that yields more frontier reasons than a contract may list is refused, not routed: with
  more than 64 applicable frontier rules no contract is derived.
\<close>
theorem too_many_frontier_reasons_refused:
  assumes "64 < length (policyRouteReasons (dw_request i) (fp_policy (dw_policy i)))"
  shows "\<exists>e. deriveWorkContract env i = Inl e"
proof (cases "deriveWorkContract env i")
  case (Inr c)
  from Inr show ?thesis
  proof (rule derive_Inr)
    fix coverage route reasons p rb sandboxes
    assume ir: "initial_route i coverage = (route, reasons)"
      and c: "c = contract_draft env i p (route_reasons reasons p) sandboxes
         (re_contract_hash env (contract_draft env i p (route_reasons reasons p) sandboxes []))"
      and schema: "runtimeWorkContractV4Schema c"
    have "reasons = policyRouteReasons (dw_request i) (fp_policy (dw_policy i))"
      using ir assms by (auto simp: initial_route_def Let_def split: if_splits)
    with assms have "64 < length (route_reasons reasons p)" by (auto simp: route_reasons_def Let_def)
    with schema show ?thesis
      by (simp add: c contract_draft_fields runtimeWorkContractV4Schema_def list_between_def)
  qed
qed simp

section \<open>Witnesses\<close>

definition sample_repository_policy :: repository_policy where
  "sample_repository_policy = \<lparr>po_repositoryId = ''repo'', po_allowedBranches = [''main''],
     po_worktreeParentRef = ''w'', po_frontierRiskClasses = [], po_frontierTaskClasses = [],
     po_frontierPaths = [''src/core''], po_frontierSourceSensitivity = [],
     po_validation = [(''unit'', \<lparr>vs_argv = [''npm''], vs_workingDirectory = ''.'', vs_timeoutSeconds = 60,
        vs_sandboxProfile = ''sandbox''\<rparr>)],
     po_dataScope = SOURCE_CODE_ONLY, po_sourceSensitivity = PUBLIC, po_requiredBackend = ''docker'',
     po_requiredProfiles = [''sandbox''], po_approvedSources = [''src''],
     po_publication = \<lparr>pp_enabled = False, pp_remote = ''origin'', pp_baseBranch = ''main'',
        pp_mergeMethod = squash, pp_requireRequiredChecks = True, pp_timeoutSeconds = 60\<rparr>\<rparr>"

definition sample_routing_env :: routing_env where
  "sample_routing_env = \<lparr>re_load = \<lparr>le_url_ok = all_urls, le_policy_hash = const_hash CHR ''9'',
       le_verdict_hash = \<lambda>_. const_hash CHR ''1''\<rparr>,
     re_health_hash = const_hash CHR ''e'', re_binding_hash = const_hash CHR ''b'',
     re_policy_hash = const_hash CHR ''5'', re_profile_hash = const_hash CHR ''6'',
     re_report_hash = const_hash CHR ''7'', re_root_hash = const_hash CHR ''1'',
     re_route_hash = (\<lambda>_. const_hash CHR ''3''), re_contract_hash = const_hash CHR ''4''\<rparr>"

definition sample_derivation :: "task_request \<Rightarrow> repository_policy \<Rightarrow> derive_input" where
  "sample_derivation r policy = \<lparr>dw_request = r, dw_run_id = ''run_0123456789abcdef'',
     dw_registration = \<lparr>rg_repository_id = ''repo'', rg_canonical_root = ''/r'', rg_policy_ref = ''p'',
       rg_profile_ref = ''q'', rg_worktree_parent = ''/w'', rg_state_path = ''/s''\<rparr>,
     dw_policy = \<lparr>fp_policy = policy, fp_hash = hash_of CHR ''5''\<rparr>, dw_profile = sample_profile,
     dw_base_sha = replicate 40 CHR ''2'', dw_sandbox_profiles = [''sandbox'' \<mapsto> hash_of CHR ''8''],
     dw_binding_health = None\<rparr>"

definition sample_core_request :: task_request where
  "sample_core_request = sample_request\<lparr>
     tr_allowed_changes := [\<lparr>ac_path = ''src/core/a.ts'', ac_operations = [MODIFY]\<rparr>],
     tr_implementation_targets := [\<lparr>ac_path = ''src/core/a.ts'', ac_operations = [MODIFY]\<rparr>]\<rparr>"

definition the_contract :: "derive_input \<Rightarrow> work_contract" where
  "the_contract i = (case deriveWorkContract sample_routing_env i of Inr c \<Rightarrow> c | Inl _ \<Rightarrow> sample_contract)"

lemma sample_derivations:
  "is_ok (deriveWorkContract sample_routing_env (sample_derivation sample_request sample_repository_policy))"
  "is_ok (deriveWorkContract sample_routing_env (sample_derivation sample_core_request sample_repository_policy))"
  by code_simp+

lemma the_contract_derived:
  "is_ok (deriveWorkContract sample_routing_env i) \<Longrightarrow> deriveWorkContract sample_routing_env i = Inr (the_contract i)"
  by (auto simp: is_ok_iff the_contract_def)

theorem derived_contract_sound_witness:
  "task_request.truncate (the_contract (sample_derivation sample_request sample_repository_policy)) = sample_request"
  using derived_contract_sound [OF the_contract_derived [OF sample_derivations(1)]]
  by (simp add: sample_derivation_def)

theorem frontier_rules_force_frontier_witness:
  "wc_effective_route (the_contract (sample_derivation sample_core_request sample_repository_policy)) = FRONTIER"
proof -
  have "''src/core/a.ts'' = ''src/core'' @ ''/'' @ ''a.ts''" by simp
  then show ?thesis
    using frontier_rules_force_frontier [OF the_contract_derived [OF sample_derivations(2)]]
    by (simp add: sample_derivation_def sample_core_request_def sample_repository_policy_def)
qed

definition sample_activation :: activation_input where
  "sample_activation = \<lparr>ai_target = ISOLATED_EXECUTION, ai_policy = sample_repository_policy,
     ai_profile = sample_profile,
     ai_hostEvidence = map (\<lambda>c. \<lparr>ev_code = c, ev_status = EV_VERIFIED, ev_evidenceHash = Some (hash_of CHR ''a'')\<rparr>)
       executionChecks, ai_assessedAt = ''2026-01-02T03:04:05.678Z''\<rparr>"

definition the_report :: "activation_input \<Rightarrow> readiness_report" where
  "the_report i = (case assessRuntimeActivationV4 sample_routing_env i of Inr r \<Rightarrow> r
     | Inl _ \<Rightarrow> readiness_body.extend \<lparr>rd_target = ANALYSIS_ONLY, rd_status = NOT_READY, rd_assessedAt = [],
         rd_policyHash = [], rd_profileHash = [], rd_routeCoverage = coverage_of sample_profile PUBLIC, rd_checks = []\<rparr>
         (readiness_report.fields []))"

lemma sample_assessment:
  "is_ok (assessRuntimeActivationV4 sample_routing_env sample_activation)"
  "rd_status (the_report sample_activation) = READY"
  by code_simp+

theorem ready_report_rests_on_evidence_witness:
  "\<exists>e \<in> set (ai_hostEvidence sample_activation). ev_code e = DOCKER_SANDBOX_CERTIFICATION \<and> ev_status e = EV_VERIFIED"
proof -
  have "assessRuntimeActivationV4 sample_routing_env sample_activation = Inr (the_report sample_activation)"
    using sample_assessment(1) by (auto simp: is_ok_iff the_report_def)
  from ready_report_rests_on_evidence [OF this] show ?thesis
    by (simp add: sample_assessment(2) executionChecks_def hostCheckCodes_def sample_activation_def)
qed

definition deep_path :: "nat \<Rightarrow> string" where
  "deep_path n = join_with CHR ''/'' (replicate n ''a'')"

definition crowded_policy :: repository_policy where
  "crowded_policy = sample_repository_policy\<lparr>po_frontierPaths := map deep_path [1..<66]\<rparr>"

definition deep_request :: task_request where
  "deep_request = sample_request\<lparr>
     tr_allowed_changes := [\<lparr>ac_path = deep_path 66, ac_operations = [MODIFY]\<rparr>],
     tr_implementation_targets := [\<lparr>ac_path = deep_path 66, ac_operations = [MODIFY]\<rparr>]\<rparr>"

lemma join_with_append:
  "xs \<noteq> [] \<Longrightarrow> ys \<noteq> [] \<Longrightarrow> join_with d (xs @ ys) = join_with d xs @ d # join_with d ys"
proof (induction d xs rule: join_with.induct)
  case (2 d w)
  then show ?case by (cases ys) simp_all
next
  case (3 d w v vs)
  then show ?case by (cases "vs @ ys") simp_all
qed simp

lemma deep_path_under:
  assumes "0 < n" and "n < m"
  shows "under_path (deep_path n) (deep_path m)"
proof -
  have "replicate m ''a'' = replicate n ''a'' @ replicate (m - n) ''a''"
    using assms by (simp flip: replicate_add)
  then have "deep_path m = deep_path n @ CHR ''/'' # join_with CHR ''/'' (replicate (m - n) ''a'')"
    using assms by (simp add: deep_path_def join_with_append)
  then show ?thesis by (simp add: under_path_def starts_with_iff)
qed

lemma crowded_reasons: "64 < length (policyRouteReasons deep_request crowded_policy)"
proof -
  have "filter (\<lambda>q. list_ex (\<lambda>c. under_path q (ac_path c)) (tr_implementation_targets deep_request))
      (map deep_path [1..<66]) = map deep_path [1..<66]"
    by (rule filter_True) (auto simp: deep_request_def intro: deep_path_under)
  then show ?thesis by (simp add: policyRouteReasons_def crowded_policy_def)
qed

theorem too_many_frontier_reasons_refused_witness:
  "\<exists>e. deriveWorkContract sample_routing_env (sample_derivation deep_request crowded_policy) = Inl e"
  using too_many_frontier_reasons_refused [of "sample_derivation deep_request crowded_policy" sample_routing_env]
    crowded_reasons
  by (simp add: sample_derivation_def)

end
