(* ===== verification/Pilot_Types.thy ===== *)
theory Pilot_Types
  imports JS_Date Complex_Main
begin

text \<open>
  The data of the routing pilot (\<open>src/pilot/contracts.ts\<close>): the manifest that freezes an experiment,
  the seventeen kinds of audit events, and the closed schemas of both. An event is one record with a
  \<open>payload\<close> per \<open>event_type\<close>; the optional pair \<open>supersedes_event_id\<close>, \<open>expected_superseded_event_content_hash\<close>
  is one \<open>option\<close>. Literal-valued fields (\<open>schema_version: 3\<close>, \<open>outcome: 'COMPLETED'\<close>,
  \<open>target_capability: 'strong'\<close>, \<open>review_mode\<close>, the stage sizes 10, 20 and 30) carry no information and
  are not stored. JSON numbers that need not be integers are rationals.

  The guard of \<open>src/pilot/sensitive-guard.ts\<close> reads every string of an event; no field name of the
  schema is one of the forbidden names, so on typed events only the values are checked.
\<close>

section \<open>Manifests\<close>

datatype capability_class = CHEAP | STRONG
datatype pilot_arm = A_STRONG_BASELINE | B_CHEAP_NO_EARLY_ESCALATION | C_ADAPTIVE_EARLY_ESCALATION
datatype complexity_class = CX_MECHANICAL | CX_LOCALIZED | CX_CROSS_FILE_BOUNDED | CX_SYSTEMIC
datatype risk_class = RISK_LOW | RISK_MEDIUM | RISK_HIGH | RISK_RESTRICTED
datatype severity = SEV_LOW | SEV_MEDIUM | SEV_HIGH | SEV_CRITICAL
datatype closure_rule = ELAPSED_DURATION | TERMINAL_MATERIAL_DEFECT

record pilot_binding =
  bd_binding_ref :: string
  bd_capability_class :: capability_class
  bd_profile_hash :: string

record stage_thresholds =
  th_material_improvement_rate :: rat
  th_economic_rejection_rate :: rat
  th_max_parent_rework_block_rate :: rat
  th_max_parent_rework_production_line_share :: rat
  th_max_escaped_material_defects :: int
  th_max_escaped_high_defects :: int
  th_max_escaped_critical_defects :: int
  th_min_observed_cost_completeness :: rat
  th_min_observed_strong_token_completeness :: rat
  th_min_stratum_triplets_for_promotion :: int
  th_confidence_level :: rat
  th_interval_algorithm_version :: string
  th_resampling_iterations :: int

record post_acceptance_window =
  pw_duration_seconds :: int
  pw_allowed_clock_skew_seconds :: int
  pw_closure_rule :: closure_rule
  pw_window_policy_version :: string

record tariff =
  tf_binding_ref :: string
  tf_input_rate :: int
  tf_output_rate :: int
  tf_cached_input_rate :: "int option"
  tf_reasoning_rate :: "int option"
  tf_authoritative_charge_supported :: bool

record pricing_content =
  ps_pricing_snapshot_id :: string
  ps_currency :: string
  ps_unit_scale :: int
  ps_effective_at :: string
  ps_tariffs :: "tariff list"

record pricing_snapshot = pricing_content +
  ps_pricing_snapshot_hash :: string

record manifest_block =
  bk_block_id :: string
  bk_task_id :: string
  bk_matching_stratum :: string
  bk_pair_or_triplet_id :: string
  bk_case_fingerprint :: string
  bk_contract_hash :: string
  bk_base_revision :: string
  bk_clean_tree_hash :: string
  bk_fixtures_hash :: string
  bk_complexity_class :: complexity_class
  bk_risk_class :: risk_class
  bk_changed_line_band :: string
  bk_validation_surface :: "string list"
  bk_cheap_eligible :: bool
  bk_routing_selection_reason :: string
  bk_capability_initial :: capability_class
  bk_capability_final_expected :: capability_class
  bk_exclusion_reason :: "string option"
  bk_comparative_eligible :: bool

record arm_assignment =
  aa_block_id :: string
  aa_pilot_arm :: pilot_arm

text \<open>The manifest without its own hash, and the manifest.\<close>

record manifest_content =
  mf_pilot_id :: string
  mf_created_at :: string
  mf_blocks :: "manifest_block list"
  mf_assignment_seed :: string
  mf_assignment_algorithm_version :: string
  mf_arm_assignments :: "arm_assignment list"
  mf_binding_policy_version :: string
  mf_binding_registry :: "pilot_binding list"
  mf_routing_reviewer_binding_ref :: string
  mf_routing_reviewer_capability :: capability_class
  mf_routing_policy_version :: string
  mf_review_policy_version :: string
  mf_state_machine_version :: string
  mf_reducer_version :: string
  mf_isolation_policy_version :: string
  mf_canonical_tree_algorithm_version :: string
  mf_volatile_paths_policy_hash :: string
  mf_stage_thresholds :: stage_thresholds
  mf_post_acceptance_window :: post_acceptance_window
  mf_pricing_snapshot :: pricing_snapshot

record pilot_manifest = manifest_content +
  mf_manifest_hash :: string

section \<open>Events\<close>

datatype attempt_kind = IMPLEMENTATION | REPAIR_1 | FINAL_EXECUTION
datatype isolation_status = CLEAN | CONTAMINATED
datatype finding_status = OPEN | RESOLVED
datatype context_request = VALIDATION_EVIDENCE | BOUNDARY_HASH | USAGE_RECORD
datatype decision = ACCEPT | REJECT
datatype usage_role = ORCHESTRATOR | EXECUTOR | REVIEWER
datatype cost_provenance = TARIFF_REPRODUCED | AUTHORITATIVE_BILL | ESTIMATED_TARIFF
datatype actor_role = ACTOR_ORCHESTRATOR | ACTOR_REVIEWER | ACTOR_HUMAN
datatype blocked_cause = EXTERNAL | ENVIRONMENTAL

record isolation_attested =
  is_workspace_instance_id :: string
  is_base_revision :: string
  is_clean_tree_hash :: string
  is_isolation_status :: isolation_status
  is_observed_tree_hash :: string
  is_isolation_policy_version :: string
  is_attestor_id :: string
  is_evidence_hash :: string

text \<open>A completion repeats the fields of its start; a completed review those of the started one.\<close>

record execution_started =
  xs_attempt_id :: string
  xs_attempt_number :: int
  xs_attempt_kind :: attempt_kind
  xs_executor_capability :: capability_class
  xs_executor_binding_ref :: string
  xs_executor_session_id :: string
  xs_input_revision :: string
  xs_started_monotonic_ms :: int

record execution_completed = execution_started +
  xc_output_revision :: string
  xc_output_tree_hash :: string
  xc_output_diff_hash :: string
  xc_canonical_tree_algorithm_version :: string
  xc_volatile_paths_policy_hash :: string
  xc_tree_reproduced :: bool
  xc_tree_reproduction_evidence_hash :: string
  xc_changed_lines_production :: int
  xc_changed_lines_tests :: int
  xc_changed_lines_docs :: int
  xc_finished_monotonic_ms :: int
  xc_duration_ms :: int

record finding =
  fd_finding_id :: string
  fd_severity :: severity
  fd_material :: bool
  fd_category_code :: string
  fd_status :: finding_status
  fd_evidence_hashes :: "string list"

record review_started =
  vs_review_id :: string
  vs_review_round :: int
  vs_reviewer_binding_ref :: string
  vs_reviewer_session_id :: string
  vs_reviewed_attempt_id :: string
  vs_executor_session_id_reviewed :: string
  vs_started_monotonic_ms :: int

record review_completed = review_started +
  vc_review_input_diff_hash :: string
  vc_previous_review_boundary_hash :: "string option"
  vc_review_boundary_hash :: string
  vc_review_boundary_from_revision :: string
  vc_review_boundary_to_revision :: string
  vc_unresolved_finding_ids :: "string list"
  vc_validation_evidence_hashes :: "string list"
  vc_bounded_context_hashes :: "string list"
  vc_additional_context_requests :: "context_request list"
  vc_material_findings :: "finding list"
  vc_non_material_findings :: "finding list"
  vc_decision :: decision
  vc_finished_monotonic_ms :: int
  vc_duration_ms :: int

record validation_recorded =
  vl_validation_id :: string
  vl_attempt_id :: string
  vl_validation_surface :: "string list"
  vl_passed :: bool
  vl_tests_failing :: int
  vl_tests_passing :: int
  vl_evidence_hashes :: "string list"

record operation_recorded =
  op_orchestrator_operation_id :: string
  op_attempt_number :: int
  op_binding_ref :: string
  op_evidence_hash :: string

text \<open>The four token dimensions of a usage record, observed and estimated.\<close>

datatype dimension = INPUT | OUTPUT | CACHED_INPUT | REASONING
datatype evidence_kind = OBSERVED | ESTIMATED

record usage_recorded =
  us_usage_id :: string
  us_attempt_number :: int
  us_role :: usage_role
  us_binding_ref :: string
  us_provider_usage_id :: "string option"
  us_input_tokens_observed :: "int option"
  us_output_tokens_observed :: "int option"
  us_cached_input_tokens_observed :: "int option"
  us_reasoning_tokens_observed :: "int option"
  us_input_tokens_estimated :: "int option"
  us_output_tokens_estimated :: "int option"
  us_cached_input_tokens_estimated :: "int option"
  us_reasoning_tokens_estimated :: "int option"
  us_token_estimator_id :: "string option"
  us_token_estimator_version :: "string option"
  us_pricing_snapshot_id :: string
  us_cost_observed :: "int option"
  us_cost_estimated :: "int option"
  us_currency :: string
  us_cost_provenance :: cost_provenance
  us_attempt_id :: "string option"
  us_review_id :: "string option"
  us_orchestrator_operation_id :: "string option"

record rework_recorded =
  rw_review_id :: string
  rw_attempt_id :: string
  rw_files_production :: "string list"
  rw_files_tests :: "string list"
  rw_files_docs :: "string list"
  rw_lines_production :: int
  rw_lines_tests :: int
  rw_lines_docs :: int
  rw_diff_hash :: string
  rw_actor_role :: actor_role
  rw_reason_code :: string

record escalation_decided =
  es_rejected_review_event_id :: string
  es_escalation_reason :: string
  es_target_binding_ref :: string
  es_decision_policy_version :: string

record defect_recorded =
  df_defect_id :: string
  df_severity :: severity
  df_material :: bool
  df_discovered_at :: string
  df_evidence_id :: string
  df_affected_revision :: string
  df_accepted_review_id :: string
  df_category_code :: string

datatype payload =
    BLOCK_PLANNED (planned_block_hash: string)
  | ARM_ASSIGNED (assigned_arm: pilot_arm) (assignment_algorithm_version: string)
  | ISOLATION_ATTESTED isolation_attested
  | EXECUTION_STARTED execution_started
  | EXECUTION_COMPLETED execution_completed
  | REVIEW_STARTED review_started
  | REVIEW_COMPLETED review_completed
  | VALIDATION_RECORDED validation_recorded
  | ORCHESTRATOR_OPERATION_RECORDED operation_recorded
  | USAGE_RECORDED usage_recorded
  | PARENT_REWORK_RECORDED rework_recorded
  | BLOCK_ACCEPTED (accepted_revision: string) (accepted_tree_hash: string) (accepted_at: string)
  | BLOCK_FAILED (failed_reason_code: string) (failed_evidence_hash: string)
  | BLOCK_BLOCKED (blocked_by: blocked_cause) (blocked_reason_code: string) (blocked_evidence_hash: string)
  | ESCALATION_DECIDED escalation_decided
  | POST_ACCEPT_DEFECT_RECORDED defect_recorded
  | EVENT_INVALIDATED (invalidated_event_id: string) (expected_content_hash: string) (invalidation_reason: string)

record pilot_event =
  pe_event_id :: string
  pe_pilot_id :: string
  pe_manifest_hash :: string
  pe_task_id :: string
  pe_block_id :: string
  pe_matching_stratum :: string
  pe_pair_or_triplet_id :: string
  pe_case_fingerprint :: string
  pe_pilot_arm :: "pilot_arm option"
  pe_sequence_number :: int
  pe_occurred_at :: string
  pe_recorded_at :: string
  pe_producer_id :: string
  pe_supersedes :: "(string \<times> string) option"
  pe_payload :: payload

section \<open>Schemas\<close>

definition identifier_char :: "char \<Rightarrow> bool" where
  "identifier_char c = (alnum c \<or> c \<in> set ''._:-'')"

definition pilot_identifier :: "string \<Rightarrow> bool" where
  "pilot_identifier s = (bounded_length 1 128 s \<and> lead_class alnum identifier_char 127 s)"

definition pilot_timestamp :: "string \<Rightarrow> bool" where
  "pilot_timestamp s = (template_digits ''dddd-dd-ddTdd:dd:ddZ'' s \<noteq> None \<or>
     template_digits ''dddd-dd-ddTdd:dd:dd.dddZ'' s \<noteq> None)"

definition nonnegative_integer :: "int \<Rightarrow> bool" where
  "nonnegative_integer n = (0 \<le> n \<and> safe_int n)"

definition positive_integer :: "int \<Rightarrow> bool" where
  "positive_integer n = (0 < n \<and> safe_int n)"

definition rate_ok :: "rat \<Rightarrow> bool" where
  "rate_ok r = (0 \<le> r \<and> r \<le> 1)"

definition positive_rate_ok :: "rat \<Rightarrow> bool" where
  "positive_rate_ok r = (0 < r \<and> r \<le> 1)"

definition MAX_ARRAY_ITEMS :: nat where
  "MAX_ARRAY_ITEMS = 128"

definition boundedArray :: "('a \<Rightarrow> bool) \<Rightarrow> 'a list \<Rightarrow> bool" where
  "boundedArray P xs = list_between 0 MAX_ARRAY_ITEMS P xs"

definition boundedArray1 :: "('a \<Rightarrow> bool) \<Rightarrow> 'a list \<Rightarrow> bool" where
  "boundedArray1 P xs = list_between 1 MAX_ARRAY_ITEMS P xs"

definition currency_ok :: "string \<Rightarrow> bool" where
  "currency_ok s = (length s = 3 \<and> list_all (\<lambda>c. c \<in> set ''ABCDEFGHIJKLMNOPQRSTUVWXYZ'') s)"

definition bindingV3Schema :: "pilot_binding \<Rightarrow> bool" where
  "bindingV3Schema b = (pilot_identifier (bd_binding_ref b) \<and> is_hash (bd_profile_hash b))"

definition stageThresholdsSchema :: "stage_thresholds \<Rightarrow> bool" where
  "stageThresholdsSchema t =
     (rate_ok (th_material_improvement_rate t) \<and> rate_ok (th_economic_rejection_rate t) \<and>
      rate_ok (th_max_parent_rework_block_rate t) \<and>
      rate_ok (th_max_parent_rework_production_line_share t) \<and>
      nonnegative_integer (th_max_escaped_material_defects t) \<and>
      nonnegative_integer (th_max_escaped_high_defects t) \<and>
      nonnegative_integer (th_max_escaped_critical_defects t) \<and>
      positive_rate_ok (th_min_observed_cost_completeness t) \<and>
      positive_rate_ok (th_min_observed_strong_token_completeness t) \<and>
      int_between 1 30 (th_min_stratum_triplets_for_promotion t) \<and>
      0 < th_confidence_level t \<and> th_confidence_level t < 1 \<and>
      pilot_identifier (th_interval_algorithm_version t) \<and>
      int_between 100 100000 (th_resampling_iterations t))"

definition postAcceptanceWindowSchema :: "post_acceptance_window \<Rightarrow> bool" where
  "postAcceptanceWindowSchema w =
     (positive_integer (pw_duration_seconds w) \<and> nonnegative_integer (pw_allowed_clock_skew_seconds w) \<and>
      pilot_identifier (pw_window_policy_version w))"

definition tariff_ok :: "tariff \<Rightarrow> bool" where
  "tariff_ok t =
     (pilot_identifier (tf_binding_ref t) \<and> nonnegative_integer (tf_input_rate t) \<and>
      nonnegative_integer (tf_output_rate t) \<and> opt_all nonnegative_integer (tf_cached_input_rate t) \<and>
      opt_all nonnegative_integer (tf_reasoning_rate t))"

definition pricingSnapshotV3Schema :: "pricing_snapshot \<Rightarrow> bool" where
  "pricingSnapshotV3Schema s =
     (pilot_identifier (ps_pricing_snapshot_id s) \<and> is_hash (ps_pricing_snapshot_hash s) \<and>
      currency_ok (ps_currency s) \<and> positive_integer (ps_unit_scale s) \<and>
      pilot_timestamp (ps_effective_at s) \<and> boundedArray1 tariff_ok (ps_tariffs s))"

definition manifestBlockSchema :: "manifest_block \<Rightarrow> bool" where
  "manifestBlockSchema b =
     (list_all pilot_identifier [bk_block_id b, bk_task_id b, bk_matching_stratum b, bk_pair_or_triplet_id b,
        bk_changed_line_band b, bk_routing_selection_reason b] \<and>
      list_all is_hash [bk_case_fingerprint b, bk_contract_hash b, bk_base_revision b, bk_clean_tree_hash b,
        bk_fixtures_hash b] \<and>
      boundedArray1 pilot_identifier (bk_validation_surface b) \<and>
      opt_all pilot_identifier (bk_exclusion_reason b) \<and>
      (bk_comparative_eligible b \<longrightarrow> bk_cheap_eligible b \<and> bk_risk_class b \<noteq> RISK_RESTRICTED \<and>
         bk_exclusion_reason b = None))"

definition pilotManifestV3Schema :: "pilot_manifest \<Rightarrow> bool" where
  "pilotManifestV3Schema m =
     (list_all pilot_identifier [mf_pilot_id m, mf_assignment_seed m, mf_assignment_algorithm_version m,
        mf_binding_policy_version m, mf_routing_reviewer_binding_ref m, mf_routing_policy_version m,
        mf_review_policy_version m, mf_state_machine_version m, mf_reducer_version m,
        mf_isolation_policy_version m, mf_canonical_tree_algorithm_version m] \<and>
      is_hash (mf_manifest_hash m) \<and> is_hash (mf_volatile_paths_policy_hash m) \<and>
      pilot_timestamp (mf_created_at m) \<and> boundedArray1 manifestBlockSchema (mf_blocks m) \<and>
      boundedArray1 (\<lambda>a. pilot_identifier (aa_block_id a)) (mf_arm_assignments m) \<and>
      boundedArray1 bindingV3Schema (mf_binding_registry m) \<and>
      stageThresholdsSchema (mf_stage_thresholds m) \<and>
      postAcceptanceWindowSchema (mf_post_acceptance_window m) \<and>
      pricingSnapshotV3Schema (mf_pricing_snapshot m))"

definition execution_start_ok :: "'a execution_started_scheme \<Rightarrow> bool" where
  "execution_start_ok x =
     (list_all pilot_identifier [xs_attempt_id x, xs_executor_binding_ref x, xs_executor_session_id x] \<and>
      positive_integer (xs_attempt_number x) \<and> is_hash (xs_input_revision x) \<and>
      nonnegative_integer (xs_started_monotonic_ms x))"

definition executionPayload :: "execution_completed \<Rightarrow> bool" where
  "executionPayload x =
     (execution_start_ok x \<and>
      list_all is_hash [xc_output_revision x, xc_output_tree_hash x, xc_output_diff_hash x,
        xc_volatile_paths_policy_hash x, xc_tree_reproduction_evidence_hash x] \<and>
      pilot_identifier (xc_canonical_tree_algorithm_version x) \<and>
      list_all nonnegative_integer [xc_changed_lines_production x, xc_changed_lines_tests x,
        xc_changed_lines_docs x, xc_finished_monotonic_ms x, xc_duration_ms x])"

definition findingSchema :: "finding \<Rightarrow> bool" where
  "findingSchema f = (pilot_identifier (fd_finding_id f) \<and> pilot_identifier (fd_category_code f) \<and>
     boundedArray1 is_hash (fd_evidence_hashes f))"

definition review_start_ok :: "'a review_started_scheme \<Rightarrow> bool" where
  "review_start_ok v =
     (list_all pilot_identifier [vs_review_id v, vs_reviewer_binding_ref v, vs_reviewer_session_id v,
        vs_reviewed_attempt_id v, vs_executor_session_id_reviewed v] \<and>
      positive_integer (vs_review_round v) \<and> nonnegative_integer (vs_started_monotonic_ms v))"

definition reviewPayload :: "review_completed \<Rightarrow> bool" where
  "reviewPayload v =
     (review_start_ok v \<and>
      list_all is_hash [vc_review_input_diff_hash v, vc_review_boundary_hash v,
        vc_review_boundary_from_revision v, vc_review_boundary_to_revision v] \<and>
      opt_all is_hash (vc_previous_review_boundary_hash v) \<and>
      boundedArray pilot_identifier (vc_unresolved_finding_ids v) \<and>
      boundedArray is_hash (vc_validation_evidence_hashes v) \<and>
      boundedArray is_hash (vc_bounded_context_hashes v) \<and>
      boundedArray (\<lambda>_. True) (vc_additional_context_requests v) \<and>
      boundedArray findingSchema (vc_material_findings v) \<and>
      boundedArray findingSchema (vc_non_material_findings v) \<and>
      list_all nonnegative_integer [vc_finished_monotonic_ms v, vc_duration_ms v])"

text \<open>\<open>usageRecordedV3Schema\<close>: a union over owner, cost provenance and estimator shapes.\<close>

fun tokenField :: "evidence_kind \<Rightarrow> dimension \<Rightarrow> usage_recorded \<Rightarrow> int option" where
  "tokenField OBSERVED INPUT u = us_input_tokens_observed u"
| "tokenField OBSERVED OUTPUT u = us_output_tokens_observed u"
| "tokenField OBSERVED CACHED_INPUT u = us_cached_input_tokens_observed u"
| "tokenField OBSERVED REASONING u = us_reasoning_tokens_observed u"
| "tokenField ESTIMATED INPUT u = us_input_tokens_estimated u"
| "tokenField ESTIMATED OUTPUT u = us_output_tokens_estimated u"
| "tokenField ESTIMATED CACHED_INPUT u = us_cached_input_tokens_estimated u"
| "tokenField ESTIMATED REASONING u = us_reasoning_tokens_estimated u"

definition dimensions :: "dimension list" where
  "dimensions = [INPUT, OUTPUT, CACHED_INPUT, REASONING]"

definition usage_base_ok :: "usage_recorded \<Rightarrow> bool" where
  "usage_base_ok u =
     (list_all pilot_identifier [us_usage_id u, us_binding_ref u, us_pricing_snapshot_id u] \<and>
      positive_integer (us_attempt_number u) \<and>
      list_all (opt_all pilot_identifier) [us_provider_usage_id u, us_token_estimator_id u,
        us_token_estimator_version u, us_attempt_id u, us_review_id u, us_orchestrator_operation_id u] \<and>
      list_all (\<lambda>k. list_all (\<lambda>d. opt_all nonnegative_integer (tokenField k d u)) dimensions) [OBSERVED, ESTIMATED] \<and>
      opt_all nonnegative_integer (us_cost_observed u) \<and> opt_all nonnegative_integer (us_cost_estimated u) \<and>
      currency_ok (us_currency u))"

definition usage_owner_ok :: "usage_recorded \<Rightarrow> bool" where
  "usage_owner_ok u =
     (length (filter (\<lambda>x. x \<noteq> None) [us_attempt_id u, us_review_id u, us_orchestrator_operation_id u]) = 1)"

definition usage_observed_cost_ok :: "usage_recorded \<Rightarrow> bool" where
  "usage_observed_cost_ok u =
     (us_cost_estimated u = None \<and>
      (us_cost_provenance u = TARIFF_REPRODUCED \<and>
         (us_cost_observed u = None \<or>
          us_input_tokens_observed u \<noteq> None \<and> us_output_tokens_observed u \<noteq> None) \<or>
       us_cost_provenance u = AUTHORITATIVE_BILL \<and> us_provider_usage_id u \<noteq> None \<and> us_cost_observed u \<noteq> None))"

definition usage_estimator_ok :: "usage_recorded \<Rightarrow> bool" where
  "usage_estimator_ok u =
     (if list_all (\<lambda>d. tokenField ESTIMATED d u = None) dimensions
      then us_token_estimator_id u = None \<and> us_token_estimator_version u = None
      else us_token_estimator_id u \<noteq> None \<and> us_token_estimator_version u \<noteq> None)"

definition usage_estimated_tariff_ok :: "usage_recorded \<Rightarrow> bool" where
  "usage_estimated_tariff_ok u =
     (us_cost_provenance u = ESTIMATED_TARIFF \<and> us_input_tokens_estimated u \<noteq> None \<and>
      us_output_tokens_estimated u \<noteq> None \<and> us_token_estimator_id u \<noteq> None \<and>
      us_token_estimator_version u \<noteq> None \<and> us_cost_observed u = None \<and> us_cost_estimated u \<noteq> None)"

definition usageRecordedV3Schema :: "usage_recorded \<Rightarrow> bool" where
  "usageRecordedV3Schema u =
     (usage_base_ok u \<and> usage_owner_ok u \<and>
      (usage_observed_cost_ok u \<and> usage_estimator_ok u \<or> usage_estimated_tariff_ok u))"

fun payload_ok :: "payload \<Rightarrow> bool" where
  "payload_ok (BLOCK_PLANNED h) = is_hash h"
| "payload_ok (ARM_ASSIGNED a v) = pilot_identifier v"
| "payload_ok (ISOLATION_ATTESTED i) =
     (list_all pilot_identifier [is_workspace_instance_id i, is_isolation_policy_version i, is_attestor_id i] \<and>
      list_all is_hash [is_base_revision i, is_clean_tree_hash i, is_observed_tree_hash i, is_evidence_hash i])"
| "payload_ok (EXECUTION_STARTED x) = execution_start_ok x"
| "payload_ok (EXECUTION_COMPLETED x) = executionPayload x"
| "payload_ok (REVIEW_STARTED v) = review_start_ok v"
| "payload_ok (REVIEW_COMPLETED v) = reviewPayload v"
| "payload_ok (VALIDATION_RECORDED l) =
     (pilot_identifier (vl_validation_id l) \<and> pilot_identifier (vl_attempt_id l) \<and>
      boundedArray1 pilot_identifier (vl_validation_surface l) \<and>
      nonnegative_integer (vl_tests_failing l) \<and> nonnegative_integer (vl_tests_passing l) \<and>
      boundedArray1 is_hash (vl_evidence_hashes l))"
| "payload_ok (ORCHESTRATOR_OPERATION_RECORDED q) =
     (pilot_identifier (op_orchestrator_operation_id q) \<and> positive_integer (op_attempt_number q) \<and>
      pilot_identifier (op_binding_ref q) \<and> is_hash (op_evidence_hash q))"
| "payload_ok (USAGE_RECORDED u) = usageRecordedV3Schema u"
| "payload_ok (PARENT_REWORK_RECORDED w) =
     (list_all pilot_identifier [rw_review_id w, rw_attempt_id w, rw_reason_code w] \<and>
      list_all (boundedArray pilot_identifier) [rw_files_production w, rw_files_tests w, rw_files_docs w] \<and>
      list_all nonnegative_integer [rw_lines_production w, rw_lines_tests w, rw_lines_docs w] \<and>
      is_hash (rw_diff_hash w))"
| "payload_ok (BLOCK_ACCEPTED r t a) = (is_hash r \<and> is_hash t \<and> pilot_timestamp a)"
| "payload_ok (BLOCK_FAILED c h) = (pilot_identifier c \<and> is_hash h)"
| "payload_ok (BLOCK_BLOCKED k c h) = (pilot_identifier c \<and> is_hash h)"
| "payload_ok (ESCALATION_DECIDED e) =
     list_all pilot_identifier [es_rejected_review_event_id e, es_escalation_reason e, es_target_binding_ref e,
        es_decision_policy_version e]"
| "payload_ok (POST_ACCEPT_DEFECT_RECORDED d) =
     (list_all pilot_identifier [df_defect_id d, df_evidence_id d, df_accepted_review_id d, df_category_code d] \<and>
      pilot_timestamp (df_discovered_at d) \<and> is_hash (df_affected_revision d))"
| "payload_ok (EVENT_INVALIDATED i h r) = (pilot_identifier i \<and> is_hash h \<and> pilot_identifier r)"

fun allowsSupersession :: "payload \<Rightarrow> bool" where
  "allowsSupersession (ORCHESTRATOR_OPERATION_RECORDED q) = False"
| "allowsSupersession (EVENT_INVALIDATED i h r) = False"
| "allowsSupersession _ = True"

definition event_base_ok :: "pilot_event \<Rightarrow> bool" where
  "event_base_ok e =
     (list_all pilot_identifier [pe_event_id e, pe_pilot_id e, pe_task_id e, pe_block_id e, pe_matching_stratum e,
        pe_pair_or_triplet_id e, pe_producer_id e] \<and>
      is_hash (pe_manifest_hash e) \<and> is_hash (pe_case_fingerprint e) \<and>
      positive_integer (pe_sequence_number e) \<and>
      pilot_timestamp (pe_occurred_at e) \<and> pilot_timestamp (pe_recorded_at e))"

definition pilotEventV3Schema :: "pilot_event \<Rightarrow> bool" where
  "pilotEventV3Schema e =
     (event_base_ok e \<and> payload_ok (pe_payload e) \<and>
      (case pe_supersedes e of None \<Rightarrow> True
       | Some (i, h) \<Rightarrow> allowsSupersession (pe_payload e) \<and> pilot_identifier i \<and> is_hash h))"

end
