(* ===== verification/Pilot_Store.thy ===== *)
theory Pilot_Store
  imports Pilot_Types Prelude
begin

text \<open>
  The audit log of the pilot (\<open>src/pilot/event-store.ts\<close>) and its content guard
  (\<open>src/pilot/sensitive-guard.ts\<close>): the safety of one event, the validity of a whole log, the append
  operation, and the projection of a log to the events that are still active.

  Parameters (\<open>log_env\<close>): the canonical JSON text of an event and its SHA-256 hash. \<open>frozen\<close> says
  whether the log handed in is already deeply frozen: then it is used as it is, otherwise each event
  is checked and copied first. An error carries its whole message, because the replay of a block turns
  the message into a reason code.
\<close>

record log_env =
  le_canonical :: "pilot_event \<Rightarrow> string"
  le_event_hash :: "pilot_event \<Rightarrow> string"

section \<open>The content guard\<close>

definition MAX_STRING_LENGTH :: nat where
  "MAX_STRING_LENGTH = 128"

definition upper_or_digit :: "char \<Rightarrow> bool" where
  "upper_or_digit c = (c \<in> set ''0123456789ABCDEFGHIJKLMNOPQRSTUVWXYZ'')"

definition upper_or_space :: "char \<Rightarrow> bool" where
  "upper_or_space c = (c \<in> set '' ABCDEFGHIJKLMNOPQRSTUVWXYZ'')"

definition tail_of :: "string \<Rightarrow> string \<Rightarrow> string" where
  "tail_of p s = drop (length p) s"

text \<open>The five patterns of \<open>CREDENTIAL_VALUE_PATTERNS\<close>.\<close>

definition sk_key :: "string \<Rightarrow> bool" where
  "sk_key s = (starts_with s ''sk-'' \<and> 16 \<le> length (tail_of ''sk-'' s) \<and> list_all id_char (tail_of ''sk-'' s))"

definition akia_key :: "string \<Rightarrow> bool" where
  "akia_key s = (starts_with s ''AKIA'' \<and> length (tail_of ''AKIA'' s) = 16 \<and>
     list_all upper_or_digit (tail_of ''AKIA'' s))"

definition github_token :: "string \<Rightarrow> bool" where
  "github_token s = (24 \<le> length s \<and> starts_with s ''gh'' \<and> s ! 2 \<in> set ''pousr'' \<and> s ! 3 = CHR ''_'' \<and>
     list_all (\<lambda>c. alnum c \<or> c = CHR ''_'') (drop 4 s))"

definition jwt_value :: "string \<Rightarrow> bool" where
  "jwt_value s = (starts_with s ''eyJ'' \<and>
     (case split_on CHR ''.'' s of [a, b, c] \<Rightarrow>
        tail_of ''eyJ'' a \<noteq> [] \<and> b \<noteq> [] \<and> c \<noteq> [] \<and> list_all id_char (tail_of ''eyJ'' a) \<and>
        list_all id_char b \<and> list_all id_char c
      | _ \<Rightarrow> False))"

definition pem_header :: "string \<Rightarrow> bool" where
  "pem_header s = (starts_with s ''-----BEGIN '' \<and> ends_with s ''PRIVATE KEY-----'' \<and>
     27 \<le> length s \<and> list_all upper_or_space (take (length s - 27) (drop 11 s)))"

definition credential_shaped :: "string \<Rightarrow> bool" where
  "credential_shaped s = (sk_key s \<or> akia_key s \<or> github_token s \<or> jwt_value s \<or> pem_header s)"

text \<open>The strings of an event, in the order of the schema.\<close>

definition finding_strings :: "finding \<Rightarrow> string list" where
  "finding_strings f = [fd_finding_id f, fd_category_code f] @ fd_evidence_hashes f"

definition execution_start_strings :: "'a execution_started_scheme \<Rightarrow> string list" where
  "execution_start_strings x = [xs_attempt_id x, xs_executor_binding_ref x, xs_executor_session_id x, xs_input_revision x]"

definition review_start_strings :: "'a review_started_scheme \<Rightarrow> string list" where
  "review_start_strings v = [vs_review_id v, vs_reviewer_binding_ref v, vs_reviewer_session_id v,
     vs_reviewed_attempt_id v, vs_executor_session_id_reviewed v]"

definition option_strings :: "string option list \<Rightarrow> string list" where
  "option_strings xs = concat (map (\<lambda>x. case x of None \<Rightarrow> [] | Some s \<Rightarrow> [s]) xs)"

fun payload_strings :: "payload \<Rightarrow> string list" where
  "payload_strings (BLOCK_PLANNED h) = [h]"
| "payload_strings (ARM_ASSIGNED a v) = [v]"
| "payload_strings (ISOLATION_ATTESTED i) =
     [is_workspace_instance_id i, is_base_revision i, is_clean_tree_hash i, is_observed_tree_hash i,
      is_isolation_policy_version i, is_attestor_id i, is_evidence_hash i]"
| "payload_strings (EXECUTION_STARTED x) = execution_start_strings x"
| "payload_strings (EXECUTION_COMPLETED x) = execution_start_strings x @
     [xc_output_revision x, xc_output_tree_hash x, xc_output_diff_hash x, xc_canonical_tree_algorithm_version x,
      xc_volatile_paths_policy_hash x, xc_tree_reproduction_evidence_hash x]"
| "payload_strings (REVIEW_STARTED v) = review_start_strings v"
| "payload_strings (REVIEW_COMPLETED v) = review_start_strings v @
     [vc_review_input_diff_hash v] @ option_strings [vc_previous_review_boundary_hash v] @
     [vc_review_boundary_hash v, vc_review_boundary_from_revision v, vc_review_boundary_to_revision v] @
     vc_unresolved_finding_ids v @ vc_validation_evidence_hashes v @ vc_bounded_context_hashes v @
     concat (map finding_strings (vc_material_findings v)) @ concat (map finding_strings (vc_non_material_findings v))"
| "payload_strings (VALIDATION_RECORDED l) =
     [vl_validation_id l, vl_attempt_id l] @ vl_validation_surface l @ vl_evidence_hashes l"
| "payload_strings (ORCHESTRATOR_OPERATION_RECORDED q) =
     [op_orchestrator_operation_id q, op_binding_ref q, op_evidence_hash q]"
| "payload_strings (USAGE_RECORDED u) =
     [us_usage_id u, us_binding_ref u, us_pricing_snapshot_id u, us_currency u] @
     option_strings [us_provider_usage_id u, us_token_estimator_id u, us_token_estimator_version u,
       us_attempt_id u, us_review_id u, us_orchestrator_operation_id u]"
| "payload_strings (PARENT_REWORK_RECORDED w) =
     [rw_review_id w, rw_attempt_id w] @ rw_files_production w @ rw_files_tests w @ rw_files_docs w @
     [rw_diff_hash w, rw_reason_code w]"
| "payload_strings (BLOCK_ACCEPTED r t a) = [r, t, a]"
| "payload_strings (BLOCK_FAILED c h) = [c, h]"
| "payload_strings (BLOCK_BLOCKED k c h) = [c, h]"
| "payload_strings (ESCALATION_DECIDED e) =
     [es_rejected_review_event_id e, es_escalation_reason e, es_target_binding_ref e, es_decision_policy_version e]"
| "payload_strings (POST_ACCEPT_DEFECT_RECORDED d) =
     [df_defect_id d, df_discovered_at d, df_evidence_id d, df_affected_revision d, df_accepted_review_id d,
      df_category_code d]"
| "payload_strings (EVENT_INVALIDATED i h r) = [i, h, r]"

definition event_strings :: "pilot_event \<Rightarrow> string list" where
  "event_strings e =
     [pe_event_id e, pe_pilot_id e, pe_manifest_hash e, pe_task_id e, pe_block_id e, pe_matching_stratum e,
      pe_pair_or_triplet_id e, pe_case_fingerprint e, pe_occurred_at e, pe_recorded_at e, pe_producer_id e] @
     (case pe_supersedes e of None \<Rightarrow> [] | Some (i, h) \<Rightarrow> [i, h]) @ payload_strings (pe_payload e)"

definition check_value :: "string \<Rightarrow> unit result" where
  "check_value s =
     throw_if (MAX_STRING_LENGTH < length s) (Error PILOT_ERROR ''Event value is too long'')
     (throw_if (credential_shaped s) (Error PILOT_ERROR ''Event value has credential-shaped content'') (Inr ()))"

definition assertSafeValue :: "string list \<Rightarrow> unit result" where
  "assertSafeValue values = foldR (\<lambda>_ s. check_value s) () values"

definition assertSafeEvent :: "pilot_event \<Rightarrow> unit result" where
  "assertSafeEvent e =
     bindR (assertSafeValue (event_strings e)) (\<lambda>_.
     throw_if (\<not> pilotEventV3Schema e) (Error PILOT_ERROR ''Event violates the closed PilotEventV3 contract'') (Inr ()))"

section \<open>Valid logs\<close>

definition isInvalidationEvent :: "pilot_event \<Rightarrow> bool" where
  "isInvalidationEvent e = (case pe_payload e of EVENT_INVALIDATED i h r \<Rightarrow> True | _ \<Rightarrow> False)"

definition snapshotEvent :: "pilot_event \<Rightarrow> pilot_event result" where
  "snapshotEvent e = bindR (assertSafeEvent e) (\<lambda>_. Inr e)"

definition ownedLog :: "bool \<Rightarrow> pilot_event list \<Rightarrow> pilot_event list result" where
  "ownedLog frozen audit = (if frozen then Inr audit else mapR snapshotEvent audit)"

text \<open>\<open>new Map(log.map(e => [e.event_id, e])).get(id)\<close>: the last event with the identifier.\<close>

definition known_event :: "pilot_event list \<Rightarrow> string \<Rightarrow> pilot_event option" where
  "known_event audit i = find (\<lambda>e. pe_event_id e = i) (rev audit)"

definition assertReferencesKnown :: "log_env \<Rightarrow> pilot_event list \<Rightarrow> pilot_event \<Rightarrow> unit result" where
  "assertReferencesKnown env audit e =
     bindR (case pe_supersedes e of None \<Rightarrow> Inr ()
       | Some (i, h) \<Rightarrow>
          if i = [] then Inr ()
          else (case known_event audit i of
             None \<Rightarrow> Inl (Error PILOT_ERROR (''Unknown superseded event '' @ i))
           | Some s \<Rightarrow> throw_if (h \<noteq> le_event_hash env s)
               (Error PILOT_ERROR (''Superseded event '' @ i @ '' content hash mismatch'')) (Inr ()))) (\<lambda>_.
     case pe_payload e of
       EVENT_INVALIDATED i h r \<Rightarrow>
         (case known_event audit i of
            None \<Rightarrow> Inl (Error PILOT_ERROR (''Unknown invalidated event '' @ i))
          | Some s \<Rightarrow> throw_if (h \<noteq> le_event_hash env s)
              (Error PILOT_ERROR (''Invalidated event '' @ i @ '' content hash mismatch'')) (Inr ()))
     | _ \<Rightarrow> Inr ())"

definition sequence_error :: "int \<Rightarrow> string \<Rightarrow> error" where
  "sequence_error n block = Error PILOT_ERROR
     (''Expected contiguous sequence '' @ decimal n @ '' for block '' @ block)"

text \<open>One turn of the loop of \<open>assertValidLog\<close>; \<open>earlier\<close> holds the events before the current one.\<close>

record log_scan =
  sc_earlier :: "pilot_event list"
  sc_eventIds :: "string set"
  sc_nextSequence :: "string \<rightharpoonup> int"

definition scan_start :: log_scan where
  "scan_start = \<lparr>sc_earlier = [], sc_eventIds = {}, sc_nextSequence = (\<lambda>_. None)\<rparr>"

definition scan_step :: "log_env \<Rightarrow> log_scan \<Rightarrow> pilot_event \<Rightarrow> log_scan result" where
  "scan_step env s e =
     bindR (assertSafeEvent e) (\<lambda>_.
     throw_if (pe_event_id e \<in> sc_eventIds s)
       (Error PILOT_ERROR (''Duplicate event_id '' @ pe_event_id e @ '' in audit log''))
     (let expected = (case sc_nextSequence s (pe_block_id e) of None \<Rightarrow> 1 | Some n \<Rightarrow> n) in
      throw_if (pe_sequence_number e \<noteq> expected) (sequence_error expected (pe_block_id e))
      (bindR (assertReferencesKnown env (sc_earlier s) e) (\<lambda>_.
       Inr \<lparr>sc_earlier = sc_earlier s @ [e], sc_eventIds = insert (pe_event_id e) (sc_eventIds s),
            sc_nextSequence = (sc_nextSequence s)(pe_block_id e \<mapsto> expected + 1)\<rparr>))))"

definition assertValidLog :: "log_env \<Rightarrow> pilot_event list \<Rightarrow> unit result" where
  "assertValidLog env audit = bindR (foldR (scan_step env) scan_start audit) (\<lambda>_. Inr ())"

definition block_count :: "string \<Rightarrow> pilot_event list \<Rightarrow> int" where
  "block_count block audit = int (length (filter (\<lambda>e. pe_block_id e = block) audit))"

definition appendEvent ::
    "log_env \<Rightarrow> bool \<Rightarrow> pilot_event list \<Rightarrow> pilot_event \<Rightarrow> pilot_event list result" where
  "appendEvent env frozen audit e =
     bindR (ownedLog frozen audit) (\<lambda>stable.
     bindR (assertValidLog env stable) (\<lambda>_.
     bindR (snapshotEvent e) (\<lambda>s.
     case find (\<lambda>c. pe_event_id c = pe_event_id s) stable of
       Some old \<Rightarrow> if le_canonical env old = le_canonical env s then Inr stable
         else Inl (Error PILOT_ERROR (''event_id '' @ pe_event_id s @ '' already exists with different content''))
     | None \<Rightarrow>
         (let expected = 1 + block_count (pe_block_id s) stable in
          throw_if (pe_sequence_number s \<noteq> expected) (sequence_error expected (pe_block_id s))
          (bindR (assertReferencesKnown env stable s) (\<lambda>_. Inr (stable @ [s])))))))"

section \<open>Active events\<close>

text \<open>The backward pass over the invalidations, then the forward pass over the supersessions.\<close>

definition invalidation_step :: "string set \<Rightarrow> pilot_event \<Rightarrow> string set" where
  "invalidation_step inactive e = (case pe_payload e of
     EVENT_INVALIDATED i h r \<Rightarrow>
       insert (pe_event_id e) (if pe_event_id e \<notin> inactive then insert i inactive else inactive)
   | _ \<Rightarrow> inactive)"

definition supersession_step :: "string set \<Rightarrow> pilot_event \<Rightarrow> string set" where
  "supersession_step inactive e =
     (if pe_event_id e \<notin> inactive
      then (case pe_supersedes e of Some (i, h) \<Rightarrow> if i = [] then inactive else insert i inactive | None \<Rightarrow> inactive)
      else inactive)"

definition inactive_ids :: "pilot_event list \<Rightarrow> string set" where
  "inactive_ids audit = foldl supersession_step (foldl invalidation_step {} (rev audit)) audit"

text \<open>The backward loop checks the references of each event again; on a valid log this never fails.\<close>

definition recheck_references :: "log_env \<Rightarrow> pilot_event list \<Rightarrow> unit result" where
  "recheck_references env audit =
     foldR (\<lambda>_ i. assertReferencesKnown env (take i audit) (audit ! i)) () (rev [0..<length audit])"

definition activeEvents :: "log_env \<Rightarrow> bool \<Rightarrow> pilot_event list \<Rightarrow> pilot_event list result" where
  "activeEvents env frozen audit =
     bindR (ownedLog frozen audit) (\<lambda>stable.
     bindR (assertValidLog env stable) (\<lambda>_.
     bindR (recheck_references env stable) (\<lambda>_.
     Inr (filter (\<lambda>e. pe_event_id e \<notin> inactive_ids stable) stable))))"

section \<open>What a valid log is\<close>

definition safe_event :: "pilot_event \<Rightarrow> bool" where
  "safe_event e = (assertSafeEvent e = Inr ())"

text \<open>\<open>e\<close> may follow the log \<open>es\<close>.\<close>

definition admissible :: "log_env \<Rightarrow> pilot_event list \<Rightarrow> pilot_event \<Rightarrow> bool" where
  "admissible env es e = (safe_event e \<and> pe_event_id e \<notin> pe_event_id ` set es \<and>
     pe_sequence_number e = 1 + block_count (pe_block_id e) es \<and>
     assertReferencesKnown env es e = Inr ())"

definition valid_log :: "log_env \<Rightarrow> pilot_event list \<Rightarrow> bool" where
  "valid_log env es = (\<forall>i < length es. admissible env (take i es) (es ! i))"

lemma valid_log_Nil [simp]: "valid_log env []"
  by (simp add: valid_log_def)

lemma valid_log_snoc [simp]: "valid_log env (es @ [e]) \<longleftrightarrow> valid_log env es \<and> admissible env es e"
  by (auto simp: valid_log_def less_Suc_eq nth_append)

lemma block_count_simps [simp]:
  "block_count b [] = 0"
  "block_count b (es @ [e]) = block_count b es + (if pe_block_id e = b then 1 else 0)"
  by (simp_all add: block_count_def)

definition scan_of :: "pilot_event list \<Rightarrow> log_scan" where
  "scan_of es = \<lparr>sc_earlier = es, sc_eventIds = pe_event_id ` set es,
     sc_nextSequence = (\<lambda>b. if block_count b es = 0 then None else Some (1 + block_count b es))\<rparr>"

lemma block_count_nonneg [simp]: "0 \<le> block_count b es"
  by (simp add: block_count_def)

lemma unit_result: "(r :: unit result) = Inr u \<longleftrightarrow> r = Inr ()"
  by simp

lemma scan_step_of:
  "scan_step env (scan_of es) e = Inr s' \<longleftrightarrow> admissible env es e \<and> s' = scan_of (es @ [e])"
proof -
  have seq: "(case sc_nextSequence (scan_of es) b of None \<Rightarrow> 1 | Some n \<Rightarrow> n) = 1 + block_count b es" for b
    by (simp add: scan_of_def)
  have nonzero: "1 + block_count b es \<noteq> 0" for b
    using block_count_nonneg [of b es] by linarith
  have next_scan: "\<lparr>sc_earlier = es @ [e], sc_eventIds = insert (pe_event_id e) (pe_event_id ` set es),
      sc_nextSequence = (sc_nextSequence (scan_of es))(pe_block_id e \<mapsto> 1 + block_count (pe_block_id e) es + 1)\<rparr>
    = scan_of (es @ [e])"
    using nonzero by (auto simp: scan_of_def fun_eq_iff add.commute)
  show ?thesis
    unfolding scan_step_def Let_def seq admissible_def safe_event_def
    using next_scan by (auto simp: scan_of_def)
qed

lemma scan_log: "foldR (scan_step env) scan_start es = Inr s \<longleftrightarrow> valid_log env es \<and> s = scan_of es"
proof (induction es arbitrary: s rule: rev_induct)
  case Nil
  show ?case by (auto simp: scan_start_def scan_of_def)
next
  case (snoc e es)
  then show ?case by (auto simp: foldR_snoc scan_step_of)
qed

lemma assertValidLog_iff: "assertValidLog env es = Inr () \<longleftrightarrow> valid_log env es"
  by (simp add: assertValidLog_def scan_log)

lemma valid_log_safe: "valid_log env es \<Longrightarrow> e \<in> set es \<Longrightarrow> safe_event e"
  by (auto simp: valid_log_def admissible_def in_set_conv_nth)

lemma valid_log_distinct: "valid_log env es \<Longrightarrow> distinct (map pe_event_id es)"
  by (induction es rule: rev_induct) (auto simp: admissible_def)

lemma valid_log_same_event:
  "valid_log env es \<Longrightarrow> a \<in> set es \<Longrightarrow> b \<in> set es \<Longrightarrow> pe_event_id a = pe_event_id b \<Longrightarrow> a = b"
  using valid_log_distinct by (metis distinct_map inj_onD)

lemma ownedLog_Inr: "ownedLog frozen es = Inr es' \<Longrightarrow> es' = es"
proof (cases frozen)
  case False
  assume "ownedLog frozen es = Inr es'"
  with False have "list_all2 (\<lambda>x y. snapshotEvent x = Inr y) es es'"
    by (simp add: ownedLog_def mapR_Inr_iff)
  then have "list_all2 (\<lambda>x y. y = x) es es'"
    by (rule list_all2_mono) (simp add: snapshotEvent_def)
  then show "es' = es" by (simp add: list_all2_eq [symmetric] list_all2_conv_all_nth list_eq_iff_nth_eq)
qed (simp add: ownedLog_def)

lemma ownedLog_valid: "valid_log env es \<Longrightarrow> ownedLog frozen es = Inr es"
  unfolding ownedLog_def
  by (auto intro!: mapR_same simp: snapshotEvent_def dest!: valid_log_safe simp: safe_event_def)

lemma find_known: "find (\<lambda>c. pe_event_id c = i) es = None \<longleftrightarrow> i \<notin> pe_event_id ` set es"
  by (auto simp: find_None_iff)

lemma append_Inr:
  assumes "appendEvent env frozen es e = Inr es'"
  shows "valid_log env es \<and> safe_event e \<and>
    (es' = es @ [e] \<and> admissible env es e \<or>
     es' = es \<and> (\<exists>c \<in> set es. pe_event_id c = pe_event_id e \<and> le_canonical env c = le_canonical env e))"
proof -
  from assms have owned: "ownedLog frozen es = Inr es" and valid: "valid_log env es" and safe: "safe_event e"
    by (auto simp: appendEvent_def assertValidLog_iff snapshotEvent_def safe_event_def dest!: ownedLog_Inr
        intro: ownedLog_valid)
  have rest: "(case find (\<lambda>c. pe_event_id c = pe_event_id e) es of
       Some old \<Rightarrow> if le_canonical env old = le_canonical env e then Inr es
         else Inl (Error PILOT_ERROR (''event_id '' @ pe_event_id e @ '' already exists with different content''))
     | None \<Rightarrow>
         (let expected = 1 + block_count (pe_block_id e) es in
          throw_if (pe_sequence_number e \<noteq> expected) (sequence_error expected (pe_block_id e))
          (bindR (assertReferencesKnown env es e) (\<lambda>_. Inr (es @ [e]))))) = Inr es'"
    using assms valid safe
    by (simp add: appendEvent_def owned assertValidLog_iff [THEN iffD2, OF valid] snapshotEvent_def safe_event_def)
  show ?thesis
  proof (cases "find (\<lambda>c. pe_event_id c = pe_event_id e) es")
    case None
    with rest valid safe show ?thesis
      by (auto simp: Let_def admissible_def find_known)
  next
    case (Some old)
    then have "old \<in> set es" "pe_event_id old = pe_event_id e"
      by (auto simp: find_Some_iff)
    with rest Some valid safe show ?thesis by (auto split: if_splits)
  qed
qed

lemma append_valid:
  assumes "valid_log env es"
  shows "admissible env es e \<Longrightarrow> appendEvent env frozen es e = Inr (es @ [e])"
    and "c \<in> set es \<Longrightarrow> safe_event e \<Longrightarrow> pe_event_id c = pe_event_id e \<Longrightarrow>
      appendEvent env frozen es e =
        (if le_canonical env c = le_canonical env e then Inr es
         else Inl (Error PILOT_ERROR (''event_id '' @ pe_event_id e @ '' already exists with different content'')))"
proof -
  note pre = ownedLog_valid [OF assms] assertValidLog_iff [THEN iffD2, OF assms]
  {
    assume a: "admissible env es e"
    then have "find (\<lambda>c. pe_event_id c = pe_event_id e) es = None"
      by (simp add: find_known admissible_def)
    with a show "appendEvent env frozen es e = Inr (es @ [e])"
      by (simp add: appendEvent_def pre snapshotEvent_def admissible_def safe_event_def Let_def)
  next
    assume c: "c \<in> set es" "pe_event_id c = pe_event_id e" and e: "safe_event e"
    then obtain old where old: "find (\<lambda>c. pe_event_id c = pe_event_id e) es = Some old"
      by (cases "find (\<lambda>c. pe_event_id c = pe_event_id e) es") (auto simp: find_None_iff)
    then have "old \<in> set es" "pe_event_id old = pe_event_id e" by (auto simp: find_Some_iff)
    then have "old = c" using valid_log_same_event [OF assms] c by metis
    with old e show "appendEvent env frozen es e =
        (if le_canonical env c = le_canonical env e then Inr es
         else Inl (Error PILOT_ERROR (''event_id '' @ pe_event_id e @ '' already exists with different content'')))"
      by (simp add: appendEvent_def pre snapshotEvent_def safe_event_def)
  }
qed

text \<open>A log grown by appends alone.\<close>

interpretation audit_log: replay_machine "appendEvent env frozen" "[]" "valid_log env" for env frozen
  by unfold_locales (auto dest!: append_Inr)

section \<open>What the active events are\<close>

text \<open>
  An event is withdrawn when some invalidation of it is not itself withdrawn by a later one: an
  invalidation that is invalidated in turn has no effect.
\<close>

definition invalidates :: "pilot_event \<Rightarrow> string \<Rightarrow> bool" where
  "invalidates e i = (case pe_payload e of EVENT_INVALIDATED t h r \<Rightarrow> t = i | _ \<Rightarrow> False)"

fun withdrawn :: "pilot_event list \<Rightarrow> string \<Rightarrow> bool" where
  "withdrawn [] i = False"
| "withdrawn (e # later) i = (withdrawn later i \<or> (invalidates e i \<and> \<not> withdrawn later (pe_event_id e)))"

definition replaces :: "pilot_event \<Rightarrow> string \<Rightarrow> bool" where
  "replaces s i = (\<exists>h. pe_supersedes s = Some (i, h))"

definition invalidated :: "pilot_event list \<Rightarrow> string \<Rightarrow> bool" where
  "invalidated es i = (withdrawn es i \<or> (\<exists>e \<in> set es. isInvalidationEvent e \<and> pe_event_id e = i))"

lemma invalidation_pass:
  "distinct (map pe_event_id es) \<Longrightarrow> foldl invalidation_step {} (rev es) = {i. invalidated es i}"
proof (induction es)
  case Nil
  then show ?case by (simp add: invalidated_def)
next
  case (Cons e later)
  then have IH: "foldl invalidation_step {} (rev later) = {i. invalidated later i}" by simp
  have fresh: "invalidated later (pe_event_id e) \<longleftrightarrow> withdrawn later (pe_event_id e)"
    using Cons.prems by (auto simp: invalidated_def) (metis image_eqI)
  have step: "foldl invalidation_step {} (rev (e # later)) = invalidation_step {i. invalidated later i} e"
    by (simp add: IH)
  show ?case
  proof (cases "isInvalidationEvent e")
    case True
    then obtain t h r where p: "pe_payload e = EVENT_INVALIDATED t h r"
      by (auto simp: isInvalidationEvent_def split: payload.splits)
    have "invalidated (e # later) i \<longleftrightarrow>
        i = pe_event_id e \<or> invalidated later i \<or> (t = i \<and> \<not> withdrawn later (pe_event_id e))" for i
      using True p by (auto simp: invalidated_def invalidates_def)
    then show ?thesis unfolding step using fresh by (auto simp: invalidation_step_def p)
  next
    case False
    then have "\<not> invalidates e i" for i
      by (auto simp: invalidates_def isInvalidationEvent_def split: payload.splits)
    then have "invalidated (e # later) i \<longleftrightarrow> invalidated later i" for i
      using False by (auto simp: invalidated_def)
    moreover have "invalidation_step S e = S" for S
      using False by (auto simp: invalidation_step_def isInvalidationEvent_def split: payload.splits)
    ultimately show ?thesis unfolding step by simp
  qed
qed

lemma admissible_replaces:
  assumes "admissible env es e" and "replaces e i"
  shows "i \<noteq> []" and "i \<in> pe_event_id ` set es"
proof -
  from assms(2) obtain h where h: "pe_supersedes e = Some (i, h)" by (auto simp: replaces_def)
  from assms(1) have "pilotEventV3Schema e" and refs: "assertReferencesKnown env es e = Inr ()"
    by (auto simp: admissible_def safe_event_def assertSafeEvent_def)
  then show ne: "i \<noteq> []"
    using h by (auto simp: pilotEventV3Schema_def pilot_identifier_def bounded_length_def)
  show "i \<in> pe_event_id ` set es"
    using refs h ne by (auto simp: assertReferencesKnown_def known_event_def find_Some_iff
        split: option.splits) (metis image_eqI nth_mem set_rev length_rev)
qed

lemma valid_replaces_earlier:
  "valid_log env es \<Longrightarrow> s \<in> set es \<Longrightarrow> replaces s i \<Longrightarrow> i \<noteq> [] \<and> i \<in> pe_event_id ` set es"
  by (induction es rule: rev_induct) (auto dest: admissible_replaces)

lemma supersession_pass:
  "valid_log env es \<Longrightarrow> foldl supersession_step B es =
     B \<union> {i. \<exists>s \<in> set es. pe_event_id s \<notin> B \<and> replaces s i}"
proof (induction es rule: rev_induct)
  case Nil
  then show ?case by simp
next
  case (snoc e es)
  let ?S = "B \<union> {i. \<exists>s \<in> set es. pe_event_id s \<notin> B \<and> replaces s i}"
  from snoc have IH: "foldl supersession_step B es = ?S" and valid: "valid_log env es"
    and adm: "admissible env es e" by simp_all
  have "pe_event_id e \<notin> pe_event_id ` set es" using adm by (simp add: admissible_def)
  then have "pe_event_id e \<in> ?S \<longleftrightarrow> pe_event_id e \<in> B"
    using valid_replaces_earlier [OF valid] by auto
  moreover have "supersession_step ?S e = ?S \<union> {i. pe_event_id e \<notin> ?S \<and> replaces e i}"
    using admissible_replaces(1) [OF adm]
    by (auto simp: supersession_step_def replaces_def split: option.splits)
  ultimately show ?case unfolding foldl_append IH by auto
qed

lemma recheck_valid: "valid_log env es \<Longrightarrow> recheck_references env es = Inr ()"
proof -
  assume v: "valid_log env es"
  have "foldR (\<lambda>_ i. assertReferencesKnown env (take i es) (es ! i)) () is = Inr ()"
    if "set is \<subseteq> {..< length es}" for "is"
    using that by (induction "is") (use v in \<open>auto simp: valid_log_def admissible_def\<close>)
  then show ?thesis by (force simp: recheck_references_def)
qed

lemma replacing_not_invalidation:
  "safe_event s \<Longrightarrow> replaces s i \<Longrightarrow> \<not> isInvalidationEvent s"
  by (auto simp: safe_event_def assertSafeEvent_def pilotEventV3Schema_def replaces_def isInvalidationEvent_def
      split: payload.splits)

lemma inactive_valid:
  assumes v: "valid_log env es"
  shows "inactive_ids es = {i. invalidated es i \<or> (\<exists>s \<in> set es. \<not> withdrawn es (pe_event_id s) \<and> replaces s i)}"
proof -
  have "invalidated es (pe_event_id s) \<longleftrightarrow> withdrawn es (pe_event_id s)" if "s \<in> set es" "replaces s i" for s i
    unfolding invalidated_def
    using that valid_log_same_event [OF v] replacing_not_invalidation valid_log_safe [OF v] by metis
  then show ?thesis
    unfolding inactive_ids_def invalidation_pass [OF valid_log_distinct [OF v]] supersession_pass [OF v] by auto
qed

section \<open>Properties\<close>

text \<open>
  Appending keeps the audit log valid and append-only: after a successful append every event is
  safe, identifiers are distinct, each block's sequence numbers are contiguous from 1 and every
  reference names an earlier event with its content hash; the log is the old one, or the old one
  with the new event at its end.
\<close>
theorem append_keeps_log_valid:
  assumes "appendEvent env frozen es e = Inr es'"
  shows "valid_log env es' \<and> (es' = es @ [e] \<or>
    es' = es \<and> (\<exists>c \<in> set es. pe_event_id c = pe_event_id e \<and> le_canonical env c = le_canonical env e))"
  using append_Inr [OF assms] by auto

text \<open>
  Retrying an append is harmless, reusing an identifier is not: an event admitted to a valid log
  is stored, the same event again leaves the log as it is, and different content under the same
  identifier is refused.
\<close>
theorem append_event_idempotent:
  assumes "valid_log env es" and "admissible env es e"
  shows "appendEvent env frozen es e = Inr (es @ [e]) \<and>
    appendEvent env frozen (es @ [e]) e = Inr (es @ [e]) \<and>
    (\<forall>x. safe_event x \<and> pe_event_id x = pe_event_id e \<and> le_canonical env x \<noteq> le_canonical env e \<longrightarrow>
       (\<exists>err. appendEvent env frozen (es @ [e]) x = Inl err))"
proof -
  have v: "valid_log env (es @ [e])" and e: "safe_event e"
    using assms by (simp_all add: admissible_def)
  note again = append_valid(2) [OF v, of e]
  show ?thesis
    using append_valid(1) [OF assms] again [of e] again e by auto
qed

text \<open>
  C40. The projection of a valid log never fails and equals its declarative meaning: the events that
  are not invalidations, not withdrawn by an invalidation that still stands, and not superseded by an
  event that is not withdrawn, in log order.
\<close>
theorem active_events_meaning:
  assumes "valid_log env es"
  shows "activeEvents env frozen es = Inr (filter (\<lambda>e. \<not> isInvalidationEvent e \<and>
      \<not> withdrawn es (pe_event_id e) \<and>
      \<not> (\<exists>s \<in> set es. \<not> withdrawn es (pe_event_id s) \<and> replaces s (pe_event_id e))) es)"
proof -
  have "pe_event_id e \<notin> inactive_ids es \<longleftrightarrow> \<not> isInvalidationEvent e \<and> \<not> withdrawn es (pe_event_id e) \<and>
      \<not> (\<exists>s \<in> set es. \<not> withdrawn es (pe_event_id s) \<and> replaces s (pe_event_id e))" if "e \<in> set es" for e
    unfolding inactive_valid [OF assms] invalidated_def
    using that valid_log_same_event [OF assms] by auto
  then show ?thesis
    by (simp add: activeEvents_def ownedLog_valid [OF assms] assertValidLog_iff [THEN iffD2, OF assms]
        recheck_valid [OF assms] cong: filter_cong)
qed

end
