(* ===== verification/Pilot_Machine.thy ===== *)
theory Pilot_Machine
  imports Pilot_Store
begin

text \<open>
  The block state machine of the pilot (\<open>src/pilot/state-machine.ts\<close>): the table of transitions and
  their guards (\<open>transition\<close>), and the replay of one block's history (\<open>replayBlock\<close>), whose loop
  also checks what the table cannot see: the chain of revisions, the ownership of attempts, reviews,
  validations and usage, the sessions and the open findings.

  The loop's local variables are the record \<open>replay_state\<close>. Where the source compares event objects
  by identity, the model keeps the event's identifier, unique in a valid log, beside its payload. A step
  that fails carries the findings open at that moment, which the source reports with the reason.
\<close>

section \<open>States and the transition table\<close>

datatype block_state =
    PLANNED | ASSIGNED | READY_1 | EXECUTING_1 | READY_REVIEW_1 | REVIEWING_1 | READY_2 | EXECUTING_2
  | READY_REVIEW_2 | REVIEWING_2 | ESCALATION_REQUIRED | READY_3 | EXECUTING_3 | READY_FINAL_REVIEW
  | FINAL_REVIEWING | READY_ACCEPT | READY_FAIL | ACCEPTED | FAILED | BLOCKED | INVALID

datatype route = ARM pilot_arm | DIRECT_STRONG

datatype event_kind =
    K_BLOCK_PLANNED | K_ARM_ASSIGNED | K_ISOLATION_ATTESTED | K_EXECUTION_STARTED | K_EXECUTION_COMPLETED
  | K_REVIEW_STARTED | K_REVIEW_COMPLETED | K_VALIDATION_RECORDED | K_ORCHESTRATOR_OPERATION_RECORDED
  | K_USAGE_RECORDED | K_PARENT_REWORK_RECORDED | K_BLOCK_ACCEPTED | K_BLOCK_FAILED | K_BLOCK_BLOCKED
  | K_ESCALATION_DECIDED | K_POST_ACCEPT_DEFECT_RECORDED | K_EVENT_INVALIDATED

fun kind_of :: "payload \<Rightarrow> event_kind" where
  "kind_of (BLOCK_PLANNED h) = K_BLOCK_PLANNED"
| "kind_of (ARM_ASSIGNED a v) = K_ARM_ASSIGNED"
| "kind_of (ISOLATION_ATTESTED i) = K_ISOLATION_ATTESTED"
| "kind_of (EXECUTION_STARTED x) = K_EXECUTION_STARTED"
| "kind_of (EXECUTION_COMPLETED x) = K_EXECUTION_COMPLETED"
| "kind_of (REVIEW_STARTED v) = K_REVIEW_STARTED"
| "kind_of (REVIEW_COMPLETED v) = K_REVIEW_COMPLETED"
| "kind_of (VALIDATION_RECORDED l) = K_VALIDATION_RECORDED"
| "kind_of (ORCHESTRATOR_OPERATION_RECORDED q) = K_ORCHESTRATOR_OPERATION_RECORDED"
| "kind_of (USAGE_RECORDED u) = K_USAGE_RECORDED"
| "kind_of (PARENT_REWORK_RECORDED w) = K_PARENT_REWORK_RECORDED"
| "kind_of (BLOCK_ACCEPTED r t a) = K_BLOCK_ACCEPTED"
| "kind_of (BLOCK_FAILED c h) = K_BLOCK_FAILED"
| "kind_of (BLOCK_BLOCKED k c h) = K_BLOCK_BLOCKED"
| "kind_of (ESCALATION_DECIDED e) = K_ESCALATION_DECIDED"
| "kind_of (POST_ACCEPT_DEFECT_RECORDED d) = K_POST_ACCEPT_DEFECT_RECORDED"
| "kind_of (EVENT_INVALIDATED i h r) = K_EVENT_INVALIDATED"

definition terminalStates :: "block_state set" where
  "terminalStates = {ACCEPTED, FAILED, BLOCKED, INVALID}"

datatype row_state = FROM "block_state option" | ANY_NON_TERMINAL
datatype row_target = TO block_state | SAME

record transition_row =
  tw_from :: row_state
  tw_event :: event_kind
  tw_to :: row_target
  tw_decision :: "decision option"
  tw_arms :: "route list option"

definition row :: "block_state option \<Rightarrow> event_kind \<Rightarrow> block_state \<Rightarrow> transition_row" where
  "row f k t = \<lparr>tw_from = FROM f, tw_event = k, tw_to = TO t, tw_decision = None, tw_arms = None\<rparr>"

definition review_row :: "block_state \<Rightarrow> decision \<Rightarrow> block_state \<Rightarrow> transition_row" where
  "review_row f d t = \<lparr>tw_from = FROM (Some f), tw_event = K_REVIEW_COMPLETED, tw_to = TO t,
     tw_decision = Some d, tw_arms = None\<rparr>"

definition same_row :: "event_kind \<Rightarrow> transition_row" where
  "same_row k = \<lparr>tw_from = ANY_NON_TERMINAL, tw_event = k, tw_to = SAME, tw_decision = None, tw_arms = None\<rparr>"

definition transitionRows :: "transition_row list" where
  "transitionRows =
    [row None K_BLOCK_PLANNED PLANNED,
     row (Some PLANNED) K_ARM_ASSIGNED ASSIGNED,
     row (Some ASSIGNED) K_ISOLATION_ATTESTED READY_1,
     (row (Some PLANNED) K_ISOLATION_ATTESTED READY_1)\<lparr>tw_arms := Some [DIRECT_STRONG]\<rparr>,
     row (Some READY_1) K_EXECUTION_STARTED EXECUTING_1,
     row (Some EXECUTING_1) K_EXECUTION_COMPLETED READY_REVIEW_1,
     row (Some READY_REVIEW_1) K_REVIEW_STARTED REVIEWING_1,
     review_row REVIEWING_1 ACCEPT READY_ACCEPT,
     review_row REVIEWING_1 REJECT READY_2,
     row (Some READY_2) K_EXECUTION_STARTED EXECUTING_2,
     row (Some EXECUTING_2) K_EXECUTION_COMPLETED READY_REVIEW_2,
     row (Some READY_REVIEW_2) K_REVIEW_STARTED REVIEWING_2,
     review_row REVIEWING_2 ACCEPT READY_ACCEPT,
     (review_row REVIEWING_2 REJECT ESCALATION_REQUIRED)\<lparr>tw_arms := Some [ARM C_ADAPTIVE_EARLY_ESCALATION]\<rparr>,
     (review_row REVIEWING_2 REJECT READY_3)
       \<lparr>tw_arms := Some [ARM A_STRONG_BASELINE, ARM B_CHEAP_NO_EARLY_ESCALATION, DIRECT_STRONG]\<rparr>,
     (row (Some ESCALATION_REQUIRED) K_ESCALATION_DECIDED READY_3)
       \<lparr>tw_arms := Some [ARM C_ADAPTIVE_EARLY_ESCALATION]\<rparr>,
     row (Some READY_3) K_EXECUTION_STARTED EXECUTING_3,
     row (Some EXECUTING_3) K_EXECUTION_COMPLETED READY_FINAL_REVIEW,
     row (Some READY_FINAL_REVIEW) K_REVIEW_STARTED FINAL_REVIEWING,
     review_row FINAL_REVIEWING ACCEPT READY_ACCEPT,
     review_row FINAL_REVIEWING REJECT READY_FAIL,
     row (Some READY_ACCEPT) K_BLOCK_ACCEPTED ACCEPTED,
     row (Some READY_FAIL) K_BLOCK_FAILED FAILED,
     (same_row K_BLOCK_BLOCKED)\<lparr>tw_to := TO BLOCKED\<rparr>,
     row (Some ACCEPTED) K_POST_ACCEPT_DEFECT_RECORDED ACCEPTED,
     same_row K_ORCHESTRATOR_OPERATION_RECORDED,
     same_row K_USAGE_RECORDED,
     same_row K_VALIDATION_RECORDED,
     same_row K_PARENT_REWORK_RECORDED]"

definition rowMatches :: "transition_row \<Rightarrow> block_state option \<Rightarrow> payload \<Rightarrow> route \<Rightarrow> bool" where
  "rowMatches r st p arm =
     ((case tw_from r of
         ANY_NON_TERMINAL \<Rightarrow> (case st of None \<Rightarrow> False | Some b \<Rightarrow> b \<notin> terminalStates)
       | FROM f \<Rightarrow> f = st) \<and>
      tw_event r = kind_of p \<and>
      (case tw_arms r of None \<Rightarrow> True | Some arms \<Rightarrow> arm \<in> set arms) \<and>
      (case tw_decision r of None \<Rightarrow> True
       | Some d \<Rightarrow> (case p of REVIEW_COMPLETED v \<Rightarrow> vc_decision v = d | _ \<Rightarrow> False)))"

section \<open>Context and guards of one event\<close>

abbreviation pilot_error :: "string \<Rightarrow> error" where
  "pilot_error s \<equiv> Error PILOT_ERROR s"

definition find_block :: "pilot_manifest \<Rightarrow> string \<Rightarrow> manifest_block option" where
  "find_block m b = find (\<lambda>k. bk_block_id k = b) (mf_blocks m)"

definition find_assignment :: "pilot_manifest \<Rightarrow> string \<Rightarrow> arm_assignment option" where
  "find_assignment m b = find (\<lambda>a. aa_block_id a = b) (mf_arm_assignments m)"

definition find_binding :: "pilot_manifest \<Rightarrow> string \<Rightarrow> pilot_binding option" where
  "find_binding m ref = find (\<lambda>b. bd_binding_ref b = ref) (mf_binding_registry m)"

definition identity_differs :: "pilot_event \<Rightarrow> manifest_block \<Rightarrow> bool" where
  "identity_differs e b = (pe_task_id e \<noteq> bk_task_id b \<or> pe_matching_stratum e \<noteq> bk_matching_stratum b \<or>
     pe_pair_or_triplet_id e \<noteq> bk_pair_or_triplet_id b \<or> pe_case_fingerprint e \<noteq> bk_case_fingerprint b)"

definition blockContext :: "pilot_manifest \<Rightarrow> pilot_event \<Rightarrow> (manifest_block \<times> route) result" where
  "blockContext m e =
     throw_if (pe_pilot_id e \<noteq> mf_pilot_id m \<or> pe_manifest_hash e \<noteq> mf_manifest_hash m)
       (pilot_error ''MANIFEST_MISMATCH'')
     (case find_block m (pe_block_id e) of
        None \<Rightarrow> Inl (pilot_error ''UNKNOWN_BLOCK'')
      | Some b \<Rightarrow>
        (case find_assignment m (bk_block_id b) of
           None \<Rightarrow>
             throw_if (bk_comparative_eligible b \<or> pe_pilot_arm e \<noteq> None \<or> bk_capability_initial b \<noteq> STRONG \<or>
                 bk_capability_final_expected b \<noteq> STRONG) (pilot_error ''ARM_MISMATCH'')
             (throw_if (identity_differs e b) (pilot_error ''BLOCK_IDENTITY_MISMATCH'')
             (Inr (b, DIRECT_STRONG)))
         | Some a \<Rightarrow>
             throw_if (pe_pilot_arm e \<noteq> Some (aa_pilot_arm a)) (pilot_error ''ARM_MISMATCH'')
             (throw_if (identity_differs e b) (pilot_error ''BLOCK_IDENTITY_MISMATCH'')
             (Inr (b, ARM (aa_pilot_arm a))))))"

definition routeFor :: "route \<Rightarrow> int \<Rightarrow> capability_class" where
  "routeFor arm attemptNumber =
     (if arm = ARM A_STRONG_BASELINE \<or> arm = DIRECT_STRONG then STRONG
      else if arm = ARM B_CHEAP_NO_EARLY_ESCALATION then CHEAP
      else if attemptNumber = 3 then STRONG else CHEAP)"

definition assertExecutionRoute ::
    "'a execution_started_scheme \<Rightarrow> pilot_manifest \<Rightarrow> route \<Rightarrow> unit result" where
  "assertExecutionRoute x m arm =
     (let expected = routeFor arm (xs_attempt_number x) in
      throw_if (xs_executor_capability x \<noteq> expected) (pilot_error ''CAPABILITY_MISMATCH'')
      (throw_if (map_option bd_capability_class (find_binding m (xs_executor_binding_ref x)) \<noteq> Some expected)
        (pilot_error ''BINDING_MISMATCH'') (Inr ())))"

fun expectedAttempt :: "block_state option \<Rightarrow> (int \<times> attempt_kind) option" where
  "expectedAttempt (Some READY_1) = Some (1, IMPLEMENTATION)"
| "expectedAttempt (Some READY_2) = Some (2, REPAIR_1)"
| "expectedAttempt (Some READY_3) = Some (3, FINAL_EXECUTION)"
| "expectedAttempt _ = None"

fun completionNumber :: "block_state option \<Rightarrow> int" where
  "completionNumber (Some EXECUTING_1) = 1"
| "completionNumber (Some EXECUTING_2) = 2"
| "completionNumber (Some EXECUTING_3) = 3"
| "completionNumber _ = 0"

fun expectedRound :: "block_state option \<Rightarrow> int" where
  "expectedRound (Some READY_REVIEW_1) = 1"
| "expectedRound (Some READY_REVIEW_2) = 2"
| "expectedRound (Some READY_FINAL_REVIEW) = 3"
| "expectedRound _ = 0"

definition validDuration :: "int \<Rightarrow> int \<Rightarrow> int \<Rightarrow> bool" where
  "validDuration started finished duration = (started \<le> finished \<and> duration = finished - started)"

text \<open>What a review boundary hash covers.\<close>

record review_boundary =
  rb_pilot_id :: string
  rb_block_id :: string
  rb_review_id :: string
  rb_reviewed_attempt_id :: string
  rb_from_revision :: string
  rb_to_revision :: string
  rb_input_diff_hash :: string
  rb_unresolved_finding_ids :: "string list"
  rb_validation_evidence_hashes :: "string list"

record machine_env = log_env +
  me_boundary_hash :: "review_boundary \<Rightarrow> string"

definition canonicalBoundary :: "machine_env \<Rightarrow> pilot_event \<Rightarrow> review_completed \<Rightarrow> string" where
  "canonicalBoundary env e v = me_boundary_hash env \<lparr>rb_pilot_id = pe_pilot_id e, rb_block_id = pe_block_id e,
     rb_review_id = vs_review_id v, rb_reviewed_attempt_id = vs_reviewed_attempt_id v,
     rb_from_revision = vc_review_boundary_from_revision v, rb_to_revision = vc_review_boundary_to_revision v,
     rb_input_diff_hash = vc_review_input_diff_hash v, rb_unresolved_finding_ids = vc_unresolved_finding_ids v,
     rb_validation_evidence_hashes = vc_validation_evidence_hashes v\<rparr>"

definition tree_unproven :: "pilot_manifest \<Rightarrow> execution_completed \<Rightarrow> bool" where
  "tree_unproven m x = (xc_canonical_tree_algorithm_version x \<noteq> mf_canonical_tree_algorithm_version m \<or>
     xc_volatile_paths_policy_hash x \<noteq> mf_volatile_paths_policy_hash m \<or> \<not> xc_tree_reproduced x)"

fun assertTransitionGuard ::
    "machine_env \<Rightarrow> block_state option \<Rightarrow> pilot_event \<Rightarrow> pilot_manifest \<Rightarrow> manifest_block \<Rightarrow> route \<Rightarrow>
     payload \<Rightarrow> unit result" where
  "assertTransitionGuard env st e m b arm (BLOCK_PLANNED h) =
     throw_if (h \<noteq> bk_contract_hash b) (pilot_error ''PLANNED_BLOCK_HASH_MISMATCH'') (Inr ())"
| "assertTransitionGuard env st e m b arm (ARM_ASSIGNED a v) =
     throw_if (ARM a \<noteq> arm \<or> v \<noteq> mf_assignment_algorithm_version m) (pilot_error ''ASSIGNMENT_MISMATCH'') (Inr ())"
| "assertTransitionGuard env st e m b arm (ISOLATION_ATTESTED i) =
     throw_if (is_base_revision i \<noteq> bk_base_revision b \<or> is_clean_tree_hash i \<noteq> bk_clean_tree_hash b \<or>
         is_isolation_policy_version i \<noteq> mf_isolation_policy_version m \<or> is_isolation_status i \<noteq> CLEAN \<or>
         is_observed_tree_hash i \<noteq> is_clean_tree_hash i) (pilot_error ''ISOLATION_INVALID'') (Inr ())"
| "assertTransitionGuard env st e m b arm (EXECUTION_STARTED x) =
     throw_if (expectedAttempt st \<noteq> Some (xs_attempt_number x, xs_attempt_kind x))
       (pilot_error ''ATTEMPT_CEILING_OR_ORDER'') (assertExecutionRoute x m arm)"
| "assertTransitionGuard env st e m b arm (EXECUTION_COMPLETED x) =
     throw_if (xs_attempt_number x \<noteq> completionNumber st) (pilot_error ''COMPLETION_ORDER_INVALID'')
     (bindR (assertExecutionRoute x m arm) (\<lambda>_.
      throw_if (\<not> validDuration (xs_started_monotonic_ms x) (xc_finished_monotonic_ms x) (xc_duration_ms x))
        (pilot_error ''EXECUTION_DURATION_INVALID'')
      (throw_if (tree_unproven m x) (pilot_error ''TREE_REPRODUCTION_INVALID'') (Inr ()))))"
| "assertTransitionGuard env st e m b arm (REVIEW_STARTED v) =
     throw_if (vs_review_round v \<noteq> expectedRound st) (pilot_error ''REVIEW_ORDER_INVALID'')
     (throw_if (vs_reviewer_binding_ref v \<noteq> mf_routing_reviewer_binding_ref m \<or>
         vs_reviewer_session_id v = vs_executor_session_id_reviewed v)
       (pilot_error ''REVIEWER_INDEPENDENCE_INVALID'') (Inr ()))"
| "assertTransitionGuard env st e m b arm (REVIEW_COMPLETED v) =
     throw_if (\<not> validDuration (vs_started_monotonic_ms v) (vc_finished_monotonic_ms v) (vc_duration_ms v) \<or>
         vc_review_boundary_hash v \<noteq> canonicalBoundary env e v) (pilot_error ''REVIEW_PROOF_INVALID'')
     (throw_if (vc_decision v = ACCEPT \<and> vc_unresolved_finding_ids v \<noteq> []) (pilot_error ''UNRESOLVED_ACCEPTANCE'')
     (throw_if (vc_decision v = REJECT \<and> vc_unresolved_finding_ids v = [] \<and> vc_material_findings v = [] \<and>
         vc_non_material_findings v = []) (pilot_error ''EMPTY_REJECTION'') (Inr ())))"
| "assertTransitionGuard env st e m b arm (ESCALATION_DECIDED x) =
     throw_if (map_option bd_capability_class (find_binding m (es_target_binding_ref x)) \<noteq> Some STRONG \<or>
         es_decision_policy_version x \<noteq> mf_routing_policy_version m) (pilot_error ''ESCALATION_INVALID'') (Inr ())"
| "assertTransitionGuard env st e m b arm _ = Inr ()"

definition transitionChecked ::
    "machine_env \<Rightarrow> block_state option \<Rightarrow> pilot_event \<Rightarrow> pilot_manifest \<Rightarrow> block_state result" where
  "transitionChecked env st e m =
     throw_if (isInvalidationEvent e) (pilot_error ''INVALIDATION_NOT_PROJECTED'')
     (bindR (blockContext m e) (\<lambda>(b, arm).
      case find (\<lambda>r. rowMatches r st (pe_payload e) arm) transitionRows of
        None \<Rightarrow> Inl (pilot_error (if st \<noteq> None \<and> the st \<in> terminalStates then ''CONFLICTING_TERMINAL''
          else ''ILLEGAL_EVENT_STATE_PAIR''))
      | Some r \<Rightarrow>
          bindR (assertTransitionGuard env st e m b arm (pe_payload e)) (\<lambda>_.
          case tw_to r of
            SAME \<Rightarrow> (case st of None \<Rightarrow> Inl (pilot_error ''ORPHAN_EVIDENCE'') | Some s \<Rightarrow> Inr s)
          | TO t \<Rightarrow> Inr t)))"

definition transition :: "machine_env \<Rightarrow> block_state option \<Rightarrow> pilot_event \<Rightarrow> pilot_manifest \<Rightarrow> block_state" where
  "transition env st e m = (case transitionChecked env st e m of Inl _ \<Rightarrow> INVALID | Inr s \<Rightarrow> s)"

section \<open>What one transition may do\<close>

lemma find_row:
  assumes "find P xs = Some r"
  shows "r \<in> set xs" and "P r"
  using assms by (auto simp: find_Some_iff)

lemma transitionChecked_Inr:
  assumes "transitionChecked env st e m = Inr st'"
  obtains b arm r where "blockContext m e = Inr (b, arm)" "r \<in> set transitionRows"
    "rowMatches r st (pe_payload e) arm" "assertTransitionGuard env st e m b arm (pe_payload e) = Inr ()"
    "tw_to r = SAME \<and> st = Some st' \<or> tw_to r = TO st'"
proof -
  from assms obtain b arm r where ctx: "blockContext m e = Inr (b, arm)"
    and f: "find (\<lambda>r. rowMatches r st (pe_payload e) arm) transitionRows = Some r"
    and g: "assertTransitionGuard env st e m b arm (pe_payload e) = Inr ()"
    and t: "(case tw_to r of SAME \<Rightarrow> (case st of None \<Rightarrow> Inl (pilot_error ''ORPHAN_EVIDENCE'') | Some s \<Rightarrow> Inr s)
          | TO t \<Rightarrow> Inr t) = Inr st'"
    by (auto simp: transitionChecked_def split: option.splits)
  show thesis
    by (rule that [OF ctx find_row(1) [OF f] find_row(2) [OF f] g])
      (use t in \<open>auto split: row_target.splits option.splits\<close>)
qed

lemmas row_simps = row_def review_row_def same_row_def rowMatches_def

text \<open>The states of the table in the order a block passes them.\<close>

fun stage :: "block_state option \<Rightarrow> nat" where
  "stage None = 0"
| "stage (Some PLANNED) = 1"
| "stage (Some ASSIGNED) = 2"
| "stage (Some READY_1) = 3"
| "stage (Some EXECUTING_1) = 4"
| "stage (Some READY_REVIEW_1) = 5"
| "stage (Some REVIEWING_1) = 6"
| "stage (Some READY_2) = 7"
| "stage (Some EXECUTING_2) = 8"
| "stage (Some READY_REVIEW_2) = 9"
| "stage (Some REVIEWING_2) = 10"
| "stage (Some ESCALATION_REQUIRED) = 11"
| "stage (Some READY_3) = 12"
| "stage (Some EXECUTING_3) = 13"
| "stage (Some READY_FINAL_REVIEW) = 14"
| "stage (Some FINAL_REVIEWING) = 15"
| "stage (Some READY_ACCEPT) = 16"
| "stage (Some READY_FAIL) = 16"
| "stage (Some ACCEPTED) = 17"
| "stage (Some FAILED) = 17"
| "stage (Some BLOCKED) = 17"
| "stage (Some INVALID) = 17"

text \<open>How many executions a block has started when it reaches a state, at most.\<close>

definition starts :: "block_state option \<Rightarrow> nat" where
  "starts st = (if stage st < 4 then 0 else if stage st < 8 then 1 else if stage st < 13 then 2 else 3)"

definition evidence_kinds :: "event_kind set" where
  "evidence_kinds = {K_ORCHESTRATOR_OPERATION_RECORDED, K_USAGE_RECORDED, K_VALIDATION_RECORDED,
     K_PARENT_REWORK_RECORDED, K_POST_ACCEPT_DEFECT_RECORDED}"

lemma row_progress:
  assumes "r \<in> set transitionRows" and "rowMatches r st p arm"
    and "tw_to r = SAME \<and> st = Some st' \<or> tw_to r = TO st'"
  shows "if kind_of p \<in> evidence_kinds then st = Some st'
     else stage st < stage (Some st') \<and>
       starts st + (if kind_of p = K_EXECUTION_STARTED then 1 else 0) \<le> starts (Some st')"
proof -
  have blocked: "stage (Some b) < 17" if "b \<notin> terminalStates" for b
    using that by (cases b) (simp_all add: terminalStates_def)
  have starts3: "starts st \<le> 3" by (simp add: starts_def)
  show ?thesis
    using assms
    by (simp add: transitionRows_def row_simps evidence_kinds_def)
      (elim disjE; clarsimp simp: starts_def split: option.splits if_splits dest!: blocked)
qed

lemma transition_progress:
  assumes "transitionChecked env st e m = Inr st'"
  shows "if kind_of (pe_payload e) \<in> evidence_kinds then st = Some st'
     else stage st < stage (Some st') \<and>
       starts st + (if kind_of (pe_payload e) = K_EXECUTION_STARTED then 1 else 0) \<le> starts (Some st')"
  using assms by (rule transitionChecked_Inr) (rule row_progress)

text \<open>The table by event kind.\<close>

definition reviewing :: "block_state set" where
  "reviewing = {REVIEWING_1, REVIEWING_2, FINAL_REVIEWING}"

definition table_step :: "block_state option \<Rightarrow> payload \<Rightarrow> block_state \<Rightarrow> bool" where
  "table_step st p st' =
     (if kind_of p \<in> evidence_kinds then st = Some st'
      else (case p of
         EXECUTION_STARTED x \<Rightarrow> st \<in> {Some READY_1, Some READY_2, Some READY_3} \<and>
           st' \<in> {EXECUTING_1, EXECUTING_2, EXECUTING_3}
       | EXECUTION_COMPLETED x \<Rightarrow> st \<in> {Some EXECUTING_1, Some EXECUTING_2, Some EXECUTING_3} \<and>
           st' \<in> {READY_REVIEW_1, READY_REVIEW_2, READY_FINAL_REVIEW}
       | REVIEW_STARTED v \<Rightarrow> st \<in> {Some READY_REVIEW_1, Some READY_REVIEW_2, Some READY_FINAL_REVIEW} \<and> st' \<in> reviewing
       | REVIEW_COMPLETED v \<Rightarrow> st \<in> Some ` reviewing \<and>
           (if vc_decision v = ACCEPT then st' = READY_ACCEPT
            else st' \<in> {READY_2, ESCALATION_REQUIRED, READY_3, READY_FAIL})
       | BLOCK_ACCEPTED r t a \<Rightarrow> st = Some READY_ACCEPT \<and> st' = ACCEPTED
       | BLOCK_FAILED c h \<Rightarrow> st = Some READY_FAIL \<and> st' = FAILED
       | BLOCK_BLOCKED k c h \<Rightarrow> (\<exists>b. st = Some b \<and> b \<notin> terminalStates) \<and> st' = BLOCKED
       | _ \<Rightarrow> st \<in> {None, Some PLANNED, Some ASSIGNED, Some ESCALATION_REQUIRED} \<and>
           st' \<in> {PLANNED, ASSIGNED, READY_1, READY_3}))"

lemma row_table:
  assumes "r \<in> set transitionRows" and "rowMatches r st p arm"
    and "tw_to r = SAME \<and> st = Some st' \<or> tw_to r = TO st'"
  shows "table_step st p st'"
  using assms
  by (cases p; simp add: transitionRows_def row_simps table_step_def evidence_kinds_def)
    (elim disjE; clarsimp simp: reviewing_def split: option.splits)+

lemma transition_table:
  assumes "transitionChecked env st e m = Inr st'"
  shows "table_step st (pe_payload e) st'"
  using assms by (rule transitionChecked_Inr) (rule row_table)

text \<open>No row leads to \<open>INVALID\<close>; a terminal state only takes the evidence about an accepted block.\<close>

lemma transition_not_INVALID: "transitionChecked env st e m = Inr st' \<Longrightarrow> st \<noteq> Some INVALID \<Longrightarrow> st' \<noteq> INVALID"
  by (drule transition_table) (auto simp: table_step_def reviewing_def split: if_splits payload.splits)

lemma transition_terminal:
  assumes "transitionChecked env (Some st) e m = Inr st'" and "st \<in> terminalStates"
  shows "st = ACCEPTED \<and> st' = ACCEPTED \<and> kind_of (pe_payload e) = K_POST_ACCEPT_DEFECT_RECORDED"
  using assms(1)
proof (rule transitionChecked_Inr)
  fix b arm r
  assume "r \<in> set transitionRows" "rowMatches r (Some st) (pe_payload e) arm"
    "tw_to r = SAME \<and> Some st = Some st' \<or> tw_to r = TO st'"
  with assms(2) show ?thesis
    by (simp add: transitionRows_def row_simps) (elim disjE; clarsimp simp: terminalStates_def)
qed

lemma transition_guard:
  assumes "transitionChecked env st e m = Inr st'"
  shows "\<exists>b arm. blockContext m e = Inr (b, arm) \<and> assertTransitionGuard env st e m b arm (pe_payload e) = Inr ()"
  using assms by (rule transitionChecked_Inr) blast

end
