(* ===== verification/Pilot_Replay.thy ===== *)
theory Pilot_Replay
  imports Pilot_Machine
begin

text \<open>
  The replay of one block (\<open>replayBlock\<close> in \<open>src/pilot/state-machine.ts\<close>). Its loop keeps the record
  \<open>replay_state\<close>; \<open>own_event\<close> is the body of the loop before the transition, with one definition per
  event type, and \<open>replay_step\<close> the whole body. Where the source compares event objects by identity, the
  model keeps the event's identifier beside its payload. A step that fails also carries the findings
  that are open at that moment, which the source reports with the reason.
\<close>

section \<open>Contractual timestamps\<close>

definition utc_fields :: "string \<Rightarrow> nat list option" where
  "utc_fields s = (case template_digits ''dddd-dd-ddTdd:dd:ddZ'' s of
      Some ds \<Rightarrow> Some (iso_fields (ds @ [0, 0, 0]))
    | None \<Rightarrow> map_option iso_fields (template_digits ''dddd-dd-ddTdd:dd:dd.dddZ'' s))"

definition fields_in_range :: "nat list \<Rightarrow> bool" where
  "fields_in_range fs = (1 \<le> fs ! 1 \<and> fs ! 1 \<le> 12 \<and> 1 \<le> fs ! 2 \<and> fs ! 2 \<le> 31 \<and> fs ! 3 \<le> 23 \<and>
     fs ! 4 \<le> 59 \<and> fs ! 5 \<le> 59 \<and> fs ! 6 \<le> 999)"

definition fields_of_time :: "int \<Rightarrow> int list" where
  "fields_of_time t = (let n = t div ms_per_day in
     [year_from_day n, month_from_day n + 1, date_from_day n, hours_of t, minutes_of t, seconds_of t, millis_of t])"

definition parseContractualUtc :: "string \<Rightarrow> int result" where
  "parseContractualUtc s =
     (case utc_fields s of
        None \<Rightarrow> Inl (pilot_error ''INVALID_OCCURRED_AT'')
      | Some fs \<Rightarrow>
          throw_if (\<not> fields_in_range fs) (pilot_error ''INVALID_OCCURRED_AT'')
          (let instant = time_of_fields 1 fs in
           throw_if (\<not> finite_time instant \<or> fields_of_time instant \<noteq> map int fs)
             (pilot_error ''INVALID_OCCURRED_AT'') (Inr instant)))"

section \<open>The state of the loop\<close>

record attempt_entry =
  ae_started :: execution_started
  ae_completed :: "(string \<times> execution_completed) option"
  ae_review_started :: bool

record review_entry =
  ve_started :: review_started
  ve_completed :: "review_completed option"
  ve_window_open :: bool

record replay_state =
  rp_index :: int
  rp_state :: "block_state option"
  rp_previousOccurredAt :: "int option"
  rp_currentAttempt :: "execution_started option"
  rp_currentCompletion :: "(string \<times> execution_completed) option"
  rp_currentReview :: "review_started option"
  rp_previousReview :: "review_completed option"
  rp_acceptedReview :: "review_completed option"
  rp_acceptedCompletion :: "execution_completed option"
  rp_rejectedReviewEventId :: "string option"
  rp_escalationTargetBinding :: "string option"
  rp_attempts :: "string \<rightharpoonup> attempt_entry"
  rp_reviews :: "string \<rightharpoonup> review_entry"
  rp_validations :: "string \<rightharpoonup> validation_recorded list"
  rp_operations :: "string \<rightharpoonup> string \<times> operation_recorded"
  rp_openOperation :: "(string \<times> operation_recorded) option"
  rp_executorSessions :: "string set"
  rp_reviewerSessions :: "string set"
  rp_unresolved :: "string list"

definition replay_start :: replay_state where
  "replay_start = \<lparr>rp_index = 0, rp_state = None, rp_previousOccurredAt = None, rp_currentAttempt = None,
     rp_currentCompletion = None, rp_currentReview = None, rp_previousReview = None, rp_acceptedReview = None,
     rp_acceptedCompletion = None, rp_rejectedReviewEventId = None, rp_escalationTargetBinding = None,
     rp_attempts = (\<lambda>_. None), rp_reviews = (\<lambda>_. None), rp_validations = (\<lambda>_. None),
     rp_operations = (\<lambda>_. None), rp_openOperation = None, rp_executorSessions = {},
     rp_reviewerSessions = {}, rp_unresolved = []\<rparr>"

definition completion_of :: "replay_state \<Rightarrow> string \<Rightarrow> execution_completed option" where
  "completion_of s a = (case rp_attempts s a of None \<Rightarrow> None | Some t \<Rightarrow> map_option snd (ae_completed t))"

definition sameStrings :: "string list \<Rightarrow> string list \<Rightarrow> bool" where
  "sameStrings l r = (length l = length r \<and> sort_strings l = sort_strings r)"

section \<open>The body of the loop, by event type\<close>

definition close_windows :: "(string \<rightharpoonup> review_entry) \<Rightarrow> (string \<rightharpoonup> review_entry)" where
  "close_windows m = (\<lambda>k. map_option (\<lambda>r. r\<lparr>ve_window_open := False\<rparr>) (m k))"

definition closes_windows :: "event_kind \<Rightarrow> bool" where
  "closes_windows k = (k \<in> {K_EXECUTION_STARTED, K_ESCALATION_DECIDED, K_BLOCK_ACCEPTED, K_BLOCK_FAILED, K_BLOCK_BLOCKED})"

definition own_isolation :: "isolation_attested \<Rightarrow> replay_state \<Rightarrow> replay_state result" where
  "own_isolation i s =
     throw_if (is_isolation_status i = CONTAMINATED \<or> is_observed_tree_hash i \<noteq> is_clean_tree_hash i)
       (pilot_error ''WORKSPACE_CONTAMINATED'') (Inr s)"

definition expected_input :: "manifest_block \<Rightarrow> replay_state \<Rightarrow> int \<Rightarrow> string option" where
  "expected_input b s n = (if n = 1 then Some (bk_base_revision b)
     else map_option vc_review_boundary_to_revision (rp_previousReview s))"

definition own_execution_started ::
    "manifest_block \<Rightarrow> route \<Rightarrow> execution_started \<Rightarrow> replay_state \<Rightarrow> replay_state result" where
  "own_execution_started b arm x s =
     throw_if (rp_attempts s (xs_attempt_id x) \<noteq> None \<or> 3 < xs_attempt_number x)
       (pilot_error ''ATTEMPT_ID_OR_CEILING_INVALID'')
     (throw_if (expected_input b s (xs_attempt_number x) \<notin> {Some (xs_input_revision x)} - {Some []})
       (pilot_error ''INPUT_REVISION_CHAIN_INVALID'')
     (throw_if (xs_executor_session_id x \<in> rp_executorSessions s \<or> xs_executor_session_id x \<in> rp_reviewerSessions s)
       (pilot_error ''EXECUTOR_SESSION_REUSED'')
     (throw_if (arm = ARM C_ADAPTIVE_EARLY_ESCALATION \<and> xs_attempt_number x = 3 \<and>
         Some (xs_executor_binding_ref x) \<noteq> rp_escalationTargetBinding s)
       (pilot_error ''ESCALATION_TARGET_BINDING_MISMATCH'')
     (Inr (s\<lparr>rp_executorSessions := insert (xs_executor_session_id x) (rp_executorSessions s),
        rp_currentAttempt := Some x, rp_currentCompletion := None,
        rp_attempts := (rp_attempts s)(xs_attempt_id x \<mapsto>
          \<lparr>ae_started = x, ae_completed = None, ae_review_started = False\<rparr>)\<rparr>)))))"

definition own_execution_completed ::
    "pilot_manifest \<Rightarrow> string \<Rightarrow> execution_completed \<Rightarrow> replay_state \<Rightarrow> replay_state result" where
  "own_execution_completed m eid x s =
     (case rp_currentAttempt s of
        None \<Rightarrow> Inl (pilot_error ''COMPLETION_ATTEMPT_MISMATCH'')
      | Some cur \<Rightarrow>
          throw_if (xs_attempt_id cur \<noteq> xs_attempt_id x) (pilot_error ''COMPLETION_ATTEMPT_MISMATCH'')
          (throw_if (cur \<noteq> execution_started.truncate x) (pilot_error ''COMPLETION_OWNERSHIP_MISMATCH'')
          (throw_if (tree_unproven m x) (pilot_error ''TREE_REPRODUCTION_INVALID'')
          (case rp_attempts s (xs_attempt_id x) of
             None \<Rightarrow> Inl (Error TYPE_ERROR ''attempt is undefined'')
           | Some t \<Rightarrow> Inr (s\<lparr>rp_attempts := (rp_attempts s)(xs_attempt_id x \<mapsto> t\<lparr>ae_completed := Some (eid, x)\<rparr>),
               rp_currentCompletion := Some (eid, x)\<rparr>)))))"

definition own_validation ::
    "manifest_block \<Rightarrow> validation_recorded \<Rightarrow> replay_state \<Rightarrow> replay_state result" where
  "own_validation b l s =
     throw_if (completion_of s (vl_attempt_id l) = None \<or>
         (case rp_attempts s (vl_attempt_id l) of None \<Rightarrow> False | Some t \<Rightarrow> ae_review_started t))
       (pilot_error ''ORPHAN_OR_MISORDERED_VALIDATION'')
     (throw_if (list_ex (\<lambda>f. f \<notin> set (bk_validation_surface b)) (vl_validation_surface l))
       (pilot_error ''VALIDATION_SURFACE_INVALID'')
     (throw_if (vl_passed l \<noteq> (vl_tests_failing l = 0)) (pilot_error ''VALIDATION_TEST_COUNTS_INCONSISTENT'')
     (Inr (s\<lparr>rp_validations := (rp_validations s)(vl_attempt_id l \<mapsto>
        (case rp_validations s (vl_attempt_id l) of None \<Rightarrow> [] | Some ls \<Rightarrow> ls) @ [l])\<rparr>))))"

definition own_review_started :: "review_started \<Rightarrow> replay_state \<Rightarrow> replay_state result" where
  "own_review_started v s =
     (case rp_attempts s (vs_reviewed_attempt_id v) of
        None \<Rightarrow> Inl (pilot_error ''REVIEW_ATTEMPT_REFERENCE_INVALID'')
      | Some t \<Rightarrow>
          throw_if (case ae_completed t of None \<Rightarrow> True | Some (i, x) \<Rightarrow>
              Some (i, x) \<noteq> rp_currentCompletion s \<or> vs_executor_session_id_reviewed v \<noteq> xs_executor_session_id x)
            (pilot_error ''REVIEW_ATTEMPT_REFERENCE_INVALID'')
          (throw_if (rp_reviews s (vs_review_id v) \<noteq> None \<or> vs_reviewer_session_id v \<in> rp_executorSessions s \<or>
              vs_reviewer_session_id v \<in> rp_reviewerSessions s)
            (pilot_error ''REVIEW_SESSION_OR_ID_INVALID'')
          (Inr (s\<lparr>rp_attempts := (rp_attempts s)(vs_reviewed_attempt_id v \<mapsto> t\<lparr>ae_review_started := True\<rparr>),
             rp_reviewerSessions := insert (vs_reviewer_session_id v) (rp_reviewerSessions s),
             rp_currentReview := Some v,
             rp_reviews := (rp_reviews s)(vs_review_id v \<mapsto>
               \<lparr>ve_started = v, ve_completed = None, ve_window_open = False\<rparr>)\<rparr>))))"

text \<open>\<open>nextUnresolved\<close>: an insertion-ordered set of finding identifiers.\<close>

definition finding_step :: "string list \<Rightarrow> finding \<Rightarrow> string list result" where
  "finding_step open_ids f =
     throw_if (\<not> fd_material f) (pilot_error ''MATERIAL_FINDING_FLAG_INVALID'')
     (if fd_status f = OPEN
      then Inr (if fd_finding_id f \<in> set open_ids then open_ids else open_ids @ [fd_finding_id f])
      else throw_if (fd_finding_id f \<notin> set open_ids) (pilot_error ''ORPHAN_FINDING_RESOLUTION'')
        (Inr (removeAll (fd_finding_id f) open_ids)))"

definition boundary_chain_broken :: "manifest_block \<Rightarrow> replay_state \<Rightarrow> review_completed \<Rightarrow> execution_completed \<Rightarrow> bool" where
  "boundary_chain_broken b s v x =
     (Some (vc_review_boundary_from_revision v) \<noteq>
        (if vs_review_round v = 1 then Some (bk_base_revision b)
         else map_option vc_review_boundary_to_revision (rp_previousReview s)) \<or>
      vc_review_boundary_to_revision v \<noteq> xc_output_revision x \<or>
      (if vs_review_round v = 1 then vc_previous_review_boundary_hash v \<noteq> None
       else (case rp_previousReview s of None \<Rightarrow> True
             | Some r \<Rightarrow> vc_previous_review_boundary_hash v \<noteq> Some (vc_review_boundary_hash r))))"

definition validation_hashes :: "replay_state \<Rightarrow> string \<Rightarrow> string list" where
  "validation_hashes s a = concat (map vl_evidence_hashes (case rp_validations s a of None \<Rightarrow> [] | Some ls \<Rightarrow> ls))"

definition record_review ::
    "string \<Rightarrow> review_completed \<Rightarrow> execution_completed \<Rightarrow> string list \<Rightarrow> review_entry \<Rightarrow> replay_state \<Rightarrow> replay_state" where
  "record_review eid v x open_ids r s =
     (let s' = s\<lparr>rp_unresolved := open_ids,
            rp_reviews := (rp_reviews s)(vs_review_id v \<mapsto> r\<lparr>ve_completed := Some v, ve_window_open := True\<rparr>),
            rp_previousReview := Some v, rp_currentReview := None\<rparr>
      in if vc_decision v = REJECT then s'\<lparr>rp_rejectedReviewEventId := Some eid\<rparr>
         else s'\<lparr>rp_acceptedReview := Some v, rp_acceptedCompletion := Some x\<rparr>)"

definition own_review_completed ::
    "manifest_block \<Rightarrow> string \<Rightarrow> review_completed \<Rightarrow> replay_state \<Rightarrow> replay_state result" where
  "own_review_completed b eid v s =
     (case rp_currentReview s of
        None \<Rightarrow> Inl (pilot_error ''REVIEW_COMPLETION_OWNER_INVALID'')
      | Some cur \<Rightarrow>
          throw_if (vs_review_id cur \<noteq> vs_review_id v) (pilot_error ''REVIEW_COMPLETION_OWNER_INVALID'')
          (throw_if (cur \<noteq> review_started.truncate v) (pilot_error ''REVIEW_COMPLETION_OWNERSHIP_MISMATCH'')
          (case completion_of s (vs_reviewed_attempt_id v) of
             None \<Rightarrow> Inl (pilot_error ''ORPHAN_REVIEW'')
           | Some x \<Rightarrow>
               throw_if (boundary_chain_broken b s v x) (pilot_error ''REVIEW_BOUNDARY_CHAIN_INVALID'')
               (throw_if (\<not> sameStrings (vc_validation_evidence_hashes v) (validation_hashes s (vs_reviewed_attempt_id v)))
                 (pilot_error ''VALIDATION_EVIDENCE_MISMATCH'')
               (bindR (foldR finding_step (rp_unresolved s) (vc_material_findings v)) (\<lambda>open_ids.
                throw_if (list_ex fd_material (vc_non_material_findings v))
                  (pilot_error ''NON_MATERIAL_FINDING_FLAG_INVALID'')
                (throw_if (\<not> sameStrings (vc_unresolved_finding_ids v) open_ids)
                  (pilot_error ''UNRESOLVED_FINDING_RETENTION_INVALID'')
                (case rp_reviews s (vs_review_id v) of
                   None \<Rightarrow> Inl (Error TYPE_ERROR ''review is undefined'')
                 | Some r \<Rightarrow> Inr (record_review eid v x open_ids r s)))))))))"

definition own_operation ::
    "pilot_manifest \<Rightarrow> string \<Rightarrow> operation_recorded \<Rightarrow> replay_state \<Rightarrow> replay_state result" where
  "own_operation m eid q s =
     throw_if (rp_operations s (op_orchestrator_operation_id q) \<noteq> None)
       (pilot_error ''ORCHESTRATOR_OPERATION_ID_REUSED'')
     (throw_if (\<not> list_ex (\<lambda>b. bd_binding_ref b = op_binding_ref q) (mf_binding_registry m))
       (pilot_error ''ORCHESTRATOR_OPERATION_BINDING_INVALID'')
     (Inr (s\<lparr>rp_operations := (rp_operations s)(op_orchestrator_operation_id q \<mapsto> (eid, q)),
        rp_openOperation := Some (eid, q)\<rparr>)))"

definition usage_of_operation :: "usage_recorded \<Rightarrow> replay_state \<Rightarrow> replay_state result" where
  "usage_of_operation u s =
     (case us_orchestrator_operation_id u of
        Some o1 \<Rightarrow>
          (case rp_operations s o1 of
             None \<Rightarrow> Inl (pilot_error ''ORPHAN_OR_MISORDERED_USAGE_ORCHESTRATOR_OPERATION'')
           | Some (i, q) \<Rightarrow>
               throw_if (Some (i, q) \<noteq> rp_openOperation s)
                 (pilot_error ''ORPHAN_OR_MISORDERED_USAGE_ORCHESTRATOR_OPERATION'')
               (throw_if (us_role u \<noteq> ORCHESTRATOR \<or> us_binding_ref u \<noteq> op_binding_ref q \<or>
                   us_attempt_number u \<noteq> op_attempt_number q)
                 (pilot_error ''ORCHESTRATOR_USAGE_OWNERSHIP_MISMATCH'') (Inr s)))
      | None \<Rightarrow>
          throw_if (us_role u = ORCHESTRATOR) (pilot_error ''ORCHESTRATOR_USAGE_OWNER_INVALID'')
          (Inr (s\<lparr>rp_openOperation := None\<rparr>)))"

definition usage_of_attempt :: "usage_recorded \<Rightarrow> replay_state \<Rightarrow> replay_state result" where
  "usage_of_attempt u s =
     (case us_attempt_id u of
        None \<Rightarrow> Inr s
      | Some a \<Rightarrow>
          (case rp_attempts s a of
             None \<Rightarrow> Inl (pilot_error ''ORPHAN_OR_MISORDERED_USAGE_ATTEMPT'')
           | Some t \<Rightarrow>
               (case ae_completed t of
                  None \<Rightarrow> Inl (pilot_error ''ORPHAN_OR_MISORDERED_USAGE_ATTEMPT'')
                | Some (i, x) \<Rightarrow>
                    throw_if (ae_review_started t) (pilot_error ''ORPHAN_OR_MISORDERED_USAGE_ATTEMPT'')
                    (throw_if (us_role u \<noteq> EXECUTOR \<or> us_binding_ref u \<noteq> xs_executor_binding_ref x \<or>
                        us_attempt_number u \<noteq> xs_attempt_number x)
                      (pilot_error ''ATTEMPT_USAGE_OWNERSHIP_MISMATCH'') (Inr s)))))"

definition usage_of_review :: "usage_recorded \<Rightarrow> replay_state \<Rightarrow> replay_state result" where
  "usage_of_review u s =
     (case us_review_id u of
        None \<Rightarrow> Inr s
      | Some i \<Rightarrow>
          (case rp_reviews s i of
             None \<Rightarrow> Inl (pilot_error ''ORPHAN_OR_MISORDERED_USAGE_REVIEW'')
           | Some r \<Rightarrow>
               (case ve_completed r of
                  None \<Rightarrow> Inl (pilot_error ''ORPHAN_OR_MISORDERED_USAGE_REVIEW'')
                | Some v \<Rightarrow>
                    throw_if (\<not> ve_window_open r) (pilot_error ''ORPHAN_OR_MISORDERED_USAGE_REVIEW'')
                    (throw_if (us_role u \<noteq> REVIEWER \<or> us_binding_ref u \<noteq> vs_reviewer_binding_ref v \<or>
                        us_attempt_number u \<noteq> vs_review_round v)
                      (pilot_error ''REVIEW_USAGE_OWNERSHIP_MISMATCH'') (Inr s)))))"

definition own_usage :: "pilot_manifest \<Rightarrow> usage_recorded \<Rightarrow> replay_state \<Rightarrow> replay_state result" where
  "own_usage m u s =
     throw_if (find_binding m (us_binding_ref u) = None \<or>
         us_pricing_snapshot_id u \<noteq> ps_pricing_snapshot_id (mf_pricing_snapshot m) \<or>
         us_currency u \<noteq> ps_currency (mf_pricing_snapshot m)) (pilot_error ''USAGE_POLICY_INVALID'')
     (bindR (usage_of_operation u s) (\<lambda>s1.
      bindR (usage_of_attempt u s1) (\<lambda>s2. usage_of_review u s2)))"

definition own_rework :: "rework_recorded \<Rightarrow> replay_state \<Rightarrow> replay_state result" where
  "own_rework w s =
     (case rp_reviews s (rw_review_id w) of
        None \<Rightarrow> Inl (pilot_error ''ORPHAN_OR_MISORDERED_REWORK'')
      | Some r \<Rightarrow>
          (case (ve_completed r, completion_of s (rw_attempt_id w)) of
             (Some v, Some x) \<Rightarrow>
               throw_if (\<not> ve_window_open r \<or> vs_reviewed_attempt_id v \<noteq> xs_attempt_id x)
                 (pilot_error ''ORPHAN_OR_MISORDERED_REWORK'') (Inr s)
           | _ \<Rightarrow> Inl (pilot_error ''ORPHAN_OR_MISORDERED_REWORK'')))"

definition own_escalation :: "escalation_decided \<Rightarrow> replay_state \<Rightarrow> replay_state result" where
  "own_escalation x s =
     throw_if (rp_rejectedReviewEventId s \<notin> {Some (es_rejected_review_event_id x)} - {Some []})
       (pilot_error ''ESCALATION_REVIEW_REFERENCE_INVALID'')
     (Inr (s\<lparr>rp_escalationTargetBinding := Some (es_target_binding_ref x)\<rparr>))"

definition own_acceptance :: "string \<Rightarrow> string \<Rightarrow> replay_state \<Rightarrow> replay_state result" where
  "own_acceptance revision tree s =
     (case (rp_acceptedReview s, rp_acceptedCompletion s) of
        (Some v, Some x) \<Rightarrow>
          throw_if (revision \<noteq> vc_review_boundary_to_revision v \<or> revision \<noteq> xc_output_revision x \<or> tree \<noteq> xc_output_tree_hash x)
            (pilot_error ''ACCEPTED_REVISION_TREE_INVALID'') (Inr s)
      | _ \<Rightarrow> Inl (pilot_error ''ACCEPTED_REVISION_TREE_INVALID''))"

definition own_defect :: "defect_recorded \<Rightarrow> replay_state \<Rightarrow> replay_state result" where
  "own_defect d s =
     (case rp_acceptedReview s of
        None \<Rightarrow> Inl (pilot_error ''DEFECT_ACCEPTANCE_REFERENCE_INVALID'')
      | Some v \<Rightarrow>
          throw_if (df_accepted_review_id d \<noteq> vs_review_id v \<or>
              df_affected_revision d \<noteq> vc_review_boundary_to_revision v)
            (pilot_error ''DEFECT_ACCEPTANCE_REFERENCE_INVALID'') (Inr s))"

fun own_payload ::
    "pilot_manifest \<Rightarrow> manifest_block \<Rightarrow> route \<Rightarrow> string \<Rightarrow> payload \<Rightarrow> replay_state \<Rightarrow> replay_state result" where
  "own_payload m b arm eid (ISOLATION_ATTESTED i) s = own_isolation i s"
| "own_payload m b arm eid (EXECUTION_STARTED x) s = own_execution_started b arm x s"
| "own_payload m b arm eid (EXECUTION_COMPLETED x) s = own_execution_completed m eid x s"
| "own_payload m b arm eid (VALIDATION_RECORDED l) s = own_validation b l s"
| "own_payload m b arm eid (REVIEW_STARTED v) s = own_review_started v s"
| "own_payload m b arm eid (REVIEW_COMPLETED v) s = own_review_completed b eid v s"
| "own_payload m b arm eid (ORCHESTRATOR_OPERATION_RECORDED q) s = own_operation m eid q s"
| "own_payload m b arm eid (USAGE_RECORDED u) s = own_usage m u s"
| "own_payload m b arm eid (PARENT_REWORK_RECORDED w) s = own_rework w s"
| "own_payload m b arm eid (ESCALATION_DECIDED x) s = own_escalation x s"
| "own_payload m b arm eid (BLOCK_ACCEPTED revision tree when) s = own_acceptance revision tree s"
| "own_payload m b arm eid (POST_ACCEPT_DEFECT_RECORDED d) s = own_defect d s"
| "own_payload m b arm eid _ s = Inr s"

section \<open>The loop\<close>

definition enter_event :: "payload \<Rightarrow> int \<Rightarrow> replay_state \<Rightarrow> replay_state" where
  "enter_event p occurredAt s =
     s\<lparr>rp_index := rp_index s + 1, rp_previousOccurredAt := Some occurredAt,
       rp_openOperation := (if kind_of p \<noteq> K_USAGE_RECORDED then None else rp_openOperation s),
       rp_reviews := (if closes_windows (kind_of p) then close_windows (rp_reviews s) else rp_reviews s)\<rparr>"

definition own_event :: "pilot_manifest \<Rightarrow> replay_state \<Rightarrow> pilot_event \<Rightarrow> replay_state result" where
  "own_event m s e =
     throw_if (pe_sequence_number e \<noteq> rp_index s + 1) (pilot_error ''INCOMPATIBLE_SEQUENCE_GAP'')
     (bindR (parseContractualUtc (pe_occurred_at e)) (\<lambda>t.
      throw_if (case rp_previousOccurredAt s of None \<Rightarrow> False | Some p \<Rightarrow> t < p)
        (pilot_error ''REGRESSIVE_OCCURRED_AT'')
      (bindR (blockContext m e) (\<lambda>(b, arm).
       own_payload m b arm (pe_event_id e) (pe_payload e) (enter_event (pe_payload e) t s)))))"

definition replay_step ::
    "machine_env \<Rightarrow> pilot_manifest \<Rightarrow> replay_state \<Rightarrow> pilot_event \<Rightarrow> error \<times> string list + replay_state" where
  "replay_step env m s e =
     (case own_event m s e of
        Inl err \<Rightarrow> Inl (err, rp_unresolved s)
      | Inr s1 \<Rightarrow>
          (case transitionChecked env (rp_state s1) e m of
             Inl err \<Rightarrow> Inl (err, rp_unresolved s1)
           | Inr st \<Rightarrow> if st = INVALID then Inl (pilot_error ''INVALID_TRANSITION'', rp_unresolved s1)
               else Inr (s1\<lparr>rp_state := Some st\<rparr>)))"

record block_replay =
  br_state :: block_state
  br_valid_history :: bool
  br_invalid_reason_codes :: "string list"
  br_block_id :: "string option"
  br_accepted_revision :: "string option"
  br_accepted_tree_hash :: "string option"
  br_accepted_review_id :: "string option"
  br_unresolved_finding_ids :: "string list"

definition invalid :: "string option \<Rightarrow> string \<Rightarrow> string list \<Rightarrow> block_replay" where
  "invalid block code unresolved = \<lparr>br_state = INVALID, br_valid_history = False,
     br_invalid_reason_codes = [if code = [] then ''INVALID_HISTORY'' else code], br_block_id = block,
     br_accepted_revision = None, br_accepted_tree_hash = None, br_accepted_review_id = None,
     br_unresolved_finding_ids = unresolved\<rparr>"

definition workspace_step :: "(string \<rightharpoonup> string) \<Rightarrow> pilot_event \<Rightarrow> unit + (string \<rightharpoonup> string)" where
  "workspace_step owners e =
     (case pe_payload e of
        ISOLATION_ATTESTED i \<Rightarrow>
          throw_if (case owners (is_workspace_instance_id i) of None \<Rightarrow> False | Some p \<Rightarrow> p \<noteq> [] \<and> p \<noteq> pe_block_id e)
            () (Inr (owners(is_workspace_instance_id i \<mapsto> pe_block_id e)))
      | _ \<Rightarrow> Inr owners)"

definition block_history :: "string \<Rightarrow> pilot_event list \<Rightarrow> pilot_event list" where
  "block_history block events =
     js_sort (\<lambda>l r. pe_sequence_number l - pe_sequence_number r) (filter (\<lambda>e. pe_block_id e = block) events)"

definition replay_result :: "string \<Rightarrow> replay_state \<Rightarrow> block_replay" where
  "replay_result block s =
     (case rp_state s of
        None \<Rightarrow> invalid (Some block) ''EMPTY_REDUCTION'' (rp_unresolved s)
      | Some st \<Rightarrow>
          (let accepted = (\<lambda>x. if st = ACCEPTED then x else None)
           in \<lparr>br_state = st, br_valid_history = True, br_invalid_reason_codes = [], br_block_id = Some block,
               br_accepted_revision = accepted (map_option xc_output_revision (rp_acceptedCompletion s)),
               br_accepted_tree_hash = accepted (map_option xc_output_tree_hash (rp_acceptedCompletion s)),
               br_accepted_review_id = accepted (map_option vs_review_id (rp_acceptedReview s)),
               br_unresolved_finding_ids = rp_unresolved s\<rparr>))"

definition replay_projected ::
    "machine_env \<Rightarrow> pilot_manifest \<Rightarrow> string \<Rightarrow> pilot_event list \<Rightarrow> block_replay" where
  "replay_projected env m block projected =
     (case foldR workspace_step (\<lambda>_. None) projected of
        Inl _ \<Rightarrow> invalid (Some block) ''WORKSPACE_REUSED_ACROSS_BLOCKS'' []
      | Inr _ \<Rightarrow>
          (if block_history block projected = [] then invalid (Some block) ''EMPTY_ACTIVE_HISTORY'' []
           else (case foldR (replay_step env m) replay_start (block_history block projected) of
                   Inl (err, open_ids) \<Rightarrow> invalid (Some block) (message_of err) open_ids
                 | Inr s \<Rightarrow> replay_result block s)))"

definition first_block :: "pilot_event list \<Rightarrow> string option" where
  "first_block events = (case events of [] \<Rightarrow> None | e # _ \<Rightarrow> Some (pe_block_id e))"

definition replayBlock ::
    "machine_env \<Rightarrow> bool \<Rightarrow> pilot_manifest \<Rightarrow> pilot_event list \<Rightarrow> block_replay" where
  "replayBlock env frozen m events =
     (case activeEvents (log_env.truncate env) frozen events of
        Inl err \<Rightarrow> invalid (first_block events) (message_of err) []
      | Inr projected \<Rightarrow>
          (case (case first_block events of Some b \<Rightarrow> Some b | None \<Rightarrow> first_block projected) of
             None \<Rightarrow> invalid None ''EMPTY_HISTORY'' []
           | Some block \<Rightarrow> if block = [] then invalid None ''EMPTY_HISTORY'' []
               else replay_projected env m block projected))"

end
