(* ===== verification/Pilot_Usage.thy ===== *)
theory Pilot_Usage
  imports Pilot_Types Prelude
begin

text \<open>
  Usage and cost of the pilot (\<open>src/pilot/usage-cost.ts\<close>): pricing one usage record against a tariff
  snapshot, and the aggregate over all records of a block. Sums are taken in \<open>BigInt\<close> and must fit a
  safe integer at the end; every amount that is read is checked first.

  Parameters (\<open>usage_env\<close>): the canonical JSON text of a usage record and the hash of a snapshot's
  content. The quotient \<open>completeness_ratio\<close> is kept exact, without its rounding to a double. The
  provenance of a typed record is never null, so that branch of the source is not reached.
\<close>

record usage_env =
  ue_canonical :: "usage_recorded \<Rightarrow> string"
  ue_snapshot_hash :: "pricing_content \<Rightarrow> string"

datatype observed_provenance = BY_TARIFF | BY_BILL

record priced_usage =
  pu_usage :: usage_recorded
  pu_cost_observed :: "int option"
  pu_cost_estimated :: "int option"
  pu_pricing_snapshot_hash :: string
  pu_observed_pricing_complete :: bool
  pu_estimated_pricing_complete :: bool
  pu_observed_cost_provenance :: "observed_provenance option"
  pu_estimated_cost_provenance :: bool
  pu_pricing_errors :: "string list"

record aggregate_measure =
  am_value :: "int option"
  am_complete :: int
  am_total :: int
  am_completeness_ratio :: rat

record strong_token_aggregate =
  st_input :: aggregate_measure
  st_output :: aggregate_measure
  st_cached_input :: aggregate_measure
  st_reasoning :: aggregate_measure
  st_total :: aggregate_measure

record usage_aggregate =
  ua_operations :: int
  ua_duplicate_replays :: int
  ua_usage_ids :: "string list"
  ua_priced_usage :: "priced_usage list"
  ua_unknown_binding_usage_ids :: "string list"
  ua_incomplete_usage :: "(string \<times> string list) list"
  ua_cost_observed :: aggregate_measure
  ua_cost_estimated :: aggregate_measure
  ua_strong_tokens_observed :: strong_token_aggregate
  ua_strong_tokens_estimated :: strong_token_aggregate

section \<open>Checked arithmetic\<close>

definition sortedUnique :: "string list \<Rightarrow> string list" where
  "sortedUnique values = sort_strings (remdups values)"

definition assertNonnegativeSafeInteger :: "int \<Rightarrow> string \<Rightarrow> bool \<Rightarrow> unit result" where
  "assertNonnegativeSafeInteger n label positive =
     throw_if (\<not> safe_int n) (Error RANGE_ERROR (''UNSAFE_INTEGER:'' @ label))
     (throw_if (n < 0 \<or> positive \<and> n = 0) (Error RANGE_ERROR (''INVALID_INTEGER:'' @ label)) (Inr ()))"

definition assert_optional :: "int option \<Rightarrow> string \<Rightarrow> unit result" where
  "assert_optional x label = (case x of None \<Rightarrow> Inr () | Some n \<Rightarrow> assertNonnegativeSafeInteger n label False)"

definition safeNumber :: "int \<Rightarrow> string \<Rightarrow> int result" where
  "safeNumber n label = throw_if (max_safe_integer < n) (Error RANGE_ERROR (''SAFE_INTEGER_OVERFLOW:'' @ label)) (Inr n)"

fun dimension_string :: "dimension \<Rightarrow> string" where
  "dimension_string INPUT = ''input''"
| "dimension_string OUTPUT = ''output''"
| "dimension_string CACHED_INPUT = ''cached_input''"
| "dimension_string REASONING = ''reasoning''"

fun kind_string :: "evidence_kind \<Rightarrow> string" where
  "kind_string OBSERVED = ''observed''"
| "kind_string ESTIMATED = ''estimated''"

fun rateField :: "dimension \<Rightarrow> tariff \<Rightarrow> int option" where
  "rateField INPUT t = Some (tf_input_rate t)"
| "rateField OUTPUT t = Some (tf_output_rate t)"
| "rateField CACHED_INPUT t = tf_cached_input_rate t"
| "rateField REASONING t = tf_reasoning_rate t"

definition each :: "('a \<Rightarrow> unit result) \<Rightarrow> 'a list \<Rightarrow> unit result" where
  "each f xs = foldR (\<lambda>_ x. f x) () xs"

definition assertArithmeticInputs :: "usage_recorded \<Rightarrow> pricing_snapshot \<Rightarrow> unit result" where
  "assertArithmeticInputs u s =
     bindR (assertNonnegativeSafeInteger (ps_unit_scale s) ''pricing_snapshot.unit_scale'' True) (\<lambda>_.
     bindR (each (\<lambda>t. each (\<lambda>d. assert_optional (rateField d t)
        (''tariff.'' @ tf_binding_ref t @ ''.'' @ dimension_string d)) dimensions) (ps_tariffs s)) (\<lambda>_.
     bindR (each (\<lambda>k. each (\<lambda>d. assert_optional (tokenField k d u)
        (''usage.'' @ kind_string k @ ''.'' @ dimension_string d)) dimensions) [OBSERVED, ESTIMATED]) (\<lambda>_.
     bindR (assert_optional (us_cost_observed u) ''usage.cost_observed'') (\<lambda>_.
     assert_optional (us_cost_estimated u) ''usage.cost_estimated''))))"

section \<open>Pricing one record\<close>

definition hasDimensionEvidence :: "usage_recorded \<Rightarrow> evidence_kind \<Rightarrow> bool" where
  "hasDimensionEvidence u k = list_ex (\<lambda>d. tokenField k d u \<noteq> None) dimensions"

fun missing_note :: "evidence_kind \<Rightarrow> dimension \<Rightarrow> string" where
  "missing_note OBSERVED d = ''OBSERVED_DIMENSION_MISSING:'' @ dimension_string d"
| "missing_note ESTIMATED d = ''ESTIMATED_DIMENSION_MISSING:'' @ dimension_string d"

text \<open>The loop over the dimensions: the running total, whether it is complete, and the errors.\<close>

definition cost_step ::
    "usage_recorded \<Rightarrow> tariff \<Rightarrow> evidence_kind \<Rightarrow> int \<times> bool \<times> string list \<Rightarrow> dimension \<Rightarrow> int \<times> bool \<times> string list" where
  "cost_step u t k acc d = (case acc of (total_cost, whole, errors) \<Rightarrow>
     (case rateField d t of
        None \<Rightarrow> (total_cost, whole, errors)
      | Some rate \<Rightarrow>
          (case tokenField k d u of
             None \<Rightarrow> (total_cost, False, errors @ [missing_note k d])
           | Some tokens \<Rightarrow> (total_cost + tokens * rate, whole, errors))))"

definition dimensionalCost ::
    "usage_recorded \<Rightarrow> tariff \<Rightarrow> evidence_kind \<Rightarrow> string list \<Rightarrow> (int option \<times> string list) result" where
  "dimensionalCost u t k errors =
     (case foldl (cost_step u t k) (0, True, errors) dimensions of (total_cost, whole, errors') \<Rightarrow>
        if whole then bindR (safeNumber total_cost (kind_string k @ ''_cost'')) (\<lambda>n. Inr (Some n, errors'))
        else Inr (None, errors'))"

fun duplicate_tariffs :: "tariff list \<Rightarrow> string set \<Rightarrow> string list" where
  "duplicate_tariffs [] seen = []"
| "duplicate_tariffs (t # ts) seen =
     (if tf_binding_ref t \<in> seen then [''PRICING_TARIFF_BINDING_DUPLICATE:'' @ tf_binding_ref t] else []) @
     duplicate_tariffs ts (insert (tf_binding_ref t) seen)"

definition snapshotErrors ::
    "usage_env \<Rightarrow> usage_recorded \<Rightarrow> pricing_snapshot \<Rightarrow> string list \<times> tariff option" where
  "snapshotErrors env u s =
     (let matches = filter (\<lambda>t. tf_binding_ref t = us_binding_ref u) (ps_tariffs s)
      in ((if ps_pricing_snapshot_hash s \<noteq> ue_snapshot_hash env (pricing_content.truncate s)
           then [''PRICING_SNAPSHOT_HASH_MISMATCH''] else []) @
          (if us_pricing_snapshot_id u \<noteq> ps_pricing_snapshot_id s then [''PRICING_SNAPSHOT_ID_MISMATCH''] else []) @
          (if us_currency u \<noteq> ps_currency s then [''PRICING_CURRENCY_MISMATCH''] else []) @
          duplicate_tariffs (ps_tariffs s) {} @
          (if matches = [] then [''PRICING_TARIFF_NOT_FOUND''] else []),
          if length matches = 1 then Some (hd matches) else None))"

text \<open>\<open>reproduced !== null\<close>, against the recorded amount: a mismatch is an error, otherwise it counts.\<close>

definition reproduce ::
    "int option \<Rightarrow> int option \<Rightarrow> string \<Rightarrow> string list \<Rightarrow> int option \<times> string list" where
  "reproduce reproduced recorded note errors =
     (case reproduced of
        None \<Rightarrow> (None, errors)
      | Some n \<Rightarrow> if recorded \<noteq> None \<and> recorded \<noteq> Some n then (None, errors @ [note]) else (Some n, errors))"

definition bill_errors :: "usage_recorded \<Rightarrow> tariff \<Rightarrow> string list" where
  "bill_errors u t =
     (if \<not> tf_authoritative_charge_supported t then [''AUTHORITATIVE_CHARGE_NOT_SUPPORTED''] else []) @
     (if us_provider_usage_id u = None then [''AUTHORITATIVE_PROVIDER_USAGE_ID_MISSING''] else []) @
     (if us_cost_observed u = None then [''AUTHORITATIVE_AMOUNT_MISSING''] else [])"

definition price_observed ::
    "usage_recorded \<Rightarrow> tariff \<Rightarrow> string list \<Rightarrow> (int option \<times> observed_provenance option \<times> string list) result" where
  "price_observed u t errors =
     (if \<not> (hasDimensionEvidence u OBSERVED \<or> us_cost_observed u \<noteq> None \<or> us_provider_usage_id u \<noteq> None \<or>
           us_cost_provenance u = AUTHORITATIVE_BILL)
      then Inr (None, None, errors)
      else if us_cost_provenance u = AUTHORITATIVE_BILL \<and> bill_errors u t = []
      then Inr (us_cost_observed u, Some BY_BILL, errors)
      else bindR (dimensionalCost u t OBSERVED
          (errors @ (if us_cost_provenance u = AUTHORITATIVE_BILL then bill_errors u t else []))) (\<lambda>(reproduced, errors1).
        (let (cost, errors2) = reproduce reproduced (us_cost_observed u)
               (if us_cost_provenance u = AUTHORITATIVE_BILL then ''AUTHORITATIVE_REPRODUCED_COST_MISMATCH''
                else ''RECORDED_OBSERVED_COST_MISMATCH'') errors1
         in Inr (cost, if cost = None then None else Some BY_TARIFF, errors2))))"

definition price_estimated ::
    "usage_recorded \<Rightarrow> tariff \<Rightarrow> string list \<Rightarrow> (int option \<times> string list) result" where
  "price_estimated u t errors =
     (let identified = (us_token_estimator_id u \<noteq> None \<and> us_token_estimator_version u \<noteq> None) in
      if \<not> (hasDimensionEvidence u ESTIMATED \<or> us_token_estimator_id u \<noteq> None \<or>
           us_token_estimator_version u \<noteq> None \<or> us_cost_estimated u \<noteq> None \<or> us_cost_provenance u = ESTIMATED_TARIFF)
      then Inr (None, errors)
      else bindR (dimensionalCost u t ESTIMATED
          (errors @ (if identified then [] else [''ESTIMATOR_IDENTITY_MISSING'']))) (\<lambda>(reproduced, errors1).
        if us_cost_estimated u \<noteq> None \<and> us_cost_provenance u \<noteq> ESTIMATED_TARIFF
        then Inr (None, errors1 @ [''ESTIMATED_PROVENANCE_INVALID''])
        else (let (cost, errors2) = reproduce reproduced (us_cost_estimated u) ''RECORDED_ESTIMATED_COST_MISMATCH'' errors1
              in Inr (if identified then cost else None, errors2))))"

definition priced ::
    "usage_recorded \<Rightarrow> pricing_snapshot \<Rightarrow> int option \<Rightarrow> observed_provenance option \<Rightarrow> int option \<Rightarrow> string list \<Rightarrow> priced_usage" where
  "priced u s observed provenance estimated errors =
     \<lparr>pu_usage = u, pu_cost_observed = observed, pu_cost_estimated = estimated,
      pu_pricing_snapshot_hash = ps_pricing_snapshot_hash s,
      pu_observed_pricing_complete = (observed \<noteq> None), pu_estimated_pricing_complete = (estimated \<noteq> None),
      pu_observed_cost_provenance = provenance, pu_estimated_cost_provenance = (estimated \<noteq> None),
      pu_pricing_errors = sortedUnique errors\<rparr>"

definition priceUsage :: "usage_env \<Rightarrow> usage_recorded \<Rightarrow> pricing_snapshot \<Rightarrow> priced_usage result" where
  "priceUsage env u s =
     bindR (assertArithmeticInputs u s) (\<lambda>_.
     (case snapshotErrors env u s of
        ([], Some t) \<Rightarrow>
          bindR (price_observed u t []) (\<lambda>(observed, provenance, errors1).
          bindR (price_estimated u t errors1) (\<lambda>(estimated, errors2).
          Inr (priced u s observed provenance estimated errors2)))
      | (errors, _) \<Rightarrow> Inr (priced u s None None None errors)))"

section \<open>Aggregates\<close>

definition measure_step :: "string \<Rightarrow> int \<times> int \<Rightarrow> int option \<Rightarrow> (int \<times> int) result" where
  "measure_step label acc v = (case v of
      None \<Rightarrow> Inr acc
    | Some n \<Rightarrow> bindR (assertNonnegativeSafeInteger n label False) (\<lambda>_. Inr (fst acc + n, snd acc + 1)))"

definition aggregateMeasure :: "int option list \<Rightarrow> string \<Rightarrow> aggregate_measure result" where
  "aggregateMeasure values label =
     bindR (foldR (measure_step label) (0, 0) values) (\<lambda>(sum_all, whole).
     let total_count = int (length values);
         ratio = (if total_count = 0 then 0 else of_int whole / of_int total_count)
     in if whole = total_count
        then bindR (safeNumber sum_all label) (\<lambda>n. Inr \<lparr>am_value = Some n, am_complete = whole,
          am_total = total_count, am_completeness_ratio = ratio\<rparr>)
        else Inr \<lparr>am_value = None, am_complete = whole, am_total = total_count, am_completeness_ratio = ratio\<rparr>)"

definition token_values :: "evidence_kind \<Rightarrow> dimension \<Rightarrow> priced_usage \<Rightarrow> int option" where
  "token_values k d p =
     (if k = ESTIMATED \<and> (us_token_estimator_id (pu_usage p) = None \<or> us_token_estimator_version (pu_usage p) = None)
      then None else tokenField k d (pu_usage p))"

definition operation_total :: "evidence_kind \<Rightarrow> priced_usage \<Rightarrow> int option result" where
  "operation_total k p =
     (let counts = map (\<lambda>d. token_values k d p) dimensions in
      if list_ex (\<lambda>c. c = None) counts then Inr None
      else bindR (safeNumber (sum_list (map the counts)) (''strong_tokens_'' @ kind_string k @ ''.total_operation''))
        (\<lambda>n. Inr (Some n)))"

definition strongTokenAggregate :: "priced_usage list \<Rightarrow> evidence_kind \<Rightarrow> strong_token_aggregate result" where
  "strongTokenAggregate events k =
     (let measure = (\<lambda>d. aggregateMeasure (map (token_values k d) events)
            (''strong_tokens_'' @ kind_string k @ ''.'' @ dimension_string d)) in
      bindR (mapR (operation_total k) events) (\<lambda>totals.
      bindR (measure INPUT) (\<lambda>i. bindR (measure OUTPUT) (\<lambda>ou.
      bindR (measure CACHED_INPUT) (\<lambda>c. bindR (measure REASONING) (\<lambda>r.
      bindR (aggregateMeasure totals (''strong_tokens_'' @ kind_string k @ ''.total'')) (\<lambda>t.
      Inr \<lparr>st_input = i, st_output = ou, st_cached_input = c, st_reasoning = r, st_total = t\<rparr>)))))))"

text \<open>The map \<open>unique\<close> in insertion order, and the number of replayed duplicates.\<close>

definition unique_step ::
    "usage_env \<Rightarrow> usage_recorded list \<times> int \<Rightarrow> usage_recorded \<Rightarrow> (usage_recorded list \<times> int) result" where
  "unique_step env acc u =
     (case find (\<lambda>p. us_usage_id p = us_usage_id u) (fst acc) of
        None \<Rightarrow> Inr (fst acc @ [u], snd acc)
      | Some p \<Rightarrow>
          throw_if (ue_canonical env p \<noteq> ue_canonical env u)
            (Error PILOT_ERROR (''CONFLICTING_USAGE_ID:'' @ us_usage_id u))
          (Inr (fst acc, snd acc + 1)))"

definition registry_step :: "(string \<rightharpoonup> pilot_binding) \<Rightarrow> pilot_binding \<Rightarrow> (string \<rightharpoonup> pilot_binding) result" where
  "registry_step bindings b =
     throw_if (bindings (bd_binding_ref b) \<noteq> None) (Error PILOT_ERROR (''DUPLICATE_BINDING_REF:'' @ bd_binding_ref b))
     (Inr (bindings(bd_binding_ref b \<mapsto> b)))"

definition unregistered_tariffs :: "(string \<rightharpoonup> pilot_binding) \<Rightarrow> pricing_snapshot \<Rightarrow> string list" where
  "unregistered_tariffs bindings s =
     sortedUnique (map (\<lambda>t. ''PRICING_TARIFF_BINDING_UNREGISTERED:'' @ tf_binding_ref t)
       (filter (\<lambda>t. bindings (tf_binding_ref t) = None) (ps_tariffs s)))"

text \<open>One usage priced against the registry, with the reasons why it is incomplete.\<close>

definition registered_price ::
    "usage_env \<Rightarrow> pricing_snapshot \<Rightarrow> (string \<rightharpoonup> pilot_binding) \<Rightarrow> usage_recorded \<Rightarrow> (priced_usage \<times> string list) result" where
  "registered_price env s bindings u =
     bindR (priceUsage env u s) (\<lambda>p.
     let unregistered = unregistered_tariffs bindings s;
         unknown = (bindings (us_binding_ref u) = None);
         codes = pu_pricing_errors p @ unregistered @ (if unknown then [''UNKNOWN_BINDING''] else []);
         p' = (if unknown \<or> unregistered \<noteq> []
           then p\<lparr>pu_cost_observed := None, pu_cost_estimated := None, pu_observed_pricing_complete := False,
              pu_estimated_pricing_complete := False, pu_observed_cost_provenance := None,
              pu_estimated_cost_provenance := False, pu_pricing_errors := sortedUnique codes\<rparr>
           else p)
     in Inr (p', sortedUnique (codes @
          (if pu_cost_observed p' = None then [''COST_OBSERVED_INCOMPLETE''] else []) @
          (if pu_cost_estimated p' = None then [''COST_ESTIMATED_INCOMPLETE''] else []))))"

definition priced_id :: "priced_usage \<Rightarrow> string" where
  "priced_id p = us_usage_id (pu_usage p)"

definition aggregate_priced ::
    "(string \<rightharpoonup> pilot_binding) \<Rightarrow> int \<Rightarrow> (priced_usage \<times> string list) list \<Rightarrow> usage_aggregate result" where
  "aggregate_priced bindings duplicates results =
     (let pricedUsage = js_sort (\<lambda>l r. compare_code_units (priced_id l) (priced_id r)) (map fst results);
          incomplete = js_sort (\<lambda>l r. compare_code_units (fst l) (fst r))
            (map (\<lambda>(p, codes). (priced_id p, codes)) (filter (\<lambda>(p, codes). codes \<noteq> []) results));
          unknown = sort_strings (map (\<lambda>(p, codes). priced_id p)
            (filter (\<lambda>(p, codes). bindings (us_binding_ref (pu_usage p)) = None) results));
          strong = filter (\<lambda>p. map_option bd_capability_class (bindings (us_binding_ref (pu_usage p))) = Some STRONG) pricedUsage
      in bindR (aggregateMeasure (map pu_cost_observed pricedUsage) ''cost_observed'') (\<lambda>co.
         bindR (aggregateMeasure (map pu_cost_estimated pricedUsage) ''cost_estimated'') (\<lambda>ce.
         bindR (strongTokenAggregate strong OBSERVED) (\<lambda>so.
         bindR (strongTokenAggregate strong ESTIMATED) (\<lambda>se.
         Inr \<lparr>ua_operations = int (length pricedUsage), ua_duplicate_replays = duplicates,
              ua_usage_ids = map priced_id pricedUsage, ua_priced_usage = pricedUsage,
              ua_unknown_binding_usage_ids = unknown, ua_incomplete_usage = incomplete,
              ua_cost_observed = co, ua_cost_estimated = ce,
              ua_strong_tokens_observed = so, ua_strong_tokens_estimated = se\<rparr>)))))"

definition aggregateUsage ::
    "usage_env \<Rightarrow> usage_recorded list \<Rightarrow> pilot_binding list \<Rightarrow> pricing_snapshot \<Rightarrow> usage_aggregate result" where
  "aggregateUsage env events registry s =
     bindR (foldR (unique_step env) ([], 0) events) (\<lambda>(unique, duplicates).
     bindR (foldR registry_step (\<lambda>_. None) registry) (\<lambda>bindings.
     bindR (mapR (registered_price env s bindings) unique) (\<lambda>results.
     aggregate_priced bindings duplicates results)))"

section \<open>Lemmas\<close>

lemma mapR_Inr_map: "mapR f xs = Inr ys \<longleftrightarrow> (\<forall>x \<in> set xs. is_ok (f x)) \<and> ys = map (\<lambda>x. projr (f x)) xs"
proof (induction xs arbitrary: ys)
  case Nil
  then show ?case by auto
next
  case (Cons x xs)
  then show ?case by (cases "f x") auto
qed

definition counted :: "usage_recorded \<Rightarrow> tariff \<Rightarrow> evidence_kind \<Rightarrow> bool" where
  "counted u t k = list_all (\<lambda>d. rateField d t = None \<or> tokenField k d u \<noteq> None) dimensions"

definition tariff_cost :: "usage_recorded \<Rightarrow> tariff \<Rightarrow> evidence_kind \<Rightarrow> int" where
  "tariff_cost u t k = sum_list (map (\<lambda>d. case (rateField d t, tokenField k d u) of
     (Some r, Some n) \<Rightarrow> n * r | _ \<Rightarrow> 0) dimensions)"

lemma cost_loop:
  "foldl (cost_step u t k) (c, w, es) ds = (c', w', es') \<Longrightarrow>
   c' = c + sum_list (map (\<lambda>d. case (rateField d t, tokenField k d u) of (Some r, Some n) \<Rightarrow> n * r | _ \<Rightarrow> 0) ds) \<and>
   (w' \<longleftrightarrow> w \<and> list_all (\<lambda>d. rateField d t = None \<or> tokenField k d u \<noteq> None) ds) \<and>
   (\<exists>new. es' = es @ new)"
  by (induction ds arbitrary: c w es) (fastforce simp: cost_step_def split: option.splits)+

lemma dimensionalCost_Inr:
  assumes "dimensionalCost u t k errors = Inr (r, errors')"
  shows "(\<exists>new. errors' = errors @ new) \<and> (counted u t k \<longleftrightarrow> r \<noteq> None) \<and>
    (\<forall>n. r = Some n \<longrightarrow> n = tariff_cost u t k \<and> n \<le> max_safe_integer)"
proof -
  obtain c w es where l: "foldl (cost_step u t k) (0, True, errors) dimensions = (c, w, es)"
    by (cases "foldl (cost_step u t k) (0, True, errors) dimensions")
  from cost_loop [OF l] have "c = tariff_cost u t k" "w \<longleftrightarrow> counted u t k" "\<exists>new. es = errors @ new"
    by (simp_all add: tariff_cost_def counted_def)
  with assms l show ?thesis
    by (auto simp: dimensionalCost_def safeNumber_def split: if_splits)
qed

lemma reproduce_Some:
  "reproduce r recorded note errors = (Some n, errors') \<Longrightarrow> r = Some n \<and> (recorded = None \<or> recorded = Some n) \<and> errors' = errors"
  by (auto simp: reproduce_def split: option.splits if_splits)

lemma price_observed_Inr:
  assumes "price_observed u t errors = Inr (cost, provenance, errors')"
  shows "(provenance = None \<longleftrightarrow> cost = None) \<and>
    (provenance = Some BY_BILL \<longrightarrow> cost = us_cost_observed u \<and> us_cost_provenance u = AUTHORITATIVE_BILL \<and> bill_errors u t = []) \<and>
    (provenance = Some BY_TARIFF \<longrightarrow> counted u t OBSERVED \<and> cost = Some (tariff_cost u t OBSERVED) \<and>
       tariff_cost u t OBSERVED \<le> max_safe_integer \<and> (us_cost_observed u = None \<or> us_cost_observed u = cost))"
proof -
  consider (no) "cost = None" "provenance = None"
    | (bill) "us_cost_provenance u = AUTHORITATIVE_BILL" "bill_errors u t = []" "cost = us_cost_observed u"
        "provenance = Some BY_BILL"
    | (computed) r e0 e1 nt where "dimensionalCost u t OBSERVED e0 = Inr (r, e1)"
        "reproduce r (us_cost_observed u) nt e1 = (cost, errors')"
        "provenance = (if cost = None then None else Some BY_TARIFF)"
  proof -
    let ?none = "\<not> (hasDimensionEvidence u OBSERVED \<or> us_cost_observed u \<noteq> None \<or> us_provider_usage_id u \<noteq> None \<or>
           us_cost_provenance u = AUTHORITATIVE_BILL)"
    let ?bill = "us_cost_provenance u = AUTHORITATIVE_BILL \<and> bill_errors u t = []"
    let ?e0 = "errors @ (if us_cost_provenance u = AUTHORITATIVE_BILL then bill_errors u t else [])"
    let ?nt = "if us_cost_provenance u = AUTHORITATIVE_BILL then ''AUTHORITATIVE_REPRODUCED_COST_MISMATCH''
                else ''RECORDED_OBSERVED_COST_MISMATCH''"
    show thesis
    proof (cases "?none \<or> ?bill")
      case True
      show thesis
      proof (cases ?none)
        case True
        with assms have "cost = None" "provenance = None"
          unfolding price_observed_def if_P [OF True] by simp_all
        then show thesis by (rule no)
      next
        case False
        with True have b: ?bill by blast
        with assms have "cost = us_cost_observed u" "provenance = Some BY_BILL"
          unfolding price_observed_def if_not_P [OF False] if_P [OF b] by simp_all
        with b show thesis by (intro bill) simp_all
      qed
    next
      case False
      then have nn: "\<not> ?none" and nb: "\<not> ?bill" by blast+
      from assms obtain r e1 where d: "dimensionalCost u t OBSERVED ?e0 = Inr (r, e1)"
        and rest: "(let (cost, errors2) = reproduce r (us_cost_observed u) ?nt e1
          in Inr (cost, if cost = None then None else Some BY_TARIFF, errors2)) =
          (Inr (cost, provenance, errors') :: (int option \<times> observed_provenance option \<times> string list) result)"
        unfolding price_observed_def if_not_P [OF nn] if_not_P [OF nb] by (auto simp only: bindR_eq_Inr prod.case)
      obtain c2 e2 where rp: "reproduce r (us_cost_observed u) ?nt e1 = (c2, e2)" by fastforce
      with rest have "c2 = cost" "e2 = errors'" "provenance = (if cost = None then None else Some BY_TARIFF)"
        by auto
      with d rp show thesis by (intro computed) simp_all
    qed
  qed
  then show ?thesis
  proof cases
    case bill
    then have "us_cost_observed u \<noteq> None" by (auto simp: bill_errors_def split: if_splits)
    with bill show ?thesis by simp
  next
    case computed
    show ?thesis
    proof (cases cost)
      case (Some n)
      with reproduce_Some [of r "us_cost_observed u" nt e1 n errors'] computed
      have "r = Some n" "us_cost_observed u = None \<or> us_cost_observed u = Some n" by auto
      with dimensionalCost_Inr [OF computed(1)] Some computed(3) show ?thesis by auto
    qed (use computed in simp)
  qed simp
qed

lemma price_estimated_Inr:
  assumes "price_estimated u t errors = Inr (Some n, errors')"
  shows "counted u t ESTIMATED \<and> n = tariff_cost u t ESTIMATED \<and> n \<le> max_safe_integer \<and>
    us_token_estimator_id u \<noteq> None \<and> us_token_estimator_version u \<noteq> None \<and>
    (us_cost_estimated u = None \<or> us_cost_estimated u = Some n)"
proof -
  from assms obtain e0 e1 r where d: "dimensionalCost u t ESTIMATED e0 = Inr (r, e1)"
    and p: "reproduce r (us_cost_estimated u) ''RECORDED_ESTIMATED_COST_MISMATCH'' e1 = (Some n, errors')"
    and i: "us_token_estimator_id u \<noteq> None" "us_token_estimator_version u \<noteq> None"
    by (auto simp: price_estimated_def Let_def split: if_splits prod.splits)
  from reproduce_Some [OF p] dimensionalCost_Inr [OF d] i show ?thesis by auto
qed

lemma priceUsage_Inr:
  assumes "priceUsage env u s = Inr p"
  shows "pu_usage p = u \<and>
    (pu_cost_observed p = None \<and> pu_observed_cost_provenance p = None \<and> pu_cost_estimated p = None \<or>
     (\<exists>t o1 pr e1 es e2. snapshotErrors env u s = ([], Some t) \<and> price_observed u t [] = Inr (o1, pr, e1) \<and>
        price_estimated u t e1 = Inr (es, e2) \<and> pu_cost_observed p = o1 \<and> pu_observed_cost_provenance p = pr \<and>
        pu_cost_estimated p = es))"
proof -
  obtain errs m where se: "snapshotErrors env u s = (errs, m)" by fastforce
  show ?thesis
    using assms unfolding priceUsage_def se
    by (cases errs; cases m) (auto simp: priced_def)
qed

lemma snapshotErrors_ok:
  assumes "snapshotErrors env u s = ([], Some t)"
  shows "filter (\<lambda>t. tf_binding_ref t = us_binding_ref u) (ps_tariffs s) = [t]"
    and "ps_pricing_snapshot_hash s = ue_snapshot_hash env (pricing_content.truncate s)"
    and "us_pricing_snapshot_id u = ps_pricing_snapshot_id s" and "us_currency u = ps_currency s"
proof -
  show "filter (\<lambda>t. tf_binding_ref t = us_binding_ref u) (ps_tariffs s) = [t]"
    using assms by (cases "filter (\<lambda>t. tf_binding_ref t = us_binding_ref u) (ps_tariffs s)")
      (auto simp: snapshotErrors_def Let_def split: if_splits)
qed (use assms in \<open>auto simp: snapshotErrors_def Let_def split: if_splits\<close>)

lemma registered_price_Inr:
  assumes "registered_price env s bindings u = Inr (p, codes)"
  shows "pu_usage p = u"
    and "pu_cost_observed p = Some n \<Longrightarrow> bindings (us_binding_ref u) \<noteq> None \<and> priceUsage env u s = Inr p"
    and "codes = [] \<Longrightarrow> pu_cost_observed p \<noteq> None \<and> pu_cost_estimated p \<noteq> None"
proof -
  from assms obtain q where q: "priceUsage env u s = Inr q"
    by (auto simp: registered_price_def)
  have ne: "sortedUnique xs = [] \<longleftrightarrow> xs = []" for xs
    by (simp add: sortedUnique_def sort_strings_def)
  show "pu_usage p = u"
    using assms q priceUsage_Inr [OF q] by (auto simp: registered_price_def Let_def split: if_splits)
  show "pu_cost_observed p = Some n \<Longrightarrow> bindings (us_binding_ref u) \<noteq> None \<and> priceUsage env u s = Inr p"
    using assms q by (auto simp: registered_price_def Let_def split: if_splits)
  show "codes = [] \<Longrightarrow> pu_cost_observed p \<noteq> None \<and> pu_cost_estimated p \<noteq> None"
    using assms q by (auto simp: registered_price_def Let_def ne split: if_splits)
qed

lemma measure_loop:
  "foldR (measure_step label) (a, n) vs = Inr (a', n') \<Longrightarrow>
   a' = a + sum_list (map (\<lambda>v. case v of None \<Rightarrow> 0 | Some x \<Rightarrow> x) vs) \<and>
   n' = n + int (length (filter (\<lambda>v. v \<noteq> None) vs)) \<and> (\<forall>x. Some x \<in> set vs \<longrightarrow> 0 \<le> x)"
proof (induction vs arbitrary: a n)
  case Nil
  then show ?case by simp
next
  case (Cons v vs)
  from Cons.prems obtain a1 n1 where s: "measure_step label (a, n) v = Inr (a1, n1)"
    and r: "foldR (measure_step label) (a1, n1) vs = Inr (a', n')" by auto
  from Cons.IH [OF r] s show ?case
    by (cases v) (auto simp: measure_step_def assertNonnegativeSafeInteger_def)
qed

text \<open>An aggregate measure: complete exactly when every value is known, then their exact sum.\<close>

lemma aggregateMeasure_Inr:
  assumes "aggregateMeasure vs label = Inr a"
  shows "am_total a = int (length vs)" and "am_complete a = int (length (filter (\<lambda>v. v \<noteq> None) vs))"
    and "am_value a = None \<longleftrightarrow> None \<in> set vs"
    and "am_value a = Some n \<Longrightarrow> n = sum_list (map the vs) \<and> 0 \<le> n \<and> n \<le> max_safe_integer"
    and "0 \<le> am_complete a \<and> am_complete a \<le> am_total a \<and> 0 \<le> am_completeness_ratio a \<and> am_completeness_ratio a \<le> 1"
proof -
  from assms obtain total_sum k where l: "foldR (measure_step label) (0, 0) vs = Inr (total_sum, k)"
    by (auto simp: aggregateMeasure_def)
  note ml = measure_loop [OF l]
  have all: "length (filter (\<lambda>v. v \<noteq> None) vs) = length vs \<longleftrightarrow> None \<notin> set vs"
    by (metis (mono_tags, lifting) filter_id_conv length_filter_less less_irrefl)
  have k: "k \<le> int (length vs)" "0 \<le> k" using ml length_filter_le [of "\<lambda>v. v \<noteq> None" vs] by auto
  have sums: "None \<notin> set vs \<Longrightarrow> total_sum = sum_list (map the vs)"
    using ml by (auto intro!: arg_cong [of _ _ sum_list] split: option.splits)
  have nonneg: "0 \<le> total_sum"
    using ml by (auto intro!: sum_list_nonneg split: option.splits)
  show "am_total a = int (length vs)" and "am_complete a = int (length (filter (\<lambda>v. v \<noteq> None) vs))"
    and "am_value a = None \<longleftrightarrow> None \<in> set vs"
    using assms l ml all by (auto simp: aggregateMeasure_def Let_def safeNumber_def split: if_splits)
  show "am_value a = Some n \<Longrightarrow> n = sum_list (map the vs) \<and> 0 \<le> n \<and> n \<le> max_safe_integer"
    using assms l ml all sums nonneg by (auto simp: aggregateMeasure_def Let_def safeNumber_def split: if_splits)
  show "0 \<le> am_complete a \<and> am_complete a \<le> am_total a \<and> 0 \<le> am_completeness_ratio a \<and> am_completeness_ratio a \<le> 1"
    using assms l k
    by (auto simp: aggregateMeasure_def Let_def safeNumber_def divide_le_eq_1 zero_le_divide_iff split: if_splits)
qed

lemma unique_loop:
  assumes "foldR (unique_step env) (us, n) es = Inr (us', n')" and "distinct (map us_usage_id us)"
  shows "distinct (map us_usage_id us') \<and> set us \<subseteq> set us' \<and> set us' \<subseteq> set us \<union> set es \<and>
    (\<forall>e \<in> set es. \<exists>p \<in> set us'. us_usage_id p = us_usage_id e \<and> ue_canonical env p = ue_canonical env e)"
  using assms
proof (induction es arbitrary: us n)
  case Nil
  then show ?case by simp
next
  case (Cons e es)
  from Cons.prems obtain us1 n1 where s: "unique_step env (us, n) e = Inr (us1, n1)"
    and r: "foldR (unique_step env) (us1, n1) es = Inr (us', n')" by auto
  from s have new: "us1 = us @ [e] \<and> us_usage_id e \<notin> us_usage_id ` set us \<or>
      us1 = us \<and> (\<exists>p \<in> set us. us_usage_id p = us_usage_id e \<and> ue_canonical env p = ue_canonical env e)"
    by (auto simp: unique_step_def find_None_iff find_Some_iff split: option.splits)
  then have "distinct (map us_usage_id us1)" using Cons.prems(2) by auto
  from Cons.IH [OF r this] new show ?case by auto
qed

lemma unique_distinct:
  "distinct (map us_usage_id (us @ es)) \<Longrightarrow> foldR (unique_step env) (us, n) es = Inr (us @ es, n)"
proof (induction es arbitrary: us)
  case Nil
  then show ?case by simp
next
  case (Cons e es)
  then have "find (\<lambda>p. us_usage_id p = us_usage_id e) us = None" by (auto simp: find_None_iff) (metis image_eqI)
  then show ?case using Cons.IH [of "us @ [e]"] Cons.prems by (simp add: unique_step_def)
qed

lemma aggregateUsage_Inr:
  assumes "aggregateUsage env events registry s = Inr a"
  obtains unique n bindings results where "foldR (unique_step env) ([], 0) events = Inr (unique, n)"
    "foldR registry_step (\<lambda>_. None) registry = Inr bindings"
    "mapR (registered_price env s bindings) unique = Inr results" "aggregate_priced bindings n results = Inr a"
  using assms by (auto simp: aggregateUsage_def)

text \<open>The price of a record does not depend on where it stands; only its identifier orders the result.\<close>

lemma registered_ids:
  assumes "mapR (registered_price env s bindings) us = Inr results"
  shows "map (\<lambda>r. priced_id (fst r)) results = map us_usage_id us"
    and "map (\<lambda>r. us_binding_ref (pu_usage (fst r))) results = map us_binding_ref us"
proof -
  have "pu_usage (fst (projr (registered_price env s bindings u))) = u" if "u \<in> set us" for u
    using assms that registered_price_Inr(1) [of env s bindings u]
    by (auto simp: mapR_Inr_map is_ok_iff)
  then show "map (\<lambda>r. priced_id (fst r)) results = map us_usage_id us"
    and "map (\<lambda>r. us_binding_ref (pu_usage (fst r))) results = map us_binding_ref us"
    using assms by (simp_all add: mapR_Inr_map priced_id_def)
qed

lemma mset_map_filter: "mset xs = mset ys \<Longrightarrow> mset (map f (filter P xs)) = mset (map f (filter P ys))"
  by (simp add: mset_filter)

lemma aggregate_priced_perm:
  assumes ids: "distinct (map (\<lambda>r. priced_id (fst r)) rs)" and m: "mset rs = mset rs'"
  shows "aggregate_priced bindings n rs = aggregate_priced bindings n rs'"
proof -
  have cmp: "total_comparison (\<lambda>l r. compare_code_units (f l) (f r))" for f :: "'b \<Rightarrow> string"
    using total_comparison_code_units unfolding total_comparison_def by blast
  have inj: "r = q" if "r \<in> set rs" "q \<in> set rs" "priced_id (fst r) = priced_id (fst q)" for r q
    using ids that by (metis distinct_map inj_onD)
  have p: "js_sort (\<lambda>l r. compare_code_units (priced_id l) (priced_id r)) (map fst rs) =
      js_sort (\<lambda>l r. compare_code_units (priced_id l) (priced_id r)) (map fst rs')"
    by (rule js_sort_unique [OF cmp]) (use m inj compare_code_units_antisym in \<open>auto simp: mset_map\<close>)
  have i: "js_sort (\<lambda>l r. compare_code_units (fst l) (fst r))
        (map (\<lambda>(p, codes). (priced_id p, codes)) (filter (\<lambda>(p, codes). codes \<noteq> []) rs)) =
      js_sort (\<lambda>l r. compare_code_units (fst l) (fst r))
        (map (\<lambda>(p, codes). (priced_id p, codes)) (filter (\<lambda>(p, codes). codes \<noteq> []) rs'))"
    by (rule js_sort_unique [OF cmp mset_map_filter [OF m]])
      (use inj compare_code_units_antisym in \<open>fastforce dest!: compare_code_units_antisym\<close>)
  have k: "sort_strings (map (\<lambda>(p, codes). priced_id p)
        (filter (\<lambda>(p, codes). bindings (us_binding_ref (pu_usage p)) = None) rs)) =
      sort_strings (map (\<lambda>(p, codes). priced_id p)
        (filter (\<lambda>(p, codes). bindings (us_binding_ref (pu_usage p)) = None) rs'))"
    unfolding sort_strings_def
    by (rule js_sort_unique [OF total_comparison_code_units mset_map_filter [OF m]])
      (rule compare_code_units_antisym)
  show ?thesis unfolding aggregate_priced_def p i k ..
qed

section \<open>Properties\<close>

text \<open>
  A cost is never invented: a record priced by its tariff costs exactly the tariff's rate times the
  recorded tokens over every dimension the tariff prices, within the safe-integer range and equal to the
  recorded amount if there is one; an authoritative bill is used only where the tariff allows it and
  the provider's identifier is recorded; any cost requires the snapshot, currency and hash to match; and
  an estimated cost requires an identified estimator.
\<close>
theorem price_is_sound:
  assumes "priceUsage env u s = Inr p"
  shows "(pu_observed_cost_provenance p = None \<longleftrightarrow> pu_cost_observed p = None) \<and>
    (pu_cost_observed p \<noteq> None \<or> pu_cost_estimated p \<noteq> None \<longrightarrow>
      (\<exists>t. filter (\<lambda>t. tf_binding_ref t = us_binding_ref u) (ps_tariffs s) = [t] \<and>
        ps_pricing_snapshot_hash s = ue_snapshot_hash env (pricing_content.truncate s) \<and>
        us_pricing_snapshot_id u = ps_pricing_snapshot_id s \<and> us_currency u = ps_currency s \<and>
        (pu_observed_cost_provenance p = Some BY_BILL \<longrightarrow> pu_cost_observed p = us_cost_observed u \<and>
           tf_authoritative_charge_supported t \<and> us_provider_usage_id u \<noteq> None) \<and>
        (pu_observed_cost_provenance p = Some BY_TARIFF \<longrightarrow> counted u t OBSERVED \<and>
           pu_cost_observed p = Some (tariff_cost u t OBSERVED) \<and> tariff_cost u t OBSERVED \<le> max_safe_integer \<and>
           (us_cost_observed u = None \<or> us_cost_observed u = pu_cost_observed p)) \<and>
        (pu_cost_estimated p \<noteq> None \<longrightarrow> counted u t ESTIMATED \<and>
           pu_cost_estimated p = Some (tariff_cost u t ESTIMATED) \<and> us_token_estimator_id u \<noteq> None)))"
proof -
  from priceUsage_Inr [OF assms] consider "pu_cost_observed p = None" "pu_observed_cost_provenance p = None"
      "pu_cost_estimated p = None"
    | t e1 e2 where "snapshotErrors env u s = ([], Some t)"
      "price_observed u t [] = Inr (pu_cost_observed p, pu_observed_cost_provenance p, e1)"
      "price_estimated u t e1 = Inr (pu_cost_estimated p, e2)" by metis
  then show ?thesis
  proof cases
    case (2 t e1 e2)
    have est: "counted u t ESTIMATED \<and> pu_cost_estimated p = Some (tariff_cost u t ESTIMATED) \<and>
        us_token_estimator_id u \<noteq> None" if "pu_cost_estimated p \<noteq> None"
      using that 2(3) price_estimated_Inr [of u t e1] by fastforce
    have bill: "tf_authoritative_charge_supported t \<and> us_provider_usage_id u \<noteq> None" if "bill_errors u t = []"
      using that by (simp add: bill_errors_def split: if_splits)
    note obs = price_observed_Inr [OF 2(2)]
    show ?thesis
      using snapshotErrors_ok [OF 2(1)] obs est bill by blast
  qed simp
qed

text \<open>
  The aggregate of a block does not depend on the order in which its usage records were logged.
\<close>
theorem aggregate_order_independent:
  assumes "distinct (map us_usage_id events)" and "mset events = mset events'"
    and "aggregateUsage env events registry s = Inr a"
  shows "aggregateUsage env events' registry s = Inr a"
  using assms(3)
proof (rule aggregateUsage_Inr)
  fix unique n bindings results
  assume u: "foldR (unique_step env) ([], 0) events = Inr (unique, n)"
    and b: "foldR registry_step (\<lambda>_. None) registry = Inr bindings"
    and r: "mapR (registered_price env s bindings) unique = Inr results" and a: "aggregate_priced bindings n results = Inr a"
  have d': "distinct (map us_usage_id events')"
    using assms(1,2) by (metis mset_eq_imp_distinct_iff mset_map)
  have un: "unique = events" "n = 0" using u unique_distinct [of "[]" events env 0] assms(1) by simp_all
  let ?f = "\<lambda>x. projr (registered_price env s bindings x)"
  have r': "mapR (registered_price env s bindings) events' = Inr (map ?f events')"
    using r un assms(2) by (simp add: mapR_Inr_map) (metis set_mset_mset)
  have "mset results = mset (map ?f events')"
    using r un assms(2) by (simp add: mapR_Inr_map)
  moreover have "distinct (map (\<lambda>r. priced_id (fst r)) results)"
    using registered_ids(1) [OF r] un assms(1) by simp
  ultimately have "aggregate_priced bindings 0 (map ?f events') = Inr a"
    using aggregate_priced_perm [of results "map ?f events'" bindings 0] a un by simp
  then show ?thesis
    using unique_distinct [of "[]" events' env 0] d' b r' by (simp add: aggregateUsage_def)
qed

text \<open>
  Replaying a usage record never counts it twice: repeating a record that is already in the log
  changes nothing but the count of replayed duplicates.
\<close>
theorem usage_replay_counted_once:
  assumes "aggregateUsage env events registry s = Inr a" and "u \<in> set events"
  shows "aggregateUsage env (events @ [u]) registry s =
    Inr (a\<lparr>ua_duplicate_replays := ua_duplicate_replays a + 1\<rparr>)"
  using assms(1)
proof (rule aggregateUsage_Inr)
  fix unique n bindings results
  assume f: "foldR (unique_step env) ([], 0) events = Inr (unique, n)"
    and b: "foldR registry_step (\<lambda>_. None) registry = Inr bindings"
    and r: "mapR (registered_price env s bindings) unique = Inr results" and a: "aggregate_priced bindings n results = Inr a"
  from unique_loop [OF f] assms(2) obtain p where p: "p \<in> set unique" "us_usage_id p = us_usage_id u"
    "ue_canonical env p = ue_canonical env u" and d: "distinct (map us_usage_id unique)" by auto
  have "find (\<lambda>p. us_usage_id p = us_usage_id u) unique = Some p"
  proof (cases "find (\<lambda>p. us_usage_id p = us_usage_id u) unique")
    case None
    with p show ?thesis by (auto simp: find_None_iff)
  next
    case (Some q)
    then have "q \<in> set unique" "us_usage_id q = us_usage_id u" by (auto simp: find_Some_iff)
    with p d have "q = p" by (metis distinct_map inj_onD)
    with Some show ?thesis by simp
  qed
  then have "foldR (unique_step env) ([], 0) (events @ [u]) = Inr (unique, n + 1)"
    using f p by (simp add: foldR_snoc unique_step_def)
  moreover have "aggregate_priced bindings (n + 1) results = Inr (a\<lparr>ua_duplicate_replays := ua_duplicate_replays a + 1\<rparr>)"
    using a by (auto simp: aggregate_priced_def Let_def)
  ultimately show ?thesis using b r by (simp add: aggregateUsage_def)
qed

text \<open>
  A total is reported only when nothing is missing, and it is exact: the observed cost of a block is
  known exactly when every priced record has one, it is then their sum, and it never leaves the
  safe-integer range; otherwise the measure says how many records are complete.
\<close>
theorem aggregate_cost_exact:
  assumes "aggregateUsage env events registry s = Inr a"
  shows "(am_value (ua_cost_observed a) = None \<longleftrightarrow> (\<exists>p \<in> set (ua_priced_usage a). pu_cost_observed p = None)) \<and>
    (\<forall>n. am_value (ua_cost_observed a) = Some n \<longrightarrow>
       n = sum_list (map (\<lambda>p. the (pu_cost_observed p)) (ua_priced_usage a)) \<and> 0 \<le> n \<and> n \<le> max_safe_integer) \<and>
    am_total (ua_cost_observed a) = ua_operations a \<and>
    am_complete (ua_cost_observed a) = int (length (filter (\<lambda>p. pu_cost_observed p \<noteq> None) (ua_priced_usage a))) \<and>
    0 \<le> am_completeness_ratio (ua_cost_observed a) \<and> am_completeness_ratio (ua_cost_observed a) \<le> 1"
proof -
  from assms have m: "aggregateMeasure (map pu_cost_observed (ua_priced_usage a)) ''cost_observed'' = Inr (ua_cost_observed a)"
    and ops: "ua_operations a = int (length (ua_priced_usage a))"
    by (auto simp: aggregateUsage_def aggregate_priced_def Let_def)
  note am = aggregateMeasure_Inr [OF m]
  have none: "None \<in> set (map pu_cost_observed (ua_priced_usage a)) \<longleftrightarrow>
      (\<exists>p \<in> set (ua_priced_usage a). pu_cost_observed p = None)" by force
  show ?thesis
    using am(1,2,5) am(3) [unfolded none] am(4) by (simp add: ops filter_map o_def)
qed

end
