(* ===== verification/Pilot_Observation.thy ===== *)
theory Pilot_Observation
  imports Pilot_Replay Pilot_Usage
begin

text \<open>
  The observation of one block (\<open>pilotBlockObservationV3Schema\<close> in \<open>src/pilot/contracts.ts\<close>): what the reducer
  makes of the events of a block and the metrics read. The record is declared in five parts, in the order of
  the schema; the union of its variants is one predicate on the fields the variants fix.
\<close>

section \<open>Data\<close>

record usage_summary =
  sm_operations :: int
  sm_observed_tokens :: "int option"
  sm_estimated_tokens :: "int option"

record post_accept_defect =
  pa_defect_id :: string
  pa_severity :: severity
  pa_material :: bool
  pa_discovered_at :: string
  pa_evidence_id :: string
  pa_affected_revision :: string
  pa_category_code :: string

datatype final_outcome = OUT_ACCEPTED | OUT_FAILED | OUT_BLOCKED | OUT_INVALID

record observation_identity =
  ob_pilot_id :: string
  ob_manifest_hash :: string
  ob_task_id :: string
  ob_block_id :: string
  ob_matching_stratum :: string
  ob_pair_or_triplet_id :: string
  ob_case_fingerprint :: string
  ob_pilot_arm :: "pilot_arm option"
  ob_complexity_class :: complexity_class
  ob_risk_class :: risk_class
  ob_changed_line_band :: string
  ob_cheap_eligible :: bool
  ob_comparative_eligible :: bool

record observation_history = observation_identity +
  ob_state :: block_state
  ob_valid_history :: bool
  ob_invalid_reason_codes :: "string list"
  ob_executor_binding_initial :: "string option"
  ob_executor_binding_final :: "string option"
  ob_reviewer_binding_refs :: "string list"
  ob_execution_attempts :: int
  ob_repair_rounds :: int
  ob_escalated :: bool
  ob_escalation_reason :: "string option"
  ob_first_pass_accept :: bool
  ob_accept_after_one_repair :: bool
  ob_final_accepted :: bool
  ob_tests_initially_failing :: int
  ob_tests_finally_passing :: int
  ob_review_findings_material :: int
  ob_review_findings_non_material :: int

record observation_work = observation_history +
  ob_rework_files_production :: int
  ob_rework_files_tests :: int
  ob_rework_files_docs :: int
  ob_rework_lines_production :: int
  ob_rework_lines_tests :: int
  ob_rework_lines_docs :: int
  ob_changed_lines_production :: int
  ob_changed_lines_tests :: int
  ob_changed_lines_docs :: int

record observation_usage = observation_work +
  ob_orchestrator_usage :: usage_summary
  ob_executor_usage :: usage_summary
  ob_reviewer_usage :: usage_summary
  ob_total_usage :: usage_summary
  ob_cost_observed :: "int option"
  ob_cost_estimated :: "int option"
  ob_cost_observed_completeness :: rat
  ob_cost_estimated_completeness :: rat
  ob_strong_tokens_observed :: strong_token_aggregate
  ob_strong_tokens_estimated :: strong_token_aggregate
  ob_wall_time_seconds :: "rat option"
  ob_executor_time_seconds :: "rat option"
  ob_review_time_seconds :: "rat option"
  ob_blocked_cause :: "blocked_cause option"
  ob_blocked_reason_code :: "string option"

record observation = observation_usage +
  ob_post_acceptance_window_closed :: bool
  ob_accepted_at :: "string option"
  ob_window_opens_at :: "string option"
  ob_window_closes_at :: "string option"
  ob_post_accept_defects :: "post_accept_defect list"
  ob_post_accept_defects_count :: int
  ob_post_accept_max_severity :: "severity option"
  ob_late_quality_evidence_count :: int
  ob_quality_warnings :: "string list"
  ob_final_outcome :: final_outcome

section \<open>Schemas\<close>

definition usageSummarySchema :: "usage_summary \<Rightarrow> bool" where
  "usageSummarySchema u = (nonnegative_integer (sm_operations u) \<and> opt_all nonnegative_integer (sm_observed_tokens u) \<and>
     opt_all nonnegative_integer (sm_estimated_tokens u))"

definition aggregateMeasureSchema :: "aggregate_measure \<Rightarrow> bool" where
  "aggregateMeasureSchema a = (opt_all nonnegative_integer (am_value a) \<and> nonnegative_integer (am_complete a) \<and>
     nonnegative_integer (am_total a) \<and> rate_ok (am_completeness_ratio a))"

definition strongTokenAggregateSchema :: "strong_token_aggregate \<Rightarrow> bool" where
  "strongTokenAggregateSchema s =
     list_all aggregateMeasureSchema [st_input s, st_output s, st_cached_input s, st_reasoning s, st_total s]"

definition postAcceptDefectSchema :: "post_accept_defect \<Rightarrow> bool" where
  "postAcceptDefectSchema d =
     (list_all pilot_identifier [pa_defect_id d, pa_evidence_id d, pa_category_code d] \<and>
      pilot_timestamp (pa_discovered_at d) \<and> is_hash (pa_affected_revision d))"

definition nonnegative_time :: "rat \<Rightarrow> bool" where
  "nonnegative_time x = (0 \<le> x)"

definition identity_shape :: "'a observation_identity_scheme \<Rightarrow> bool" where
  "identity_shape b =
     (list_all pilot_identifier [ob_pilot_id b, ob_task_id b, ob_block_id b, ob_matching_stratum b,
        ob_pair_or_triplet_id b, ob_changed_line_band b] \<and>
      is_hash (ob_manifest_hash b) \<and> is_hash (ob_case_fingerprint b))"

definition history_shape :: "'a observation_history_scheme \<Rightarrow> bool" where
  "history_shape b =
     (boundedArray pilot_identifier (ob_invalid_reason_codes b) \<and> opt_all pilot_identifier (ob_executor_binding_initial b) \<and>
      opt_all pilot_identifier (ob_executor_binding_final b) \<and> boundedArray pilot_identifier (ob_reviewer_binding_refs b) \<and>
      int_between 0 3 (ob_execution_attempts b) \<and> int_between 0 1 (ob_repair_rounds b) \<and>
      opt_all pilot_identifier (ob_escalation_reason b) \<and>
      list_all nonnegative_integer [ob_tests_initially_failing b, ob_tests_finally_passing b,
        ob_review_findings_material b, ob_review_findings_non_material b])"

definition work_shape :: "'a observation_work_scheme \<Rightarrow> bool" where
  "work_shape b =
     list_all nonnegative_integer [ob_rework_files_production b, ob_rework_files_tests b, ob_rework_files_docs b,
       ob_rework_lines_production b, ob_rework_lines_tests b, ob_rework_lines_docs b,
       ob_changed_lines_production b, ob_changed_lines_tests b, ob_changed_lines_docs b]"

definition usage_shape :: "'a observation_usage_scheme \<Rightarrow> bool" where
  "usage_shape b =
     (list_all usageSummarySchema [ob_orchestrator_usage b, ob_executor_usage b, ob_reviewer_usage b, ob_total_usage b] \<and>
      opt_all nonnegative_integer (ob_cost_observed b) \<and> opt_all nonnegative_integer (ob_cost_estimated b) \<and>
      rate_ok (ob_cost_observed_completeness b) \<and> rate_ok (ob_cost_estimated_completeness b) \<and>
      strongTokenAggregateSchema (ob_strong_tokens_observed b) \<and> strongTokenAggregateSchema (ob_strong_tokens_estimated b) \<and>
      opt_all nonnegative_time (ob_wall_time_seconds b) \<and> opt_all nonnegative_time (ob_executor_time_seconds b) \<and>
      opt_all nonnegative_time (ob_review_time_seconds b) \<and> opt_all pilot_identifier (ob_blocked_reason_code b))"

definition quality_shape :: "observation \<Rightarrow> bool" where
  "quality_shape b =
     (opt_all pilot_timestamp (ob_accepted_at b) \<and> opt_all pilot_timestamp (ob_window_opens_at b) \<and>
      opt_all pilot_timestamp (ob_window_closes_at b) \<and> boundedArray postAcceptDefectSchema (ob_post_accept_defects b) \<and>
      nonnegative_integer (ob_post_accept_defects_count b) \<and> nonnegative_integer (ob_late_quality_evidence_count b) \<and>
      boundedArray pilot_identifier (ob_quality_warnings b))"

definition observationBaseSchema :: "observation \<Rightarrow> bool" where
  "observationBaseSchema b = (identity_shape b \<and> history_shape b \<and> work_shape b \<and> usage_shape b \<and> quality_shape b)"

definition accepted_variant :: "observation \<Rightarrow> bool" where
  "accepted_variant b =
     (ob_final_accepted b \<and> ob_valid_history b \<and> ob_state b = ACCEPTED \<and> ob_blocked_cause b = None \<and>
      ob_blocked_reason_code b = None \<and> (ob_first_pass_accept b \<longrightarrow> ob_accept_after_one_repair b) \<and>
      (ob_post_acceptance_window_closed b \<longrightarrow>
         ob_accepted_at b \<noteq> None \<and> ob_window_opens_at b \<noteq> None \<and> ob_window_closes_at b \<noteq> None))"

definition not_accepted_variant :: "bool \<Rightarrow> observation \<Rightarrow> bool" where
  "not_accepted_variant blocked b =
     (\<not> ob_final_accepted b \<and> \<not> ob_first_pass_accept b \<and> \<not> ob_accept_after_one_repair b \<and>
      (ob_blocked_cause b \<noteq> None) = blocked \<and> (ob_blocked_reason_code b \<noteq> None) = blocked)"

definition pilotBlockObservationV3Schema :: "observation \<Rightarrow> bool" where
  "pilotBlockObservationV3Schema b =
     (observationBaseSchema b \<and> ob_escalated b = (ob_escalation_reason b \<noteq> None) \<and>
      (case ob_final_outcome b of OUT_ACCEPTED \<Rightarrow> accepted_variant b | OUT_BLOCKED \<Rightarrow> not_accepted_variant True b
        | _ \<Rightarrow> not_accepted_variant False b) \<and>
      (ob_pilot_arm b = None \<longrightarrow> \<not> ob_comparative_eligible b))"

definition loadPilotBlockObservationV3 :: "observation \<Rightarrow> observation result" where
  "loadPilotBlockObservationV3 b =
     throw_if (\<not> pilotBlockObservationV3Schema b) (Error PILOT_ERROR ''Pilot block observation V3 validation failed'') (Inr b)"

lemma accepted_observation:
  assumes "pilotBlockObservationV3Schema b"
  shows "ob_final_outcome b = OUT_ACCEPTED \<longleftrightarrow> ob_final_accepted b"
    and "ob_final_accepted b \<Longrightarrow> ob_state b = ACCEPTED \<and> ob_valid_history b"
  using assms by (auto simp: pilotBlockObservationV3Schema_def accepted_variant_def not_accepted_variant_def
      split: final_outcome.splits)

end
