(* ===== verification/Pilot_Manifest.thy ===== *)
theory Pilot_Manifest
  imports Pilot_Machine Pilot_Usage
begin

text \<open>
  \<open>src/pilot/manifest.ts\<close>: the checks on the comparative blocks, the assignment of the three arms of every
  triplet by hash rank, the checks on a whole manifest and freezing one.

  A \<open>Map\<close> that is iterated is an association list in insertion order. Parameters (\<open>manifest_env\<close>): the
  canonical hashes of a manifest without its hash, of a block's field and of the key an arm is ranked
  by, and \<open>String.prototype.localeCompare\<close>.
\<close>

section \<open>Maps in insertion order\<close>

fun map_push :: "string \<Rightarrow> 'a \<Rightarrow> (string \<times> 'a list) list \<Rightarrow> (string \<times> 'a list) list" where
  "map_push k x [] = [(k, [x])]"
| "map_push k x ((l, xs) # m) = (if l = k then (l, xs @ [x]) # m else (l, xs) # map_push k x m)"

fun map_put :: "string \<Rightarrow> 'a \<Rightarrow> (string \<times> 'a) list \<Rightarrow> (string \<times> 'a) list" where
  "map_put k x [] = [(k, x)]"
| "map_put k x ((l, y) # m) = (if l = k then (l, x) # m else (l, y) # map_put k x m)"

definition group_by :: "('a \<Rightarrow> string) \<Rightarrow> 'a list \<Rightarrow> (string \<times> 'a list) list" where
  "group_by f xs = foldl (\<lambda>m x. map_push (f x) x m) [] xs"

lemma map_of_push: "map_of (map_push k x m) = (map_of m)(k \<mapsto> (case map_of m k of None \<Rightarrow> [] | Some xs \<Rightarrow> xs) @ [x])"
  by (induction k x m rule: map_push.induct) (auto simp: fun_eq_iff)

lemma keys_push: "map fst (map_push k x m) = (if k \<in> fst ` set m then map fst m else map fst m @ [k])"
  by (induction k x m rule: map_push.induct) auto

lemma map_of_put: "map_of (map_put k x m) = (map_of m)(k \<mapsto> x)"
  by (induction k x m rule: map_put.induct) (auto simp: fun_eq_iff)

lemma keys_put: "map fst (map_put k x m) = (if k \<in> fst ` set m then map fst m else map fst m @ [k])"
  by (induction k x m rule: map_put.induct) auto

lemma group_by_snoc: "group_by f (xs @ [x]) = map_push (f x) x (group_by f xs)"
  by (simp add: group_by_def)

text \<open>A group holds the elements with its key, in their order; every key has one group.\<close>

lemma map_of_group_by: "map_of (group_by f xs) k = (if k \<in> f ` set xs then Some (filter (\<lambda>x. f x = k) xs) else None)"
proof (induction xs rule: rev_induct)
  case Nil
  then show ?case by (simp add: group_by_def)
next
  case (snoc x xs)
  then show ?case
    by (cases "f x \<in> f ` set xs")
      (auto simp: group_by_snoc map_of_push image_iff intro!: filter_False [symmetric], metis)
qed

lemma keys_group_by: "distinct (map fst (group_by f xs))" "fst ` set (group_by f xs) = f ` set xs"
proof (induction xs rule: rev_induct)
  case Nil
  case 1 then show ?case by (simp add: group_by_def)
  case 2 then show ?case by (simp add: group_by_def)
next
  case (snoc x xs)
  case 1 from snoc show ?case by (auto simp: group_by_snoc keys_push)
  have "set (map fst (group_by f (xs @ [x]))) = insert (f x) (f ` set xs)"
    unfolding group_by_snoc keys_push using snoc(2) by auto
  then show "fst ` set (group_by f (xs @ [x])) = f ` set (xs @ [x])" by simp
qed

lemma group_by_members: "(k, ms) \<in> set (group_by f xs) \<longleftrightarrow> k \<in> f ` set xs \<and> ms = filter (\<lambda>x. f x = k) xs"
  unfolding map_of_eq_Some_iff [OF keys_group_by(1), symmetric] map_of_group_by by auto

text \<open>The elements of a \<open>Set\<close>, in the order of their first occurrence.\<close>

definition unique_first :: "'a list \<Rightarrow> 'a list" where
  "unique_first xs = rev (remdups (rev xs))"

section \<open>Parameters\<close>

datatype field_value = FIELD_TEXT string | FIELD_LIST "string list"

record rank_key =
  rk_assignment_algorithm_version :: string
  rk_assignment_seed :: string
  rk_matching_stratum :: string
  rk_pair_or_triplet_id :: string
  rk_pilot_arm :: pilot_arm

record manifest_env = usage_env +
  mh_manifest_hash :: "manifest_content \<Rightarrow> string"
  mh_field_hash :: "field_value \<Rightarrow> string"
  mh_rank_hash :: "rank_key \<Rightarrow> string"
  mh_locale_compare :: "string \<Rightarrow> string \<Rightarrow> int"

definition arms :: "pilot_arm list" where
  "arms = [A_STRONG_BASELINE, B_CHEAP_NO_EARLY_ESCALATION, C_ADAPTIVE_EARLY_ESCALATION]"

definition armCapabilities :: "pilot_arm \<Rightarrow> capability_class \<times> capability_class" where
  "armCapabilities a = (case a of A_STRONG_BASELINE \<Rightarrow> (STRONG, STRONG) | B_CHEAP_NO_EARLY_ESCALATION \<Rightarrow> (CHEAP, CHEAP)
     | C_ADAPTIVE_EARLY_ESCALATION \<Rightarrow> (CHEAP, STRONG))"

definition complexity_string :: "complexity_class \<Rightarrow> string" where
  "complexity_string c = (case c of CX_MECHANICAL \<Rightarrow> ''mechanical'' | CX_LOCALIZED \<Rightarrow> ''localized''
     | CX_CROSS_FILE_BOUNDED \<Rightarrow> ''cross_file_bounded'' | CX_SYSTEMIC \<Rightarrow> ''systemic'')"

definition risk_string :: "risk_class \<Rightarrow> string" where
  "risk_string r = (case r of RISK_LOW \<Rightarrow> ''low'' | RISK_MEDIUM \<Rightarrow> ''medium'' | RISK_HIGH \<Rightarrow> ''high'' | RISK_RESTRICTED \<Rightarrow> ''restricted'')"

definition equivalentFields :: "(string \<times> (manifest_block \<Rightarrow> field_value)) list" where
  "equivalentFields =
     [(''case_fingerprint'', FIELD_TEXT \<circ> bk_case_fingerprint), (''contract_hash'', FIELD_TEXT \<circ> bk_contract_hash),
      (''base_revision'', FIELD_TEXT \<circ> bk_base_revision), (''clean_tree_hash'', FIELD_TEXT \<circ> bk_clean_tree_hash),
      (''fixtures_hash'', FIELD_TEXT \<circ> bk_fixtures_hash), (''validation_surface'', FIELD_LIST \<circ> bk_validation_surface),
      (''complexity_class'', \<lambda>b. FIELD_TEXT (complexity_string (bk_complexity_class b))),
      (''risk_class'', \<lambda>b. FIELD_TEXT (risk_string (bk_risk_class b))),
      (''changed_line_band'', FIELD_TEXT \<circ> bk_changed_line_band)]"

section \<open>Comparative blocks\<close>

definition note_if :: "bool \<Rightarrow> string \<Rightarrow> string list" where
  "note_if b s = (if b then [s] else [])"

definition comparative_blocks :: "manifest_block list \<Rightarrow> manifest_block list" where
  "comparative_blocks bs = filter bk_comparative_eligible bs"

definition comparativeTriplets :: "manifest_block list \<Rightarrow> (string \<times> manifest_block list) list" where
  "comparativeTriplets bs = group_by bk_pair_or_triplet_id (comparative_blocks bs)"

fun classification_errors :: "string set \<Rightarrow> manifest_block list \<Rightarrow> string list" where
  "classification_errors ids [] = []"
| "classification_errors ids (b # bs) =
     note_if (bk_block_id b \<in> ids) (''duplicate block_id: '' @ bk_block_id b) @
     (if bk_comparative_eligible b
      then note_if (\<not> bk_cheap_eligible b) (''comparative_eligible block must be cheap_eligible: '' @ bk_block_id b) @
        note_if (bk_risk_class b = RISK_RESTRICTED) (''comparative_eligible block cannot be restricted: '' @ bk_block_id b) @
        note_if (bk_exclusion_reason b \<noteq> None) (''comparative_eligible block cannot have an exclusion reason: '' @ bk_block_id b)
      else []) @
     classification_errors (insert (bk_block_id b) ids) bs"

definition field_errors :: "'a manifest_env_scheme \<Rightarrow> string \<Rightarrow> manifest_block list \<Rightarrow> string \<times> (manifest_block \<Rightarrow> field_value) \<Rightarrow> string list" where
  "field_errors env k members f =
     note_if (list_ex (\<lambda>b. mh_field_hash env (snd f b) \<noteq> mh_field_hash env (snd f (hd members))) members)
       (''comparative triplet differs in '' @ fst f @ '': '' @ k)"

definition triplet_errors :: "'a manifest_env_scheme \<Rightarrow> string \<times> manifest_block list \<Rightarrow> string list" where
  "triplet_errors env t =
     (if length (snd t) \<noteq> length arms then [''comparative triplet must have exactly three members: '' @ fst t]
      else note_if (length (remdups (map bk_matching_stratum (snd t))) \<noteq> 1)
          (''comparative triplet must share a matching stratum: '' @ fst t) @
        concat (map (field_errors env (fst t) (snd t)) equivalentFields))"

definition comparativeErrors :: "'a manifest_env_scheme \<Rightarrow> manifest_block list \<Rightarrow> string list" where
  "comparativeErrors env bs = classification_errors {} bs @ concat (map (triplet_errors env) (comparativeTriplets bs))"

section \<open>Assignment of the arms\<close>

definition rank_of :: "'a manifest_env_scheme \<Rightarrow> 'b manifest_content_scheme \<Rightarrow> string \<Rightarrow> string \<Rightarrow> pilot_arm \<Rightarrow> string" where
  "rank_of env m stratum k arm = mh_rank_hash env \<lparr>rk_assignment_algorithm_version = mf_assignment_algorithm_version m,
     rk_assignment_seed = mf_assignment_seed m, rk_matching_stratum = stratum, rk_pair_or_triplet_id = k, rk_pilot_arm = arm\<rparr>"

definition rankedArms :: "'a manifest_env_scheme \<Rightarrow> 'b manifest_content_scheme \<Rightarrow> string \<times> manifest_block list \<Rightarrow> pilot_arm list" where
  "rankedArms env m t = (let rank = rank_of env m (bk_matching_stratum (hd (snd t))) (fst t) in
     js_sort (\<lambda>l r. mh_locale_compare env (rank l) (rank r)) arms)"

definition triplet_assignments ::
    "'a manifest_env_scheme \<Rightarrow> 'b manifest_content_scheme \<Rightarrow> string \<times> manifest_block list \<Rightarrow> arm_assignment list" where
  "triplet_assignments env m t =
     map2 (\<lambda>b a. \<lparr>aa_block_id = bk_block_id b, aa_pilot_arm = a\<rparr>)
       (js_sort (\<lambda>l r. mh_locale_compare env (bk_block_id l) (bk_block_id r)) (snd t)) (rankedArms env m t)"

definition assignArms :: "'a manifest_env_scheme \<Rightarrow> 'b manifest_content_scheme \<Rightarrow> arm_assignment list result" where
  "assignArms env m =
     throw_if (comparativeErrors env (mf_blocks m) \<noteq> []) (pilot_error ''Cannot assign comparative arms'')
     (Inr (js_sort (\<lambda>l r. mh_locale_compare env (aa_block_id l) (aa_block_id r))
       (concat (map (triplet_assignments env m)
         (js_sort (\<lambda>l r. mh_locale_compare env (fst l) (fst r)) (comparativeTriplets (mf_blocks m)))))))"

section \<open>Manifests\<close>

definition assignment_map :: "arm_assignment list \<Rightarrow> (string \<times> arm_assignment) list" where
  "assignment_map as = foldl (\<lambda>m a. map_put (aa_block_id a) a m) [] as"

fun assignment_errors :: "string set \<Rightarrow> string set \<Rightarrow> arm_assignment list \<Rightarrow> string list" where
  "assignment_errors comparative seen [] = []"
| "assignment_errors comparative seen (a # as) =
     note_if (aa_block_id a \<in> seen) (''duplicate arm assignment: '' @ aa_block_id a) @
     note_if (aa_block_id a \<notin> comparative) (''direct block must remain unassigned: '' @ aa_block_id a) @
     assignment_errors comparative (insert (aa_block_id a) seen) as"

definition capability_string :: "capability_class \<Rightarrow> string" where
  "capability_string c = (case c of CHEAP \<Rightarrow> ''cheap'' | STRONG \<Rightarrow> ''strong'')"

definition arm_string :: "pilot_arm \<Rightarrow> string" where
  "arm_string a = (case a of A_STRONG_BASELINE \<Rightarrow> ''A_STRONG_BASELINE'' | B_CHEAP_NO_EARLY_ESCALATION \<Rightarrow> ''B_CHEAP_NO_EARLY_ESCALATION''
     | C_ADAPTIVE_EARLY_ESCALATION \<Rightarrow> ''C_ADAPTIVE_EARLY_ESCALATION'')"

definition route_error :: "manifest_block list \<Rightarrow> string \<times> arm_assignment \<Rightarrow> string list" where
  "route_error comparative p = (case find (\<lambda>b. bk_block_id b = fst p) (rev comparative) of
      None \<Rightarrow> []
    | Some b \<Rightarrow> (case armCapabilities (aa_pilot_arm (snd p)) of (initial, final) \<Rightarrow>
        note_if (bk_capability_initial b \<noteq> initial \<or> bk_capability_final_expected b \<noteq> final)
          (arm_string (aa_pilot_arm (snd p)) @ '' route requires '' @
           (if initial = final then capability_string initial @ '' initial and final capability''
            else capability_string initial @ '' initial and '' @ capability_string final @ '' final capability'') @ '': '' @ fst p)))"

definition membership_error :: "(string \<times> arm_assignment) list \<Rightarrow> string \<times> manifest_block list \<Rightarrow> string list" where
  "membership_error assignments t =
     note_if (length (snd t) = length arms \<and>
         length (remdups (map (\<lambda>b. map_option aa_pilot_arm (map_of assignments (bk_block_id b))) (snd t))) \<noteq> length arms)
       (''comparative triplet must contain exact A/B/C membership: '' @ fst t)"

definition registry_map :: "pilot_binding list \<Rightarrow> (string \<times> pilot_binding) list" where
  "registry_map bs = foldl (\<lambda>m b. map_put (bd_binding_ref b) b m) [] bs"

definition unsafe_rate :: "tariff \<Rightarrow> dimension \<Rightarrow> bool" where
  "unsafe_rate t d = (case rateField d t of None \<Rightarrow> False | Some n \<Rightarrow> \<not> safe_int n \<or> n < 0)"

fun tariff_errors :: "(string \<times> pilot_binding) list \<Rightarrow> string set \<Rightarrow> tariff list \<Rightarrow> string list" where
  "tariff_errors registry seen [] = []"
| "tariff_errors registry seen (t # ts) =
     note_if (map_of registry (tf_binding_ref t) = None) (''pricing tariff must reference a registered binding: '' @ tf_binding_ref t) @
     note_if (tf_binding_ref t \<in> seen) (''pricing tariff binding appears more than once: '' @ tf_binding_ref t) @
     concat (map (\<lambda>d. note_if (unsafe_rate t d) (''pricing tariff contains unsafe integer: '' @ tf_binding_ref t)) dimensions) @
     tariff_errors registry (insert (tf_binding_ref t) seen) ts"

definition reviewer_errors :: "pilot_manifest \<Rightarrow> (string \<times> pilot_binding) list \<Rightarrow> string list" where
  "reviewer_errors m registry = (case map_of registry (mf_routing_reviewer_binding_ref m) of
      None \<Rightarrow> [''routing reviewer binding must be registered'']
    | Some b \<Rightarrow> note_if (bd_capability_class b \<noteq> mf_routing_reviewer_capability m)
        ''routing reviewer capability must match its binding'')"

definition pricing_errors :: "'a manifest_env_scheme \<Rightarrow> pilot_manifest \<Rightarrow> (string \<times> pilot_binding) list \<Rightarrow> string list" where
  "pricing_errors env m registry = (let s = mf_pricing_snapshot m in
     note_if (\<not> safe_int (ps_unit_scale s) \<or> ps_unit_scale s \<le> 0) ''pricing snapshot unit scale must be a positive safe integer'' @
     tariff_errors registry {} (ps_tariffs s) @
     concat (map (\<lambda>r. note_if (r \<notin> set (map tf_binding_ref (ps_tariffs s)))
       (''pricing snapshot lacks tariff for registered binding: '' @ r)) (map fst registry)))"

definition hash_errors :: "'a manifest_env_scheme \<Rightarrow> pilot_manifest \<Rightarrow> string list" where
  "hash_errors env m =
     note_if (30 < th_min_stratum_triplets_for_promotion (mf_stage_thresholds m))
       ''minimum stratum triplets cannot exceed stage three maximum'' @
     note_if (ps_pricing_snapshot_hash (mf_pricing_snapshot m) \<noteq> ue_snapshot_hash env (pricing_content.truncate (mf_pricing_snapshot m)))
       ''pricing snapshot hash does not match canonical snapshot content'' @
     note_if (mf_manifest_hash m \<noteq> mh_manifest_hash env (manifest_content.truncate m))
       ''manifest hash does not match canonical manifest content''"

definition manifestErrors :: "'a manifest_env_scheme \<Rightarrow> pilot_manifest \<Rightarrow> string list" where
  "manifestErrors env m =
     (let comparative = comparative_blocks (mf_blocks m); ids = set (map bk_block_id comparative);
          assignments = assignment_map (mf_arm_assignments m); registry = registry_map (mf_binding_registry m) in
      comparativeErrors env (mf_blocks m) @
      assignment_errors ids {} (mf_arm_assignments m) @
      concat (map (\<lambda>i. note_if (map_of assignments i = None) (''comparative block lacks arm assignment: '' @ i))
        (unique_first (map bk_block_id comparative))) @
      concat (map (route_error comparative) assignments) @
      concat (map (membership_error assignments) (comparativeTriplets (mf_blocks m))) @
      note_if (length registry \<noteq> length (mf_binding_registry m)) ''binding registry references must be unique'' @
      reviewer_errors m registry @ pricing_errors env m registry @ hash_errors env m)"

record manifest_verification =
  ver_ok :: bool
  ver_errors :: "string list"
  ver_comparative_block_count :: int

definition verifyManifest :: "'a manifest_env_scheme \<Rightarrow> pilot_manifest \<Rightarrow> manifest_verification" where
  "verifyManifest env m =
     (let errors = (if pilotManifestV3Schema m then manifestErrors env m else [''Pilot manifest V3 validation failed'']) in
      \<lparr>ver_ok = (errors = []), ver_errors = errors,
       ver_comparative_block_count = int (length (comparative_blocks (mf_blocks m)))\<rparr>)"

text \<open>The input has no assignments and no hashes of its own: those it carries are replaced.\<close>

definition freezeManifest :: "'a manifest_env_scheme \<Rightarrow> manifest_content \<Rightarrow> pilot_manifest result" where
  "freezeManifest env input =
     throw_if (comparativeErrors env (mf_blocks input) \<noteq> []) (pilot_error ''Cannot freeze manifest'')
     (let s = mf_pricing_snapshot input;
          snapshot = s\<lparr>ps_pricing_snapshot_hash := ue_snapshot_hash env (pricing_content.truncate s)\<rparr> in
      bindR (assignArms env input) (\<lambda>assignments.
      let draft = input\<lparr>mf_pricing_snapshot := snapshot, mf_arm_assignments := assignments\<rparr>;
          m = manifest_content.extend draft \<lparr>mf_manifest_hash = mh_manifest_hash env draft\<rparr> in
      throw_if (\<not> pilotManifestV3Schema m) (pilot_error ''Pilot manifest V3 validation failed'')
      (throw_if (\<not> ver_ok (verifyManifest env m)) (pilot_error ''Cannot freeze manifest'') (Inr m))))"

end
