(* ===== verification/JS_Number.thy ===== *)
theory JS_Number
  imports Prelude Complex_Main "HOL-Library.Log_Nat"
begin

text \<open>
  The arithmetic of JavaScript numbers on rationals: every operation gives the double nearest to the exact
  result, ties to even. Only normal doubles below \<open>2 ^ 1024\<close> occur in the program, so there is no overflow
  and no subnormal result. \<open>shortest_decimal\<close> is the number that \<open>JSON.stringify\<close> prints: the decimal
  with the fewest places among those that read back as the same double.
\<close>

section \<open>Rounding to a double\<close>

definition scale_by :: "int \<Rightarrow> rat \<Rightarrow> rat" where
  "scale_by e x = (if 0 \<le> e then x * 2 ^ nat e else x / 2 ^ nat (- e))"

definition half_even :: "rat \<Rightarrow> int" where
  "half_even x = (let n = \<lfloor>x\<rfloor>; r = x - of_int n in
     if r < 1 / 2 then n else if 1 / 2 < r then n + 1 else if even n then n else n + 1)"

text \<open>The exponent \<open>e\<close> with \<open>2 ^ 52 \<le> x / 2 ^ e < 2 ^ 53\<close>.\<close>

definition exponent_of :: "rat \<Rightarrow> int" where
  "exponent_of x = (case quotient_of x of (p, q) \<Rightarrow>
     let e = bitlen p - bitlen q - 53 in if scale_by (- e) x < 2 ^ 53 then e else e + 1)"

definition round_positive :: "rat \<Rightarrow> rat" where
  "round_positive x = (let e = exponent_of x in scale_by e (of_int (half_even (scale_by (- e) x))))"

definition fl :: "rat \<Rightarrow> rat" where
  "fl x = (if x = 0 then 0 else if x < 0 then - round_positive (- x) else round_positive x)"

definition js_div :: "rat \<Rightarrow> rat \<Rightarrow> rat" where
  "js_div x y = fl (x / y)"

definition js_sub :: "rat \<Rightarrow> rat \<Rightarrow> rat" where
  "js_sub x y = fl (x - y)"

definition js_mul :: "rat \<Rightarrow> rat \<Rightarrow> rat" where
  "js_mul x y = fl (x * y)"

section \<open>Decimals\<close>

fun shortest_from :: "nat \<Rightarrow> nat \<Rightarrow> rat \<Rightarrow> rat" where
  "shortest_from 0 k x = x"
| "shortest_from (Suc fuel) k x = (let d = of_int (half_even (x * 10 ^ k)) / 10 ^ k in
     if fl d = x then d else shortest_from fuel (Suc k) x)"

definition shortest_decimal :: "rat \<Rightarrow> rat" where
  "shortest_decimal x = shortest_from 400 0 x"

section \<open>Lemmas\<close>

lemma half_even_bounds: "of_int (half_even x) - 1 / 2 \<le> x" "x \<le> of_int (half_even x) + 1 / 2"
  by (auto simp: half_even_def Let_def) linarith+

lemma half_even_of_int [simp]: "half_even (of_int n) = n"
  by (simp add: half_even_def)

lemma half_even_mono_int: "of_int n \<le> x \<Longrightarrow> n \<le> half_even x"
  by (simp add: half_even_def Let_def flip: le_floor_iff)

lemma half_even_mono:
  assumes "x \<le> y"
  shows "half_even x \<le> half_even y"
proof (cases "\<lfloor>x\<rfloor> = \<lfloor>y\<rfloor>")
  case True
  then show ?thesis using assms by (auto simp: half_even_def Let_def)
next
  case False
  then have "\<lfloor>x\<rfloor> + 1 \<le> \<lfloor>y\<rfloor>" using floor_mono [OF assms] by linarith
  moreover have "half_even x \<le> \<lfloor>x\<rfloor> + 1" "\<lfloor>y\<rfloor> \<le> half_even y" by (auto simp: half_even_def Let_def)
  ultimately show ?thesis by linarith
qed

lemma scale_by_powi: "scale_by e x = x * 2 powi e"
  by (auto simp: scale_by_def power_int_def field_simps)

lemma scale_by_cancel: "scale_by e (scale_by (- e) x) = x" "scale_by (- e) (scale_by e x) = x"
  by (simp_all add: scale_by_powi power_int_minus)

lemma powi_pos: "0 < (2 :: rat) powi e"
  by simp

text \<open>The exponent puts the scaled number between \<open>2 ^ 52\<close> and \<open>2 ^ 53\<close>.\<close>

lemma exponent_bounds:
  assumes "0 < x"
  shows "2 ^ 52 * 2 powi exponent_of x \<le> x" and "x < 2 ^ 53 * 2 powi exponent_of x"
proof -
  obtain p q where pq: "quotient_of x = (p, q)" by (cases "quotient_of x")
  then have q: "0 < q" and x: "x = of_int p / of_int q" by (auto dest: quotient_of_denom_pos quotient_of_div)
  then have p: "0 < p" using assms by (simp add: zero_less_divide_iff)
  have pow: "(2 :: rat) powi int k = of_int (2 ^ k)" for k by (simp add: power_int_def)
  have bounds: "2 powi (bitlen n - 1) \<le> (of_int n :: rat)" "(of_int n :: rat) < 2 powi bitlen n" if n: "0 < n" for n
  proof -
    have b: "2 ^ nat (bitlen n - 1) \<le> n" "n < 2 ^ nat (bitlen n)" using bitlen_bounds [OF n] by auto
    have "0 < bitlen n" using n by (metis bitlen_eq_zero_iff bitlen_nonneg le_less linorder_not_less)
    then have "(2 :: rat) powi (bitlen n - 1) = of_int (2 ^ nat (bitlen n - 1))" "(2 :: rat) powi bitlen n = of_int (2 ^ nat (bitlen n))"
      using pow [of "nat (bitlen n - 1)"] pow [of "nat (bitlen n)"] by simp_all
    then show "2 powi (bitlen n - 1) \<le> (of_int n :: rat)" "(of_int n :: rat) < 2 powi bitlen n"
      using b by (metis of_int_le_iff) (metis b(2) of_int_less_iff \<open>2 powi bitlen n = of_int (2 ^ nat (bitlen n))\<close>)
  qed
  define d where "d = bitlen p - bitlen q"
  have lower: "2 powi (d - 1) \<le> x"
  proof -
    have "(2 :: rat) powi (d - 1) * of_int q \<le> 2 powi (d - 1) * 2 powi bitlen q" using bounds(2) [OF q] by simp
    also have "\<dots> = 2 powi (bitlen p - 1)" by (simp add: d_def flip: power_int_add)
    also have "\<dots> \<le> of_int p" by (rule bounds(1) [OF p])
    finally show ?thesis using q by (simp add: x field_simps)
  qed
  have upper: "x < 2 powi (d + 1)"
  proof -
    have "of_int p < (2 :: rat) powi bitlen p" by (rule bounds(2) [OF p])
    also have "\<dots> = 2 powi (d + 1) * 2 powi (bitlen q - 1)" by (simp add: d_def flip: power_int_add)
    also have "\<dots> \<le> 2 powi (d + 1) * of_int q" using bounds(1) [OF q] by simp
    finally show ?thesis using q by (simp add: x field_simps)
  qed
  have e: "exponent_of x = (if scale_by (- (d - 53)) x < 2 ^ 53 then d - 53 else d - 52)"
    by (simp add: exponent_of_def pq d_def Let_def)
  have scale: "scale_by (- (d - 53)) x < 2 ^ 53 \<longleftrightarrow> x < 2 powi d"
    by (simp add: scale_by_powi power_int_diff power_int_minus field_simps)
  have two: "(2 :: rat) ^ 52 * 2 powi (d - 53) = 2 powi (d - 1)" "(2 :: rat) ^ 53 * 2 powi (d - 53) = 2 powi d"
    "(2 :: rat) ^ 52 * 2 powi (d - 52) = 2 powi d" "(2 :: rat) ^ 53 * 2 powi (d - 52) = 2 powi (d + 1)"
    by (simp_all add: power_int_diff power_int_add)
  show "2 ^ 52 * 2 powi exponent_of x \<le> x" "x < 2 ^ 53 * 2 powi exponent_of x"
    unfolding e scale using lower upper two by (auto simp: not_less)
qed

lemma exponent_mono:
  assumes "0 < x" "x \<le> y"
  shows "exponent_of x \<le> exponent_of y"
proof (rule ccontr)
  assume "\<not> exponent_of x \<le> exponent_of y"
  then have "(2 :: rat) powi (exponent_of y + 1) \<le> 2 powi exponent_of x" by (intro power_int_increasing) auto
  then have "2 ^ 52 * 2 powi (exponent_of y + 1) \<le> (2 :: rat) ^ 52 * 2 powi exponent_of x" by simp
  then have "2 ^ 53 * 2 powi exponent_of y \<le> x" using exponent_bounds(1) [OF assms(1)] by (simp add: power_int_add)
  then show False using exponent_bounds(2) [of y] assms by simp
qed

lemma scaled_bounds:
  assumes "0 < x"
  shows "2 ^ 52 \<le> scale_by (- exponent_of x) x" "scale_by (- exponent_of x) x < 2 ^ 53"
  using exponent_bounds [OF assms] by (simp_all add: scale_by_powi power_int_minus field_simps)

lemma round_positive_bounds:
  assumes "0 < x"
  shows "2 ^ 52 * 2 powi exponent_of x \<le> round_positive x" "round_positive x \<le> 2 ^ 53 * 2 powi exponent_of x"
proof -
  have "(2 :: int) ^ 52 \<le> half_even (scale_by (- exponent_of x) x)"
    using half_even_mono [OF scaled_bounds(1) [OF assms]] half_even_of_int [of "2 ^ 52"] by simp
  moreover have "half_even (scale_by (- exponent_of x) x) \<le> (2 :: int) ^ 53"
    using half_even_mono [OF less_imp_le [OF scaled_bounds(2) [OF assms]]] half_even_of_int [of "2 ^ 53"] by simp
  ultimately have "2 ^ 52 \<le> (of_int (half_even (scale_by (- exponent_of x) x)) :: rat)"
    "(of_int (half_even (scale_by (- exponent_of x) x)) :: rat) \<le> 2 ^ 53"
    by (metis of_int_le_iff of_int_numeral of_int_power)+
  then show "2 ^ 52 * 2 powi exponent_of x \<le> round_positive x" "round_positive x \<le> 2 ^ 53 * 2 powi exponent_of x"
    by (simp_all add: round_positive_def Let_def scale_by_powi)
qed

lemma round_positive_pos: "0 < x \<Longrightarrow> 0 < round_positive x"
  by (rule order_less_le_trans [OF _ round_positive_bounds(1)]) simp_all

lemma round_positive_mono:
  assumes "0 < x" "x \<le> y"
  shows "round_positive x \<le> round_positive y"
proof (cases "exponent_of x = exponent_of y")
  case True
  have "scale_by (- exponent_of y) x \<le> scale_by (- exponent_of y) y" using assms(2) by (simp add: scale_by_powi)
  from half_even_mono [OF this] show ?thesis by (simp add: round_positive_def Let_def True scale_by_powi)
next
  case False
  then have "exponent_of x + 1 \<le> exponent_of y" using exponent_mono [OF assms] by simp
  then have "(2 :: rat) powi (exponent_of x + 1) \<le> 2 powi exponent_of y" by (intro power_int_increasing) auto
  then have "(2 :: rat) ^ 53 * 2 powi exponent_of x \<le> 2 ^ 52 * 2 powi exponent_of y" by (simp add: power_int_add)
  then show ?thesis using round_positive_bounds(2) [OF assms(1)] round_positive_bounds(1) [of y] assms by linarith
qed

text \<open>Rounding is monotone and odd, keeps the sign, and is exact on the integers up to \<open>2 ^ 53\<close> and their halves.\<close>

lemma fl_0 [simp]: "fl 0 = 0"
  by (simp add: fl_def)

lemma fl_minus: "fl (- x) = - fl x"
  by (simp add: fl_def)

lemma fl_sign: "0 < x \<Longrightarrow> 0 < fl x" "x < 0 \<Longrightarrow> fl x < 0"
  by (simp_all add: fl_def round_positive_pos)

lemma fl_mono:
  assumes "x \<le> y"
  shows "fl x \<le> fl y"
proof -
  consider "0 < x" | "y < 0" | "x \<le> 0" "0 \<le> y" using assms by linarith
  then show ?thesis
  proof cases
    case 1
    then show ?thesis using round_positive_mono [OF _ assms] assms by (simp add: fl_def)
  next
    case 2
    then show ?thesis using round_positive_mono [of "- y" "- x"] assms by (simp add: fl_def)
  next
    case 3
    have "fl x \<le> 0" "0 \<le> fl y" using 3 fl_sign [of x] fl_sign [of y] by (auto simp: order.order_iff_strict)
    then show ?thesis by simp
  qed
qed

lemma fl_dyadic_positive:
  assumes "0 < k" "k \<le> 2 ^ 53"
  shows "fl (scale_by e (of_int k)) = scale_by e (of_int k)"
proof -
  let ?x = "scale_by e (of_int k) :: rat"
  have pos: "0 < ?x" using assms(1) by (simp add: scale_by_powi)
  define d where "d = e - exponent_of ?x"
  have scaled: "scale_by (- exponent_of ?x) ?x = of_int k * 2 powi d"
    by (simp add: d_def scale_by_powi power_int_diff power_int_minus field_simps)
  have low: "(2 :: rat) ^ 52 \<le> of_int k * 2 powi d" using scaled_bounds(1) [OF pos] unfolding scaled .
  have "\<exists>n. of_int k * (2 :: rat) powi d = of_int n"
  proof (cases "0 \<le> d")
    case True
    then have "of_int k * (2 :: rat) powi d = of_int (k * 2 ^ nat d)" by (simp add: power_int_def)
    then show ?thesis by blast
  next
    case False
    then have "(2 :: rat) powi d \<le> 2 powi (- 1)" by (intro power_int_increasing) auto
    then have "of_int k * (2 :: rat) powi d \<le> of_int k * 2 powi (- 1)" using assms(1) by (intro mult_left_mono) auto
    then have "(2 :: rat) ^ 53 \<le> of_int k" using low by (simp add: power_int_minus)
    then have "(2 :: int) ^ 53 \<le> k" by (metis of_int_le_iff of_int_numeral of_int_power)
    then have k: "k = 2 ^ 53" using assms(2) by simp
    have "2 powi (- 1) \<le> (2 :: rat) powi d" using low unfolding k by (simp add: power_int_minus)
    then have "- 1 \<le> d" using power_int_strict_increasing [of d "- 1" "2 :: rat"] by linarith
    then have "d = - 1" using False by simp
    then have "of_int k * (2 :: rat) powi d = of_int (2 ^ 52)" unfolding k by (simp add: power_int_minus)
    then show ?thesis by blast
  qed
  then obtain n where "scale_by (- exponent_of ?x) ?x = of_int n" unfolding scaled by blast
  then have "round_positive ?x = scale_by (exponent_of ?x) (scale_by (- exponent_of ?x) ?x)"
    by (simp add: round_positive_def Let_def)
  then show ?thesis using pos by (simp add: fl_def scale_by_cancel)
qed

lemma fl_dyadic:
  assumes "\<bar>k\<bar> \<le> 2 ^ 53"
  shows "fl (scale_by e (of_int k)) = scale_by e (of_int k)"
proof -
  consider "k = 0" | "0 < k" | "k < 0" by linarith
  then show ?thesis
  proof cases
    case 1
    then show ?thesis by (simp add: scale_by_powi)
  next
    case 2
    then show ?thesis using assms by (intro fl_dyadic_positive) auto
  next
    case 3
    then have "fl (scale_by e (of_int (- k))) = scale_by e (of_int (- k))" using assms by (intro fl_dyadic_positive) auto
    then show ?thesis by (simp add: scale_by_powi fl_minus)
  qed
qed

lemma fl_int: "\<bar>k\<bar> \<le> 2 ^ 53 \<Longrightarrow> fl (of_int k) = of_int k"
  using fl_dyadic [of k 0] by (simp add: scale_by_def)

lemma fl_half: "\<bar>k\<bar> \<le> 2 ^ 53 \<Longrightarrow> fl (of_int k / 2) = of_int k / 2"
  using fl_dyadic [of k "- 1"] by (simp add: scale_by_def)

lemma fl_samples: "fl (1 / 10) = 3602879701896397 / 36028797018963968" "fl (9 / 10) = 8106479329266893 / 9007199254740992"
  "shortest_decimal (fl (123 / 1000)) = 123 / 1000"
  by code_simp+

end
