(* ===== verification/Pilot_Metrics.thy ===== *)
theory Pilot_Metrics
  imports Pilot_Observation Pilot_Manifest JS_Number
begin

text \<open>
  \<open>src/pilot/metrics.ts\<close>: which triplets of a manifest are comparable, the metrics of each arm over them, the
  paired comparisons, resource totals, completeness and the evidence hashes.

  An object indexed by arm, resource or token dimension is a function. The point metrics have no confidence
  intervals (\<open>None\<close>), which the evaluation fills in. Parameters (\<open>metrics_env\<close>): the canonical hashes.
\<close>

section \<open>Data\<close>

record interval =
  iv_lower :: rat
  iv_upper :: rat

record metric_sample =
  mt_numerator :: rat
  mt_denominator :: int
  mt_value :: "rat option"
  mt_confidence_interval :: "interval option"

record arm_metrics =
  am_final_acceptance_rate :: metric_sample
  am_escaped_material_defect_rate :: metric_sample
  am_escaped_high_defects :: metric_sample
  am_escaped_critical_defects :: metric_sample
  am_wall_time_per_accepted_block :: metric_sample
  am_observed_cost_per_accepted_block :: metric_sample
  am_estimated_cost_per_accepted_block :: metric_sample
  am_strong_tokens_observed_per_accepted_block :: metric_sample
  am_strong_tokens_estimated_per_accepted_block :: metric_sample
  am_all_role_tokens_observed_per_accepted_block :: metric_sample
  am_all_role_tokens_estimated_per_accepted_block :: metric_sample
  am_first_pass_accept_rate :: metric_sample
  am_accept_after_one_repair_rate :: metric_sample
  am_escalation_rate :: metric_sample
  am_parent_rework_block_rate :: metric_sample
  am_parent_rework_production_line_share :: metric_sample

record paired_quality =
  pq_baseline_successes :: int
  pq_candidate_successes :: int
  pq_both_success :: int
  pq_baseline_only_success :: int
  pq_candidate_only_success :: int
  pq_neither_success :: int
  pq_denominator :: int
  pq_difference :: "rat option"
  pq_confidence_interval :: "interval option"

record paired_metric =
  pm_baseline_value :: "rat option"
  pm_candidate_value :: "rat option"
  pm_relative_improvement :: "rat option"
  pm_confidence_interval :: "interval option"

record paired_comparisons =
  pc_final_acceptance :: paired_quality
  pc_final_quality :: paired_quality
  pc_parent_rework_block_rate :: paired_metric
  pc_parent_rework_production_line_share :: paired_metric
  pc_wall_time_per_accepted_block :: paired_metric
  pc_observed_cost_per_accepted_block :: paired_metric
  pc_estimated_cost_per_accepted_block :: paired_metric
  pc_strong_tokens_observed_per_accepted_block :: paired_metric
  pc_strong_tokens_estimated_per_accepted_block :: paired_metric
  pc_all_role_tokens_observed_per_accepted_block :: paired_metric
  pc_all_role_tokens_estimated_per_accepted_block :: paired_metric

record evaluation_metrics =
  ev_by_arm :: "pilot_arm \<Rightarrow> arm_metrics"
  ev_paired_comparisons :: paired_comparisons

datatype resource_key = WALL_TIME_SECONDS | COST_OBSERVED | COST_ESTIMATED | STRONG_TOKENS_OBSERVED | STRONG_TOKENS_ESTIMATED
  | ALL_ROLE_TOKENS_OBSERVED | ALL_ROLE_TOKENS_ESTIMATED

record resource_datum =
  rd_value :: "rat option"
  rd_complete :: bool
  rd_total :: int

record resource_measure =
  rm_known_sum :: rat
  rm_complete :: int
  rm_total :: int
  rm_completeness_ratio :: "rat option"
  rm_complete_value :: "rat option"

type_synonym resource_totals = "resource_key \<Rightarrow> resource_measure"

record exclusion_member =
  em_block_ids :: "string list"
  em_resources :: resource_totals

record evaluation_exclusion =
  ex_pair_or_triplet_id :: string
  ex_reason_codes :: "string list"
  ex_members_by_arm :: "pilot_arm \<Rightarrow> exclusion_member"
  ex_operational_resources :: resource_totals

record metric_triplet =
  tp_pair_or_triplet_id :: string
  tp_matching_stratum :: string
  tp_members :: "pilot_arm \<Rightarrow> observation"

record operational_totals =
  ot_comparative_by_arm :: "pilot_arm \<Rightarrow> resource_totals"
  ot_direct_to_strong :: resource_totals

record evaluation_denominators =
  dn_manifest_blocks :: int
  dn_comparative_blocks :: int
  dn_candidate_triplets :: int
  dn_admitted_triplets :: int
  dn_excluded_triplets :: int
  dn_comparable_blocks_by_arm :: "pilot_arm \<Rightarrow> int"
  dn_accepted_blocks_by_arm :: "pilot_arm \<Rightarrow> int"
  dn_quality_complete_blocks_by_arm :: "pilot_arm \<Rightarrow> int"

datatype token_dimension = TOKEN_DIMENSION dimension | TOKEN_TOTAL

type_synonym arm_completeness = "pilot_arm \<Rightarrow> rat option"

record evaluation_completeness =
  cp_observed_cost_by_arm :: arm_completeness
  cp_estimated_cost_by_arm :: arm_completeness
  cp_strong_tokens_observed :: "token_dimension \<Rightarrow> arm_completeness"
  cp_strong_tokens_estimated :: "token_dimension \<Rightarrow> arm_completeness"
  cp_wall_time_by_arm :: arm_completeness

record stratum_support =
  ss_matching_stratum :: string
  ss_candidate_triplets :: int
  ss_admitted_triplets :: int

record pilot_metrics =
  px_metrics :: evaluation_metrics
  px_exclusions :: "evaluation_exclusion list"
  px_operational_totals :: operational_totals
  px_denominators :: evaluation_denominators
  px_completeness :: evaluation_completeness
  px_observation_set_hash :: string
  px_quality_evidence_hash :: string
  px_quality_evidence_count :: rat
  px_late_quality_evidence_count :: rat
  px_integrity_reasons :: "string list"
  px_strata_support :: "stratum_support list"
  px_core_triplets :: "metric_triplet list"
  px_population_ids :: "resource_key \<Rightarrow> string list"

record quality_owner =
  qo_block_id :: string
  qo_arm :: "pilot_arm option"
  qo_task_id :: string
  qo_pair_or_triplet_id :: string

datatype quality_record = DEFECT quality_owner post_accept_defect | LATE_EVIDENCE quality_owner int | WINDOW_CLOSED quality_owner

record metrics_env = manifest_env +
  mx_observation_hash :: "observation \<Rightarrow> string"
  mx_observations_hash :: "observation list \<Rightarrow> string"
  mx_quality_hash :: "quality_record \<Rightarrow> string"
  mx_quality_set_hash :: "quality_record list \<Rightarrow> string"

section \<open>Arithmetic\<close>

abbreviation metric_arithmetic :: error where
  "metric_arithmetic \<equiv> Error RANGE_ERROR ''SAFE_METRIC_ARITHMETIC_INVALID''"

definition safe_number :: "rat \<Rightarrow> bool" where
  "safe_number x = (x = of_int \<lfloor>x\<rfloor> \<and> safe_int \<lfloor>x\<rfloor>)"

definition integer_sum_step :: "rat \<Rightarrow> rat \<Rightarrow> rat result" where
  "integer_sum_step acc x =
     throw_if (\<not> safe_number x \<or> x < 0 \<or> of_int max_safe_integer < acc + x) metric_arithmetic (Inr (acc + x))"

definition checkedIntegerSum :: "rat list \<Rightarrow> rat result" where
  "checkedIntegerSum values = foldR integer_sum_step 0 values"

definition decimalParts :: "rat \<Rightarrow> rat result" where
  "decimalParts x = throw_if (x < 0 \<or> of_int max_safe_integer < x) metric_arithmetic (Inr (shortest_decimal x))"

definition exactDecimalSum :: "rat list \<Rightarrow> rat result" where
  "exactDecimalSum values = bindR (mapR decimalParts values) (\<lambda>parts.
     let sum = fl (sum_list parts) in throw_if (of_int max_safe_integer < sum) metric_arithmetic (Inr sum))"

text \<open>An object built from a list of its keys, when the values may throw.\<close>

definition object_of :: "'k list \<Rightarrow> ('k \<Rightarrow> 'v result) \<Rightarrow> ('k \<Rightarrow> 'v) result" where
  "object_of keys f = bindR (mapR f keys) (\<lambda>vs. Inr (\<lambda>k. the (map_of (zip keys vs) k)))"

section \<open>Resources\<close>

definition resource_keys :: "resource_key list" where
  "resource_keys = [WALL_TIME_SECONDS, COST_OBSERVED, COST_ESTIMATED, STRONG_TOKENS_OBSERVED, STRONG_TOKENS_ESTIMATED,
     ALL_ROLE_TOKENS_OBSERVED, ALL_ROLE_TOKENS_ESTIMATED]"

definition has_operations :: "observation \<Rightarrow> bool" where
  "has_operations b = (0 < sm_operations (ob_total_usage b))"

definition operation_datum :: "bool \<Rightarrow> int option \<Rightarrow> bool \<Rightarrow> resource_datum" where
  "operation_datum has value whole =
     \<lparr>rd_value = (if has then map_option of_int value else Some 0), rd_complete = (has \<and> value \<noteq> None \<and> whole),
      rd_total = (if has then 1 else 0)\<rparr>"

definition resourceDatum :: "observation \<Rightarrow> resource_key \<Rightarrow> resource_datum" where
  "resourceDatum b key = (let has = has_operations b in case key of
      WALL_TIME_SECONDS \<Rightarrow> \<lparr>rd_value = ob_wall_time_seconds b, rd_complete = (ob_wall_time_seconds b \<noteq> None), rd_total = 1\<rparr>
    | COST_OBSERVED \<Rightarrow> operation_datum has (ob_cost_observed b) (ob_cost_observed_completeness b = 1)
    | COST_ESTIMATED \<Rightarrow> operation_datum has (ob_cost_estimated b) (ob_cost_estimated_completeness b = 1)
    | STRONG_TOKENS_OBSERVED \<Rightarrow> (let t = st_total (ob_strong_tokens_observed b) in
        operation_datum has (am_value t) (am_completeness_ratio t = 1))
    | STRONG_TOKENS_ESTIMATED \<Rightarrow> (let t = st_total (ob_strong_tokens_estimated b) in
        operation_datum has (am_value t) (am_completeness_ratio t = 1))
    | ALL_ROLE_TOKENS_OBSERVED \<Rightarrow> operation_datum has (sm_observed_tokens (ob_total_usage b)) True
    | ALL_ROLE_TOKENS_ESTIMATED \<Rightarrow> operation_datum has (sm_estimated_tokens (ob_total_usage b)) True)"

definition hasZeroOperationEconomicValue :: "observation \<Rightarrow> bool" where
  "hasZeroOperationEconomicValue b =
     (sm_operations (ob_total_usage b) = 0 \<and>
      list_ex (\<lambda>v. v \<noteq> None \<and> v \<noteq> Some 0)
        [ob_cost_observed b, ob_cost_estimated b, am_value (st_total (ob_strong_tokens_observed b)),
         am_value (st_total (ob_strong_tokens_estimated b)), sm_observed_tokens (ob_total_usage b),
         sm_estimated_tokens (ob_total_usage b)])"

definition sum_for :: "resource_key \<Rightarrow> rat list \<Rightarrow> rat result" where
  "sum_for key values = (if key = WALL_TIME_SECONDS then exactDecimalSum values else checkedIntegerSum values)"

definition resourceMeasure :: "resource_datum list \<Rightarrow> resource_key \<Rightarrow> resource_measure result" where
  "resourceMeasure data key =
     (let known = List.map_filter rd_value data;
          complete = int (length (filter (\<lambda>d. rd_total d = 1 \<and> rd_complete d) data));
          whole = sum_list (map rd_total data) in
      bindR (sum_for key known) (\<lambda>sum.
      Inr \<lparr>rm_known_sum = sum, rm_complete = complete, rm_total = whole,
           rm_completeness_ratio = (if whole = 0 then None else Some (js_div (of_int complete) (of_int whole))),
           rm_complete_value = (if complete = whole then Some sum else None)\<rparr>))"

definition resourceTotals :: "observation list \<Rightarrow> resource_totals result" where
  "resourceTotals obs = object_of resource_keys (\<lambda>key. resourceMeasure (map (\<lambda>b. resourceDatum b key) obs) key)"

section \<open>Evidence hashes\<close>

fun compare_tuples :: "string list \<Rightarrow> string list \<Rightarrow> int" where
  "compare_tuples (x # xs) (y # ys) = (let c = compare_code_units x y in if c \<noteq> 0 then c else compare_tuples xs ys)"
| "compare_tuples _ _ = 0"

definition arm_or_empty :: "observation \<Rightarrow> string" where
  "arm_or_empty b = (case ob_pilot_arm b of None \<Rightarrow> [] | Some a \<Rightarrow> arm_string a)"

definition observation_tuple :: "(observation \<Rightarrow> string) \<Rightarrow> observation \<Rightarrow> string list" where
  "observation_tuple hash b = [ob_block_id b, arm_or_empty b, ob_task_id b, ob_pair_or_triplet_id b, hash b]"

definition ordered_observations :: "(observation \<Rightarrow> string) \<Rightarrow> observation list \<Rightarrow> observation list" where
  "ordered_observations hash obs = js_sort (\<lambda>l r. compare_tuples (observation_tuple hash l) (observation_tuple hash r)) obs"

definition observationSetHash :: "'a metrics_env_scheme \<Rightarrow> observation list \<Rightarrow> string" where
  "observationSetHash env obs = mx_observations_hash env (ordered_observations (mx_observation_hash env) obs)"

definition owner_of :: "observation \<Rightarrow> quality_owner" where
  "owner_of b = \<lparr>qo_block_id = ob_block_id b, qo_arm = ob_pilot_arm b, qo_task_id = ob_task_id b,
     qo_pair_or_triplet_id = ob_pair_or_triplet_id b\<rparr>"

definition defect_records :: "observation list \<Rightarrow> quality_record list" where
  "defect_records obs = concat (map (\<lambda>b. map (DEFECT (owner_of b)) (ob_post_accept_defects b)) obs)"

definition late_records :: "observation list \<Rightarrow> quality_record list" where
  "late_records obs = map (\<lambda>b. LATE_EVIDENCE (owner_of b) (ob_late_quality_evidence_count b))
     (filter (\<lambda>b. ob_late_quality_evidence_count b \<noteq> 0) obs)"

definition closure_records :: "observation list \<Rightarrow> quality_record list" where
  "closure_records obs = map (\<lambda>b. WINDOW_CLOSED (owner_of b))
     (filter (\<lambda>b. ob_final_outcome b = OUT_ACCEPTED \<and> ob_post_acceptance_window_closed b) obs)"

definition late_counts :: "observation list \<Rightarrow> rat list" where
  "late_counts obs = map (\<lambda>b. of_int (ob_late_quality_evidence_count b)) obs"

definition qualityEvidence :: "'a metrics_env_scheme \<Rightarrow> observation list \<Rightarrow> (string \<times> rat) result" where
  "qualityEvidence env obs =
     (let records = defect_records obs @ late_records obs @ closure_records obs;
          ordered = js_sort (\<lambda>l r. compare_code_units (mx_quality_hash env l) (mx_quality_hash env r)) records in
      bindR (checkedIntegerSum ([of_nat (length (defect_records obs)), of_nat (length (closure_records obs))] @ late_counts obs)) (\<lambda>count.
      Inr (mx_quality_set_hash env ordered, count)))"

section \<open>Admission of triplets\<close>

definition baseIdentityMatches :: "pilot_manifest \<Rightarrow> manifest_block \<Rightarrow> observation \<Rightarrow> bool" where
  "baseIdentityMatches m k b =
     (ob_pilot_id b = mf_pilot_id m \<and> ob_manifest_hash b = mf_manifest_hash m \<and> ob_block_id b = bk_block_id k \<and>
      ob_task_id b = bk_task_id k \<and> ob_matching_stratum b = bk_matching_stratum k \<and>
      ob_pair_or_triplet_id b = bk_pair_or_triplet_id k \<and> ob_case_fingerprint b = bk_case_fingerprint k \<and>
      ob_complexity_class b = bk_complexity_class k \<and> ob_risk_class b = bk_risk_class k \<and>
      ob_changed_line_band b = bk_changed_line_band k \<and> ob_cheap_eligible b = bk_cheap_eligible k \<and>
      ob_comparative_eligible b = bk_comparative_eligible k)"

definition identityMatches :: "pilot_manifest \<Rightarrow> manifest_block \<Rightarrow> pilot_arm \<Rightarrow> observation \<Rightarrow> bool" where
  "identityMatches m k arm b = (baseIdentityMatches m k b \<and> ob_pilot_arm b = Some arm \<and> ob_comparative_eligible b)"

definition observation_reasons :: "pilot_manifest \<Rightarrow> manifest_block \<Rightarrow> pilot_arm \<Rightarrow> observation \<Rightarrow> string list" where
  "observation_reasons m k arm b =
     note_if (\<not> identityMatches m k arm b) ''manifest_identity_mismatch'' @
     (if \<not> ob_valid_history b \<or> ob_final_outcome b = OUT_INVALID then ''invalid_event_history'' # ob_invalid_reason_codes b else []) @
     note_if (hasZeroOperationEconomicValue b) ''zero_operation_economic_value'' @
     note_if (ob_final_outcome b = OUT_BLOCKED) ''blocked_observation'' @
     note_if (ob_final_outcome b \<noteq> OUT_ACCEPTED \<and> ob_final_outcome b \<noteq> OUT_FAILED) ''nonterminal_observation'' @
     note_if (ob_final_outcome b = OUT_ACCEPTED \<and> \<not> ob_post_acceptance_window_closed b) ''quality_window_open''"

definition exclusionReasons :: "pilot_manifest \<Rightarrow> manifest_block \<Rightarrow> pilot_arm \<Rightarrow> observation list \<Rightarrow> string list" where
  "exclusionReasons m k arm matches =
     sortedUnique (note_if (matches = []) ''missing_observation'' @ note_if (1 < length matches) ''duplicate_observation'' @
       concat (map (observation_reasons m k arm) matches))"

definition assigned_arm_of :: "pilot_manifest \<Rightarrow> string \<Rightarrow> pilot_arm option" where
  "assigned_arm_of m i = map_option aa_pilot_arm (find (\<lambda>a. aa_block_id a = i) (rev (mf_arm_assignments m)))"

definition candidate_groups :: "pilot_manifest \<Rightarrow> string set option \<Rightarrow> (string \<times> manifest_block list) list" where
  "candidate_groups m selected =
     js_sort (\<lambda>l r. compare_code_units (fst l) (fst r))
       (group_by bk_pair_or_triplet_id
         (filter (\<lambda>k. bk_comparative_eligible k \<and> (case selected of None \<Rightarrow> True | Some ids \<Rightarrow> bk_pair_or_triplet_id k \<in> ids))
           (mf_blocks m)))"

definition member_block :: "pilot_manifest \<Rightarrow> manifest_block list \<Rightarrow> pilot_arm \<Rightarrow> manifest_block result" where
  "member_block m blocks arm = (case find (\<lambda>k. assigned_arm_of m (bk_block_id k) = Some arm) blocks of
      None \<Rightarrow> Inl (Error TYPE_ERROR ''block is undefined'') | Some k \<Rightarrow> Inr k)"

definition matches_of :: "observation list \<Rightarrow> manifest_block \<Rightarrow> observation list" where
  "matches_of obs k = filter (\<lambda>b. ob_block_id b = bk_block_id k) obs"

definition triplet_reasons ::
    "pilot_manifest \<Rightarrow> observation list \<Rightarrow> (pilot_arm \<Rightarrow> manifest_block) \<Rightarrow> string list" where
  "triplet_reasons m obs byArm =
     sortedUnique (concat (map (\<lambda>arm. exclusionReasons m (byArm arm) arm (matches_of obs (byArm arm))) arms))"

datatype admission = ADMITTED metric_triplet | EXCLUDED evaluation_exclusion

definition exclusion_of ::
    "observation list \<Rightarrow> string \<Rightarrow> string list \<Rightarrow> (pilot_arm \<Rightarrow> manifest_block) \<Rightarrow> admission result" where
  "exclusion_of obs k reasons byArm =
     bindR (object_of arms (\<lambda>arm. let matches = matches_of obs (byArm arm) in
       bindR (resourceTotals matches) (\<lambda>r. Inr \<lparr>em_block_ids = sort_strings (map ob_block_id matches), em_resources = r\<rparr>))) (\<lambda>members.
     bindR (resourceTotals (concat (map (\<lambda>arm. matches_of obs (byArm arm)) arms))) (\<lambda>operational.
     Inr (EXCLUDED \<lparr>ex_pair_or_triplet_id = k, ex_reason_codes = reasons, ex_members_by_arm = members,
       ex_operational_resources = operational\<rparr>)))"

definition admit_group :: "pilot_manifest \<Rightarrow> observation list \<Rightarrow> string \<times> manifest_block list \<Rightarrow> (string \<times> admission) result" where
  "admit_group m obs g =
     bindR (object_of arms (member_block m (snd g))) (\<lambda>byArm.
     let reasons = triplet_reasons m obs byArm; stratum = bk_matching_stratum (hd (snd g)) in
     bindR (if reasons = [] then Inr (ADMITTED \<lparr>tp_pair_or_triplet_id = fst g, tp_matching_stratum = stratum,
           tp_members = (\<lambda>arm. hd (matches_of obs (byArm arm)))\<rparr>)
         else exclusion_of obs (fst g) reasons byArm) (\<lambda>a. Inr (stratum, a)))"

definition admitted_of :: "(string \<times> admission) list \<Rightarrow> metric_triplet list" where
  "admitted_of as = List.map_filter (\<lambda>a. case snd a of ADMITTED t \<Rightarrow> Some t | EXCLUDED x \<Rightarrow> None) as"

definition excluded_of :: "(string \<times> admission) list \<Rightarrow> evaluation_exclusion list" where
  "excluded_of as = List.map_filter (\<lambda>a. case snd a of ADMITTED t \<Rightarrow> None | EXCLUDED x \<Rightarrow> Some x) as"

definition support_of :: "(string \<times> admission) list \<Rightarrow> string \<Rightarrow> stratum_support" where
  "support_of as s = \<lparr>ss_matching_stratum = s, ss_candidate_triplets = int (length (filter (\<lambda>a. fst a = s) as)),
     ss_admitted_triplets = int (length (filter (\<lambda>a. fst a = s \<and> (case snd a of ADMITTED t \<Rightarrow> True | EXCLUDED x \<Rightarrow> False)) as))\<rparr>"

section \<open>Metrics of an arm\<close>

definition metric_of :: "rat \<Rightarrow> int \<Rightarrow> bool \<Rightarrow> metric_sample" where
  "metric_of numerator denominator whole = \<lparr>mt_numerator = numerator, mt_denominator = denominator,
     mt_value = (if whole \<and> 0 < denominator then Some (js_div numerator (of_int denominator)) else None),
     mt_confidence_interval = None\<rparr>"

definition count_where :: "('a \<Rightarrow> bool) \<Rightarrow> 'a list \<Rightarrow> rat" where
  "count_where P xs = of_nat (length (filter P xs))"

definition qualitySuccess :: "observation \<Rightarrow> bool" where
  "qualitySuccess b = (ob_final_accepted b \<and> \<not> list_ex pa_material (ob_post_accept_defects b))"

definition escaped :: "(post_accept_defect \<Rightarrow> bool) \<Rightarrow> observation list \<Rightarrow> rat result" where
  "escaped P obs = checkedIntegerSum (map (\<lambda>b. if ob_final_accepted b then count_where P (ob_post_accept_defects b) else 0) obs)"

definition parent_reworked :: "observation \<Rightarrow> bool" where
  "parent_reworked b = (0 < ob_rework_lines_production b \<or> 0 < ob_rework_lines_tests b \<or> 0 < ob_rework_lines_docs b \<or>
     0 < ob_rework_files_production b \<or> 0 < ob_rework_files_tests b \<or> 0 < ob_rework_files_docs b)"

definition tripletPopulation :: "metric_triplet list \<Rightarrow> resource_key \<Rightarrow> metric_triplet list" where
  "tripletPopulation ts key = filter (\<lambda>t. list_all (\<lambda>arm. rd_complete (resourceDatum (tp_members t arm) key)) arms) ts"

definition populationMetric :: "metric_triplet list \<Rightarrow> pilot_arm \<Rightarrow> resource_key \<Rightarrow> metric_sample result" where
  "populationMetric population arm key =
     (let obs = map (\<lambda>t. tp_members t arm) population in
      bindR (sum_for key (map (\<lambda>b. case rd_value (resourceDatum b key) of None \<Rightarrow> 0 | Some v \<Rightarrow> v) obs)) (\<lambda>numerator.
      Inr (metric_of numerator (int (length (filter ob_final_accepted obs))) True)))"

definition arm_values :: "metric_triplet list \<Rightarrow> pilot_arm \<Rightarrow> observation list" where
  "arm_values ts arm = map (\<lambda>t. tp_members t arm) ts"

definition armMetrics :: "metric_triplet list \<Rightarrow> pilot_arm \<Rightarrow> arm_metrics result" where
  "armMetrics core arm =
     (let values = arm_values core arm; n = int (length values); accepted = int (length (filter ob_final_accepted values));
          share = (\<lambda>P. metric_of (count_where P values) n True);
          population = (\<lambda>key. populationMetric (tripletPopulation core key) arm key) in
      bindR (escaped pa_material values) (\<lambda>material.
      bindR (escaped (\<lambda>d. pa_severity d = SEV_HIGH) values) (\<lambda>high.
      bindR (escaped (\<lambda>d. pa_severity d = SEV_CRITICAL) values) (\<lambda>critical.
      bindR (resourceTotals values) (\<lambda>totals.
      bindR (checkedIntegerSum (map (\<lambda>b. of_int (ob_rework_lines_production b)) values)) (\<lambda>rework_lines.
      bindR (checkedIntegerSum (map (\<lambda>b. of_int (ob_changed_lines_production b)) values)) (\<lambda>changed_lines.
      bindR (population COST_OBSERVED) (\<lambda>co. bindR (population COST_ESTIMATED) (\<lambda>ce.
      bindR (population STRONG_TOKENS_OBSERVED) (\<lambda>so. bindR (population STRONG_TOKENS_ESTIMATED) (\<lambda>se.
      bindR (population ALL_ROLE_TOKENS_OBSERVED) (\<lambda>ao. bindR (population ALL_ROLE_TOKENS_ESTIMATED) (\<lambda>ae.
      let wall = totals WALL_TIME_SECONDS in
      Inr \<lparr>am_final_acceptance_rate = metric_of (of_int accepted) n True,
        am_escaped_material_defect_rate = metric_of material accepted True,
        am_escaped_high_defects = metric_of high n True,
        am_escaped_critical_defects = metric_of critical n True,
        am_wall_time_per_accepted_block = metric_of (rm_known_sum wall) accepted (rm_complete wall = rm_total wall),
        am_observed_cost_per_accepted_block = co, am_estimated_cost_per_accepted_block = ce,
        am_strong_tokens_observed_per_accepted_block = so, am_strong_tokens_estimated_per_accepted_block = se,
        am_all_role_tokens_observed_per_accepted_block = ao, am_all_role_tokens_estimated_per_accepted_block = ae,
        am_first_pass_accept_rate = share ob_first_pass_accept,
        am_accept_after_one_repair_rate = share ob_accept_after_one_repair,
        am_escalation_rate = share ob_escalated,
        am_parent_rework_block_rate = share parent_reworked,
        am_parent_rework_production_line_share = metric_of rework_lines \<lfloor>changed_lines\<rfloor> True\<rparr>)))))))))))))"

section \<open>Paired comparisons\<close>

definition pairedQuality :: "metric_triplet list \<Rightarrow> (observation \<Rightarrow> bool) \<Rightarrow> paired_quality" where
  "pairedQuality ts P =
     (let baseline = (\<lambda>t. P (tp_members t A_STRONG_BASELINE)); candidate = (\<lambda>t. P (tp_members t C_ADAPTIVE_EARLY_ESCALATION));
          both = int (length (filter (\<lambda>t. baseline t \<and> candidate t) ts));
          baseline_only = int (length (filter (\<lambda>t. baseline t \<and> \<not> candidate t) ts));
          candidate_only = int (length (filter (\<lambda>t. \<not> baseline t \<and> candidate t) ts));
          neither = int (length (filter (\<lambda>t. \<not> baseline t \<and> \<not> candidate t) ts)); n = int (length ts) in
      \<lparr>pq_baseline_successes = both + baseline_only, pq_candidate_successes = both + candidate_only, pq_both_success = both,
       pq_baseline_only_success = baseline_only, pq_candidate_only_success = candidate_only, pq_neither_success = neither,
       pq_denominator = n,
       pq_difference = (if n = 0 then None
         else Some (js_div (of_int ((both + candidate_only) - (both + baseline_only))) (of_int n))),
       pq_confidence_interval = None\<rparr>)"

definition relativeImprovement :: "rat option \<Rightarrow> rat option \<Rightarrow> rat option" where
  "relativeImprovement baseline candidate = (case (baseline, candidate) of
      (Some b, Some c) \<Rightarrow> if b = 0 then (if c = 0 then Some 0 else None) else Some (js_div (js_sub b c) b)
    | _ \<Rightarrow> None)"

definition pairedMetric :: "(pilot_arm \<Rightarrow> arm_metrics) \<Rightarrow> (arm_metrics \<Rightarrow> metric_sample) \<Rightarrow> paired_metric" where
  "pairedMetric byArm f =
     (let baseline = mt_value (f (byArm A_STRONG_BASELINE)); candidate = mt_value (f (byArm C_ADAPTIVE_EARLY_ESCALATION)) in
      \<lparr>pm_baseline_value = baseline, pm_candidate_value = candidate,
       pm_relative_improvement = relativeImprovement baseline candidate, pm_confidence_interval = None\<rparr>)"

definition pairedComparisons :: "metric_triplet list \<Rightarrow> (pilot_arm \<Rightarrow> arm_metrics) \<Rightarrow> paired_comparisons" where
  "pairedComparisons core byArm =
     \<lparr>pc_final_acceptance = pairedQuality core ob_final_accepted, pc_final_quality = pairedQuality core qualitySuccess,
      pc_parent_rework_block_rate = pairedMetric byArm am_parent_rework_block_rate,
      pc_parent_rework_production_line_share = pairedMetric byArm am_parent_rework_production_line_share,
      pc_wall_time_per_accepted_block = pairedMetric byArm am_wall_time_per_accepted_block,
      pc_observed_cost_per_accepted_block = pairedMetric byArm am_observed_cost_per_accepted_block,
      pc_estimated_cost_per_accepted_block = pairedMetric byArm am_estimated_cost_per_accepted_block,
      pc_strong_tokens_observed_per_accepted_block = pairedMetric byArm am_strong_tokens_observed_per_accepted_block,
      pc_strong_tokens_estimated_per_accepted_block = pairedMetric byArm am_strong_tokens_estimated_per_accepted_block,
      pc_all_role_tokens_observed_per_accepted_block = pairedMetric byArm am_all_role_tokens_observed_per_accepted_block,
      pc_all_role_tokens_estimated_per_accepted_block = pairedMetric byArm am_all_role_tokens_estimated_per_accepted_block\<rparr>"

section \<open>Completeness and integrity\<close>

definition share_of :: "('a \<Rightarrow> bool) \<Rightarrow> 'a list \<Rightarrow> rat option" where
  "share_of P xs = (if xs = [] then None else Some (js_div (count_where P xs) (of_nat (length xs))))"

definition completenessByArm :: "metric_triplet list \<Rightarrow> resource_key \<Rightarrow> arm_completeness" where
  "completenessByArm ts key arm = share_of (\<lambda>t. rd_complete (resourceDatum (tp_members t arm) key)) ts"

definition dimension_measure :: "strong_token_aggregate \<Rightarrow> token_dimension \<Rightarrow> aggregate_measure" where
  "dimension_measure s d = (case d of TOKEN_TOTAL \<Rightarrow> st_total s
     | TOKEN_DIMENSION INPUT \<Rightarrow> st_input s | TOKEN_DIMENSION OUTPUT \<Rightarrow> st_output s
     | TOKEN_DIMENSION CACHED_INPUT \<Rightarrow> st_cached_input s | TOKEN_DIMENSION REASONING \<Rightarrow> st_reasoning s)"

definition dimensionCompleteness ::
    "metric_triplet list \<Rightarrow> (observation \<Rightarrow> strong_token_aggregate) \<Rightarrow> token_dimension \<Rightarrow> arm_completeness" where
  "dimensionCompleteness ts kind d arm =
     share_of (\<lambda>t. let a = dimension_measure (kind (tp_members t arm)) d in am_value a \<noteq> None \<and> am_completeness_ratio a = 1) ts"

definition completeness_of :: "metric_triplet list \<Rightarrow> evaluation_completeness" where
  "completeness_of core = \<lparr>cp_observed_cost_by_arm = completenessByArm core COST_OBSERVED,
     cp_estimated_cost_by_arm = completenessByArm core COST_ESTIMATED,
     cp_strong_tokens_observed = dimensionCompleteness core ob_strong_tokens_observed,
     cp_strong_tokens_estimated = dimensionCompleteness core ob_strong_tokens_estimated,
     cp_wall_time_by_arm = completenessByArm core WALL_TIME_SECONDS\<rparr>"

definition integrity_of :: "pilot_manifest \<Rightarrow> observation \<Rightarrow> string list" where
  "integrity_of m b = (case find (\<lambda>k. bk_block_id k = ob_block_id b) (rev (mf_blocks m)) of
      None \<Rightarrow> [''unknown_manifest_block'']
    | Some k \<Rightarrow>
        note_if (\<not> baseIdentityMatches m k b \<or> ob_pilot_arm b \<noteq> assigned_arm_of m (bk_block_id k)) ''manifest_identity_mismatch'' @
        (if \<not> ob_valid_history b \<or> ob_final_outcome b = OUT_INVALID then ''invalid_event_history'' # ob_invalid_reason_codes b else []) @
        note_if (hasZeroOperationEconomicValue b) ''zero_operation_economic_value'')"

definition denominators_of ::
    "pilot_manifest \<Rightarrow> (string \<times> admission) list \<Rightarrow> metric_triplet list \<Rightarrow> evaluation_denominators" where
  "denominators_of m groups core =
     (let count_arm = (\<lambda>P arm. int (length (filter P (arm_values core arm)))) in
      \<lparr>dn_manifest_blocks = int (length (mf_blocks m)),
       dn_comparative_blocks = int (length (comparative_blocks (mf_blocks m))),
       dn_candidate_triplets = int (length groups), dn_admitted_triplets = int (length core),
       dn_excluded_triplets = int (length (excluded_of groups)),
       dn_comparable_blocks_by_arm = (\<lambda>arm. int (length (arm_values core arm))),
       dn_accepted_blocks_by_arm = count_arm ob_final_accepted,
       dn_quality_complete_blocks_by_arm =
         count_arm (\<lambda>b. ob_final_outcome b \<noteq> OUT_ACCEPTED \<or> ob_post_acceptance_window_closed b)\<rparr>)"

section \<open>All metrics\<close>

definition computePilotMetricsInternal ::
    "'a metrics_env_scheme \<Rightarrow> pilot_manifest \<Rightarrow> observation list \<Rightarrow> string set option \<Rightarrow> pilot_metrics result" where
  "computePilotMetricsInternal env m obs selected =
     throw_if (\<not> ver_ok (verifyManifest env m)) (pilot_error ''MANIFEST_INVALID'')
     (bindR (mapR (admit_group m obs) (candidate_groups m selected)) (\<lambda>groups.
      let core = admitted_of groups in
      bindR (object_of arms (armMetrics core)) (\<lambda>byArm.
      bindR (qualityEvidence env obs) (\<lambda>(quality_hash, quality_count).
      bindR (object_of arms (\<lambda>arm. resourceTotals (filter (\<lambda>b. ob_pilot_arm b = Some arm) obs))) (\<lambda>comparative.
      bindR (resourceTotals (filter (\<lambda>b. ob_pilot_arm b = None) obs)) (\<lambda>direct.
      bindR (checkedIntegerSum (late_counts obs)) (\<lambda>late.
      Inr \<lparr>px_metrics = \<lparr>ev_by_arm = byArm, ev_paired_comparisons = pairedComparisons core byArm\<rparr>,
        px_exclusions = excluded_of groups,
        px_operational_totals = \<lparr>ot_comparative_by_arm = comparative, ot_direct_to_strong = direct\<rparr>,
        px_denominators = denominators_of m groups core, px_completeness = completeness_of core,
        px_observation_set_hash = observationSetHash env obs,
        px_quality_evidence_hash = quality_hash, px_quality_evidence_count = quality_count,
        px_late_quality_evidence_count = late,
        px_integrity_reasons = sortedUnique (concat (map (integrity_of m) obs)),
        px_strata_support = map (support_of groups) (sortedUnique (map fst groups)),
        px_core_triplets = core,
        px_population_ids = (\<lambda>key. map tp_pair_or_triplet_id (tripletPopulation core key))\<rparr>)))))))"

definition computePilotMetrics :: "'a metrics_env_scheme \<Rightarrow> pilot_manifest \<Rightarrow> observation list \<Rightarrow> pilot_metrics result" where
  "computePilotMetrics env m obs = computePilotMetricsInternal env m obs None"

definition computePilotMetricsForTripletIds ::
    "'a metrics_env_scheme \<Rightarrow> pilot_manifest \<Rightarrow> observation list \<Rightarrow> string set \<Rightarrow> pilot_metrics result" where
  "computePilotMetricsForTripletIds env m obs ids = computePilotMetricsInternal env m obs (Some ids)"

end
