(* ===== verification/Pilot_Report.thy ===== *)
theory Pilot_Report
  imports Pilot_Metrics
begin

text \<open>
  The routing gate and the evaluation report of the pilot, with their closed schemas
  (\<open>src/pilot/contracts.ts\<close> from \<open>gateThresholdsSchema\<close> on). \<open>resource_ok\<close> .. \<open>operational_totals_ok\<close> are the
  nested schemas, by the shape they check; literal-valued fields are not stored.
\<close>

section \<open>Data\<close>

record gate_thresholds = stage_thresholds +
  th_minimum_blocks_per_arm :: int

record strata_policy =
  sy_matching_stratum :: string
  sy_complexity_class :: complexity_class
  sy_risk_class :: risk_class
  sy_promotion_eligible :: bool
  sy_exclusion_reason :: "string option"

record routing_gate =
  gt_gate_policy_id :: string
  gt_pilot_id :: string
  gt_manifest_hash :: string
  gt_evaluated_at :: string
  gt_resampling_seed :: string
  gt_strata_policy :: "strata_policy list"
  gt_stage :: int
  gt_thresholds :: gate_thresholds

datatype efficiency_kind = OBSERVED_COST | OBSERVED_STRONG_TOKENS
datatype branch_status = UNUSABLE | FAIL_POINT | AMBIGUOUS | PASS
datatype stratum_status = PROMOTED | NOT_VALIDATED
datatype evaluation_decision = EV_CONTINUE | EV_REJECT | EV_INSUFFICIENT_EVIDENCE | EV_INCONCLUSIVE | EV_PROMOTE_BOUNDED

record efficiency_branch =
  eb_branch :: efficiency_kind
  eb_status :: branch_status
  eb_eligible_triplets :: int
  eb_completeness :: "rat option"
  eb_point_improvement :: "rat option"
  eb_confidence_interval :: "interval option"
  eb_reason_codes :: "string list"

type_synonym efficiency_branches = "efficiency_branch \<times> efficiency_branch"

record stratum_evaluation =
  se_matching_stratum :: string
  se_candidate_triplets :: int
  se_admitted_triplets :: int
  se_status :: stratum_status
  se_reason_codes :: "string list"
  se_paired_final_acceptance :: paired_quality
  se_paired_final_quality :: paired_quality
  se_efficiency_branches :: efficiency_branches

record interval_metadata =
  im_confidence_level :: rat
  im_interval_algorithm_version :: string
  im_resampling_iterations :: int
  im_resampling_seed :: string

record supersession =
  sp_evaluation_id :: string
  sp_evaluation_version :: int
  sp_report_hash :: string

record evaluation_report =
  er_evaluation_id :: string
  er_evaluation_version :: int
  er_pilot_id :: string
  er_manifest_hash :: string
  er_evaluated_at :: string
  er_stage :: int
  er_decision :: evaluation_decision
  er_promoted_strata :: "string list"
  er_not_validated_strata :: "string list"
  er_reasons :: "string list"
  er_observation_set_hash :: string
  er_decision_input_hash :: string
  er_quality_evidence_hash :: string
  er_quality_evidence_count :: rat
  er_late_quality_evidence_count :: rat
  er_gate_policy_hash :: string
  er_metrics :: evaluation_metrics
  er_exclusions :: "evaluation_exclusion list"
  er_efficiency_branches :: efficiency_branches
  er_strata :: "stratum_evaluation list"
  er_operational_totals :: operational_totals
  er_denominators :: evaluation_denominators
  er_completeness :: evaluation_completeness
  er_interval_metadata :: interval_metadata
  er_warnings :: "string list"
  er_supersedes :: "supersession option"

section \<open>The gate\<close>

abbreviation bootstrap_version :: string where
  "bootstrap_version \<equiv> ''paired-bootstrap-sha256-counter-v1''"

definition gateThresholdsSchema :: "int \<Rightarrow> gate_thresholds \<Rightarrow> bool" where
  "gateThresholdsSchema minimum t =
     (th_minimum_blocks_per_arm t = minimum \<and>
      list_all rate_ok [th_material_improvement_rate t, th_economic_rejection_rate t, th_max_parent_rework_block_rate t,
        th_max_parent_rework_production_line_share t] \<and>
      list_all nonnegative_integer [th_max_escaped_material_defects t, th_max_escaped_high_defects t,
        th_max_escaped_critical_defects t] \<and>
      list_all positive_rate_ok [th_min_observed_cost_completeness t, th_min_observed_strong_token_completeness t] \<and>
      int_between 1 30 (th_min_stratum_triplets_for_promotion t) \<and>
      0 < th_confidence_level t \<and> th_confidence_level t < 1 \<and>
      th_interval_algorithm_version t = bootstrap_version \<and> int_between 100 100000 (th_resampling_iterations t))"

definition strataPolicySchema :: "strata_policy \<Rightarrow> bool" where
  "strataPolicySchema p =
     (pilot_identifier (sy_matching_stratum p) \<and>
      (if sy_promotion_eligible p
       then sy_complexity_class p \<noteq> CX_SYSTEMIC \<and> sy_risk_class p \<in> {RISK_LOW, RISK_MEDIUM} \<and> sy_exclusion_reason p = None
       else (case sy_exclusion_reason p of None \<Rightarrow> False | Some r \<Rightarrow> pilot_identifier r)))"

definition pilotRoutingGateV3Schema :: "routing_gate \<Rightarrow> bool" where
  "pilotRoutingGateV3Schema g =
     (list_all pilot_identifier [gt_gate_policy_id g, gt_pilot_id g, gt_resampling_seed g] \<and> is_hash (gt_manifest_hash g) \<and>
      pilot_timestamp (gt_evaluated_at g) \<and> boundedArray1 strataPolicySchema (gt_strata_policy g) \<and>
      gt_stage g \<in> {1, 2, 3} \<and> gateThresholdsSchema (10 * gt_stage g) (gt_thresholds g))"

section \<open>The report\<close>

definition interval_ok :: "(rat \<Rightarrow> bool) \<Rightarrow> interval \<Rightarrow> bool" where
  "interval_ok P i = (P (iv_lower i) \<and> P (iv_upper i))"

definition nonnegative_number :: "rat \<Rightarrow> bool" where
  "nonnegative_number x = (0 \<le> x)"

definition signed_rate_ok :: "rat \<Rightarrow> bool" where
  "signed_rate_ok x = (- 1 \<le> x \<and> x \<le> 1)"

definition counting_number :: "rat \<Rightarrow> bool" where
  "counting_number x = (x = of_int \<lfloor>x\<rfloor> \<and> nonnegative_integer \<lfloor>x\<rfloor>)"

definition metric_sample_ok :: "(rat \<Rightarrow> bool) \<Rightarrow> (rat \<Rightarrow> bool) \<Rightarrow> metric_sample \<Rightarrow> bool" where
  "metric_sample_ok numerator P s =
     (numerator (mt_numerator s) \<and> nonnegative_integer (mt_denominator s) \<and> opt_all P (mt_value s) \<and>
      opt_all (interval_ok P) (mt_confidence_interval s))"

definition resourceMetricSampleSchema :: "metric_sample \<Rightarrow> bool" where
  "resourceMetricSampleSchema = metric_sample_ok nonnegative_number nonnegative_number"

definition rateMetricSampleSchema :: "metric_sample \<Rightarrow> bool" where
  "rateMetricSampleSchema = metric_sample_ok counting_number rate_ok"

definition countMetricSampleSchema :: "metric_sample \<Rightarrow> bool" where
  "countMetricSampleSchema = metric_sample_ok counting_number nonnegative_number"

definition armMetricSchema :: "arm_metrics \<Rightarrow> bool" where
  "armMetricSchema a =
     (list_all rateMetricSampleSchema [am_final_acceptance_rate a, am_escaped_material_defect_rate a,
        am_first_pass_accept_rate a, am_accept_after_one_repair_rate a, am_escalation_rate a, am_parent_rework_block_rate a,
        am_parent_rework_production_line_share a] \<and>
      list_all countMetricSampleSchema [am_escaped_high_defects a, am_escaped_critical_defects a] \<and>
      list_all resourceMetricSampleSchema [am_wall_time_per_accepted_block a, am_observed_cost_per_accepted_block a,
        am_estimated_cost_per_accepted_block a, am_strong_tokens_observed_per_accepted_block a,
        am_strong_tokens_estimated_per_accepted_block a, am_all_role_tokens_observed_per_accepted_block a,
        am_all_role_tokens_estimated_per_accepted_block a])"

definition pairedQualitySchema :: "paired_quality \<Rightarrow> bool" where
  "pairedQualitySchema q =
     (list_all nonnegative_integer [pq_baseline_successes q, pq_candidate_successes q, pq_both_success q,
        pq_baseline_only_success q, pq_candidate_only_success q, pq_neither_success q] \<and>
      (if pq_denominator q = 0 then pq_difference q = None \<and> pq_confidence_interval q = None
       else positive_integer (pq_denominator q) \<and>
         (case pq_difference q of None \<Rightarrow> False | Some d \<Rightarrow> signed_rate_ok d) \<and>
         (case pq_confidence_interval q of None \<Rightarrow> False | Some i \<Rightarrow> interval_ok signed_rate_ok i)))"

definition pairedMetricSchema :: "paired_metric \<Rightarrow> bool" where
  "pairedMetricSchema p = (opt_all nonnegative_number (pm_baseline_value p) \<and> opt_all nonnegative_number (pm_candidate_value p))"

definition pairedComparisonsSchema :: "paired_comparisons \<Rightarrow> bool" where
  "pairedComparisonsSchema c =
     (pairedQualitySchema (pc_final_acceptance c) \<and> pairedQualitySchema (pc_final_quality c) \<and>
      list_all pairedMetricSchema [pc_parent_rework_block_rate c, pc_parent_rework_production_line_share c,
        pc_wall_time_per_accepted_block c, pc_observed_cost_per_accepted_block c, pc_estimated_cost_per_accepted_block c,
        pc_strong_tokens_observed_per_accepted_block c, pc_strong_tokens_estimated_per_accepted_block c,
        pc_all_role_tokens_observed_per_accepted_block c, pc_all_role_tokens_estimated_per_accepted_block c])"

definition by_arm :: "('a \<Rightarrow> bool) \<Rightarrow> (pilot_arm \<Rightarrow> 'a) \<Rightarrow> bool" where
  "by_arm P f = list_all (\<lambda>arm. P (f arm)) arms"

definition evaluationMetricsSchema :: "evaluation_metrics \<Rightarrow> bool" where
  "evaluationMetricsSchema e = (by_arm armMetricSchema (ev_by_arm e) \<and> pairedComparisonsSchema (ev_paired_comparisons e))"

definition resourceMeasureSchema :: "resource_measure \<Rightarrow> bool" where
  "resourceMeasureSchema r =
     (nonnegative_number (rm_known_sum r) \<and> nonnegative_integer (rm_complete r) \<and> nonnegative_integer (rm_total r) \<and>
      opt_all rate_ok (rm_completeness_ratio r) \<and> opt_all nonnegative_number (rm_complete_value r))"

definition resourceTotalsSchema :: "resource_totals \<Rightarrow> bool" where
  "resourceTotalsSchema r = list_all (\<lambda>key. resourceMeasureSchema (r key)) resource_keys"

definition exclusionMemberSchema :: "exclusion_member \<Rightarrow> bool" where
  "exclusionMemberSchema x = (boundedArray pilot_identifier (em_block_ids x) \<and> resourceTotalsSchema (em_resources x))"

definition evaluationExclusionSchema :: "evaluation_exclusion \<Rightarrow> bool" where
  "evaluationExclusionSchema x =
     (pilot_identifier (ex_pair_or_triplet_id x) \<and> boundedArray1 pilot_identifier (ex_reason_codes x) \<and>
      by_arm exclusionMemberSchema (ex_members_by_arm x) \<and> resourceTotalsSchema (ex_operational_resources x))"

definition evaluationDenominatorsSchema :: "evaluation_denominators \<Rightarrow> bool" where
  "evaluationDenominatorsSchema d =
     (list_all nonnegative_integer [dn_manifest_blocks d, dn_comparative_blocks d, dn_candidate_triplets d,
        dn_admitted_triplets d, dn_excluded_triplets d] \<and>
      by_arm nonnegative_integer (dn_comparable_blocks_by_arm d) \<and> by_arm nonnegative_integer (dn_accepted_blocks_by_arm d) \<and>
      by_arm nonnegative_integer (dn_quality_complete_blocks_by_arm d))"

definition token_dimensions :: "token_dimension list" where
  "token_dimensions = [TOKEN_DIMENSION INPUT, TOKEN_DIMENSION OUTPUT, TOKEN_DIMENSION CACHED_INPUT,
     TOKEN_DIMENSION REASONING, TOKEN_TOTAL]"

definition armCompletenessSchema :: "arm_completeness \<Rightarrow> bool" where
  "armCompletenessSchema c = by_arm (opt_all rate_ok) c"

definition evaluationCompletenessSchema :: "evaluation_completeness \<Rightarrow> bool" where
  "evaluationCompletenessSchema c =
     (list_all armCompletenessSchema [cp_observed_cost_by_arm c, cp_estimated_cost_by_arm c, cp_wall_time_by_arm c] \<and>
      list_all (\<lambda>d. armCompletenessSchema (cp_strong_tokens_observed c d) \<and> armCompletenessSchema (cp_strong_tokens_estimated c d))
        token_dimensions)"

definition intervalMetadataSchema :: "interval_metadata \<Rightarrow> bool" where
  "intervalMetadataSchema i =
     (0 < im_confidence_level i \<and> im_confidence_level i < 1 \<and> im_interval_algorithm_version i = bootstrap_version \<and>
      int_between 100 100000 (im_resampling_iterations i) \<and> pilot_identifier (im_resampling_seed i))"

definition efficiencyBranchRecord :: "efficiency_kind \<Rightarrow> efficiency_branch \<Rightarrow> bool" where
  "efficiencyBranchRecord k b =
     (eb_branch b = k \<and> nonnegative_integer (eb_eligible_triplets b) \<and> opt_all rate_ok (eb_completeness b) \<and>
      boundedArray1 pilot_identifier (eb_reason_codes b))"

definition efficiencyBranchesSchema :: "efficiency_branches \<Rightarrow> bool" where
  "efficiencyBranchesSchema bs =
     (efficiencyBranchRecord OBSERVED_COST (fst bs) \<and> efficiencyBranchRecord OBSERVED_STRONG_TOKENS (snd bs))"

definition stratumEvaluationSchema :: "stratum_evaluation \<Rightarrow> bool" where
  "stratumEvaluationSchema s =
     (pilot_identifier (se_matching_stratum s) \<and> nonnegative_integer (se_candidate_triplets s) \<and>
      nonnegative_integer (se_admitted_triplets s) \<and> boundedArray1 pilot_identifier (se_reason_codes s) \<and>
      pairedQualitySchema (se_paired_final_acceptance s) \<and> pairedQualitySchema (se_paired_final_quality s) \<and>
      efficiencyBranchesSchema (se_efficiency_branches s))"

definition operationalTotalsSchema :: "operational_totals \<Rightarrow> bool" where
  "operationalTotalsSchema t =
     (by_arm resourceTotalsSchema (ot_comparative_by_arm t) \<and> resourceTotalsSchema (ot_direct_to_strong t))"

definition report_base_ok :: "evaluation_report \<Rightarrow> bool" where
  "report_base_ok r =
     (list_all pilot_identifier [er_evaluation_id r, er_pilot_id r] \<and> positive_integer (er_evaluation_version r) \<and>
      list_all is_hash [er_manifest_hash r, er_observation_set_hash r, er_decision_input_hash r, er_quality_evidence_hash r,
        er_gate_policy_hash r] \<and>
      pilot_timestamp (er_evaluated_at r) \<and> counting_number (er_quality_evidence_count r) \<and>
      counting_number (er_late_quality_evidence_count r) \<and> boundedArray pilot_identifier (er_not_validated_strata r) \<and>
      boundedArray1 pilot_identifier (er_reasons r) \<and> evaluationMetricsSchema (er_metrics r) \<and>
      boundedArray evaluationExclusionSchema (er_exclusions r) \<and> efficiencyBranchesSchema (er_efficiency_branches r) \<and>
      boundedArray stratumEvaluationSchema (er_strata r) \<and> operationalTotalsSchema (er_operational_totals r) \<and>
      evaluationDenominatorsSchema (er_denominators r) \<and> evaluationCompletenessSchema (er_completeness r) \<and>
      intervalMetadataSchema (er_interval_metadata r) \<and> boundedArray pilot_identifier (er_warnings r))"

definition decision_shape :: "int \<Rightarrow> evaluation_decision \<Rightarrow> string list \<Rightarrow> bool" where
  "decision_shape st d promoted =
     (boundedArray pilot_identifier promoted \<and>
      (if d = EV_PROMOTE_BOUNDED then st \<in> {2, 3} \<and> promoted \<noteq> []
       else promoted = [] \<and>
         (st = 1 \<and> d \<in> {EV_CONTINUE, EV_REJECT} \<or> st = 2 \<and> d \<in> {EV_CONTINUE, EV_REJECT, EV_INSUFFICIENT_EVIDENCE} \<or>
          st = 3 \<and> d \<in> {EV_REJECT, EV_INCONCLUSIVE})))"

definition supersession_shape :: "supersession \<Rightarrow> bool" where
  "supersession_shape s = (pilot_identifier (sp_evaluation_id s) \<and> positive_integer (sp_evaluation_version s) \<and>
     is_hash (sp_report_hash s))"

definition pilotEvaluationReportV3Schema :: "evaluation_report \<Rightarrow> bool" where
  "pilotEvaluationReportV3Schema r =
     (report_base_ok r \<and> decision_shape (er_stage r) (er_decision r) (er_promoted_strata r) \<and>
      opt_all supersession_shape (er_supersedes r))"

section \<open>Lemmas\<close>

lemma by_arm_iff: "by_arm P f \<longleftrightarrow> (\<forall>arm. P (f arm))"
  by (auto simp: by_arm_def arms_def) (metis pilot_arm.exhaust)

text \<open>What a report that passes its schema may say about a rate: never more than one.\<close>

lemma rates_of_report:
  assumes "pilotEvaluationReportV3Schema r"
  shows "rateMetricSampleSchema (am_escaped_material_defect_rate (ev_by_arm (er_metrics r) arm))"
    and "rateMetricSampleSchema (am_parent_rework_production_line_share (ev_by_arm (er_metrics r) arm))"
  using assms by (simp_all add: pilotEvaluationReportV3Schema_def report_base_ok_def evaluationMetricsSchema_def by_arm_iff
      armMetricSchema_def)

lemma rate_at_most_one: "rateMetricSampleSchema s \<Longrightarrow> mt_value s = Some v \<Longrightarrow> v \<le> 1"
  by (simp add: rateMetricSampleSchema_def metric_sample_ok_def rate_ok_def opt_all_def)

lemma promoted_report:
  assumes "pilotEvaluationReportV3Schema r"
  shows "er_decision r = EV_PROMOTE_BOUNDED \<longleftrightarrow> er_promoted_strata r \<noteq> []"
  using assms by (auto simp: pilotEvaluationReportV3Schema_def decision_shape_def split: if_splits)

end
