(* ===== verification/Pilot_Evaluation.thy ===== *)
theory Pilot_Evaluation
  imports Pilot_Report
begin

text \<open>
  \<open>src/pilot/evaluate.ts\<close>: the bootstrap intervals, the efficiency branches, the strata, the decision of a stage,
  and the append-only history of evaluation reports.

  Parameters (\<open>evaluation_env\<close>): \<open>vx_draw\<close>, the first eight bytes of the SHA-256 digest of a counter;
  \<open>vx_nonces\<close>, how many nonces of one draw are tried (the source's loop has no bound: a draw with no accepted
  nonce among them is an error here, and \<open>indices_with_more_nonces\<close> shows that a result does not depend on the
  bound); the canonical hashes of a gate policy and of a report. \<open>structuredClone\<close> and \<open>deepFreeze\<close> are the identity.
\<close>

section \<open>Data\<close>

record draw_key =
  dk_seed :: string
  dk_manifest_hash :: string
  dk_stage :: int
  dk_replicate :: nat
  dk_draw :: nat
  dk_nonce :: nat

record gate_policy =
  gy_gate_policy_id :: string
  gy_pilot_id :: string
  gy_manifest_hash :: string
  gy_resampling_seed :: string
  gy_strata_policy :: "strata_policy list"
  gy_thresholds :: stage_thresholds

record evaluation_env = metrics_env +
  vx_draw :: "draw_key \<Rightarrow> int"
  vx_nonces :: nat
  vx_policy_hash :: "gate_policy \<Rightarrow> string"
  vx_report_hash :: "evaluation_report \<Rightarrow> string"

record evaluation_context =
  ec_evaluation_id :: string
  ec_evaluation_version :: int
  ec_prior_report :: "evaluation_report option"

record bootstrap_input =
  bi_seed :: string
  bi_manifest_hash :: string
  bi_stage :: int
  bi_population_size :: int
  bi_iterations :: int

section \<open>Bootstrap intervals\<close>

definition rejectionLimit :: "int \<Rightarrow> int" where
  "rejectionLimit n = 2 ^ 64 div n * n"

fun accepted_draw :: "(nat \<Rightarrow> int) \<Rightarrow> int \<Rightarrow> nat \<Rightarrow> nat \<Rightarrow> int option" where
  "accepted_draw f limit nonce 0 = None"
| "accepted_draw f limit nonce (Suc fuel) =
     (let v = f nonce in if v < limit then Some v else accepted_draw f limit (Suc nonce) fuel)"

definition draw_key_of :: "bootstrap_input \<Rightarrow> nat \<Rightarrow> nat \<Rightarrow> nat \<Rightarrow> draw_key" where
  "draw_key_of i r d k = \<lparr>dk_seed = bi_seed i, dk_manifest_hash = bi_manifest_hash i, dk_stage = bi_stage i,
     dk_replicate = r, dk_draw = d, dk_nonce = k\<rparr>"

definition bootstrap_draw :: "'a evaluation_env_scheme \<Rightarrow> bootstrap_input \<Rightarrow> nat \<Rightarrow> nat \<Rightarrow> nat result" where
  "bootstrap_draw env i r d =
     (case accepted_draw (\<lambda>k. vx_draw env (draw_key_of i r d k)) (rejectionLimit (bi_population_size i)) 0 (vx_nonces env) of
        None \<Rightarrow> Inl (Error GENERIC_ERROR ''no nonce is accepted'')
      | Some v \<Rightarrow> Inr (nat (v mod bi_population_size i)))"

definition bootstrap_sample :: "'a evaluation_env_scheme \<Rightarrow> bootstrap_input \<Rightarrow> nat \<Rightarrow> nat list result" where
  "bootstrap_sample env i r = mapR (bootstrap_draw env i r) [0..<nat (bi_population_size i)]"

definition deterministicBootstrapIndices :: "'a evaluation_env_scheme \<Rightarrow> bootstrap_input \<Rightarrow> nat list list result" where
  "deterministicBootstrapIndices env i =
     throw_if (\<not> safe_int (bi_population_size i) \<or> bi_population_size i \<le> 0) (Error RANGE_ERROR ''BOOTSTRAP_POPULATION_INVALID'')
     (throw_if (\<not> safe_int (bi_iterations i) \<or> bi_iterations i < 1) (Error RANGE_ERROR ''BOOTSTRAP_ITERATIONS_INVALID'')
     (mapR (bootstrap_sample env i) [0..<nat (bi_iterations i)]))"

definition percentileInterval :: "rat option list \<Rightarrow> rat \<Rightarrow> interval option" where
  "percentileInterval statistics confidence =
     (if statistics = [] \<or> list_ex (\<lambda>v. v = None) statistics then None
      else (let ordered = sort (map the statistics); alpha = js_div (js_sub 1 confidence) 2;
                top = of_nat (length ordered - 1) in
        Some \<lparr>iv_lower = ordered ! nat \<lfloor>js_mul alpha top\<rfloor>, iv_upper = ordered ! nat \<lceil>js_mul (js_sub 1 alpha) top\<rceil>\<rparr>))"

definition bootstrap_input_of :: "pilot_manifest \<Rightarrow> routing_gate \<Rightarrow> nat \<Rightarrow> bootstrap_input" where
  "bootstrap_input_of m g n = \<lparr>bi_seed = gt_resampling_seed g, bi_manifest_hash = mf_manifest_hash m, bi_stage = gt_stage g,
     bi_population_size = int n, bi_iterations = th_resampling_iterations (gt_thresholds g)\<rparr>"

definition by_triplet_id :: "metric_triplet list \<Rightarrow> metric_triplet list" where
  "by_triplet_id ts = js_sort (\<lambda>l r. compare_code_units (tp_pair_or_triplet_id l) (tp_pair_or_triplet_id r)) ts"

definition bootstrapInterval ::
    "'a evaluation_env_scheme \<Rightarrow> pilot_manifest \<Rightarrow> routing_gate \<Rightarrow> metric_triplet list \<Rightarrow>
     (metric_triplet list \<Rightarrow> rat option result) \<Rightarrow> interval option result" where
  "bootstrapInterval env m g ts statistic =
     (if ts = [] then Inr None
      else (let ordered = by_triplet_id ts in
        bindR (deterministicBootstrapIndices env (bootstrap_input_of m g (length ordered))) (\<lambda>indices.
        bindR (mapR (\<lambda>sample. statistic (map (\<lambda>k. ordered ! k) sample)) indices) (\<lambda>statistics.
        Inr (percentileInterval statistics (th_confidence_level (gt_thresholds g)))))))"

section \<open>Statistics of a sample\<close>

definition indicator :: "bool \<Rightarrow> int" where
  "indicator b = (if b then 1 else 0)"

definition pairedDifference :: "(observation \<Rightarrow> bool) \<Rightarrow> metric_triplet list \<Rightarrow> rat option" where
  "pairedDifference P sample =
     (if sample = [] then None
      else Some (js_div (of_int (foldl (\<lambda>sum t. sum + indicator (P (tp_members t C_ADAPTIVE_EARLY_ESCALATION)) -
          indicator (P (tp_members t A_STRONG_BASELINE))) 0 sample)) (of_nat (length sample))))"

definition resourceValue :: "efficiency_kind \<Rightarrow> observation \<Rightarrow> int option" where
  "resourceValue k b = (case k of OBSERVED_COST \<Rightarrow> ob_cost_observed b
     | OBSERVED_STRONG_TOKENS \<Rightarrow> am_value (st_total (ob_strong_tokens_observed b)))"

definition relative_improvement :: "rat \<Rightarrow> rat \<Rightarrow> rat option" where
  "relative_improvement baseline candidate =
     (if baseline = 0 then (if candidate = 0 then Some 0 else None) else Some (js_div (js_sub baseline candidate) baseline))"

text \<open>The sums of the two arms and their accepted blocks; \<open>None\<close> at the first value that is \<open>null\<close>.\<close>

record resource_sums =
  rs_baseline :: int
  rs_candidate :: int
  rs_baseline_accepted :: int
  rs_candidate_accepted :: int

fun resource_loop :: "efficiency_kind \<Rightarrow> resource_sums \<Rightarrow> metric_triplet list \<Rightarrow> resource_sums option result" where
  "resource_loop k s [] = Inr (Some s)"
| "resource_loop k s (t # ts) =
     (let b = tp_members t A_STRONG_BASELINE; c = tp_members t C_ADAPTIVE_EARLY_ESCALATION in
      case (resourceValue k b, resourceValue k c) of
        (Some x, Some y) \<Rightarrow>
          throw_if (\<not> safe_int x \<or> \<not> safe_int y) metric_arithmetic
          (throw_if (max_safe_integer < rs_baseline s + x \<or> max_safe_integer < rs_candidate s + y) metric_arithmetic
          (resource_loop k \<lparr>rs_baseline = rs_baseline s + x, rs_candidate = rs_candidate s + y,
             rs_baseline_accepted = rs_baseline_accepted s + indicator (ob_final_accepted b),
             rs_candidate_accepted = rs_candidate_accepted s + indicator (ob_final_accepted c)\<rparr> ts))
      | _ \<Rightarrow> Inr None)"

definition resourceAverages :: "efficiency_kind \<Rightarrow> metric_triplet list \<Rightarrow> (rat \<times> rat) option result" where
  "resourceAverages k sample =
     bindR (resource_loop k \<lparr>rs_baseline = 0, rs_candidate = 0, rs_baseline_accepted = 0, rs_candidate_accepted = 0\<rparr> sample) (\<lambda>totals.
     Inr (case totals of None \<Rightarrow> None
       | Some s \<Rightarrow> if rs_baseline_accepted s = 0 \<or> rs_candidate_accepted s = 0 then None
           else Some (js_div (of_int (rs_baseline s)) (of_int (rs_baseline_accepted s)),
                      js_div (of_int (rs_candidate s)) (of_int (rs_candidate_accepted s)))))"

definition resourceImprovement :: "efficiency_kind \<Rightarrow> metric_triplet list \<Rightarrow> rat option result" where
  "resourceImprovement k sample = bindR (resourceAverages k sample) (\<lambda>averages.
     Inr (case averages of None \<Rightarrow> None | Some (b, c) \<Rightarrow> relative_improvement b c))"

section \<open>Efficiency branches\<close>

definition population_key :: "efficiency_kind \<Rightarrow> resource_key" where
  "population_key k = (case k of OBSERVED_COST \<Rightarrow> COST_OBSERVED | OBSERVED_STRONG_TOKENS \<Rightarrow> STRONG_TOKENS_OBSERVED)"

definition eligibleTriplets :: "pilot_metrics \<Rightarrow> efficiency_kind \<Rightarrow> metric_triplet list" where
  "eligibleTriplets x k =
     filter (\<lambda>t. tp_pair_or_triplet_id t \<in> set (px_population_ids x (population_key k))) (px_core_triplets x)"

definition minimum_completeness :: "routing_gate \<Rightarrow> efficiency_kind \<Rightarrow> rat" where
  "minimum_completeness g k = (case k of OBSERVED_COST \<Rightarrow> th_min_observed_cost_completeness (gt_thresholds g)
     | OBSERVED_STRONG_TOKENS \<Rightarrow> th_min_observed_strong_token_completeness (gt_thresholds g))"

definition branch_completeness :: "pilot_metrics \<Rightarrow> efficiency_kind \<Rightarrow> rat option" where
  "branch_completeness x k = (if px_core_triplets x = [] then None
     else Some (js_div (of_nat (length (eligibleTriplets x k))) (of_nat (length (px_core_triplets x)))))"

definition branch_verdict ::
    "routing_gate \<Rightarrow> efficiency_kind \<Rightarrow> rat option \<Rightarrow> bool \<Rightarrow> rat option \<Rightarrow> interval option \<Rightarrow> branch_status \<times> string" where
  "branch_verdict g k completeness zero_baseline_regression point interval =
     (let material = th_material_improvement_rate (gt_thresholds g);
          sufficient = (case completeness of None \<Rightarrow> False | Some c \<Rightarrow> minimum_completeness g k \<le> c) in
      if sufficient \<and> zero_baseline_regression then (UNUSABLE, ''zero_baseline_regression'')
      else if \<not> sufficient \<or> point = None
        then (UNUSABLE, case k of OBSERVED_COST \<Rightarrow> ''observed_cost_incomplete'' | _ \<Rightarrow> ''incomplete_observed_evidence'')
      else if material \<le> the point \<and> (case interval of None \<Rightarrow> False | Some i \<Rightarrow> material \<le> iv_lower i)
        then (PASS, case k of OBSERVED_COST \<Rightarrow> ''material_cost_improvement'' | _ \<Rightarrow> ''material_strong_token_improvement'')
      else if (case interval of None \<Rightarrow> False | Some i \<Rightarrow> iv_upper i < material)
        then (FAIL_POINT, ''material_improvement_ruled_out'')
      else (AMBIGUOUS, ''decision_remains_ambiguous''))"

definition branchRecord ::
    "'a evaluation_env_scheme \<Rightarrow> pilot_manifest \<Rightarrow> routing_gate \<Rightarrow> pilot_metrics \<Rightarrow> efficiency_kind \<Rightarrow> efficiency_branch result" where
  "branchRecord env m g x k =
     (let population = eligibleTriplets x k; completeness = branch_completeness x k in
      bindR (resourceImprovement k population) (\<lambda>point.
      bindR (resourceAverages k population) (\<lambda>averages.
      let regression = (case averages of None \<Rightarrow> False | Some (b, c) \<Rightarrow> b = 0 \<and> 0 < c) in
      bindR (if point = None then Inr None else bootstrapInterval env m g population (resourceImprovement k)) (\<lambda>interval.
      case branch_verdict g k completeness regression point interval of (status, reason) \<Rightarrow>
      Inr \<lparr>eb_branch = k, eb_status = status, eb_eligible_triplets = int (length population), eb_completeness = completeness,
        eb_point_improvement = point, eb_confidence_interval = interval, eb_reason_codes = [reason]\<rparr>))))"

definition branches_of ::
    "'a evaluation_env_scheme \<Rightarrow> pilot_manifest \<Rightarrow> routing_gate \<Rightarrow> pilot_metrics \<Rightarrow> efficiency_branches result" where
  "branches_of env m g x =
     bindR (branchRecord env m g x OBSERVED_COST) (\<lambda>c. bindR (branchRecord env m g x OBSERVED_STRONG_TOKENS) (\<lambda>s. Inr (c, s)))"

definition branch_list :: "efficiency_branches \<Rightarrow> efficiency_branch list" where
  "branch_list bs = [fst bs, snd bs]"

section \<open>The gate\<close>

definition candidateTripletIds :: "pilot_manifest \<Rightarrow> string list" where
  "candidateTripletIds m = sortedUnique (map bk_pair_or_triplet_id (comparative_blocks (mf_blocks m)))"

definition stageLimit :: "int \<Rightarrow> int" where
  "stageLimit st = (if st = 1 then 10 else if st = 2 then 20 else 30)"

definition expected_thresholds :: "pilot_manifest \<Rightarrow> routing_gate \<Rightarrow> gate_thresholds" where
  "expected_thresholds m g =
     stage_thresholds.extend (mf_stage_thresholds m) \<lparr>th_minimum_blocks_per_arm = stageLimit (gt_stage g)\<rparr>"

abbreviation strata_invalid :: error where
  "strata_invalid \<equiv> pilot_error ''STRATA_POLICY_INVALID''"

type_synonym strata_classes = "(string \<times> complexity_class \<times> risk_class) list"

definition add_stratum :: "strata_classes \<Rightarrow> manifest_block \<Rightarrow> strata_classes result" where
  "add_stratum strata b =
     (let classes = (bk_complexity_class b, bk_risk_class b) in
      throw_if (case map_of strata (bk_matching_stratum b) of None \<Rightarrow> False | Some c \<Rightarrow> c \<noteq> classes) strata_invalid
      (Inr (map_put (bk_matching_stratum b) classes strata)))"

definition policy_item_invalid :: "strata_classes \<Rightarrow> string set \<Rightarrow> strata_policy \<Rightarrow> bool" where
  "policy_item_invalid strata seen p =
     (map_of strata (sy_matching_stratum p) \<noteq> Some (sy_complexity_class p, sy_risk_class p) \<or>
      sy_matching_stratum p \<in> seen \<or>
      sy_promotion_eligible p \<and> (sy_complexity_class p = CX_SYSTEMIC \<or> sy_risk_class p \<in> {RISK_HIGH, RISK_RESTRICTED}) \<or>
      sy_promotion_eligible p = (sy_exclusion_reason p \<noteq> None))"

fun check_policy :: "strata_classes \<Rightarrow> string set \<Rightarrow> strata_policy list \<Rightarrow> unit result" where
  "check_policy strata seen [] = Inr ()"
| "check_policy strata seen (p # ps) =
     throw_if (policy_item_invalid strata seen p) strata_invalid
       (check_policy strata (insert (sy_matching_stratum p) seen) ps)"

definition validateGate :: "pilot_manifest \<Rightarrow> routing_gate \<Rightarrow> unit result" where
  "validateGate m g =
     throw_if (gt_pilot_id g \<noteq> mf_pilot_id m \<or> gt_manifest_hash g \<noteq> mf_manifest_hash m) (pilot_error ''GATE_IDENTITY_MISMATCH'')
     (throw_if (gt_thresholds g \<noteq> expected_thresholds m g) (pilot_error ''GATE_THRESHOLD_MISMATCH'')
     (bindR (foldR add_stratum [] (mf_blocks m)) (\<lambda>strata.
      throw_if (length (gt_strata_policy g) \<noteq> length strata) strata_invalid
      (check_policy strata {} (gt_strata_policy g)))))"

definition gatePolicyHash :: "'a evaluation_env_scheme \<Rightarrow> routing_gate \<Rightarrow> string" where
  "gatePolicyHash env g = vx_policy_hash env \<lparr>gy_gate_policy_id = gt_gate_policy_id g, gy_pilot_id = gt_pilot_id g,
     gy_manifest_hash = gt_manifest_hash g, gy_resampling_seed = gt_resampling_seed g,
     gy_strata_policy = js_sort (\<lambda>l r. compare_code_units (sy_matching_stratum l) (sy_matching_stratum r)) (gt_strata_policy g),
     gy_thresholds = stage_thresholds.truncate (gt_thresholds g)\<rparr>"

section \<open>Scope and input of a decision\<close>

definition manifest_block_of :: "pilot_manifest \<Rightarrow> string \<Rightarrow> manifest_block option" where
  "manifest_block_of m i = find (\<lambda>k. bk_block_id k = i) (rev (mf_blocks m))"

definition in_scope :: "pilot_manifest \<Rightarrow> string set \<Rightarrow> observation \<Rightarrow> bool" where
  "in_scope m ids b = (case manifest_block_of m (ob_block_id b) of None \<Rightarrow> True
     | Some k \<Rightarrow> \<not> bk_comparative_eligible k \<or> bk_pair_or_triplet_id k \<in> ids)"

definition stageObservations :: "pilot_manifest \<Rightarrow> observation list \<Rightarrow> string set \<Rightarrow> observation list" where
  "stageObservations m obs ids = filter (in_scope m ids) obs"

definition without_quality :: "observation \<Rightarrow> observation" where
  "without_quality b = b\<lparr>ob_post_accept_defects := [], ob_post_accept_defects_count := 0, ob_post_accept_max_severity := None,
     ob_post_acceptance_window_closed := False, ob_late_quality_evidence_count := 0, ob_quality_warnings := []\<rparr>"

definition decisionInputHash :: "'a evaluation_env_scheme \<Rightarrow> observation list \<Rightarrow> string" where
  "decisionInputHash env obs = observationSetHash env (map without_quality obs)"

section \<open>Intervals and reasons\<close>

definition withIntervals ::
    "'a evaluation_env_scheme \<Rightarrow> pilot_manifest \<Rightarrow> routing_gate \<Rightarrow> pilot_metrics \<Rightarrow> efficiency_branches \<Rightarrow> evaluation_metrics result" where
  "withIntervals env m g x bs =
     (let core = px_core_triplets x; c = ev_paired_comparisons (px_metrics x) in
      bindR (bootstrapInterval env m g core (\<lambda>s. Inr (pairedDifference ob_final_accepted s))) (\<lambda>acceptance.
      bindR (bootstrapInterval env m g core (\<lambda>s. Inr (pairedDifference qualitySuccess s))) (\<lambda>quality.
      Inr ((px_metrics x)\<lparr>ev_paired_comparisons := c\<lparr>
        pc_final_acceptance := (pc_final_acceptance c)\<lparr>pq_confidence_interval := acceptance\<rparr>,
        pc_final_quality := (pc_final_quality c)\<lparr>pq_confidence_interval := quality\<rparr>,
        pc_observed_cost_per_accepted_block :=
          (pc_observed_cost_per_accepted_block c)\<lparr>pm_confidence_interval := eb_confidence_interval (fst bs)\<rparr>,
        pc_strong_tokens_observed_per_accepted_block :=
          (pc_strong_tokens_observed_per_accepted_block c)\<lparr>pm_confidence_interval := eb_confidence_interval (snd bs)\<rparr>\<rparr>\<rparr>))))"

definition hardExclusionReasons :: "string list" where
  "hardExclusionReasons = [''duplicate_observation'', ''manifest_identity_mismatch'', ''invalid_event_history'',
     ''reviewer_session_not_independent'', ''isolation_violation'']"

definition rat_or_zero :: "rat option \<Rightarrow> rat" where
  "rat_or_zero x = (case x of None \<Rightarrow> 0 | Some v \<Rightarrow> v)"

definition wall_time_regressed :: "paired_metric \<Rightarrow> bool" where
  "wall_time_regressed p = (case (pm_baseline_value p, pm_candidate_value p) of (Some b, Some c) \<Rightarrow> b < c | _ \<Rightarrow> False)"

definition economic_regression :: "routing_gate \<Rightarrow> efficiency_branch \<Rightarrow> bool" where
  "economic_regression g b =
     ((case eb_completeness b of None \<Rightarrow> False | Some c \<Rightarrow> th_min_observed_cost_completeness (gt_thresholds g) \<le> c) \<and>
      ((case eb_point_improvement b of None \<Rightarrow> False | Some p \<Rightarrow> p \<le> - th_economic_rejection_rate (gt_thresholds g)) \<or>
       ''zero_baseline_regression'' \<in> set (eb_reason_codes b)))"

definition hardRejectReasons ::
    "pilot_metrics \<Rightarrow> efficiency_branches \<Rightarrow> routing_gate \<Rightarrow> string list \<Rightarrow> string list" where
  "hardRejectReasons x bs g integrity =
     (let candidate = ev_by_arm (px_metrics x) C_ADAPTIVE_EARLY_ESCALATION; paired = ev_paired_comparisons (px_metrics x);
          t = gt_thresholds g in
      sortedUnique (
        (if integrity \<noteq> [] \<or> list_ex (\<lambda>e. list_ex (\<lambda>r. r \<in> set hardExclusionReasons) (ex_reason_codes e)) (px_exclusions x)
         then ''integrity_failure'' # integrity else []) @
        note_if (rat_or_zero (pq_difference (pc_final_acceptance paired)) < 0) ''final_acceptance_below_baseline'' @
        note_if (rat_or_zero (pq_difference (pc_final_quality paired)) < 0) ''final_quality_below_baseline'' @
        note_if (of_int (th_max_escaped_material_defects t) < mt_numerator (am_escaped_material_defect_rate candidate))
          ''material_post_accept_defect'' @
        note_if (of_int (th_max_escaped_high_defects t) < mt_numerator (am_escaped_high_defects candidate)) ''high_post_accept_defect'' @
        note_if (of_int (th_max_escaped_critical_defects t) < mt_numerator (am_escaped_critical_defects candidate))
          ''critical_post_accept_defect'' @
        note_if (th_max_parent_rework_block_rate t < rat_or_zero (mt_value (am_parent_rework_block_rate candidate)))
          ''parent_rework_block_rate_above_maximum'' @
        note_if (th_max_parent_rework_production_line_share t < rat_or_zero (mt_value (am_parent_rework_production_line_share candidate)))
          ''parent_rework_line_share_above_maximum'' @
        note_if (wall_time_regressed (pc_wall_time_per_accepted_block paired)) ''wall_time_above_baseline'' @
        note_if (economic_regression g (fst bs)) ''economic_regression_above_rejection_threshold''))"

section \<open>Strata\<close>

definition lower_not_negative :: "interval option \<Rightarrow> bool" where
  "lower_not_negative i = (case i of None \<Rightarrow> False | Some v \<Rightarrow> 0 \<le> iv_lower v)"

definition stratum_reasons ::
    "routing_gate \<Rightarrow> strata_policy \<Rightarrow> stratum_support \<Rightarrow> interval option \<Rightarrow> interval option \<Rightarrow> efficiency_branches \<Rightarrow> string list" where
  "stratum_reasons g p s acceptance quality bs =
     note_if (\<not> sy_promotion_eligible p) ''stratum_policy_ineligible'' @
     note_if (ss_admitted_triplets s < th_min_stratum_triplets_for_promotion (gt_thresholds g)) ''insufficient_stratum_support'' @
     note_if (\<not> lower_not_negative acceptance) ''stratum_acceptance_not_supported'' @
     note_if (\<not> lower_not_negative quality) ''stratum_quality_not_supported'' @
     note_if (\<not> list_ex (\<lambda>b. eb_status b = PASS) (branch_list bs)) ''stratum_efficiency_not_supported''"

definition support_in :: "pilot_metrics \<Rightarrow> string \<Rightarrow> stratum_support" where
  "support_in x stratum = (case find (\<lambda>s. ss_matching_stratum s = stratum) (px_strata_support x) of
      None \<Rightarrow> \<lparr>ss_matching_stratum = stratum, ss_candidate_triplets = 0, ss_admitted_triplets = 0\<rparr> | Some s \<Rightarrow> s)"

definition stratum_ids :: "pilot_manifest \<Rightarrow> string set \<Rightarrow> string \<Rightarrow> string set" where
  "stratum_ids m ids stratum =
     set (map bk_pair_or_triplet_id (filter (\<lambda>b. bk_pair_or_triplet_id b \<in> ids \<and> bk_matching_stratum b = stratum) (mf_blocks m)))"

definition stratumReport ::
    "'a evaluation_env_scheme \<Rightarrow> pilot_manifest \<Rightarrow> routing_gate \<Rightarrow> observation list \<Rightarrow> string set \<Rightarrow> string \<times> strata_policy \<Rightarrow>
     stratum_evaluation result" where
  "stratumReport env m g obs ids sp =
     bindR (computePilotMetricsForTripletIds env m obs (stratum_ids m ids (fst sp))) (\<lambda>x.
     bindR (branches_of env m g x) (\<lambda>bs.
     let paired = ev_paired_comparisons (px_metrics x); core = px_core_triplets x in
     bindR (bootstrapInterval env m g core (\<lambda>s. Inr (pairedDifference ob_final_accepted s))) (\<lambda>acceptance.
     bindR (bootstrapInterval env m g core (\<lambda>s. Inr (pairedDifference qualitySuccess s))) (\<lambda>quality.
     let support = support_in x (fst sp); reasons = stratum_reasons g (snd sp) support acceptance quality bs in
     Inr \<lparr>se_matching_stratum = fst sp, se_candidate_triplets = ss_candidate_triplets support,
       se_admitted_triplets = ss_admitted_triplets support, se_status = (if reasons = [] then PROMOTED else NOT_VALIDATED),
       se_reason_codes = (if reasons = [] then [''stratum_promotion_supported''] else sortedUnique reasons),
       se_paired_final_acceptance = (pc_final_acceptance paired)\<lparr>pq_confidence_interval := acceptance\<rparr>,
       se_paired_final_quality = (pc_final_quality paired)\<lparr>pq_confidence_interval := quality\<rparr>,
       se_efficiency_branches = bs\<rparr>))))"

definition policy_map :: "routing_gate \<Rightarrow> (string \<times> strata_policy) list" where
  "policy_map g = foldl (\<lambda>pm p. map_put (sy_matching_stratum p) p pm) [] (gt_strata_policy g)"

definition stratumReports ::
    "'a evaluation_env_scheme \<Rightarrow> pilot_manifest \<Rightarrow> routing_gate \<Rightarrow> observation list \<Rightarrow> string set \<Rightarrow> stratum_evaluation list result" where
  "stratumReports env m g obs ids =
     mapR (stratumReport env m g obs ids) (js_sort (\<lambda>l r. compare_code_units (fst l) (fst r)) (policy_map g))"

section \<open>The decision\<close>

abbreviation supersession_invalid :: error where
  "supersession_invalid \<equiv> pilot_error ''EVALUATION_SUPERSESSION_INVALID''"

abbreviation stage_sequence_invalid :: error where
  "stage_sequence_invalid \<equiv> pilot_error ''EVALUATION_STAGE_SEQUENCE_INVALID''"

definition terminal_decision :: "evaluation_report \<Rightarrow> bool" where
  "terminal_decision r = (er_decision r \<in> {EV_REJECT, EV_PROMOTE_BOUNDED})"

definition validateContext ::
    "pilot_manifest \<Rightarrow> routing_gate \<Rightarrow> evaluation_context \<Rightarrow> pilot_metrics \<Rightarrow> string \<Rightarrow> string \<Rightarrow> unit result" where
  "validateContext m g c x policy_hash input_hash =
     (if ec_evaluation_version c = 1
      then throw_if (ec_prior_report c \<noteq> None) supersession_invalid
        (throw_if (gt_stage g \<noteq> 1) stage_sequence_invalid (Inr ()))
      else (case ec_prior_report c of None \<Rightarrow> Inl supersession_invalid
        | Some p \<Rightarrow>
          throw_if (ec_evaluation_version c \<noteq> er_evaluation_version p + 1 \<or> er_pilot_id p \<noteq> mf_pilot_id m \<or>
            er_manifest_hash p \<noteq> mf_manifest_hash m) supersession_invalid
          (throw_if (gt_stage g < er_stage p \<or> er_stage p + 1 < gt_stage g) stage_sequence_invalid
          (throw_if (terminal_decision p \<and> er_stage p < gt_stage g) (pilot_error ''TERMINAL_DECISION_CANNOT_ADVANCE'')
          (throw_if (policy_hash \<noteq> er_gate_policy_hash p) (pilot_error ''GATE_POLICY_CHANGED'')
          (throw_if (px_late_quality_evidence_count x < er_late_quality_evidence_count p)
            (pilot_error ''LATE_QUALITY_EVIDENCE_DECREASED'')
          (throw_if (px_quality_evidence_count x < er_quality_evidence_count p) (pilot_error ''QUALITY_EVIDENCE_DECREASED'')
          (throw_if (gt_stage g = er_stage p \<and> px_quality_evidence_count x \<le> er_quality_evidence_count p)
            (pilot_error ''QUALITY_EVIDENCE_NOT_INCREASED'')
          (throw_if (gt_stage g = er_stage p \<and> input_hash \<noteq> er_decision_input_hash p) (pilot_error ''DECISION_INPUT_CHANGED'')
          (Inr ()))))))))))"

definition ambiguous_quality :: "evaluation_metrics \<Rightarrow> bool" where
  "ambiguous_quality e = list_ex (\<lambda>i. case i of None \<Rightarrow> False | Some v \<Rightarrow> iv_lower v < 0)
     [pq_confidence_interval (pc_final_acceptance (ev_paired_comparisons e)),
      pq_confidence_interval (pc_final_quality (ev_paired_comparisons e))]"

definition wall_time_complete :: "pilot_metrics \<Rightarrow> bool" where
  "wall_time_complete x = (let w = cp_wall_time_by_arm (px_completeness x) in
     w A_STRONG_BASELINE = Some 1 \<and> w C_ADAPTIVE_EARLY_ESCALATION = Some 1)"

definition reasons_with :: "branch_status \<Rightarrow> efficiency_branches \<Rightarrow> string list" where
  "reasons_with s bs = concat (map eb_reason_codes (filter (\<lambda>b. eb_status b = s) (branch_list bs)))"

definition some_branch :: "branch_status \<Rightarrow> efficiency_branches \<Rightarrow> bool" where
  "some_branch s bs = list_ex (\<lambda>b. eb_status b = s) (branch_list bs)"

definition decide ::
    "routing_gate \<Rightarrow> pilot_metrics \<Rightarrow> efficiency_branches \<Rightarrow> string list \<Rightarrow> bool \<Rightarrow> string list \<Rightarrow> evaluation_decision \<times> string list" where
  "decide g x bs hard ambiguous promoted =
     (let stage = gt_stage g; early = (\<lambda>d. if stage = 2 then d else EV_INCONCLUSIVE) in
      if hard \<noteq> [] then (EV_REJECT, hard)
      else if dn_admitted_triplets (px_denominators x) < th_minimum_blocks_per_arm (gt_thresholds g)
        then (if stage = 1 then EV_CONTINUE else early EV_INSUFFICIENT_EVIDENCE, [''insufficient_comparable_samples''])
      else if stage = 1 then (EV_CONTINUE, [''stage_1_cannot_promote''])
      else if ambiguous then (early EV_CONTINUE, [''decision_remains_ambiguous''])
      else if some_branch PASS bs \<and> \<not> wall_time_complete x then (early EV_INSUFFICIENT_EVIDENCE, [''wall_time_incomplete''])
      else if some_branch PASS bs \<and> promoted \<noteq> []
        then (EV_PROMOTE_BOUNDED, ''bounded_promotion_supported'' # reasons_with PASS bs)
      else if some_branch PASS bs then (early EV_INSUFFICIENT_EVIDENCE, [''no_independently_validated_strata''])
      else if some_branch AMBIGUOUS bs then (early EV_CONTINUE, [''decision_remains_ambiguous''])
      else if list_all (\<lambda>b. eb_status b = FAIL_POINT) (branch_list bs) then (EV_REJECT, [''material_improvement_ruled_out''])
      else (early EV_INSUFFICIENT_EVIDENCE, ''insufficient_observed_economic_evidence'' # reasons_with UNUSABLE bs))"

definition cannot_promote :: "int \<Rightarrow> evaluation_decision \<Rightarrow> evaluation_report \<Rightarrow> bool" where
  "cannot_promote st d p = (st = er_stage p \<and> d = EV_PROMOTE_BOUNDED \<and>
     (er_decision p = EV_REJECT \<or> er_stage p = 3 \<and> er_decision p \<noteq> EV_PROMOTE_BOUNDED))"

definition promoted_names :: "stratum_evaluation list \<Rightarrow> string list" where
  "promoted_names ss = map se_matching_stratum (filter (\<lambda>s. se_status s = PROMOTED) ss)"

definition final_strata :: "evaluation_decision \<Rightarrow> stratum_evaluation list \<Rightarrow> stratum_evaluation list" where
  "final_strata d ss = (if d = EV_PROMOTE_BOUNDED then ss
     else map (\<lambda>s. if se_status s = NOT_VALIDATED then s
       else s\<lparr>se_status := NOT_VALIDATED, se_reason_codes := sortedUnique (se_reason_codes s @ [''global_outcome_not_promoted''])\<rparr>) ss)"

definition warnings_of :: "evaluation_context \<Rightarrow> pilot_metrics \<Rightarrow> string list" where
  "warnings_of c full = (let late = px_late_quality_evidence_count full in
     note_if (0 < late \<and> ec_evaluation_version c = 1) ''LATE_QUALITY_EVIDENCE'' @
     note_if (case ec_prior_report c of None \<Rightarrow> False | Some p \<Rightarrow> er_late_quality_evidence_count p < late) ''STALE_DECISION'')"

definition supersession_of :: "'a evaluation_env_scheme \<Rightarrow> evaluation_report \<Rightarrow> supersession" where
  "supersession_of env p = \<lparr>sp_evaluation_id = er_evaluation_id p, sp_evaluation_version = er_evaluation_version p,
     sp_report_hash = vx_report_hash env p\<rparr>"

definition report_of ::
    "'a evaluation_env_scheme \<Rightarrow> pilot_manifest \<Rightarrow> routing_gate \<Rightarrow> evaluation_context \<Rightarrow> observation list \<Rightarrow> pilot_metrics \<Rightarrow> pilot_metrics \<Rightarrow>
     efficiency_branches \<Rightarrow> evaluation_metrics \<Rightarrow> evaluation_decision \<times> string list \<Rightarrow> stratum_evaluation list \<Rightarrow> evaluation_report" where
  "report_of env m g c obs computed full bs metrics verdict strata =
     \<lparr>er_evaluation_id = ec_evaluation_id c, er_evaluation_version = ec_evaluation_version c, er_pilot_id = mf_pilot_id m,
      er_manifest_hash = mf_manifest_hash m, er_evaluated_at = gt_evaluated_at g, er_stage = gt_stage g,
      er_decision = fst verdict, er_promoted_strata = sortedUnique (promoted_names strata),
      er_not_validated_strata = sort_strings (map se_matching_stratum (filter (\<lambda>s. se_status s = NOT_VALIDATED) strata)),
      er_reasons = sortedUnique (snd verdict), er_observation_set_hash = px_observation_set_hash full,
      er_decision_input_hash = decisionInputHash env obs, er_quality_evidence_hash = px_quality_evidence_hash full,
      er_quality_evidence_count = px_quality_evidence_count full,
      er_late_quality_evidence_count = px_late_quality_evidence_count full, er_gate_policy_hash = gatePolicyHash env g,
      er_metrics = metrics, er_exclusions = px_exclusions computed, er_efficiency_branches = bs, er_strata = strata,
      er_operational_totals = px_operational_totals full, er_denominators = px_denominators computed,
      er_completeness = px_completeness computed,
      er_interval_metadata = \<lparr>im_confidence_level = th_confidence_level (gt_thresholds g),
        im_interval_algorithm_version = th_interval_algorithm_version (gt_thresholds g),
        im_resampling_iterations = th_resampling_iterations (gt_thresholds g), im_resampling_seed = gt_resampling_seed g\<rparr>,
      er_warnings = sortedUnique (warnings_of c full),
      er_supersedes = map_option (supersession_of env) (ec_prior_report c)\<rparr>"

definition selected_ids :: "pilot_manifest \<Rightarrow> routing_gate \<Rightarrow> string set" where
  "selected_ids m g = set (take (nat (stageLimit (gt_stage g))) (candidateTripletIds m))"

definition evaluatePilot ::
    "'a evaluation_env_scheme \<Rightarrow> pilot_manifest \<Rightarrow> observation list \<Rightarrow> routing_gate \<Rightarrow> evaluation_context \<Rightarrow> evaluation_report result" where
  "evaluatePilot env m obs g c =
     bindR (validateGate m g) (\<lambda>_.
     let ids = selected_ids m g; scoped = stageObservations m obs ids in
     bindR (computePilotMetricsForTripletIds env m scoped ids) (\<lambda>computed.
     bindR (computePilotMetrics env m obs) (\<lambda>full.
     bindR (validateContext m g c full (gatePolicyHash env g) (decisionInputHash env obs)) (\<lambda>_.
     bindR (branches_of env m g computed) (\<lambda>bs.
     let hard = hardRejectReasons computed bs g (px_integrity_reasons computed) in
     bindR (stratumReports env m g scoped ids) (\<lambda>candidates.
     bindR (withIntervals env m g computed bs) (\<lambda>metrics.
     let verdict = decide g computed bs hard (ambiguous_quality metrics) (promoted_names candidates);
         strata = final_strata (fst verdict) candidates;
         report = report_of env m g c obs computed full bs metrics verdict strata in
     throw_if (case ec_prior_report c of None \<Rightarrow> False | Some p \<Rightarrow> cannot_promote (gt_stage g) (fst verdict) p)
       (pilot_error ''TERMINAL_DECISION_CANNOT_PROMOTE'')
     (throw_if (\<not> pilotEvaluationReportV3Schema report) (pilot_error ''EVALUATION_REPORT_INVALID'') (Inr report)))))))))"

section \<open>The history of reports\<close>

definition follows :: "'a evaluation_env_scheme \<Rightarrow> evaluation_report \<Rightarrow> evaluation_report \<Rightarrow> bool" where
  "follows env p r =
     (er_pilot_id r = er_pilot_id p \<and> er_manifest_hash r = er_manifest_hash p \<and>
      er_evaluation_version r = er_evaluation_version p + 1 \<and> er_supersedes r = Some (supersession_of env p))"

definition validateHistoryTransition :: "'a evaluation_env_scheme \<Rightarrow> evaluation_report \<Rightarrow> evaluation_report \<Rightarrow> unit result" where
  "validateHistoryTransition env p r =
     (let same = (er_stage r = er_stage p) in
      throw_if (\<not> follows env p r) supersession_invalid
      (throw_if (er_gate_policy_hash r \<noteq> er_gate_policy_hash p) (pilot_error ''GATE_POLICY_CHANGED'')
      (throw_if (er_stage r < er_stage p \<or> er_stage p + 1 < er_stage r) stage_sequence_invalid
      (throw_if (terminal_decision p \<and> er_stage p < er_stage r) (pilot_error ''TERMINAL_DECISION_CANNOT_ADVANCE'')
      (throw_if (er_late_quality_evidence_count r < er_late_quality_evidence_count p) (pilot_error ''LATE_QUALITY_EVIDENCE_DECREASED'')
      (throw_if (er_quality_evidence_count r < er_quality_evidence_count p) (pilot_error ''QUALITY_EVIDENCE_DECREASED'')
      (throw_if (same \<and> er_quality_evidence_count r \<le> er_quality_evidence_count p)
        (pilot_error (if er_quality_evidence_hash r \<noteq> er_quality_evidence_hash p then ''QUALITY_EVIDENCE_DECREASED''
           else ''QUALITY_EVIDENCE_NOT_INCREASED''))
      (throw_if (same \<and> er_decision_input_hash r \<noteq> er_decision_input_hash p) (pilot_error ''DECISION_INPUT_CHANGED'')
      (throw_if (cannot_promote (er_stage r) (er_decision r) p) (pilot_error ''TERMINAL_DECISION_CANNOT_PROMOTE'')
      (Inr ()))))))))))"

definition same_identity :: "evaluation_report \<Rightarrow> evaluation_report \<Rightarrow> bool" where
  "same_identity e r = (er_evaluation_id e = er_evaluation_id r \<or>
     er_pilot_id e = er_pilot_id r \<and> er_evaluation_version e = er_evaluation_version r)"

definition appendEvaluation ::
    "'a evaluation_env_scheme \<Rightarrow> evaluation_report list \<Rightarrow> evaluation_report \<Rightarrow> evaluation_report list result" where
  "appendEvaluation env history r =
     (case find (\<lambda>e. same_identity e r) history of
        Some e \<Rightarrow> throw_if (e \<noteq> r) (pilot_error ''EVALUATION_IDENTITY_COLLISION'') (Inr history)
      | None \<Rightarrow>
          throw_if (\<not> pilotEvaluationReportV3Schema r) (pilot_error ''EVALUATION_REPORT_INVALID'')
          (if history = []
           then throw_if (er_evaluation_version r \<noteq> 1 \<or> er_stage r \<noteq> 1 \<or> er_supersedes r \<noteq> None) supersession_invalid (Inr [r])
           else bindR (validateHistoryTransition env (last history) r) (\<lambda>_. Inr (history @ [r]))))"

end
