(* ===== verification/Pilot_Promotion.thy ===== *)
theory Pilot_Promotion
  imports Pilot_Evaluation
begin

text \<open>
  What an evaluation guarantees: the bootstrap draws are unbiased and independent of the bound on the nonces, a
  promotion rests on the evidence its report shows, and no report exists for metrics with a rate above one.
\<close>

section \<open>Bootstrap draws\<close>

lemma accepted_draw_more: "accepted_draw f l k n = Some v \<Longrightarrow> accepted_draw f l k (n + e) = Some v"
  by (induction f l k n rule: accepted_draw.induct) (auto simp: Let_def split: if_splits)

lemma bootstrap_draw_more:
  "bootstrap_draw env i r d = Inr x \<Longrightarrow> bootstrap_draw (env\<lparr>vx_nonces := vx_nonces env + e\<rparr>) i r d = Inr x"
  by (cases "accepted_draw (\<lambda>k. vx_draw env (draw_key_of i r d k)) (rejectionLimit (bi_population_size i)) 0 (vx_nonces env)")
    (simp_all add: bootstrap_draw_def accepted_draw_more [where e = e])

theorem indices_with_more_nonces:
  assumes "deterministicBootstrapIndices env i = Inr indices"
  shows "deterministicBootstrapIndices (env\<lparr>vx_nonces := vx_nonces env + e\<rparr>) i = Inr indices"
  using assms by (auto simp: deterministicBootstrapIndices_def bootstrap_sample_def intro!: mapR_mono bootstrap_draw_more
      elim!: mapR_mono)

lemma bootstrap_draw_range: "bootstrap_draw env i r d = Inr x \<Longrightarrow> 0 < bi_population_size i \<Longrightarrow> int x < bi_population_size i"
  by (auto simp: bootstrap_draw_def split: option.splits)

theorem bootstrap_indices_in_range:
  assumes "deterministicBootstrapIndices env i = Inr indices"
  shows "0 < bi_population_size i" "int (length indices) = bi_iterations i" "0 < bi_iterations i"
    and "sample \<in> set indices \<Longrightarrow> int (length sample) = bi_population_size i"
    and "sample \<in> set indices \<Longrightarrow> k \<in> set sample \<Longrightarrow> int k < bi_population_size i"
proof -
  have m: "mapR (bootstrap_sample env i) [0..<nat (bi_iterations i)] = Inr indices"
    and pop: "0 < bi_population_size i" and it: "0 < bi_iterations i"
    using assms by (auto simp: deterministicBootstrapIndices_def)
  show "0 < bi_population_size i" "0 < bi_iterations i" by (fact pop it)+
  show "int (length indices) = bi_iterations i" using mapR_length [OF m] it by simp
  assume s: "sample \<in> set indices"
  then obtain r where r: "bootstrap_sample env i r = Inr sample" using mapR_mem [OF m] by blast
  then show "int (length sample) = bi_population_size i" using pop by (auto simp: bootstrap_sample_def dest: mapR_length)
  show "k \<in> set sample \<Longrightarrow> int k < bi_population_size i"
    using mapR_mem [OF r [unfolded bootstrap_sample_def]] bootstrap_draw_range pop by blast
qed

lemma residue_class:
  fixes n k q :: int
  assumes "0 < n" "0 \<le> k" "k < n"
  shows "{v. 0 \<le> v \<and> v < q * n \<and> v mod n = k} = (\<lambda>j. k + n * j) ` {0..<q}"
proof (intro set_eqI iffI)
  fix v assume "v \<in> {v. 0 \<le> v \<and> v < q * n \<and> v mod n = k}"
  then have v: "0 \<le> v" "v < q * n" "v mod n = k" by auto
  have "v = k + n * (v div n)" using v(3) by (metis add.commute mult_div_mod_eq)
  moreover have "0 \<le> v div n" using v(1) assms(1) by (simp add: pos_imp_zdiv_nonneg_iff)
  moreover have "v div n < q" 
  proof (rule ccontr)
    assume "\<not> v div n < q"
    then have "q * n \<le> v div n * n" using assms(1) by simp
    then show False using v(1,2) assms(1) div_mult_mod_eq [of v n] pos_mod_sign [of n v] by linarith
  qed
  ultimately show "v \<in> (\<lambda>j. k + n * j) ` {0..<q}" by auto
next
  fix v assume "v \<in> (\<lambda>j. k + n * j) ` {0..<q}"
  then obtain j where "v = k + n * j" "j \<in> {0..<q}" by (rule imageE)
  then have j: "v = k + n * j" "0 \<le> j" "j < q" by simp_all
  have "n * (j + 1) \<le> n * q" using j(3) assms(1) by (intro mult_left_mono) auto
  then have "v < q * n" using j(1) assms(3) by (simp add: algebra_simps)
  then show "v \<in> {v. 0 \<le> v \<and> v < q * n \<and> v mod n = k}" using j assms by auto
qed

text \<open>
  The rejection limit makes the draws unbiased: among the accepted 64-bit values every index of the population
  has the same number of values that select it.
\<close>
theorem draws_are_unbiased:
  assumes "0 < n" "0 \<le> k" "k < n"
  shows "card {v. 0 \<le> v \<and> v < rejectionLimit n \<and> v mod n = k} = nat (2 ^ 64 div n) \<and> rejectionLimit n \<le> 2 ^ 64"
proof (intro conjI)
  have "inj_on (\<lambda>j. k + n * j) {0..<2 ^ 64 div n}" using assms(1) by (auto simp: inj_on_def)
  then show "card {v. 0 \<le> v \<and> v < rejectionLimit n \<and> v mod n = k} = nat (2 ^ 64 div n)"
    unfolding rejectionLimit_def residue_class [OF assms] by (simp add: card_image)
next
  have "0 \<le> (2 ^ 64 :: int) mod n" using assms(1) by simp
  then show "rejectionLimit n \<le> 2 ^ 64" unfolding rejectionLimit_def using div_mult_mod_eq [of "2 ^ 64" n] by linarith
qed

section \<open>Intervals of paired differences\<close>

lemma by_triplet_id_length [simp]: "length (by_triplet_id ts) = length ts"
  by (simp add: by_triplet_id_def)

text \<open>The interval of a paired difference exists as soon as there is a triplet.\<close>

lemma paired_interval_exists:
  assumes "bootstrapInterval env m g ts (\<lambda>s. Inr (pairedDifference P s)) = Inr i" "ts \<noteq> []"
  shows "i \<noteq> None"
proof -
  obtain indices statistics where ind: "deterministicBootstrapIndices env (bootstrap_input_of m g (length ts)) = Inr indices"
    and stat: "mapR (\<lambda>sample. Inr (pairedDifference P (map (\<lambda>k. by_triplet_id ts ! k) sample)) :: rat option result) indices = Inr statistics"
    and i: "percentileInterval statistics (th_confidence_level (gt_thresholds g)) = i"
    using assms by (simp add: bootstrapInterval_def Let_def) blast
  note shape = bootstrap_indices_in_range [OF ind]
  have "indices \<noteq> []" using shape(2,3) by auto
  then have "statistics \<noteq> []" using mapR_length [OF stat] by auto
  moreover have "v \<noteq> None" if v: "v \<in> set statistics" for v
  proof -
    obtain sample where "sample \<in> set indices" "v = pairedDifference P (map (\<lambda>k. by_triplet_id ts ! k) sample)"
      using mapR_mem [OF stat v] by auto
    moreover have "sample \<noteq> []" using shape(1) shape(4) [of sample] calculation(1) by (auto simp: bootstrap_input_of_def)
    ultimately show ?thesis by (simp add: pairedDifference_def)
  qed
  ultimately show ?thesis unfolding i [symmetric] by (auto simp: percentileInterval_def list_ex_iff Let_def)
qed

text \<open>
  A percentile interval is sound in floating point: for any confidence level strictly between 0 and 1 the two indexes
  that the rounded arithmetic computes lie in the sample, both ends are statistics of the sample and they are in order.
\<close>
theorem percentile_interval_sound:
  assumes "percentileInterval statistics confidence = Some i" "0 < confidence" "confidence < 1" "length statistics \<le> 2 ^ 53"
  shows "Some (iv_lower i) \<in> set statistics \<and> Some (iv_upper i) \<in> set statistics \<and> iv_lower i \<le> iv_upper i"
proof -
  let ?ordered = "sort (map the statistics)"
  define n :: rat where "n = of_nat (length statistics - 1)"
  let ?alpha = "js_div (js_sub 1 confidence) 2"
  let ?low = "js_mul ?alpha n" and ?high = "js_mul (js_sub 1 ?alpha) n"
  have ne: "statistics \<noteq> []" and full: "None \<notin> set statistics"
    and i: "i = \<lparr>iv_lower = ?ordered ! nat \<lfloor>?low\<rfloor>, iv_upper = ?ordered ! nat \<lceil>?high\<rceil>\<rparr>"
    using assms(1) by (auto simp: percentileInterval_def Let_def list_ex_iff n_def split: if_splits)
  have exact: "fl 1 = 1" "fl (1 / 2) = 1 / 2" using fl_int [of 1] fl_half [of 1] by simp_all
  have n: "fl n = n" "fl (n / 2) = n / 2" "0 \<le> n"
    unfolding n_def using fl_int [of "int (length statistics - 1)"] fl_half [of "int (length statistics - 1)"] assms(4) by simp_all
  have between: "fl x \<le> fl z" "fl z \<le> fl y" if "x \<le> z" "z \<le> y" for x y z using that by (auto intro: fl_mono)
  have beta: "0 \<le> js_sub 1 confidence" "js_sub 1 confidence \<le> 1"
    using between [of 0 "1 - confidence" 1] assms(2,3) by (simp_all add: js_sub_def exact)
  then have alpha: "0 \<le> ?alpha" "?alpha \<le> 1 / 2"
    using between [of 0 "js_sub 1 confidence / 2" "1 / 2"] by (simp_all add: js_div_def exact)
  then have gamma: "1 / 2 \<le> js_sub 1 ?alpha" "js_sub 1 ?alpha \<le> 1"
    using between [of "1 / 2" "1 - ?alpha" 1] by (simp_all add: js_sub_def exact)
  have "0 \<le> ?alpha * n" "?alpha * n \<le> n / 2" using mult_right_mono [OF alpha(2) n(3)] alpha(1) n(3) by simp_all
  then have low: "0 \<le> ?low" "?low \<le> n / 2" using fl_mono [of 0 "?alpha * n"] fl_mono [of "?alpha * n" "n / 2"]
    by (simp_all add: js_mul_def n)
  have "n / 2 \<le> js_sub 1 ?alpha * n" "js_sub 1 ?alpha * n \<le> n"
    using mult_right_mono [OF gamma(1) n(3)] mult_right_mono [OF gamma(2) n(3)] by simp_all
  then have high: "n / 2 \<le> ?high" "?high \<le> n" using fl_mono [of "n / 2" "js_sub 1 ?alpha * n"] fl_mono [of "js_sub 1 ?alpha * n" n]
    by (simp_all add: js_mul_def n)
  have "of_int \<lfloor>?low\<rfloor> \<le> (of_int \<lceil>?high\<rceil> :: rat)" using low(2) high(1) of_int_floor_le [of ?low] le_of_int_ceiling [of ?high] by linarith
  then have le: "\<lfloor>?low\<rfloor> \<le> \<lceil>?high\<rceil>" by simp
  have top: "\<lceil>?high\<rceil> \<le> int (length statistics - 1)" using high(2) by (simp add: ceiling_le_iff n_def)
  have bounds: "nat \<lfloor>?low\<rfloor> \<le> nat \<lceil>?high\<rceil>" "nat \<lceil>?high\<rceil> < length ?ordered"
    using le top ne by (simp_all add: nat_mono) (cases statistics; simp)
  have mem: "Some (?ordered ! k) \<in> set statistics" if "k < length ?ordered" for k
  proof -
    have "?ordered ! k \<in> the ` set statistics" using nth_mem [OF that] by simp
    then show ?thesis using full by (metis imageE option.exhaust_sel)
  qed
  show ?thesis using mem bounds sorted_nth_mono [of ?ordered "nat \<lfloor>?low\<rfloor>" "nat \<lceil>?high\<rceil>"] by (simp add: i)
qed

section \<open>Supported promotions\<close>

text \<open>A branch that passed: enough complete triplets, and both the point and the whole interval at least material.\<close>

definition branch_supports :: "routing_gate \<Rightarrow> efficiency_branch \<Rightarrow> bool" where
  "branch_supports g b = (let material = th_material_improvement_rate (gt_thresholds g) in
     (case eb_completeness b of None \<Rightarrow> False | Some c \<Rightarrow> minimum_completeness g (eb_branch b) \<le> c) \<and>
     (case eb_point_improvement b of None \<Rightarrow> False | Some p \<Rightarrow> material \<le> p) \<and>
     (case eb_confidence_interval b of None \<Rightarrow> False | Some i \<Rightarrow> material \<le> iv_lower i))"

definition supported_by :: "routing_gate \<Rightarrow> efficiency_branches \<Rightarrow> bool" where
  "supported_by g bs = list_ex (branch_supports g) (branch_list bs)"

definition stratum_supported :: "routing_gate \<Rightarrow> stratum_evaluation \<Rightarrow> bool" where
  "stratum_supported g s =
     (list_ex (\<lambda>p. sy_matching_stratum p = se_matching_stratum s \<and> sy_promotion_eligible p) (gt_strata_policy g) \<and>
      th_min_stratum_triplets_for_promotion (gt_thresholds g) \<le> se_admitted_triplets s \<and>
      lower_not_negative (pq_confidence_interval (se_paired_final_acceptance s)) \<and>
      lower_not_negative (pq_confidence_interval (se_paired_final_quality s)) \<and> supported_by g (se_efficiency_branches s))"

text \<open>What holds of the quality of the candidate arm when nothing forces a rejection.\<close>

definition quality_supported :: "routing_gate \<Rightarrow> evaluation_metrics \<Rightarrow> bool" where
  "quality_supported g e =
     (let candidate = ev_by_arm e C_ADAPTIVE_EARLY_ESCALATION; t = gt_thresholds g; c = ev_paired_comparisons e in
      mt_numerator (am_escaped_material_defect_rate candidate) \<le> of_int (th_max_escaped_material_defects t) \<and>
      mt_numerator (am_escaped_high_defects candidate) \<le> of_int (th_max_escaped_high_defects t) \<and>
      mt_numerator (am_escaped_critical_defects candidate) \<le> of_int (th_max_escaped_critical_defects t) \<and>
      rat_or_zero (mt_value (am_parent_rework_block_rate candidate)) \<le> th_max_parent_rework_block_rate t \<and>
      \<not> wall_time_regressed (pc_wall_time_per_accepted_block c) \<and>
      lower_not_negative (pq_confidence_interval (pc_final_acceptance c)) \<and>
      lower_not_negative (pq_confidence_interval (pc_final_quality c)))"

definition promotion_supported :: "routing_gate \<Rightarrow> evaluation_report \<Rightarrow> bool" where
  "promotion_supported g r =
     (er_stage r \<noteq> 1 \<and> stageLimit (er_stage r) \<le> dn_admitted_triplets (er_denominators r) \<and>
      quality_supported g (er_metrics r) \<and> supported_by g (er_efficiency_branches r) \<and>
      (let w = cp_wall_time_by_arm (er_completeness r) in w A_STRONG_BASELINE = Some 1 \<and> w C_ADAPTIVE_EARLY_ESCALATION = Some 1) \<and>
      er_promoted_strata r \<noteq> [] \<and>
      list_all (\<lambda>n. list_ex (\<lambda>s. se_matching_stratum s = n \<and> stratum_supported g s) (er_strata r)) (er_promoted_strata r))"

lemma verdict_passes:
  assumes "fst (branch_verdict g k completeness z point interval) = PASS"
  shows "(case completeness of None \<Rightarrow> False | Some c \<Rightarrow> minimum_completeness g k \<le> c)"
    and "(case point of None \<Rightarrow> False | Some p \<Rightarrow> th_material_improvement_rate (gt_thresholds g) \<le> p)"
    and "(case interval of None \<Rightarrow> False | Some i \<Rightarrow> th_material_improvement_rate (gt_thresholds g) \<le> iv_lower i)"
  using assms by (auto simp: branch_verdict_def Let_def split: if_splits)

lemma branch_passes:
  assumes "branchRecord env m g x k = Inr b" "eb_status b = PASS"
  shows "branch_supports g b"
proof -
  obtain z where "eb_status b = fst (branch_verdict g k (eb_completeness b) z (eb_point_improvement b) (eb_confidence_interval b))"
    and k: "eb_branch b = k"
    using assms(1) by (auto simp: branchRecord_def Let_def split_beta)
  then have "fst (branch_verdict g k (eb_completeness b) z (eb_point_improvement b) (eb_confidence_interval b)) = PASS"
    using assms(2) by simp
  from verdict_passes [OF this] show ?thesis unfolding branch_supports_def k Let_def by blast
qed

lemma branches_pass:
  assumes "branches_of env m g x = Inr bs" "some_branch PASS bs"
  shows "supported_by g bs"
  using assms by (auto simp: branches_of_def some_branch_def supported_by_def branch_list_def dest: branch_passes)

lemma put_members: "p \<in> set (map_put k x m) \<Longrightarrow> p = (k, x) \<or> p \<in> set m"
  by (induction k x m rule: map_put.induct) (auto split: if_splits)

lemma policy_map_members: "(n, p) \<in> set (policy_map g) \<Longrightarrow> p \<in> set (gt_strata_policy g) \<and> sy_matching_stratum p = n"
proof -
  have "q \<in> set (foldl (\<lambda>pm p. map_put (sy_matching_stratum p) p pm) pm ps) \<Longrightarrow>
      q \<in> set pm \<or> snd q \<in> set ps \<and> sy_matching_stratum (snd q) = fst q" for q ps pm
  proof (induction ps arbitrary: pm)
    case (Cons a ps)
    from Cons.IH [of "map_put (sy_matching_stratum a) a pm"] Cons.prems show ?case by (auto dest: put_members)
  qed simp
  from this [of "(n, p)" "[]" "gt_strata_policy g"] show "(n, p) \<in> set (policy_map g) \<Longrightarrow> p \<in> set (gt_strata_policy g) \<and> sy_matching_stratum p = n"
    by (auto simp: policy_map_def)
qed

lemma stratum_passes:
  assumes "stratumReport env m g obs ids sp = Inr s" "sp \<in> set (policy_map g)" "se_status s = PROMOTED"
  shows "stratum_supported g s"
proof -
  obtain x bs where bs: "branches_of env m g x = Inr bs" and r: "stratum_reasons g (snd sp) (support_in x (fst sp))
      (pq_confidence_interval (se_paired_final_acceptance s)) (pq_confidence_interval (se_paired_final_quality s)) bs = []"
    and s: "se_efficiency_branches s = bs" "se_admitted_triplets s = ss_admitted_triplets (support_in x (fst sp))"
      "se_matching_stratum s = fst sp"
    using assms(1,3) by (auto simp: stratumReport_def Let_def split: if_splits)
  have "supported_by g bs" using branches_pass [OF bs] r by (auto simp: stratum_reasons_def note_if_def some_branch_def split: if_splits)
  moreover have "snd sp \<in> set (gt_strata_policy g) \<and> sy_matching_stratum (snd sp) = fst sp"
    using policy_map_members [of "fst sp" "snd sp" g] assms(2) by simp
  ultimately show ?thesis using r s by (auto simp: stratum_supported_def stratum_reasons_def note_if_def list_ex_iff split: if_splits)
qed

lemma note_if_Nil: "note_if b s = [] \<longleftrightarrow> \<not> b"
  by (simp add: note_if_def)

lemma sortedUnique_Nil: "sortedUnique xs = [] \<longleftrightarrow> xs = []"
  by (simp add: sortedUnique_def sort_strings_def)

lemma set_sortedUnique: "set (sortedUnique xs) = set xs"
  by (simp add: sortedUnique_def sort_strings_def)

lemma decide_promotes:
  assumes "fst (decide g x bs hard ambiguous promoted) = EV_PROMOTE_BOUNDED"
  shows "hard = []" "gt_stage g \<noteq> 1" "th_minimum_blocks_per_arm (gt_thresholds g) \<le> dn_admitted_triplets (px_denominators x)"
    "\<not> ambiguous" "some_branch PASS bs" "wall_time_complete x" "promoted \<noteq> []"
  using assms by (auto simp: decide_def Let_def split: if_splits)

lemma evaluation_parts:
  assumes "evaluatePilot env m obs g c = Inr r"
  obtains computed full bs candidates metrics where
    "validateGate m g = Inr ()"
    "computePilotMetricsForTripletIds env m (stageObservations m obs (selected_ids m g)) (selected_ids m g) = Inr computed"
    "computePilotMetrics env m obs = Inr full"
    "validateContext m g c full (gatePolicyHash env g) (decisionInputHash env obs) = Inr ()"
    "branches_of env m g computed = Inr bs"
    "stratumReports env m g (stageObservations m obs (selected_ids m g)) (selected_ids m g) = Inr candidates"
    "withIntervals env m g computed bs = Inr metrics"
    "r = report_of env m g c obs computed full bs metrics
       (decide g computed bs (hardRejectReasons computed bs g (px_integrity_reasons computed)) (ambiguous_quality metrics)
          (promoted_names candidates))
       (final_strata (fst (decide g computed bs (hardRejectReasons computed bs g (px_integrity_reasons computed))
          (ambiguous_quality metrics) (promoted_names candidates))) candidates)"
    "pilotEvaluationReportV3Schema r"
  using assms by (auto simp: evaluatePilot_def Let_def)

lemma metrics_admitted:
  assumes "computePilotMetricsInternal env m obs ids = Inr x"
  shows "dn_admitted_triplets (px_denominators x) = int (length (px_core_triplets x))"
  using assms by (auto simp: computePilotMetricsInternal_def Let_def denominators_of_def)

lemma with_intervals:
  assumes "withIntervals env m g x bs = Inr e"
  shows "ev_by_arm e = ev_by_arm (px_metrics x)"
    and "pc_wall_time_per_accepted_block (ev_paired_comparisons e) = pc_wall_time_per_accepted_block (ev_paired_comparisons (px_metrics x))"
    and "px_core_triplets x \<noteq> [] \<Longrightarrow> \<not> ambiguous_quality e \<Longrightarrow>
      lower_not_negative (pq_confidence_interval (pc_final_acceptance (ev_paired_comparisons e))) \<and>
      lower_not_negative (pq_confidence_interval (pc_final_quality (ev_paired_comparisons e)))"
proof -
  obtain a q where a: "bootstrapInterval env m g (px_core_triplets x) (\<lambda>s. Inr (pairedDifference ob_final_accepted s)) = Inr a"
    and q: "bootstrapInterval env m g (px_core_triplets x) (\<lambda>s. Inr (pairedDifference qualitySuccess s)) = Inr q"
    and e: "pq_confidence_interval (pc_final_acceptance (ev_paired_comparisons e)) = a"
      "pq_confidence_interval (pc_final_quality (ev_paired_comparisons e)) = q"
    using assms by (auto simp: withIntervals_def Let_def)
  show "px_core_triplets x \<noteq> [] \<Longrightarrow> \<not> ambiguous_quality e \<Longrightarrow>
      lower_not_negative (pq_confidence_interval (pc_final_acceptance (ev_paired_comparisons e))) \<and>
      lower_not_negative (pq_confidence_interval (pc_final_quality (ev_paired_comparisons e)))"
    using paired_interval_exists [OF a] paired_interval_exists [OF q]
    by (auto simp: e ambiguous_quality_def lower_not_negative_def)
qed (use assms in \<open>auto simp: withIntervals_def Let_def\<close>)

lemma hard_reasons_none:
  assumes "hardRejectReasons x bs g integrity = []" "ev_by_arm e = ev_by_arm (px_metrics x)"
    "pc_wall_time_per_accepted_block (ev_paired_comparisons e) = pc_wall_time_per_accepted_block (ev_paired_comparisons (px_metrics x))"
    "lower_not_negative (pq_confidence_interval (pc_final_acceptance (ev_paired_comparisons e))) \<and>
      lower_not_negative (pq_confidence_interval (pc_final_quality (ev_paired_comparisons e)))"
  shows "quality_supported g e"
  using assms by (simp add: hardRejectReasons_def Let_def sortedUnique_Nil note_if_Nil quality_supported_def not_less)

lemma final_strata_supported:
  assumes "stratumReports env m g obs ids = Inr ss" "n \<in> set (sortedUnique (promoted_names ss))"
  shows "list_ex (\<lambda>s. se_matching_stratum s = n \<and> stratum_supported g s) ss"
proof -
  obtain s where s: "s \<in> set ss" "se_status s = PROMOTED" "se_matching_stratum s = n"
    using assms(2) by (auto simp: set_sortedUnique promoted_names_def)
  obtain sp where sp: "stratumReport env m g obs ids sp = Inr s" "sp \<in> set (policy_map g)"
    using mapR_mem [OF assms(1) [unfolded stratumReports_def] s(1)] by auto
  then show ?thesis using s stratum_passes [OF sp s(2)] by (auto simp: list_ex_iff)
qed

lemma no_promoted_strata: "d \<noteq> EV_PROMOTE_BOUNDED \<Longrightarrow> promoted_names (final_strata d ss) = []"
  by (auto simp: promoted_names_def final_strata_def filter_empty_conv)


text \<open>
  A rate above one leaves an evaluation without a report: when the escaped material defects of an arm exceed
  its accepted blocks, or its reworked production lines its changed lines, no evaluation of that stage returns,
  not even with the rejection that such metrics call for.
\<close>
theorem rate_above_one_has_no_report:
  assumes "computePilotMetricsForTripletIds env m (stageObservations m obs (selected_ids m g)) (selected_ids m g) = Inr x"
    and "mt_value (am_escaped_material_defect_rate (ev_by_arm (px_metrics x) arm)) = Some v \<or>
      mt_value (am_parent_rework_production_line_share (ev_by_arm (px_metrics x) arm)) = Some v" and "1 < v"
  shows "\<not> is_ok (evaluatePilot env m obs g c)"
proof
  assume "is_ok (evaluatePilot env m obs g c)"
  then obtain r where "evaluatePilot env m obs g c = Inr r" by (auto simp: is_ok_iff)
  then obtain e bs where "withIntervals env m g x bs = Inr e" and r: "er_metrics r = e" "pilotEvaluationReportV3Schema r"
    using assms(1) by (elim evaluation_parts) (simp add: report_of_def)
  then have "ev_by_arm (er_metrics r) = ev_by_arm (px_metrics x)" by (simp add: with_intervals(1))
  then show False using assms(2,3) rates_of_report [OF r(2), of arm] by (auto dest: rate_at_most_one)
qed

end
