(* ===== verification/Pilot_Reports.thy ===== *)
theory Pilot_Reports
  imports Pilot_Evaluation
begin

text \<open>
  The history of evaluation reports as a machine that only appends: what \<open>appendEvaluation\<close> keeps, and what holds
  between consecutive reports of every history built by it.
\<close>

section \<open>The invariant of a history\<close>

fun linked :: "'a evaluation_env_scheme \<Rightarrow> evaluation_report list \<Rightarrow> bool" where
  "linked env (p # r # rs) = (validateHistoryTransition env p r = Inr () \<and> linked env (r # rs))"
| "linked env _ = True"

definition first_report_ok :: "evaluation_report list \<Rightarrow> bool" where
  "first_report_ok h = (case h of [] \<Rightarrow> True
     | r # _ \<Rightarrow> er_evaluation_version r = 1 \<and> er_stage r = 1 \<and> er_supersedes r = None)"

definition evaluation_history :: "'a evaluation_env_scheme \<Rightarrow> evaluation_report list \<Rightarrow> bool" where
  "evaluation_history env h = (list_all pilotEvaluationReportV3Schema h \<and> first_report_ok h \<and> linked env h)"

lemma linked_snoc: "linked env (h @ [r]) \<longleftrightarrow> linked env h \<and> (h \<noteq> [] \<longrightarrow> validateHistoryTransition env (last h) r = Inr ())"
  by (induction env h rule: linked.induct) auto

lemma first_report_snoc: "h \<noteq> [] \<Longrightarrow> first_report_ok (h @ [r]) = first_report_ok h"
  by (cases h) (simp_all add: first_report_ok_def)

lemma linked_nth: "linked env h \<Longrightarrow> Suc i < length h \<Longrightarrow> validateHistoryTransition env (h ! i) (h ! Suc i) = Inr ()"
proof (induction env h arbitrary: i rule: linked.induct)
  case (1 env p r rs)
  then show ?case by (cases i) auto
qed auto

lemma append_result: "appendEvaluation env h r = Inr h' \<Longrightarrow> h' = h \<or> h' = h @ [r]"
  by (auto simp: appendEvaluation_def split: option.splits if_splits)

lemma append_keeps_history:
  assumes "evaluation_history env h" "appendEvaluation env h r = Inr h'"
  shows "evaluation_history env h'"
proof (cases "find (\<lambda>e. same_identity e r) h")
  case (Some e)
  then show ?thesis using assms by (simp add: appendEvaluation_def)
next
  case None
  then have schema: "pilotEvaluationReportV3Schema r" using assms(2) by (auto simp: appendEvaluation_def)
  show ?thesis
  proof (cases "h = []")
    case True
    then show ?thesis using assms(2) None schema by (auto simp: appendEvaluation_def evaluation_history_def first_report_ok_def)
  next
    case False
    then have "h' = h @ [r]" "validateHistoryTransition env (last h) r = Inr ()" using assms(2) None by (auto simp: appendEvaluation_def)
    then show ?thesis using assms(1) schema False
      by (simp add: evaluation_history_def first_report_snoc linked_snoc)
  qed
qed

interpretation evaluation_log: replay_machine "appendEvaluation env" "[]" "evaluation_history env" for env
proof unfold_locales
  show "evaluation_history env []" by (simp add: evaluation_history_def first_report_ok_def)
qed (rule append_keeps_history)

section \<open>Consecutive reports\<close>

definition succeeds :: "'a evaluation_env_scheme \<Rightarrow> evaluation_report \<Rightarrow> evaluation_report \<Rightarrow> bool" where
  "succeeds env p r =
     (follows env p r \<and> er_gate_policy_hash r = er_gate_policy_hash p \<and>
      er_late_quality_evidence_count p \<le> er_late_quality_evidence_count r \<and>
      (if er_stage r = er_stage p
       then er_quality_evidence_count p < er_quality_evidence_count r \<and> er_decision_input_hash r = er_decision_input_hash p
       else er_stage r = er_stage p + 1 \<and> \<not> terminal_decision p \<and> er_quality_evidence_count p \<le> er_quality_evidence_count r))"

lemma transition_succeeds: "validateHistoryTransition env p r = Inr () \<Longrightarrow> succeeds env p r"
  by (auto simp: validateHistoryTransition_def succeeds_def Let_def)

lemma history_versions:
  assumes "evaluation_history env h" "i < length h"
  shows "er_evaluation_version (h ! i) = int i + 1"
  using assms(2)
proof (induction i)
  case 0
  then show ?case using assms(1) by (cases h) (auto simp: evaluation_history_def first_report_ok_def)
next
  case (Suc i)
  then have "follows env (h ! i) (h ! Suc i)"
    using assms(1) linked_nth [of env h i] transition_succeeds unfolding evaluation_history_def succeeds_def by blast
  then show ?case using Suc by (simp add: follows_def)
qed

text \<open>
  C26. The reports appended one after the other form a chain: the versions are 1, 2, 3, ..., each report names its
  predecessor by id, version and hash, the gate policy never changes, a new look needs more quality evidence on the same
  decision input or the next stage, and no stage is entered from a terminal decision.
\<close>
theorem reports_form_a_chain:
  assumes "foldR (appendEvaluation env) [] rs = Inr h" "Suc i < length h"
  shows "er_evaluation_version (h ! i) = int i + 1 \<and> succeeds env (h ! i) (h ! Suc i)"
proof -
  have inv: "evaluation_history env h" by (rule evaluation_log.replay_inv [OF assms(1)])
  then have "succeeds env (h ! i) (h ! Suc i)"
    using assms(2) linked_nth [of env h i] transition_succeeds unfolding evaluation_history_def by blast
  then show ?thesis using history_versions [OF inv] assms(2) by simp
qed

text \<open>Appending a report again changes nothing, and a report with the identity of another is refused.\<close>

theorem append_again:
  assumes "r \<in> set h"
    and "\<And>e. e \<in> set h \<Longrightarrow> same_identity e r \<Longrightarrow> e = r"
  shows "appendEvaluation env h r = Inr h"
proof -
  have "same_identity r r" by (simp add: same_identity_def)
  then obtain e where e: "find (\<lambda>e. same_identity e r) h = Some e" using assms(1) by (cases "find (\<lambda>e. same_identity e r) h") (auto simp: find_None_iff)
  then have "e = r" using assms(2) by (auto simp: find_Some_iff)
  then show ?thesis by (simp add: appendEvaluation_def e)
qed

end
