(* ===== verification/Pilot_Admission.thy ===== *)
theory Pilot_Admission
  imports Pilot_Metrics
begin

text \<open>
  Which comparisons are fair: every triplet gets each arm exactly once, and an admitted triplet has one complete and
  identity-checked observation for each of them.
\<close>

section \<open>Assignment of the arms\<close>

lemma arms_facts: "distinct arms" "arm \<in> set arms" "length arms = 3"
  by (cases arm; simp add: arms_def)+

lemma filter_concat_one:
  assumes "distinct ts" "t \<in> set ts" "\<And>a. a \<in> set (f t) \<Longrightarrow> P a"
    and "\<And>u a. u \<in> set ts \<Longrightarrow> u \<noteq> t \<Longrightarrow> a \<in> set (f u) \<Longrightarrow> \<not> P a"
  shows "filter P (concat (map f ts)) = f t"
  using assms
proof (induction ts)
  case (Cons u ts)
  show ?case
  proof (cases "u = t")
    case True
    then have "filter P (concat (map f ts)) = []" using Cons.prems(1,4) by (auto simp: filter_empty_conv)
    then show ?thesis using True Cons.prems(3) by simp
  next
    case False
    then have "filter P (f u) = []" using Cons.prems(4) by (auto simp: filter_empty_conv)
    then show ?thesis using False Cons by auto
  qed
qed simp

lemma classified_distinct: "classification_errors ids bs = [] \<Longrightarrow> distinct (map bk_block_id bs) \<and> bk_block_id ` set bs \<inter> ids = {}"
  by (induction ids bs rule: classification_errors.induct) (auto simp: note_if_def split: if_splits)

lemma triplet_members:
  "(k, ms) \<in> set (comparativeTriplets bs) \<Longrightarrow>
     ms = filter (\<lambda>b. bk_pair_or_triplet_id b = k) (comparative_blocks bs) \<and> ms \<noteq> []"
  by (auto simp: comparativeTriplets_def group_by_members filter_empty_conv)

lemma comparative_subset: "set (comparative_blocks bs) \<subseteq> set bs"
  by (auto simp: comparative_blocks_def)

lemma triplet_of_three: "triplet_errors env t = [] \<Longrightarrow> length (snd t) = 3"
  by (simp add: triplet_errors_def arms_facts split: if_splits)

lemma triplet_assignment_arms:
  assumes "length (snd t) = 3"
  shows "mset (map aa_pilot_arm (triplet_assignments env m t)) = mset arms"
    and "aa_block_id ` set (triplet_assignments env m t) = bk_block_id ` set (snd t)"
proof -
  have len: "length (rankedArms env m t) = 3" by (simp add: rankedArms_def Let_def arms_facts)
  let ?bs = "js_sort (\<lambda>l r. mh_locale_compare env (bk_block_id l) (bk_block_id r)) (snd t)"
  have "map aa_pilot_arm (triplet_assignments env m t) = map snd (zip ?bs (rankedArms env m t))"
    by (simp add: triplet_assignments_def comp_def split_beta)
  then have "map aa_pilot_arm (triplet_assignments env m t) = rankedArms env m t" using len assms by simp
  then show "mset (map aa_pilot_arm (triplet_assignments env m t)) = mset arms" by (simp add: rankedArms_def Let_def)
  have "map aa_block_id (triplet_assignments env m t) = map bk_block_id (map fst (zip ?bs (rankedArms env m t)))"
    by (simp add: triplet_assignments_def comp_def split_beta)
  then have "map aa_block_id (triplet_assignments env m t) = map bk_block_id ?bs" using len assms by simp
  then have "set (map aa_block_id (triplet_assignments env m t)) = set (map bk_block_id ?bs)" by (rule arg_cong)
  then show "aa_block_id ` set (triplet_assignments env m t) = bk_block_id ` set (snd t)" by simp
qed


section \<open>Admission\<close>

lemma object_of_arms:
  assumes "object_of arms f = Inr g"
  shows "f arm = Inr (g arm)"
proof -
  obtain vs where vs: "mapR f arms = Inr vs" and g: "g = (\<lambda>k. the (map_of (zip arms vs) k))"
    using assms by (auto simp: object_of_def)
  from vs obtain x y z where "vs = [x, y, z]" "f A_STRONG_BASELINE = Inr x" "f B_CHEAP_NO_EARLY_ESCALATION = Inr y"
    "f C_ADAPTIVE_EARLY_ESCALATION = Inr z" by (auto simp: arms_def)
  then show ?thesis by (cases arm) (simp_all add: g arms_def)
qed

text \<open>An observation that may enter a comparison as the member of an arm.\<close>

definition comparable :: "pilot_manifest \<Rightarrow> observation list \<Rightarrow> string \<Rightarrow> pilot_arm \<Rightarrow> observation \<Rightarrow> bool" where
  "comparable m obs triplet arm b =
     (ob_pilot_id b = mf_pilot_id m \<and> ob_manifest_hash b = mf_manifest_hash m \<and>
      ob_pair_or_triplet_id b = triplet \<and> ob_pilot_arm b = Some arm \<and>
      assigned_arm_of m (ob_block_id b) = Some arm \<and>
      filter (\<lambda>x. ob_block_id x = ob_block_id b) obs = [b] \<and>
      ob_valid_history b \<and> ob_final_outcome b \<in> {OUT_ACCEPTED, OUT_FAILED} \<and>
      (if ob_final_outcome b = OUT_ACCEPTED then ob_post_acceptance_window_closed b else True) \<and>
      \<not> hasZeroOperationEconomicValue b)"

lemma admissible_reasons:
  assumes "sortedUnique xs = []"
  shows "xs = []"
  using assms by (simp add: sortedUnique_def sort_strings_def)

lemma no_exclusion:
  assumes "exclusionReasons m k arm (matches_of obs k) = []" "assigned_arm_of m (bk_block_id k) = Some arm"
  shows "comparable m obs (bk_pair_or_triplet_id k) arm (hd (matches_of obs k))"
proof -
  have r: "matches_of obs k \<noteq> []" "\<not> 1 < length (matches_of obs k)"
    "concat (map (observation_reasons m k arm) (matches_of obs k)) = []"
    using admissible_reasons [OF assms(1) [unfolded exclusionReasons_def]] by (auto simp: note_if_def split: if_splits)
  then obtain b where b: "matches_of obs k = [b]" by (cases "matches_of obs k") auto
  then have "observation_reasons m k arm b = []" using r(3) by simp
  moreover have "ob_block_id b = bk_block_id k"
    using b by (metis (mono_tags, lifting) filter_eq_Cons_iff matches_of_def)
  ultimately show ?thesis using b assms(2)
    by (auto simp: observation_reasons_def note_if_def identityMatches_def baseIdentityMatches_def comparable_def matches_of_def
        split: if_splits)
qed

lemma member_block_facts:
  assumes "member_block m blocks arm = Inr k"
  shows "k \<in> set blocks" "assigned_arm_of m (bk_block_id k) = Some arm"
  using assms by (auto simp: member_block_def find_Some_iff split: option.splits)

lemma candidate_group_members:
  assumes "g \<in> set (candidate_groups m ids)" "k \<in> set (snd g)"
  shows "bk_pair_or_triplet_id k = fst g"
  using assms group_by_members [of "fst g" "snd g" bk_pair_or_triplet_id] by (auto simp: candidate_groups_def)

lemma admitted_group:
  assumes "admit_group m obs g = Inr (s, ADMITTED t)" "g \<in> set (candidate_groups m ids)"
  shows "comparable m obs (tp_pair_or_triplet_id t) arm (tp_members t arm)"
proof -
  obtain byArm where members: "object_of arms (member_block m (snd g)) = Inr byArm" and r: "triplet_reasons m obs byArm = []"
    and t: "t = \<lparr>tp_pair_or_triplet_id = fst g, tp_matching_stratum = s, tp_members = (\<lambda>arm. hd (matches_of obs (byArm arm)))\<rparr>"
    using assms(1) by (auto simp: admit_group_def exclusion_of_def Let_def split: if_splits)
  note k = member_block_facts [OF object_of_arms [OF members, of arm]]
  have "exclusionReasons m (byArm arm) arm (matches_of obs (byArm arm)) = []"
    using admissible_reasons [OF r [unfolded triplet_reasons_def]] arms_facts(2) [of arm] by auto
  from no_exclusion [OF this k(2)] show ?thesis using candidate_group_members [OF assms(2) k(1)] by (simp add: t)
qed

lemma admission_counts: "length as = length (admitted_of as) + length (excluded_of as)"
  by (induction as) (auto simp: admitted_of_def excluded_of_def map_filter_simps split: admission.splits)


end
