(* ===== verification/Pilot_Reducer.thy ===== *)
theory Pilot_Reducer
  imports Pilot_Observation Pilot_Manifest JS_Number
begin

text \<open>
  \<open>src/pilot/reducer.ts\<close>: from the audit log of a pilot to one observation per block of its manifest. The log is
  ordered with the block's own events first, projected to its active events and replayed; usage, reviews,
  validations, rework and defects are summed up, and an error in any of these makes the block INVALID.

  A caught error is the value of \<open>reducerError\<close>, which later errors overwrite. \<open>containedSafeSum\<close> yields its
  fallback and records the label: only whether a label was recorded is read, so that is a flag.
\<close>

record reducer_env =
  rd_machine :: machine_env
  rd_manifest :: manifest_env

section \<open>Checked sums\<close>

definition safe_sum_step :: "int \<Rightarrow> int \<Rightarrow> int result" where
  "safe_sum_step acc n =
     throw_if (\<not> safe_int n \<or> n < 0 \<or> max_safe_integer - n < acc) (Error RANGE_ERROR ''SAFE_INTEGER_OVERFLOW'') (Inr (acc + n))"

definition safeSum :: "int list \<Rightarrow> int result" where
  "safeSum values = foldR safe_sum_step 0 values"

definition overflows :: "int list \<Rightarrow> bool" where
  "overflows values = (\<not> is_ok (safeSum values))"

definition containedSafeSum :: "int list \<Rightarrow> int option" where
  "containedSafeSum values = (case safeSum values of Inl _ \<Rightarrow> None | Inr n \<Rightarrow> Some n)"

definition or_zero :: "int option \<Rightarrow> int" where
  "or_zero x = (case x of None \<Rightarrow> 0 | Some n \<Rightarrow> n)"

definition reasonCode :: "string \<Rightarrow> string" where
  "reasonCode s = (case s of [] \<Rightarrow> ''AUDIT_LOG_INVALID''
     | c # cs \<Rightarrow> if alnum c \<and> list_all identifier_char cs then s else ''AUDIT_LOG_INVALID'')"

section \<open>The log\<close>

definition audit_order :: "string \<Rightarrow> pilot_event \<Rightarrow> pilot_event \<Rightarrow> int" where
  "audit_order target l r =
     (let lt = (pe_block_id l = target); rt = (pe_block_id r = target) in
      if lt \<noteq> rt then (if lt then -1 else 1)
      else if pe_block_id l \<noteq> pe_block_id r then compare_code_units (pe_block_id l) (pe_block_id r)
      else if pe_sequence_number l \<noteq> pe_sequence_number r then pe_sequence_number l - pe_sequence_number r
      else compare_code_units (pe_event_id l) (pe_event_id r))"

definition orderedAudit :: "pilot_event list \<Rightarrow> string \<Rightarrow> pilot_event list" where
  "orderedAudit events target = js_sort (audit_order target) events"

abbreviation identity_error :: error where
  "identity_error \<equiv> pilot_error ''RAW_EVENT_IDENTITY_INVALID''"

definition check_identity :: "pilot_manifest \<Rightarrow> pilot_event \<Rightarrow> unit result" where
  "check_identity m e = (case find_block m (pe_block_id e) of
      None \<Rightarrow> Inl identity_error
    | Some b \<Rightarrow>
        throw_if (pe_pilot_id e \<noteq> mf_pilot_id m \<or> pe_manifest_hash e \<noteq> mf_manifest_hash m \<or> identity_differs e b) identity_error
        (case find_assignment m (bk_block_id b) of
           Some a \<Rightarrow> throw_if (pe_pilot_arm e \<noteq> Some (aa_pilot_arm a)) identity_error (Inr ())
         | None \<Rightarrow> throw_if (bk_comparative_eligible b \<or> pe_pilot_arm e \<noteq> None) identity_error (Inr ())))"

definition assertRawIdentity :: "pilot_manifest \<Rightarrow> pilot_event list \<Rightarrow> unit result" where
  "assertRawIdentity m events = each (check_identity m) events"

text \<open>The events of one type with their payloads.\<close>

definition select :: "(payload \<Rightarrow> 'a option) \<Rightarrow> pilot_event list \<Rightarrow> (pilot_event \<times> 'a) list" where
  "select f events = List.map_filter (\<lambda>e. map_option (Pair e) (f (pe_payload e))) events"

definition as_started :: "payload \<Rightarrow> execution_started option" where
  "as_started p = (case p of EXECUTION_STARTED x \<Rightarrow> Some x | _ \<Rightarrow> None)"

definition as_completed :: "payload \<Rightarrow> execution_completed option" where
  "as_completed p = (case p of EXECUTION_COMPLETED x \<Rightarrow> Some x | _ \<Rightarrow> None)"

definition as_review :: "payload \<Rightarrow> review_completed option" where
  "as_review p = (case p of REVIEW_COMPLETED v \<Rightarrow> Some v | _ \<Rightarrow> None)"

definition as_validation :: "payload \<Rightarrow> validation_recorded option" where
  "as_validation p = (case p of VALIDATION_RECORDED l \<Rightarrow> Some l | _ \<Rightarrow> None)"

definition as_rework :: "payload \<Rightarrow> rework_recorded option" where
  "as_rework p = (case p of PARENT_REWORK_RECORDED w \<Rightarrow> Some w | _ \<Rightarrow> None)"

definition as_escalation :: "payload \<Rightarrow> escalation_decided option" where
  "as_escalation p = (case p of ESCALATION_DECIDED x \<Rightarrow> Some x | _ \<Rightarrow> None)"

definition as_usage :: "payload \<Rightarrow> usage_recorded option" where
  "as_usage p = (case p of USAGE_RECORDED u \<Rightarrow> Some u | _ \<Rightarrow> None)"

definition as_accepted :: "payload \<Rightarrow> string option" where
  "as_accepted p = (case p of BLOCK_ACCEPTED r t a \<Rightarrow> Some a | _ \<Rightarrow> None)"

definition as_blocked :: "payload \<Rightarrow> (blocked_cause \<times> string) option" where
  "as_blocked p = (case p of BLOCK_BLOCKED k c h \<Rightarrow> Some (k, c) | _ \<Rightarrow> None)"

definition as_defect :: "payload \<Rightarrow> defect_recorded option" where
  "as_defect p = (case p of POST_ACCEPT_DEFECT_RECORDED d \<Rightarrow> Some d | _ \<Rightarrow> None)"

definition ends_block :: "pilot_event \<Rightarrow> bool" where
  "ends_block e = (kind_of (pe_payload e) \<in> {K_BLOCK_ACCEPTED, K_BLOCK_FAILED, K_BLOCK_BLOCKED})"

definition payloads :: "(payload \<Rightarrow> 'a option) \<Rightarrow> pilot_event list \<Rightarrow> 'a list" where
  "payloads f events = map snd (select f events)"

definition first_of :: "'a list \<Rightarrow> 'a option" where
  "first_of xs = (case xs of [] \<Rightarrow> None | x # _ \<Rightarrow> Some x)"

definition last_of :: "'a list \<Rightarrow> 'a option" where
  "last_of xs = first_of (rev xs)"

section \<open>Usage\<close>

definition usage_values :: "evidence_kind \<Rightarrow> priced_usage list \<Rightarrow> int list option" where
  "usage_values k ps =
     (if list_ex (\<lambda>p. list_ex (\<lambda>d. token_values k d p = None) dimensions) ps then None
      else Some (concat (map (\<lambda>p. map (\<lambda>d. the (token_values k d p)) dimensions) ps)))"

definition usageSummary :: "priced_usage list \<Rightarrow> usage_summary" where
  "usageSummary ps =
     (if ps = [] then \<lparr>sm_operations = 0, sm_observed_tokens = None, sm_estimated_tokens = None\<rparr>
      else \<lparr>sm_operations = int (length ps),
        sm_observed_tokens = Option.bind (usage_values OBSERVED ps) containedSafeSum,
        sm_estimated_tokens = Option.bind (usage_values ESTIMATED ps) containedSafeSum\<rparr>)"

definition usage_overflows :: "priced_usage list \<Rightarrow> bool" where
  "usage_overflows ps = list_ex (\<lambda>k. case usage_values k ps of None \<Rightarrow> False | Some vs \<Rightarrow> overflows vs) [OBSERVED, ESTIMATED]"

definition by_role :: "usage_role \<Rightarrow> priced_usage list \<Rightarrow> priced_usage list" where
  "by_role r ps = filter (\<lambda>p. us_role (pu_usage p) = r) ps"

definition no_measure :: aggregate_measure where
  "no_measure = \<lparr>am_value = None, am_complete = 0, am_total = 0, am_completeness_ratio = 0\<rparr>"

definition no_tokens :: strong_token_aggregate where
  "no_tokens = \<lparr>st_input = no_measure, st_output = no_measure, st_cached_input = no_measure, st_reasoning = no_measure,
     st_total = no_measure\<rparr>"

section \<open>Quality after acceptance\<close>

record quality =
  ql_closed :: bool
  ql_accepted_at :: "string option"
  ql_opens_at :: "string option"
  ql_closes_at :: "string option"
  ql_defects :: "post_accept_defect list"
  ql_late :: int
  ql_warnings :: "string list"

definition no_quality :: quality where
  "no_quality = \<lparr>ql_closed = False, ql_accepted_at = None, ql_opens_at = None, ql_closes_at = None, ql_defects = [],
     ql_late = 0, ql_warnings = []\<rparr>"

definition reported_defect :: "defect_recorded \<Rightarrow> post_accept_defect" where
  "reported_defect d = \<lparr>pa_defect_id = df_defect_id d, pa_severity = df_severity d, pa_material = df_material d,
     pa_discovered_at = df_discovered_at d, pa_evidence_id = df_evidence_id d, pa_affected_revision = df_affected_revision d,
     pa_category_code = df_category_code d\<rparr>"

definition iso_or_throw :: "int \<Rightarrow> string result" where
  "iso_or_throw t = (case to_iso t of None \<Rightarrow> Inl (Error RANGE_ERROR ''Invalid time value'') | Some s \<Rightarrow> Inr s)"

definition timed :: "('a \<Rightarrow> string) \<Rightarrow> 'a \<Rightarrow> ('a \<times> int) result" where
  "timed f x = bindR (parseContractualUtc (f x)) (\<lambda>t. Inr (x, t))"

definition quality_of :: "pilot_manifest \<Rightarrow> pilot_event list \<Rightarrow> string \<Rightarrow> quality result" where
  "quality_of m active at_time =
     bindR (parseContractualUtc at_time) (\<lambda>opens.
     let w = mf_post_acceptance_window m; closes = opens + pw_duration_seconds w * 1000 in
     bindR (mapR (timed df_discovered_at) (payloads as_defect active)) (\<lambda>defects.
     throw_if (list_ex (\<lambda>d. snd d < opens) defects) (pilot_error ''QUALITY_TIMESTAMP_INVALID'')
     (bindR (mapR (timed pe_recorded_at) active) (\<lambda>recorded.
      let inside = map fst (filter (\<lambda>d. opens \<le> snd d \<and> snd d \<le> closes) defects);
          late = filter (\<lambda>d. snd d < opens \<or> closes < snd d) defects;
          elapsed = list_ex (\<lambda>r. closes + pw_allowed_clock_skew_seconds w * 1000 \<le> snd r) recorded in
      bindR (iso_or_throw opens) (\<lambda>opens_at.
      bindR (iso_or_throw closes) (\<lambda>closes_at.
      Inr \<lparr>ql_closed = (elapsed \<or> pw_closure_rule w = TERMINAL_MATERIAL_DEFECT \<and> list_ex df_material inside),
           ql_accepted_at = Some at_time, ql_opens_at = Some opens_at, ql_closes_at = Some closes_at,
           ql_defects = map reported_defect inside, ql_late = int (length late),
           ql_warnings = (if late = [] then [] else [''LATE_QUALITY_EVIDENCE''])\<rparr>))))))"

definition severity_rank :: "severity \<Rightarrow> int" where
  "severity_rank s = (case s of SEV_LOW \<Rightarrow> 0 | SEV_MEDIUM \<Rightarrow> 1 | SEV_HIGH \<Rightarrow> 2 | SEV_CRITICAL \<Rightarrow> 3)"

definition max_severity :: "post_accept_defect list \<Rightarrow> severity option" where
  "max_severity ds = first_of (js_sort (\<lambda>l r. severity_rank r - severity_rank l) (map pa_severity ds))"

section \<open>One block\<close>

definition test_counts_invalid :: "validation_recorded \<Rightarrow> bool" where
  "test_counts_invalid l = (vl_passed l \<and> vl_tests_failing l \<noteq> 0 \<or> \<not> vl_passed l \<and> vl_tests_failing l = 0)"

text \<open>The active events and the replay of a block, with the error that was caught.\<close>

definition replay_log ::
    "reducer_env \<Rightarrow> pilot_manifest \<Rightarrow> pilot_event list \<Rightarrow> string \<Rightarrow> pilot_event list \<times> block_replay \<times> string option" where
  "replay_log env m events block =
     (let ordered = orderedAudit events block; machine = rd_machine env in
      case activeEvents (log_env.truncate machine) False ordered of
        Inl e \<Rightarrow> ([], replayBlock machine False m [], Some (message_of e))
      | Inr active \<Rightarrow> (filter (\<lambda>e. pe_block_id e = block) active,
          replayBlock machine False m (if list_ex (\<lambda>e. pe_block_id e = block) ordered then ordered else []), None))"

definition usage_of_block :: "reducer_env \<Rightarrow> pilot_manifest \<Rightarrow> pilot_event list \<Rightarrow> usage_aggregate option" where
  "usage_of_block env m active =
     (case aggregateUsage (usage_env.truncate (rd_manifest env)) (payloads as_usage active) (mf_binding_registry m) (mf_pricing_snapshot m) of
        Inl _ \<Rightarrow> None | Inr a \<Rightarrow> Some a)"

text \<open>The sums of a block, in the order of the source.\<close>

definition block_sums :: "pilot_event list \<Rightarrow> int list list" where
  "block_sums active =
     (let reviews = payloads as_review active; rework = payloads as_rework active; executions = payloads as_completed active in
      [map (\<lambda>v. int (length (vc_material_findings v))) reviews, map (\<lambda>v. int (length (vc_non_material_findings v))) reviews,
       map rw_lines_production rework, map rw_lines_tests rework, map rw_lines_docs rework,
       map xc_changed_lines_production executions, map xc_changed_lines_tests executions, map xc_changed_lines_docs executions,
       map xc_duration_ms executions, map vc_duration_ms reviews])"

definition arithmetic_errors :: "pilot_event list \<Rightarrow> priced_usage list \<Rightarrow> bool" where
  "arithmetic_errors active ps =
     (list_ex overflows (block_sums active) \<or>
      list_ex usage_overflows [by_role ORCHESTRATOR ps, by_role EXECUTOR ps, by_role REVIEWER ps, ps])"

text \<open>Everything that decides the outcome of a block: the quality evidence, and the last error.\<close>

definition early_error :: "string option \<Rightarrow> usage_aggregate option \<Rightarrow> pilot_event list \<Rightarrow> string option" where
  "early_error caught aggregate active =
     (if list_ex test_counts_invalid (payloads as_validation active) then Some ''VALIDATION_TEST_COUNT_INVALID''
      else if aggregate = None then Some ''USAGE_AGGREGATION_INVALID'' else caught)"

definition quality_and_error ::
    "pilot_manifest \<Rightarrow> pilot_event list \<Rightarrow> block_replay \<Rightarrow> string option \<Rightarrow> priced_usage list \<Rightarrow> quality \<times> string option" where
  "quality_and_error m active replay err ps =
     (let (q, err1) = (case first_of (payloads as_accepted active) of
          None \<Rightarrow> (no_quality, err)
        | Some at_time \<Rightarrow>
            if err \<noteq> None \<or> \<not> br_valid_history replay then (no_quality, err)
            else (case quality_of m active at_time of
                Inl _ \<Rightarrow> (no_quality, Some ''QUALITY_TIMESTAMP_INVALID'') | Inr q \<Rightarrow> (q, err))) in
      (q, if arithmetic_errors active ps then Some ''SAFE_ARITHMETIC_INVALID'' else err1))"

definition terminal_outcome :: "bool \<Rightarrow> block_state \<Rightarrow> final_outcome" where
  "terminal_outcome bad st =
     (if bad then OUT_INVALID
      else if st = ACCEPTED then OUT_ACCEPTED else if st = FAILED then OUT_FAILED
      else if st = BLOCKED then OUT_BLOCKED else OUT_INVALID)"

text \<open>The wall time is read outside of every \<open>try\<close>: a time that cannot be parsed is thrown.\<close>

definition wall_time :: "pilot_event list \<Rightarrow> rat option result" where
  "wall_time active = (case (first_of (select as_started active), find ends_block active) of
      (Some s, Some e) \<Rightarrow>
        bindR (parseContractualUtc (pe_occurred_at e)) (\<lambda>finished.
        bindR (parseContractualUtc (pe_occurred_at (fst s))) (\<lambda>started.
        Inr (Some (js_div (of_int (finished - started)) 1000))))
    | _ \<Rightarrow> Inr None)"

definition seconds_of_sum :: "int list \<Rightarrow> rat option" where
  "seconds_of_sum ms = (if ms = [] then None else map_option (\<lambda>n. js_div (of_int n) 1000) (containedSafeSum ms))"

definition distinct_count :: "string list \<Rightarrow> int" where
  "distinct_count xs = int (length (remdups xs))"

definition identity_of :: "pilot_manifest \<Rightarrow> manifest_block \<Rightarrow> observation_identity" where
  "identity_of m b = \<lparr>ob_pilot_id = mf_pilot_id m, ob_manifest_hash = mf_manifest_hash m, ob_task_id = bk_task_id b,
     ob_block_id = bk_block_id b, ob_matching_stratum = bk_matching_stratum b, ob_pair_or_triplet_id = bk_pair_or_triplet_id b,
     ob_case_fingerprint = bk_case_fingerprint b,
     ob_pilot_arm = map_option aa_pilot_arm (find_assignment m (bk_block_id b)),
     ob_complexity_class = bk_complexity_class b, ob_risk_class = bk_risk_class b, ob_changed_line_band = bk_changed_line_band b,
     ob_cheap_eligible = bk_cheap_eligible b, ob_comparative_eligible = bk_comparative_eligible b\<rparr>"

definition history_of :: "observation_identity \<Rightarrow> pilot_event list \<Rightarrow> block_replay \<Rightarrow> string option \<Rightarrow> observation_history" where
  "history_of base active replay err =
     (let bad = (err \<noteq> None \<or> \<not> br_valid_history replay);
          accepted = (terminal_outcome bad (br_state replay) = OUT_ACCEPTED);
          starts = payloads as_started active; reviews = payloads as_review active;
          validations = payloads as_validation active; escalations = payloads as_escalation active;
          first_pass = (case find (\<lambda>v. vs_review_round v = 1) reviews of None \<Rightarrow> False | Some v \<Rightarrow> vc_decision v = ACCEPT) in
      observation_identity.extend base (observation_history.fields
        (if bad then INVALID else br_state replay) (\<not> bad)
        (sortedUnique (map reasonCode (br_invalid_reason_codes replay) @ (case err of None \<Rightarrow> [] | Some e \<Rightarrow> [reasonCode e])))
        (map_option xs_executor_binding_ref (first_of starts)) (map_option xs_executor_binding_ref (last_of starts))
        (sortedUnique (map vs_reviewer_binding_ref reviews)) (int (length (payloads as_completed active)))
        (int (length (filter (\<lambda>x. xs_attempt_kind x = REPAIR_1) starts)))
        (escalations \<noteq> []) (map_option es_escalation_reason (last_of escalations))
        (accepted \<and> first_pass)
        (accepted \<and> (first_pass \<or> list_ex (\<lambda>v. vs_review_round v = 2 \<and> vc_decision v = ACCEPT) reviews))
        accepted
        (case first_of validations of None \<Rightarrow> 0 | Some l \<Rightarrow> vl_tests_failing l)
        (case last_of validations of None \<Rightarrow> 0 | Some l \<Rightarrow> vl_tests_passing l)
        (or_zero (containedSafeSum (map (\<lambda>v. int (length (vc_material_findings v))) reviews)))
        (or_zero (containedSafeSum (map (\<lambda>v. int (length (vc_non_material_findings v))) reviews)))))"

definition work_of :: "observation_history \<Rightarrow> pilot_event list \<Rightarrow> observation_work" where
  "work_of base active =
     (let rework = payloads as_rework active; executions = payloads as_completed active in
      observation_history.extend base (observation_work.fields
        (distinct_count (concat (map rw_files_production rework))) (distinct_count (concat (map rw_files_tests rework)))
        (distinct_count (concat (map rw_files_docs rework)))
        (or_zero (containedSafeSum (map rw_lines_production rework))) (or_zero (containedSafeSum (map rw_lines_tests rework)))
        (or_zero (containedSafeSum (map rw_lines_docs rework)))
        (or_zero (containedSafeSum (map xc_changed_lines_production executions)))
        (or_zero (containedSafeSum (map xc_changed_lines_tests executions)))
        (or_zero (containedSafeSum (map xc_changed_lines_docs executions)))))"

definition usage_part ::
    "observation_work \<Rightarrow> pilot_event list \<Rightarrow> usage_aggregate option \<Rightarrow> final_outcome \<Rightarrow> rat option \<Rightarrow> observation_usage" where
  "usage_part base active aggregate terminal wall =
     (let ps = (case aggregate of None \<Rightarrow> [] | Some a \<Rightarrow> ua_priced_usage a);
          cost = (case aggregate of None \<Rightarrow> no_measure | Some a \<Rightarrow> ua_cost_observed a);
          estimated = (case aggregate of None \<Rightarrow> no_measure | Some a \<Rightarrow> ua_cost_estimated a);
          blocked = (if terminal = OUT_BLOCKED then first_of (payloads as_blocked active) else None) in
      observation_work.extend base (observation_usage.fields
        (usageSummary (by_role ORCHESTRATOR ps)) (usageSummary (by_role EXECUTOR ps)) (usageSummary (by_role REVIEWER ps))
        (usageSummary ps) (am_value cost) (am_value estimated) (am_completeness_ratio cost) (am_completeness_ratio estimated)
        (case aggregate of None \<Rightarrow> no_tokens | Some a \<Rightarrow> ua_strong_tokens_observed a)
        (case aggregate of None \<Rightarrow> no_tokens | Some a \<Rightarrow> ua_strong_tokens_estimated a)
        wall (seconds_of_sum (map xc_duration_ms (payloads as_completed active)))
        (seconds_of_sum (map vc_duration_ms (payloads as_review active)))
        (map_option fst blocked) (map_option snd blocked)))"

definition quality_part :: "observation_usage \<Rightarrow> quality \<Rightarrow> final_outcome \<Rightarrow> observation" where
  "quality_part base q terminal =
     observation_usage.extend base (observation.fields (ql_closed q) (ql_accepted_at q) (ql_opens_at q) (ql_closes_at q)
       (ql_defects q) (int (length (ql_defects q))) (max_severity (ql_defects q)) (ql_late q) (ql_warnings q) terminal)"

definition observationFor ::
    "reducer_env \<Rightarrow> pilot_manifest \<Rightarrow> pilot_event list \<Rightarrow> manifest_block \<Rightarrow> observation result" where
  "observationFor env m events b =
     (case replay_log env m events (bk_block_id b) of (active, replay, caught) \<Rightarrow>
      let aggregate = usage_of_block env m active;
          ps = (case aggregate of None \<Rightarrow> [] | Some a \<Rightarrow> ua_priced_usage a);
          (q, err) = quality_and_error m active replay (early_error caught aggregate active) ps;
          terminal = terminal_outcome (err \<noteq> None \<or> \<not> br_valid_history replay) (br_state replay) in
      bindR (wall_time active) (\<lambda>wall.
      loadPilotBlockObservationV3 (quality_part
        (usage_part (work_of (history_of (identity_of m b) active replay err) active) active aggregate terminal wall)
        q terminal)))"

definition reduceEvents :: "reducer_env \<Rightarrow> pilot_manifest \<Rightarrow> pilot_event list \<Rightarrow> observation list result" where
  "reduceEvents env m events =
     throw_if (\<not> ver_ok (verifyManifest (rd_manifest env) m)) (pilot_error ''MANIFEST_OR_PRICING_INVALID'')
     (bindR (assertRawIdentity m events) (\<lambda>_.
      mapR (observationFor env m events)
        (js_sort (\<lambda>l r. compare_code_units (bk_block_id l) (bk_block_id r)) (mf_blocks m))))"

end
