(* ===== verification/Pilot_History.thy ===== *)
theory Pilot_History
  imports Pilot_Replay
begin

text \<open>
  What a valid history of a block proves. The invariant of the replay loop ties the loop's variables to
  the events already read; from it follow the properties of \<open>replayBlock\<close>: an accepted block rests on
  a recorded execution and an independent accepting review, and a block starts at most three executions
  on the capability its arm prescribes.
\<close>

section \<open>One step\<close>

lemma replay_step_Inr:
  assumes "replay_step env m s e = Inr s'"
  obtains b arm t s1 st where
    "pe_sequence_number e = rp_index s + 1" "parseContractualUtc (pe_occurred_at e) = Inr t"
    "blockContext m e = Inr (b, arm)"
    "own_payload m b arm (pe_event_id e) (pe_payload e) (enter_event (pe_payload e) t s) = Inr s1"
    "assertTransitionGuard env (rp_state s1) e m b arm (pe_payload e) = Inr ()"
    "transitionChecked env (rp_state s1) e m = Inr st" "st \<noteq> INVALID" "s' = s1\<lparr>rp_state := Some st\<rparr>"
proof -
  from assms obtain s1 st where own: "own_event m s e = Inr s1"
    and tr: "transitionChecked env (rp_state s1) e m = Inr st" and st: "st \<noteq> INVALID" "s' = s1\<lparr>rp_state := Some st\<rparr>"
    by (auto simp: replay_step_def split: sum.splits if_splits)
  from own obtain b arm t where "pe_sequence_number e = rp_index s + 1"
    "parseContractualUtc (pe_occurred_at e) = Inr t" and ctx: "blockContext m e = Inr (b, arm)"
    and p: "own_payload m b arm (pe_event_id e) (pe_payload e) (enter_event (pe_payload e) t s) = Inr s1"
    by (auto simp: own_event_def)
  moreover have "assertTransitionGuard env (rp_state s1) e m b arm (pe_payload e) = Inr ()"
    using transition_guard [OF tr] ctx by auto
  ultimately show thesis using tr st by (intro that)
qed

lemma enter_event_fields [simp]:
  "rp_attempts (enter_event p t s) = rp_attempts s"
  "rp_currentAttempt (enter_event p t s) = rp_currentAttempt s"
  "rp_currentReview (enter_event p t s) = rp_currentReview s"
  "rp_acceptedReview (enter_event p t s) = rp_acceptedReview s"
  "rp_acceptedCompletion (enter_event p t s) = rp_acceptedCompletion s"
  "rp_unresolved (enter_event p t s) = rp_unresolved s"
  "rp_state (enter_event p t s) = rp_state s"
  "rp_index (enter_event p t s) = rp_index s + 1"
  "rp_escalationTargetBinding (enter_event p t s) = rp_escalationTargetBinding s"
  "rp_currentCompletion (enter_event p t s) = rp_currentCompletion s"
  "completion_of (enter_event p t s) = completion_of s"
  by (simp_all add: enter_event_def completion_of_def fun_eq_iff)

text \<open>The variables that only executions and reviews change.\<close>

definition core :: "replay_state \<Rightarrow> (string \<rightharpoonup> attempt_entry) \<times> (string \<times> execution_completed) option \<times>
    review_started option \<times> review_completed option \<times> execution_completed option \<times> string list" where
  "core s = (rp_attempts s, rp_currentCompletion s, rp_currentReview s, rp_acceptedReview s, rp_acceptedCompletion s,
     rp_unresolved s)"

definition moves_core :: "event_kind \<Rightarrow> bool" where
  "moves_core k = (k \<in> {K_EXECUTION_STARTED, K_EXECUTION_COMPLETED, K_REVIEW_STARTED, K_REVIEW_COMPLETED})"

text \<open>Each body of the loop, read backwards.\<close>

lemma own_quiet_Inr:
  "own_isolation i s = Inr s' \<Longrightarrow> s' = s"
  "own_rework w s = Inr s' \<Longrightarrow> s' = s"
  "own_acceptance r t s = Inr s' \<Longrightarrow> s' = s \<and> (\<exists>v x. rp_acceptedReview s = Some v \<and> rp_acceptedCompletion s = Some x \<and>
      r = vc_review_boundary_to_revision v \<and> r = xc_output_revision x \<and> t = xc_output_tree_hash x)"
  "own_defect d s = Inr s' \<Longrightarrow> s' = s"
  by (auto simp: own_isolation_def own_rework_def own_acceptance_def own_defect_def split: option.splits)

lemma usage_Inr:
  "usage_of_operation u s = Inr s' \<Longrightarrow> s' \<in> {s, s\<lparr>rp_openOperation := None\<rparr>}"
  "usage_of_attempt u s = Inr s' \<Longrightarrow> s' = s"
  "usage_of_review u s = Inr s' \<Longrightarrow> s' = s"
  by (auto simp: usage_of_operation_def usage_of_attempt_def usage_of_review_def split: option.splits)

lemma own_usage_Inr: "own_usage m u s = Inr s' \<Longrightarrow> s' \<in> {s, s\<lparr>rp_openOperation := None\<rparr>}"
  unfolding own_usage_def throw_if_Inr bindR_eq_Inr using usage_Inr by metis

lemma own_validation_Inr:
  "own_validation b l s = Inr s' \<Longrightarrow> \<exists>vs. s' = s\<lparr>rp_validations := vs\<rparr>"
  by (auto simp: own_validation_def)

lemma own_operation_Inr:
  "own_operation m i q s = Inr s' \<Longrightarrow> \<exists>ops q'. s' = s\<lparr>rp_operations := ops, rp_openOperation := q'\<rparr>"
  by (auto simp: own_operation_def)

lemma own_escalation_Inr:
  "own_escalation x s = Inr s' \<Longrightarrow> s' = s\<lparr>rp_escalationTargetBinding := Some (es_target_binding_ref x)\<rparr>"
  by (auto simp: own_escalation_def)

lemma own_execution_started_Inr:
  "own_execution_started b arm x s = Inr s' \<Longrightarrow>
     rp_attempts s (xs_attempt_id x) = None \<and> expected_input b s (xs_attempt_number x) = Some (xs_input_revision x) \<and>
     xs_executor_session_id x \<notin> rp_executorSessions s \<union> rp_reviewerSessions s \<and>
     (arm = ARM C_ADAPTIVE_EARLY_ESCALATION \<and> xs_attempt_number x = 3 \<longrightarrow>
        rp_escalationTargetBinding s = Some (xs_executor_binding_ref x)) \<and>
     s' = s\<lparr>rp_executorSessions := insert (xs_executor_session_id x) (rp_executorSessions s),
        rp_currentAttempt := Some x, rp_currentCompletion := None,
        rp_attempts := (rp_attempts s)(xs_attempt_id x \<mapsto>
          \<lparr>ae_started = x, ae_completed = None, ae_review_started = False\<rparr>)\<rparr>"
  by (auto simp: own_execution_started_def)

lemma own_execution_completed_Inr:
  "own_execution_completed m i x s = Inr s' \<Longrightarrow>
     \<exists>t. rp_currentAttempt s = Some (execution_started.truncate x) \<and> \<not> tree_unproven m x \<and>
       rp_attempts s (xs_attempt_id x) = Some t \<and>
       s' = s\<lparr>rp_attempts := (rp_attempts s)(xs_attempt_id x \<mapsto> t\<lparr>ae_completed := Some (i, x)\<rparr>),
          rp_currentCompletion := Some (i, x)\<rparr>"
  by (auto simp: own_execution_completed_def split: option.splits)

lemma own_review_started_Inr:
  "own_review_started v s = Inr s' \<Longrightarrow>
     \<exists>t i x. rp_attempts s (vs_reviewed_attempt_id v) = Some t \<and> ae_completed t = Some (i, x) \<and>
       rp_currentCompletion s = Some (i, x) \<and> vs_executor_session_id_reviewed v = xs_executor_session_id x \<and>
       vs_reviewer_session_id v \<notin> rp_executorSessions s \<union> rp_reviewerSessions s \<and>
       s' = s\<lparr>rp_attempts := (rp_attempts s)(vs_reviewed_attempt_id v \<mapsto> t\<lparr>ae_review_started := True\<rparr>),
             rp_reviewerSessions := insert (vs_reviewer_session_id v) (rp_reviewerSessions s),
             rp_currentReview := Some v,
             rp_reviews := (rp_reviews s)(vs_review_id v \<mapsto>
               \<lparr>ve_started = v, ve_completed = None, ve_window_open = False\<rparr>)\<rparr>"
  by (auto simp: own_review_started_def split: option.splits)

lemma own_review_completed_Inr:
  "own_review_completed b i v s = Inr s' \<Longrightarrow>
     \<exists>x open_ids r. rp_currentReview s = Some (review_started.truncate v) \<and>
       completion_of s (vs_reviewed_attempt_id v) = Some x \<and> \<not> boundary_chain_broken b s v x \<and>
       foldR finding_step (rp_unresolved s) (vc_material_findings v) = Inr open_ids \<and>
       sameStrings (vc_unresolved_finding_ids v) open_ids \<and>
       s' = record_review i v x open_ids r s"
  by (auto simp: own_review_completed_def split: option.splits)

lemma record_review_fields [simp]:
  "rp_attempts (record_review i v x ids r s) = rp_attempts s"
  "rp_currentReview (record_review i v x ids r s) = None"
  "rp_currentCompletion (record_review i v x ids r s) = rp_currentCompletion s"
  "rp_unresolved (record_review i v x ids r s) = ids"
  "rp_state (record_review i v x ids r s) = rp_state s"
  "rp_index (record_review i v x ids r s) = rp_index s"
  "rp_acceptedReview (record_review i v x ids r s) = (if vc_decision v = REJECT then rp_acceptedReview s else Some v)"
  "rp_acceptedCompletion (record_review i v x ids r s) =
     (if vc_decision v = REJECT then rp_acceptedCompletion s else Some x)"
  by (simp_all add: record_review_def Let_def)

lemma own_payload_state:
  assumes "own_payload m b arm i p s = Inr s'"
  shows "rp_state s' = rp_state s \<and> rp_index s' = rp_index s"
  using assms
  by (cases p)
    (auto dest!: own_quiet_Inr own_usage_Inr own_validation_Inr own_operation_Inr own_escalation_Inr
      own_execution_started_Inr own_execution_completed_Inr own_review_started_Inr own_review_completed_Inr)

lemma own_payload_core:
  assumes "own_payload m b arm i p s = Inr s'" and "\<not> moves_core (kind_of p)"
  shows "core s' = core s"
  using assms
  by (cases p)
    (auto simp: moves_core_def core_def dest!: own_quiet_Inr own_usage_Inr own_validation_Inr own_operation_Inr
      own_escalation_Inr)

section \<open>The invariant of the loop\<close>

definition read_payload :: "pilot_event list \<Rightarrow> payload \<Rightarrow> bool" where
  "read_payload es p = (\<exists>e \<in> set es. pe_payload e = p)"

definition execution_proven :: "pilot_event list \<Rightarrow> string \<Rightarrow> execution_completed \<Rightarrow> bool" where
  "execution_proven es a x = (read_payload es (EXECUTION_COMPLETED x) \<and> xs_attempt_id x = a \<and> xc_tree_reproduced x)"

text \<open>A review by the routing reviewer, in a session other than the executor's, of a proven execution.\<close>

definition independent_review ::
    "pilot_manifest \<Rightarrow> (string \<rightharpoonup> attempt_entry) \<Rightarrow> 'a review_started_scheme \<Rightarrow> bool" where
  "independent_review m attempts v =
     (vs_reviewer_session_id v \<noteq> vs_executor_session_id_reviewed v \<and>
      vs_reviewer_binding_ref v = mf_routing_reviewer_binding_ref m \<and>
      (\<exists>t i x. attempts (vs_reviewed_attempt_id v) = Some t \<and> ae_completed t = Some (i, x) \<and>
         vs_executor_session_id_reviewed v = xs_executor_session_id x))"

text \<open>The completion of the last execution that has started, if it has completed.\<close>

definition completion_step :: "execution_completed option \<Rightarrow> pilot_event \<Rightarrow> execution_completed option" where
  "completion_step c e = (case pe_payload e of EXECUTION_STARTED _ \<Rightarrow> None | EXECUTION_COMPLETED x \<Rightarrow> Some x | _ \<Rightarrow> c)"

definition last_completion :: "pilot_event list \<Rightarrow> execution_completed option" where
  "last_completion es = foldl completion_step None es"

definition executes :: "pilot_event \<Rightarrow> bool" where
  "executes e = (kind_of (pe_payload e) \<in> {K_EXECUTION_STARTED, K_EXECUTION_COMPLETED})"

text \<open>The review \<open>v\<close> was completed when \<open>x\<close> was the last completed execution, and nothing was executed after it.\<close>

definition reviewed_last :: "pilot_event list \<Rightarrow> review_completed \<Rightarrow> execution_completed \<Rightarrow> bool" where
  "reviewed_last es v x = (\<exists>before e after. es = before @ e # after \<and> pe_payload e = REVIEW_COMPLETED v \<and>
     last_completion before = Some x \<and> list_all (\<lambda>f. \<not> executes f) after)"

definition acceptance_proven ::
    "pilot_manifest \<Rightarrow> pilot_event list \<Rightarrow> review_completed \<Rightarrow> execution_completed \<Rightarrow> bool" where
  "acceptance_proven m es v x =
     (reviewed_last es v x \<and> execution_proven es (vs_reviewed_attempt_id v) x \<and>
      vc_decision v = ACCEPT \<and> vc_unresolved_finding_ids v = [] \<and>
      vc_review_boundary_to_revision v = xc_output_revision x \<and>
      vs_reviewer_binding_ref v = mf_routing_reviewer_binding_ref m \<and>
      vs_reviewer_session_id v \<noteq> xs_executor_session_id x)"

definition attempts_inv :: "pilot_event list \<Rightarrow> (string \<rightharpoonup> attempt_entry) \<Rightarrow> bool" where
  "attempts_inv es attempts =
     (\<forall>a t i x. attempts a = Some t \<and> ae_completed t = Some (i, x) \<longrightarrow> execution_proven es a x)"

definition replay_inv :: "pilot_manifest \<Rightarrow> pilot_event list \<Rightarrow> replay_state \<Rightarrow> bool" where
  "replay_inv m es s =
     (attempts_inv es (rp_attempts s) \<and> map_option snd (rp_currentCompletion s) = last_completion es \<and>
      (\<forall>v. rp_currentReview s = Some v \<longrightarrow> independent_review m (rp_attempts s) v \<and>
         completion_of s (vs_reviewed_attempt_id v) = last_completion es \<and>
         rp_state s \<in> Some ` (reviewing \<union> {BLOCKED})) \<and>
      (\<forall>v. rp_acceptedReview s = Some v \<longrightarrow>
         (\<exists>x. rp_acceptedCompletion s = Some x \<and> acceptance_proven m es v x) \<and> rp_unresolved s = [] \<and>
         rp_state s \<in> Some ` {READY_ACCEPT, ACCEPTED, BLOCKED}) \<and>
      (rp_state s \<in> Some ` {READY_ACCEPT, ACCEPTED} \<longrightarrow> rp_acceptedReview s \<noteq> None))"

lemma read_payload_snoc [simp]: "read_payload (es @ [e]) p \<longleftrightarrow> read_payload es p \<or> pe_payload e = p"
  by (auto simp: read_payload_def)

lemma last_completion_snoc [simp]: "last_completion (es @ [e]) = completion_step (last_completion es) e"
  by (simp add: last_completion_def)

lemma quiet_executes: "\<not> moves_core (kind_of (pe_payload e)) \<Longrightarrow> \<not> executes e"
  by (auto simp: moves_core_def executes_def)

lemma completion_step_quiet: "\<not> executes e \<Longrightarrow> completion_step c e = c"
  by (cases "pe_payload e") (simp_all add: executes_def completion_step_def)

lemma reviewed_last_snoc:
  assumes "reviewed_last es v x" and "\<not> executes e"
  shows "reviewed_last (es @ [e]) v x"
proof -
  from assms(1) obtain before f after where "es = before @ f # after" "pe_payload f = REVIEW_COMPLETED v"
    "last_completion before = Some x" "list_all (\<lambda>f. \<not> executes f) after" by (auto simp: reviewed_last_def)
  with assms(2) show ?thesis unfolding reviewed_last_def
    by (intro exI [of _ before] exI [of _ f] exI [of _ "after @ [e]"]) simp
qed

lemma proven_snoc:
  "execution_proven es a x \<Longrightarrow> execution_proven (es @ [e]) a x"
  "acceptance_proven m es v y \<Longrightarrow> \<not> executes e \<Longrightarrow> acceptance_proven m (es @ [e]) v y"
  "attempts_inv es at1 \<Longrightarrow> attempts_inv (es @ [e]) at1"
  by (auto simp: execution_proven_def acceptance_proven_def attempts_inv_def reviewed_last_snoc)

lemma tree_reproduced: "\<not> tree_unproven m x \<Longrightarrow> xc_tree_reproduced x"
  by (simp add: tree_unproven_def)

lemma truncate_review [simp]:
  "vs_review_id (review_started.truncate v) = vs_review_id v"
  "vs_reviewer_binding_ref (review_started.truncate v) = vs_reviewer_binding_ref v"
  "vs_reviewer_session_id (review_started.truncate v) = vs_reviewer_session_id v"
  "vs_reviewed_attempt_id (review_started.truncate v) = vs_reviewed_attempt_id v"
  "vs_executor_session_id_reviewed (review_started.truncate v) = vs_executor_session_id_reviewed v"
  by (simp_all add: review_started.defs)

lemma truncate_execution [simp]:
  "xs_attempt_id (execution_started.truncate x) = xs_attempt_id x"
  "xs_attempt_number (execution_started.truncate x) = xs_attempt_number x"
  "xs_executor_binding_ref (execution_started.truncate x) = xs_executor_binding_ref x"
  "xs_executor_capability (execution_started.truncate x) = xs_executor_capability x"
  "xs_executor_session_id (execution_started.truncate x) = xs_executor_session_id x"
  by (simp_all add: execution_started.defs)

lemma sameStrings_Nil: "sameStrings [] xs \<longleftrightarrow> xs = []"
  by (auto simp: sameStrings_def)

text \<open>Steps that do not move the core keep the invariant whatever row of the table they take.\<close>

lemma replay_inv_quiet:
  assumes inv: "replay_inv m es s" and core: "core s1 = core s" and state: "rp_state s1 = rp_state s"
    and tab: "table_step (rp_state s) (pe_payload e) st" and k: "\<not> moves_core (kind_of (pe_payload e))"
  shows "replay_inv m (es @ [e]) (s1\<lparr>rp_state := Some st\<rparr>)"
proof -
  have ne: "\<not> executes e" by (rule quiet_executes [OF k])
  have f: "rp_attempts s1 = rp_attempts s" "rp_currentReview s1 = rp_currentReview s"
    "rp_currentCompletion s1 = rp_currentCompletion s"
    "rp_acceptedReview s1 = rp_acceptedReview s" "rp_acceptedCompletion s1 = rp_acceptedCompletion s"
    "rp_unresolved s1 = rp_unresolved s"
    using core by (simp_all add: core_def)
  have moves: "rp_state s \<in> Some ` (reviewing \<union> {BLOCKED}) \<Longrightarrow> st \<in> reviewing \<union> {BLOCKED}"
    "rp_state s \<in> Some ` {READY_ACCEPT, ACCEPTED, BLOCKED} \<Longrightarrow> st \<in> {READY_ACCEPT, ACCEPTED, BLOCKED}"
    "st \<in> {READY_ACCEPT, ACCEPTED} \<Longrightarrow> rp_state s \<in> Some ` {READY_ACCEPT, ACCEPTED}"
    using tab k
    by (cases "pe_payload e"; auto simp: table_step_def moves_core_def evidence_kinds_def reviewing_def)+
  have i1: "attempts_inv (es @ [e]) (rp_attempts s)"
    using inv proven_snoc(3) by (simp add: replay_inv_def)
  have i5: "map_option snd (rp_currentCompletion s) = last_completion (es @ [e])"
    using inv by (simp add: replay_inv_def completion_step_quiet [OF ne])
  have i2: "independent_review m (rp_attempts s) v \<and> completion_of s (vs_reviewed_attempt_id v) = last_completion (es @ [e]) \<and>
      st \<in> reviewing \<union> {BLOCKED}" if "rp_currentReview s = Some v" for v
    using inv moves(1) that unfolding replay_inv_def last_completion_snoc completion_step_quiet [OF ne] by blast
  have i3: "(\<exists>x. rp_acceptedCompletion s = Some x \<and> acceptance_proven m (es @ [e]) v x) \<and> rp_unresolved s = [] \<and>
      st \<in> {READY_ACCEPT, ACCEPTED, BLOCKED}" if "rp_acceptedReview s = Some v" for v
    using inv moves(2) that proven_snoc(2) ne unfolding replay_inv_def by blast
  have i4: "rp_acceptedReview s \<noteq> None" if "st \<in> {READY_ACCEPT, ACCEPTED}"
    using inv moves(3) that unfolding replay_inv_def by blast
  show ?thesis
    unfolding replay_inv_def using i1 i2 i3 i4 i5 by (simp add: f image_iff completion_of_def)
qed

lemma replay_inv_execution_started:
  assumes inv: "replay_inv m es s" and own: "own_execution_started b arm x s = Inr s1"
    and e: "pe_payload e = EXECUTION_STARTED x"
    and tab: "table_step (rp_state s) (EXECUTION_STARTED x) st"
  shows "replay_inv m (es @ [e]) (s1\<lparr>rp_state := Some st\<rparr>)"
proof -
  have st: "rp_state s \<in> {Some READY_1, Some READY_2, Some READY_3}" "st \<in> {EXECUTING_1, EXECUTING_2, EXECUTING_3}"
    using tab by (simp_all add: table_step_def evidence_kinds_def)
  then have no: "rp_currentReview s = None" "rp_acceptedReview s = None"
    using inv by (auto simp: replay_inv_def reviewing_def)
  from own_execution_started_Inr [OF own] have "s1 = s\<lparr>rp_executorSessions := insert (xs_executor_session_id x) (rp_executorSessions s),
        rp_currentAttempt := Some x, rp_currentCompletion := None,
        rp_attempts := (rp_attempts s)(xs_attempt_id x \<mapsto>
          \<lparr>ae_started = x, ae_completed = None, ae_review_started = False\<rparr>)\<rparr>" by blast
  with inv no st(2) e show ?thesis
    by (auto simp: replay_inv_def attempts_inv_def execution_proven_def completion_step_def)
qed

lemma replay_inv_execution_completed:
  assumes inv: "replay_inv m es s" and own: "own_execution_completed m i x s = Inr s1"
    and e: "pe_payload e = EXECUTION_COMPLETED x"
    and tab: "table_step (rp_state s) (EXECUTION_COMPLETED x) st"
  shows "replay_inv m (es @ [e]) (s1\<lparr>rp_state := Some st\<rparr>)"
proof -
  have st: "rp_state s \<in> {Some EXECUTING_1, Some EXECUTING_2, Some EXECUTING_3}"
    "st \<in> {READY_REVIEW_1, READY_REVIEW_2, READY_FINAL_REVIEW}"
    using tab by (simp_all add: table_step_def evidence_kinds_def)
  then have no: "rp_currentReview s = None" "rp_acceptedReview s = None"
    using inv by (auto simp: replay_inv_def reviewing_def)
  from own_execution_completed_Inr [OF own] obtain t where "xc_tree_reproduced x"
    "s1 = s\<lparr>rp_attempts := (rp_attempts s)(xs_attempt_id x \<mapsto> t\<lparr>ae_completed := Some (i, x)\<rparr>),
          rp_currentCompletion := Some (i, x)\<rparr>" using tree_reproduced by blast
  with inv no st(2) e show ?thesis
    by (auto simp: replay_inv_def attempts_inv_def execution_proven_def completion_step_def)
qed

lemma replay_inv_review_started:
  assumes inv: "replay_inv m es s" and own: "own_review_started v s = Inr s1"
    and guard: "assertTransitionGuard env st0 e m b arm (REVIEW_STARTED v) = Inr ()"
    and e: "pe_payload e = REVIEW_STARTED v"
    and tab: "table_step (rp_state s) (REVIEW_STARTED v) st"
  shows "replay_inv m (es @ [e]) (s1\<lparr>rp_state := Some st\<rparr>)"
proof -
  have st: "rp_state s \<in> {Some READY_REVIEW_1, Some READY_REVIEW_2, Some READY_FINAL_REVIEW}" "st \<in> reviewing"
    using tab by (simp_all add: table_step_def evidence_kinds_def)
  then have no: "rp_acceptedReview s = None" using inv by (auto simp: replay_inv_def)
  from own_review_started_Inr [OF own] obtain t i x where t: "rp_attempts s (vs_reviewed_attempt_id v) = Some t"
    "ae_completed t = Some (i, x)" "vs_executor_session_id_reviewed v = xs_executor_session_id x"
    and now: "rp_currentCompletion s = Some (i, x)"
    and s1: "s1 = s\<lparr>rp_attempts := (rp_attempts s)(vs_reviewed_attempt_id v \<mapsto> t\<lparr>ae_review_started := True\<rparr>),
             rp_reviewerSessions := insert (vs_reviewer_session_id v) (rp_reviewerSessions s),
             rp_currentReview := Some v,
             rp_reviews := (rp_reviews s)(vs_review_id v \<mapsto>
               \<lparr>ve_started = v, ve_completed = None, ve_window_open = False\<rparr>)\<rparr>" by blast
  have ind: "independent_review m (rp_attempts s1) v"
    using guard t s1 by (auto simp: independent_review_def)
  have "attempts_inv es (rp_attempts s1)"
    using inv t s1 by (auto simp: replay_inv_def attempts_inv_def)
  moreover have "last_completion (es @ [e]) = Some x"
    using inv now e by (auto simp: replay_inv_def completion_step_def)
  moreover have "completion_of s1 (vs_reviewed_attempt_id v) = Some x" using t s1 by (simp add: completion_of_def)
  ultimately show ?thesis
    using ind no st(2) s1 now proven_snoc(3) [of es "rp_attempts s1" e]
    by (auto simp: replay_inv_def reviewing_def completion_of_def)
qed

lemma replay_inv_review_completed:
  assumes inv: "replay_inv m es s" and own: "own_review_completed b i v s = Inr s1"
    and e: "pe_payload e = REVIEW_COMPLETED v"
    and guard: "assertTransitionGuard env st0 e m b' arm (REVIEW_COMPLETED v) = Inr ()"
    and tab: "table_step (rp_state s) (REVIEW_COMPLETED v) st"
  shows "replay_inv m (es @ [e]) (s1\<lparr>rp_state := Some st\<rparr>)"
proof -
  from own_review_completed_Inr [OF own] obtain x ids r where
    cur: "rp_currentReview s = Some (review_started.truncate v)"
    and x: "completion_of s (vs_reviewed_attempt_id v) = Some x" and chain: "\<not> boundary_chain_broken b s v x"
    and ids: "sameStrings (vc_unresolved_finding_ids v) ids" and s1: "s1 = record_review i v x ids r s" by blast
  have st: "rp_state s \<in> Some ` reviewing" using tab by (simp add: table_step_def evidence_kinds_def)
  then have no: "rp_acceptedReview s = None" using inv by (auto simp: replay_inv_def reviewing_def)
  have ind: "independent_review m (rp_attempts s) (review_started.truncate v)" and att: "attempts_inv es (rp_attempts s)"
    and last: "last_completion es = Some x" and now: "map_option snd (rp_currentCompletion s) = last_completion (es @ [e])"
    using inv cur x e by (simp_all add: replay_inv_def completion_step_def)
  from x obtain t j where t: "rp_attempts s (vs_reviewed_attempt_id v) = Some t" "ae_completed t = Some (j, x)"
    by (auto simp: completion_of_def split: option.splits)
  show ?thesis
  proof (cases "vc_decision v = ACCEPT")
    case True
    then have "ids = []" "vc_unresolved_finding_ids v = []" using guard ids by (simp_all add: sameStrings_Nil)
    moreover have "st = READY_ACCEPT" using tab True by (simp add: table_step_def evidence_kinds_def)
    moreover have "reviewed_last (es @ [e]) v x" unfolding reviewed_last_def using e last by (intro exI [of _ es] exI [of _ e] exI [of _ "[]"]) simp
    then have "acceptance_proven m (es @ [e]) v x"
      using ind att t chain True \<open>vc_unresolved_finding_ids v = []\<close> e
      by (auto simp: acceptance_proven_def independent_review_def attempts_inv_def boundary_chain_broken_def
          execution_proven_def)
    ultimately show ?thesis
      using proven_snoc(3) [OF att] True now unfolding s1 replay_inv_def by simp
  next
    case False
    then have rej: "vc_decision v = REJECT" by (cases "vc_decision v") simp_all
    then have "st \<in> {READY_2, ESCALATION_REQUIRED, READY_3, READY_FAIL}"
      using tab by (simp add: table_step_def evidence_kinds_def)
    then show ?thesis
      using proven_snoc(3) [OF att] no rej now unfolding s1 replay_inv_def by auto
  qed
qed

lemma enter_inv [simp]: "replay_inv m es (enter_event p t s) \<longleftrightarrow> replay_inv m es s"
  by (simp add: replay_inv_def)

lemma core_enter [simp]: "core (enter_event p t s) = core s"
  by (simp add: core_def)

lemma replay_inv_step:
  assumes "replay_inv m es s" and "replay_step env m s e = Inr s'"
  shows "replay_inv m (es @ [e]) s'"
  using assms(2)
proof (rule replay_step_Inr)
  fix b arm t s1 st
  let ?s0 = "enter_event (pe_payload e) t s"
  assume own: "own_payload m b arm (pe_event_id e) (pe_payload e) ?s0 = Inr s1"
    and guard: "assertTransitionGuard env (rp_state s1) e m b arm (pe_payload e) = Inr ()"
    and tr: "transitionChecked env (rp_state s1) e m = Inr st" and s': "s' = s1\<lparr>rp_state := Some st\<rparr>"
  have inv: "replay_inv m es ?s0" using assms(1) by simp
  have tab: "table_step (rp_state ?s0) (pe_payload e) st"
    using transition_table [OF tr] own_payload_state [OF own] by simp
  show ?thesis
  proof (cases "moves_core (kind_of (pe_payload e))")
    case False
    then show ?thesis
      unfolding s' using own_payload_core [OF own] own_payload_state [OF own] inv tab
      by (intro replay_inv_quiet [of m es ?s0]) simp_all
  next
    case True
    then show ?thesis
    proof (cases "pe_payload e")
      case (EXECUTION_STARTED x)
      then show ?thesis unfolding s'
        using own tab by (intro replay_inv_execution_started [OF inv, of b arm x]) simp_all
    next
      case (EXECUTION_COMPLETED x)
      then show ?thesis unfolding s'
        using own tab by (intro replay_inv_execution_completed [OF inv, of "pe_event_id e" x]) simp_all
    next
      case (REVIEW_STARTED v)
      then show ?thesis unfolding s'
        using own tab guard by (intro replay_inv_review_started [OF inv, of v _ env "rp_state s1" e b arm]) simp_all
    next
      case (REVIEW_COMPLETED v)
      then show ?thesis unfolding s'
        using own tab guard
        by (intro replay_inv_review_completed [OF inv, of b "pe_event_id e" v _ _ env "rp_state s1" b arm])
          (simp_all del: assertTransitionGuard.simps)
    qed (simp_all add: moves_core_def)
  qed
qed

section \<open>Whole histories\<close>

definition started_count :: "pilot_event list \<Rightarrow> nat" where
  "started_count es = length (filter (\<lambda>e. kind_of (pe_payload e) = K_EXECUTION_STARTED) es)"

definition move_count :: "pilot_event list \<Rightarrow> nat" where
  "move_count es = length (filter (\<lambda>e. kind_of (pe_payload e) \<notin> evidence_kinds) es)"

text \<open>An execution start follows its arm: the capability, a binding of that capability, the attempt number.\<close>

definition follows_arm :: "pilot_manifest \<Rightarrow> pilot_event \<Rightarrow> execution_started \<Rightarrow> bool" where
  "follows_arm m e x =
     (\<exists>b arm. blockContext m e = Inr (b, arm) \<and> xs_executor_capability x = routeFor arm (xs_attempt_number x) \<and>
        map_option bd_capability_class (find_binding m (xs_executor_binding_ref x)) = Some (xs_executor_capability x) \<and>
        (xs_attempt_number x, xs_attempt_kind x) \<in> {(1, IMPLEMENTATION), (2, REPAIR_1), (3, FINAL_EXECUTION)})"

definition pilot_history_inv :: "pilot_manifest \<Rightarrow> pilot_event list \<Rightarrow> replay_state \<Rightarrow> bool" where
  "pilot_history_inv m es s =
     (replay_inv m es s \<and> rp_state s \<noteq> Some INVALID \<and> rp_index s = int (length es) \<and>
      (\<forall>i < length es. pe_sequence_number (es ! i) = int i + 1) \<and>
      started_count es \<le> starts (rp_state s) \<and> move_count es \<le> stage (rp_state s) \<and>
      (\<forall>e \<in> set es. \<forall>x. pe_payload e = EXECUTION_STARTED x \<longrightarrow> follows_arm m e x))"

lemma pilot_history_inv_start: "pilot_history_inv m [] replay_start"
  by (simp add: pilot_history_inv_def replay_inv_def attempts_inv_def replay_start_def started_count_def move_count_def
      last_completion_def)

lemma expectedAttempt_values:
  "expectedAttempt st = Some nk \<Longrightarrow> nk \<in> {(1, IMPLEMENTATION), (2, REPAIR_1), (3, FINAL_EXECUTION)}"
  by (cases st rule: expectedAttempt.cases) auto

lemma guard_follows_arm:
  assumes "assertTransitionGuard env st e m b arm (EXECUTION_STARTED x) = Inr ()" and "blockContext m e = Inr (b, arm)"
  shows "follows_arm m e x"
  unfolding follows_arm_def
  using assms expectedAttempt_values [of st "(xs_attempt_number x, xs_attempt_kind x)"]
  by (intro exI [of _ b] exI [of _ arm]) (simp add: assertExecutionRoute_def Let_def)

lemma pilot_history_inv_step:
  assumes inv: "pilot_history_inv m es s" and step: "replay_step env m s e = Inr s'"
  shows "pilot_history_inv m (es @ [e]) s'"
  using step
proof (rule replay_step_Inr)
  fix b arm t s1 st
  assume seq: "pe_sequence_number e = rp_index s + 1" and ctx: "blockContext m e = Inr (b, arm)"
    and own: "own_payload m b arm (pe_event_id e) (pe_payload e) (enter_event (pe_payload e) t s) = Inr s1"
    and guard: "assertTransitionGuard env (rp_state s1) e m b arm (pe_payload e) = Inr ()"
    and tr: "transitionChecked env (rp_state s1) e m = Inr st" and st: "st \<noteq> INVALID"
    and s': "s' = s1\<lparr>rp_state := Some st\<rparr>"
  have s1: "rp_state s1 = rp_state s" "rp_index s1 = rp_index s + 1" using own_payload_state [OF own] by simp_all
  have pr: "if kind_of (pe_payload e) \<in> evidence_kinds then rp_state s = Some st
     else stage (rp_state s) < stage (Some st) \<and>
       starts (rp_state s) + (if kind_of (pe_payload e) = K_EXECUTION_STARTED then 1 else 0) \<le> starts (Some st)"
    using transition_progress [OF tr] unfolding s1 .
  have "started_count (es @ [e]) \<le> starts (Some st)" and "move_count (es @ [e]) \<le> stage (Some st)"
    using pr inv by (auto simp: started_count_def move_count_def pilot_history_inv_def evidence_kinds_def split: if_splits)
  moreover have "replay_inv m (es @ [e]) s'"
    using inv step by (auto simp: pilot_history_inv_def intro: replay_inv_step)
  moreover have "\<forall>i < length (es @ [e]). pe_sequence_number ((es @ [e]) ! i) = int i + 1"
    using inv seq by (auto simp: pilot_history_inv_def nth_append less_Suc_eq)
  moreover have "\<forall>x. pe_payload e = EXECUTION_STARTED x \<longrightarrow> follows_arm m e x"
    using guard ctx by (auto simp del: assertTransitionGuard.simps intro: guard_follows_arm)
  ultimately show ?thesis
    using inv st s1 by (auto simp: pilot_history_inv_def s')
qed

lemma replay_history:
  "foldR (replay_step env m) replay_start es = Inr s \<Longrightarrow> pilot_history_inv m es s"
proof (induction es arbitrary: s rule: rev_induct)
  case Nil
  then show ?case using pilot_history_inv_start by simp
next
  case (snoc e es)
  then show ?case by (auto simp: foldR_snoc intro: pilot_history_inv_step)
qed

lemma replayBlock_valid:
  assumes "br_valid_history (replayBlock env frozen m events)"
  obtains projected block s st where "activeEvents (log_env.truncate env) frozen events = Inr projected"
    "foldR (replay_step env m) replay_start (block_history block projected) = Inr s" "rp_state s = Some st"
    "replayBlock env frozen m events = replay_result block s" "first_block events = Some block"
proof -
  have inv: "\<not> br_valid_history (invalid b c u)" for b c u by (simp add: invalid_def)
  from assms obtain projected where act: "activeEvents (log_env.truncate env) frozen events = Inr projected"
    by (auto simp: replayBlock_def inv split: sum.splits)
  have ev: "first_block events = None \<Longrightarrow> first_block projected = None"
    using act by (cases events) (auto simp: activeEvents_def first_block_def dest!: ownedLog_Inr)
  from assms act obtain block where b: "first_block events = Some block"
    and r: "replayBlock env frozen m events = replay_projected env m block projected"
    using ev by (auto simp: replayBlock_def inv split: option.splits if_splits)
  from assms obtain s where f: "foldR (replay_step env m) replay_start (block_history block projected) = Inr s"
    and rr: "replay_projected env m block projected = replay_result block s"
    unfolding r by (auto simp: replay_projected_def inv split: sum.splits if_splits prod.splits)
  from assms obtain st where "rp_state s = Some st"
    unfolding r rr by (auto simp: replay_result_def inv split: option.splits)
  with act b r f rr show thesis by (intro that) simp_all
qed

lemma invalid_fields [simp]:
  "br_state (invalid b c u) = INVALID" "\<not> br_valid_history (invalid b c u)"
  "br_accepted_revision (invalid b c u) = None" "br_accepted_tree_hash (invalid b c u) = None"
  "br_accepted_review_id (invalid b c u) = None"
  "\<exists>code. br_invalid_reason_codes (invalid b c u) = [code] \<and> code \<noteq> []"
  by (simp_all add: invalid_def)

lemma replay_invalid:
  "\<not> br_valid_history (replayBlock env frozen m events) \<Longrightarrow> \<exists>b c u. replayBlock env frozen m events = invalid b c u"
  by (auto simp: replayBlock_def replay_projected_def replay_result_def Let_def
      split: sum.splits option.splits if_splits prod.splits)

lemma active_subset:
  "activeEvents env frozen events = Inr projected \<Longrightarrow> set projected \<subseteq> set events"
  by (auto simp: activeEvents_def dest!: ownedLog_Inr)

lemma block_history_subset: "set (block_history block es) \<subseteq> set es"
  by (auto simp: block_history_def)

lemma replay_verdict_facts:
  "if br_valid_history (replayBlock env frozen m events)
   then br_state (replayBlock env frozen m events) \<noteq> INVALID \<and>
     br_invalid_reason_codes (replayBlock env frozen m events) = []
   else br_state (replayBlock env frozen m events) = INVALID \<and>
     (\<exists>code. br_invalid_reason_codes (replayBlock env frozen m events) = [code] \<and> code \<noteq> []) \<and>
     br_accepted_revision (replayBlock env frozen m events) = None \<and>
     br_accepted_tree_hash (replayBlock env frozen m events) = None \<and>
     br_accepted_review_id (replayBlock env frozen m events) = None"
proof (cases "br_valid_history (replayBlock env frozen m events)")
  case True
  then show ?thesis
  proof (rule replayBlock_valid)
    fix projected block s st
    assume f: "foldR (replay_step env m) replay_start (block_history block projected) = Inr s"
      and st: "rp_state s = Some st" and r: "replayBlock env frozen m events = replay_result block s"
    have "st \<noteq> INVALID" using replay_history [OF f] st by (auto simp: pilot_history_inv_def)
    then show ?thesis using st True by (simp add: r replay_result_def Let_def)
  qed
next
  case False
  then obtain b c u where "replayBlock env frozen m events = invalid b c u"
    using replay_invalid by blast
  then show ?thesis by simp
qed

text \<open>The evidence behind an accepted replay, in the history of the block it replays.\<close>

lemma accepted_history_proven:
  assumes "br_state (replayBlock env frozen m events) = ACCEPTED"
  obtains projected block s v x where "activeEvents (log_env.truncate env) frozen events = Inr projected"
    "first_block events = Some block" "replayBlock env frozen m events = replay_result block s" "rp_state s = Some ACCEPTED"
    "rp_acceptedReview s = Some v" "rp_acceptedCompletion s = Some x" "rp_unresolved s = []"
    "acceptance_proven m (block_history block projected) v x"
proof -
  have "br_valid_history (replayBlock env frozen m events)"
    using assms replay_invalid [of env frozen m events] by (cases "br_valid_history (replayBlock env frozen m events)") auto
  then show ?thesis
  proof (rule replayBlock_valid)
    fix projected block s st
    assume act: "activeEvents (log_env.truncate env) frozen events = Inr projected" and fb: "first_block events = Some block"
      and f: "foldR (replay_step env m) replay_start (block_history block projected) = Inr s"
      and st: "rp_state s = Some st" and r: "replayBlock env frozen m events = replay_result block s"
    have acc: "st = ACCEPTED" using assms st r by (simp add: replay_result_def Let_def)
    have "replay_inv m (block_history block projected) s" using replay_history [OF f] by (simp add: pilot_history_inv_def)
    then obtain v x where "rp_acceptedReview s = Some v" "rp_acceptedCompletion s = Some x"
      "acceptance_proven m (block_history block projected) v x" "rp_unresolved s = []"
      using st acc by (auto simp: replay_inv_def)
    then show ?thesis using that act fb r st acc by blast
  qed
qed

section \<open>Properties\<close>

text \<open>
  An accepted block is backed by its log: the replay reports \<open>ACCEPTED\<close> only with the output
  revision and tree of the last execution in the active history of the block, whose tree was reproduced, and with
  a later accepting review of exactly that execution, by the routing reviewer of the manifest, in a session other
  than the executor's, and with no finding left open.
\<close>
theorem accepted_block_proven:
  assumes "br_state (replayBlock env frozen m events) = ACCEPTED"
  shows "\<exists>projected block v x. activeEvents (log_env.truncate env) frozen events = Inr projected \<and>
    first_block events = Some block \<and> acceptance_proven m (block_history block projected) v x \<and>
    br_accepted_revision (replayBlock env frozen m events) = Some (xc_output_revision x) \<and>
    br_accepted_tree_hash (replayBlock env frozen m events) = Some (xc_output_tree_hash x) \<and>
    br_accepted_review_id (replayBlock env frozen m events) = Some (vs_review_id v) \<and>
    br_unresolved_finding_ids (replayBlock env frozen m events) = []"
proof -
  from assms obtain projected block s v x where act: "activeEvents (log_env.truncate env) frozen events = Inr projected"
      "first_block events = Some block"
    and r: "replayBlock env frozen m events = replay_result block s" and st: "rp_state s = Some ACCEPTED"
    and vx: "rp_acceptedReview s = Some v" "rp_acceptedCompletion s = Some x" "rp_unresolved s = []"
      "acceptance_proven m (block_history block projected) v x"
    by (rule accepted_history_proven)
  then show ?thesis
    by (intro exI [of _ projected] exI [of _ block] exI [of _ v] exI [of _ x]) (simp add: r replay_result_def Let_def)
qed

text \<open>
  A block ends after boundedly many moves: in every history the replay accepts as valid the events
  are numbered 1, 2, 3, ... without a gap, at most seventeen of them change the state and at most three
  start an execution, whatever evidence is recorded in between.
\<close>
theorem valid_history_bounded:
  assumes "br_valid_history (replayBlock env frozen m events)"
  shows "\<exists>projected block. activeEvents (log_env.truncate env) frozen events = Inr projected \<and>
    first_block events = Some block \<and>
    (\<forall>i < length (block_history block projected).
       pe_sequence_number (block_history block projected ! i) = int i + 1) \<and>
    started_count (block_history block projected) \<le> 3 \<and> move_count (block_history block projected) \<le> 17"
  using assms
proof (rule replayBlock_valid)
  fix projected block s st
  assume act: "activeEvents (log_env.truncate env) frozen events = Inr projected"
    and f: "foldR (replay_step env m) replay_start (block_history block projected) = Inr s"
    and b: "first_block events = Some block"
  have h: "pilot_history_inv m (block_history block projected) s" by (rule replay_history [OF f])
  have "stage q \<le> 17" "starts q \<le> 3" for q by (cases q rule: stage.cases) (simp_all add: starts_def)
  then have "started_count (block_history block projected) \<le> 3" "move_count (block_history block projected) \<le> 17"
    using h by (auto simp: pilot_history_inv_def intro: order_trans)
  then show ?thesis using h act b by (auto simp: pilot_history_inv_def)
qed

text \<open>
  C39. Every execution of a valid history keeps to the arm its block was assigned: the strong baseline
  and direct blocks only ever run strong executors, the cheap arm only cheap ones, and the adaptive arm
  a strong one exactly in its third attempt, always through a registered binding of that capability.
\<close>
theorem executions_follow_arm:
  assumes "br_valid_history (replayBlock env frozen m events)"
  shows "\<exists>projected block. activeEvents (log_env.truncate env) frozen events = Inr projected \<and>
    first_block events = Some block \<and>
    (\<forall>e \<in> set projected. \<forall>x. pe_block_id e = block \<and> pe_payload e = EXECUTION_STARTED x \<longrightarrow>
       (\<exists>b arm. blockContext m e = Inr (b, arm) \<and>
          (xs_executor_capability x = STRONG \<longleftrightarrow> arm \<in> {ARM A_STRONG_BASELINE, DIRECT_STRONG} \<or>
             arm = ARM C_ADAPTIVE_EARLY_ESCALATION \<and> xs_attempt_number x = 3) \<and>
          map_option bd_capability_class (find_binding m (xs_executor_binding_ref x)) = Some (xs_executor_capability x)))"
  using assms
proof (rule replayBlock_valid)
  fix projected block s st
  assume act: "activeEvents (log_env.truncate env) frozen events = Inr projected"
    and f: "foldR (replay_step env m) replay_start (block_history block projected) = Inr s"
    and b: "first_block events = Some block"
  have h: "\<forall>e \<in> set (block_history block projected). \<forall>x. pe_payload e = EXECUTION_STARTED x \<longrightarrow> follows_arm m e x"
    using replay_history [OF f] by (simp add: pilot_history_inv_def)
  have route: "routeFor arm n = STRONG \<longleftrightarrow> arm \<in> {ARM A_STRONG_BASELINE, DIRECT_STRONG} \<or>
      arm = ARM C_ADAPTIVE_EARLY_ESCALATION \<and> n = 3" for arm n
  proof (cases arm)
    case (ARM a)
    then show ?thesis by (cases a) (simp_all add: routeFor_def)
  qed (simp add: routeFor_def)
  have arm: "\<exists>b arm. blockContext m e = Inr (b, arm) \<and>
      (xs_executor_capability x = STRONG \<longleftrightarrow> arm \<in> {ARM A_STRONG_BASELINE, DIRECT_STRONG} \<or>
         arm = ARM C_ADAPTIVE_EARLY_ESCALATION \<and> xs_attempt_number x = 3) \<and>
      map_option bd_capability_class (find_binding m (xs_executor_binding_ref x)) = Some (xs_executor_capability x)"
    if "e \<in> set projected" "pe_block_id e = block" "pe_payload e = EXECUTION_STARTED x" for e x
  proof -
    have "follows_arm m e x" using h that by (simp add: block_history_def)
    then obtain b arm where ctx: "blockContext m e = Inr (b, arm)"
      and cap: "xs_executor_capability x = routeFor arm (xs_attempt_number x)"
      and bind: "map_option bd_capability_class (find_binding m (xs_executor_binding_ref x)) = Some (xs_executor_capability x)"
      unfolding follows_arm_def by blast
    show ?thesis
      using ctx bind route [of arm "xs_attempt_number x"] unfolding cap by blast
  qed
  show ?thesis using act b arm by blast
qed

text \<open>
  The replay is total and never half valid: either the history is valid, the state is not
  \<open>INVALID\<close> and no reason is given, or the state is \<open>INVALID\<close> with exactly one non-empty reason and
  nothing is reported as accepted.
\<close>
theorem replay_verdict_total:
  "if br_valid_history (replayBlock env frozen m events)
   then br_state (replayBlock env frozen m events) \<noteq> INVALID \<and>
     br_invalid_reason_codes (replayBlock env frozen m events) = []
   else br_state (replayBlock env frozen m events) = INVALID \<and>
     (\<exists>code. br_invalid_reason_codes (replayBlock env frozen m events) = [code] \<and> code \<noteq> []) \<and>
     br_accepted_revision (replayBlock env frozen m events) = None \<and>
     br_accepted_tree_hash (replayBlock env frozen m events) = None \<and>
     br_accepted_review_id (replayBlock env frozen m events) = None"
  by (rule replay_verdict_facts)

text \<open>
  Terminal states are final: from \<open>FAILED\<close>, \<open>BLOCKED\<close> and \<open>INVALID\<close> every event leads to \<open>INVALID\<close>,
  and an accepted block stays accepted only under the recording of a defect found after acceptance.
\<close>
theorem terminal_states_final:
  assumes "st \<in> terminalStates"
  shows "transition env (Some st) e m = INVALID \<or>
    st = ACCEPTED \<and> transition env (Some st) e m = ACCEPTED \<and> kind_of (pe_payload e) = K_POST_ACCEPT_DEFECT_RECORDED"
  using transition_terminal [OF _ assms, of env e m]
  by (cases "transitionChecked env (Some st) e m") (auto simp: transition_def)

end
