(* ===== verification/Pilot_Outcomes.thy ===== *)
theory Pilot_Outcomes
  imports Pilot_Reducer Pilot_History
begin

text \<open>
  What the observations of a reduced log say about the log: an accepted block is backed by its own events, and one block
  whose clock runs backward takes the observations of all blocks with it.
\<close>

section \<open>The ordered log\<close>

lemma insert_keeps_head:
  assumes "\<And>y. Q x \<Longrightarrow> \<not> Q y \<Longrightarrow> cmp x y \<le> 0" "\<And>y. \<not> Q x \<Longrightarrow> Q y \<Longrightarrow> 0 < cmp x y"
    and "list_ex Q ys \<Longrightarrow> Q (hd ys)" "list_ex Q (x # ys)"
  shows "Q (hd (js_insert cmp x ys))"
proof (cases ys)
  case Nil
  then show ?thesis using assms(4) by simp
next
  case (Cons y zs)
  then show ?thesis using assms(3,4) assms(1) [of y] assms(2) [of y] by (cases "Q x"; cases "Q y") auto
qed

lemma sort_puts_first:
  assumes "\<And>x y. Q x \<Longrightarrow> \<not> Q y \<Longrightarrow> cmp x y \<le> 0" "\<And>x y. \<not> Q x \<Longrightarrow> Q y \<Longrightarrow> 0 < cmp x y"
  shows "list_ex Q xs \<Longrightarrow> Q (hd (js_sort cmp xs))"
proof (induction xs)
  case (Cons x xs)
  have "Q (hd (js_insert cmp x (js_sort cmp xs)))"
  proof (rule insert_keeps_head)
    show "cmp x y \<le> 0" if "Q x" "\<not> Q y" for y by (rule assms(1) [OF that])
    show "0 < cmp x y" if "\<not> Q x" "Q y" for y by (rule assms(2) [OF that])
    show "Q (hd (js_sort cmp xs))" if "list_ex Q (js_sort cmp xs)" using Cons.IH that by (simp add: list_ex_iff)
    show "list_ex Q (x # js_sort cmp xs)" using Cons.prems by (simp add: list_ex_iff)
  qed
  then show ?case by simp
qed simp

lemma target_first:
  assumes "list_ex (\<lambda>e. pe_block_id e = block) events"
  shows "first_block (orderedAudit events block) = Some block"
proof -
  have "pe_block_id (hd (orderedAudit events block)) = block"
    unfolding orderedAudit_def
    by (rule sort_puts_first [where Q = "\<lambda>e. pe_block_id e = block", OF _ _ assms]) (auto simp: audit_order_def Let_def)
  moreover have "orderedAudit events block \<noteq> []" using assms by (auto simp: orderedAudit_def)
  ultimately show ?thesis by (cases "orderedAudit events block") (simp_all add: first_block_def)
qed

lemma set_orderedAudit [simp]: "set (orderedAudit events block) = set events"
  by (simp add: orderedAudit_def)

lemma empty_replay: "br_state (replayBlock env frozen m []) = INVALID"
  by (auto simp: replayBlock_def first_block_def invalid_def activeEvents_def dest!: ownedLog_Inr split: sum.splits)

text \<open>An accepted replay of a block in the reducer rests on events of that block.\<close>

lemma block_history_filter: "block_history i (filter (\<lambda>e. pe_block_id e = i) es) = block_history i es"
  by (simp add: block_history_def)

lemma accepted_replay_log:
  assumes "replay_log env m events block = (active, replay, caught)" "br_state replay = ACCEPTED"
  shows "set active \<subseteq> set events \<and> (\<exists>v x. acceptance_proven m (block_history block active) v x)"
proof -
  have ex: "list_ex (\<lambda>e. pe_block_id e = block) events"
    and r: "replay = replayBlock (rd_machine env) False m (orderedAudit events block)"
    using assms empty_replay [of "rd_machine env" False m]
    by (auto simp: replay_log_def Let_def list_ex_iff split: sum.splits if_splits)
  from assms(2) [unfolded r] obtain projected own v x where
    act: "activeEvents (log_env.truncate (rd_machine env)) False (orderedAudit events block) = Inr projected"
    and first: "first_block (orderedAudit events block) = Some own"
    and proven: "acceptance_proven m (block_history own projected) v x"
    by (rule accepted_history_proven)
  have "own = block" using target_first [OF ex] first by simp
  moreover have "active = filter (\<lambda>e. pe_block_id e = block) projected" using assms(1) act by (simp add: replay_log_def Let_def)
  ultimately show ?thesis using proven active_subset [OF act] by (auto simp: block_history_filter)
qed

section \<open>Observations\<close>

lemmas observation_parts = quality_part_def usage_part_def work_of_def history_of_def identity_of_def Let_def
  observation_identity.defs observation_history.defs observation_work.defs observation_usage.defs observation.defs

lemma observation_reads:
  "ob_block_id (quality_part (usage_part (work_of (history_of (identity_of m k) a r err) a) a u t wall) q t) = bk_block_id k"
  "ob_wall_time_seconds (quality_part (usage_part (work_of (history_of (identity_of m k) a r err) a) a u t wall) q t) = wall"
  "ob_final_accepted (quality_part (usage_part (work_of (history_of (identity_of m k) a r err) a) a u t wall) q t) =
     (terminal_outcome (err \<noteq> None \<or> \<not> br_valid_history r) (br_state r) = OUT_ACCEPTED)"
  by (simp_all add: observation_parts)

lemma observationFor_parts:
  assumes "observationFor env m events k = Inr b" "replay_log env m events (bk_block_id k) = (active, replay, caught)"
  obtains u q err t wall where "wall_time active = Inr wall" "pilotBlockObservationV3Schema b"
    "b = quality_part (usage_part (work_of (history_of (identity_of m k) active replay err) active) active u t wall) q t"
  using assms(1) unfolding observationFor_def assms(2)
  by (auto simp: Let_def loadPilotBlockObservationV3_def split: prod.splits)

lemma reduceEvents_parts:
  "reduceEvents env m events = Inr obs \<Longrightarrow>
     mapR (observationFor env m events) (js_sort (\<lambda>l r. compare_code_units (bk_block_id l) (bk_block_id r)) (mf_blocks m)) = Inr obs"
  by (auto simp: reduceEvents_def)

text \<open>
  C36. An observation counts a block as accepted only on proof: among the active events of that very block, in their
  order, the last execution completed with a reproduced tree, and after its completion an accepting review of its
  revision was completed, by the routing reviewer, in another session than the executor's and with no finding left open.
\<close>
theorem accepted_observation_proven:
  assumes "reduceEvents env m events = Inr obs" "b \<in> set obs" "ob_final_accepted b"
  shows "\<exists>active replay caught v x. replay_log env m events (ob_block_id b) = (active, replay, caught) \<and>
    set active \<subseteq> set events \<and> acceptance_proven m (block_history (ob_block_id b) active) v x"
proof -
  obtain k where k: "observationFor env m events k = Inr b" using mapR_mem [OF reduceEvents_parts [OF assms(1)] assms(2)] by blast
  obtain active replay caught where log: "replay_log env m events (bk_block_id k) = (active, replay, caught)"
    by (cases "replay_log env m events (bk_block_id k)")
  from k log obtain u q err t wall where
    "b = quality_part (usage_part (work_of (history_of (identity_of m k) active replay err) active) active u t wall) q t"
    by (rule observationFor_parts)
  then have "ob_block_id b = bk_block_id k" "br_state replay = ACCEPTED"
    using assms(3) by (auto simp: observation_reads terminal_outcome_def split: if_splits)
  then show ?thesis using accepted_replay_log [OF log] log by auto
qed

text \<open>
  One block can take all observations with it: when a block of the manifest ends before its first execution
  started, by the times of its active events, the reduction of the whole log fails, instead of marking that block as
  invalid as it does for every other fault of a history.
\<close>
theorem backward_clock_stops_reducer:
  assumes "k \<in> set (mf_blocks m)" "replay_log env m events (bk_block_id k) = (active, replay, caught)"
    and "first_of (select as_started active) = Some s" "find ends_block active = Some e"
    and "parseContractualUtc (pe_occurred_at (fst s)) = Inr started" "parseContractualUtc (pe_occurred_at e) = Inr ended"
    and "ended < started"
  shows "\<not> is_ok (reduceEvents env m events)"
proof
  assume "is_ok (reduceEvents env m events)"
  then obtain obs where "reduceEvents env m events = Inr obs" by (auto simp: is_ok_iff)
  then obtain b where b: "observationFor env m events k = Inr b"
    using mapR_member [OF reduceEvents_parts, of env m events obs k] assms(1) by auto
  from b assms(2) obtain u q err t wall where w: "wall_time active = Inr wall" and schema: "pilotBlockObservationV3Schema b"
    and parts: "b = quality_part (usage_part (work_of (history_of (identity_of m k) active replay err) active) active u t wall) q t"
    by (rule observationFor_parts)
  have "wall = Some (js_div (of_int (ended - started)) 1000)" using w assms(3-6) by (simp add: wall_time_def)
  moreover have "js_div (of_int (ended - started)) 1000 < 0" unfolding js_div_def
    using assms(7) by (intro fl_sign(2)) (simp add: divide_neg_pos)
  moreover have "opt_all nonnegative_time wall" using schema observation_reads(2) parts
    by (simp add: pilotBlockObservationV3Schema_def observationBaseSchema_def usage_shape_def)
  ultimately show False by (simp add: opt_all_def nonnegative_time_def)
qed

end
