(* ===== verification/Pilot_Samples.thy ===== *)
theory Pilot_Samples
  imports Pilot_History Pilot_Usage
begin

text \<open>
  A pilot with one direct block, planned, executed once and accepted: the concrete manifest and audit
  log at which the witnesses of the pilot's properties apply their theorems. The hashes of the sample
  environment are constant functions.
\<close>

definition sample_sha :: "char \<Rightarrow> string" where
  "sample_sha c = replicate 64 c"

definition pilot_env :: machine_env where
  "pilot_env = \<lparr>le_canonical = (\<lambda>e. pe_event_id e @ pe_occurred_at e), le_event_hash = (\<lambda>_. sample_sha CHR ''e''),
     me_boundary_hash = (\<lambda>_. sample_sha CHR ''b'')\<rparr>"

definition pilot_block :: manifest_block where
  "pilot_block = \<lparr>bk_block_id = ''block'', bk_task_id = ''task'', bk_matching_stratum = ''s'',
     bk_pair_or_triplet_id = ''t'', bk_case_fingerprint = sample_sha CHR ''1'', bk_contract_hash = sample_sha CHR ''2'',
     bk_base_revision = sample_sha CHR ''3'', bk_clean_tree_hash = sample_sha CHR ''4'',
     bk_fixtures_hash = sample_sha CHR ''5'', bk_complexity_class = CX_SYSTEMIC, bk_risk_class = RISK_HIGH,
     bk_changed_line_band = ''b'', bk_validation_surface = [''unit''], bk_cheap_eligible = False,
     bk_routing_selection_reason = ''r'', bk_capability_initial = STRONG, bk_capability_final_expected = STRONG,
     bk_exclusion_reason = None, bk_comparative_eligible = False\<rparr>"

definition pilot_pricing :: pricing_snapshot where
  "pilot_pricing = \<lparr>ps_pricing_snapshot_id = ''price'', ps_currency = ''EUR'', ps_unit_scale = 1000000,
     ps_effective_at = ''2026-01-01T00:00:00Z'',
     ps_tariffs = [\<lparr>tf_binding_ref = ''strong'', tf_input_rate = 2, tf_output_rate = 10, tf_cached_input_rate = None,
        tf_reasoning_rate = None, tf_authoritative_charge_supported = True\<rparr>],
     ps_pricing_snapshot_hash = sample_sha CHR ''9''\<rparr>"

definition pilot_manifest_sample :: pilot_manifest where
  "pilot_manifest_sample = \<lparr>mf_pilot_id = ''pilot'', mf_created_at = ''2026-01-01T00:00:00Z'',
     mf_blocks = [pilot_block], mf_assignment_seed = ''seed'', mf_assignment_algorithm_version = ''v1'',
     mf_arm_assignments = [], mf_binding_policy_version = ''v1'',
     mf_binding_registry = [\<lparr>bd_binding_ref = ''strong'', bd_capability_class = STRONG, bd_profile_hash = sample_sha CHR ''6''\<rparr>],
     mf_routing_reviewer_binding_ref = ''strong'', mf_routing_reviewer_capability = STRONG,
     mf_routing_policy_version = ''v1'', mf_review_policy_version = ''v1'', mf_state_machine_version = ''v1'',
     mf_reducer_version = ''v1'', mf_isolation_policy_version = ''v1'', mf_canonical_tree_algorithm_version = ''v1'',
     mf_volatile_paths_policy_hash = sample_sha CHR ''7'',
     mf_stage_thresholds = \<lparr>th_material_improvement_rate = 1/10, th_economic_rejection_rate = 1/10,
        th_max_parent_rework_block_rate = 1/10, th_max_parent_rework_production_line_share = 1/10,
        th_max_escaped_material_defects = 0, th_max_escaped_high_defects = 0, th_max_escaped_critical_defects = 0,
        th_min_observed_cost_completeness = 1/2, th_min_observed_strong_token_completeness = 1/2,
        th_min_stratum_triplets_for_promotion = 3, th_confidence_level = 9/10,
        th_interval_algorithm_version = ''v1'', th_resampling_iterations = 1000\<rparr>,
     mf_post_acceptance_window = \<lparr>pw_duration_seconds = 60, pw_allowed_clock_skew_seconds = 1,
        pw_closure_rule = ELAPSED_DURATION, pw_window_policy_version = ''v1''\<rparr>,
     mf_pricing_snapshot = pilot_pricing, mf_manifest_hash = sample_sha CHR ''8''\<rparr>"

definition pilot_event_at :: "string \<Rightarrow> int \<Rightarrow> payload \<Rightarrow> pilot_event" where
  "pilot_event_at i n p = \<lparr>pe_event_id = i, pe_pilot_id = ''pilot'', pe_manifest_hash = sample_sha CHR ''8'',
     pe_task_id = ''task'', pe_block_id = ''block'', pe_matching_stratum = ''s'', pe_pair_or_triplet_id = ''t'',
     pe_case_fingerprint = sample_sha CHR ''1'', pe_pilot_arm = None, pe_sequence_number = n,
     pe_occurred_at = ''2026-01-02T03:04:05Z'', pe_recorded_at = ''2026-01-02T03:04:05Z'', pe_producer_id = ''p'',
     pe_supersedes = None, pe_payload = p\<rparr>"

definition pilot_start :: execution_started where
  "pilot_start = \<lparr>xs_attempt_id = ''a1'', xs_attempt_number = 1, xs_attempt_kind = IMPLEMENTATION,
     xs_executor_capability = STRONG, xs_executor_binding_ref = ''strong'', xs_executor_session_id = ''x1'',
     xs_input_revision = sample_sha CHR ''3'', xs_started_monotonic_ms = 5\<rparr>"

definition pilot_completion :: execution_completed where
  "pilot_completion = execution_started.extend pilot_start (execution_completed.fields
     (sample_sha CHR ''c'') (sample_sha CHR ''d'') (sample_sha CHR ''e'') ''v1'' (sample_sha CHR ''7'') True
     (sample_sha CHR ''f'') 10 2 1 9 4)"

definition pilot_review :: review_started where
  "pilot_review = \<lparr>vs_review_id = ''r1'', vs_review_round = 1, vs_reviewer_binding_ref = ''strong'',
     vs_reviewer_session_id = ''y1'', vs_reviewed_attempt_id = ''a1'', vs_executor_session_id_reviewed = ''x1'',
     vs_started_monotonic_ms = 10\<rparr>"

definition pilot_verdict :: review_completed where
  "pilot_verdict = review_started.extend pilot_review (review_completed.fields
     (sample_sha CHR ''e'') None (sample_sha CHR ''b'') (sample_sha CHR ''3'') (sample_sha CHR ''c'')
     [] [] [] [] [] [] ACCEPT 12 2)"

definition pilot_log :: "pilot_event list" where
  "pilot_log =
    [pilot_event_at ''e1'' 1 (BLOCK_PLANNED (sample_sha CHR ''2'')),
     pilot_event_at ''e2'' 2 (ISOLATION_ATTESTED \<lparr>is_workspace_instance_id = ''w'',
       is_base_revision = sample_sha CHR ''3'', is_clean_tree_hash = sample_sha CHR ''4'', is_isolation_status = CLEAN,
       is_observed_tree_hash = sample_sha CHR ''4'', is_isolation_policy_version = ''v1'', is_attestor_id = ''h'',
       is_evidence_hash = sample_sha CHR ''5''\<rparr>),
     pilot_event_at ''e3'' 3 (EXECUTION_STARTED pilot_start),
     pilot_event_at ''e4'' 4 (EXECUTION_COMPLETED pilot_completion),
     pilot_event_at ''e5'' 5 (REVIEW_STARTED pilot_review),
     pilot_event_at ''e6'' 6 (REVIEW_COMPLETED pilot_verdict),
     pilot_event_at ''e7'' 7 (BLOCK_ACCEPTED (sample_sha CHR ''c'') (sample_sha CHR ''d'') ''2026-01-02T03:04:05Z'')]"

lemma pilot_log_active: "activeEvents (log_env.truncate pilot_env) True pilot_log = Inr pilot_log"
  by code_simp

lemma pilot_replay_accepted:
  "br_state (replayBlock pilot_env True pilot_manifest_sample pilot_log) = ACCEPTED"
  unfolding replayBlock_def pilot_log_active sum.case by code_simp

lemma pilot_replay_valid: "br_valid_history (replayBlock pilot_env True pilot_manifest_sample pilot_log)"
  using replay_verdict_facts [of pilot_env True pilot_manifest_sample pilot_log] pilot_replay_accepted
  by (auto split: if_splits)

lemma pilot_log_valid: "valid_log (log_env.truncate pilot_env) pilot_log"
  using pilot_log_active by (auto simp: activeEvents_def ownedLog_def assertValidLog_iff)

definition first_event :: pilot_event where
  "first_event = hd pilot_log"

lemma first_admissible: "admissible (log_env.truncate pilot_env) [] first_event"
proof -
  have "pilot_log = [] @ first_event # tl pilot_log" by (simp add: first_event_def pilot_log_def)
  then have "admissible (log_env.truncate pilot_env) (take 0 pilot_log) (pilot_log ! 0)"
    using pilot_log_valid unfolding valid_log_def by (metis append_Nil length_greater_0_conv list.distinct(1))
  then show ?thesis by (simp add: first_event_def pilot_log_def)
qed

section \<open>Witnesses\<close>

theorem append_event_idempotent_witness:
  "appendEvent (log_env.truncate pilot_env) True [first_event] first_event = Inr [first_event]"
  using append_event_idempotent [OF valid_log_Nil first_admissible, of True] by simp

theorem append_keeps_log_valid_witness: "valid_log (log_env.truncate pilot_env) [first_event]"
  using append_keeps_log_valid [OF append_valid(1) [OF valid_log_Nil first_admissible]] by simp

theorem active_events_meaning_witness:
  "filter (\<lambda>e. \<not> isInvalidationEvent e \<and> \<not> withdrawn pilot_log (pe_event_id e) \<and>
     \<not> (\<exists>s \<in> set pilot_log. \<not> withdrawn pilot_log (pe_event_id s) \<and> replaces s (pe_event_id e))) pilot_log = pilot_log"
  using active_events_meaning [OF pilot_log_valid, of True] unfolding pilot_log_active by simp

theorem accepted_block_proven_witness:
  "br_unresolved_finding_ids (replayBlock pilot_env True pilot_manifest_sample pilot_log) = []"
  using accepted_block_proven [OF pilot_replay_accepted] by blast

theorem valid_history_bounded_witness: "move_count (block_history ''block'' pilot_log) \<le> 17"
  using valid_history_bounded [OF pilot_replay_valid] unfolding pilot_log_active
  by (auto simp: first_block_def pilot_log_def pilot_event_at_def)

theorem executions_follow_arm_witness:
  "\<exists>b arm. blockContext pilot_manifest_sample (pilot_event_at ''e3'' 3 (EXECUTION_STARTED pilot_start)) = Inr (b, arm) \<and>
     arm \<in> {ARM A_STRONG_BASELINE, DIRECT_STRONG}"
proof -
  let ?e = "pilot_event_at ''e3'' 3 (EXECUTION_STARTED pilot_start)"
  have "?e \<in> set pilot_log" "pe_block_id ?e = ''block''" "pe_payload ?e = EXECUTION_STARTED pilot_start"
    by (simp_all add: pilot_log_def pilot_event_at_def)
  moreover have "first_block pilot_log = Some ''block''"
    by (simp add: first_block_def pilot_log_def pilot_event_at_def)
  ultimately obtain b arm where "blockContext pilot_manifest_sample ?e = Inr (b, arm)"
    "xs_executor_capability pilot_start = STRONG \<longleftrightarrow> arm \<in> {ARM A_STRONG_BASELINE, DIRECT_STRONG} \<or>
       arm = ARM C_ADAPTIVE_EARLY_ESCALATION \<and> xs_attempt_number pilot_start = 3"
    using executions_follow_arm [OF pilot_replay_valid] unfolding pilot_log_active by (metis Inr_inject option.inject)
  then show ?thesis by (auto simp: pilot_start_def)
qed

theorem terminal_states_final_witness:
  "transition pilot_env (Some FAILED) first_event pilot_manifest_sample = INVALID"
  using terminal_states_final [of FAILED pilot_env first_event pilot_manifest_sample] by (simp add: terminalStates_def)

section \<open>Usage\<close>

definition sample_usage_env :: usage_env where
  "sample_usage_env = \<lparr>ue_canonical = us_usage_id, ue_snapshot_hash = (\<lambda>_. sample_sha CHR ''9'')\<rparr>"

definition sample_usage :: "string \<Rightarrow> int \<Rightarrow> usage_recorded" where
  "sample_usage i n = \<lparr>us_usage_id = i, us_attempt_number = 1, us_role = EXECUTOR, us_binding_ref = ''strong'',
     us_provider_usage_id = None,
     us_input_tokens_observed = Some 100, us_output_tokens_observed = Some n,
     us_cached_input_tokens_observed = None, us_reasoning_tokens_observed = None,
     us_input_tokens_estimated = None, us_output_tokens_estimated = None,
     us_cached_input_tokens_estimated = None, us_reasoning_tokens_estimated = None,
     us_token_estimator_id = None, us_token_estimator_version = None, us_pricing_snapshot_id = ''price'',
     us_cost_observed = None, us_cost_estimated = None, us_currency = ''EUR'', us_cost_provenance = TARIFF_REPRODUCED,
     us_attempt_id = Some ''a1'', us_review_id = None, us_orchestrator_operation_id = None\<rparr>"

definition sample_usages :: "usage_recorded list" where
  "sample_usages = [sample_usage ''u2'' 10, sample_usage ''u1'' 20]"

definition price_of :: "usage_recorded \<Rightarrow> priced_usage" where
  "price_of u = projr (priceUsage sample_usage_env u pilot_pricing)"

definition total_of :: "usage_recorded list \<Rightarrow> usage_aggregate" where
  "total_of us = projr (aggregateUsage sample_usage_env us (mf_binding_registry pilot_manifest_sample) pilot_pricing)"

lemma sample_prices:
  "is_ok (priceUsage sample_usage_env (sample_usage ''u2'' 10) pilot_pricing)"
  "pu_cost_observed (price_of (sample_usage ''u2'' 10)) = Some 300"
  "is_ok (aggregateUsage sample_usage_env sample_usages (mf_binding_registry pilot_manifest_sample) pilot_pricing)"
  "am_value (ua_cost_observed (total_of sample_usages)) = Some 700"
  by code_simp+

lemma sample_price: "priceUsage sample_usage_env (sample_usage ''u2'' 10) pilot_pricing = Inr (price_of (sample_usage ''u2'' 10))"
  using sample_prices(1) by (auto simp: is_ok_iff price_of_def)

lemma sample_total:
  "aggregateUsage sample_usage_env sample_usages (mf_binding_registry pilot_manifest_sample) pilot_pricing =
     Inr (total_of sample_usages)"
  using sample_prices(3) by (auto simp: is_ok_iff total_of_def)

theorem price_is_sound_witness:
  "pu_observed_cost_provenance (price_of (sample_usage ''u2'' 10)) \<noteq> None"
  using price_is_sound [OF sample_price] sample_prices(2) by simp

theorem aggregate_order_independent_witness:
  "aggregateUsage sample_usage_env (rev sample_usages) (mf_binding_registry pilot_manifest_sample) pilot_pricing =
     Inr (total_of sample_usages)"
  by (rule aggregate_order_independent [OF _ _ sample_total])
    (simp_all add: sample_usages_def sample_usage_def)

theorem usage_replay_counted_once_witness:
  "\<exists>a. aggregateUsage sample_usage_env (sample_usages @ [sample_usage ''u1'' 20])
     (mf_binding_registry pilot_manifest_sample) pilot_pricing = Inr a \<and> am_value (ua_cost_observed a) = Some 700"
  using usage_replay_counted_once [OF sample_total, of "sample_usage ''u1'' 20"] sample_prices(4)
  by (simp add: sample_usages_def)

theorem aggregate_cost_exact_witness:
  "am_total (ua_cost_observed (total_of sample_usages)) = ua_operations (total_of sample_usages) \<and> 700 \<le> max_safe_integer"
  using aggregate_cost_exact [OF sample_total] sample_prices(4) by simp

end
