(* ===== verification/Evaluation_Samples.thy ===== *)
theory Evaluation_Samples
  imports Pilot_Promotion Pilot_Reports Pilot_Admission Pilot_Outcomes Pilot_Samples
begin

text \<open>
  A pilot of one comparative triplet and one direct block, its gate, observations and reports: the concrete inputs at
  which the witnesses apply the theorems on the manifest, the reducer, the metrics and the evaluation.
\<close>

section \<open>The sample\<close>

definition trio_env :: evaluation_env where
  "trio_env = \<lparr>ue_canonical = us_usage_id, ue_snapshot_hash = (\<lambda>_. sample_sha CHR ''9''),
     mh_manifest_hash = (\<lambda>_. sample_sha CHR ''8''),
     mh_field_hash = (\<lambda>f. case f of FIELD_TEXT s \<Rightarrow> s | FIELD_LIST l \<Rightarrow> concat l),
     mh_rank_hash = (\<lambda>r. arm_string (rk_pilot_arm r)), mh_locale_compare = compare_code_units,
     mx_observation_hash = ob_block_id, mx_observations_hash = (\<lambda>_. sample_sha CHR ''a''),
     mx_quality_hash = (\<lambda>_. sample_sha CHR ''b''), mx_quality_set_hash = (\<lambda>_. sample_sha CHR ''c''),
     vx_draw = (\<lambda>_. 0), vx_nonces = 1, vx_policy_hash = (\<lambda>_. sample_sha CHR ''d''),
     vx_report_hash = (\<lambda>_. sample_sha CHR ''e'')\<rparr>"

definition trio_block :: "string \<Rightarrow> capability_class \<Rightarrow> capability_class \<Rightarrow> manifest_block" where
  "trio_block i initial final = pilot_block\<lparr>bk_block_id := i, bk_matching_stratum := ''m'', bk_pair_or_triplet_id := ''t1'',
     bk_complexity_class := CX_MECHANICAL, bk_risk_class := RISK_LOW, bk_cheap_eligible := True,
     bk_comparative_eligible := True, bk_capability_initial := initial, bk_capability_final_expected := final\<rparr>"

definition trio_tariff :: "string \<Rightarrow> tariff" where
  "trio_tariff r = \<lparr>tf_binding_ref = r, tf_input_rate = 2, tf_output_rate = 10, tf_cached_input_rate = None,
     tf_reasoning_rate = None, tf_authoritative_charge_supported = True\<rparr>"

definition trio_manifest :: pilot_manifest where
  "trio_manifest = pilot_manifest_sample\<lparr>
     mf_blocks := [pilot_block, trio_block ''a'' STRONG STRONG, trio_block ''b'' CHEAP CHEAP, trio_block ''c'' CHEAP STRONG],
     mf_arm_assignments := [\<lparr>aa_block_id = ''a'', aa_pilot_arm = A_STRONG_BASELINE\<rparr>,
       \<lparr>aa_block_id = ''b'', aa_pilot_arm = B_CHEAP_NO_EARLY_ESCALATION\<rparr>,
       \<lparr>aa_block_id = ''c'', aa_pilot_arm = C_ADAPTIVE_EARLY_ESCALATION\<rparr>],
     mf_binding_registry := [\<lparr>bd_binding_ref = ''strong'', bd_capability_class = STRONG, bd_profile_hash = sample_sha CHR ''6''\<rparr>,
       \<lparr>bd_binding_ref = ''cheap'', bd_capability_class = CHEAP, bd_profile_hash = sample_sha CHR ''6''\<rparr>],
     mf_stage_thresholds := (mf_stage_thresholds pilot_manifest_sample)\<lparr>
       th_interval_algorithm_version := bootstrap_version, th_resampling_iterations := 100\<rparr>,
     mf_pricing_snapshot := pilot_pricing\<lparr>ps_tariffs := [trio_tariff ''strong'', trio_tariff ''cheap'']\<rparr>\<rparr>"

lemma trio_verified: "ver_ok (verifyManifest trio_env trio_manifest)"
  by code_simp

text \<open>The arms of the triplet.\<close>

definition trio_triplet :: "manifest_block list" where
  "trio_triplet = [trio_block ''a'' STRONG STRONG, trio_block ''b'' CHEAP CHEAP, trio_block ''c'' CHEAP STRONG]"

lemma trio_assignment:
  "assignArms trio_env trio_manifest = Inr (mf_arm_assignments trio_manifest)"
  "(''t1'', trio_triplet) \<in> set (comparativeTriplets (mf_blocks trio_manifest))"
  by code_simp+


section \<open>Metrics\<close>

definition no_usage :: usage_summary where
  "no_usage = \<lparr>sm_operations = 0, sm_observed_tokens = None, sm_estimated_tokens = None\<rparr>"

definition trio_defect :: "string \<Rightarrow> post_accept_defect" where
  "trio_defect i = \<lparr>pa_defect_id = i, pa_severity = SEV_HIGH, pa_material = True, pa_discovered_at = ''2026-01-02T03:04:06Z'',
     pa_evidence_id = i, pa_affected_revision = sample_sha CHR ''c'', pa_category_code = ''k''\<rparr>"

text \<open>An accepted observation of a block of the triplet, with its quality window closed.\<close>

definition trio_observation :: "string \<Rightarrow> pilot_arm \<Rightarrow> post_accept_defect list \<Rightarrow> observation" where
  "trio_observation i arm defects = \<lparr>ob_pilot_id = ''pilot'', ob_manifest_hash = sample_sha CHR ''8'', ob_task_id = ''task'',
     ob_block_id = i, ob_matching_stratum = ''m'', ob_pair_or_triplet_id = ''t1'', ob_case_fingerprint = sample_sha CHR ''1'',
     ob_pilot_arm = Some arm, ob_complexity_class = CX_MECHANICAL, ob_risk_class = RISK_LOW, ob_changed_line_band = ''b'',
     ob_cheap_eligible = True, ob_comparative_eligible = True, ob_state = ACCEPTED, ob_valid_history = True,
     ob_invalid_reason_codes = [], ob_executor_binding_initial = Some ''strong'', ob_executor_binding_final = Some ''strong'',
     ob_reviewer_binding_refs = [''strong''], ob_execution_attempts = 1, ob_repair_rounds = 0, ob_escalated = False,
     ob_escalation_reason = None, ob_first_pass_accept = True, ob_accept_after_one_repair = True, ob_final_accepted = True,
     ob_tests_initially_failing = 0, ob_tests_finally_passing = 1, ob_review_findings_material = 0,
     ob_review_findings_non_material = 0, ob_rework_files_production = 0, ob_rework_files_tests = 0, ob_rework_files_docs = 0,
     ob_rework_lines_production = 0, ob_rework_lines_tests = 0, ob_rework_lines_docs = 0, ob_changed_lines_production = 0,
     ob_changed_lines_tests = 2, ob_changed_lines_docs = 1, ob_orchestrator_usage = no_usage, ob_executor_usage = no_usage,
     ob_reviewer_usage = no_usage, ob_total_usage = no_usage, ob_cost_observed = None, ob_cost_estimated = None,
     ob_cost_observed_completeness = 0, ob_cost_estimated_completeness = 0, ob_strong_tokens_observed = no_tokens,
     ob_strong_tokens_estimated = no_tokens, ob_wall_time_seconds = None, ob_executor_time_seconds = None,
     ob_review_time_seconds = None, ob_blocked_cause = None, ob_blocked_reason_code = None,
     ob_post_acceptance_window_closed = True, ob_accepted_at = Some ''2026-01-02T03:04:05Z'',
     ob_window_opens_at = Some ''2026-01-02T03:04:05.000Z'', ob_window_closes_at = Some ''2026-01-02T03:05:05.000Z'',
     ob_post_accept_defects = defects, ob_post_accept_defects_count = int (length defects),
     ob_post_accept_max_severity = (if defects = [] then None else Some SEV_HIGH), ob_late_quality_evidence_count = 0,
     ob_quality_warnings = [], ob_final_outcome = OUT_ACCEPTED\<rparr>"

definition trio_observations :: "observation list" where
  "trio_observations = [trio_observation ''a'' A_STRONG_BASELINE [], trio_observation ''b'' B_CHEAP_NO_EARLY_ESCALATION [],
     trio_observation ''c'' C_ADAPTIVE_EARLY_ESCALATION [trio_defect ''d1'', trio_defect ''d2'']]"

definition trio_core :: metric_triplet where
  "trio_core = \<lparr>tp_pair_or_triplet_id = ''t1'', tp_matching_stratum = ''m'', tp_members = (\<lambda>arm. case arm of
     A_STRONG_BASELINE \<Rightarrow> trio_observations ! 0 | B_CHEAP_NO_EARLY_ESCALATION \<Rightarrow> trio_observations ! 1
     | C_ADAPTIVE_EARLY_ESCALATION \<Rightarrow> trio_observations ! 2)\<rparr>"

lemma trio_groups: "candidate_groups trio_manifest (Some {''t1''}) = [(''t1'', trio_triplet)]"
  by code_simp

definition trio_of :: "pilot_arm \<Rightarrow> manifest_block" where
  "trio_of arm = (case arm of A_STRONG_BASELINE \<Rightarrow> trio_triplet ! 0 | B_CHEAP_NO_EARLY_ESCALATION \<Rightarrow> trio_triplet ! 1
     | C_ADAPTIVE_EARLY_ESCALATION \<Rightarrow> trio_triplet ! 2)"

lemma trio_members: "object_of arms (member_block trio_manifest trio_triplet) = Inr trio_of"
proof -
  have "mapR (member_block trio_manifest trio_triplet) arms = Inr trio_triplet" by code_simp
  then show ?thesis by (auto simp: object_of_def arms_def trio_of_def trio_triplet_def fun_eq_iff split: pilot_arm.splits)
qed

lemma trio_reasons: "triplet_reasons trio_manifest trio_observations trio_of = []"
  by code_simp

lemma trio_matches: "hd (matches_of trio_observations (trio_of arm)) = tp_members trio_core arm"
  by (cases arm) (simp_all add: matches_of_def trio_of_def trio_core_def trio_observations_def trio_triplet_def trio_block_def
      trio_observation_def pilot_block_def)

lemma trio_stratum: "bk_matching_stratum (hd trio_triplet) = ''m''"
  by (simp add: trio_triplet_def trio_block_def)

lemma trio_core_fields:
  "\<lparr>tp_pair_or_triplet_id = ''t1'', tp_matching_stratum = ''m'', tp_members = tp_members trio_core\<rparr> = trio_core"
  by (rule metric_triplet.equality) (simp_all add: trio_core_def)

lemma trio_admitted: "admit_group trio_manifest trio_observations (''t1'', trio_triplet) = Inr (''m'', ADMITTED trio_core)"
  by (simp add: admit_group_def Let_def trio_members trio_reasons trio_matches trio_stratum trio_core_fields)

lemma js_div_samples: "js_div 0 x = 0" "js_div 1 1 = 1" "js_div 2 1 = 2"
  using fl_int [of 1] fl_int [of 2] by (simp_all add: js_div_def)

definition trio_defects :: "pilot_arm \<Rightarrow> post_accept_defect list" where
  "trio_defects arm = (if arm = C_ADAPTIVE_EARLY_ESCALATION then [trio_defect ''d1'', trio_defect ''d2''] else [])"

lemma trio_member: "\<exists>i. tp_members trio_core arm = trio_observation i arm (trio_defects arm)"
  by (cases arm) (auto simp: trio_core_def trio_observations_def trio_defects_def)

lemma trio_observation_fields:
  "ob_final_accepted (trio_observation i arm ds)" "ob_post_accept_defects (trio_observation i arm ds) = ds"
  "ob_first_pass_accept (trio_observation i arm ds)" "ob_accept_after_one_repair (trio_observation i arm ds)"
  "\<not> ob_escalated (trio_observation i arm ds)" "ob_total_usage (trio_observation i arm ds) = no_usage"
  "ob_wall_time_seconds (trio_observation i arm ds) = None" "ob_cost_observed (trio_observation i arm ds) = None"
  "ob_cost_estimated (trio_observation i arm ds) = None" "ob_strong_tokens_observed (trio_observation i arm ds) = no_tokens"
  "ob_strong_tokens_estimated (trio_observation i arm ds) = no_tokens" "ob_rework_lines_production (trio_observation i arm ds) = 0"
  "ob_changed_lines_production (trio_observation i arm ds) = 0" "ob_pilot_arm (trio_observation i arm ds) = Some arm"
  "ob_late_quality_evidence_count (trio_observation i arm ds) = 0"
  by (simp_all add: trio_observation_def)

lemmas trio_evaluation = escaped_def checkedIntegerSum_def integer_sum_step_def count_where_def
  resourceTotals_def resourceMeasure_def sum_for_def exactDecimalSum_def resource_keys_def object_of_def resourceDatum_def
  operation_datum_def has_operations_def no_usage_def no_tokens_def no_measure_def populationMetric_def tripletPopulation_def
  metric_of_def safe_number_def safe_int_def max_safe_integer_def Let_def trio_observation_fields List.map_filter_simps
  js_div_samples

lemma trio_arms: "is_ok (armMetrics [trio_core] arm)"
  "armMetrics [trio_core] C_ADAPTIVE_EARLY_ESCALATION = Inr a \<Longrightarrow> mt_value (am_escaped_material_defect_rate a) = Some 2"
proof -
  obtain i j k where members: "tp_members trio_core A_STRONG_BASELINE = trio_observation i A_STRONG_BASELINE []"
    "tp_members trio_core B_CHEAP_NO_EARLY_ESCALATION = trio_observation j B_CHEAP_NO_EARLY_ESCALATION []"
    "tp_members trio_core C_ADAPTIVE_EARLY_ESCALATION = trio_observation k C_ADAPTIVE_EARLY_ESCALATION [trio_defect ''d1'', trio_defect ''d2'']"
    using trio_member [of A_STRONG_BASELINE] trio_member [of B_CHEAP_NO_EARLY_ESCALATION] trio_member [of C_ADAPTIVE_EARLY_ESCALATION]
    by (auto simp: trio_defects_def)
  show "is_ok (armMetrics [trio_core] arm)"
    by (cases arm) (simp_all add: armMetrics_def arm_values_def members trio_evaluation arms_def trio_defect_def)
  show "mt_value (am_escaped_material_defect_rate a) = Some 2" if "armMetrics [trio_core] C_ADAPTIVE_EARLY_ESCALATION = Inr a"
    using that by (auto simp: armMetrics_def arm_values_def members trio_evaluation arms_def trio_defect_def)
qed

lemma object_of_ok: "(\<And>k. is_ok (f k)) \<Longrightarrow> is_ok (object_of keys f)"
proof -
  assume "\<And>k. is_ok (f k)"
  then have "is_ok (mapR f keys)" by (simp add: mapR_ok list_all_iff)
  then show "is_ok (object_of keys f)" by (auto simp: object_of_def is_ok_iff)
qed

lemma trio_totals: "is_ok (resourceTotals (filter (\<lambda>b. ob_pilot_arm b = arm) trio_observations))"
  by (cases arm; (cases "the arm")?) (simp_all add: trio_evaluation trio_observations_def)

lemma trio_quality: "is_ok (qualityEvidence trio_env trio_observations)" "checkedIntegerSum (late_counts trio_observations) = Inr 0"
  by (simp_all add: qualityEvidence_def late_counts_def closure_records_def defect_records_def trio_evaluation
      trio_observations_def trio_observation_def)

definition trio_metrics :: pilot_metrics where
  "trio_metrics = projr (computePilotMetricsForTripletIds trio_env trio_manifest trio_observations {''t1''})"

lemma trio_metrics:
  "computePilotMetricsForTripletIds trio_env trio_manifest trio_observations {''t1''} = Inr trio_metrics"
  "px_core_triplets trio_metrics = [trio_core]"
  "armMetrics [trio_core] arm = Inr (ev_by_arm (px_metrics trio_metrics) arm)"
proof -
  obtain f where f: "object_of arms (armMetrics [trio_core]) = Inr f"
    using object_of_ok [of "armMetrics [trio_core]" arms, OF trio_arms(1)] by (auto simp: is_ok_iff)
  obtain g where g: "object_of arms (\<lambda>arm. resourceTotals (filter (\<lambda>b. ob_pilot_arm b = Some arm) trio_observations)) = Inr g"
    using object_of_ok [of "\<lambda>arm. resourceTotals (filter (\<lambda>b. ob_pilot_arm b = Some arm) trio_observations)" arms, OF trio_totals]
    by (auto simp: is_ok_iff)
  obtain d where d: "resourceTotals (filter (\<lambda>b. ob_pilot_arm b = None) trio_observations) = Inr d"
    using trio_totals [of None] by (auto simp: is_ok_iff)
  obtain h n where q: "qualityEvidence trio_env trio_observations = Inr (h, n)" using trio_quality(1) by (auto simp: is_ok_iff)
  have core: "admitted_of [(''m'', ADMITTED trio_core)] = [trio_core]" by (simp add: admitted_of_def List.map_filter_simps)
  obtain x where x: "computePilotMetricsForTripletIds trio_env trio_manifest trio_observations {''t1''} = Inr x"
    "px_core_triplets x = [trio_core]" "ev_by_arm (px_metrics x) = f"
    by (simp add: computePilotMetricsForTripletIds_def computePilotMetricsInternal_def trio_verified trio_groups trio_admitted
        core f g d q trio_quality(2) Let_def)
  then show "computePilotMetricsForTripletIds trio_env trio_manifest trio_observations {''t1''} = Inr trio_metrics"
    "px_core_triplets trio_metrics = [trio_core]" "armMetrics [trio_core] arm = Inr (ev_by_arm (px_metrics trio_metrics) arm)"
    using object_of_arms [OF f] by (simp_all add: trio_metrics_def)
qed

lemma trio_rate:
  "mt_value (am_escaped_material_defect_rate (ev_by_arm (px_metrics trio_metrics) C_ADAPTIVE_EARLY_ESCALATION)) = Some 2"
  using trio_arms(2) trio_metrics(3) by blast


section \<open>An evaluation\<close>

definition trio_gate :: routing_gate where
  "trio_gate = \<lparr>gt_gate_policy_id = ''gate'', gt_pilot_id = ''pilot'', gt_manifest_hash = sample_sha CHR ''8'',
     gt_evaluated_at = ''2026-02-01T00:00:00Z'', gt_resampling_seed = ''seed'',
     gt_strata_policy = [\<lparr>sy_matching_stratum = ''m'', sy_complexity_class = CX_MECHANICAL, sy_risk_class = RISK_LOW,
         sy_promotion_eligible = True, sy_exclusion_reason = None\<rparr>,
       \<lparr>sy_matching_stratum = ''s'', sy_complexity_class = CX_SYSTEMIC, sy_risk_class = RISK_HIGH,
         sy_promotion_eligible = False, sy_exclusion_reason = Some ''systemic''\<rparr>],
     gt_stage = 1, gt_thresholds = stage_thresholds.extend (mf_stage_thresholds trio_manifest) \<lparr>th_minimum_blocks_per_arm = 10\<rparr>\<rparr>"

definition trio_context :: evaluation_context where
  "trio_context = \<lparr>ec_evaluation_id = ''v1'', ec_evaluation_version = 1, ec_prior_report = None\<rparr>"

lemma trio_gate_accepted: "pilotRoutingGateV3Schema trio_gate" "validateGate trio_manifest trio_gate = Inr ()"
  by code_simp+

lemma trio_scope: "selected_ids trio_manifest trio_gate = {''t1''}"
  "stageObservations trio_manifest trio_observations {''t1''} = trio_observations"
proof -
  have "candidateTripletIds trio_manifest = [''t1'']" by code_simp
  then show "selected_ids trio_manifest trio_gate = {''t1''}" by (simp add: selected_ids_def trio_gate_def stageLimit_def)
  have "list_all (in_scope trio_manifest {''t1''}) trio_observations" by code_simp
  then show "stageObservations trio_manifest trio_observations {''t1''} = trio_observations"
    by (simp add: stageObservations_def list_all_iff)
qed

theorem rate_above_one_has_no_report_witness:
  "\<not> is_ok (evaluatePilot trio_env trio_manifest trio_observations trio_gate trio_context)"
proof (rule rate_above_one_has_no_report)
  show "computePilotMetricsForTripletIds trio_env trio_manifest (stageObservations trio_manifest trio_observations
      (selected_ids trio_manifest trio_gate)) (selected_ids trio_manifest trio_gate) = Inr trio_metrics"
    by (simp add: trio_scope trio_metrics(1))
  show "mt_value (am_escaped_material_defect_rate (ev_by_arm (px_metrics trio_metrics) C_ADAPTIVE_EARLY_ESCALATION)) = Some 2 \<or>
      mt_value (am_parent_rework_production_line_share (ev_by_arm (px_metrics trio_metrics) C_ADAPTIVE_EARLY_ESCALATION)) = Some 2"
    using trio_rate by simp
qed simp

text \<open>Before any block has run, the first evaluation of the pilot continues it.\<close>

definition trio_report :: evaluation_report where
  "trio_report = projr (evaluatePilot trio_env trio_manifest [] trio_gate trio_context)"

lemma trio_continues: "case evaluatePilot trio_env trio_manifest [] trio_gate trio_context of
    Inl e \<Rightarrow> False | Inr r \<Rightarrow> er_decision r = EV_CONTINUE"
  by code_simp


section \<open>A history of reports\<close>

definition no_sample :: metric_sample where
  "no_sample = \<lparr>mt_numerator = 0, mt_denominator = 0, mt_value = None, mt_confidence_interval = None\<rparr>"

definition no_arm_metrics :: arm_metrics where
  "no_arm_metrics = \<lparr>am_final_acceptance_rate = no_sample, am_escaped_material_defect_rate = no_sample,
     am_escaped_high_defects = no_sample, am_escaped_critical_defects = no_sample, am_wall_time_per_accepted_block = no_sample,
     am_observed_cost_per_accepted_block = no_sample, am_estimated_cost_per_accepted_block = no_sample,
     am_strong_tokens_observed_per_accepted_block = no_sample, am_strong_tokens_estimated_per_accepted_block = no_sample,
     am_all_role_tokens_observed_per_accepted_block = no_sample, am_all_role_tokens_estimated_per_accepted_block = no_sample,
     am_first_pass_accept_rate = no_sample, am_accept_after_one_repair_rate = no_sample, am_escalation_rate = no_sample,
     am_parent_rework_block_rate = no_sample, am_parent_rework_production_line_share = no_sample\<rparr>"

definition no_totals :: resource_totals where
  "no_totals = (\<lambda>_. \<lparr>rm_known_sum = 0, rm_complete = 0, rm_total = 0, rm_completeness_ratio = None, rm_complete_value = Some 0\<rparr>)"

definition no_branch :: "efficiency_kind \<Rightarrow> efficiency_branch" where
  "no_branch k = \<lparr>eb_branch = k, eb_status = UNUSABLE, eb_eligible_triplets = 0, eb_completeness = None,
     eb_point_improvement = None, eb_confidence_interval = None, eb_reason_codes = [''incomplete'']\<rparr>"

definition step_report ::
    "string \<Rightarrow> int \<Rightarrow> int \<Rightarrow> evaluation_decision \<Rightarrow> string list \<Rightarrow> rat \<Rightarrow> supersession option \<Rightarrow> evaluation_report" where
  "step_report i version n decision promoted evidence prior = \<lparr>er_evaluation_id = i, er_evaluation_version = version,
     er_pilot_id = ''pilot'', er_manifest_hash = sample_sha CHR ''8'', er_evaluated_at = ''2026-02-01T00:00:00Z'', er_stage = n,
     er_decision = decision, er_promoted_strata = promoted, er_not_validated_strata = [], er_reasons = [''reason''],
     er_observation_set_hash = sample_sha CHR ''a'', er_decision_input_hash = sample_sha CHR ''a'',
     er_quality_evidence_hash = sample_sha CHR ''c'', er_quality_evidence_count = evidence, er_late_quality_evidence_count = 0,
     er_gate_policy_hash = sample_sha CHR ''d'',
     er_metrics = \<lparr>ev_by_arm = (\<lambda>_. no_arm_metrics), ev_paired_comparisons = pairedComparisons [] (\<lambda>_. no_arm_metrics)\<rparr>,
     er_exclusions = [], er_efficiency_branches = (no_branch OBSERVED_COST, no_branch OBSERVED_STRONG_TOKENS), er_strata = [],
     er_operational_totals = \<lparr>ot_comparative_by_arm = (\<lambda>_. no_totals), ot_direct_to_strong = no_totals\<rparr>,
     er_denominators = \<lparr>dn_manifest_blocks = 4, dn_comparative_blocks = 3, dn_candidate_triplets = 1, dn_admitted_triplets = 0,
       dn_excluded_triplets = 1, dn_comparable_blocks_by_arm = (\<lambda>_. 0), dn_accepted_blocks_by_arm = (\<lambda>_. 0),
       dn_quality_complete_blocks_by_arm = (\<lambda>_. 0)\<rparr>,
     er_completeness = completeness_of [],
     er_interval_metadata = \<lparr>im_confidence_level = 9 / 10, im_interval_algorithm_version = bootstrap_version,
       im_resampling_iterations = 100, im_resampling_seed = ''seed''\<rparr>,
     er_warnings = [], er_supersedes = prior\<rparr>"

definition rejected_report :: evaluation_report where
  "rejected_report = step_report ''v1'' 1 1 EV_REJECT [] 1 None"

definition continued_report :: evaluation_report where
  "continued_report = step_report ''v2'' 2 1 EV_CONTINUE [] 2 (Some (supersession_of trio_env rejected_report))"

definition promoted_report :: evaluation_report where
  "promoted_report = step_report ''v3'' 3 2 EV_PROMOTE_BOUNDED [''m''] 2 (Some (supersession_of trio_env continued_report))"

text \<open>The same promotion right after the rejection.\<close>

definition hasty_report :: evaluation_report where
  "hasty_report = step_report ''v2'' 2 2 EV_PROMOTE_BOUNDED [''m''] 2 (Some (supersession_of trio_env rejected_report))"

lemma step_schema: "list_all pilotEvaluationReportV3Schema [rejected_report, continued_report, promoted_report, hasty_report]"
  by code_simp

lemmas step_reports = appendEvaluation_def same_identity_def rejected_report_def continued_report_def promoted_report_def
  hasty_report_def step_report_def supersession_of_def validateHistoryTransition_def follows_def terminal_decision_def
  cannot_promote_def Let_def

text \<open>
  A rejection does not bind a pilot: a promotion right after it is refused, but one report of the same stage with more
  quality evidence may continue the pilot, and the report after that enters the next stage and promotes.
\<close>
theorem rejected_pilot_is_promoted:
  "foldR (appendEvaluation trio_env) [] [rejected_report, hasty_report] = Inl (pilot_error ''TERMINAL_DECISION_CANNOT_ADVANCE'') \<and>
   foldR (appendEvaluation trio_env) [] [rejected_report, continued_report, promoted_report] =
     Inr [rejected_report, continued_report, promoted_report] \<and>
   map er_decision [rejected_report, continued_report, promoted_report] = [EV_REJECT, EV_CONTINUE, EV_PROMOTE_BOUNDED]"
  using step_schema by (simp add: step_reports)

theorem reports_form_a_chain_witness: "succeeds trio_env continued_report promoted_report"
proof -
  have "foldR (appendEvaluation trio_env) [] [rejected_report, continued_report, promoted_report] =
     Inr [rejected_report, continued_report, promoted_report]"
    using step_schema by (simp add: step_reports)
  from reports_form_a_chain [OF this, of 1] show ?thesis by simp
qed

section \<open>Draws and intervals\<close>

theorem draws_are_unbiased_witness: "card {v. 0 \<le> v \<and> v < rejectionLimit 3 \<and> v mod 3 = 1} = nat (2 ^ 64 div 3)"
  using draws_are_unbiased [of 3 1] by simp

definition sample_statistics :: "rat option list" where
  "sample_statistics = [Some 3, Some 1, Some 2]"

theorem percentile_interval_sound_witness:
  "\<exists>i. percentileInterval sample_statistics (9 / 10) = Some i \<and> Some (iv_lower i) \<in> set sample_statistics \<and> iv_lower i \<le> iv_upper i"
proof -
  obtain i where "percentileInterval sample_statistics (9 / 10) = Some i" by (simp add: percentileInterval_def sample_statistics_def Let_def)
  then show ?thesis using percentile_interval_sound [of sample_statistics "9 / 10" i] by (simp add: sample_statistics_def)
qed

section \<open>Observations of the sample log\<close>

definition trio_reducer :: reducer_env where
  "trio_reducer = \<lparr>rd_machine = pilot_env, rd_manifest = manifest_env.truncate trio_env\<rparr>"

lemma log_ordered: "orderedAudit pilot_log i = pilot_log"
  by (simp add: orderedAudit_def pilot_log_def pilot_event_at_def audit_order_def js_sort_def Let_def)

lemma log_active: "activeEvents (log_env.truncate pilot_env) False pilot_log = Inr pilot_log"
  by code_simp

lemma log_own: "filter (\<lambda>e. pe_block_id e = i) pilot_log = (if i = ''block'' then pilot_log else [])"
  by (auto simp: pilot_log_def pilot_event_at_def)

definition accepted_replay :: block_replay where
  "accepted_replay = \<lparr>br_state = ACCEPTED, br_valid_history = True, br_invalid_reason_codes = [], br_block_id = Some ''block'',
     br_accepted_revision = Some (sample_sha CHR ''c''), br_accepted_tree_hash = Some (sample_sha CHR ''d''),
     br_accepted_review_id = Some ''r1'', br_unresolved_finding_ids = []\<rparr>"

lemma log_replay: "replayBlock pilot_env False trio_manifest pilot_log = accepted_replay"
  unfolding replayBlock_def log_active sum.case accepted_replay_def by code_simp

lemma empty_log_replay: "replayBlock pilot_env False trio_manifest [] = invalid None ''EMPTY_HISTORY'' []"
  by code_simp

lemma trio_logs: "replay_log trio_reducer trio_manifest pilot_log i = (if i = ''block'' then (pilot_log, accepted_replay, None)
    else ([], invalid None ''EMPTY_HISTORY'' [], None))"
proof -
  have "list_ex (\<lambda>e. pe_block_id e = i) pilot_log = (i = ''block'')" by (auto simp: pilot_log_def pilot_event_at_def)
  then show ?thesis by (simp add: replay_log_def log_ordered trio_reducer_def log_active log_own log_replay empty_log_replay)
qed

lemma trio_observed: "case observationFor trio_reducer trio_manifest pilot_log pilot_block of Inl e \<Rightarrow> False
    | Inr b \<Rightarrow> ob_final_accepted b \<and> ob_block_id b = ''block''"
proof -
  have i: "bk_block_id pilot_block = ''block''" by (simp add: pilot_block_def)
  show ?thesis unfolding observationFor_def i trio_logs refl if_True prod.case by code_simp
qed

lemma trio_unobserved: "is_ok (observationFor trio_reducer trio_manifest pilot_log (trio_of arm))"
proof -
  have i: "bk_block_id (trio_of arm) \<noteq> ''block''" by (cases arm) (simp_all add: trio_of_def trio_triplet_def trio_block_def)
  show ?thesis unfolding observationFor_def trio_logs if_not_P [OF i] prod.case by (cases arm; hypsubst; code_simp)
qed

lemma trio_reduced: "\<exists>obs. reduceEvents trio_reducer trio_manifest pilot_log = Inr obs"
proof -
  have order: "js_sort (\<lambda>l r. compare_code_units (bk_block_id l) (bk_block_id r)) (mf_blocks trio_manifest) =
      [trio_of A_STRONG_BASELINE, trio_of B_CHEAP_NO_EARLY_ESCALATION, pilot_block, trio_of C_ADAPTIVE_EARLY_ESCALATION]"
    by code_simp
  have "assertRawIdentity trio_manifest pilot_log = Inr ()" by code_simp
  moreover have "is_ok (observationFor trio_reducer trio_manifest pilot_log pilot_block)"
    using trio_observed by (simp add: is_ok_def split: sum.splits)
  moreover have "ver_ok (verifyManifest (rd_manifest trio_reducer) trio_manifest)" by code_simp
  ultimately have "is_ok (reduceEvents trio_reducer trio_manifest pilot_log)"
    using trio_unobserved by (simp add: reduceEvents_def order mapR_ok del: mapR.simps)
  then show ?thesis by (simp add: is_ok_iff)
qed

theorem accepted_observation_proven_witness:
  "\<exists>v x. acceptance_proven trio_manifest (block_history ''block'' pilot_log) v x"
proof -
  obtain obs where obs: "reduceEvents trio_reducer trio_manifest pilot_log = Inr obs" using trio_reduced by blast
  obtain b where b: "observationFor trio_reducer trio_manifest pilot_log pilot_block = Inr b" "ob_final_accepted b" "ob_block_id b = ''block''"
    using trio_observed by (auto split: sum.splits)
  have "b \<in> set obs" using mapR_member [OF reduceEvents_parts [OF obs], of pilot_block] b(1)
    by (auto simp: trio_manifest_def)
  from accepted_observation_proven [OF obs this b(2)] show ?thesis by (auto simp: b(3) trio_logs)
qed

text \<open>A log whose block fails five seconds before its execution started.\<close>

definition backward_log :: "pilot_event list" where
  "backward_log = [pilot_event_at ''e1'' 1 (EXECUTION_STARTED pilot_start),
     (pilot_event_at ''e2'' 2 (BLOCK_FAILED ''failed'' (sample_sha CHR ''f'')))\<lparr>pe_occurred_at := ''2026-01-02T03:04:00Z''\<rparr>]"

lemma backward_active: "activeEvents (log_env.truncate pilot_env) False backward_log = Inr backward_log"
  by code_simp

theorem backward_clock_stops_reducer_witness: "\<not> is_ok (reduceEvents trio_reducer trio_manifest backward_log)"
proof -
  have ord: "orderedAudit backward_log ''block'' = backward_log"
    by (simp add: orderedAudit_def backward_log_def pilot_event_at_def audit_order_def js_sort_def Let_def)
  have own: "filter (\<lambda>e. pe_block_id e = ''block'') backward_log = backward_log" by (simp add: backward_log_def pilot_event_at_def)
  obtain replay where log: "replay_log trio_reducer trio_manifest backward_log ''block'' = (backward_log, replay, None)"
    by (simp add: replay_log_def ord trio_reducer_def backward_active own)
  show ?thesis
  proof (rule backward_clock_stops_reducer)
    show "pilot_block \<in> set (mf_blocks trio_manifest)" by (simp add: trio_manifest_def)
    show "replay_log trio_reducer trio_manifest backward_log (bk_block_id pilot_block) = (backward_log, replay, None)"
      using log by (simp add: pilot_block_def)
    show "first_of (select as_started backward_log) = Some (hd backward_log, pilot_start)"
      by (simp add: backward_log_def select_def List.map_filter_simps pilot_event_at_def as_started_def first_of_def)
    show "find ends_block backward_log = Some (backward_log ! 1)"
      by (simp add: backward_log_def pilot_event_at_def ends_block_def)
    show "parseContractualUtc (pe_occurred_at (fst (hd backward_log, pilot_start))) = Inr 1767323045000" by code_simp
    show "parseContractualUtc (pe_occurred_at (backward_log ! 1)) = Inr 1767323040000" by code_simp
  qed simp
qed

end
