(* ===== verification/Effects.thy ===== *)
theory Effects
  imports Prelude
begin

text \<open>
  Asynchronous code of the runtime as a state monad with errors. A step takes the state of its
  component (its memory, its durable file and the log of the calls it has made to its ports) and
  returns the new state with a value or an error; an error keeps the state it was raised in, since a
  rejected promise undoes nothing. \<open>wp m Q E c\<close> is the weakest precondition: run from \<open>c\<close>, the step
  \<open>m\<close> returns a value and a state in \<open>Q\<close>, or fails in a state in \<open>E\<close>.
\<close>

type_synonym ('s, 'a) io = "'s \<Rightarrow> 's \<times> 'a result"

definition ioRet :: "'a \<Rightarrow> ('s, 'a) io" where
  "ioRet x c = (c, Inr x)"

definition ioLift :: "'a result \<Rightarrow> ('s, 'a) io" where
  "ioLift r c = (c, r)"

definition ioBind :: "('s, 'a) io \<Rightarrow> ('a \<Rightarrow> ('s, 'b) io) \<Rightarrow> ('s, 'b) io" where
  "ioBind m k c = (case m c of (c', Inl e) \<Rightarrow> (c', Inl e) | (c', Inr x) \<Rightarrow> k x c')"

definition ioGet :: "('s \<Rightarrow> 'a) \<Rightarrow> ('s, 'a) io" where
  "ioGet f c = (c, Inr (f c))"

definition ioModify :: "('s \<Rightarrow> 's) \<Rightarrow> ('s, unit) io" where
  "ioModify f c = (f c, Inr ())"

text \<open>A \<open>for .. of\<close> loop whose body awaits.\<close>

fun ioEach :: "('a \<Rightarrow> ('s, unit) io) \<Rightarrow> 'a list \<Rightarrow> ('s, unit) io" where
  "ioEach f [] = ioRet ()"
| "ioEach f (x # xs) = ioBind (f x) (\<lambda>_. ioEach f xs)"

section \<open>Weakest preconditions\<close>

definition wp :: "('s, 'a) io \<Rightarrow> ('a \<Rightarrow> 's \<Rightarrow> bool) \<Rightarrow> ('s \<Rightarrow> bool) \<Rightarrow> 's \<Rightarrow> bool" where
  "wp m Q E c = (case m c of (c', Inl e) \<Rightarrow> E c' | (c', Inr x) \<Rightarrow> Q x c')"

lemma wp_ret [simp]: "wp (ioRet x) Q E = Q x"
  by (simp add: wp_def ioRet_def fun_eq_iff)

lemma wp_lift [simp]: "wp (ioLift r) Q E = (case r of Inl e \<Rightarrow> E | Inr x \<Rightarrow> Q x)"
  by (simp add: wp_def ioLift_def fun_eq_iff split: sum.splits)

lemma wp_get [simp]: "wp (ioGet f) Q E = (\<lambda>c. Q (f c) c)"
  by (simp add: wp_def ioGet_def fun_eq_iff)

lemma wp_modify [simp]: "wp (ioModify f) Q E = (\<lambda>c. Q () (f c))"
  by (simp add: wp_def ioModify_def fun_eq_iff)

lemma wp_bind [simp]: "wp (ioBind m k) Q E = wp m (\<lambda>x. wp (k x) Q E) E"
  by (simp add: wp_def ioBind_def fun_eq_iff split: prod.splits sum.splits)

lemma wp_if: "wp (if b then m else n) Q E = (if b then wp m Q E else wp n Q E)"
  by simp

lemma wp_mono:
  assumes "wp m Q E c" and "\<And>x c'. Q x c' \<Longrightarrow> Q' x c'" and "\<And>c'. E c' \<Longrightarrow> E' c'"
  shows "wp m Q' E' c"
  using assms by (auto simp: wp_def split: prod.splits sum.splits)

lemma wp_conj:
  "wp m (\<lambda>x c. Q x c \<and> R x c) E c \<longleftrightarrow> wp m Q E c \<and> wp m R E c"
  by (auto simp: wp_def split: prod.splits sum.splits)

lemma wp_result: "wp m Q E c \<Longrightarrow> m c = (c', Inr x) \<Longrightarrow> Q x c'"
  by (simp add: wp_def)

lemma wp_error: "wp m Q E c \<Longrightarrow> m c = (c', Inl e) \<Longrightarrow> E c'"
  by (simp add: wp_def)

lemma wp_state: "wp m (\<lambda>_. P) P c \<longleftrightarrow> P (fst (m c))"
  by (simp add: wp_def split: prod.splits sum.splits)

text \<open>The rule for loops: an invariant on the elements that are still to come.\<close>

lemma wp_each:
  assumes "I xs c" and "\<And>x rest c. I (x # rest) c \<Longrightarrow> wp (f x) (\<lambda>_. I rest) E c"
  shows "wp (ioEach f xs) (\<lambda>_. I []) E c"
  using assms(1)
proof (induction xs arbitrary: c)
  case (Cons x rest)
  have "wp (f x) (\<lambda>_. I rest) E c" by (rule assms(2) [OF Cons.prems])
  then show ?case using Cons.IH by (simp, elim wp_mono) simp_all
qed simp

section \<open>Steps that keep a property of the state\<close>

definition keeps :: "('s \<Rightarrow> bool) \<Rightarrow> ('s, 'a) io \<Rightarrow> bool" where
  "keeps P m = (\<forall>c. P c \<longrightarrow> wp m (\<lambda>_. P) P c)"

named_theorems keeps_rules \<open>which steps keep a property\<close>

lemma keepsI: "(\<And>c. P c \<Longrightarrow> wp m (\<lambda>_. P) P c) \<Longrightarrow> keeps P m"
  by (simp add: keeps_def)

lemma keepsD: "keeps P m \<Longrightarrow> P c \<Longrightarrow> P (fst (m c))"
  by (simp add: keeps_def wp_state)

lemma keeps_ret [keeps_rules]: "keeps P (ioRet x)"
  by (simp add: keeps_def)

lemma keeps_lift [keeps_rules]: "keeps P (ioLift r)"
  by (simp add: keeps_def split: sum.splits)

lemma keeps_get [keeps_rules]: "keeps P (ioGet f)"
  by (simp add: keeps_def)

lemma keeps_bind [keeps_rules]: "keeps P m \<Longrightarrow> (\<And>x. keeps P (k x)) \<Longrightarrow> keeps P (ioBind m k)"
  by (auto simp: keeps_def elim!: wp_mono)

lemma keeps_if [keeps_rules]: "(b \<Longrightarrow> keeps P m) \<Longrightarrow> (\<not> b \<Longrightarrow> keeps P n) \<Longrightarrow> keeps P (if b then m else n)"
  by simp

lemma keeps_prod [keeps_rules]: "(\<And>x y. keeps P (k x y)) \<Longrightarrow> keeps P (case p of (x, y) \<Rightarrow> k x y)"
  by (cases p) simp

lemma keeps_option [keeps_rules]:
  "keeps P m \<Longrightarrow> (\<And>x. keeps P (k x)) \<Longrightarrow> keeps P (case v of None \<Rightarrow> m | Some x \<Rightarrow> k x)"
  by (cases v) simp_all

lemma keeps_each [keeps_rules]: "(\<And>x. x \<in> set xs \<Longrightarrow> keeps P (f x)) \<Longrightarrow> keeps P (ioEach f xs)"
  by (induction xs) (auto intro: keeps_rules)

end
