(* ===== verification/Dispatcher.thy ===== *)
theory Dispatcher
  imports Effects Contract_Schemas JS_Date
begin

text \<open>
  runtime/autonomous-dispatcher.ts: the supervisor that claims authorised tasks from a task source,
  starts and resumes their runs on the broker, verifies merged results and settles the tasks.

  The durable state file is \<open>dispatch_file\<close>; the task source, the runtime, the post-merge verifier,
  the clock, the lease generator and the file system are the fields of \<open>dispatch_env\<close>. Each port
  answers as a function of the log of all calls made so far, so that nothing is assumed of it but
  that it cannot see the future. The log pairs every call with the durable file at that moment.
\<close>

abbreviation dispatch_corrupt :: "string \<Rightarrow> error" where
  "dispatch_corrupt m \<equiv> Error BROKER_STATE_CORRUPT m"

abbreviation dispatch_invalid :: "string \<Rightarrow> error" where
  "dispatch_invalid m \<equiv> Error INVALID_CONTRACT m"

section \<open>Data\<close>

datatype task_source_kind = GITHUB_ISSUE | CI_FAILURE | SCHEDULED

record task_candidate =
  ca_source :: task_source_kind
  ca_candidate_id :: string
  ca_revision :: string
  ca_repository_id :: string
  ca_authorization_labels :: "string list"
  ca_request :: task_request

record dispatch_policy =
  dp_allowed_sources :: "task_source_kind list"
  dp_allowed_repository_ids :: "string list"
  dp_required_labels :: "string list"
  dp_max_active_tasks :: int
  dp_max_claims_per_cycle :: int
  dp_lease_seconds :: int
  dp_max_consecutive_failures :: int
  dp_require_merged_publication :: bool

datatype task_status = TASK_CLAIMED | TASK_RUNNING | TASK_COMPLETED | TASK_REOPENED | TASK_FAILED
datatype dispatcher_mode = MODE_RUNNING | MODE_DRAINING | MODE_PAUSED

record stored_task =
  tk_candidate_id :: string
  tk_revision :: string
  tk_repository_id :: string
  tk_request_id :: string
  tk_request_hash :: string
  tk_run_id :: "string option"
  tk_status :: task_status
  tk_consecutive_failures :: int
  tk_lease_id :: string
  tk_lease_expires_at :: string
  tk_last_evidence_hash :: "string option"

record dispatch_state =
  ds_mode :: dispatcher_mode
  ds_cursor :: "string option"
  ds_circuit_open :: bool
  ds_consecutive_failures :: int
  ds_tasks :: "stored_task list"

record state_envelope =
  en_state :: dispatch_state
  en_state_hash :: string

text \<open>
  The state file: absent, bytes that are not the canonical JSON of an envelope followed by a newline,
  or an envelope. It is replaced by an atomic rename.
\<close>

datatype dispatch_file = NO_FILE | UNREADABLE | STORED state_envelope

datatype claim_answer = CLAIM_GRANTED | CLAIM_BUSY | CLAIM_STALE
datatype verification = VERIFY_PASS string | VERIFY_FAIL string string
datatype write_answer = WRITTEN | WRITE_FAILED | RENAMED_UNSYNCED

datatype port_call =
    LOAD_CANDIDATE string string
  | RENEW string string string string
  | CLAIM string string string string
  | LIST_CANDIDATES "string option" int
  | START task_request
  | RESUME string
  | VERIFY string string string
  | COMPLETE string string string string string
  | REOPEN string string string string string string
  | FAIL string string string failure_code "string list"
  | WRITE dispatch_state

type_synonym port_log = "(dispatch_file \<times> port_call) list"

record lost_evidence =
  lo_candidate_id :: string
  lo_revision :: string
  lo_run_id :: "string option"
  lo_lease_id :: string
  lo_outcome :: string

record dispatch_env =
  de_policy :: dispatch_policy
  de_state_hash :: "dispatch_state \<Rightarrow> string"
  de_request_hash :: "task_request \<Rightarrow> string"
  de_lost_hash :: "lost_evidence \<Rightarrow> string"
  de_url_ok :: "string \<Rightarrow> bool"
  de_now :: "port_log \<Rightarrow> string"
  de_lease_id :: "port_log \<Rightarrow> string"
  de_load :: "port_log \<Rightarrow> task_candidate option result"
  de_renew :: "port_log \<Rightarrow> bool result"
  de_claim :: "port_log \<Rightarrow> claim_answer result"
  de_list :: "port_log \<Rightarrow> (task_candidate list \<times> string option) result"
  de_start :: "port_log \<Rightarrow> runtime_result result"
  de_resume :: "port_log \<Rightarrow> runtime_result result"
  de_verify :: "port_log \<Rightarrow> verification result"
  de_settle :: "port_log \<Rightarrow> unit result"
  de_write :: "port_log \<Rightarrow> write_answer"

record cycle_counters =
  cn_scanned :: nat
  cn_claimed :: nat
  cn_started :: nat
  cn_resumed :: nat
  cn_completed :: nat
  cn_reopened :: nat
  cn_failed :: nat
  cn_skipped :: nat

record cycle_report = cycle_counters +
  cr_circuit_open :: bool
  cr_state_hash :: string

text \<open>The variables of a running cycle, with the durable file and the log.\<close>

record cycle =
  cy_file :: dispatch_file
  cy_current :: state_envelope
  cy_counters :: cycle_counters
  cy_log :: port_log

section \<open>Validation\<close>

definition uniqueStrings :: "('a \<Rightarrow> bool) \<Rightarrow> 'a list \<Rightarrow> string \<Rightarrow> unit result" where
  "uniqueStrings ok values name =
     throw_if (values = [] \<or> length values > 128 \<or> \<not> distinct values \<or> list_ex (\<lambda>v. \<not> ok v) values)
       (dispatch_invalid (name @ '' is invalid'')) (Inr ())"

definition validatePolicy :: "dispatch_policy \<Rightarrow> unit result" where
  "validatePolicy p =
     bindR (uniqueStrings (\<lambda>_. True) (dp_allowed_sources p) ''allowed_sources'') (\<lambda>_.
     bindR (uniqueStrings (bounded_length 1 128) (dp_allowed_repository_ids p) ''allowed_repository_ids'') (\<lambda>_.
     bindR (uniqueStrings (bounded_length 1 128) (dp_required_labels p) ''required_labels'') (\<lambda>_.
     throw_if (\<not> int_between 1 32 (dp_max_active_tasks p)) (dispatch_invalid ''max_active_tasks is invalid'')
     (throw_if (\<not> int_between 1 (dp_max_active_tasks p) (dp_max_claims_per_cycle p))
       (dispatch_invalid ''max_claims_per_cycle is invalid'')
     (throw_if (\<not> int_between 30 3600 (dp_lease_seconds p)) (dispatch_invalid ''lease_seconds is invalid'')
     (throw_if (\<not> int_between 1 32 (dp_max_consecutive_failures p))
       (dispatch_invalid ''max_consecutive_failures is invalid'')
     (throw_if (\<not> dp_require_merged_publication p)
       (dispatch_invalid ''autonomous dispatch requires merged publication'') (Inr ()))))))))"

definition candidate_id_ok :: "string \<Rightarrow> bool" where
  "candidate_id_ok s = lead_class alnum (\<lambda>c. alnum c \<or> c \<in> set '':._/-'') 255 s"

definition lease_id_ok :: "string \<Rightarrow> bool" where
  "lease_id_ok s = tagged_id ''lease_'' 16 96 s"

definition validateCandidate :: "dispatch_policy \<Rightarrow> task_candidate \<Rightarrow> task_candidate result" where
  "validateCandidate p c =
     throw_if (ca_source c \<notin> set (dp_allowed_sources p)) (dispatch_invalid ''candidate source is not allowed'')
     (throw_if (\<not> candidate_id_ok (ca_candidate_id c)) (dispatch_invalid ''candidate_id is invalid'')
     (throw_if (\<not> is_hash (ca_revision c)) (dispatch_invalid ''candidate revision is invalid'')
     (throw_if (ca_repository_id c \<notin> set (dp_allowed_repository_ids p))
       (dispatch_invalid ''candidate repository is not allowed'')
     (throw_if (\<not> distinct (ca_authorization_labels c) \<or>
         list_ex (\<lambda>l. \<not> bounded_length 1 128 l) (ca_authorization_labels c))
       (dispatch_invalid ''authorization labels are invalid'')
     (throw_if (\<not> list_all (\<lambda>l. l \<in> set (ca_authorization_labels c)) (dp_required_labels p))
       (dispatch_invalid ''candidate authorization is incomplete'')
     (throw_if (\<not> runtimeTaskRequestV4Schema (ca_request c))
       (dispatch_invalid ''Runtime contract validation failed'')
     (throw_if (tr_repository_id (ca_request c) \<noteq> ca_repository_id c)
       (dispatch_invalid ''candidate repository differs from request'') (Inr c))))))))"

definition loadRuntimeResultV4 :: "(string \<Rightarrow> bool) \<Rightarrow> runtime_result \<Rightarrow> runtime_result result" where
  "loadRuntimeResultV4 url_ok r =
     throw_if (\<not> runtimeResultV4Schema url_ok r) (dispatch_invalid ''Runtime contract validation failed'') (Inr r)"

definition addSeconds :: "string \<Rightarrow> int \<Rightarrow> string result" where
  "addSeconds timestamp seconds = (case canonical_time timestamp of
      None \<Rightarrow> Inl (dispatch_invalid ''clock returned an invalid timestamp'')
    | Some t \<Rightarrow> (case to_iso (t + seconds * 1000) of
        None \<Rightarrow> Inl (Error RANGE_ERROR ''Invalid time value'')
      | Some s \<Rightarrow> Inr s))"

section \<open>The state file\<close>

definition initialState :: dispatch_state where
  "initialState = \<lparr>ds_mode = MODE_PAUSED, ds_cursor = None, ds_circuit_open = False,
     ds_consecutive_failures = 0, ds_tasks = []\<rparr>"

definition envelope :: "dispatch_env \<Rightarrow> dispatch_state \<Rightarrow> state_envelope" where
  "envelope env st = \<lparr>en_state = st, en_state_hash = de_state_hash env st\<rparr>"

text \<open>The identity \<open>candidate_id\0revision\<close> of a task: neither part contains the separator.\<close>

definition task_identity :: "stored_task \<Rightarrow> string \<times> string" where
  "task_identity t = (tk_candidate_id t, tk_revision t)"

definition task_fields_ok :: "stored_task \<Rightarrow> bool" where
  "task_fields_ok t =
     (candidate_id_ok (tk_candidate_id t) \<and> is_hash (tk_revision t) \<and>
      bounded_length 1 128 (tk_repository_id t) \<and> bounded_length 1 128 (tk_request_id t) \<and>
      is_hash (tk_request_hash t) \<and> opt_all (bounded_length 1 128) (tk_run_id t) \<and>
      safe_int (tk_consecutive_failures t) \<and> 0 \<le> tk_consecutive_failures t \<and>
      lease_id_ok (tk_lease_id t) \<and> canonical_time (tk_lease_expires_at t) \<noteq> None \<and>
      opt_all is_hash (tk_last_evidence_hash t))"

definition task_lifecycle_ok :: "stored_task \<Rightarrow> bool" where
  "task_lifecycle_ok t = ((tk_status t = TASK_CLAIMED) = (tk_run_id t = None))"

definition parse_task :: "(string \<times> string) set \<Rightarrow> stored_task \<Rightarrow> (string \<times> string) set result" where
  "parse_task identities t =
     throw_if (\<not> task_fields_ok t) (dispatch_corrupt ''dispatcher task fields are invalid'')
     (throw_if (\<not> task_lifecycle_ok t) (dispatch_corrupt ''dispatcher task lifecycle is invalid'')
     (throw_if (task_identity t \<in> identities) (dispatch_corrupt ''dispatcher task identity is duplicated'')
     (Inr (insert (task_identity t) identities))))"

definition parseState :: "dispatch_env \<Rightarrow> state_envelope \<Rightarrow> state_envelope result" where
  "parseState env e =
     throw_if (\<not> is_hash (en_state_hash e)) (dispatch_corrupt ''dispatcher envelope is invalid'')
     (throw_if (\<not> safe_int (ds_consecutive_failures (en_state e)) \<or> ds_consecutive_failures (en_state e) < 0)
       (dispatch_corrupt ''dispatcher state fields are invalid'')
     (bindR (foldR parse_task {} (ds_tasks (en_state e))) (\<lambda>_.
      throw_if (en_state_hash e \<noteq> de_state_hash env (en_state e))
        (dispatch_corrupt ''dispatcher state hash is invalid'') (Inr e))))"

definition readState :: "dispatch_env \<Rightarrow> dispatch_file \<Rightarrow> state_envelope result" where
  "readState env f = (case f of
      NO_FILE \<Rightarrow> Inr (envelope env initialState)
    | UNREADABLE \<Rightarrow> Inl (dispatch_corrupt ''dispatcher state is not canonical JSON'')
    | STORED e \<Rightarrow> parseState env e)"

definition replaceTask :: "dispatch_state \<Rightarrow> stored_task \<Rightarrow> dispatch_state" where
  "replaceTask st r = st\<lparr>ds_tasks :=
     map (\<lambda>t. if tk_candidate_id t = tk_candidate_id r \<and> tk_revision t = tk_revision r then r else t) (ds_tasks st)\<rparr>"

section \<open>Calls and writes\<close>

definition port :: "port_call \<Rightarrow> (port_log \<Rightarrow> 'a result) \<Rightarrow> (cycle, 'a) io" where
  "port p answer c = (let h = (cy_file c, p) # cy_log c in (c\<lparr>cy_log := h\<rparr>, answer h))"

text \<open>
  Replacing the file: the temporary file may not be written, or the directory may fail to sync after
  the rename, which throws although the new state is already in place.
\<close>

definition writeState :: "dispatch_env \<Rightarrow> dispatch_state \<Rightarrow> (cycle, unit) io" where
  "writeState env st c =
     (let h = (cy_file c, WRITE st) # cy_log c; durable = envelope env st; c' = c\<lparr>cy_log := h\<rparr> in
      case de_write env h of
        WRITTEN \<Rightarrow> (c'\<lparr>cy_file := STORED durable, cy_current := durable\<rparr>, Inr ())
      | WRITE_FAILED \<Rightarrow> (c', Inl (Error PORT_ERROR ''state write failed''))
      | RENAMED_UNSYNCED \<Rightarrow> (c'\<lparr>cy_file := STORED durable\<rparr>, Inl (Error PORT_ERROR ''directory sync failed'')))"

definition current :: "cycle \<Rightarrow> dispatch_state" where
  "current c = en_state (cy_current c)"

definition store :: "dispatch_env \<Rightarrow> (dispatch_state \<Rightarrow> dispatch_state) \<Rightarrow> (cycle, unit) io" where
  "store env f = ioBind (ioGet current) (\<lambda>st. writeState env (f st))"

definition bump :: "(cycle_counters \<Rightarrow> cycle_counters) \<Rightarrow> (cycle, unit) io" where
  "bump f = ioModify (\<lambda>c. c\<lparr>cy_counters := f (cy_counters c)\<rparr>)"

definition lease_expiry :: "dispatch_env \<Rightarrow> (cycle, string) io" where
  "lease_expiry env = ioBind (ioGet (\<lambda>c. de_now env (cy_log c)))
     (\<lambda>now. ioLift (addSeconds now (dp_lease_seconds (de_policy env))))"

definition renew_lease :: "dispatch_env \<Rightarrow> stored_task \<Rightarrow> (cycle, bool \<times> string) io" where
  "renew_lease env t =
     ioBind (lease_expiry env) (\<lambda>expires.
     ioBind (port (RENEW (tk_candidate_id t) (tk_revision t) (tk_lease_id t) expires) (de_renew env)) (\<lambda>renewed.
     ioRet (renewed, expires)))"

text \<open>A settled failure: the counter goes up and decides the circuit.\<close>

definition failure_state :: "dispatch_env \<Rightarrow> stored_task \<Rightarrow> dispatch_state \<Rightarrow> dispatch_state" where
  "failure_state env t st =
     (let failures = ds_consecutive_failures st + 1 in
      replaceTask (st\<lparr>ds_consecutive_failures := failures,
        ds_circuit_open := failures \<ge> dp_max_consecutive_failures (de_policy env)\<rparr>) t)"

definition lost_task :: "dispatch_env \<Rightarrow> string \<Rightarrow> stored_task \<Rightarrow> stored_task" where
  "lost_task env outcome t =
     t\<lparr>tk_status := TASK_FAILED, tk_consecutive_failures := tk_consecutive_failures t + 1,
       tk_last_evidence_hash := Some (de_lost_hash env \<lparr>lo_candidate_id = tk_candidate_id t,
         lo_revision = tk_revision t, lo_run_id = tk_run_id t, lo_lease_id = tk_lease_id t, lo_outcome = outcome\<rparr>)\<rparr>"

definition lose_task :: "dispatch_env \<Rightarrow> string \<Rightarrow> stored_task \<Rightarrow> (cycle, unit) io" where
  "lose_task env outcome t =
     ioBind (store env (failure_state env (lost_task env outcome t)))
       (\<lambda>_. bump (\<lambda>n. n\<lparr>cn_failed := cn_failed n + 1\<rparr>))"

definition start_run :: "dispatch_env \<Rightarrow> task_request \<Rightarrow> (cycle, string) io" where
  "start_run env req =
     ioBind (port (START req) (de_start env)) (\<lambda>supplied.
     ioBind (ioLift (loadRuntimeResultV4 (de_url_ok env) supplied)) (\<lambda>r.
     ioLift (throw_if (rr_request_id r \<noteq> tr_request_id req)
       (dispatch_corrupt ''runtime accepted a different request'') (Inr (rr_run_id r)))))"

definition started :: "string \<Rightarrow> string \<Rightarrow> stored_task \<Rightarrow> stored_task" where
  "started run expires t = t\<lparr>tk_run_id := Some run, tk_status := TASK_RUNNING, tk_lease_expires_at := expires\<rparr>"

section \<open>A dispatch cycle\<close>

text \<open>First the tasks that were claimed but not started, from the cycle's first snapshot.\<close>

definition identified :: "dispatch_env \<Rightarrow> stored_task \<Rightarrow> task_candidate option \<Rightarrow> task_candidate result" where
  "identified env t supplied = (case supplied of
      None \<Rightarrow> Inl (dispatch_corrupt ''claimed candidate is no longer available'')
    | Some s \<Rightarrow> bindR (validateCandidate (de_policy env) s) (\<lambda>c.
        throw_if (ca_candidate_id c \<noteq> tk_candidate_id t \<or> ca_revision c \<noteq> tk_revision t \<or>
            ca_repository_id c \<noteq> tk_repository_id t \<or> tr_request_id (ca_request c) \<noteq> tk_request_id t \<or>
            de_request_hash env (ca_request c) \<noteq> tk_request_hash t)
          (dispatch_corrupt ''claimed candidate identity changed'') (Inr c)))"

definition claimed_body :: "dispatch_env \<Rightarrow> stored_task \<Rightarrow> (cycle, unit) io" where
  "claimed_body env t =
     ioBind (port (LOAD_CANDIDATE (tk_candidate_id t) (tk_revision t)) (de_load env)) (\<lambda>supplied.
     ioBind (ioLift (identified env t supplied)) (\<lambda>c.
     ioBind (renew_lease env t) (\<lambda>(renewed, expires).
     if \<not> renewed then lose_task env ''LOST_BEFORE_START'' t
     else
       ioBind (start_run env (ca_request c)) (\<lambda>run.
       ioBind (store env (\<lambda>st. replaceTask st (started run expires t))) (\<lambda>_.
       bump (\<lambda>n. n\<lparr>cn_started := cn_started n + 1\<rparr>))))))"

text \<open>Then the running tasks: a failed, a finalized and an unfinished run.\<close>

definition settled :: "task_status \<Rightarrow> string \<Rightarrow> string \<Rightarrow> stored_task \<Rightarrow> stored_task" where
  "settled status expires evidence t =
     t\<lparr>tk_status := status, tk_consecutive_failures := (if status = TASK_COMPLETED then 0 else tk_consecutive_failures t + 1),
       tk_lease_expires_at := expires, tk_last_evidence_hash := Some evidence\<rparr>"

definition settle_failed :: "dispatch_env \<Rightarrow> stored_task \<Rightarrow> string \<Rightarrow> string \<Rightarrow> runtime_result \<Rightarrow> (cycle, unit) io" where
  "settle_failed env t run expires r = (case rr_failure r of
      None \<Rightarrow> ioLift (Inl (dispatch_corrupt ''terminal runtime failure lacks typed evidence''))
    | Some f \<Rightarrow>
        ioBind (port (FAIL (tk_candidate_id t) (tk_revision t) run (rf_code f) (rf_evidence_hashes f)) (de_settle env)) (\<lambda>_.
        ioBind (store env (failure_state env (settled TASK_FAILED expires
            (case rf_evidence_hashes f of [] \<Rightarrow> rr_artifact_manifest_hash r | h # _ \<Rightarrow> h) t))) (\<lambda>_.
        bump (\<lambda>n. n\<lparr>cn_failed := cn_failed n + 1\<rparr>))))"

definition merged_commit :: "runtime_result \<Rightarrow> string result" where
  "merged_commit r = (case pu_merge_commit_sha (rr_publication r) of
      Some sha \<Rightarrow> throw_if (pu_state (rr_publication r) \<noteq> MERGED \<or> \<not> is_git_sha sha)
        (dispatch_corrupt ''finalized run lacks required merged publication evidence'') (Inr sha)
    | None \<Rightarrow> Inl (dispatch_corrupt ''finalized run lacks required merged publication evidence''))"

definition verified_outcome :: "verification \<Rightarrow> verification result" where
  "verified_outcome v = (case v of
      VERIFY_PASS h \<Rightarrow> throw_if (\<not> is_hash h) (dispatch_corrupt ''post-merge verification evidence is invalid'') (Inr v)
    | VERIFY_FAIL finding h \<Rightarrow>
        throw_if (\<not> is_hash h) (dispatch_corrupt ''post-merge verification evidence is invalid'')
        (throw_if (\<not> bounded_length 1 128 finding) (dispatch_corrupt ''post-merge finding is invalid'') (Inr v)))"

definition settle_finalized :: "dispatch_env \<Rightarrow> stored_task \<Rightarrow> string \<Rightarrow> string \<Rightarrow> runtime_result \<Rightarrow> (cycle, unit) io" where
  "settle_finalized env t run expires r =
     ioBind (ioLift (merged_commit r)) (\<lambda>sha.
     ioBind (port (VERIFY (tk_repository_id t) run sha) (de_verify env)) (\<lambda>answer.
     ioBind (ioLift (verified_outcome answer)) (\<lambda>v.
     case v of
       VERIFY_PASS h \<Rightarrow>
         ioBind (port (COMPLETE (tk_candidate_id t) (tk_revision t) run sha h) (de_settle env)) (\<lambda>_.
         ioBind (store env (\<lambda>st. replaceTask (st\<lparr>ds_consecutive_failures := 0\<rparr>) (settled TASK_COMPLETED expires h t))) (\<lambda>_.
         bump (\<lambda>n. n\<lparr>cn_completed := cn_completed n + 1\<rparr>)))
     | VERIFY_FAIL finding h \<Rightarrow>
         ioBind (port (REOPEN (tk_candidate_id t) (tk_revision t) run sha finding h) (de_settle env)) (\<lambda>_.
         ioBind (store env (failure_state env (settled TASK_REOPENED expires h t))) (\<lambda>_.
         bump (\<lambda>n. n\<lparr>cn_reopened := cn_reopened n + 1\<rparr>))))))"

definition resumed_result :: "dispatch_env \<Rightarrow> stored_task \<Rightarrow> string \<Rightarrow> runtime_result \<Rightarrow> runtime_result result" where
  "resumed_result env t run supplied =
     bindR (loadRuntimeResultV4 (de_url_ok env) supplied) (\<lambda>r.
     throw_if (rr_run_id r \<noteq> run \<or> rr_request_id r \<noteq> tk_request_id t)
       (dispatch_corrupt ''runtime resumed a different request'') (Inr r))"

definition running_body :: "dispatch_env \<Rightarrow> stored_task \<Rightarrow> (cycle, unit) io" where
  "running_body env t = (case tk_run_id t of
      None \<Rightarrow> ioLift (Inl (dispatch_corrupt ''running dispatcher task has no run_id''))
    | Some run \<Rightarrow>
        ioBind (renew_lease env t) (\<lambda>(renewed, expires).
        if \<not> renewed then lose_task env ''LOST_WHILE_RUNNING'' t
        else
          ioBind (port (RESUME run) (de_resume env)) (\<lambda>supplied.
          ioBind (ioLift (resumed_result env t run supplied)) (\<lambda>r.
          ioBind (bump (\<lambda>n. n\<lparr>cn_resumed := cn_resumed n + 1\<rparr>)) (\<lambda>_.
          if rr_state r = ''FAILED'' \<or> rr_state r = ''ABORTED'' then settle_failed env t run expires r
          else if rr_state r = ''FINALIZED'' then settle_finalized env t run expires r
          else store env (\<lambda>st. replaceTask st (t\<lparr>tk_lease_expires_at := expires\<rparr>)))))))"

text \<open>Last, new candidates, as far as the policy leaves capacity.\<close>

definition active_task :: "stored_task \<Rightarrow> bool" where
  "active_task t = (tk_status t = TASK_CLAIMED \<or> tk_status t = TASK_RUNNING)"

definition active_count :: "stored_task list \<Rightarrow> nat" where
  "active_count ts = length (filter active_task ts)"

definition capacity :: "dispatch_env \<Rightarrow> dispatch_state \<Rightarrow> int" where
  "capacity env st =
     (if ds_mode st \<noteq> MODE_RUNNING \<or> ds_circuit_open st then 0
      else min (dp_max_claims_per_cycle (de_policy env))
             (dp_max_active_tasks (de_policy env) - int (active_count (ds_tasks st))))"

definition known_candidate :: "dispatch_state \<Rightarrow> task_candidate \<Rightarrow> bool" where
  "known_candidate st c =
     list_ex (\<lambda>t. tk_candidate_id t = ca_candidate_id c \<and> tk_revision t = ca_revision c) (ds_tasks st)"

definition pending_task :: "dispatch_env \<Rightarrow> task_candidate \<Rightarrow> string \<Rightarrow> string \<Rightarrow> stored_task" where
  "pending_task env c lease expires =
     \<lparr>tk_candidate_id = ca_candidate_id c, tk_revision = ca_revision c, tk_repository_id = ca_repository_id c,
      tk_request_id = tr_request_id (ca_request c), tk_request_hash = de_request_hash env (ca_request c),
      tk_run_id = None, tk_status = TASK_CLAIMED, tk_consecutive_failures = 0, tk_lease_id = lease,
      tk_lease_expires_at = expires, tk_last_evidence_hash = None\<rparr>"

definition skip_candidate :: "(cycle, unit) io" where
  "skip_candidate = bump (\<lambda>n. n\<lparr>cn_skipped := cn_skipped n + 1\<rparr>)"

definition new_lease :: "dispatch_env \<Rightarrow> (cycle, string) io" where
  "new_lease env = ioBind (ioGet (\<lambda>c. de_lease_id env (cy_log c)))
     (\<lambda>lease. ioLift (throw_if (\<not> lease_id_ok lease) (dispatch_invalid ''lease_id is invalid'') (Inr lease)))"

definition admit_body :: "dispatch_env \<Rightarrow> task_candidate \<Rightarrow> (cycle, unit) io" where
  "admit_body env supplied =
     ioBind (ioLift (validateCandidate (de_policy env) supplied)) (\<lambda>c.
     ioBind (ioGet current) (\<lambda>st.
     if known_candidate st c then skip_candidate
     else
       ioBind (new_lease env) (\<lambda>lease.
       ioBind (lease_expiry env) (\<lambda>expires.
       ioBind (port (CLAIM (ca_candidate_id c) (ca_revision c) lease expires) (de_claim env)) (\<lambda>answer.
       if answer \<noteq> CLAIM_GRANTED then skip_candidate
       else
         ioBind (bump (\<lambda>n. n\<lparr>cn_claimed := cn_claimed n + 1\<rparr>)) (\<lambda>_.
         ioBind (store env (\<lambda>st. st\<lparr>ds_tasks := ds_tasks st @ [pending_task env c lease expires]\<rparr>)) (\<lambda>_.
         ioBind (start_run env (ca_request c)) (\<lambda>run.
         ioBind (store env (\<lambda>st. replaceTask st (started run expires (pending_task env c lease expires)))) (\<lambda>_.
         bump (\<lambda>n. n\<lparr>cn_started := cn_started n + 1\<rparr>))))))))))"

definition admissions :: "dispatch_env \<Rightarrow> (cycle, unit) io" where
  "admissions env =
     ioBind (ioGet current) (\<lambda>st.
     if capacity env st \<le> 0 then ioRet ()
     else
       ioBind (port (LIST_CANDIDATES (ds_cursor st) (capacity env st)) (de_list env)) (\<lambda>(candidates, next_cursor).
       ioBind (ioLift (throw_if (int (length candidates) > capacity env st)
         (dispatch_invalid ''candidate listing is invalid'') (Inr ()))) (\<lambda>_.
       ioBind (bump (\<lambda>n. n\<lparr>cn_scanned := length candidates\<rparr>)) (\<lambda>_.
       ioBind (ioEach (admit_body env) candidates) (\<lambda>_.
       ioBind (ioGet current) (\<lambda>st'.
       if ds_cursor st' = next_cursor then ioRet ()
       else store env (\<lambda>st. st\<lparr>ds_cursor := next_cursor\<rparr>)))))))"

definition cycle_body :: "dispatch_env \<Rightarrow> (cycle, unit) io" where
  "cycle_body env =
     ioBind (ioGet current) (\<lambda>st.
     if ds_mode st = MODE_PAUSED then ioRet ()
     else
       ioBind (ioEach (claimed_body env) (filter (\<lambda>t. tk_status t = TASK_CLAIMED) (ds_tasks st))) (\<lambda>_.
       ioBind (ioEach (running_body env) (filter (\<lambda>t. tk_status t = TASK_RUNNING) (ds_tasks st))) (\<lambda>_.
       admissions env)))"

section \<open>The dispatcher's operations\<close>

text \<open>
  What outlives a cycle: the file, the log and the flag that refuses overlapping operations. The flag
  is set for as long as an operation runs and cleared when it ends, whatever its outcome.
\<close>

record dispatcher =
  di_file :: dispatch_file
  di_running :: bool
  di_log :: port_log

definition no_counters :: cycle_counters where
  "no_counters = \<lparr>cn_scanned = 0, cn_claimed = 0, cn_started = 0, cn_resumed = 0, cn_completed = 0,
     cn_reopened = 0, cn_failed = 0, cn_skipped = 0\<rparr>"

definition entered :: "dispatcher \<Rightarrow> state_envelope \<Rightarrow> cycle" where
  "entered d e = \<lparr>cy_file = di_file d, cy_current = e, cy_counters = no_counters, cy_log = di_log d\<rparr>"

definition operation :: "dispatch_env \<Rightarrow> (cycle, 'a) io \<Rightarrow> dispatcher \<Rightarrow> dispatcher \<times> 'a result" where
  "operation env m d =
     (if di_running d then (d, Inl (Error DISPATCHER_BUSY ''a dispatch cycle is already running''))
      else case readState env (di_file d) of
        Inl e \<Rightarrow> (d, Inl e)
      | Inr e \<Rightarrow> (case m (entered d e) of (c, r) \<Rightarrow> (d\<lparr>di_file := cy_file c, di_log := cy_log c\<rparr>, r)))"

definition cycle_result :: "cycle \<Rightarrow> cycle_report" where
  "cycle_result c = cycle_counters.extend (cy_counters c)
     \<lparr>cr_circuit_open = ds_circuit_open (current c), cr_state_hash = en_state_hash (cy_current c)\<rparr>"

definition runCycle :: "dispatch_env \<Rightarrow> dispatcher \<Rightarrow> dispatcher \<times> cycle_report result" where
  "runCycle env = operation env (ioBind (cycle_body env) (\<lambda>_. ioGet cycle_result))"

text \<open>The public view of a state: no request hash and no lease identifier.\<close>

record public_task =
  pt_candidate_id :: string
  pt_revision :: string
  pt_repository_id :: string
  pt_request_id :: string
  pt_run_id :: "string option"
  pt_status :: task_status
  pt_consecutive_failures :: int
  pt_lease_expires_at :: string
  pt_last_evidence_hash :: "string option"

record public_status =
  pb_mode :: dispatcher_mode
  pb_cursor :: "string option"
  pb_circuit_open :: bool
  pb_consecutive_failures :: int
  pb_tasks :: "public_task list"
  pb_state_hash :: string

definition publicStatus :: "state_envelope \<Rightarrow> public_status" where
  "publicStatus e = (let st = en_state e in
     \<lparr>pb_mode = ds_mode st, pb_cursor = ds_cursor st, pb_circuit_open = ds_circuit_open st,
      pb_consecutive_failures = ds_consecutive_failures st,
      pb_tasks = map (\<lambda>t. \<lparr>pt_candidate_id = tk_candidate_id t, pt_revision = tk_revision t,
        pt_repository_id = tk_repository_id t, pt_request_id = tk_request_id t, pt_run_id = tk_run_id t,
        pt_status = tk_status t, pt_consecutive_failures = tk_consecutive_failures t,
        pt_lease_expires_at = tk_lease_expires_at t, pt_last_evidence_hash = tk_last_evidence_hash t\<rparr>) (ds_tasks st),
      pb_state_hash = en_state_hash e\<rparr>)"

definition public_view :: "cycle \<Rightarrow> public_status" where
  "public_view c = publicStatus (cy_current c)"

definition setMode :: "dispatch_env \<Rightarrow> dispatcher_mode \<Rightarrow> dispatcher \<Rightarrow> dispatcher \<times> public_status result" where
  "setMode env mode = operation env
     (ioBind (ioGet current) (\<lambda>st.
      ioBind (if ds_mode st = mode then ioRet () else store env (\<lambda>st. st\<lparr>ds_mode := mode\<rparr>)) (\<lambda>_.
      ioGet public_view)))"

definition resetCircuit :: "dispatch_env \<Rightarrow> dispatcher \<Rightarrow> dispatcher \<times> public_status result" where
  "resetCircuit env = operation env
     (ioBind (ioGet current) (\<lambda>st.
      ioBind (if \<not> ds_circuit_open st \<and> ds_consecutive_failures st = 0 then ioRet ()
        else if ds_mode st \<noteq> MODE_PAUSED
        then ioLift (Inl (Error INVALID_STATE ''circuit reset requires PAUSED mode''))
        else store env (\<lambda>st. st\<lparr>ds_circuit_open := False, ds_consecutive_failures := 0\<rparr>)) (\<lambda>_.
      ioGet public_view)))"

text \<open>\<open>status\<close> neither sets nor checks the flag.\<close>

definition dispatcher_status :: "dispatch_env \<Rightarrow> dispatcher \<Rightarrow> public_status result" where
  "dispatcher_status env d = bindR (readState env (di_file d)) (\<lambda>e. Inr (publicStatus e))"

definition createAutonomousDispatcherV4 :: "dispatch_env \<Rightarrow> bool \<Rightarrow> dispatch_file \<Rightarrow> dispatcher result" where
  "createAutonomousDispatcherV4 env directory_ok f =
     bindR (validatePolicy (de_policy env)) (\<lambda>_.
     throw_if (\<not> directory_ok) (dispatch_invalid ''state_directory must be absolute'')
     (Inr \<lparr>di_file = f, di_running = False, di_log = []\<rparr>))"

text \<open>The service loop, for as many cycles as pass before the abort signal is seen.\<close>

fun dispatcher_cycles :: "dispatch_env \<Rightarrow> nat \<Rightarrow> dispatcher \<Rightarrow> dispatcher \<times> unit result" where
  "dispatcher_cycles env 0 d = (d, Inr ())"
| "dispatcher_cycles env (Suc n) d = (case runCycle env d of
      (d', Inl e) \<Rightarrow> (d', Inl e)
    | (d', Inr report) \<Rightarrow> dispatcher_cycles env n d')"

definition runAutonomousDispatcherLoopV4 :: "dispatch_env \<Rightarrow> int \<Rightarrow> nat \<Rightarrow> dispatcher \<Rightarrow> dispatcher \<times> unit result" where
  "runAutonomousDispatcherLoopV4 env interval_ms cycles d =
     (if \<not> int_between 100 60000 interval_ms
      then (d, Inl (dispatch_invalid ''dispatcher loop interval is invalid''))
      else dispatcher_cycles env cycles d)"

end
