(* ===== verification/Dispatch_Safety.thy ===== *)
theory Dispatch_Safety
  imports Dispatcher
begin

text \<open>
  What a dispatch cycle guarantees, whatever its ports answer and wherever it fails: the calls it is
  allowed to make (\<open>call_ok\<close>), the bound on active tasks and the tasks it leaves behind. One
  invariant of the cycle (\<open>cycle_inv\<close>) is pushed through the steps with \<open>wp\<close>.
\<close>

section \<open>Allowed calls\<close>

text \<open>The tasks of the durable file.\<close>

definition stored_tasks :: "dispatch_file \<Rightarrow> stored_task list" where
  "stored_tasks f = (case f of STORED e \<Rightarrow> ds_tasks (en_state e) | _ \<Rightarrow> [])"

text \<open>The lease of a task was granted or renewed by one of the last two calls.\<close>

fun granted :: "dispatch_env \<Rightarrow> stored_task \<Rightarrow> port_log \<Rightarrow> bool" where
  "granted env t [] = False"
| "granted env t ((f, p) # older) =
     ((\<exists>x. p = RENEW (tk_candidate_id t) (tk_revision t) (tk_lease_id t) x) \<and>
        de_renew env ((f, p) # older) = Inr True \<or>
      (\<exists>x. p = CLAIM (tk_candidate_id t) (tk_revision t) (tk_lease_id t) x) \<and>
        de_claim env ((f, p) # older) = Inr CLAIM_GRANTED)"

fun recently_granted :: "dispatch_env \<Rightarrow> stored_task \<Rightarrow> port_log \<Rightarrow> bool" where
  "recently_granted env t [] = False"
| "recently_granted env t ((f, p) # older) =
     (granted env t ((f, p) # older) \<or> (\<exists>st. p = WRITE st) \<and> granted env t older)"

text \<open>
  What must hold when a call is made: \<open>f\<close> is the durable file at that moment and \<open>older\<close> the log
  before the call.
\<close>

definition start_ok :: "dispatch_env \<Rightarrow> dispatch_file \<Rightarrow> port_log \<Rightarrow> task_request \<Rightarrow> bool" where
  "start_ok env f older req = (\<exists>t \<in> set (stored_tasks f). tk_status t = TASK_CLAIMED \<and>
     tk_request_hash t = de_request_hash env req \<and> tk_request_id t = tr_request_id req \<and>
     tk_repository_id t = tr_repository_id req \<and> recently_granted env t older \<and>
     runtimeTaskRequestV4Schema req \<and> tr_repository_id req \<in> set (dp_allowed_repository_ids (de_policy env)))"

definition run_of :: "stored_task list \<Rightarrow> string \<Rightarrow> stored_task \<Rightarrow> bool" where
  "run_of ts run t = (t \<in> set ts \<and> tk_status t = TASK_RUNNING \<and> tk_run_id t = Some run)"

definition merged_run :: "dispatch_env \<Rightarrow> port_log \<Rightarrow> stored_task \<Rightarrow> string \<Rightarrow> string \<Rightarrow> bool" where
  "merged_run env older t run sha = (\<exists>f rest r. older = (f, RESUME run) # rest \<and>
     recently_granted env t rest \<and> de_resume env older = Inr r \<and> rr_run_id r = run \<and>
     rr_request_id r = tk_request_id t \<and> rr_state r = ''FINALIZED'' \<and>
     pu_state (rr_publication r) = MERGED \<and> pu_merge_commit_sha (rr_publication r) = Some sha)"

definition settle_ok :: "dispatch_env \<Rightarrow> dispatch_file \<Rightarrow> port_log \<Rightarrow> string \<Rightarrow> string \<Rightarrow> string \<Rightarrow> string \<Rightarrow> verification \<Rightarrow> bool" where
  "settle_ok env f older cand rv run sha v = (\<exists>t f' rest. run_of (stored_tasks f) run t \<and>
     task_identity t = (cand, rv) \<and> older = (f', VERIFY (tk_repository_id t) run sha) # rest \<and>
     de_verify env older = Inr v \<and> merged_run env rest t run sha)"

definition call_ok :: "dispatch_env \<Rightarrow> dispatch_file \<Rightarrow> port_log \<Rightarrow> port_call \<Rightarrow> bool" where
  "call_ok env f older p = (case p of
      START req \<Rightarrow> start_ok env f older req
    | RESUME run \<Rightarrow> (\<exists>t. run_of (stored_tasks f) run t \<and> recently_granted env t older)
    | COMPLETE cand rv run sha h \<Rightarrow> is_hash h \<and> settle_ok env f older cand rv run sha (VERIFY_PASS h)
    | REOPEN cand rv run sha finding h \<Rightarrow> is_hash h \<and> settle_ok env f older cand rv run sha (VERIFY_FAIL finding h)
    | _ \<Rightarrow> True)"

fun log_ok :: "dispatch_env \<Rightarrow> port_log \<Rightarrow> bool" where
  "log_ok env [] = True"
| "log_ok env ((f, p) # older) = (call_ok env f older p \<and> log_ok env older)"

lemma log_ok_at: "log_ok env (newer @ (f, p) # older) \<Longrightarrow> call_ok env f older p"
  by (induction newer) auto

section \<open>Steps of a cycle\<close>

lemma wp_port [simp]:
  "wp (port p answer) Q E = (\<lambda>c. case answer ((cy_file c, p) # cy_log c) of
       Inl e \<Rightarrow> E (c\<lparr>cy_log := (cy_file c, p) # cy_log c\<rparr>)
     | Inr x \<Rightarrow> Q x (c\<lparr>cy_log := (cy_file c, p) # cy_log c\<rparr>))"
  by (simp add: wp_def port_def Let_def fun_eq_iff split: sum.splits)

lemma wp_writeState [simp]:
  "wp (writeState env st) Q E = (\<lambda>c.
     let h = (cy_file c, WRITE st) # cy_log c; c' = c\<lparr>cy_log := h\<rparr> in
      case de_write env h of
        WRITTEN \<Rightarrow> Q () (c'\<lparr>cy_file := STORED (envelope env st), cy_current := envelope env st\<rparr>)
      | WRITE_FAILED \<Rightarrow> E c'
      | RENAMED_UNSYNCED \<Rightarrow> E (c'\<lparr>cy_file := STORED (envelope env st)\<rparr>))"
  by (simp add: wp_def writeState_def Let_def fun_eq_iff split: write_answer.splits)

lemma wp_bump [simp]: "wp (bump f) Q E = (\<lambda>c. Q () (c\<lparr>cy_counters := f (cy_counters c)\<rparr>))"
  by (simp add: bump_def)

definition stop_inv :: "dispatch_env \<Rightarrow> nat \<Rightarrow> stored_task set \<Rightarrow> cycle \<Rightarrow> bool" where
  "stop_inv env n K c = (active_count (stored_tasks (cy_file c)) \<le> n \<and>
     distinct (map task_identity (stored_tasks (cy_file c))) \<and> log_ok env (cy_log c) \<and>
     K \<subseteq> set (stored_tasks (cy_file c)))"

text \<open>
  \<open>us\<close> are the tasks of the first snapshot that the cycle has not reached yet; nothing else is left
  claimed, and the tasks of \<open>K\<close>, which the cycle does not handle, stay as they are.
\<close>

definition cycle_inv :: "dispatch_env \<Rightarrow> nat \<Rightarrow> stored_task set \<Rightarrow> stored_task list \<Rightarrow> cycle \<Rightarrow> bool" where
  "cycle_inv env n K us c =
     (stored_tasks (cy_file c) = ds_tasks (current c) \<and> active_count (ds_tasks (current c)) \<le> n \<and>
      distinct (map task_identity (ds_tasks (current c))) \<and> log_ok env (cy_log c) \<and>
      K \<subseteq> set (ds_tasks (current c)) \<and> task_identity ` K \<inter> task_identity ` set us = {} \<and>
      set us \<subseteq> set (ds_tasks (current c)) \<and> distinct (map task_identity us) \<and>
      (\<forall>t \<in> set (ds_tasks (current c)). tk_status t = TASK_CLAIMED \<longrightarrow> t \<in> set us))"

lemma cycle_inv_stop: "cycle_inv env n K us c \<Longrightarrow> stop_inv env n K c"
  by (simp add: cycle_inv_def stop_inv_def)

lemma cycle_inv_counters [simp]:
  "cycle_inv env n K us (c\<lparr>cy_counters := k\<rparr>) = cycle_inv env n K us c"
  "stop_inv env n K (c\<lparr>cy_counters := k\<rparr>) = stop_inv env n K c"
  by (simp_all add: cycle_inv_def stop_inv_def current_def)

text \<open>A call keeps the invariant when it is allowed.\<close>

lemma cycle_inv_call:
  "cycle_inv env n K us c \<Longrightarrow> call_ok env (cy_file c) (cy_log c) p \<Longrightarrow>
   cycle_inv env n K us (c\<lparr>cy_log := (cy_file c, p) # cy_log c\<rparr>)"
  by (simp add: cycle_inv_def current_def)

lemma tasks_replaceTask:
  "ds_tasks (replaceTask st r) = map (\<lambda>t. if task_identity t = task_identity r then r else t) (ds_tasks st)"
  by (simp add: replaceTask_def task_identity_def)

lemma identities_replace:
  "map task_identity (map (\<lambda>t. if task_identity t = task_identity r then r else t) ts) = map task_identity ts"
  by (induction ts) auto

lemma active_replace:
  assumes "distinct (map task_identity ts)" and "t \<in> set ts" and "task_identity r = task_identity t"
    and "active_task r \<longrightarrow> active_task t"
  shows "active_count (map (\<lambda>t. if task_identity t = task_identity r then r else t) ts) \<le> active_count ts"
  using assms
proof (induction ts)
  case (Cons a ts)
  show ?case
  proof (cases "task_identity a = task_identity r")
    case True
    with Cons.prems(1,2,3) have a: "a = t" by (metis distinct.simps(2) image_eqI list.set_map list.simps(9) set_ConsD)
    have "map (\<lambda>t. if task_identity t = task_identity r then r else t) ts = ts"
      using Cons.prems(1) True by (intro map_idI) (metis distinct.simps(2) image_eqI list.set_map list.simps(9))
    then show ?thesis using Cons.prems(4) True a by (simp add: active_count_def)
  next
    case False
    with Cons show ?thesis by (auto simp: active_count_def)
  qed
qed simp

lemma cycle_inv_mono: "cycle_inv env m K us c \<Longrightarrow> m \<le> n \<Longrightarrow> cycle_inv env n K us c"
  by (simp add: cycle_inv_def)

lemma stop_inv_mono: "stop_inv env m K c \<Longrightarrow> m \<le> n \<Longrightarrow> stop_inv env n K c"
  by (simp add: stop_inv_def)

text \<open>Writing the next state of a task settles it, wherever the write fails.\<close>

lemma wp_store_replace:
  assumes inv: "cycle_inv env n K (t # us) c"
    and r: "task_identity r = task_identity t" "tk_status r \<noteq> TASK_CLAIMED" "active_task r \<longrightarrow> active_task t"
    and f: "\<And>st. ds_tasks (f st) = ds_tasks (replaceTask st r)"
  shows "wp (store env f) (\<lambda>_. cycle_inv env n K us) (stop_inv env n K) c"
proof -
  let ?ts = "ds_tasks (current c)" and ?ts' = "ds_tasks (f (current c))"
  have i: "t \<in> set ?ts" "distinct (map task_identity ?ts)" "active_count ?ts \<le> n" "set us \<subseteq> set ?ts"
    "distinct (map task_identity (t # us))" "log_ok env (cy_log c)" "stored_tasks (cy_file c) = ?ts"
    "\<forall>x \<in> set ?ts. tk_status x = TASK_CLAIMED \<longrightarrow> x \<in> set (t # us)"
    "K \<subseteq> set ?ts" "task_identity ` K \<inter> task_identity ` set (t # us) = {}"
    using inv by (simp_all add: cycle_inv_def)
  have ts': "?ts' = map (\<lambda>x. if task_identity x = task_identity r then r else x) ?ts"
    by (simp add: f tasks_replaceTask)
  have ids: "map task_identity ?ts' = map task_identity ?ts" unfolding ts' by (rule identities_replace)
  have act: "active_count ?ts' \<le> n"
    using active_replace [OF i(2) i(1) r(1) r(3)] i(3) unfolding ts' by simp
  have us: "set us \<subseteq> set ?ts'"
  proof
    fix x assume x: "x \<in> set us"
    then have "task_identity x \<noteq> task_identity t" using i(5) by (fastforce simp: image_iff)
    then have "task_identity x \<noteq> task_identity r" by (simp add: r(1))
    then show "x \<in> set ?ts'" using x i(4) unfolding ts' by auto
  qed
  have kept: "K \<subseteq> set ?ts'"
  proof
    fix x assume x: "x \<in> K"
    then have "task_identity x \<noteq> task_identity r" using i(10) r(1) by fastforce
    then show "x \<in> set ?ts'" using x i(9) unfolding ts' by auto
  qed
  have left: "x \<in> set us" if "x \<in> set ?ts'" "tk_status x = TASK_CLAIMED" for x
    using that i(8) r unfolding ts' by (auto split: if_splits)
  show ?thesis
    using i act ids us left kept
    by (auto simp: store_def Let_def cycle_inv_def stop_inv_def current_def envelope_def stored_tasks_def call_ok_def
        split: write_answer.splits)
qed

lemma wp_renew:
  assumes "cycle_inv env n K us c"
  shows "wp (renew_lease env t)
    (\<lambda>r c'. cycle_inv env n K us c' \<and> (fst r \<longrightarrow> recently_granted env t (cy_log c'))) (stop_inv env n K) c"
proof -
  have "cycle_inv env n K us (c\<lparr>cy_log := (cy_file c, RENEW a b d x) # cy_log c\<rparr>)" for a b d x
    by (rule cycle_inv_call [OF assms]) (simp add: call_ok_def)
  note k = this this [THEN cycle_inv_stop]
  show ?thesis
    using k cycle_inv_stop [OF assms] by (simp add: renew_lease_def lease_expiry_def split: sum.splits)
qed

lemma wp_after_renew:
  assumes "cycle_inv env n K us c"
    and "\<And>d. cycle_inv env n K us d \<Longrightarrow> wp lost Q (stop_inv env n K) d"
    and "\<And>x d. cycle_inv env n K us d \<Longrightarrow> recently_granted env t (cy_log d) \<Longrightarrow> wp (k x) Q (stop_inv env n K) d"
  shows "wp (ioBind (renew_lease env t) (\<lambda>(renewed, expires). if \<not> renewed then lost else k expires)) Q (stop_inv env n K) c"
  unfolding wp_bind
proof (rule wp_mono [OF wp_renew [OF assms(1), of t]])
  fix r :: "bool \<times> string" and d
  assume "cycle_inv env n K us d \<and> (fst r \<longrightarrow> recently_granted env t (cy_log d))"
  then show "wp (case r of (renewed, expires) \<Rightarrow> if \<not> renewed then lost else k expires) Q (stop_inv env n K) d"
    using assms(2,3) [of d] by (cases r) auto
qed

lemma wp_start:
  assumes "cycle_inv env n K us c" and "start_ok env (cy_file c) (cy_log c) req"
  shows "wp (start_run env req) (\<lambda>_. cycle_inv env n K us) (stop_inv env n K) c"
proof -
  have "cycle_inv env n K us (c\<lparr>cy_log := (cy_file c, START req) # cy_log c\<rparr>)"
    by (rule cycle_inv_call [OF assms(1)]) (simp add: call_ok_def assms(2))
  note k = this this [THEN cycle_inv_stop]
  show ?thesis using k by (simp add: start_run_def split: sum.splits)
qed

lemma wp_lose:
  assumes "cycle_inv env n K (t # us) c"
  shows "wp (lose_task env outcome t) (\<lambda>_. cycle_inv env n K us) (stop_inv env n K) c"
proof -
  have "wp (store env (failure_state env (lost_task env outcome t))) (\<lambda>_. cycle_inv env n K us) (stop_inv env n K) c"
    by (rule wp_store_replace [OF assms, of "lost_task env outcome t"])
      (simp_all add: lost_task_def task_identity_def active_task_def failure_state_def replaceTask_def Let_def)
  then show ?thesis by (simp add: lose_task_def)
qed

lemma validateCandidate_Inr:
  "validateCandidate p s = Inr c \<Longrightarrow> c = s \<and> ca_repository_id c \<in> set (dp_allowed_repository_ids p) \<and>
     runtimeTaskRequestV4Schema (ca_request c) \<and> tr_repository_id (ca_request c) = ca_repository_id c"
  by (auto simp add: validateCandidate_def)

lemma identified_Inr:
  assumes "identified env t s = Inr c"
  shows "ca_candidate_id c = tk_candidate_id t \<and> ca_revision c = tk_revision t \<and>
    ca_repository_id c = tk_repository_id t \<and> tr_request_id (ca_request c) = tk_request_id t \<and>
    de_request_hash env (ca_request c) = tk_request_hash t \<and>
    ca_repository_id c \<in> set (dp_allowed_repository_ids (de_policy env)) \<and>
    runtimeTaskRequestV4Schema (ca_request c) \<and> tr_repository_id (ca_request c) = ca_repository_id c"
  using assms by (auto simp: identified_def dest!: validateCandidate_Inr split: option.splits)

lemma claimed_start_ok:
  assumes "cycle_inv env n K (t # us) c" and "tk_status t = TASK_CLAIMED" and "identified env t s = Inr x"
    and "recently_granted env t (cy_log c)"
  shows "start_ok env (cy_file c) (cy_log c) (ca_request x)"
  using assms identified_Inr [OF assms(3)] unfolding start_ok_def cycle_inv_def
  by (intro bexI [of _ t]) auto

lemma wp_claimed:
  assumes inv: "cycle_inv env n K (t # us) c" and st: "tk_status t = TASK_CLAIMED"
  shows "wp (claimed_body env t) (\<lambda>_. cycle_inv env n K us) (stop_inv env n K) c"
proof -
  let ?P = "LOAD_CANDIDATE (tk_candidate_id t) (tk_revision t)"
  let ?c = "c\<lparr>cy_log := (cy_file c, ?P) # cy_log c\<rparr>"
  have inv': "cycle_inv env n K (t # us) ?c" by (rule cycle_inv_call [OF inv]) (simp add: call_ok_def)
  have finish: "wp (ioBind (start_run env (ca_request x)) (\<lambda>run.
       ioBind (store env (\<lambda>st. replaceTask st (started run expires t))) (\<lambda>_.
       bump (\<lambda>n. n\<lparr>cn_started := cn_started n + 1\<rparr>)))) (\<lambda>_. cycle_inv env n K us) (stop_inv env n K) d"
    if x: "identified env t s = Inr x" and d: "cycle_inv env n K (t # us) d" "recently_granted env t (cy_log d)" for s x expires d
  proof -
    have "wp (store env (\<lambda>st. replaceTask st (started run expires t))) (\<lambda>_. cycle_inv env n K us) (stop_inv env n K) e"
      if "cycle_inv env n K (t # us) e" for run e
      by (rule wp_store_replace [OF that, of "started run expires t"])
        (simp_all add: started_def task_identity_def active_task_def st)
    then show ?thesis
      by (simp, intro wp_mono [OF wp_start [OF d(1) claimed_start_ok [OF d(1) st x d(2)]]]) simp_all
  qed
  have renewed: "wp (ioBind (renew_lease env t) (\<lambda>(renewed, expires).
       if \<not> renewed then lose_task env ''LOST_BEFORE_START'' t
       else ioBind (start_run env (ca_request x)) (\<lambda>run.
         ioBind (store env (\<lambda>st. replaceTask st (started run expires t))) (\<lambda>_.
         bump (\<lambda>n. n\<lparr>cn_started := cn_started n + 1\<rparr>))))) (\<lambda>_. cycle_inv env n K us) (stop_inv env n K) ?c"
    if "identified env t s = Inr x" for s x
    using finish [OF that] by (intro wp_after_renew [OF inv'] wp_lose)
  show ?thesis
    using renewed cycle_inv_stop [OF inv']
    by (simp only: claimed_body_def wp_bind [of "port _ _"] wp_bind [of "ioLift _"] wp_port wp_lift split: sum.split) simp
qed

text \<open>Settling a run that ended: the log still ends in the call that resumed it.\<close>

definition resumed_log :: "dispatch_env \<Rightarrow> stored_task \<Rightarrow> string \<Rightarrow> runtime_result \<Rightarrow> port_log \<Rightarrow> bool" where
  "resumed_log env t run r h = (\<exists>f rest. h = (f, RESUME run) # rest \<and> recently_granted env t rest \<and>
     de_resume env h = Inr r \<and> rr_run_id r = run \<and> rr_request_id r = tk_request_id t)"

lemma settled_facts [simp]:
  "task_identity (settled s x h t) = task_identity t" "tk_status (settled s x h t) = s"
  by (simp_all add: settled_def task_identity_def)

lemma wp_settle_failed:
  assumes inv: "cycle_inv env n K (t # us) c" and st: "tk_status t = TASK_RUNNING"
  shows "wp (settle_failed env t run expires r) (\<lambda>_. cycle_inv env n K us) (stop_inv env n K) c"
proof (cases "rr_failure r")
  case None
  then show ?thesis using cycle_inv_stop [OF inv] by (simp add: settle_failed_def)
next
  case (Some f)
  let ?P = "FAIL (tk_candidate_id t) (tk_revision t) run (rf_code f) (rf_evidence_hashes f)"
  have inv': "cycle_inv env n K (t # us) (c\<lparr>cy_log := (cy_file c, ?P) # cy_log c\<rparr>)"
    by (rule cycle_inv_call [OF inv]) (simp add: call_ok_def)
  have "wp (store env (failure_state env (settled TASK_FAILED expires h t))) (\<lambda>_. cycle_inv env n K us) (stop_inv env n K)
      (c\<lparr>cy_log := (cy_file c, ?P) # cy_log c\<rparr>)" for h
    by (rule wp_store_replace [OF inv', of "settled TASK_FAILED expires h t"])
      (simp_all add: active_task_def failure_state_def replaceTask_def Let_def)
  then show ?thesis
    using cycle_inv_stop [OF inv'] Some by (simp add: settle_failed_def split: sum.splits)
qed

lemma merged_commit_Inr:
  "merged_commit r = Inr sha \<Longrightarrow> pu_state (rr_publication r) = MERGED \<and> pu_merge_commit_sha (rr_publication r) = Some sha"
  by (auto simp: merged_commit_def split: option.splits)

lemma verified_outcome_Inr:
  "verified_outcome v = Inr w \<Longrightarrow> w = v \<and> (case v of VERIFY_PASS h \<Rightarrow> is_hash h | VERIFY_FAIL _ h \<Rightarrow> is_hash h)"
  by (auto simp: verified_outcome_def split: verification.splits)

lemma wp_settle_finalized:
  assumes inv: "cycle_inv env n K (t # us) c" and st: "tk_status t = TASK_RUNNING" "tk_run_id t = Some run"
    and r: "resumed_log env t run r (cy_log c)" "rr_state r = ''FINALIZED''"
  shows "wp (settle_finalized env t run expires r) (\<lambda>_. cycle_inv env n K us) (stop_inv env n K) c"
proof (cases "merged_commit r")
  case (Inl e)
  then show ?thesis using cycle_inv_stop [OF inv] by (simp add: settle_finalized_def)
next
  case (Inr sha)
  let ?V = "VERIFY (tk_repository_id t) run sha"
  let ?c = "c\<lparr>cy_log := (cy_file c, ?V) # cy_log c\<rparr>"
  have inv': "cycle_inv env n K (t # us) ?c" by (rule cycle_inv_call [OF inv]) (simp add: call_ok_def)
  have run: "run_of (stored_tasks (cy_file c)) run t" using inv st by (simp add: cycle_inv_def run_of_def)
  have merged: "merged_run env (cy_log c) t run sha"
    using r merged_commit_Inr [OF Inr] by (auto simp: merged_run_def resumed_log_def)
  have call: "cycle_inv env n K (t # us) (?c\<lparr>cy_log := (cy_file c, p) # cy_log ?c\<rparr>)"
    if "call_ok env (cy_file c) (cy_log ?c) p" for p
    using cycle_inv_call [OF inv', of p] that by simp
  have ok: "settle_ok env (cy_file c) (cy_log ?c) (tk_candidate_id t) (tk_revision t) run sha v"
    if "de_verify env (cy_log ?c) = Inr v" for v
    using run merged that by (auto simp: settle_ok_def task_identity_def)
  have complete: "cycle_inv env n K (t # us)
      (?c\<lparr>cy_log := (cy_file c, COMPLETE (tk_candidate_id t) (tk_revision t) run sha h) # cy_log ?c\<rparr>)"
    if "de_verify env (cy_log ?c) = Inr (VERIFY_PASS h)" "is_hash h" for h
    by (rule call) (simp add: call_ok_def that(2) ok [OF that(1), simplified])
  have reopen: "cycle_inv env n K (t # us)
      (?c\<lparr>cy_log := (cy_file c, REOPEN (tk_candidate_id t) (tk_revision t) run sha finding h) # cy_log ?c\<rparr>)"
    if "de_verify env (cy_log ?c) = Inr (VERIFY_FAIL finding h)" "is_hash h" for finding h
    by (rule call) (simp add: call_ok_def that(2) ok [OF that(1), simplified])
  have completed: "wp (store env (\<lambda>st. replaceTask (st\<lparr>ds_consecutive_failures := 0\<rparr>) (settled TASK_COMPLETED expires h t)))
      (\<lambda>_. cycle_inv env n K us) (stop_inv env n K) d" if "cycle_inv env n K (t # us) d" for h d
    by (rule wp_store_replace [OF that, of "settled TASK_COMPLETED expires h t"])
      (simp_all add: active_task_def replaceTask_def)
  have failed: "wp (store env (failure_state env (settled TASK_REOPENED expires h t)))
      (\<lambda>_. cycle_inv env n K us) (stop_inv env n K) d" if "cycle_inv env n K (t # us) d" for h d
    by (rule wp_store_replace [OF that, of "settled TASK_REOPENED expires h t"])
      (simp_all add: active_task_def failure_state_def replaceTask_def Let_def)
  note end_of = completed [simplified] failed [simplified]
  show ?thesis
  proof (cases "de_verify env (cy_log ?c)")
    case (Inl e)
    then show ?thesis using Inr cycle_inv_stop [OF inv'] by (simp add: settle_finalized_def)
  next
    case v: (Inr v)
    show ?thesis
    proof (cases "verified_outcome v")
      case (Inl e)
      then show ?thesis using Inr v cycle_inv_stop [OF inv'] by (simp add: settle_finalized_def)
    next
      case (Inr w)
      note w = verified_outcome_Inr [OF Inr]
      show ?thesis
      proof (cases v)
        case (VERIFY_PASS h)
        have k: "cycle_inv env n K (t # us)
            (?c\<lparr>cy_log := (cy_file c, COMPLETE (tk_candidate_id t) (tk_revision t) run sha h) # cy_log ?c\<rparr>)"
          using complete [of h] v w VERIFY_PASS by simp
        show ?thesis
          using \<open>merged_commit r = Inr sha\<close> v Inr w VERIFY_PASS end_of(1) [OF k] cycle_inv_stop [OF k]
          by (simp add: settle_finalized_def split: sum.splits)
      next
        case (VERIFY_FAIL finding h)
        have k: "cycle_inv env n K (t # us)
            (?c\<lparr>cy_log := (cy_file c, REOPEN (tk_candidate_id t) (tk_revision t) run sha finding h) # cy_log ?c\<rparr>)"
          using reopen [of finding h] v w VERIFY_FAIL by simp
        show ?thesis
          using \<open>merged_commit r = Inr sha\<close> v Inr w VERIFY_FAIL end_of(2) [OF k] cycle_inv_stop [OF k]
          by (simp add: settle_finalized_def split: sum.splits)
      qed
    qed
  qed
qed

lemma wp_running:
  assumes inv: "cycle_inv env n K (t # us) c" and st: "tk_status t = TASK_RUNNING"
  shows "wp (running_body env t) (\<lambda>_. cycle_inv env n K us) (stop_inv env n K) c"
proof (cases "tk_run_id t")
  case None
  then show ?thesis using cycle_inv_stop [OF inv] by (simp add: running_body_def)
next
  case (Some run)
  let ?finish = "\<lambda>expires r. if rr_state r = ''FAILED'' \<or> rr_state r = ''ABORTED'' then settle_failed env t run expires r
          else if rr_state r = ''FINALIZED'' then settle_finalized env t run expires r
          else store env (\<lambda>st. replaceTask st (t\<lparr>tk_lease_expires_at := expires\<rparr>))"
  let ?k = "\<lambda>expires. ioBind (port (RESUME run) (de_resume env)) (\<lambda>supplied.
          ioBind (ioLift (resumed_result env t run supplied)) (\<lambda>r.
          ioBind (bump (\<lambda>n. n\<lparr>cn_resumed := cn_resumed n + 1\<rparr>)) (\<lambda>_. ?finish expires r)))"
  have lease: "wp (store env (\<lambda>st. replaceTask st (t\<lparr>tk_lease_expires_at := expires\<rparr>)))
      (\<lambda>_. cycle_inv env n K us) (stop_inv env n K) d" if "cycle_inv env n K (t # us) d" for expires d
    by (rule wp_store_replace [OF that, of "t\<lparr>tk_lease_expires_at := expires\<rparr>"])
      (simp_all add: st task_identity_def active_task_def)
  have finish: "wp (?finish expires r) (\<lambda>_. cycle_inv env n K us) (stop_inv env n K) d"
    if "cycle_inv env n K (t # us) d" "resumed_log env t run r (cy_log d)" for expires r d
    using wp_settle_failed [OF that(1) st] wp_settle_finalized [OF that(1) st Some that(2)] lease [OF that(1)]
    unfolding wp_if by simp
  have resume: "wp (?k expires) (\<lambda>_. cycle_inv env n K us) (stop_inv env n K) d"
    if d: "cycle_inv env n K (t # us) d" "recently_granted env t (cy_log d)" for expires d
  proof -
    let ?d = "d\<lparr>cy_log := (cy_file d, RESUME run) # cy_log d\<rparr>"
    have "run_of (stored_tasks (cy_file d)) run t" using d(1) st Some by (simp add: cycle_inv_def run_of_def)
    then have d': "cycle_inv env n K (t # us) ?d"
      by (intro cycle_inv_call [OF d(1)]) (auto simp: call_ok_def d(2))
    have fin: "wp (?finish expires r) (\<lambda>_. cycle_inv env n K us) (stop_inv env n K) (?d\<lparr>cy_counters := k\<rparr>)"
      if "de_resume env (cy_log ?d) = Inr x" "resumed_result env t run x = Inr r" for x r k
    proof (rule finish)
      show "cycle_inv env n K (t # us) (?d\<lparr>cy_counters := k\<rparr>)" using d' by simp
      have "x = r \<and> rr_run_id r = run \<and> rr_request_id r = tk_request_id t"
        using that(2) by (auto simp: resumed_result_def loadRuntimeResultV4_def)
      with that(1) d(2) show "resumed_log env t run r (cy_log (?d\<lparr>cy_counters := k\<rparr>))"
        by (simp add: resumed_log_def)
    qed
    show ?thesis
      unfolding wp_bind wp_port wp_lift wp_bump using fin cycle_inv_stop [OF d']
      by (simp split: sum.split del: wp_if)
  qed
  have "wp (ioBind (renew_lease env t) (\<lambda>(renewed, expires). if \<not> renewed then lose_task env ''LOST_WHILE_RUNNING'' t
      else ?k expires)) (\<lambda>_. cycle_inv env n K us) (stop_inv env n K) c"
    by (rule wp_after_renew [OF inv wp_lose resume])
  then show ?thesis using Some by (simp only: running_body_def option.case)
qed

text \<open>Admitting a candidate takes at most one place of the capacity.\<close>

definition admit_inv :: "dispatch_env \<Rightarrow> nat \<Rightarrow> stored_task set \<Rightarrow> task_candidate list \<Rightarrow> cycle \<Rightarrow> bool" where
  "admit_inv env n K cs c = (length cs \<le> n \<and> cycle_inv env (n - length cs) K [] c)"

lemma admit_inv_skip: "admit_inv env n K (x # cs) c \<Longrightarrow> admit_inv env n K cs c"
  by (auto simp: admit_inv_def intro: cycle_inv_mono)

lemma admit_inv_stop: "admit_inv env n K cs c \<Longrightarrow> stop_inv env n K c"
  by (auto simp: admit_inv_def intro: stop_inv_mono dest!: cycle_inv_stop)

lemma wp_store_pending:
  assumes inv: "cycle_inv env m K [] c" and new: "task_identity t \<notin> task_identity ` set (ds_tasks (current c))"
    and st: "tk_status t = TASK_CLAIMED"
  shows "wp (store env (\<lambda>st. st\<lparr>ds_tasks := ds_tasks st @ [t]\<rparr>))
    (\<lambda>_ d. cycle_inv env (Suc m) K [t] d \<and> (\<exists>f st. cy_log d = (f, WRITE st) # cy_log c)) (stop_inv env (Suc m) K) c"
proof -
  have i: "distinct (map task_identity (ds_tasks (current c)))" "active_count (ds_tasks (current c)) \<le> m"
    "\<forall>t \<in> set (ds_tasks (current c)). tk_status t \<noteq> TASK_CLAIMED" "log_ok env (cy_log c)"
    "stored_tasks (cy_file c) = ds_tasks (current c)" "K \<subseteq> set (ds_tasks (current c))"
    using inv by (auto simp: cycle_inv_def)
  have "task_identity t \<notin> task_identity ` K" using i(6) new by blast
  then show ?thesis
    using i new st
    by (auto simp: store_def Let_def cycle_inv_def stop_inv_def current_def envelope_def stored_tasks_def call_ok_def
        active_count_def active_task_def split: write_answer.splits)
qed

lemma wp_admit:
  assumes inv: "admit_inv env n K (x # cs) c"
  shows "wp (admit_body env x) (\<lambda>_. admit_inv env n K cs) (stop_inv env n K) c"
proof (cases "validateCandidate (de_policy env) x")
  case (Inl e)
  then show ?thesis using admit_inv_stop [OF inv] by (simp add: admit_body_def)
next
  case (Inr y)
  note y = validateCandidate_Inr [OF Inr]
  define m where "m = n - length (x # cs)"
  have m: "cycle_inv env m K [] c" "Suc m = n - length cs" "length cs < n"
    using inv by (auto simp: admit_inv_def m_def)
  have skip: "wp skip_candidate (\<lambda>_. admit_inv env n K cs) (stop_inv env n K) d" if "cycle_inv env m K [] d" for d
    using that m(2,3) by (auto simp: skip_candidate_def admit_inv_def intro: cycle_inv_mono)
  show ?thesis
  proof (cases "known_candidate (current c) y")
    case True
    then show ?thesis using Inr skip [OF m(1)] by (simp add: admit_body_def)
  next
    case new: False
    let ?t = "pending_task env y" let ?C = "\<lambda>lease expires. CLAIM (ca_candidate_id y) (ca_revision y) lease expires"
    let ?c = "\<lambda>lease expires. c\<lparr>cy_log := (cy_file c, ?C lease expires) # cy_log c\<rparr>"
    have c': "cycle_inv env m K [] (?c lease expires)" for lease expires
      by (rule cycle_inv_call [OF m(1)]) (simp add: call_ok_def)
    have stop': "stop_inv env n K (?c lease expires)" for lease expires
      by (rule stop_inv_mono [OF cycle_inv_stop [OF c']]) (use m(2) in arith)
    have stop: "stop_inv env n K c" by (rule admit_inv_stop [OF inv])
    let ?k = "\<lambda>lease expires. ioBind (store env (\<lambda>st. st\<lparr>ds_tasks := ds_tasks st @ [?t lease expires]\<rparr>)) (\<lambda>_.
         ioBind (start_run env (ca_request y)) (\<lambda>run.
         ioBind (store env (\<lambda>st. replaceTask st (started run expires (?t lease expires)))) (\<lambda>_.
         bump (\<lambda>n. n\<lparr>cn_started := cn_started n + 1\<rparr>))))"
    have claim: "wp (?k lease expires) (\<lambda>_. admit_inv env n K cs) (stop_inv env n K) ((?c lease expires)\<lparr>cy_counters := k\<rparr>)"
      if granted: "de_claim env (cy_log (?c lease expires)) = Inr CLAIM_GRANTED" for lease expires k
    proof -
      let ?d = "(?c lease expires)\<lparr>cy_counters := k\<rparr>" and ?p = "?t lease expires"
      have p: "tk_status ?p = TASK_CLAIMED" "task_identity ?p \<notin> task_identity ` set (ds_tasks (current ?d))"
        using new by (auto simp: pending_task_def task_identity_def known_candidate_def list_ex_iff current_def)
      have running: "wp (store env (\<lambda>st. replaceTask st (started run expires ?p))) (\<lambda>_. cycle_inv env (Suc m) K [])
          (stop_inv env (Suc m) K) e" if "cycle_inv env (Suc m) K [?p] e" for run e
        by (rule wp_store_replace [OF that, of "started run expires ?p"])
          (simp_all add: started_def task_identity_def active_task_def p(1))
      have start: "wp (start_run env (ca_request y)) (\<lambda>_. cycle_inv env (Suc m) K [?p]) (stop_inv env (Suc m) K) e"
        if e: "cycle_inv env (Suc m) K [?p] e" "cy_log e = (f, WRITE st) # cy_log ?d" for e f st
      proof (rule wp_start [OF e(1)])
        have "recently_granted env ?p (cy_log e)"
          using granted by (simp add: e(2) pending_task_def)
        then show "start_ok env (cy_file e) (cy_log e) (ca_request y)"
          using e(1) y p(1) by (auto simp: start_ok_def cycle_inv_def pending_task_def intro!: bexI [of _ ?p])
      qed
      have "wp (?k lease expires) (\<lambda>_. cycle_inv env (Suc m) K []) (stop_inv env (Suc m) K) ?d"
        unfolding wp_bind
      proof (rule wp_mono [OF wp_store_pending [OF _ p(2,1), of env m]])
        show "cycle_inv env m K [] ?d" using c' by simp
        fix u e assume e: "cycle_inv env (Suc m) K [?p] e \<and> (\<exists>f st. cy_log e = (f, WRITE st) # cy_log ?d)"
        then obtain f st where "cy_log e = (f, WRITE st) # cy_log ?d" by blast
        from start [OF conjunct1 [OF e] this]
        show "wp (start_run env (ca_request y)) (\<lambda>run. wp (store env (\<lambda>st. replaceTask st (started run expires ?p)))
            (\<lambda>_. wp (bump (\<lambda>n. n\<lparr>cn_started := cn_started n + 1\<rparr>)) (\<lambda>_. cycle_inv env (Suc m) K []) (stop_inv env (Suc m) K))
            (stop_inv env (Suc m) K)) (stop_inv env (Suc m) K) e"
          by (rule wp_mono) (simp_all add: running)
      qed simp
      then show ?thesis
        by (rule wp_mono) (use m(2,3) in \<open>auto simp: admit_inv_def elim: stop_inv_mono\<close>)
    qed
    show ?thesis
      using Inr new stop stop' skip [OF c'] claim
      by (simp add: admit_body_def new_lease_def lease_expiry_def del: wp_bind add: wp_bind [of "ioLift _"]
          wp_bind [of "ioGet _"] wp_bind [of "port _ _"] wp_bind [of "bump _"] wp_bind [of "ioBind _ _"] split: sum.split)
  qed
qed

section \<open>Whole cycles\<close>

abbreviation max_active :: "dispatch_env \<Rightarrow> nat" where
  "max_active env \<equiv> nat (dp_max_active_tasks (de_policy env))"

lemma wp_admissions:
  assumes inv: "cycle_inv env (max_active env) K [] c"
  shows "wp (admissions env) (\<lambda>_. cycle_inv env (max_active env) K []) (stop_inv env (max_active env) K) c"
proof (cases "capacity env (current c) \<le> 0")
  case True
  then show ?thesis using inv by (simp add: admissions_def)
next
  case False
  let ?n = "max_active env" let ?cap = "capacity env (current c)"
  let ?c = "c\<lparr>cy_log := (cy_file c, LIST_CANDIDATES (ds_cursor (current c)) ?cap) # cy_log c\<rparr>"
  have c': "cycle_inv env ?n K [] ?c" by (rule cycle_inv_call [OF inv]) (simp add: call_ok_def)
  have enter: "admit_inv env ?n K cs (?c\<lparr>cy_counters := k\<rparr>)" if "int (length cs) \<le> ?cap" for cs k
  proof -
    have "length cs + active_count (ds_tasks (current c)) \<le> ?n"
      using that False by (auto simp: capacity_def split: if_splits)
    then show ?thesis using c' by (auto simp: admit_inv_def cycle_inv_def current_def)
  qed
  have cursor: "wp (store env (\<lambda>st. st\<lparr>ds_cursor := x\<rparr>)) (\<lambda>_. cycle_inv env ?n K []) (stop_inv env ?n K) d"
    if "admit_inv env ?n K [] d" for x d
    using that
    by (auto simp: store_def Let_def admit_inv_def cycle_inv_def stop_inv_def current_def envelope_def stored_tasks_def
        call_ok_def split: write_answer.splits)
  have each: "wp (ioEach (admit_body env) cs) (\<lambda>_. admit_inv env ?n K []) (stop_inv env ?n K) (?c\<lparr>cy_counters := k\<rparr>)"
    if "int (length cs) \<le> ?cap" for cs k
    by (rule wp_each [where I = "admit_inv env ?n K", OF enter [OF that] wp_admit])
  have listed: "wp (ioEach (admit_body env) cs) (\<lambda>_ d. (ds_cursor (current d) = x \<longrightarrow> cycle_inv env ?n K [] d) \<and>
       (ds_cursor (current d) \<noteq> x \<longrightarrow> wp (store env (\<lambda>st. st\<lparr>ds_cursor := x\<rparr>))
         (\<lambda>_. cycle_inv env ?n K []) (stop_inv env ?n K) d)) (stop_inv env ?n K) (?c\<lparr>cy_counters := k\<rparr>)"
    if "int (length cs) \<le> ?cap" for cs k x
    by (rule wp_mono [OF each [OF that]]) (auto simp: admit_inv_def intro: cursor [unfolded admit_inv_def])
  show ?thesis
    using False listed cycle_inv_stop [OF c'] by (simp add: admissions_def not_less split: sum.split)
qed

lemma wp_cycle:
  assumes c: "stored_tasks (cy_file c) = ds_tasks (current c)" "active_count (ds_tasks (current c)) \<le> max_active env"
    "distinct (map task_identity (ds_tasks (current c)))" "log_ok env (cy_log c)"
    "K \<subseteq> set (ds_tasks (current c))" "\<forall>t \<in> K. \<not> active_task t"
  shows "wp (cycle_body env) (\<lambda>_ d. stop_inv env (max_active env) K d \<and>
      (ds_mode (current c) \<noteq> MODE_PAUSED \<longrightarrow> (\<forall>t \<in> set (stored_tasks (cy_file d)). tk_status t \<noteq> TASK_CLAIMED)))
    (stop_inv env (max_active env) K) c"
proof (cases "ds_mode (current c) = MODE_PAUSED")
  case True
  then show ?thesis using c by (simp add: cycle_body_def stop_inv_def)
next
  case False
  let ?n = "max_active env" and ?ts = "ds_tasks (current c)"
  let ?cs = "filter (\<lambda>t. tk_status t = TASK_CLAIMED) ?ts" and ?rs = "filter (\<lambda>t. tk_status t = TASK_RUNNING) ?ts"
  define I where "I us c \<longleftrightarrow> cycle_inv env ?n K (us @ ?rs) c \<and> (\<forall>t \<in> set us. tk_status t = TASK_CLAIMED)" for us c
  define J where "J us c \<longleftrightarrow> cycle_inv env ?n K us c \<and> (\<forall>t \<in> set us. tk_status t = TASK_RUNNING)" for us c
  have "distinct (?cs @ ?rs)" "set (?cs @ ?rs) \<subseteq> set ?ts" "inj_on task_identity (set ?ts)"
    using c(3) by (auto simp: distinct_map)
  then have "distinct (map task_identity (?cs @ ?rs))"
    unfolding distinct_map by (blast intro: inj_on_subset)
  moreover have "task_identity ` K \<inter> task_identity ` set (?cs @ ?rs) = {}"
  proof (rule ccontr)
    assume "task_identity ` K \<inter> task_identity ` set (?cs @ ?rs) \<noteq> {}"
    then obtain x y where xy: "x \<in> K" "y \<in> set (?cs @ ?rs)" "task_identity x = task_identity y" by blast
    then have "x = y" using c(5) \<open>inj_on task_identity (set ?ts)\<close> by (auto dest!: inj_onD)
    then show False using xy(1,2) c(6) by (auto simp: active_task_def)
  qed
  ultimately have I0: "I ?cs c"
    using c by (auto simp: I_def cycle_inv_def)
  have IE: "wp (claimed_body env x) (\<lambda>_. I rest) (stop_inv env ?n K) d" if "I (x # rest) d" for x rest d
    using that wp_claimed [of env ?n K x "rest @ ?rs" d] by (auto simp: I_def elim: wp_mono)
  have JE: "wp (running_body env x) (\<lambda>_. J rest) (stop_inv env ?n K) d" if "J (x # rest) d" for x rest d
    using that wp_running [of env ?n K x rest d] by (auto simp: J_def elim: wp_mono)
  have J: "J ?rs d" if "I [] d" for d using that by (simp add: I_def J_def)
  have last: "wp (admissions env) (\<lambda>_ d. stop_inv env ?n K d \<and> (\<forall>t \<in> set (stored_tasks (cy_file d)). tk_status t \<noteq> TASK_CLAIMED))
      (stop_inv env ?n K) d" if "J [] d" for d
    using that wp_admissions [of env K d]
    by (auto simp: J_def elim!: wp_mono intro: cycle_inv_stop) (auto simp: cycle_inv_def)
  show ?thesis
    using False
    by (simp add: cycle_body_def)
      (rule wp_mono [OF wp_each [where I = I, OF I0 IE]],
       assumption,
       rule wp_mono [OF wp_each [where I = J, OF J JE]], assumption, assumption, erule last)
qed

end
