(* ===== verification/Dispatch_Properties.thy ===== *)
theory Dispatch_Properties
  imports Dispatch_Safety
begin

text \<open>
  The dispatcher over its whole life: every state that creation, cycles, mode changes, circuit resets
  and restarts can reach (\<open>dispatcher_reachable\<close>), and the properties that hold in all of them.
\<close>

section \<open>Reachable dispatchers\<close>

inductive dispatcher_reachable :: "dispatch_env \<Rightarrow> dispatcher \<Rightarrow> bool" for env where
  created: "createAutonomousDispatcherV4 env ok NO_FILE = Inr d \<Longrightarrow> dispatcher_reachable env d"
| restarted: "dispatcher_reachable env d \<Longrightarrow> createAutonomousDispatcherV4 env ok (di_file d) = Inr d' \<Longrightarrow>
    dispatcher_reachable env d'"
| cycled: "dispatcher_reachable env d \<Longrightarrow> dispatcher_reachable env (fst (runCycle env d))"
| moded: "dispatcher_reachable env d \<Longrightarrow> dispatcher_reachable env (fst (setMode env mode d))"
| rearmed: "dispatcher_reachable env d \<Longrightarrow> dispatcher_reachable env (fst (resetCircuit env d))"

definition dispatcher_inv :: "dispatch_env \<Rightarrow> dispatcher \<Rightarrow> bool" where
  "dispatcher_inv env d = (\<not> di_running d \<and> active_count (stored_tasks (di_file d)) \<le> max_active env \<and>
     log_ok env (di_log d))"

lemma parse_task_Inr:
  "parse_task S t = Inr S' \<longleftrightarrow> task_fields_ok t \<and> task_lifecycle_ok t \<and> task_identity t \<notin> S \<and>
     S' = insert (task_identity t) S"
  by (auto simp: parse_task_def)

lemma parse_tasks_Inr:
  assumes "foldR parse_task S ts = Inr S'"
  shows "distinct (map task_identity ts) \<and> task_identity ` set ts \<inter> S = {} \<and>
    list_all task_fields_ok ts \<and> list_all task_lifecycle_ok ts"
  using assms
proof (induction ts arbitrary: S)
  case (Cons t ts)
  then obtain "task_fields_ok t" "task_lifecycle_ok t" "task_identity t \<notin> S"
    and "foldR parse_task (insert (task_identity t) S) ts = Inr S'" by (auto simp: parse_task_Inr)
  then show ?case using Cons.IH by fastforce
qed simp

lemma readState_Inr:
  assumes "readState env f = Inr e"
  shows "stored_tasks f = ds_tasks (en_state e)" and "distinct (map task_identity (ds_tasks (en_state e)))"
    and "list_all task_lifecycle_ok (ds_tasks (en_state e))"
proof -
  have "(f = NO_FILE \<and> e = envelope env initialState) \<or> (f = STORED e \<and> (\<exists>S. foldR parse_task {} (ds_tasks (en_state e)) = Inr S))"
    using assms by (cases f) (auto simp: readState_def parseState_def)
  then show "stored_tasks f = ds_tasks (en_state e)" "distinct (map task_identity (ds_tasks (en_state e)))"
    "list_all task_lifecycle_ok (ds_tasks (en_state e))"
    by (auto simp: stored_tasks_def envelope_def initialState_def dest!: parse_tasks_Inr)
qed

text \<open>What an operation has to establish from a state that was just read.\<close>

lemma operation_wp:
  assumes "dispatcher_inv env d"
    and "\<And>c e. readState env (di_file d) = Inr e \<Longrightarrow> c = entered d e \<Longrightarrow> stored_tasks (cy_file c) = ds_tasks (current c) \<Longrightarrow>
      active_count (ds_tasks (current c)) \<le> max_active env \<Longrightarrow> distinct (map task_identity (ds_tasks (current c))) \<Longrightarrow>
      log_ok env (cy_log c) \<Longrightarrow> wp m (\<lambda>_ c. P (cy_file c) (cy_log c)) (\<lambda>c. P (cy_file c) (cy_log c)) c"
    and "P (di_file d) (di_log d)"
  shows "P (di_file (fst (operation env m d))) (di_log (fst (operation env m d)))
    \<and> \<not> di_running (fst (operation env m d))"
proof (cases "readState env (di_file d)")
  case (Inl e)
  then show ?thesis using assms by (simp add: operation_def dispatcher_inv_def)
next
  case (Inr e)
  let ?c = "entered d e"
  have "wp m (\<lambda>_ c. P (cy_file c) (cy_log c)) (\<lambda>c. P (cy_file c) (cy_log c)) ?c"
    using readState_Inr [OF Inr] assms(1)
    by (intro assms(2) [OF Inr]) (simp_all add: entered_def current_def dispatcher_inv_def)
  then show ?thesis
    using Inr assms(1) by (auto simp: operation_def dispatcher_inv_def wp_def split: prod.splits sum.splits)
qed

lemma operation_inv:
  assumes "dispatcher_inv env d"
    and "\<And>c. stored_tasks (cy_file c) = ds_tasks (current c) \<Longrightarrow> active_count (ds_tasks (current c)) \<le> max_active env \<Longrightarrow>
      distinct (map task_identity (ds_tasks (current c))) \<Longrightarrow> log_ok env (cy_log c) \<Longrightarrow>
      wp m (\<lambda>_. stop_inv env (max_active env) {}) (stop_inv env (max_active env) {}) c"
  shows "dispatcher_inv env (fst (operation env m d))"
proof -
  let ?P = "\<lambda>f h. active_count (stored_tasks f) \<le> max_active env \<and> log_ok env h"
  have "?P (di_file (fst (operation env m d))) (di_log (fst (operation env m d)))
    \<and> \<not> di_running (fst (operation env m d))"
    by (rule operation_wp [OF assms(1), where P = ?P])
      (use assms(1) in \<open>auto simp: dispatcher_inv_def stop_inv_def elim!: wp_mono [OF assms(2)]\<close>)
  then show ?thesis by (simp add: dispatcher_inv_def)
qed

lemma wp_store_same_tasks:
  assumes "stored_tasks (cy_file c) = ds_tasks (current c)" "active_count (ds_tasks (current c)) \<le> n"
    "distinct (map task_identity (ds_tasks (current c)))" "log_ok env (cy_log c)" "K \<subseteq> set (ds_tasks (current c))"
    and "\<And>st. ds_tasks (f st) = ds_tasks st"
  shows "wp (store env f) (\<lambda>_. stop_inv env n K) (stop_inv env n K) c"
  using assms
  by (auto simp: store_def stop_inv_def Let_def current_def envelope_def stored_tasks_def call_ok_def split: write_answer.splits)

lemma stop_now:
  "stored_tasks (cy_file c) = ds_tasks (current c) \<Longrightarrow> active_count (ds_tasks (current c)) \<le> n \<Longrightarrow>
   distinct (map task_identity (ds_tasks (current c))) \<Longrightarrow> log_ok env (cy_log c) \<Longrightarrow>
   K \<subseteq> set (ds_tasks (current c)) \<Longrightarrow> stop_inv env n K c"
  by (simp add: stop_inv_def)

lemma reachable_inv: "dispatcher_reachable env d \<Longrightarrow> dispatcher_inv env d"
proof (induction rule: dispatcher_reachable.induct)
  case (created ok d)
  then show ?case
    by (auto simp: createAutonomousDispatcherV4_def dispatcher_inv_def stored_tasks_def active_count_def)
next
  case (restarted d ok d')
  then show ?case by (auto simp: createAutonomousDispatcherV4_def dispatcher_inv_def)
next
  case (cycled d)
  show ?case unfolding runCycle_def
    by (rule operation_inv [OF cycled.IH]) (simp, rule wp_mono [OF wp_cycle [where K = "{}"]], simp_all)
next
  case (moded d mode)
  show ?case unfolding setMode_def
    by (rule operation_inv [OF moded.IH])
      (simp add: stop_now wp_store_same_tasks split: sum.split)
next
  case (rearmed d)
  show ?case unfolding resetCircuit_def
    by (rule operation_inv [OF rearmed.IH])
      (simp add: stop_now wp_store_same_tasks split: sum.split)
qed

lemma reachable_policy:
  "dispatcher_reachable env d \<Longrightarrow> 1 \<le> dp_max_active_tasks (de_policy env) \<and> dp_max_active_tasks (de_policy env) \<le> 32"
  by (induction rule: dispatcher_reachable.induct)
    (auto simp: createAutonomousDispatcherV4_def validatePolicy_def int_between_def)

section \<open>Draining\<close>

fun admits :: "port_call \<Rightarrow> bool" where
  "admits (LIST_CANDIDATES cursor limit) = True"
| "admits (CLAIM a b d e) = True"
| "admits _ = False"

text \<open>The dispatcher drains and has admitted nothing since the log was \<open>h\<close>.\<close>

definition draining :: "port_log \<Rightarrow> cycle \<Rightarrow> bool" where
  "draining h c = (ds_mode (current c) = MODE_DRAINING \<and>
     (\<exists>new. cy_log c = new @ h \<and> list_all (\<lambda>(f, p). \<not> admits p) new))"

lemma draining_call: "draining h c \<Longrightarrow> \<not> admits p \<Longrightarrow> draining h (c\<lparr>cy_log := (f, p) # cy_log c\<rparr>)"
  unfolding draining_def current_def by clarsimp

lemma keeps_port [keeps_rules]: "\<not> admits p \<Longrightarrow> keeps (draining h) (port p answer)"
  by (rule keepsI) (simp add: draining_call split: sum.split)

lemma keeps_bump [keeps_rules]: "keeps (draining h) (bump f)"
  by (rule keepsI) (simp add: draining_def current_def)

lemma keeps_store [keeps_rules]:
  assumes "\<And>st. ds_mode (f st) = ds_mode st"
  shows "keeps (draining h) (store env f)"
proof (rule keepsI)
  fix c assume d: "draining h c"
  note d' = draining_call [OF d, of "WRITE (f (current c))" "cy_file c", simplified]
  show "wp (store env f) (\<lambda>_. draining h) (draining h) c"
    using d' by (simp add: store_def Let_def draining_def current_def envelope_def assms split: write_answer.split)
qed

lemma mode_kept [simp]:
  "ds_mode (replaceTask st r) = ds_mode st" "ds_mode (failure_state env t st) = ds_mode st"
  "ds_mode (st\<lparr>ds_consecutive_failures := k\<rparr>) = ds_mode st"
  by (simp_all add: replaceTask_def failure_state_def Let_def)

lemma keeps_verification [keeps_rules]:
  "(\<And>h. keeps P (k h)) \<Longrightarrow> (\<And>f h. keeps P (l f h)) \<Longrightarrow>
   keeps P (case v of VERIFY_PASS h \<Rightarrow> k h | VERIFY_FAIL f h \<Rightarrow> l f h)"
  by (cases v) simp_all

lemma keeps_parts [keeps_rules]:
  "keeps (draining h) (renew_lease env t)"
  "keeps (draining h) (lose_task env x t)"
  "keeps (draining h) (start_run env req)"
  "keeps (draining h) (settle_failed env t run expires r)"
  "keeps (draining h) (settle_finalized env t run expires r)"
  by (auto simp only: renew_lease_def lease_expiry_def lose_task_def start_run_def settle_failed_def settle_finalized_def
      admits.simps not_False_eq_True mode_kept dispatch_state.simps intro!: keeps_rules)

lemma keeps_bodies:
  "keeps (draining h) (claimed_body env t)" "keeps (draining h) (running_body env t)"
  by (auto simp only: claimed_body_def running_body_def admits.simps not_False_eq_True mode_kept intro!: keeps_rules)

lemma draining_cycle:
  assumes "draining h c"
  shows "draining h (fst (cycle_body env c))"
proof -
  have "keeps (draining h) (admissions env)"
    by (rule keepsI) (simp add: admissions_def capacity_def draining_def)
  then have "keeps (draining h) (cycle_body env)"
    unfolding cycle_body_def by (intro keeps_rules keeps_bodies)
  then show ?thesis using assms by (rule keepsD)
qed

section \<open>A lost claim\<close>

text \<open>A state with a settled task that was never started: no operation can read it.\<close>

definition poisoned :: "dispatch_file \<Rightarrow> bool" where
  "poisoned f = (\<exists>t \<in> set (stored_tasks f). tk_status t \<noteq> TASK_CLAIMED \<and> tk_run_id t = None)"

lemma poisoned_unreadable:
  assumes "poisoned f"
  shows "\<exists>e. readState env f = Inl e"
proof (cases "readState env f")
  case (Inr e)
  from assms show ?thesis
    using readState_Inr(1,3) [OF Inr] by (auto simp: poisoned_def task_lifecycle_ok_def list_all_iff)
qed simp

lemma poisoned_operation: "poisoned (di_file d) \<Longrightarrow> \<exists>e. operation env m d = (d, Inl e)"
  using poisoned_unreadable [of "di_file d" env] by (auto simp: operation_def)

lemma lost_claim_poisons:
  assumes t: "t \<in> set (ds_tasks (current c))" "tk_run_id t = None"
  shows "wp (claimed_body env t)
    (\<lambda>_ d. cn_failed (cy_counters d) \<noteq> cn_failed (cy_counters c) \<longrightarrow> poisoned (cy_file d)) (\<lambda>_. True) c"
proof -
  have poison: "poisoned (STORED (envelope env (failure_state env (lost_task env x t) st)))"
    if "t \<in> set (ds_tasks st)" for x st
  proof -
    have "lost_task env x t \<in> set (ds_tasks (failure_state env (lost_task env x t) st))"
      using that by (force simp: failure_state_def tasks_replaceTask Let_def lost_task_def task_identity_def)
    then show ?thesis
      using t(2) by (auto simp: poisoned_def stored_tasks_def envelope_def lost_task_def intro!: bexI [of _ "lost_task env x t"])
  qed
  show ?thesis
    using poison t
    by (auto simp: claimed_body_def renew_lease_def lease_expiry_def lose_task_def start_run_def store_def Let_def
        current_def envelope_def case_prod_beta' split: sum.split write_answer.split)
qed

section \<open>The failure counter\<close>

lemma replaceTask_counters [simp]:
  "ds_consecutive_failures (replaceTask st r) = ds_consecutive_failures st"
  "ds_circuit_open (replaceTask st r) = ds_circuit_open st"
  by (simp_all add: replaceTask_def)

text \<open>Every way a running task can go, from a property \<open>P\<close> that calls do not touch.\<close>

lemma wp_running_split:
  assumes "P c"
    and "\<And>d h. P d \<Longrightarrow> P (d\<lparr>cy_log := h\<rparr>)"
    and "\<And>d n. P d \<Longrightarrow> P (d\<lparr>cy_counters := (cy_counters d)\<lparr>cn_resumed := n\<rparr>\<rparr>)"
    and "\<And>d x. P d \<Longrightarrow> wp (lose_task env x t) (\<lambda>_. Q) (\<lambda>_. True) d"
    and "\<And>d run x r. P d \<Longrightarrow> wp (settle_failed env t run x r) (\<lambda>_. Q) (\<lambda>_. True) d"
    and "\<And>d run x r. P d \<Longrightarrow> wp (settle_finalized env t run x r) (\<lambda>_. Q) (\<lambda>_. True) d"
    and "\<And>d r. P d \<Longrightarrow> wp (store env (\<lambda>st. replaceTask st r)) (\<lambda>_. Q) (\<lambda>_. True) d"
  shows "wp (running_body env t) (\<lambda>_. Q) (\<lambda>_. True) c"
proof (cases "tk_run_id t")
  case (Some run)
  let ?finish = "\<lambda>expires r. if rr_state r = ''FAILED'' \<or> rr_state r = ''ABORTED'' then settle_failed env t run expires r
          else if rr_state r = ''FINALIZED'' then settle_finalized env t run expires r
          else store env (\<lambda>st. replaceTask st (t\<lparr>tk_lease_expires_at := expires\<rparr>))"
  let ?k = "\<lambda>expires. ioBind (port (RESUME run) (de_resume env)) (\<lambda>supplied.
          ioBind (ioLift (resumed_result env t run supplied)) (\<lambda>r.
          ioBind (bump (\<lambda>n. n\<lparr>cn_resumed := cn_resumed n + 1\<rparr>)) (\<lambda>_. ?finish expires r)))"
  have finish: "wp (?finish x r) (\<lambda>_. Q) (\<lambda>_. True) d" if "P d" for x r d
    using assms(5-7) [OF that] by simp
  have resume: "wp (?k x) (\<lambda>_. Q) (\<lambda>_. True) d" if "P d" for x d
    unfolding wp_bind wp_port wp_lift wp_bump using finish [OF assms(3) [OF assms(2) [OF that]]]
    by (simp split: sum.split del: wp_if)
  have renew: "wp (renew_lease env t) (\<lambda>_. P) (\<lambda>_. True) c"
    using assms(1,2) by (simp add: renew_lease_def lease_expiry_def split: sum.split)
  have "wp (ioBind (renew_lease env t) (\<lambda>(renewed, expires). if \<not> renewed then lose_task env ''LOST_WHILE_RUNNING'' t
      else ?k expires)) (\<lambda>_. Q) (\<lambda>_. True) c"
    unfolding wp_bind
  proof (rule wp_mono [OF renew])
    fix r :: "bool \<times> string" and d assume "P d"
    then show "wp (case r of (renewed, x) \<Rightarrow> if \<not> renewed then lose_task env ''LOST_WHILE_RUNNING'' t else ?k x)
        (\<lambda>_. Q) (\<lambda>_. True) d"
      using assms(4) resume by (cases r) auto
  qed simp
  then show ?thesis using Some by (simp only: running_body_def option.case)
qed (simp add: running_body_def)

lemma completed_task_resets:
  "wp (running_body env t) (\<lambda>_ d. cn_completed (cy_counters d) \<noteq> cn_completed (cy_counters c) \<longrightarrow>
     ds_consecutive_failures (current d) = 0) (\<lambda>_. True) c"
  by (rule wp_running_split [where P = "\<lambda>d. cn_completed (cy_counters d) = cn_completed (cy_counters c)"])
    (simp_all add: lose_task_def settle_failed_def settle_finalized_def store_def current_def envelope_def Let_def
      split: option.split sum.split write_answer.split verification.split)

lemma failed_task_counts:
  "wp (running_body env t) (\<lambda>_ d. cn_failed (cy_counters d) \<noteq> cn_failed (cy_counters c) \<longrightarrow>
     ds_consecutive_failures (current d) = ds_consecutive_failures (current c) + 1 \<and>
     ds_circuit_open (current d) = (ds_consecutive_failures (current c) + 1 \<ge> dp_max_consecutive_failures (de_policy env)))
     (\<lambda>_. True) c"
  by (rule wp_running_split [where P = "\<lambda>d. cn_failed (cy_counters d) = cn_failed (cy_counters c) \<and>
       ds_consecutive_failures (current d) = ds_consecutive_failures (current c)"])
    (simp_all add: lose_task_def settle_failed_def settle_finalized_def store_def current_def envelope_def Let_def
      failure_state_def split: option.split sum.split write_answer.split verification.split)

section \<open>Properties\<close>

text \<open>
  C17. Nothing runs without durable authority: in every reachable history, a request is started only
  while the state file holds its claim, with a lease granted or renewed just before, for a repository
  the policy allows, and with the very bytes that were claimed; a run is resumed only for a running
  task of the file whose lease was just renewed.
\<close>
theorem starts_are_claimed:
  assumes "dispatcher_reachable env d" and "di_log d = newer @ (f, p) # older"
  shows "(\<forall>req. p = START req \<longrightarrow> (\<exists>t \<in> set (stored_tasks f). tk_status t = TASK_CLAIMED \<and>
      tk_request_hash t = de_request_hash env req \<and> tk_request_id t = tr_request_id req \<and>
      runtimeTaskRequestV4Schema req \<and> tr_repository_id req \<in> set (dp_allowed_repository_ids (de_policy env)) \<and>
      recently_granted env t older)) \<and>
    (\<forall>run. p = RESUME run \<longrightarrow> (\<exists>t \<in> set (stored_tasks f). tk_status t = TASK_RUNNING \<and> tk_run_id t = Some run \<and>
      recently_granted env t older))"
proof -
  have "log_ok env (di_log d)" using reachable_inv [OF assms(1)] by (simp add: dispatcher_inv_def)
  then have "call_ok env f older p" using assms(2) log_ok_at by simp
  then show ?thesis by (auto simp: call_ok_def start_ok_def run_of_def)
qed

text \<open>
  C18. A source task is closed only on a verified merge: whenever the dispatcher reports completion,
  the task is running in the state file, the runtime has just returned that run as finalized and
  merged at that commit, and the post-merge verifier has passed exactly that commit with exactly that
  evidence.
\<close>
theorem completion_is_verified:
  assumes "dispatcher_reachable env d" and "di_log d = newer @ (f, COMPLETE cand rv run sha h) # older"
  shows "\<exists>t \<in> set (stored_tasks f). tk_candidate_id t = cand \<and> tk_revision t = rv \<and> tk_status t = TASK_RUNNING \<and>
    tk_run_id t = Some run \<and> is_hash h \<and>
    (\<exists>f1 f2 rest r. older = (f1, VERIFY (tk_repository_id t) run sha) # (f2, RESUME run) # rest \<and>
       de_verify env older = Inr (VERIFY_PASS h) \<and> de_resume env ((f2, RESUME run) # rest) = Inr r \<and>
       rr_run_id r = run \<and> rr_request_id r = tk_request_id t \<and> rr_state r = ''FINALIZED'' \<and>
       pu_state (rr_publication r) = MERGED \<and> pu_merge_commit_sha (rr_publication r) = Some sha)"
proof -
  have "log_ok env (di_log d)" using reachable_inv [OF assms(1)] by (simp add: dispatcher_inv_def)
  then have "call_ok env f older (COMPLETE cand rv run sha h)" using assms(2) log_ok_at by simp
  then obtain t f1 where t: "is_hash h" "run_of (stored_tasks f) run t" "task_identity t = (cand, rv)"
    and v: "\<exists>rest. older = (f1, VERIFY (tk_repository_id t) run sha) # rest \<and> de_verify env older = Inr (VERIFY_PASS h) \<and>
      merged_run env rest t run sha"
    by (auto simp: call_ok_def settle_ok_def)
  from v show ?thesis
    using t by (intro bexI [of _ t]) (auto simp: run_of_def task_identity_def merged_run_def)
qed

text \<open>
  C19. The dispatcher never holds more active tasks than its policy allows, whatever its ports answer,
  wherever an operation fails and however often it is restarted.
\<close>
theorem active_tasks_bounded:
  assumes "dispatcher_reachable env d"
  shows "int (active_count (stored_tasks (di_file d))) \<le> dp_max_active_tasks (de_policy env) \<and>
    dp_max_active_tasks (de_policy env) \<le> 32"
  using reachable_inv [OF assms] reachable_policy [OF assms] by (simp add: dispatcher_inv_def le_nat_iff)

text \<open>
  C20. Every claim is acted on: a completed cycle of a dispatcher that is not paused leaves no task
  merely claimed; tasks that had already ended keep their record unchanged in every cycle, completed
  or not.
\<close>
theorem claims_are_resolved:
  assumes "dispatcher_reachable env d" and "readState env (di_file d) = Inr e" and "runCycle env d = (d', r)"
  shows "(is_ok r \<and> ds_mode (en_state e) \<noteq> MODE_PAUSED \<longrightarrow> (\<forall>t \<in> set (stored_tasks (di_file d')). tk_status t \<noteq> TASK_CLAIMED)) \<and>
    (\<forall>t \<in> set (stored_tasks (di_file d)). \<not> active_task t \<longrightarrow> t \<in> set (stored_tasks (di_file d')))"
proof -
  let ?c = "entered d e" and ?K = "{t \<in> set (ds_tasks (en_state e)). \<not> active_task t}"
  note inv = reachable_inv [OF assms(1), unfolded dispatcher_inv_def] and rd = readState_Inr [OF assms(2)]
  have "wp (cycle_body env) (\<lambda>_ d. stop_inv env (max_active env) ?K d \<and>
      (ds_mode (current ?c) \<noteq> MODE_PAUSED \<longrightarrow> (\<forall>t \<in> set (stored_tasks (cy_file d)). tk_status t \<noteq> TASK_CLAIMED)))
    (stop_inv env (max_active env) ?K) ?c"
    using inv rd by (intro wp_cycle) (auto simp: entered_def current_def)
  then show ?thesis
    using assms(2,3) inv rd(1)
    by (auto simp: runCycle_def operation_def ioBind_def ioGet_def wp_def stop_inv_def entered_def current_def
        split: prod.splits sum.splits)
qed

text \<open>
  The mode is obeyed: a paused dispatcher calls no port and writes nothing in a cycle; a draining
  one neither lists nor claims candidates.
\<close>
theorem mode_is_respected:
  assumes "dispatcher_reachable env d" and "readState env (di_file d) = Inr e"
  shows "(ds_mode (en_state e) = MODE_PAUSED \<longrightarrow> fst (runCycle env d) = d) \<and>
    (ds_mode (en_state e) = MODE_DRAINING \<longrightarrow>
      (\<exists>new. di_log (fst (runCycle env d)) = new @ di_log d \<and> (\<forall>(f, p) \<in> set new. \<not> admits p)))"
proof -
  have idle: "\<not> di_running d" using reachable_inv [OF assms(1)] by (simp add: dispatcher_inv_def)
  have "fst (runCycle env d) = d" if "ds_mode (en_state e) = MODE_PAUSED"
    using that assms(2) idle
    by (simp add: runCycle_def operation_def cycle_body_def ioBind_def ioGet_def ioRet_def current_def entered_def)
  moreover have "draining (di_log d) (fst (cycle_body env (entered d e)))" if "ds_mode (en_state e) = MODE_DRAINING"
    by (rule draining_cycle) (simp add: draining_def entered_def current_def that)
  ultimately show ?thesis
    using assms(2) idle
    by (auto simp: runCycle_def operation_def ioBind_def ioGet_def draining_def list_all_iff split: prod.splits sum.splits)
qed

text \<open>
  C21. Losing the lease of a claimed task breaks the dispatcher for good: the task is stored as failed
  without a run, which the reader of the state file rejects, so that from then on cycles, mode
  changes, circuit resets and the status all fail and nothing can repair the file.
\<close>
theorem lost_claim_breaks_dispatcher:
  assumes "t \<in> set (ds_tasks (current c))" and "tk_run_id t = None"
    and "claimed_body env t c = (c', Inr ())" and "cn_failed (cy_counters c') \<noteq> cn_failed (cy_counters c)"
    and "di_file d = cy_file c'"
  shows "(\<exists>e. runCycle env d = (d, Inl e)) \<and> (\<exists>e. setMode env mode d = (d, Inl e)) \<and>
    (\<exists>e. resetCircuit env d = (d, Inl e)) \<and> (\<exists>e. dispatcher_status env d = Inl e)"
proof -
  have "poisoned (di_file d)"
    using wp_result [OF lost_claim_poisons [OF assms(1,2)] assms(3)] assms(4,5) by simp
  note p = poisoned_operation [OF this] and q = poisoned_unreadable [OF this, of env]
  show ?thesis
    using q by (auto simp: runCycle_def setMode_def resetCircuit_def dispatcher_status_def p)
qed

text \<open>
  An open circuit closes by itself: when, within a cycle, one running task completes and a later one
  fails, the circuit is closed afterwards, also if it was open before and nobody reset it, unless a
  single failure suffices to open it.
\<close>
theorem circuit_closes_without_reset:
  assumes "running_body env t c = (c1, Inr ())" and "cn_completed (cy_counters c1) \<noteq> cn_completed (cy_counters c)"
    and "running_body env t' c1 = (c2, Inr ())" and "cn_failed (cy_counters c2) \<noteq> cn_failed (cy_counters c1)"
    and "2 \<le> dp_max_consecutive_failures (de_policy env)"
  shows "\<not> ds_circuit_open (current c2) \<and> ds_consecutive_failures (current c2) = 1"
  using completed_task_resets [THEN wp_result, OF assms(1)] failed_task_counts [THEN wp_result, OF assms(3)] assms(2,4,5)
  by simp

end
