(* ===== verification/Dispatch_Samples.thy ===== *)
theory Dispatch_Samples
  imports Dispatch_Properties Samples
begin

text \<open>
  A dispatcher with concrete ports: one authorised issue is claimed and started in a first cycle, and
  its merged run is verified and settled in a second one. The properties are applied to it.
\<close>

definition sample_dispatch_policy :: dispatch_policy where
  "sample_dispatch_policy = \<lparr>dp_allowed_sources = [GITHUB_ISSUE], dp_allowed_repository_ids = [''repo''],
     dp_required_labels = [''ready''], dp_max_active_tasks = 2, dp_max_claims_per_cycle = 1,
     dp_lease_seconds = 300, dp_max_consecutive_failures = 2, dp_require_merged_publication = True\<rparr>"

definition sample_candidate :: task_candidate where
  "sample_candidate = \<lparr>ca_source = GITHUB_ISSUE, ca_candidate_id = ''issue/1'', ca_revision = hash_of CHR ''1'',
     ca_repository_id = ''repo'', ca_authorization_labels = [''ready''], ca_request = sample_request\<rparr>"

definition sample_merge :: string where
  "sample_merge = replicate 40 CHR ''d''"

definition merged_result :: runtime_result where
  "merged_result = sample_result\<lparr>rr_state := ''FINALIZED'',
     rr_publication := sample_publication\<lparr>pu_state := MERGED, pu_merge_commit_sha := Some sample_merge\<rparr>\<rparr>"

definition failed_result :: runtime_result where
  "failed_result = sample_result\<lparr>rr_run_id := ''run_fedcba9876543210'', rr_state := ''FAILED'',
     rr_failure := Some \<lparr>rf_code = F_ABORTED, rf_message = ''x'', rf_retryable = False, rf_evidence_hashes = []\<rparr>\<rparr>"

definition sample_dispatch_env :: dispatch_env where
  "sample_dispatch_env = \<lparr>de_policy = sample_dispatch_policy, de_state_hash = const_hash CHR ''5'',
     de_request_hash = const_hash CHR ''6'', de_lost_hash = const_hash CHR ''7'', de_url_ok = all_urls,
     de_now = (\<lambda>_. ''2026-01-01T00:00:00.000Z''), de_lease_id = (\<lambda>_. ''lease_0123456789abcdef''),
     de_load = (\<lambda>_. Inr (Some sample_candidate)), de_renew = (\<lambda>_. Inr True), de_claim = (\<lambda>_. Inr CLAIM_GRANTED),
     de_list = (\<lambda>_. Inr ([sample_candidate], None)), de_start = (\<lambda>_. Inr sample_result),
     de_resume = (\<lambda>h. Inr (case snd (hd h) of RESUME run \<Rightarrow>
       if run = rr_run_id failed_result then failed_result else merged_result | _ \<Rightarrow> sample_result)),
     de_verify = (\<lambda>_. Inr (VERIFY_PASS (hash_of CHR ''9''))), de_settle = (\<lambda>_. Inr ()), de_write = (\<lambda>_. WRITTEN)\<rparr>"

text \<open>The states of the file, the logs and the dispatchers in between.\<close>

definition sample_task :: "task_status \<Rightarrow> string option \<Rightarrow> string option \<Rightarrow> stored_task" where
  "sample_task status run evidence = \<lparr>tk_candidate_id = ''issue/1'', tk_revision = hash_of CHR ''1'',
     tk_repository_id = ''repo'', tk_request_id = ''req_0123456789abcdef'', tk_request_hash = hash_of CHR ''6'',
     tk_run_id = run, tk_status = status, tk_consecutive_failures = 0, tk_lease_id = ''lease_0123456789abcdef'',
     tk_lease_expires_at = ''2026-01-01T00:05:00.000Z'', tk_last_evidence_hash = evidence\<rparr>"

definition sample_state :: "dispatcher_mode \<Rightarrow> stored_task list \<Rightarrow> dispatch_state" where
  "sample_state mode tasks = \<lparr>ds_mode = mode, ds_cursor = None, ds_circuit_open = False,
     ds_consecutive_failures = 0, ds_tasks = tasks\<rparr>"

definition sample_file :: "stored_task list \<Rightarrow> dispatch_file" where
  "sample_file tasks = STORED \<lparr>en_state = sample_state MODE_RUNNING tasks, en_state_hash = hash_of CHR ''5''\<rparr>"

abbreviation sample_run :: string where "sample_run \<equiv> ''run_0123456789abcdef''"
abbreviation sample_lease :: string where "sample_lease \<equiv> ''lease_0123456789abcdef''"
abbreviation sample_expiry :: string where "sample_expiry \<equiv> ''2026-01-01T00:05:00.000Z''"

definition claimed_task :: stored_task where "claimed_task = sample_task TASK_CLAIMED None None"
definition running_task :: stored_task where "running_task = sample_task TASK_RUNNING (Some sample_run) None"
definition completed_task :: stored_task where
  "completed_task = sample_task TASK_COMPLETED (Some sample_run) (Some (hash_of CHR ''9''))"

definition rearmed_log :: port_log where
  "rearmed_log = [(NO_FILE, WRITE (sample_state MODE_RUNNING []))]"

definition claimed_log :: port_log where
  "claimed_log = (sample_file [], WRITE (sample_state MODE_RUNNING [claimed_task])) #
     (sample_file [], CLAIM ''issue/1'' (hash_of CHR ''1'') sample_lease sample_expiry) #
     (sample_file [], LIST_CANDIDATES None 1) # rearmed_log"

definition started_log :: port_log where
  "started_log = (sample_file [claimed_task], WRITE (sample_state MODE_RUNNING [running_task])) #
     (sample_file [claimed_task], START sample_request) # claimed_log"

definition verified_log :: port_log where
  "verified_log = (sample_file [running_task], VERIFY ''repo'' sample_run sample_merge) #
     (sample_file [running_task], RESUME sample_run) #
     (sample_file [running_task], RENEW ''issue/1'' (hash_of CHR ''1'') sample_lease sample_expiry) # started_log"

definition settled_log :: port_log where
  "settled_log = [(sample_file [completed_task], LIST_CANDIDATES None 1),
     (sample_file [running_task], WRITE (sample_state MODE_RUNNING [completed_task]))]"

definition fresh_dispatcher :: dispatcher where
  "fresh_dispatcher = \<lparr>di_file = NO_FILE, di_running = False, di_log = []\<rparr>"

definition sample_dispatcher :: "stored_task list \<Rightarrow> port_log \<Rightarrow> dispatcher" where
  "sample_dispatcher tasks h = \<lparr>di_file = sample_file tasks, di_running = False, di_log = h\<rparr>"

definition complete_call :: "dispatch_file \<times> port_call" where
  "complete_call = (sample_file [running_task], COMPLETE ''issue/1'' (hash_of CHR ''1'') sample_run sample_merge (hash_of CHR ''9''))"

lemma sample_created: "createAutonomousDispatcherV4 sample_dispatch_env True NO_FILE = Inr fresh_dispatcher"
  by code_simp

lemma sample_armed: "fst (setMode sample_dispatch_env MODE_RUNNING fresh_dispatcher) = sample_dispatcher [] rearmed_log"
  by code_simp

definition started_report :: cycle_report where
  "started_report = \<lparr>cn_scanned = 1, cn_claimed = 1, cn_started = 1, cn_resumed = 0, cn_completed = 0, cn_reopened = 0,
     cn_failed = 0, cn_skipped = 0, cr_circuit_open = False, cr_state_hash = hash_of CHR ''5''\<rparr>"

lemma sample_started: "runCycle sample_dispatch_env (sample_dispatcher [] rearmed_log) =
    (sample_dispatcher [running_task] started_log, Inr started_report)"
  by code_simp

lemma sample_settled: "fst (runCycle sample_dispatch_env (sample_dispatcher [running_task] started_log)) =
    sample_dispatcher [completed_task] (settled_log @ complete_call # verified_log)"
  by code_simp

lemma sample_reachable:
  "dispatcher_reachable sample_dispatch_env (sample_dispatcher [] rearmed_log)"
  "dispatcher_reachable sample_dispatch_env (sample_dispatcher [running_task] started_log)"
  "dispatcher_reachable sample_dispatch_env (sample_dispatcher [completed_task] (settled_log @ complete_call # verified_log))"
  using cycled [OF cycled [OF moded [OF created [OF sample_created], of MODE_RUNNING]]]
    cycled [OF moded [OF created [OF sample_created], of MODE_RUNNING]] moded [OF created [OF sample_created], of MODE_RUNNING]
  by (simp_all add: sample_armed sample_started sample_settled)

section \<open>Witnesses\<close>

theorem starts_are_claimed_witness:
  "\<exists>t \<in> set [claimed_task]. tk_request_hash t = de_request_hash sample_dispatch_env sample_request \<and>
     recently_granted sample_dispatch_env t claimed_log"
  using starts_are_claimed [OF sample_reachable(2), of "take 1 started_log" "sample_file [claimed_task]"
      "START sample_request" claimed_log]
  by (auto simp: sample_dispatcher_def started_log_def stored_tasks_def sample_file_def sample_state_def)

theorem completion_is_verified_witness:
  "\<exists>t \<in> set [running_task]. tk_run_id t = Some sample_run \<and> de_verify sample_dispatch_env verified_log = Inr (VERIFY_PASS (hash_of CHR ''9''))"
  using completion_is_verified [OF sample_reachable(3), of settled_log "sample_file [running_task]" "''issue/1''"
      "hash_of CHR ''1''" sample_run sample_merge "hash_of CHR ''9''" verified_log]
  by (auto simp: sample_dispatcher_def complete_call_def stored_tasks_def sample_file_def sample_state_def)

theorem active_tasks_bounded_witness:
  "int (active_count (stored_tasks (sample_file [running_task]))) \<le> 2"
  using active_tasks_bounded [OF sample_reachable(2)]
  by (simp add: sample_dispatcher_def sample_dispatch_env_def sample_dispatch_policy_def)

lemma sample_read: "readState sample_dispatch_env (di_file (sample_dispatcher [] rearmed_log)) =
    Inr \<lparr>en_state = sample_state MODE_RUNNING [], en_state_hash = hash_of CHR ''5''\<rparr>"
  by code_simp

theorem claims_are_resolved_witness:
  "list_all (\<lambda>t. tk_status t \<noteq> TASK_CLAIMED) (stored_tasks (sample_file [running_task]))"
  using claims_are_resolved [OF sample_reachable(1) sample_read sample_started]
  by (simp add: sample_dispatcher_def sample_state_def list_all_iff)

theorem mode_is_respected_witness: "fst (runCycle sample_dispatch_env fresh_dispatcher) = fresh_dispatcher"
proof -
  have "readState sample_dispatch_env (di_file fresh_dispatcher) = Inr (envelope sample_dispatch_env initialState)"
    by (simp add: fresh_dispatcher_def readState_def)
  from mode_is_respected [OF created [OF sample_created] this] show ?thesis
    by (simp add: envelope_def initialState_def)
qed

text \<open>A claimed task whose lease is lost, and two running tasks under an open circuit.\<close>

definition losing_env :: dispatch_env where
  "losing_env = sample_dispatch_env\<lparr>de_renew := (\<lambda>_. Inr False)\<rparr>"

definition cycle_on :: "dispatch_state \<Rightarrow> cycle" where
  "cycle_on st = \<lparr>cy_file = STORED \<lparr>en_state = st, en_state_hash = hash_of CHR ''5''\<rparr>,
     cy_current = \<lparr>en_state = st, en_state_hash = hash_of CHR ''5''\<rparr>, cy_counters = no_counters, cy_log = []\<rparr>"

definition lost_state :: dispatch_state where
  "lost_state = (sample_state MODE_RUNNING [claimed_task\<lparr>tk_status := TASK_FAILED, tk_consecutive_failures := 1,
     tk_last_evidence_hash := Some (hash_of CHR ''7'')\<rparr>])\<lparr>ds_consecutive_failures := 1\<rparr>"

definition logged :: "dispatch_state \<Rightarrow> port_call list \<Rightarrow> port_log" where
  "logged st calls = map (Pair (cy_file (cycle_on st))) calls"

definition renewal :: "stored_task \<Rightarrow> port_call" where
  "renewal t = RENEW (tk_candidate_id t) (tk_revision t) sample_lease sample_expiry"

definition lost_cycle :: cycle where
  "lost_cycle = (cycle_on lost_state)\<lparr>cy_counters := no_counters\<lparr>cn_failed := 1\<rparr>,
     cy_log := logged (sample_state MODE_RUNNING [claimed_task])
       [WRITE lost_state, renewal claimed_task, LOAD_CANDIDATE ''issue/1'' (hash_of CHR ''1'')]\<rparr>"

lemma sample_lost: "claimed_body losing_env claimed_task (cycle_on (sample_state MODE_RUNNING [claimed_task])) = (lost_cycle, Inr ())"
  by code_simp

theorem lost_claim_breaks_dispatcher_witness:
  "\<exists>e. runCycle losing_env \<lparr>di_file = cy_file lost_cycle, di_running = False, di_log = []\<rparr> =
     (\<lparr>di_file = cy_file lost_cycle, di_running = False, di_log = []\<rparr>, Inl e)"
  using lost_claim_breaks_dispatcher [OF _ _ sample_lost, of "\<lparr>di_file = cy_file lost_cycle, di_running = False, di_log = []\<rparr>"]
  by (simp add: lost_cycle_def cycle_on_def current_def sample_state_def claimed_task_def sample_task_def no_counters_def)

definition second_task :: stored_task where
  "second_task = running_task\<lparr>tk_candidate_id := ''issue/2'', tk_run_id := Some ''run_fedcba9876543210''\<rparr>"

definition open_circuit :: dispatch_state where
  "open_circuit = (sample_state MODE_RUNNING [running_task, second_task])\<lparr>ds_circuit_open := True, ds_consecutive_failures := 2\<rparr>"

definition completed_circuit :: dispatch_state where
  "completed_circuit = open_circuit\<lparr>ds_consecutive_failures := 0, ds_tasks := [completed_task, second_task]\<rparr>"

definition closed_circuit :: dispatch_state where
  "closed_circuit = completed_circuit\<lparr>ds_circuit_open := False, ds_consecutive_failures := 1,
     ds_tasks := [completed_task, second_task\<lparr>tk_status := TASK_FAILED, tk_consecutive_failures := 1,
       tk_last_evidence_hash := Some (hash_of CHR ''8'')\<rparr>]\<rparr>"

definition after_completion :: cycle where
  "after_completion = (cycle_on completed_circuit)\<lparr>cy_counters := no_counters\<lparr>cn_resumed := 1, cn_completed := 1\<rparr>,
     cy_log := logged open_circuit [WRITE completed_circuit,
       COMPLETE ''issue/1'' (hash_of CHR ''1'') sample_run sample_merge (hash_of CHR ''9''),
       VERIFY ''repo'' sample_run sample_merge, RESUME sample_run, renewal running_task]\<rparr>"

definition after_failure :: cycle where
  "after_failure = (cycle_on closed_circuit)\<lparr>cy_counters := no_counters\<lparr>cn_resumed := 2, cn_completed := 1, cn_failed := 1\<rparr>,
     cy_log := logged completed_circuit [WRITE closed_circuit,
       FAIL ''issue/2'' (hash_of CHR ''1'') ''run_fedcba9876543210'' F_ABORTED [],
       RESUME ''run_fedcba9876543210'', renewal second_task] @ cy_log after_completion\<rparr>"

lemma sample_circuit:
  "running_body sample_dispatch_env running_task (cycle_on open_circuit) = (after_completion, Inr ())"
  "running_body sample_dispatch_env second_task after_completion = (after_failure, Inr ())"
  by code_simp+

theorem circuit_closes_without_reset_witness:
  "ds_circuit_open (current (cycle_on open_circuit)) \<and> \<not> ds_circuit_open (current after_failure)"
  using circuit_closes_without_reset [OF sample_circuit(1) _ sample_circuit(2)]
  by (simp add: after_completion_def after_failure_def cycle_on_def current_def open_circuit_def no_counters_def
      sample_dispatch_env_def sample_dispatch_policy_def)

end
