(* ===== verification/Worker_Capability.thy ===== *)
theory Worker_Capability
  imports Contract_Schemas
begin

text \<open>
  runtime/worker-capability.ts: what a worker deployment is and what it may be given, bound by a hash.
  The capabilities are stored sorted, so that the hash does not depend on the order they were listed in.

  Parameter: the hash of a capability body (\<open>hashCanonicalV4\<close>).
\<close>

section \<open>Data\<close>

definition ref_char :: "char \<Rightarrow> bool" where
  [char_class]: "ref_char c = (alnum c \<or> c \<in> set ''._:/@+-'')"

definition reference_ok :: "string \<Rightarrow> bool" where
  "reference_ok s = lead_class alnum ref_char 255 s"

definition mutableAliases :: "string list" where
  "mutableAliases = [''auto'', ''current'', ''default'', ''latest'', ''stable'']"

definition exactRevision_ok :: "string \<Rightarrow> bool" where
  "exactRevision_ok s = (reference_ok s \<and> to_lower s \<notin> set mutableAliases)"

record deployment =
  wd_provider_ref :: string
  wd_model_ref :: string
  wd_model_revision :: string
  wd_model_artifact_hash :: "string option"
  wd_endpoint_revision :: string
  wd_harness_ref :: string
  wd_harness_revision :: string
  wd_tool_protocol :: string
  wd_tool_parser_revision :: string
  wd_tool_bundle_hash :: string
  wd_instruction_bundle_hash :: string
  wd_qualification_evidence_hash :: string

record worker_limits =
  wl_max_story_files :: int
  wl_max_story_changed_lines :: int
  wl_max_story_context_bytes :: int
  wl_max_acceptance_criteria :: int
  wl_max_dependency_depth :: int
  wl_max_steps_per_attempt :: int
  wl_max_attempts :: int
  wl_no_progress_repeat_limit :: int

record worker_body =
  wk_binding_ref :: string
  wk_deployment :: deployment
  wk_capabilities :: "string list"
  wk_limits :: worker_limits

record worker_capability = worker_body +
  wk_hash :: string

section \<open>Schemas\<close>

definition deploymentSchema :: "deployment \<Rightarrow> bool" where
  "deploymentSchema d =
     (reference_ok (wd_provider_ref d) \<and> reference_ok (wd_model_ref d) \<and> exactRevision_ok (wd_model_revision d) \<and>
      opt_all is_hash (wd_model_artifact_hash d) \<and> exactRevision_ok (wd_endpoint_revision d) \<and>
      reference_ok (wd_harness_ref d) \<and> exactRevision_ok (wd_harness_revision d) \<and> reference_ok (wd_tool_protocol d) \<and>
      exactRevision_ok (wd_tool_parser_revision d) \<and> is_hash (wd_tool_bundle_hash d) \<and>
      is_hash (wd_instruction_bundle_hash d) \<and> is_hash (wd_qualification_evidence_hash d))"

definition limitsSchema :: "worker_limits \<Rightarrow> bool" where
  "limitsSchema l =
     (int_between 1 64 (wl_max_story_files l) \<and> int_between 1 100000 (wl_max_story_changed_lines l) \<and>
      int_between 1024 16777216 (wl_max_story_context_bytes l) \<and> int_between 1 32 (wl_max_acceptance_criteria l) \<and>
      int_between 0 32 (wl_max_dependency_depth l) \<and> int_between 1 128 (wl_max_steps_per_attempt l) \<and>
      int_between 1 3 (wl_max_attempts l) \<and> int_between 2 3 (wl_no_progress_repeat_limit l))"

definition uniqueCapabilities :: "string list \<Rightarrow> bool" where
  "uniqueCapabilities cs = (list_between 1 64 reference_ok cs \<and> distinct cs)"

definition workerBodySchema :: "('a) worker_body_scheme \<Rightarrow> bool" where
  "workerBodySchema w = (reference_ok (wk_binding_ref w) \<and> deploymentSchema (wk_deployment w) \<and>
     uniqueCapabilities (wk_capabilities w) \<and> limitsSchema (wk_limits w))"

section \<open>Creation and loading\<close>

definition normalizeBody :: "worker_body \<Rightarrow> worker_body" where
  "normalizeBody w = w\<lparr>wk_capabilities := sort_strings (wk_capabilities w)\<rparr>"

definition own_capability :: "worker_body \<Rightarrow> string \<Rightarrow> worker_capability" where
  "own_capability w h = worker_body.extend w \<lparr>wk_hash = h\<rparr>"

definition createWorkerCapabilityV4 :: "(worker_body \<Rightarrow> string) \<Rightarrow> worker_body \<Rightarrow> worker_capability result" where
  "createWorkerCapabilityV4 hash input =
     throw_if (\<not> workerBodySchema input) (Error ZOD_ERROR ''worker capability'')
     (let body = normalizeBody input in Inr (own_capability body (hash body)))"

definition loadWorkerCapabilityV4 :: "(worker_body \<Rightarrow> string) \<Rightarrow> worker_capability \<Rightarrow> worker_capability result" where
  "loadWorkerCapabilityV4 hash input =
     throw_if (\<not> workerBodySchema input \<or> \<not> is_hash (wk_hash input)) (Error ZOD_ERROR ''worker capability'')
     (let body = normalizeBody (worker_body.truncate input) in
      throw_if (wk_hash input \<noteq> hash body) (Error INVALID_CONTRACT ''worker capability hash is invalid'')
        (Inr (own_capability body (wk_hash input))))"

section \<open>Lemmas\<close>

lemma own_fields [simp]:
  "wk_binding_ref (own_capability w h) = wk_binding_ref w" "wk_deployment (own_capability w h) = wk_deployment w"
  "wk_capabilities (own_capability w h) = wk_capabilities w" "wk_limits (own_capability w h) = wk_limits w"
  "wk_hash (own_capability w h) = h" "worker_body.truncate (own_capability w h) = w"
  by (simp_all add: own_capability_def worker_body.defs)

lemma truncate_fields [simp]:
  "wk_binding_ref (worker_body.truncate w) = wk_binding_ref w" "wk_deployment (worker_body.truncate w) = wk_deployment w"
  "wk_capabilities (worker_body.truncate w) = wk_capabilities w" "wk_limits (worker_body.truncate w) = wk_limits w"
  by (simp_all add: worker_body.defs)

lemma schema_own [simp]: "workerBodySchema (own_capability w h) = workerBodySchema w"
  "workerBodySchema (worker_body.truncate v) = workerBodySchema v"
  by (simp_all add: workerBodySchema_def)

lemma sort_strings_idem [simp]: "sort_strings (sort_strings xs) = sort_strings xs"
  by (simp add: sort_strings_def js_sort_id js_sort_sorted total_comparison_code_units)

lemma normalizeBody_idem [simp]: "normalizeBody (normalizeBody w) = normalizeBody w"
  by (simp add: normalizeBody_def)

lemma set_sorted_strings [simp]: "set (sort_strings xs) = set xs" "length (sort_strings xs) = length xs"
  "distinct (sort_strings xs) = distinct xs"
  by (simp_all add: sort_strings_def)

lemma schema_normalize [simp]: "workerBodySchema (normalizeBody w) = workerBodySchema w"
  by (simp add: workerBodySchema_def normalizeBody_def uniqueCapabilities_def list_between_def list_all_iff)

text \<open>A created capability is loaded back unchanged, and loading does not change a loaded one.\<close>

lemma created_capability_loads:
  assumes "\<And>b. is_hash (hash b)" and "createWorkerCapabilityV4 hash input = Inr w"
  shows "loadWorkerCapabilityV4 hash w = Inr w"
  using assms by (auto simp: createWorkerCapabilityV4_def loadWorkerCapabilityV4_def Let_def)

lemma loaded_capability_loads:
  "loadWorkerCapabilityV4 hash v = Inr w \<Longrightarrow> loadWorkerCapabilityV4 hash w = Inr w"
  by (auto simp: loadWorkerCapabilityV4_def Let_def)

lemma loaded_capability_facts:
  assumes "loadWorkerCapabilityV4 hash v = Inr w"
  shows "workerBodySchema w" and "limitsSchema (wk_limits w)" and "wk_limits w = wk_limits v"
    and "set (wk_capabilities w) = set (wk_capabilities v)" and "wk_hash w = wk_hash v"
proof -
  show "workerBodySchema w" using assms by (auto simp: loadWorkerCapabilityV4_def Let_def)
  then show "limitsSchema (wk_limits w)" by (simp add: workerBodySchema_def)
  show "wk_limits w = wk_limits v" "set (wk_capabilities w) = set (wk_capabilities v)" "wk_hash w = wk_hash v"
    using assms by (auto simp: loadWorkerCapabilityV4_def Let_def normalizeBody_def)
qed

end
