(* ===== verification/Story_Plan.thy ===== *)
theory Story_Plan
  imports Worker_Capability
begin

text \<open>
  runtime/iterative-executor.ts, the story plan: its schemas, the loader that binds a plan to its work
  contract and its worker, the dependency graph, the choice of the next story and the change authority
  of a story.

  Parameters (\<open>plan_env\<close>): the hash of a contract, worker, story and plan body (\<open>hashCanonicalV4\<close>), each
  of the object without its own hash field, and \<open>String.prototype.localeCompare\<close>, whose order depends
  on the locale of the host.
\<close>

abbreviation story_invalid :: "string \<Rightarrow> error" where
  "story_invalid m \<equiv> Error INVALID_CONTRACT m"

abbreviation story_violation :: "string \<Rightarrow> error" where
  "story_violation m \<equiv> Error EXECUTOR_POLICY_VIOLATION m"

section \<open>Data and schemas\<close>

record candidate_change =
  ch_path :: string
  ch_operation :: change_operation

record story_body =
  sy_story_id :: string
  sy_title :: string
  sy_objective :: string
  sy_priority :: int
  sy_depends_on :: "string list"
  sy_allowed_changes :: "allowed_change list"
  sy_validation_ids :: "string list"
  sy_acceptance_criteria :: "string list"
  sy_required_capabilities :: "string list"
  sy_context_budget_bytes :: int
  sy_max_changed_lines :: int
  sy_max_steps :: int
  sy_max_attempts :: int

record story = story_body +
  sy_story_hash :: string

record plan_body =
  pl_run_id :: string
  pl_contract_hash :: string
  pl_base_sha :: string
  pl_worker_capability_hash :: string
  pl_max_iterations :: int
  pl_stories :: "story list"

record plan = plan_body +
  pl_plan_hash :: string

record plan_env =
  se_contract_hash :: "work_contract \<Rightarrow> string"
  se_worker_hash :: "worker_body \<Rightarrow> string"
  se_story_hash :: "story_body \<Rightarrow> string"
  se_plan_hash :: "plan_body \<Rightarrow> string"
  se_locale_compare :: "string \<Rightarrow> string \<Rightarrow> int"

definition storyId_ok :: "string \<Rightarrow> bool" where
  "storyId_ok s = tagged_id ''story_'' 4 96 s"

definition short_path_ok :: "string \<Rightarrow> bool" where
  "short_path_ok p = (length p \<le> 512 \<and> isNormalizedRepositoryRelativePathV4 p)"

definition unique_items :: "nat \<Rightarrow> nat \<Rightarrow> ('a \<Rightarrow> bool) \<Rightarrow> 'a list \<Rightarrow> bool" where
  "unique_items lo hi ok xs = (list_between lo hi ok xs \<and> distinct xs)"

definition candidateChangeSchema :: "candidate_change \<Rightarrow> bool" where
  "candidateChangeSchema c = short_path_ok (ch_path c)"

definition story_change_ok :: "allowed_change \<Rightarrow> bool" where
  "story_change_ok c = (short_path_ok (ac_path c) \<and> unique_items 1 3 (\<lambda>_. True) (ac_operations c))"

definition storyBodySchema :: "('a) story_body_scheme \<Rightarrow> bool" where
  "storyBodySchema s =
     (storyId_ok (sy_story_id s) \<and> bounded_length 1 160 (sy_title s) \<and> bounded_length 1 2000 (sy_objective s) \<and>
      int_between 1 10000 (sy_priority s) \<and> unique_items 0 32 storyId_ok (sy_depends_on s) \<and>
      unique_items 1 64 story_change_ok (sy_allowed_changes s) \<and>
      unique_items 1 32 (bounded_length 1 128) (sy_validation_ids s) \<and>
      unique_items 1 32 (bounded_length 1 512) (sy_acceptance_criteria s) \<and>
      unique_items 1 32 reference_ok (sy_required_capabilities s) \<and>
      int_between 1024 16777216 (sy_context_budget_bytes s) \<and> int_between 1 100000 (sy_max_changed_lines s) \<and>
      int_between 1 128 (sy_max_steps s) \<and> int_between 1 3 (sy_max_attempts s))"

definition storySchema :: "story \<Rightarrow> bool" where
  "storySchema s = (storyBodySchema s \<and> is_hash (sy_story_hash s))"

definition planBodySchema :: "('a) plan_body_scheme \<Rightarrow> bool" where
  "planBodySchema p =
     (run_id_ok (pl_run_id p) \<and> is_hash (pl_contract_hash p) \<and> is_git_sha (pl_base_sha p) \<and>
      is_hash (pl_worker_capability_hash p) \<and> int_between 1 64 (pl_max_iterations p) \<and>
      list_between 1 64 storySchema (pl_stories p))"

definition planSchema :: "plan \<Rightarrow> bool" where
  "planSchema p = (planBodySchema p \<and> is_hash (pl_plan_hash p))"

definition exactHash :: "('a \<Rightarrow> string) \<Rightarrow> 'a \<Rightarrow> string \<Rightarrow> string \<Rightarrow> unit result" where
  "exactHash hash body supplied label =
     throw_if (supplied \<noteq> hash body) (story_invalid (label @ '' hash is invalid'')) (Inr ())"

section \<open>The dependency graph\<close>

definition story_ids :: "story list \<Rightarrow> string list" where
  "story_ids stories = map sy_story_id stories"

definition find_story :: "story list \<Rightarrow> string \<Rightarrow> story option" where
  "find_story stories k = find (\<lambda>s. sy_story_id s = k) stories"

lemma find_story_Some: "find_story stories k = Some s \<Longrightarrow> s \<in> set stories \<and> sy_story_id s = k"
  by (auto simp: find_story_def find_Some_iff)

lemma find_story_None: "find_story stories k = None \<longleftrightarrow> k \<notin> set (story_ids stories)"
  by (auto simp: find_story_def find_None_iff story_ids_def)

lemma find_story_distinct:
  "distinct (story_ids stories) \<Longrightarrow> s \<in> set stories \<Longrightarrow> find_story stories (sy_story_id s) = Some s"
  by (induction stories) (auto simp: find_story_def story_ids_def)

text \<open>
  The depth-first search of \<open>assertDag\<close>: \<open>visiting\<close> are the stories on the current path, which the
  source adds to and removes from a set around the recursive calls; \<open>visited\<close> is threaded through.
\<close>

function visit :: "story list \<Rightarrow> string list \<Rightarrow> string list \<Rightarrow> string \<Rightarrow> string list result" where
  "visit stories visiting visited k =
     (if k \<in> set visiting then Inl (story_invalid ''story dependencies must be acyclic'')
      else if k \<in> set visited then Inr visited
      else case find_story stories k of
          None \<Rightarrow> Inl (Error TYPE_ERROR ''story is undefined'')
        | Some s \<Rightarrow>
            bindR (foldR (\<lambda>seen dep.
              if dep \<notin> set (story_ids stories) \<or> dep = k then Inl (story_invalid ''story dependency is invalid'')
              else visit stories (k # visiting) seen dep) visited (sy_depends_on s))
            (\<lambda>seen. Inr (k # seen)))"
  by pat_completeness auto

termination visit
proof (relation "measure (\<lambda>(stories, visiting, visited, k). card (set (story_ids stories) - set visiting))", goal_cases)
  case 1
  show ?case by simp
next
  case (2 stories visiting visited k s dep seen)
  then have "k \<in> set (story_ids stories)" using find_story_None [of stories k] by auto
  with 2(1) have "set (story_ids stories) - set (k # visiting) \<subset> set (story_ids stories) - set visiting" by auto
  then show ?case by (auto intro: psubset_card_mono)
qed

declare visit.simps [simp del]

definition assertDag :: "story list \<Rightarrow> unit result" where
  "assertDag stories =
     throw_if (\<not> distinct (story_ids stories)) (story_invalid ''story IDs must be unique'')
     (bindR (foldR (visit stories []) [] (story_ids stories)) (\<lambda>_. Inr ()))"

text \<open>
  The depth of a story; the cache of the source only avoids recomputation. A recursion deeper than the
  number of stories would not end, which the source would report as a stack overflow.
\<close>

fun depth :: "story list \<Rightarrow> nat \<Rightarrow> string \<Rightarrow> int result" where
  "depth stories 0 k = Inl (Error RANGE_ERROR ''Maximum call stack size exceeded'')"
| "depth stories (Suc n) k = (case find_story stories k of
      None \<Rightarrow> Inl (Error TYPE_ERROR ''story is undefined'')
    | Some s \<Rightarrow> bindR (mapR (depth stories n) (sy_depends_on s)) (\<lambda>ds. Inr (fold max (map (\<lambda>d. d + 1) ds) 0)))"

section \<open>Loading a plan\<close>

text \<open>\<open>new Map(changes.map(c => [c.path, new Set(c.operations)]))\<close>: the last entry of a path counts.\<close>

definition allowed_operations :: "allowed_change list \<Rightarrow> string \<Rightarrow> change_operation list option" where
  "allowed_operations changes p = map_option ac_operations (find (\<lambda>c. ac_path c = p) (rev changes))"

definition change_exceeds :: "allowed_change list \<Rightarrow> allowed_change \<Rightarrow> bool" where
  "change_exceeds targets c = (case allowed_operations targets (ac_path c) of
      None \<Rightarrow> True
    | Some operations \<Rightarrow> list_ex (\<lambda>x. x \<notin> set operations) (ac_operations c))"

definition check_story :: "('e) plan_env_scheme \<Rightarrow> work_contract \<Rightarrow> worker_capability \<Rightarrow> story \<Rightarrow> unit result" where
  "check_story env contract worker s =
     (let l = wk_limits worker; files = int (length (sy_allowed_changes s)) in
     bindR (exactHash (se_story_hash env) (story_body.truncate s) (sy_story_hash s) ''story'') (\<lambda>_.
     throw_if (list_ex (change_exceeds (tr_implementation_targets contract)) (sy_allowed_changes s))
       (story_invalid ''story exceeds allowed changes'')
     (throw_if (list_ex (\<lambda>v. v \<notin> set (tr_allowed_validation_ids contract)) (sy_validation_ids s))
       (story_invalid ''story uses an unapproved validation'')
     (throw_if (files > tr_max_files_changed contract) (story_invalid ''story file budget exceeds the work contract'')
     (throw_if (files > wl_max_story_files l) (story_invalid ''story files exceed worker capability'')
     (throw_if (sy_max_changed_lines s > wl_max_story_changed_lines l \<or>
         sy_max_changed_lines s > tr_max_changed_lines contract)
       (story_invalid ''story changed-line budget exceeds worker capability'')
     (throw_if (sy_context_budget_bytes s > wl_max_story_context_bytes l)
       (story_invalid ''story context budget exceeds worker capability'')
     (throw_if (int (length (sy_acceptance_criteria s)) > wl_max_acceptance_criteria l)
       (story_invalid ''story acceptance criteria exceed worker capability'')
     (throw_if (sy_max_steps s > wl_max_steps_per_attempt l) (story_invalid ''story step budget exceeds worker capability'')
     (throw_if (sy_max_attempts s > wl_max_attempts l) (story_invalid ''story attempts exceed worker capability'')
     (throw_if (list_ex (\<lambda>c. c \<notin> set (wk_capabilities worker)) (sy_required_capabilities s))
       (story_invalid ''story requires an unsupported worker capability'') (Inr ()))))))))))))"

definition loadIterativeStoryPlanV4 ::
    "('e) plan_env_scheme \<Rightarrow> work_contract \<Rightarrow> worker_capability \<Rightarrow> plan \<Rightarrow> plan result" where
  "loadIterativeStoryPlanV4 env contract workerInput p =
     bindR (exactHash (se_contract_hash env) (contract\<lparr>wc_contract_hash := []\<rparr>) (wc_contract_hash contract)
       ''work contract'') (\<lambda>_.
     throw_if (\<not> planSchema p) (Error ZOD_ERROR ''plan'')
     (bindR (exactHash (se_plan_hash env) (plan_body.truncate p) (pl_plan_hash p) ''plan'') (\<lambda>_.
     throw_if (pl_run_id p \<noteq> wc_run_id contract \<or> pl_contract_hash p \<noteq> wc_contract_hash contract \<or>
         pl_base_sha p \<noteq> wc_base_sha contract)
       (story_invalid ''plan identity does not match the work contract'')
     (bindR (loadWorkerCapabilityV4 (se_worker_hash env) workerInput) (\<lambda>worker.
      throw_if (pl_worker_capability_hash p \<noteq> wk_hash worker)
        (story_invalid ''plan worker capability does not match the active worker'')
      (bindR (foldR (\<lambda>_. check_story env contract worker) () (pl_stories p)) (\<lambda>_.
       bindR (assertDag (pl_stories p)) (\<lambda>_.
       bindR (mapR (depth (pl_stories p) (length (pl_stories p))) (story_ids (pl_stories p))) (\<lambda>depths.
       throw_if (list_ex (\<lambda>d. d > wl_max_dependency_depth (wk_limits worker)) depths)
         (story_invalid ''story dependency depth exceeds worker capability'') (Inr p))))))))))"

section \<open>The next story and its authority\<close>

definition story_order :: "(string \<Rightarrow> string \<Rightarrow> int) \<Rightarrow> story \<Rightarrow> story \<Rightarrow> int" where
  "story_order localeCompare left right =
     (if sy_priority left - sy_priority right \<noteq> 0 then sy_priority left - sy_priority right
      else localeCompare (sy_story_id left) (sy_story_id right))"

definition executable :: "string list \<Rightarrow> story \<Rightarrow> bool" where
  "executable accepted s = (sy_story_id s \<notin> set accepted \<and> list_all (\<lambda>d. d \<in> set accepted) (sy_depends_on s))"

definition nextStory :: "(string \<Rightarrow> string \<Rightarrow> int) \<Rightarrow> story list \<Rightarrow> string list \<Rightarrow> story option" where
  "nextStory localeCompare stories accepted =
     (case js_sort (story_order localeCompare) (filter (executable accepted) stories) of
        [] \<Rightarrow> None
      | s # _ \<Rightarrow> Some s)"

definition changesAreAuthorized :: "('a) story_body_scheme \<Rightarrow> candidate_change list \<Rightarrow> bool" where
  "changesAreAuthorized s changes =
     (list_all (\<lambda>c. case allowed_operations (sy_allowed_changes s) (ch_path c) of
        None \<Rightarrow> False
      | Some operations \<Rightarrow> ch_operation c \<in> set operations) changes \<and>
      distinct (map ch_path changes))"

end
