(* ===== verification/Story_Graph.thy ===== *)
theory Story_Graph
  imports Story_Plan
begin

text \<open>
  What the loader of a story plan guarantees: the depth-first search of \<open>assertDag\<close> leaves a
  topological order, so that depths exist and some story is always executable, and every change a
  story may make is a change its work contract allows.
\<close>

section \<open>Loops that collect\<close>

lemma foldR_collect:
  assumes "foldR f seen xs = Inr t" and "P seen"
    and "\<And>u x v. x \<in> set xs \<Longrightarrow> P u \<Longrightarrow> f u x = Inr v \<Longrightarrow> P v \<and> set u \<subseteq> set v \<and> g x \<in> set v"
  shows "P t \<and> set seen \<subseteq> set t \<and> g ` set xs \<subseteq> set t"
  using assms
proof (induction xs arbitrary: seen)
  case (Cons x xs)
  then obtain u where u: "f seen x = Inr u" "foldR f u xs = Inr t" by auto
  with Cons.prems(2) Cons.prems(3) [of x seen u] have "P u \<and> set seen \<subseteq> set u \<and> g x \<in> set u" by simp
  moreover from this have "P t \<and> set u \<subseteq> set t \<and> g ` set xs \<subseteq> set t"
    by (intro Cons.IH [OF u(2)]) (use Cons.prems(3) in auto)
  ultimately show ?case by auto
qed simp

lemma foldR_unit: "foldR (\<lambda>_. f) () xs = Inr u \<Longrightarrow> x \<in> set xs \<Longrightarrow> f x = Inr ()"
  by (induction xs) auto

section \<open>Topological orders\<close>

fun topo :: "story list \<Rightarrow> string list \<Rightarrow> bool" where
  "topo stories [] = True"
| "topo stories (k # ks) = ((\<exists>s. find_story stories k = Some s \<and> set (sy_depends_on s) \<subseteq> set ks) \<and>
     k \<notin> set ks \<and> topo stories ks)"

lemma topo_facts: "topo stories ks \<Longrightarrow> distinct ks \<and> set ks \<subseteq> set (story_ids stories)"
  using find_story_None [of stories] by (induction ks) force+

lemma visit_Inr:
  assumes "visit stories visiting visited k = Inr seen" and "topo stories visited" and "set visited \<inter> set visiting = {}"
  shows "topo stories seen \<and> k \<in> set seen \<and> set visited \<subseteq> set seen \<and> set seen \<inter> set visiting = {}"
  using assms
proof (induction stories visiting visited k arbitrary: seen rule: visit.induct)
  case (1 stories visiting visited k)
  show ?case
  proof (cases "k \<in> set visited")
    case True
    with 1(2-4) show ?thesis by (auto simp: visit.simps split: if_splits)
  next
    case False
    with 1(2) have new: "k \<notin> set visiting" by (auto simp: visit.simps)
    with False 1(2) obtain s where s: "find_story stories k = Some s"
      by (auto simp: visit.simps split: option.splits)
    let ?f = "\<lambda>seen dep. if dep \<notin> set (story_ids stories) \<or> dep = k then Inl (story_invalid ''story dependency is invalid'')
        else visit stories (k # visiting) seen dep"
    let ?P = "\<lambda>u. topo stories u \<and> set u \<inter> set (k # visiting) = {}"
    obtain t where t: "foldR ?f visited (sy_depends_on s) = Inr t" "seen = k # t"
      using 1(2) False new s by (subst (asm) visit.simps) auto
    have "?P t \<and> set visited \<subseteq> set t \<and> (\<lambda>d. d) ` set (sy_depends_on s) \<subseteq> set t"
    proof (rule foldR_collect [OF t(1)])
      show "?P visited" using 1(3,4) False by auto
      fix u x v
      assume x: "x \<in> set (sy_depends_on s)" and u: "?P u" and v: "?f u x = Inr v"
      then have ok: "\<not> (x \<notin> set (story_ids stories) \<or> x = k)" and vis: "visit stories (k # visiting) u x = Inr v"
        by (auto split: if_splits)
      from 1(1) [OF new False s x ok vis] u show "?P v \<and> set u \<subseteq> set v \<and> x \<in> set v" by auto
    qed
    then show ?thesis using t(2) s new by auto
  qed
qed

lemma assertDag_Inr:
  assumes "assertDag stories = Inr u"
  obtains order where "distinct (story_ids stories)" and "topo stories order" and "set order = set (story_ids stories)"
proof -
  from assms obtain t where d: "distinct (story_ids stories)" and t: "foldR (visit stories []) [] (story_ids stories) = Inr t"
    by (auto simp: assertDag_def)
  have "topo stories t \<and> set [] \<subseteq> set t \<and> (\<lambda>k. k) ` set (story_ids stories) \<subseteq> set t"
    by (rule foldR_collect [OF t]) (auto dest: visit_Inr)
  with that d show thesis using topo_facts by auto
qed

lemma topo_executable:
  "topo stories ks \<Longrightarrow> k \<in> set ks \<Longrightarrow> k \<notin> A \<Longrightarrow>
   \<exists>s. s \<in> set stories \<and> sy_story_id s \<notin> A \<and> set (sy_depends_on s) \<subseteq> A"
proof (induction ks arbitrary: k)
  case (Cons j ks)
  show ?case
  proof (cases "set ks \<subseteq> A")
    case True
    with Cons.prems have "k = j" by auto
    with Cons.prems(1,3) True show ?thesis by (auto dest!: find_story_Some)
  next
    case False
    with Cons show ?thesis by auto
  qed
qed simp

lemma topo_depth:
  "topo stories ks \<Longrightarrow> k \<in> set ks \<Longrightarrow> length ks \<le> n \<Longrightarrow> \<exists>d. depth stories n k = Inr d"
proof (induction ks arbitrary: k n)
  case (Cons j ks)
  then obtain m where n: "n = Suc m" "length ks \<le> m" by (cases n) auto
  show ?case
  proof (cases "k = j")
    case True
    from Cons.prems(1) obtain s where s: "find_story stories j = Some s" "set (sy_depends_on s) \<subseteq> set ks" by auto
    have "\<exists>ds. mapR (depth stories m) ds' = Inr ds" if "set ds' \<subseteq> set ks" for ds'
      using that Cons.IH [OF _ _ n(2)] Cons.prems(1) by (induction ds') force+
    with s True n show ?thesis by fastforce
  next
    case False
    with Cons.IH [of k n] Cons.prems show ?thesis by simp
  qed
qed simp

section \<open>Loaded plans\<close>

lemma exactHash_Inr [simp]: "exactHash hash body supplied label = Inr u \<longleftrightarrow> supplied = hash body"
  by (auto simp: exactHash_def)

lemma loaded_plan:
  assumes "loadIterativeStoryPlanV4 env contract worker p = Inr q"
  shows "q = p" and "planSchema p" and "pl_run_id p = wc_run_id contract" and "pl_contract_hash p = wc_contract_hash contract"
    and "\<exists>w. loadWorkerCapabilityV4 (se_worker_hash env) worker = Inr w \<and>
      (\<forall>s \<in> set (pl_stories p). check_story env contract w s = Inr ())"
    and "assertDag (pl_stories p) = Inr ()"
  using assms by (auto simp: loadIterativeStoryPlanV4_def dest: foldR_unit)

lemma loaded_plan_schema:
  assumes "loadIterativeStoryPlanV4 env contract worker p = Inr q"
  shows "1 \<le> pl_max_iterations q" and "pl_max_iterations q \<le> 64" and "run_id_ok (pl_run_id q)" and "is_hash (pl_plan_hash q)"
    and "s \<in> set (pl_stories q) \<Longrightarrow> storySchema s"
  using loaded_plan(1,2) [OF assms]
  by (auto simp: planSchema_def planBodySchema_def int_between_def list_between_def list_all_iff)

lemma nextStory_Some:
  assumes "nextStory cmp stories accepted = Some s"
  shows "s \<in> set stories" and "sy_story_id s \<notin> set accepted" and "set (sy_depends_on s) \<subseteq> set accepted"
proof -
  have "s \<in> set (js_sort (story_order cmp) (filter (executable accepted) stories))"
    using assms by (cases "js_sort (story_order cmp) (filter (executable accepted) stories)") (simp_all add: nextStory_def)
  then show "s \<in> set stories" "sy_story_id s \<notin> set accepted" "set (sy_depends_on s) \<subseteq> set accepted"
    by (auto simp: executable_def list_all_iff)
qed

lemma nextStory_None:
  "nextStory cmp stories accepted = None \<longleftrightarrow> (\<forall>s \<in> set stories. \<not> executable accepted s)"
proof -
  have "nextStory cmp stories accepted = None \<longleftrightarrow> js_sort (story_order cmp) (filter (executable accepted) stories) = []"
    by (cases "js_sort (story_order cmp) (filter (executable accepted) stories)") (simp_all add: nextStory_def)
  then show ?thesis by (simp add: filter_empty_conv)
qed

text \<open>As long as a story is missing, some story can be executed.\<close>

lemma dag_progress:
  assumes "assertDag stories = Inr u" and "s \<in> set stories" and "sy_story_id s \<notin> set accepted"
  shows "nextStory cmp stories accepted \<noteq> None"
proof -
  from assertDag_Inr [OF assms(1)] obtain order where o: "topo stories order" "set order = set (story_ids stories)" by metis
  with assms(2) have "sy_story_id s \<in> set order" by (auto simp: story_ids_def)
  from topo_executable [OF o(1) this assms(3)] show ?thesis
    by (auto simp: nextStory_None executable_def list_all_iff)
qed

lemma depths_defined:
  assumes "assertDag stories = Inr u"
  shows "\<exists>ds. mapR (depth stories (length stories)) (story_ids stories) = Inr ds"
proof -
  from assertDag_Inr [OF assms] obtain order where o: "topo stories order" "set order = set (story_ids stories)" by metis
  then have "distinct order" using topo_facts by blast
  then have "length order \<le> length stories"
    using o(2) distinct_card [of order] card_length [of "story_ids stories"] by (simp add: story_ids_def)
  with o have "\<exists>d. depth stories (length stories) k = Inr d" if "k \<in> set (story_ids stories)" for k
    using that topo_depth by blast
  then have "\<exists>ds. mapR (depth stories (length stories)) ks = Inr ds" if "set ks \<subseteq> set (story_ids stories)" for ks
    using that by (induction ks) force+
  then show ?thesis by blast
qed

lemma check_story_Inr:
  assumes "check_story env contract w s = Inr u"
  shows "c \<in> set (sy_allowed_changes s) \<Longrightarrow> \<not> change_exceeds (tr_implementation_targets contract) c"
    and "sy_max_attempts s \<le> wl_max_attempts (wk_limits w)"
    and "sy_max_changed_lines s \<le> tr_max_changed_lines contract"
    and "int (length (sy_allowed_changes s)) \<le> tr_max_files_changed contract"
  using assms by (auto simp: check_story_def Let_def list_ex_iff)

lemma allowed_operations_Some:
  "allowed_operations changes p = Some ops \<Longrightarrow> \<exists>c \<in> set changes. ac_path c = p \<and> ac_operations c = ops"
  unfolding allowed_operations_def find_Some_iff map_option_eq_Some by (metis length_rev nth_mem set_rev)

text \<open>A change its story authorises is one its contract allows.\<close>

lemma authorized_within_contract:
  assumes "check_story env contract w s = Inr u" and "changesAreAuthorized s changes" and "c \<in> set changes"
  shows "\<exists>ops. allowed_operations (tr_implementation_targets contract) (ch_path c) = Some ops \<and> ch_operation c \<in> set ops"
proof -
  from assms(2,3) obtain ops where ops: "allowed_operations (sy_allowed_changes s) (ch_path c) = Some ops" "ch_operation c \<in> set ops"
    by (auto simp: changesAreAuthorized_def list_all_iff split: option.splits)
  from allowed_operations_Some [OF ops(1)] obtain a where "a \<in> set (sy_allowed_changes s)" "ac_path a = ch_path c" "ac_operations a = ops"
    by blast
  with check_story_Inr(1) [OF assms(1), of a] ops(2) show ?thesis
    by (auto simp: change_exceeds_def list_ex_iff split: option.splits)
qed

lemma authorized_files:
  assumes "check_story env contract w s = Inr u" and "changesAreAuthorized s changes"
  shows "int (length changes) \<le> tr_max_files_changed contract"
proof -
  have "set (map ch_path changes) \<subseteq> set (map ac_path (sy_allowed_changes s))"
    using assms(2) allowed_operations_Some
    by (force simp: changesAreAuthorized_def list_all_iff split: option.splits)
  then have "card (set (map ch_path changes)) \<le> length (sy_allowed_changes s)"
    by (metis card_length card_mono finite_set length_map order_trans)
  moreover have "card (set (map ch_path changes)) = length changes"
    using assms(2) distinct_card [of "map ch_path changes"] by (simp add: changesAreAuthorized_def)
  ultimately show ?thesis using check_story_Inr(4) [OF assms(1)] by simp
qed

end
