(* ===== verification/Canonical_JSON.thy ===== *)
theory Canonical_JSON
  imports JS_Lib
begin

text \<open>
  \<open>JSON.stringify\<close> of a string, on the characters below 256: the text that the sort keys of failure
  signatures are made of. Its quoting is a prefix code, so different strings have different texts and no
  text of a string is the beginning of another.
\<close>

section \<open>Strings\<close>

definition hex_digit :: "nat \<Rightarrow> char" where
  "hex_digit n = ''0123456789abcdef'' ! n"

definition json_char :: "char \<Rightarrow> string" where
  "json_char c =
     (if c = CHR 0x22 then [CHR 0x5C, CHR 0x22]
      else if c = CHR 0x5C then [CHR 0x5C, CHR 0x5C]
      else if c = CHR 0x08 then [CHR 0x5C, CHR ''b'']
      else if c = CHR 0x0C then [CHR 0x5C, CHR ''f'']
      else if c = CHR 0x0A then [CHR 0x5C, CHR ''n'']
      else if c = CHR 0x0D then [CHR 0x5C, CHR ''r'']
      else if c = CHR 0x09 then [CHR 0x5C, CHR ''t'']
      else if (of_char c :: nat) < 32
      then [CHR 0x5C, CHR ''u'', CHR ''0'', CHR ''0'', hex_digit (of_char c div 16), hex_digit (of_char c mod 16)]
      else [c])"

definition json_string :: "string \<Rightarrow> string" where
  "json_string s = CHR 0x22 # concat (map json_char s) @ [CHR 0x22]"

text \<open>Reading the first character of an escaped text back.\<close>

definition hex_value :: "char \<Rightarrow> nat" where
  "hex_value c = length (takeWhile (\<lambda>d. d \<noteq> c) ''0123456789abcdef'')"

definition json_uncons :: "string \<Rightarrow> char \<times> string" where
  "json_uncons s = (if s ! 0 \<noteq> CHR 0x5C then (s ! 0, drop 1 s)
     else if s ! 1 = CHR ''u'' then (char_of (16 * hex_value (s ! 4) + hex_value (s ! 5)), drop 6 s)
     else if s ! 1 = CHR ''b'' then (CHR 0x08, drop 2 s)
     else if s ! 1 = CHR ''f'' then (CHR 0x0C, drop 2 s)
     else if s ! 1 = CHR ''n'' then (CHR 0x0A, drop 2 s)
     else if s ! 1 = CHR ''r'' then (CHR 0x0D, drop 2 s)
     else if s ! 1 = CHR ''t'' then (CHR 0x09, drop 2 s)
     else (s ! 1, drop 2 s))"

lemma hex_value_digit: "n < 16 \<Longrightarrow> hex_value (hex_digit n) = n"
proof -
  assume "n < 16"
  then have "n \<in> set [0, 1, 2, 3, 4, 5, 6, 7, 8, 9, 10, 11, 12, 13, 14, 15]" by simp presburger
  then show ?thesis by (auto simp: hex_value_def hex_digit_def)
qed

lemma json_uncons_char: "json_uncons (json_char c @ x) = (c, x)"
proof (cases "(of_char c :: nat) < 32")
  case True
  have "of_char c div 16 < (16 :: nat)" "of_char c mod 16 < (16 :: nat)" using True by auto
  then show ?thesis
    using True by (simp add: json_char_def json_uncons_def hex_value_digit)
next
  case False
  then show ?thesis by (simp add: json_char_def json_uncons_def)
qed

lemma json_char_nonempty: "json_char c \<noteq> []" and json_char_no_quote: "hd (json_char c) \<noteq> CHR 0x22"
  by (simp_all add: json_char_def)

lemma json_char_end: "json_char c @ x \<noteq> CHR 0x22 # y"
  using json_char_nonempty [of c] json_char_no_quote [of c] by (cases "json_char c") auto

lemma json_char_unique: "json_char c @ x = json_char d @ y \<Longrightarrow> c = d \<and> x = y"
  by (metis json_uncons_char prod.inject)

lemma json_chars_unique:
  "concat (map json_char s) @ CHR 0x22 # x = concat (map json_char t) @ CHR 0x22 # y \<Longrightarrow> s = t \<and> x = y"
proof (induction s t rule: list_induct2')
  case (2 c s)
  then show ?case using json_char_end [of c "concat (map json_char s) @ CHR 0x22 # x" y] by simp
next
  case (3 d t)
  then show ?case using json_char_end [of d "concat (map json_char t) @ CHR 0x22 # y" x] by simp
next
  case (4 c s d t)
  then have "json_char c @ concat (map json_char s) @ CHR 0x22 # x = json_char d @ concat (map json_char t) @ CHR 0x22 # y"
    by simp
  note both = json_char_unique [OF this]
  then have rest: "concat (map json_char s) @ CHR 0x22 # x = concat (map json_char t) @ CHR 0x22 # y" by (rule conjunct2)
  have "c = d" using both by (rule conjunct1)
  with 4(1) [OF rest] show ?case by simp
qed simp

lemma json_string_unique: "json_string s @ x = json_string t @ y \<Longrightarrow> s = t \<and> x = y"
  by (rule json_chars_unique) (simp add: json_string_def)

lemma json_string_inject [simp]: "json_string s = json_string t \<longleftrightarrow> s = t"
  using json_string_unique [of s "[]" t "[]"] by auto

end
