(* ===== verification/Repair_Packet.thy ===== *)
theory Repair_Packet
  imports Story_Plan Canonical_JSON
begin

text \<open>
  runtime/repair-packet.ts: the findings a failed attempt hands to the next one. The loader, the
  normalised signature under which repeated failures are recognised, and the two packets the runtime
  makes itself.

  Parameters: \<open>hashCanonicalV4\<close> of a packet body, of a list of signature findings and of the evidence
  of a static validation.
\<close>

section \<open>Data and schemas\<close>

datatype finding_source = FROM_VALIDATION | FROM_REVIEW

record signature_finding =
  sf_source :: finding_source
  sf_category_code :: string
  sf_path :: "string option"

record finding =
  fi_finding_id :: string
  fi_source :: finding_source
  fi_category_code :: string
  fi_path :: "string option"
  fi_line :: "int option"
  fi_instruction :: string
  fi_evidence_hash :: string

record packet_body =
  rk_story_id :: string
  rk_failed_attempt :: int
  rk_findings :: "finding list"

record repair_packet = packet_body +
  rk_packet_hash :: string

definition findingSchema :: "finding \<Rightarrow> bool" where
  "findingSchema f =
     (reference_ok (fi_finding_id f) \<and> reference_ok (fi_category_code f) \<and> opt_all short_path_ok (fi_path f) \<and>
      opt_all (int_between 1 10000000) (fi_line f) \<and> bounded_length 1 512 (fi_instruction f) \<and>
      is_hash (fi_evidence_hash f) \<and> \<not> (fi_path f = None \<and> fi_line f \<noteq> None))"

definition failureSignatureFindingSchema :: "signature_finding \<Rightarrow> bool" where
  "failureSignatureFindingSchema f = (reference_ok (sf_category_code f) \<and> opt_all short_path_ok (sf_path f))"

definition packetBodySchema :: "('a) packet_body_scheme \<Rightarrow> bool" where
  "packetBodySchema p =
     (storyId_ok (rk_story_id p) \<and> int_between 1 3 (rk_failed_attempt p) \<and>
      list_between 1 32 findingSchema (rk_findings p) \<and> distinct (map fi_finding_id (rk_findings p)) \<and>
      distinct (map fi_evidence_hash (rk_findings p)))"

section \<open>Loading\<close>

definition loadRepairPacketV4 :: "(packet_body \<Rightarrow> string) \<Rightarrow> repair_packet \<Rightarrow> repair_packet result" where
  "loadRepairPacketV4 hash p =
     throw_if (\<not> packetBodySchema p \<or> \<not> is_hash (rk_packet_hash p)) (Error ZOD_ERROR ''repair packet'')
     (throw_if (rk_packet_hash p \<noteq> hash (packet_body.truncate p))
       (Error INVALID_CONTRACT ''repair packet hash is invalid'') (Inr p))"

section \<open>The failure signature\<close>

definition source_text :: "finding_source \<Rightarrow> string" where
  "source_text s = (case s of FROM_VALIDATION \<Rightarrow> ''VALIDATION'' | FROM_REVIEW \<Rightarrow> ''REVIEW'')"

definition quoted_member :: "string \<Rightarrow> string \<Rightarrow> string" where
  "quoted_member key text = json_string key @ CHR '':'' # text"

text \<open>\<open>JSON.stringify\<close> of a signature finding.\<close>

definition signature_key :: "signature_finding \<Rightarrow> string" where
  "signature_key f =
     ''{'' @ quoted_member ''source'' (json_string (source_text (sf_source f))) @ '','' @
     quoted_member ''category_code'' (json_string (sf_category_code f)) @ '','' @
     quoted_member ''path'' (case sf_path f of None \<Rightarrow> ''null'' | Some p \<Rightarrow> json_string p) @ ''}''"

definition projected :: "finding \<Rightarrow> signature_finding" where
  "projected f = \<lparr>sf_source = fi_source f, sf_category_code = fi_category_code f, sf_path = fi_path f\<rparr>"

definition keyed_findings :: "signature_finding list \<Rightarrow> (string \<times> signature_finding) list" where
  "keyed_findings fs = foldl (\<lambda>m f. AList.update (signature_key f) f m) [] fs"

definition canonical_findings :: "signature_finding list \<Rightarrow> signature_finding list" where
  "canonical_findings fs =
     js_sort (\<lambda>l r. compare_code_units (signature_key l) (signature_key r)) (map snd (keyed_findings fs))"

definition createNormalizedFailureSignatureV4 :: "(signature_finding list \<Rightarrow> string) \<Rightarrow> finding list \<Rightarrow> string result" where
  "createNormalizedFailureSignatureV4 hash findings =
     (let parsed = map projected findings in
      throw_if (\<not> list_between 1 128 failureSignatureFindingSchema parsed) (Error ZOD_ERROR ''failure signature'')
        (Inr (hash (canonical_findings parsed))))"

section \<open>Packets made by the runtime\<close>

record policy_violation =
  pv_path :: string
  pv_repair_instruction :: string
  pv_evidence_hash :: string

record shift_left_evidence =
  sl_validation_id :: string
  sl_passed :: bool
  sl_result_hash :: string
  sl_validated_tree_hash :: string
  sl_stdout_preview :: "string option"
  sl_stderr_preview :: "string option"

record evidence_body =
  eb_validation_id :: string
  eb_result_hash :: string
  eb_validated_tree_hash :: string
  eb_stdout_preview :: string
  eb_stderr_preview :: string

definition sealed :: "(packet_body \<Rightarrow> string) \<Rightarrow> packet_body \<Rightarrow> repair_packet" where
  "sealed hash body = packet_body.extend body \<lparr>rk_packet_hash = hash body\<rparr>"

definition createEconomyPolicyRepairPacketV4 ::
    "(packet_body \<Rightarrow> string) \<Rightarrow> string \<Rightarrow> int \<Rightarrow> policy_violation \<Rightarrow> repair_packet result" where
  "createEconomyPolicyRepairPacketV4 hash story_id failed_attempt v =
     loadRepairPacketV4 hash (sealed hash
       \<lparr>rk_story_id = story_id, rk_failed_attempt = failed_attempt, rk_findings =
         [\<lparr>fi_finding_id = ''economy-policy-'' @ take 24 (pv_evidence_hash v), fi_source = FROM_VALIDATION,
           fi_category_code = ''economy_policy_violation'', fi_path = Some (pv_path v), fi_line = None,
           fi_instruction = pv_repair_instruction v, fi_evidence_hash = pv_evidence_hash v\<rparr>]\<rparr>)"

definition js_space :: "char \<Rightarrow> bool" where
  [char_class]: "js_space c = ((of_char c :: nat) \<in> set [9, 10, 11, 12, 13, 32, 160])"

definition js_trim :: "string \<Rightarrow> string" where
  "js_trim s = rev (dropWhile js_space (rev (dropWhile js_space s)))"

text \<open>
  \<open>/(?:^|[-_:])(?:lint|format)(?:$|[-_:])/iu\<close>: one of the words between the separators is \<open>lint\<close> or
  \<open>format\<close>, in any case.
\<close>

definition isStaticQualityValidationIdV4 :: "string \<Rightarrow> bool" where
  "isStaticQualityValidationIdV4 v =
     list_ex (\<lambda>w. to_lower w = ''lint'' \<or> to_lower w = ''format'')
       (split_on CHR ''-'' (map (\<lambda>c. if c \<in> set ''_:'' then CHR ''-'' else c) (js_trim v)))"

definition SHIFT_LEFT_REPAIR_INSTRUCTION_V4 :: string where
  "SHIFT_LEFT_REPAIR_INSTRUCTION_V4 =
     ''Las pruebas pasan, pero el c'' @ [CHR 0xF3] @ ''digo viola las pol'' @ [CHR 0xED] @ ''ticas est'' @ [CHR 0xE1] @
     ''ticas de calidad/seguridad. Repara los siguientes errores de lint antes de reclamar completitud.''"

definition safeValidationId :: "string \<Rightarrow> string" where
  "safeValidationId v = take 64 (map (\<lambda>c. if alnum c \<or> c \<in> set ''._-'' then c else CHR ''-'') v)"

definition shift_left_finding :: "(evidence_body \<Rightarrow> string) \<Rightarrow> shift_left_evidence \<Rightarrow> finding" where
  "shift_left_finding evidence r =
     (let h = evidence \<lparr>eb_validation_id = sl_validation_id r, eb_result_hash = sl_result_hash r,
        eb_validated_tree_hash = sl_validated_tree_hash r,
        eb_stdout_preview = (case sl_stdout_preview r of None \<Rightarrow> '''' | Some t \<Rightarrow> t),
        eb_stderr_preview = (case sl_stderr_preview r of None \<Rightarrow> '''' | Some t \<Rightarrow> t)\<rparr> in
      \<lparr>fi_finding_id = ''shift-left-'' @ safeValidationId (sl_validation_id r) @ ''-'' @ take 24 h,
       fi_source = FROM_VALIDATION, fi_category_code = ''shift_left_static_quality'', fi_path = None, fi_line = None,
       fi_instruction = SHIFT_LEFT_REPAIR_INSTRUCTION_V4, fi_evidence_hash = h\<rparr>)"

definition createShiftLeftLintRepairPacketV4 ::
    "(packet_body \<Rightarrow> string) \<Rightarrow> (evidence_body \<Rightarrow> string) \<Rightarrow> string \<Rightarrow> int \<Rightarrow> shift_left_evidence list \<Rightarrow> repair_packet result" where
  "createShiftLeftLintRepairPacketV4 hash evidence story_id failed_attempt results =
     (let failed = filter (\<lambda>r. \<not> sl_passed r \<and> isStaticQualityValidationIdV4 (sl_validation_id r)) results in
      throw_if (failed = []) (Error GENERIC_ERROR ''VALIDATION_FAILED: no failed static quality validation is available for repair'')
        (loadRepairPacketV4 hash (sealed hash
          \<lparr>rk_story_id = story_id, rk_failed_attempt = failed_attempt,
           rk_findings = map (shift_left_finding evidence) failed\<rparr>)))"

section \<open>Lemmas\<close>

lemma loadRepairPacketV4_Inr:
  "loadRepairPacketV4 hash p = Inr q \<longleftrightarrow>
     q = p \<and> packetBodySchema p \<and> is_hash (rk_packet_hash p) \<and> rk_packet_hash p = hash (packet_body.truncate p)"
  by (auto simp: loadRepairPacketV4_def)

lemma loaded_packet_size: "loadRepairPacketV4 hash p = Inr q \<Longrightarrow> length (rk_findings q) \<le> 32"
  by (auto simp: loadRepairPacketV4_Inr packetBodySchema_def list_between_def)

lemma signature_key_inject: "signature_key f = signature_key g \<longleftrightarrow> f = g"
proof
  have null: "json_string p \<noteq> ''null''" for p by (simp add: json_string_def)
  assume "signature_key f = signature_key g"
  then have "json_string (source_text (sf_source f)) @ '','' @
      quoted_member ''category_code'' (json_string (sf_category_code f)) @ '','' @
      quoted_member ''path'' (case sf_path f of None \<Rightarrow> ''null'' | Some p \<Rightarrow> json_string p) @ ''}'' =
    json_string (source_text (sf_source g)) @ '','' @
      quoted_member ''category_code'' (json_string (sf_category_code g)) @ '','' @
      quoted_member ''path'' (case sf_path g of None \<Rightarrow> ''null'' | Some p \<Rightarrow> json_string p) @ ''}''"
    by (simp add: signature_key_def quoted_member_def)
  note 1 = json_string_unique [OF this]
  then have "json_string (sf_category_code f) @ '','' @
      quoted_member ''path'' (case sf_path f of None \<Rightarrow> ''null'' | Some p \<Rightarrow> json_string p) @ ''}'' =
    json_string (sf_category_code g) @ '','' @
      quoted_member ''path'' (case sf_path g of None \<Rightarrow> ''null'' | Some p \<Rightarrow> json_string p) @ ''}''"
    by (simp add: quoted_member_def)
  note 2 = json_string_unique [OF this]
  then have "(case sf_path f of None \<Rightarrow> ''null'' | Some p \<Rightarrow> json_string p) @ ''}'' =
      (case sf_path g of None \<Rightarrow> ''null'' | Some p \<Rightarrow> json_string p) @ ''}''"
    by (simp add: quoted_member_def)
  then have "sf_path f = sf_path g"
    using null by (auto split: option.splits dest: sym)
  moreover have "sf_source f = sf_source g"
    using 1 by (simp add: source_text_def split: finding_source.splits)
  ultimately show "f = g" using 2 by (simp add: signature_finding.equality)
qed simp

lemma set_keyed_findings: "set (keyed_findings fs) = (\<lambda>f. (signature_key f, f)) ` set fs"
  and distinct_keyed_findings: "distinct (map fst (keyed_findings fs))"
proof (induction fs rule: rev_induct)
  case (snoc f fs)
  let ?m = "keyed_findings fs"
  have step: "keyed_findings (fs @ [f]) = AList.update (signature_key f) f ?m" by (simp add: keyed_findings_def)
  { case 1
    have "(k, v) \<in> set (AList.update (signature_key f) f ?m) \<longleftrightarrow>
        (k, v) = (signature_key f, f) \<or> (k, v) \<in> set ?m" for k v
    proof -
      have d: "distinct (map fst (AList.update (signature_key f) f ?m))" using snoc.IH(2) by simp
      have "(k, v) \<in> set (AList.update (signature_key f) f ?m) \<longleftrightarrow>
          ((map_of ?m)(signature_key f \<mapsto> f)) k = Some v"
        using map_of_eq_Some_iff [OF d] by simp
      then show ?thesis
        using snoc.IH(1) map_of_eq_Some_iff [OF snoc.IH(2)] by (auto simp: signature_key_inject)
    qed
    then show ?case unfolding step using snoc.IH(1) by auto
  next
    case 2
    show ?case unfolding step using snoc.IH(2) by simp
  }
qed (simp_all add: keyed_findings_def)

text \<open>The signature depends on the set of projected findings only.\<close>

lemma canonical_findings_set:
  assumes "set fs = set gs"
  shows "canonical_findings fs = canonical_findings gs"
proof -
  let ?cmp = "\<lambda>l r. compare_code_units (signature_key l) (signature_key r)"
  have snd: "distinct (map snd (keyed_findings xs)) \<and> set (map snd (keyed_findings xs)) = set xs" for xs
  proof -
    have "distinct (keyed_findings xs)" using distinct_keyed_findings distinct_map by blast
    moreover have "inj_on snd (set (keyed_findings xs))" by (auto simp: inj_on_def set_keyed_findings)
    ultimately show ?thesis by (auto simp: distinct_map set_keyed_findings image_iff)
  qed
  have "mset (map snd (keyed_findings fs)) = mset (map snd (keyed_findings gs))"
    by (rule iffD1 [OF set_eq_iff_mset_eq_distinct]) (use snd [of fs] snd [of gs] assms in simp_all)
  moreover have "total_comparison ?cmp"
    using total_comparison_code_units unfolding total_comparison_def by blast
  ultimately show ?thesis
    unfolding canonical_findings_def
    by (intro js_sort_unique) (auto dest!: compare_code_units_antisym simp: signature_key_inject)
qed

lemma signature_order_independent:
  assumes "set (map projected fs) = set (map projected gs)" and "length fs \<le> 128" and "length gs \<le> 128"
  shows "createNormalizedFailureSignatureV4 hash fs = createNormalizedFailureSignatureV4 hash gs"
proof -
  have "list_between 1 128 failureSignatureFindingSchema (map projected fs) =
      list_between 1 128 failureSignatureFindingSchema (map projected gs)"
    using assms by (cases fs; cases gs) (auto simp: list_between_def list_all_iff)
  then show ?thesis
    using canonical_findings_set [OF assms(1)] by (simp add: createNormalizedFailureSignatureV4_def Let_def)
qed

end
