(* ===== verification/Story_History.thy ===== *)
theory Story_History
  imports Repair_Packet
begin

text \<open>
  runtime/iterative-executor.ts, the durable history of a plan: iteration events and frontier decisions,
  their creation and loading, the replay that rebuilds the executor's state from them, the replay of
  the decisions, and the snapshot a host can inspect.

  \<open>story_env\<close> extends the parameters of the plan by the hashes of the history (\<open>hashCanonicalV4\<close>). A
  \<open>Map\<close> from stories to receipts is the list of its values in insertion order, since a story is accepted
  at most once; \<open>attempts\<close> is an association list in insertion order.
\<close>

section \<open>Events\<close>

datatype iteration_outcome = IT_ACCEPTED | IT_RETRY | IT_ESCALATE
datatype escalation_reason = ATTEMPT_LIMIT | NO_PROGRESS | FRONTIER_DECISION
datatype decision_action = RETRY_STORY | ESCALATE_STORY
datatype control_mode = AUTONOMOUS_BROKER | FRONTIER_LED

record iteration_body =
  it_run_id :: string
  it_plan_hash :: string
  it_story_id :: string
  it_iteration :: int
  it_attempt :: int
  it_session_id :: string
  it_input_tree_hash :: string
  it_candidate_tree_hash :: string
  it_outcome :: iteration_outcome
  it_changes :: "candidate_change list"
  it_changed_lines :: int
  it_execution_result_hash :: string
  it_validation_manifest_hash :: string
  it_review_attestation_hash :: "string option"
  it_finding_hashes :: "string list"
  it_repair_packet_hash :: "string option"
  it_frontier_decision_hash :: "string option option"
  it_failure_signature_hash :: "string option"
  it_escalation_reason :: "escalation_reason option"

record iteration_event = iteration_body +
  it_event_hash :: string

record decision_input =
  dn_decision_id :: string
  dn_decision_owner_ref :: string
  dn_authority_evidence_hash :: string
  dn_rejected_event_hash :: string
  dn_action :: decision_action

record decision_body = decision_input +
  dn_run_id :: string
  dn_plan_hash :: string
  dn_decision_index :: int
  dn_previous_decision_hash :: "string option"

record decision_event = decision_body +
  dn_decision_hash :: string

record receipt =
  rc_story_id :: string
  rc_output_tree_hash :: string
  rc_changes :: "candidate_change list"
  rc_validation_manifest_hash :: string
  rc_review_attestation_hash :: string

record story_env = plan_env +
  se_packet_hash :: "packet_body \<Rightarrow> string"
  se_event_hash :: "iteration_body \<Rightarrow> string"
  se_decision_hash :: "decision_body \<Rightarrow> string"
  se_failure_hash :: "string option \<times> string option \<Rightarrow> string"

definition sessionId_ok :: "string \<Rightarrow> bool" where
  "sessionId_ok s = tagged_id ''session_'' 16 96 s"

definition decisionId_ok :: "string \<Rightarrow> bool" where
  "decisionId_ok s = tagged_id ''decision_'' 16 96 s"

definition iterationBodySchema :: "('a) iteration_body_scheme \<Rightarrow> bool" where
  "iterationBodySchema e =
     (run_id_ok (it_run_id e) \<and> is_hash (it_plan_hash e) \<and> storyId_ok (it_story_id e) \<and>
      int_between 1 64 (it_iteration e) \<and> int_between 1 3 (it_attempt e) \<and> sessionId_ok (it_session_id e) \<and>
      is_hash (it_input_tree_hash e) \<and> is_hash (it_candidate_tree_hash e) \<and>
      unique_items 1 256 candidateChangeSchema (it_changes e) \<and> int_between 1 100000 (it_changed_lines e) \<and>
      is_hash (it_execution_result_hash e) \<and> is_hash (it_validation_manifest_hash e) \<and>
      opt_all is_hash (it_review_attestation_hash e) \<and> unique_items 0 128 is_hash (it_finding_hashes e) \<and>
      opt_all is_hash (it_repair_packet_hash e) \<and> opt_all (opt_all is_hash) (it_frontier_decision_hash e) \<and>
      opt_all is_hash (it_failure_signature_hash e) \<and> it_escalation_reason e \<noteq> Some FRONTIER_DECISION)"

definition createStoryIterationEventV4 :: "('e) story_env_scheme \<Rightarrow> iteration_body \<Rightarrow> iteration_event result" where
  "createStoryIterationEventV4 env body =
     throw_if (\<not> iterationBodySchema body) (Error ZOD_ERROR ''iteration event'')
       (Inr (iteration_body.extend body \<lparr>it_event_hash = se_event_hash env body\<rparr>))"

definition loadStoryIterationEventV4 :: "('e) story_env_scheme \<Rightarrow> iteration_event \<Rightarrow> iteration_event result" where
  "loadStoryIterationEventV4 env e =
     throw_if (\<not> iterationBodySchema e \<or> \<not> is_hash (it_event_hash e)) (Error ZOD_ERROR ''iteration event'')
     (bindR (exactHash (se_event_hash env) (iteration_body.truncate e) (it_event_hash e) ''iteration event'') (\<lambda>_. Inr e))"

definition frontierDecisionInputSchema :: "('a) decision_input_scheme \<Rightarrow> bool" where
  "frontierDecisionInputSchema d =
     (decisionId_ok (dn_decision_id d) \<and> reference_ok (dn_decision_owner_ref d) \<and>
      is_hash (dn_authority_evidence_hash d) \<and> is_hash (dn_rejected_event_hash d))"

definition frontierDecisionBodySchema :: "('a) decision_body_scheme \<Rightarrow> bool" where
  "frontierDecisionBodySchema d =
     (frontierDecisionInputSchema d \<and> run_id_ok (dn_run_id d) \<and> is_hash (dn_plan_hash d) \<and>
      int_between 1 64 (dn_decision_index d) \<and> opt_all is_hash (dn_previous_decision_hash d))"

definition createFrontierDecisionEventV4 :: "('e) story_env_scheme \<Rightarrow> decision_body \<Rightarrow> decision_event result" where
  "createFrontierDecisionEventV4 env body =
     throw_if (\<not> frontierDecisionBodySchema body) (Error ZOD_ERROR ''frontier decision'')
       (Inr (decision_body.extend body \<lparr>dn_decision_hash = se_decision_hash env body\<rparr>))"

definition loadFrontierDecisionEventV4 :: "('e) story_env_scheme \<Rightarrow> decision_event \<Rightarrow> decision_event result" where
  "loadFrontierDecisionEventV4 env d =
     throw_if (\<not> frontierDecisionBodySchema d \<or> \<not> is_hash (dn_decision_hash d)) (Error ZOD_ERROR ''frontier decision'')
     (bindR (exactHash (se_decision_hash env) (decision_body.truncate d) (dn_decision_hash d) ''frontier decision'')
       (\<lambda>_. Inr d))"

section \<open>Replaying the iterations\<close>

record story_state =
  ss_events :: "iteration_event list"
  ss_attempts :: "(string \<times> int) list"
  ss_accepted :: "receipt list"
  ss_sessions :: "string list"
  ss_tree_hash :: string
  ss_escalation :: "(string \<times> escalation_reason) option"

definition start_state :: "string \<Rightarrow> story_state" where
  "start_state tree = \<lparr>ss_events = [], ss_attempts = [], ss_accepted = [], ss_sessions = [], ss_tree_hash = tree,
     ss_escalation = None\<rparr>"

definition accepted_ids :: "story_state \<Rightarrow> string list" where
  "accepted_ids s = map rc_story_id (ss_accepted s)"

definition next_attempt :: "story_state \<Rightarrow> string \<Rightarrow> int" where
  "next_attempt s k = (case map_of (ss_attempts s) k of None \<Rightarrow> 1 | Some n \<Rightarrow> n + 1)"

text \<open>How often the story has failed in a row with this signature, the present failure included.\<close>

definition same_failure :: "string \<Rightarrow> string option \<Rightarrow> iteration_event \<Rightarrow> bool" where
  "same_failure k sig p = (it_story_id p = k \<and> it_outcome p \<noteq> IT_ACCEPTED \<and> it_failure_signature_hash p = sig)"

definition repeats :: "iteration_event list \<Rightarrow> string \<Rightarrow> string option \<Rightarrow> int" where
  "repeats earlier k sig = 1 + int (length (takeWhile (same_failure k sig) (rev earlier)))"

definition expected_escalation :: "worker_capability \<Rightarrow> story \<Rightarrow> int \<Rightarrow> int \<Rightarrow> escalation_reason option" where
  "expected_escalation worker story attempt reps =
     (if reps \<ge> wl_no_progress_repeat_limit (wk_limits worker) then Some NO_PROGRESS
      else if attempt \<ge> sy_max_attempts story then Some ATTEMPT_LIMIT else None)"

definition record_attempt :: "iteration_event \<Rightarrow> story_state \<Rightarrow> story_state" where
  "record_attempt e s = s\<lparr>ss_events := ss_events s @ [e],
     ss_attempts := AList.update (it_story_id e) (it_attempt e) (ss_attempts s),
     ss_sessions := ss_sessions s @ [it_session_id e]\<rparr>"

definition receipt_of :: "iteration_event \<Rightarrow> string \<Rightarrow> receipt" where
  "receipt_of e attestation = \<lparr>rc_story_id = it_story_id e, rc_output_tree_hash = it_candidate_tree_hash e,
     rc_changes = it_changes e, rc_validation_manifest_hash = it_validation_manifest_hash e,
     rc_review_attestation_hash = attestation\<rparr>"

definition record_acceptance :: "iteration_event \<Rightarrow> string \<Rightarrow> story_state \<Rightarrow> story_state" where
  "record_acceptance e attestation s = s\<lparr>ss_tree_hash := it_candidate_tree_hash e,
     ss_accepted := ss_accepted s @ [receipt_of e attestation]\<rparr>"

definition replay_outcome :: "worker_capability \<Rightarrow> nat \<Rightarrow> story \<Rightarrow> int \<Rightarrow> iteration_event \<Rightarrow> story_state \<Rightarrow> story_state result" where
  "replay_outcome worker number story attempt e s =
     (if it_outcome e = IT_ACCEPTED
      then case it_review_attestation_hash e of
          None \<Rightarrow> Inl (story_invalid ''accepted iteration evidence is inconsistent'')
        | Some attestation \<Rightarrow>
            throw_if (it_finding_hashes e \<noteq> [] \<or> it_failure_signature_hash e \<noteq> None \<or> it_escalation_reason e \<noteq> None)
              (story_invalid ''accepted iteration evidence is inconsistent'')
              (Inr (record_acceptance e attestation (record_attempt e s)))
      else
        throw_if (it_finding_hashes e = [] \<or> it_failure_signature_hash e = None)
          (story_invalid ''rejected iteration lacks findings'')
        (let reason = expected_escalation worker story attempt
           (repeats (ss_events s) (it_story_id e) (it_failure_signature_hash e)) in
         if it_outcome e = IT_ESCALATE
         then case it_escalation_reason e of
             None \<Rightarrow> Inl (story_invalid ''escalation evidence is invalid'')
           | Some r \<Rightarrow>
               throw_if (reason \<noteq> Some r \<or> length (ss_events s) + 1 \<noteq> number)
                 (story_invalid ''escalation evidence is invalid'')
                 (Inr ((record_attempt e s)\<lparr>ss_escalation := Some (it_story_id e, r)\<rparr>))
         else throw_if (it_escalation_reason e \<noteq> None \<or> reason \<noteq> None)
             (story_invalid ''retry should have escalated'') (Inr (record_attempt e s))))"

definition replay_iteration ::
    "('e) story_env_scheme \<Rightarrow> plan \<Rightarrow> worker_capability \<Rightarrow> nat \<Rightarrow> story_state \<Rightarrow> iteration_event \<Rightarrow> story_state result" where
  "replay_iteration env plan worker number s e =
     throw_if (it_run_id e \<noteq> pl_run_id plan \<or> it_plan_hash e \<noteq> pl_plan_hash plan \<or>
         it_iteration e \<noteq> int (length (ss_events s)) + 1 \<or> it_input_tree_hash e \<noteq> ss_tree_hash s \<or>
         it_session_id e \<in> set (ss_sessions s))
       (story_invalid ''iteration history is not a contiguous plan-bound replay'')
     (case nextStory (se_locale_compare env) (pl_stories plan) (accepted_ids s) of
        None \<Rightarrow> Inl (story_invalid ''iteration story selection is invalid'')
      | Some story \<Rightarrow>
          throw_if (sy_story_id story \<noteq> it_story_id e) (story_invalid ''iteration story selection is invalid'')
          (throw_if (\<not> changesAreAuthorized story (it_changes e))
            (story_invalid ''iteration event exceeds the active story change authority'')
          (throw_if (it_candidate_tree_hash e = it_input_tree_hash e)
            (story_invalid ''iteration candidate did not change the accepted tree'')
          (throw_if (it_changed_lines e > sy_max_changed_lines story)
            (story_invalid ''iteration exceeds the story changed-line budget'')
          (let attempt = next_attempt s (sy_story_id story) in
           throw_if (it_attempt e \<noteq> attempt \<or> attempt > sy_max_attempts story)
             (story_invalid ''iteration attempt sequence is invalid'')
           (throw_if ((attempt = 1 \<and> it_repair_packet_hash e \<noteq> None) \<or> (attempt > 1 \<and> it_repair_packet_hash e = None))
             (story_invalid ''iteration repair packet binding is invalid'')
           (replay_outcome worker number story attempt e s)))))))"

definition replay_iterations ::
    "('e) story_env_scheme \<Rightarrow> plan \<Rightarrow> string \<Rightarrow> iteration_event list \<Rightarrow> worker_capability \<Rightarrow> story_state result" where
  "replay_iterations env plan initial supplied worker =
     throw_if (\<not> is_hash initial) (story_invalid ''initial tree hash is invalid'')
     (throw_if (int (length supplied) > pl_max_iterations plan) (story_invalid ''iteration history exceeds the plan budget'')
     (bindR (mapR (loadStoryIterationEventV4 env) supplied) (\<lambda>events.
      foldR (replay_iteration env plan worker (length events)) (start_state initial) events)))"

section \<open>Replaying the frontier decisions\<close>

record decision_state =
  dx_decisions :: "decision_event list"
  dx_target :: int
  dx_pending :: "decision_event option"
  dx_escalation :: "decision_event option"

definition consumed_decision :: "iteration_event \<Rightarrow> string option" where
  "consumed_decision e = (case it_frontier_decision_hash e of Some (Some h) \<Rightarrow> Some h | _ \<Rightarrow> None)"

definition last_decision_hash :: "decision_event list \<Rightarrow> string option" where
  "last_decision_hash ds = (if ds = [] then None else Some (dn_decision_hash (last ds)))"

text \<open>\<open>new Map(events.map((event, index) => [event.event_hash, index]))\<close>.\<close>

definition event_index :: "iteration_event list \<Rightarrow> string \<Rightarrow> nat option" where
  "event_index events h = find (\<lambda>i. it_event_hash (events ! i) = h) (rev [0..<length events])"

definition replay_decision ::
    "plan \<Rightarrow> iteration_event list \<Rightarrow> nat \<Rightarrow> decision_state \<Rightarrow> decision_event \<Rightarrow> decision_state result" where
  "replay_decision plan events number s d =
     (let earlier = dx_decisions s; final = (length earlier + 1 = number) in
     throw_if (dn_run_id d \<noteq> pl_run_id plan \<or> dn_plan_hash d \<noteq> pl_plan_hash plan \<or>
         dn_decision_index d \<noteq> int (length earlier) + 1 \<or> dn_previous_decision_hash d \<noteq> last_decision_hash earlier)
       (story_invalid ''frontier decision history is not a contiguous plan-bound chain'')
     (throw_if (dn_decision_id d \<in> set (map dn_decision_id earlier) \<or>
         dn_rejected_event_hash d \<in> set (map dn_rejected_event_hash earlier))
       (story_invalid ''frontier decision is duplicated'')
     (case event_index events (dn_rejected_event_hash d) of
        None \<Rightarrow> Inl (story_invalid ''frontier decision is stale or not bound to a rejected iteration'')
      | Some i \<Rightarrow>
          throw_if (it_outcome (events ! i) \<noteq> IT_RETRY \<or> int i \<le> dx_target s)
            (story_invalid ''frontier decision is stale or not bound to a rejected iteration'')
          (let s' = s\<lparr>dx_decisions := earlier @ [d], dx_target := int i\<rparr>;
               following = (if i + 1 < length events then Some (events ! (i + 1)) else None) in
           case dn_action d of
             RETRY_STORY \<Rightarrow> (case following of
                 None \<Rightarrow> throw_if (\<not> final)
                   (story_invalid ''pending frontier decision must be the end of the decision chain'')
                   (Inr (s'\<lparr>dx_pending := Some d\<rparr>))
               | Some f \<Rightarrow> throw_if (consumed_decision f \<noteq> Some (dn_decision_hash d))
                   (story_invalid ''retry iteration is not bound to its durable frontier decision'') (Inr s'))
           | ESCALATE_STORY \<Rightarrow> throw_if (following \<noteq> None \<or> \<not> final)
               (story_invalid ''frontier escalation decision must terminate the trajectory'')
               (Inr (s'\<lparr>dx_escalation := Some d\<rparr>))))))"

definition check_consumption ::
    "control_mode \<Rightarrow> decision_event list \<Rightarrow> iteration_event option \<Rightarrow> iteration_event \<Rightarrow> iteration_event option result" where
  "check_consumption mode decisions prior e =
     (if it_attempt e = 1
      then throw_if (consumed_decision e \<noteq> None)
        (story_invalid ''first attempt cannot consume a frontier retry decision'') (Inr (Some e))
      else if mode = AUTONOMOUS_BROKER
      then throw_if (consumed_decision e \<noteq> None)
        (story_invalid ''autonomous retry cannot consume a frontier decision'') (Inr (Some e))
      else case (prior, Option.bind (consumed_decision e)
             (\<lambda>h. find (\<lambda>d. dn_decision_hash d = h) (rev decisions))) of
          (Some p, Some d) \<Rightarrow>
            throw_if (it_story_id p \<noteq> it_story_id e \<or> it_outcome p \<noteq> IT_RETRY \<or> dn_action d \<noteq> RETRY_STORY \<or>
                dn_rejected_event_hash d \<noteq> it_event_hash p)
              (story_invalid ''frontier-led retry lacks its exact durable decision'') (Inr (Some e))
        | _ \<Rightarrow> Inl (story_invalid ''frontier-led retry lacks its exact durable decision''))"

definition replayFrontierDecisions ::
    "('e) story_env_scheme \<Rightarrow> plan \<Rightarrow> iteration_event list \<Rightarrow> decision_event list \<Rightarrow> control_mode \<Rightarrow> decision_state result" where
  "replayFrontierDecisions env plan events supplied mode =
     throw_if (int (length supplied) > pl_max_iterations plan)
       (story_invalid ''frontier decision history exceeds the plan budget'')
     (bindR (mapR (loadFrontierDecisionEventV4 env) supplied) (\<lambda>decisions.
      throw_if (mode = AUTONOMOUS_BROKER \<and> decisions \<noteq> [])
        (story_invalid ''frontier decision history requires FRONTIER_LED review control'')
      (bindR (foldR (replay_decision plan events (length decisions))
          \<lparr>dx_decisions = [], dx_target = - 1, dx_pending = None, dx_escalation = None\<rparr> decisions) (\<lambda>s.
       bindR (foldR (check_consumption mode decisions) None events) (\<lambda>_. Inr s)))))"

section \<open>The snapshot of a trajectory\<close>

datatype trajectory_status = TRAJECTORY_COMPLETE | TRAJECTORY_ESCALATE | TRAJECTORY_IN_PROGRESS

record trajectory_snapshot =
  ts_status :: trajectory_status
  ts_tree_hash :: string
  ts_accepted_story_ids :: "string list"
  ts_attempts_by_story :: "(string \<times> int) list"
  ts_session_count :: nat
  ts_escalation_story_id :: "string option"
  ts_escalation_reason :: "escalation_reason option"
  ts_events :: "iteration_event list"
  ts_frontier_decisions :: "decision_event list"

definition escalated_story :: "story_state \<Rightarrow> decision_state \<Rightarrow> string option" where
  "escalated_story s f = (case ss_escalation s of
      Some (k, r) \<Rightarrow> Some k
    | None \<Rightarrow> (case dx_escalation f of
        None \<Rightarrow> None
      | Some d \<Rightarrow> map_option it_story_id (find (\<lambda>e. it_event_hash e = dn_rejected_event_hash d) (ss_events s))))"

definition snapshot_of_state :: "plan \<Rightarrow> story_state \<Rightarrow> decision_state \<Rightarrow> trajectory_snapshot" where
  "snapshot_of_state plan s f =
     \<lparr>ts_status = (if length (ss_accepted s) = length (pl_stories plan) then TRAJECTORY_COMPLETE
        else if ss_escalation s = None \<and> dx_escalation f = None then TRAJECTORY_IN_PROGRESS else TRAJECTORY_ESCALATE),
      ts_tree_hash = ss_tree_hash s, ts_accepted_story_ids = accepted_ids s,
      ts_attempts_by_story = ss_attempts s, ts_session_count = length (remdups (ss_sessions s)),
      ts_escalation_story_id = escalated_story s f,
      ts_escalation_reason = (case ss_escalation s of Some (k, r) \<Rightarrow> Some r
        | None \<Rightarrow> map_option (\<lambda>_. FRONTIER_DECISION) (dx_escalation f)),
      ts_events = ss_events s, ts_frontier_decisions = dx_decisions f\<rparr>"

definition inspectIterativeTrajectoryV4 ::
    "('e) story_env_scheme \<Rightarrow> work_contract \<Rightarrow> worker_capability \<Rightarrow> plan \<Rightarrow> string \<Rightarrow> iteration_event list \<Rightarrow>
     control_mode option \<Rightarrow> decision_event list option \<Rightarrow> trajectory_snapshot result" where
  "inspectIterativeTrajectoryV4 env contract workerInput planInput initial events mode decisions =
     bindR (loadWorkerCapabilityV4 (se_worker_hash env) workerInput) (\<lambda>worker.
     bindR (loadIterativeStoryPlanV4 env contract worker planInput) (\<lambda>plan.
     bindR (replay_iterations env plan initial events worker) (\<lambda>s.
     bindR (replayFrontierDecisions env plan (ss_events s) (case decisions of None \<Rightarrow> [] | Some ds \<Rightarrow> ds)
         (case mode of None \<Rightarrow> AUTONOMOUS_BROKER | Some m \<Rightarrow> m)) (\<lambda>f.
     Inr (snapshot_of_state plan s f)))))"

end
