(* ===== verification/Story_Executor.thy ===== *)
theory Story_Executor
  imports Story_History Effects
begin

text \<open>
  runtime/iterative-executor.ts, \<open>runIterativeExecutorV4\<close>: the driver that selects the next story, has
  it executed, validated and reviewed, records the outcome durably and retries, escalates or goes on.

  The callbacks of the request are the ports of \<open>executor_env\<close>. Each answers as a function of the log of
  all calls of this run, so nothing is assumed of it; the log pairs a call with the durable history at
  that moment. A durable write may be recorded, fail, or be recorded and then fail.
\<close>

section \<open>Data\<close>

record candidate_result =
  cx_candidate_tree_hash :: string
  cx_changes :: "candidate_change list"
  cx_changed_lines :: int
  cx_result_hash :: string

record validation_answer =
  va_passed :: bool
  va_manifest_hash :: string
  va_finding_hashes :: "string list"
  va_failure_signature_hash :: "string option"

record review_answer =
  ra_accepted :: bool
  ra_attestation_hash :: string
  ra_finding_hashes :: "string list"
  ra_failure_signature_hash :: "string option"

record review_control =
  vc_mode :: control_mode
  vc_frontier_decision :: "decision_input option"

record execution_request =
  xq_contract :: work_contract
  xq_worker :: worker_capability
  xq_plan :: plan
  xq_initial_tree_hash :: string
  xq_prior_events :: "iteration_event list"
  xq_prior_frontier_decisions :: "decision_event list option"
  xq_review_control :: "review_control option"

datatype run_status = RUN_COMPLETE | RUN_ESCALATE | RUN_ITERATION_LIMIT | RUN_AWAITING_FRONTIER_DECISION

record execution_result =
  xr_status :: run_status
  xr_tree_hash :: string
  xr_accepted_receipts :: "receipt list"
  xr_events :: "iteration_event list"
  xr_frontier_decisions :: "decision_event list"
  xr_escalation_story_id :: "string option"
  xr_escalation_reason :: "escalation_reason option"

record promotion =
  pr_story :: story
  pr_input_tree_hash :: string
  pr_candidate_tree_hash :: string

datatype executor_call =
    LOAD_REPAIR_PACKET story int "string list"
  | EXECUTE story int int string string "receipt list" "repair_packet option"
  | VALIDATE_TREE story string
  | REVIEW_TREE story string string
  | PERSIST_ITERATION iteration_event "promotion option"
  | PERSIST_DECISION decision_event

datatype persist_answer = RECORDED | NOT_RECORDED | RECORDED_THEN_FAILED

type_synonym durable_history = "iteration_event list \<times> decision_event list"
type_synonym executor_log = "(durable_history \<times> executor_call) list"

record executor_env = story_env +
  xe_create_session_id :: "executor_log \<Rightarrow> string"
  xe_load_repair_packet :: "executor_log \<Rightarrow> repair_packet result"
  xe_execute :: "executor_log \<Rightarrow> candidate_result result"
  xe_validate :: "executor_log \<Rightarrow> validation_answer result"
  xe_review :: "executor_log \<Rightarrow> review_answer result"
  xe_persist_iteration :: "executor_log \<Rightarrow> persist_answer"
  xe_persist_frontier_decision :: "(executor_log \<Rightarrow> persist_answer) option"

text \<open>The variables of a run, with the durable history and the log.\<close>

record exec =
  ex_state :: story_state
  ex_decisions :: "decision_event list"
  ex_active_decision :: "string option"
  ex_durable :: durable_history
  ex_log :: executor_log

definition executionCandidateSchema :: "candidate_result \<Rightarrow> bool" where
  "executionCandidateSchema c =
     (is_hash (cx_candidate_tree_hash c) \<and> unique_items 1 256 candidateChangeSchema (cx_changes c) \<and>
      int_between 1 100000 (cx_changed_lines c) \<and> is_hash (cx_result_hash c))"

definition validationResultSchema :: "validation_answer \<Rightarrow> bool" where
  "validationResultSchema v =
     (is_hash (va_manifest_hash v) \<and> unique_items 0 128 is_hash (va_finding_hashes v) \<and>
      opt_all is_hash (va_failure_signature_hash v))"

definition reviewResultSchema :: "review_answer \<Rightarrow> bool" where
  "reviewResultSchema r =
     (is_hash (ra_attestation_hash r) \<and> unique_items 0 128 is_hash (ra_finding_hashes r) \<and>
      opt_all is_hash (ra_failure_signature_hash r))"

section \<open>Calls\<close>

definition call_port :: "executor_call \<Rightarrow> (executor_log \<Rightarrow> 'a result) \<Rightarrow> (exec, 'a) io" where
  "call_port p answer c = (let h = (ex_durable c, p) # ex_log c in (c\<lparr>ex_log := h\<rparr>, answer h))"

definition persist_call :: "executor_call \<Rightarrow> (executor_log \<Rightarrow> persist_answer) \<Rightarrow> (durable_history \<Rightarrow> durable_history) \<Rightarrow> (exec, unit) io" where
  "persist_call p answer add c =
     (let h = (ex_durable c, p) # ex_log c; c' = c\<lparr>ex_log := h\<rparr>; stored = add (ex_durable c) in
      case answer h of
        RECORDED \<Rightarrow> (c'\<lparr>ex_durable := stored\<rparr>, Inr ())
      | NOT_RECORDED \<Rightarrow> (c', Inl (Error PORT_ERROR ''history write failed''))
      | RECORDED_THEN_FAILED \<Rightarrow> (c'\<lparr>ex_durable := stored\<rparr>, Inl (Error PORT_ERROR ''history write failed'')))"

definition result_now :: "run_status \<Rightarrow> string option \<Rightarrow> escalation_reason option \<Rightarrow> exec \<Rightarrow> execution_result" where
  "result_now status k reason c =
     \<lparr>xr_status = status, xr_tree_hash = ss_tree_hash (ex_state c), xr_accepted_receipts = ss_accepted (ex_state c),
      xr_events = ss_events (ex_state c), xr_frontier_decisions = ex_decisions c,
      xr_escalation_story_id = k, xr_escalation_reason = reason\<rparr>"

section \<open>One iteration\<close>

definition previous_failure :: "iteration_event list \<Rightarrow> string \<Rightarrow> iteration_event option" where
  "previous_failure events k = find (\<lambda>e. it_story_id e = k \<and> it_outcome e \<noteq> IT_ACCEPTED) (rev events)"

definition packet_differs :: "story \<Rightarrow> iteration_event \<Rightarrow> repair_packet \<Rightarrow> bool" where
  "packet_differs story failure p =
     (rk_story_id p \<noteq> sy_story_id story \<or> rk_failed_attempt p \<noteq> it_attempt failure \<or>
      length (rk_findings p) \<noteq> length (it_finding_hashes failure) \<or>
      list_ex (\<lambda>f. fi_evidence_hash f \<notin> set (it_finding_hashes failure)) (rk_findings p))"

definition last_failure :: "control_mode \<Rightarrow> story \<Rightarrow> int \<Rightarrow> exec \<Rightarrow> iteration_event result" where
  "last_failure mode story attempt c =
     throw_if (mode = FRONTIER_LED \<and> ex_active_decision c = None)
       (story_violation ''retry lacks a durable frontier decision'')
     (case previous_failure (ss_events (ex_state c)) (sy_story_id story) of
        None \<Rightarrow> Inl (story_violation ''retry lacks contiguous failure evidence'')
      | Some f \<Rightarrow> throw_if (it_attempt f \<noteq> attempt - 1)
          (story_violation ''retry lacks contiguous failure evidence'') (Inr f))"

definition repair_step :: "executor_env \<Rightarrow> control_mode \<Rightarrow> story \<Rightarrow> int \<Rightarrow> (exec, repair_packet option) io" where
  "repair_step env mode story attempt =
     (if attempt \<le> 1 then ioRet None
      else
        ioBind (ioGet (last_failure mode story attempt)) (\<lambda>found.
        ioBind (ioLift found) (\<lambda>failure.
        ioBind (call_port (LOAD_REPAIR_PACKET story (it_attempt failure) (it_finding_hashes failure))
          (xe_load_repair_packet env)) (\<lambda>supplied.
        ioBind (ioLift (loadRepairPacketV4 (se_packet_hash env) supplied)) (\<lambda>packet.
        ioLift (throw_if (packet_differs story failure packet)
          (story_violation ''repair packet differs from persisted failure evidence'') (Inr (Some packet))))))))"

definition session_step :: "executor_env \<Rightarrow> (exec, string) io" where
  "session_step env =
     ioBind (ioGet (\<lambda>c. (xe_create_session_id env (ex_log c), ss_sessions (ex_state c)))) (\<lambda>(session, used).
     ioLift (throw_if (\<not> sessionId_ok session \<or> session \<in> set used)
       (story_violation ''executor session must be fresh and valid'') (Inr session)))"

definition candidate_ok :: "story \<Rightarrow> string \<Rightarrow> candidate_result \<Rightarrow> candidate_result result" where
  "candidate_ok story tree c =
     throw_if (\<not> executionCandidateSchema c) (story_violation ''executor returned invalid evidence'')
     (throw_if (cx_candidate_tree_hash c = tree) (story_violation ''executor candidate must differ from the accepted tree'')
     (throw_if (\<not> changesAreAuthorized story (cx_changes c))
       (story_violation ''executor exceeded the active story change authority'')
     (throw_if (cx_changed_lines c > sy_max_changed_lines story)
       (story_violation ''executor exceeded the story changed-line budget'') (Inr c))))"

definition execute_step ::
    "executor_env \<Rightarrow> story \<Rightarrow> int \<Rightarrow> int \<Rightarrow> string \<Rightarrow> repair_packet option \<Rightarrow> (exec, candidate_result) io" where
  "execute_step env story iteration attempt session packet =
     ioBind (ioGet ex_state) (\<lambda>s.
     ioBind (call_port (EXECUTE story iteration attempt session (ss_tree_hash s) (ss_accepted s) packet) (xe_execute env)) (\<lambda>supplied.
     ioLift (candidate_ok story (ss_tree_hash s) supplied)))"

definition validate_step :: "executor_env \<Rightarrow> story \<Rightarrow> candidate_result \<Rightarrow> (exec, validation_answer) io" where
  "validate_step env story c =
     ioBind (call_port (VALIDATE_TREE story (cx_candidate_tree_hash c)) (xe_validate env)) (\<lambda>v.
     ioLift (throw_if (\<not> validationResultSchema v) (story_violation ''validation returned invalid evidence'') (Inr v)))"

definition review_step :: "executor_env \<Rightarrow> story \<Rightarrow> candidate_result \<Rightarrow> validation_answer \<Rightarrow> (exec, review_answer option) io" where
  "review_step env story c v =
     (if \<not> va_passed v then ioRet None
      else
        ioBind (call_port (REVIEW_TREE story (cx_candidate_tree_hash c) (va_manifest_hash v)) (xe_review env)) (\<lambda>r.
        ioLift (throw_if (\<not> reviewResultSchema r) (story_violation ''review returned invalid evidence'') (Inr (Some r)))))"

definition js_unique :: "'a list \<Rightarrow> 'a list" where
  "js_unique xs = rev (remdups (rev xs))"

definition review_accepts :: "validation_answer \<Rightarrow> review_answer option \<Rightarrow> bool" where
  "review_accepts v r = (va_passed v \<and> (case r of None \<Rightarrow> False | Some a \<Rightarrow> ra_accepted a))"

definition finding_union :: "validation_answer \<Rightarrow> review_answer option \<Rightarrow> string list" where
  "finding_union v r = js_unique (va_finding_hashes v @ (case r of None \<Rightarrow> [] | Some a \<Rightarrow> ra_finding_hashes a))"

definition judge :: "validation_answer \<Rightarrow> review_answer option \<Rightarrow> bool result" where
  "judge v r =
     (let accepted = review_accepts v r; findings = finding_union v r in
      throw_if (va_passed v \<noteq> (va_finding_hashes v = [] \<and> va_failure_signature_hash v = None))
        (story_violation ''validation failure evidence is inconsistent'')
      (throw_if (case r of None \<Rightarrow> False
          | Some a \<Rightarrow> ra_accepted a \<noteq> (ra_finding_hashes a = [] \<and> ra_failure_signature_hash a = None))
        (story_violation ''review failure evidence is inconsistent'')
      (throw_if ((\<not> accepted \<and> findings = []) \<or> (accepted \<and> findings \<noteq> []))
        (story_violation ''acceptance decision and findings are inconsistent'') (Inr accepted))))"

definition failure_signature :: "executor_env \<Rightarrow> bool \<Rightarrow> validation_answer \<Rightarrow> review_answer option \<Rightarrow> string option" where
  "failure_signature env accepted v r = (if accepted then None
     else Some (se_failure_hash env (va_failure_signature_hash v,
       case r of None \<Rightarrow> None | Some a \<Rightarrow> ra_failure_signature_hash a)))"

definition escalation_of :: "worker_capability \<Rightarrow> story \<Rightarrow> int \<Rightarrow> bool \<Rightarrow> string option \<Rightarrow> story_state \<Rightarrow> escalation_reason option" where
  "escalation_of worker story attempt accepted sig s =
     (if accepted then None
      else expected_escalation worker story attempt (repeats (ss_events s) (sy_story_id story) sig))"

definition outcome_of :: "bool \<Rightarrow> escalation_reason option \<Rightarrow> iteration_outcome" where
  "outcome_of accepted reason = (if accepted then IT_ACCEPTED else if reason = None then IT_RETRY else IT_ESCALATE)"

definition iteration_body_of ::
    "executor_env \<Rightarrow> plan \<Rightarrow> worker_capability \<Rightarrow> story \<Rightarrow> int \<Rightarrow> int \<Rightarrow> string \<Rightarrow> repair_packet option \<Rightarrow>
     candidate_result \<Rightarrow> validation_answer \<Rightarrow> review_answer option \<Rightarrow> bool \<Rightarrow> exec \<Rightarrow> iteration_body" where
  "iteration_body_of env plan worker story iteration attempt session packet candidate v r accepted c =
     (let sig = failure_signature env accepted v r;
          reason = escalation_of worker story attempt accepted sig (ex_state c) in
      \<lparr>it_run_id = pl_run_id plan, it_plan_hash = pl_plan_hash plan, it_story_id = sy_story_id story,
       it_iteration = iteration, it_attempt = attempt, it_session_id = session,
       it_input_tree_hash = ss_tree_hash (ex_state c), it_candidate_tree_hash = cx_candidate_tree_hash candidate,
       it_outcome = outcome_of accepted reason, it_changes = cx_changes candidate,
       it_changed_lines = cx_changed_lines candidate, it_execution_result_hash = cx_result_hash candidate,
       it_validation_manifest_hash = va_manifest_hash v,
       it_review_attestation_hash = map_option ra_attestation_hash r, it_finding_hashes = finding_union v r,
       it_repair_packet_hash = map_option rk_packet_hash packet,
       it_frontier_decision_hash = Some (if attempt > 1 then ex_active_decision c else None),
       it_failure_signature_hash = sig, it_escalation_reason = reason\<rparr>)"

definition persist_step :: "executor_env \<Rightarrow> story \<Rightarrow> iteration_event \<Rightarrow> (exec, unit) io" where
  "persist_step env story e =
     ioBind (ioGet ex_state) (\<lambda>s.
     persist_call (PERSIST_ITERATION e (if it_outcome e = IT_ACCEPTED
         then Some \<lparr>pr_story = story, pr_input_tree_hash = ss_tree_hash s, pr_candidate_tree_hash = it_candidate_tree_hash e\<rparr>
         else None))
       (xe_persist_iteration env) (\<lambda>(events, decisions). (events @ [e], decisions)))"

definition recorded :: "iteration_event \<Rightarrow> story_state \<Rightarrow> story_state" where
  "recorded e s = (let s' = record_attempt e s in
     if it_outcome e = IT_ACCEPTED
     then (case it_review_attestation_hash e of None \<Rightarrow> s' | Some a \<Rightarrow> record_acceptance e a s')
     else s')"

definition record_step :: "iteration_event \<Rightarrow> (exec, unit) io" where
  "record_step e = ioModify (\<lambda>c. c\<lparr>ex_state := recorded e (ex_state c)\<rparr>)"

text \<open>What follows a recorded iteration: \<open>None\<close> stays in the loop.\<close>

definition after_iteration :: "control_mode \<Rightarrow> iteration_event \<Rightarrow> exec \<Rightarrow> execution_result option" where
  "after_iteration mode e c = (case it_outcome e of
      IT_ACCEPTED \<Rightarrow> None
    | IT_ESCALATE \<Rightarrow> Some (result_now RUN_ESCALATE (Some (it_story_id e)) (it_escalation_reason e) c)
    | IT_RETRY \<Rightarrow> if mode = FRONTIER_LED then Some (result_now RUN_AWAITING_FRONTIER_DECISION None None c) else None)"

definition conclude ::
    "executor_env \<Rightarrow> plan \<Rightarrow> worker_capability \<Rightarrow> control_mode \<Rightarrow> story \<Rightarrow> int \<Rightarrow> int \<Rightarrow> string \<Rightarrow> repair_packet option \<Rightarrow>
     candidate_result \<Rightarrow> validation_answer \<Rightarrow> review_answer option \<Rightarrow> (exec, execution_result option) io" where
  "conclude env plan worker mode story iteration attempt session packet candidate v r =
     ioBind (ioLift (judge v r)) (\<lambda>accepted.
     ioBind (ioGet (iteration_body_of env plan worker story iteration attempt session packet candidate v r accepted)) (\<lambda>body.
     ioBind (ioLift (createStoryIterationEventV4 env body)) (\<lambda>e.
     ioBind (persist_step env story e) (\<lambda>_.
     ioBind (record_step e) (\<lambda>_.
     ioGet (after_iteration mode e))))))"

definition examine ::
    "executor_env \<Rightarrow> plan \<Rightarrow> worker_capability \<Rightarrow> control_mode \<Rightarrow> story \<Rightarrow> int \<Rightarrow> int \<Rightarrow> string \<Rightarrow> repair_packet option \<Rightarrow>
     candidate_result \<Rightarrow> (exec, execution_result option) io" where
  "examine env plan worker mode story iteration attempt session packet candidate =
     ioBind (validate_step env story candidate) (\<lambda>v.
     ioBind (review_step env story candidate v) (\<lambda>r.
     conclude env plan worker mode story iteration attempt session packet candidate v r))"

definition attempt_story ::
    "executor_env \<Rightarrow> plan \<Rightarrow> worker_capability \<Rightarrow> control_mode \<Rightarrow> story \<Rightarrow> int \<Rightarrow> (exec, execution_result option) io" where
  "attempt_story env plan worker mode story attempt =
     ioBind (ioGet (\<lambda>c. int (length (ss_events (ex_state c))) + 1)) (\<lambda>iteration.
     ioBind (session_step env) (\<lambda>session.
     ioBind (repair_step env mode story attempt) (\<lambda>packet.
     ioBind (execute_step env story iteration attempt session packet) (\<lambda>candidate.
     examine env plan worker mode story iteration attempt session packet candidate))))"

text \<open>\<open>state.accepted.size !== plan.stories.length\<close> in the loop throws.\<close>

definition iterate ::
    "executor_env \<Rightarrow> plan \<Rightarrow> worker_capability \<Rightarrow> control_mode \<Rightarrow> (exec, execution_result option) io" where
  "iterate env plan worker mode =
     ioBind (ioGet ex_state) (\<lambda>s.
     case nextStory (se_locale_compare env) (pl_stories plan) (accepted_ids s) of
       None \<Rightarrow>
         if length (ss_accepted s) \<noteq> length (pl_stories plan)
         then ioLift (Inl (story_violation ''story graph has no executable pending story''))
         else ioGet (\<lambda>c. Some (result_now RUN_COMPLETE None None c))
     | Some story \<Rightarrow>
         if next_attempt s (sy_story_id story) > sy_max_attempts story
         then ioGet (\<lambda>c. Some (result_now RUN_ESCALATE (Some (sy_story_id story)) (Some ATTEMPT_LIMIT) c))
         else attempt_story env plan worker mode story (next_attempt s (sy_story_id story)))"

section \<open>A run\<close>

text \<open>
  The loop, on fuel: \<open>None\<close> is a loop that is still running when the rounds are used up. Every round records one more
  event, so \<open>max_iterations\<close> rounds and one more suffice, which \<open>executor_rounds_return\<close> shows; the error in
  \<open>executor_loop\<close> stands for a run that would not end and is never reached.
\<close>

fun executor_rounds ::
    "executor_env \<Rightarrow> plan \<Rightarrow> worker_capability \<Rightarrow> control_mode \<Rightarrow> nat \<Rightarrow> (exec, execution_result option) io" where
  "executor_rounds env plan worker mode 0 = ioRet None"
| "executor_rounds env plan worker mode (Suc n) =
     ioBind (ioGet ex_state) (\<lambda>s.
     if int (length (ss_events s)) < pl_max_iterations plan
     then ioBind (iterate env plan worker mode) (\<lambda>r.
       case r of Some x \<Rightarrow> ioRet (Some x) | None \<Rightarrow> executor_rounds env plan worker mode n)
     else ioGet (\<lambda>c. Some (result_now
       (if length (ss_accepted s) = length (pl_stories plan) then RUN_COMPLETE else RUN_ITERATION_LIMIT) None None c)))"

definition ended :: "'a option \<Rightarrow> 'a result" where
  "ended r = (case r of None \<Rightarrow> Inl (Error RANGE_ERROR ''does not terminate'') | Some x \<Rightarrow> Inr x)"

definition executor_loop ::
    "executor_env \<Rightarrow> plan \<Rightarrow> worker_capability \<Rightarrow> control_mode \<Rightarrow> nat \<Rightarrow> (exec, execution_result) io" where
  "executor_loop env plan worker mode n = ioBind (executor_rounds env plan worker mode n) (\<lambda>r. ioLift (ended r))"

lemma ended_simps [simp]: "ended (Some x) = Inr x" "ended None = Inl (Error RANGE_ERROR ''does not terminate'')"
  by (simp_all add: ended_def)

lemma executor_loop_simps [simp]:
  "executor_loop env plan worker mode 0 = ioLift (Inl (Error RANGE_ERROR ''does not terminate''))"
  "executor_loop env plan worker mode (Suc n) =
     ioBind (ioGet ex_state) (\<lambda>s.
     if int (length (ss_events s)) < pl_max_iterations plan
     then ioBind (iterate env plan worker mode) (\<lambda>r.
       case r of Some x \<Rightarrow> ioRet x | None \<Rightarrow> executor_loop env plan worker mode n)
     else ioGet (result_now
       (if length (ss_accepted s) = length (pl_stories plan) then RUN_COMPLETE else RUN_ITERATION_LIMIT) None None))"
  by (auto simp: executor_loop_def fun_eq_iff ioBind_def ioGet_def ioRet_def ioLift_def split: prod.split sum.split option.split)

definition pending_rejection :: "story_state \<Rightarrow> iteration_event option" where
  "pending_rejection s = (if ss_events s \<noteq> [] \<and> it_outcome (last (ss_events s)) = IT_RETRY
     then Some (last (ss_events s)) else None)"

definition decision_of :: "plan \<Rightarrow> decision_event list \<Rightarrow> decision_input \<Rightarrow> decision_body" where
  "decision_of plan earlier d = decision_input.extend d
     \<lparr>dn_run_id = pl_run_id plan, dn_plan_hash = pl_plan_hash plan, dn_decision_index = int (length earlier) + 1,
      dn_previous_decision_hash = last_decision_hash earlier\<rparr>"

definition record_decision :: "executor_env \<Rightarrow> plan \<Rightarrow> decision_input \<Rightarrow> (exec, unit) io" where
  "record_decision env plan d =
     ioBind (ioGet ex_decisions) (\<lambda>earlier.
     ioBind (ioLift (throw_if (list_ex (\<lambda>k. dn_decision_id k = dn_decision_id d \<or>
         dn_rejected_event_hash k = dn_rejected_event_hash d) earlier)
       (story_invalid ''frontier decision is duplicated'') (Inr ()))) (\<lambda>_.
     case xe_persist_frontier_decision env of
       None \<Rightarrow> ioLift (Inl (story_violation ''frontier decision persistence is unavailable''))
     | Some persist \<Rightarrow>
         ioBind (ioLift (createFrontierDecisionEventV4 env (decision_of plan earlier d))) (\<lambda>e.
         ioBind (persist_call (PERSIST_DECISION e) persist (\<lambda>(events, decisions). (events, decisions @ [e]))) (\<lambda>_.
         ioModify (\<lambda>c. c\<lparr>ex_decisions := ex_decisions c @ [e], ex_active_decision := Some (dn_decision_hash e)\<rparr>)))))"

definition frontier_control ::
    "executor_env \<Rightarrow> plan \<Rightarrow> control_mode \<Rightarrow> decision_input option \<Rightarrow> decision_event option \<Rightarrow> (exec, execution_result option) io" where
  "frontier_control env plan mode supplied pending_retry =
     ioBind (ioGet (\<lambda>c. pending_rejection (ex_state c))) (\<lambda>rejection.
     ioBind (ioLift
       (throw_if (mode = AUTONOMOUS_BROKER \<and> supplied \<noteq> None)
          (story_invalid ''frontier decision requires FRONTIER_LED review control'')
       (throw_if (mode = FRONTIER_LED \<and> rejection = None \<and> supplied \<noteq> None)
          (story_invalid ''frontier decision has no pending rejected iteration'')
       (throw_if (mode = FRONTIER_LED \<and> pending_retry \<noteq> None \<and> supplied \<noteq> None)
          (story_invalid ''frontier decision is duplicated'') (Inr ()))))) (\<lambda>_.
     if mode = AUTONOMOUS_BROKER then ioRet None
     else case (rejection, supplied) of
         (None, _) \<Rightarrow> ioRet None
       | (Some p, None) \<Rightarrow>
           if pending_retry = None then ioGet (\<lambda>c. Some (result_now RUN_AWAITING_FRONTIER_DECISION None None c))
           else ioRet None
       | (Some p, Some d) \<Rightarrow>
           ioBind (ioLift (throw_if (dn_rejected_event_hash d \<noteq> it_event_hash p)
             (story_invalid ''frontier decision is not bound to the pending rejected iteration'') (Inr ()))) (\<lambda>_.
           ioBind (record_decision env plan d) (\<lambda>_.
           if dn_action d = ESCALATE_STORY
           then ioGet (\<lambda>c. Some (result_now RUN_ESCALATE (Some (it_story_id p)) (Some FRONTIER_DECISION) c))
           else ioRet None))))"

record prepared =
  pp_worker :: worker_capability
  pp_plan :: plan
  pp_mode :: control_mode
  pp_decision :: "decision_input option"
  pp_state :: story_state
  pp_frontier :: decision_state

definition prepare :: "executor_env \<Rightarrow> execution_request \<Rightarrow> prepared result" where
  "prepare env q =
     bindR (loadWorkerCapabilityV4 (se_worker_hash env) (xq_worker q)) (\<lambda>worker.
     bindR (loadIterativeStoryPlanV4 env (xq_contract q) worker (xq_plan q)) (\<lambda>plan.
     (let control = (case xq_review_control q of
            None \<Rightarrow> \<lparr>vc_mode = AUTONOMOUS_BROKER, vc_frontier_decision = None\<rparr> | Some v \<Rightarrow> v) in
     throw_if (\<not> opt_all frontierDecisionInputSchema (vc_frontier_decision control))
       (story_invalid ''review control is invalid'')
     (bindR (replay_iterations env plan (xq_initial_tree_hash q) (xq_prior_events q) worker) (\<lambda>s.
      bindR (replayFrontierDecisions env plan (ss_events s)
          (case xq_prior_frontier_decisions q of None \<Rightarrow> [] | Some ds \<Rightarrow> ds) (vc_mode control)) (\<lambda>f.
      Inr \<lparr>pp_worker = worker, pp_plan = plan, pp_mode = vc_mode control, pp_decision = vc_frontier_decision control,
           pp_state = s, pp_frontier = f\<rparr>))))))"

definition run_prepared :: "executor_env \<Rightarrow> prepared \<Rightarrow> (exec, execution_result) io" where
  "run_prepared env p = (case ss_escalation (pp_state p) of
      Some (k, reason) \<Rightarrow> ioGet (result_now RUN_ESCALATE (Some k) (Some reason))
    | None \<Rightarrow> (case dx_escalation (pp_frontier p) of
        Some d \<Rightarrow> ioGet (result_now RUN_ESCALATE (escalated_story (pp_state p) (pp_frontier p)) (Some FRONTIER_DECISION))
      | None \<Rightarrow>
          ioBind (frontier_control env (pp_plan p) (pp_mode p) (pp_decision p) (dx_pending (pp_frontier p))) (\<lambda>r.
          case r of
            Some x \<Rightarrow> ioRet x
          | None \<Rightarrow> executor_loop env (pp_plan p) (pp_worker p) (pp_mode p) (nat (pl_max_iterations (pp_plan p)) + 1))))"

definition entered_run :: "prepared \<Rightarrow> exec" where
  "entered_run p = \<lparr>ex_state = pp_state p, ex_decisions = dx_decisions (pp_frontier p),
     ex_active_decision = map_option dn_decision_hash (dx_pending (pp_frontier p)),
     ex_durable = (ss_events (pp_state p), dx_decisions (pp_frontier p)), ex_log = []\<rparr>"

text \<open>
  A run leaves the durable history and the log it ends with. The host supplies the recorded history as
  \<open>prior_events\<close> and \<open>prior_frontier_decisions\<close>; a request that is not accepted changes nothing.
\<close>

definition runIterativeExecutorV4 ::
    "executor_env \<Rightarrow> execution_request \<Rightarrow> (durable_history \<times> executor_log) \<times> execution_result result" where
  "runIterativeExecutorV4 env q = (case prepare env q of
      Inl e \<Rightarrow> (((xq_prior_events q, case xq_prior_frontier_decisions q of None \<Rightarrow> [] | Some ds \<Rightarrow> ds), []), Inl e)
    | Inr p \<Rightarrow> (case run_prepared env p (entered_run p) of (c, r) \<Rightarrow> ((ex_durable c, ex_log c), r)))"

end
