(* ===== verification/Story_Replay.thy ===== *)
theory Story_Replay
  imports Story_Graph Story_Executor
begin

text \<open>
  What a replayed history guarantees: how events number the attempts of a story, which stories are
  accepted, and that a history which does not end in an escalation can be extended by any event its
  replay accepts.
\<close>

section \<open>One replayed event\<close>

definition escalated_by :: "iteration_event \<Rightarrow> story_state \<Rightarrow> story_state" where
  "escalated_by e s = (recorded e s)\<lparr>ss_escalation :=
     (if it_outcome e = IT_ESCALATE then Some (it_story_id e, the (it_escalation_reason e)) else ss_escalation s)\<rparr>"

definition outcome_consistent :: "worker_capability \<Rightarrow> story \<Rightarrow> iteration_event \<Rightarrow> story_state \<Rightarrow> bool" where
  "outcome_consistent worker story e s = (case it_outcome e of
      IT_ACCEPTED \<Rightarrow> it_review_attestation_hash e \<noteq> None \<and> it_finding_hashes e = [] \<and>
        it_failure_signature_hash e = None \<and> it_escalation_reason e = None
    | _ \<Rightarrow> it_finding_hashes e \<noteq> [] \<and> it_failure_signature_hash e \<noteq> None \<and>
        it_escalation_reason e = expected_escalation worker story (it_attempt e)
          (repeats (ss_events s) (it_story_id e) (it_failure_signature_hash e)) \<and>
        (it_outcome e = IT_ESCALATE) = (it_escalation_reason e \<noteq> None))"

lemma replay_outcome_Inr:
  "it_attempt e = attempt \<Longrightarrow> replay_outcome worker n story attempt e s = Inr s' \<longleftrightarrow>
     outcome_consistent worker story e s \<and> (it_outcome e = IT_ESCALATE \<longrightarrow> length (ss_events s) + 1 = n) \<and>
     s' = escalated_by e s"
  by (cases "it_outcome e")
    (auto simp: replay_outcome_def outcome_consistent_def escalated_by_def recorded_def record_attempt_def
      record_acceptance_def Let_def split: option.splits if_splits)

definition admissible_event :: "('e) story_env_scheme \<Rightarrow> plan \<Rightarrow> worker_capability \<Rightarrow> story_state \<Rightarrow> story \<Rightarrow> iteration_event \<Rightarrow> bool" where
  "admissible_event env plan worker s story e =
     (it_run_id e = pl_run_id plan \<and> it_plan_hash e = pl_plan_hash plan \<and>
      it_iteration e = int (length (ss_events s)) + 1 \<and> it_input_tree_hash e = ss_tree_hash s \<and>
      it_session_id e \<notin> set (ss_sessions s) \<and>
      nextStory (se_locale_compare env) (pl_stories plan) (accepted_ids s) = Some story \<and> sy_story_id story = it_story_id e \<and>
      changesAreAuthorized story (it_changes e) \<and> it_candidate_tree_hash e \<noteq> it_input_tree_hash e \<and>
      it_changed_lines e \<le> sy_max_changed_lines story \<and> it_attempt e = next_attempt s (it_story_id e) \<and>
      it_attempt e \<le> sy_max_attempts story \<and> (it_attempt e = 1 \<longrightarrow> it_repair_packet_hash e = None) \<and>
      (it_attempt e > 1 \<longrightarrow> it_repair_packet_hash e \<noteq> None) \<and> outcome_consistent worker story e s)"

lemma replay_iteration_Inr:
  "replay_iteration env plan worker n s e = Inr s' \<longleftrightarrow>
     (\<exists>story. admissible_event env plan worker s story e) \<and>
     (it_outcome e = IT_ESCALATE \<longrightarrow> length (ss_events s) + 1 = n) \<and> s' = escalated_by e s"
  by (cases "nextStory (se_locale_compare env) (pl_stories plan) (accepted_ids s)")
    (auto simp: replay_iteration_def admissible_event_def Let_def replay_outcome_Inr)

lemma recorded_fields [simp]:
  "ss_events (recorded e s) = ss_events s @ [e]" "ss_sessions (recorded e s) = ss_sessions s @ [it_session_id e]"
  "ss_attempts (recorded e s) = AList.update (it_story_id e) (it_attempt e) (ss_attempts s)"
  "ss_escalation (recorded e s) = ss_escalation s"
  by (simp_all add: recorded_def record_attempt_def record_acceptance_def Let_def split: option.splits)

lemma escalated_fields [simp]:
  "ss_events (escalated_by e s) = ss_events s @ [e]" "ss_sessions (escalated_by e s) = ss_sessions s @ [it_session_id e]"
  "ss_accepted (escalated_by e s) = ss_accepted (recorded e s)" "ss_tree_hash (escalated_by e s) = ss_tree_hash (recorded e s)"
  "ss_attempts (escalated_by e s) = AList.update (it_story_id e) (it_attempt e) (ss_attempts s)"
  "ss_escalation (escalated_by e s) = (if it_outcome e = IT_ESCALATE
     then Some (it_story_id e, the (it_escalation_reason e)) else ss_escalation s)"
  by (simp_all add: escalated_by_def)

lemma escalated_by_same: "it_outcome e \<noteq> IT_ESCALATE \<Longrightarrow> escalated_by e s = recorded e s"
  by (simp add: escalated_by_def)

lemma accepted_recorded:
  assumes "outcome_consistent worker story e s"
  shows "accepted_ids (recorded e s) = accepted_ids s @ (if it_outcome e = IT_ACCEPTED then [it_story_id e] else [])"
    and "ss_tree_hash (recorded e s) = (if it_outcome e = IT_ACCEPTED then it_candidate_tree_hash e else ss_tree_hash s)"
  using assms
  by (auto simp: outcome_consistent_def accepted_ids_def recorded_def record_attempt_def record_acceptance_def
      receipt_of_def Let_def split: iteration_outcome.splits)

section \<open>The invariant of a replay\<close>

definition attempts_of :: "story_state \<Rightarrow> string \<Rightarrow> nat" where
  "attempts_of s k = length (filter (\<lambda>e. it_story_id e = k) (ss_events s))"

definition story_inv :: "plan \<Rightarrow> story_state \<Rightarrow> bool" where
  "story_inv plan s =
     ((\<forall>k. next_attempt s k = int (attempts_of s k) + 1) \<and>
      (\<forall>k. k \<notin> set (accepted_ids s) \<longrightarrow> attempts_of s k \<noteq> 0 \<longrightarrow>
        (\<exists>f. previous_failure (ss_events s) k = Some f \<and> it_attempt f = int (attempts_of s k))) \<and>
      distinct (accepted_ids s) \<and> set (accepted_ids s) \<subseteq> set (story_ids (pl_stories plan)) \<and>
      ss_sessions s = map it_session_id (ss_events s) \<and> distinct (ss_sessions s) \<and>
      (\<forall>story \<in> set (pl_stories plan). int (attempts_of s (sy_story_id story)) \<le> sy_max_attempts story) \<and>
      (ss_escalation s = None \<longrightarrow> (\<forall>story \<in> set (pl_stories plan). sy_story_id story \<notin> set (accepted_ids s) \<longrightarrow>
        int (attempts_of s (sy_story_id story)) < sy_max_attempts story)))"

lemma start_fields [simp]: "ss_events (start_state t) = []" "ss_escalation (start_state t) = None"
  "ss_tree_hash (start_state t) = t" "ss_accepted (start_state t) = []"
  by (simp_all add: start_state_def)

lemma story_inv_start:
  assumes "\<forall>story \<in> set (pl_stories plan). 1 \<le> sy_max_attempts story"
  shows "story_inv plan (start_state tree)"
  using assms by (auto simp: story_inv_def start_state_def next_attempt_def attempts_of_def accepted_ids_def)

lemma attempts_of_step [simp]:
  "attempts_of (escalated_by e s) k = attempts_of s k + (if it_story_id e = k then 1 else 0)"
  by (simp add: attempts_of_def)

lemma previous_failure_snoc:
  "previous_failure (es @ [e]) k = (if it_story_id e = k \<and> it_outcome e \<noteq> IT_ACCEPTED then Some e else previous_failure es k)"
  by (simp add: previous_failure_def)

lemma story_inv_step:
  assumes inv: "story_inv plan s" and step: "replay_iteration env plan worker n s e = Inr s'"
    and ids: "distinct (story_ids (pl_stories plan))"
  shows "story_inv plan s'"
proof -
  from step obtain story where a: "admissible_event env plan worker s story e" and s': "s' = escalated_by e s"
    by (auto simp: replay_iteration_Inr)
  from a have o: "outcome_consistent worker story e s" and id: "sy_story_id story = it_story_id e"
    and att: "it_attempt e = next_attempt s (it_story_id e)" "it_attempt e \<le> sy_max_attempts story"
    and fresh: "it_session_id e \<notin> set (ss_sessions s)"
    by (auto simp: admissible_event_def)
  from a have nx: "nextStory (se_locale_compare env) (pl_stories plan) (accepted_ids s) = Some story"
    by (simp add: admissible_event_def)
  note ns = nextStory_Some [OF nx]
  have count: "it_attempt e = int (attempts_of s (it_story_id e)) + 1"
    using inv att(1) by (simp add: story_inv_def)
  have acc: "accepted_ids s' = accepted_ids s @ (if it_outcome e = IT_ACCEPTED then [it_story_id e] else [])"
    using accepted_recorded(1) [OF o] by (simp add: s' accepted_ids_def)
  have same: "t = story" if "t \<in> set (pl_stories plan)" "sy_story_id t = it_story_id e" for t
    using that ns(1) id ids by (auto simp: story_ids_def distinct_map inj_on_def)
  have 1: "next_attempt s' k = int (attempts_of s' k) + 1" for k
    using inv count by (auto simp: story_inv_def s' next_attempt_def)
  have 2: "\<exists>f. previous_failure (ss_events s') k = Some f \<and> it_attempt f = int (attempts_of s' k)"
    if "k \<notin> set (accepted_ids s')" "attempts_of s' k \<noteq> 0" for k
    using that inv count acc by (auto simp: story_inv_def s' previous_failure_snoc split: if_splits)
  have 3: "distinct (accepted_ids s')" "set (accepted_ids s') \<subseteq> set (story_ids (pl_stories plan))"
    using inv acc ns(2) ns(1) id [symmetric] by (auto simp: story_inv_def story_ids_def)
  have 4: "ss_sessions s' = map it_session_id (ss_events s')" "distinct (ss_sessions s')"
    using inv fresh by (auto simp: story_inv_def s')
  have 5: "int (attempts_of s' (sy_story_id t)) \<le> sy_max_attempts t" if "t \<in> set (pl_stories plan)" for t
    using that inv att(2) count same [of t] by (auto simp: story_inv_def s')
  have 6: "int (attempts_of s' (sy_story_id t)) < sy_max_attempts t"
    if "ss_escalation s' = None" "t \<in> set (pl_stories plan)" "sy_story_id t \<notin> set (accepted_ids s')" for t
  proof (cases "sy_story_id t = it_story_id e")
    case True
    with that acc have "it_outcome e = IT_RETRY" by (cases "it_outcome e") (auto simp: s')
    with o have "it_attempt e < sy_max_attempts story"
      by (auto simp: outcome_consistent_def expected_escalation_def split: if_splits)
    with True same that(2) count show ?thesis by (auto simp: s')
  next
    case False
    with that inv acc show ?thesis by (auto simp: story_inv_def s' split: if_splits)
  qed
  show ?thesis unfolding story_inv_def using 1 2 3 4 5 6 by blast
qed

section \<open>Histories\<close>

definition plan_ok :: "plan \<Rightarrow> bool" where
  "plan_ok plan = (distinct (story_ids (pl_stories plan)) \<and> (\<forall>s \<in> set (pl_stories plan). 1 \<le> sy_max_attempts s) \<and>
     1 \<le> pl_max_iterations plan)"

lemma loaded_plan_ok: "loadIterativeStoryPlanV4 env contract worker p = Inr q \<Longrightarrow> plan_ok q"
  using assertDag_Inr [of "pl_stories q"] loaded_plan(1,6) [of env contract worker p q]
    loaded_plan_schema [of env contract worker p q]
  by (auto simp: plan_ok_def storySchema_def storyBodySchema_def int_between_def)

definition history_of :: "('e) story_env_scheme \<Rightarrow> plan \<Rightarrow> worker_capability \<Rightarrow> string \<Rightarrow> nat \<Rightarrow> iteration_event list \<Rightarrow> story_state \<Rightarrow> bool" where
  "history_of env plan worker tree n events s = (foldR (replay_iteration env plan worker n) (start_state tree) events = Inr s)"

lemma history_snoc:
  "history_of env plan worker tree n (es @ [e]) s' \<longleftrightarrow>
     (\<exists>s. history_of env plan worker tree n es s \<and> replay_iteration env plan worker n s e = Inr s')"
  by (auto simp: history_of_def foldR_snoc)

lemma history_facts:
  assumes "plan_ok plan"
  shows "history_of env plan worker tree n es s \<Longrightarrow> story_inv plan s \<and> ss_events s = es"
proof (induction es arbitrary: s rule: rev_induct)
  case Nil
  then have "s = start_state tree" by (simp add: history_of_def)
  then show ?case using assms story_inv_start [of plan tree] by (simp add: plan_ok_def)
next
  case (snoc e es)
  then obtain t where t: "history_of env plan worker tree n es t" "replay_iteration env plan worker n t e = Inr s"
    by (auto simp: history_snoc)
  from snoc.IH [OF t(1)] have "story_inv plan t" "ss_events t = es" by auto
  moreover have "distinct (story_ids (pl_stories plan))" using assms by (simp add: plan_ok_def)
  ultimately show ?case using story_inv_step [OF _ t(2)] t(2) by (auto simp: replay_iteration_Inr)
qed

text \<open>Only an escalation looks at the length of the whole history.\<close>

lemma history_any_length:
  "history_of env plan worker tree n es s \<Longrightarrow> ss_escalation s = None \<Longrightarrow> history_of env plan worker tree m es s"
proof (induction es arbitrary: s rule: rev_induct)
  case (snoc e es)
  then obtain t where t: "history_of env plan worker tree n es t" "replay_iteration env plan worker n t e = Inr s"
    by (auto simp: history_snoc)
  then have s: "it_outcome e \<noteq> IT_ESCALATE" "ss_escalation t = None"
    using snoc.prems(2) by (auto simp: replay_iteration_Inr split: if_splits)
  with t(2) have "replay_iteration env plan worker m t e = Inr s" by (simp add: replay_iteration_Inr)
  with snoc.IH [OF t(1) s(2)] show ?case by (auto simp: history_snoc)
qed (simp add: history_of_def)

definition tracked :: "('e) story_env_scheme \<Rightarrow> plan \<Rightarrow> worker_capability \<Rightarrow> string \<Rightarrow> story_state \<Rightarrow> bool" where
  "tracked env plan worker tree s =
     (is_hash tree \<and> list_all (\<lambda>e. loadStoryIterationEventV4 env e = Inr e) (ss_events s) \<and> ss_escalation s = None \<and>
      (\<forall>n. history_of env plan worker tree n (ss_events s) s))"

lemma load_event_id: "loadStoryIterationEventV4 env e = Inr f \<Longrightarrow> f = e"
  by (auto simp: loadStoryIterationEventV4_def)

lemma load_events: "mapR (loadStoryIterationEventV4 env) es = Inr fs \<longleftrightarrow>
    fs = es \<and> list_all (\<lambda>e. loadStoryIterationEventV4 env e = Inr e) es"
  by (induction es arbitrary: fs) (auto dest: load_event_id)

lemma replay_iterations_Inr:
  "replay_iterations env plan tree es worker = Inr s \<longleftrightarrow>
     is_hash tree \<and> int (length es) \<le> pl_max_iterations plan \<and>
     list_all (\<lambda>e. loadStoryIterationEventV4 env e = Inr e) es \<and> history_of env plan worker tree (length es) es s"
  by (auto simp: replay_iterations_def history_of_def load_events)

lemma replay_iterations_facts:
  assumes "plan_ok plan" and "replay_iterations env plan tree es worker = Inr s"
  shows "ss_events s = es" and "story_inv plan s" and "int (length es) \<le> pl_max_iterations plan"
    and "ss_escalation s = None \<Longrightarrow> tracked env plan worker tree s"
proof -
  from assms(2) have h: "history_of env plan worker tree (length es) es s" "is_hash tree"
    and l: "int (length es) \<le> pl_max_iterations plan" "list_all (\<lambda>e. loadStoryIterationEventV4 env e = Inr e) es"
    by (simp_all add: replay_iterations_Inr)
  note f = history_facts [OF assms(1) h(1)]
  from f l show "ss_events s = es" "story_inv plan s" "int (length es) \<le> pl_max_iterations plan" by simp_all
  show "tracked env plan worker tree s" if "ss_escalation s = None"
    using history_any_length [OF h(1) that] f h(2) l(2) that by (simp add: tracked_def)
qed

lemma tracked_facts:
  assumes "plan_ok plan" and "tracked env plan worker tree s"
  shows "story_inv plan s" and "ss_escalation s = None"
    and "int (length (ss_events s)) \<le> pl_max_iterations plan \<Longrightarrow> replay_iterations env plan tree (ss_events s) worker = Inr s"
proof -
  have h: "history_of env plan worker tree (length (ss_events s)) (ss_events s) s" using assms(2) by (simp add: tracked_def)
  from history_facts [OF assms(1) h] show "story_inv plan s" by simp
  from assms(2) show "ss_escalation s = None" by (simp add: tracked_def)
  show "replay_iterations env plan tree (ss_events s) worker = Inr s" if "int (length (ss_events s)) \<le> pl_max_iterations plan"
    using that assms(2) h by (simp add: replay_iterations_Inr tracked_def)
qed

lemma tracked_extend:
  assumes "tracked env plan worker tree s" and "loadStoryIterationEventV4 env e = Inr e"
    and "admissible_event env plan worker s story e" and "int (length (ss_events s)) < pl_max_iterations plan"
  shows "replay_iterations env plan tree (ss_events s @ [e]) worker = Inr (escalated_by e s)"
    and "it_outcome e \<noteq> IT_ESCALATE \<Longrightarrow> tracked env plan worker tree (recorded e s)"
proof -
  have "replay_iteration env plan worker n s e = Inr (escalated_by e s)"
    if "it_outcome e = IT_ESCALATE \<longrightarrow> length (ss_events s) + 1 = n" for n
    using that assms(3) by (auto simp: replay_iteration_Inr)
  then have h: "history_of env plan worker tree n (ss_events s @ [e]) (escalated_by e s)"
    if "it_outcome e = IT_ESCALATE \<longrightarrow> length (ss_events s) + 1 = n" for n
    using that assms(1) by (auto simp: history_snoc tracked_def)
  from h [of "length (ss_events s @ [e])"] show "replay_iterations env plan tree (ss_events s @ [e]) worker = Inr (escalated_by e s)"
    using assms by (auto simp: replay_iterations_Inr tracked_def)
  show "tracked env plan worker tree (recorded e s)" if "it_outcome e \<noteq> IT_ESCALATE"
    using h that assms(1,2) escalated_by_same [OF that, of s] by (auto simp: tracked_def)
qed

text \<open>
  After a rejection the same story is next, with a further attempt; and a story that has been attempted
  but not accepted was rejected last.
\<close>

lemma history_rejection:
  assumes "plan_ok plan" and "history_of env plan worker tree n (ss_events s) s" and "pending_rejection s = Some p"
  shows "\<exists>story. nextStory (se_locale_compare env) (pl_stories plan) (accepted_ids s) = Some story \<and>
    sy_story_id story = it_story_id p \<and> 1 < next_attempt s (it_story_id p)"
proof -
  from assms(3) obtain es where es: "ss_events s = es @ [p]" and o: "it_outcome p = IT_RETRY"
    by (cases "ss_events s" rule: rev_cases) (auto simp: pending_rejection_def split: if_splits)
  from assms(2) have "history_of env plan worker tree n (es @ [p]) s" by (simp add: es)
  then obtain t where t: "history_of env plan worker tree n es t" "replay_iteration env plan worker n t p = Inr s"
    by (auto simp: history_snoc)
  then obtain story where a: "admissible_event env plan worker t story p" and s: "s = escalated_by p t"
    by (auto simp: replay_iteration_Inr)
  have "accepted_ids s = accepted_ids t"
    using accepted_recorded(1) [of worker story p t] a o by (simp add: s admissible_event_def accepted_ids_def)
  moreover have "1 < next_attempt s (it_story_id p)"
  proof -
    have "story_inv plan s" using history_facts [OF assms(1,2)] by simp
    then have "next_attempt s (it_story_id p) = int (attempts_of s (it_story_id p)) + 1" by (simp add: story_inv_def)
    moreover have "attempts_of s (it_story_id p) \<noteq> 0" by (simp add: attempts_of_def es)
    ultimately show ?thesis by simp
  qed
  ultimately show ?thesis using a by (auto simp: admissible_event_def)
qed

lemma history_open_attempt:
  assumes "plan_ok plan"
  shows "history_of env plan worker tree n es s \<Longrightarrow> ss_escalation s = None \<Longrightarrow> attempts_of s k \<noteq> 0 \<Longrightarrow>
    k \<notin> set (accepted_ids s) \<Longrightarrow> \<exists>p. pending_rejection s = Some p \<and> it_story_id p = k"
proof (induction es arbitrary: s rule: rev_induct)
  case Nil
  from Nil(1) have "s = start_state tree" by (simp add: history_of_def)
  with Nil(3) show ?case by (simp add: attempts_of_def)
next
  case (snoc e es)
  then obtain t where t: "history_of env plan worker tree n es t" "replay_iteration env plan worker n t e = Inr s"
    by (auto simp: history_snoc)
  then obtain story where a: "admissible_event env plan worker t story e" and s: "s = escalated_by e t"
    by (auto simp: replay_iteration_Inr)
  have acc: "accepted_ids s = accepted_ids t @ (if it_outcome e = IT_ACCEPTED then [it_story_id e] else [])"
    using accepted_recorded(1) [of worker story e t] a by (simp add: s admissible_event_def accepted_ids_def)
  have esc: "ss_escalation t = None" "it_outcome e \<noteq> IT_ESCALATE" using snoc.prems(2) by (auto simp: s split: if_splits)
  have "it_story_id e = k"
  proof (rule ccontr)
    assume ne: "it_story_id e \<noteq> k"
    with snoc.prems(3,4) acc have "attempts_of t k \<noteq> 0" "k \<notin> set (accepted_ids t)" by (auto simp: s)
    from snoc.IH [OF t(1) esc(1) this] obtain p where p: "pending_rejection t = Some p" "it_story_id p = k" by blast
    have "history_of env plan worker tree n (ss_events t) t" using t(1) history_facts [OF assms t(1)] by simp
    from history_rejection [OF assms this p(1)] a p(2) ne show False by (auto simp: admissible_event_def)
  qed
  with snoc.prems(4) acc esc(2) have "it_outcome e = IT_RETRY" by (cases "it_outcome e") auto
  with \<open>it_story_id e = k\<close> show ?case by (simp add: s pending_rejection_def)
qed

lemma after_rejection:
  assumes "plan_ok plan" and "tracked env plan worker tree s" and "pending_rejection s = Some p"
  shows "\<exists>story. nextStory (se_locale_compare env) (pl_stories plan) (accepted_ids s) = Some story \<and>
    sy_story_id story = it_story_id p \<and> 1 < next_attempt s (it_story_id p)"
  using history_rejection [OF assms(1), of env worker tree 0 s p] assms(2,3) by (simp add: tracked_def)

lemma open_attempt:
  assumes "plan_ok plan" and "tracked env plan worker tree s" and "1 < next_attempt s k" and "k \<notin> set (accepted_ids s)"
  shows "\<exists>p. pending_rejection s = Some p \<and> it_story_id p = k"
proof -
  have "attempts_of s k \<noteq> 0" using tracked_facts(1) [OF assms(1,2)] assms(3) by (auto simp: story_inv_def)
  with history_open_attempt [OF assms(1), of env worker tree 0 "ss_events s" s k] assms(2,4) show ?thesis
    by (simp add: tracked_def)
qed

lemma history_escalated_length:
  assumes "plan_ok plan"
  shows "history_of env plan worker tree n es s \<Longrightarrow> ss_escalation s \<noteq> None \<Longrightarrow> n \<le> length es"
proof (induction es arbitrary: s rule: rev_induct)
  case (snoc e es)
  then obtain t where t: "history_of env plan worker tree n es t" "replay_iteration env plan worker n t e = Inr s"
    by (auto simp: history_snoc)
  show ?case
  proof (cases "ss_escalation t = None")
    case False
    from snoc.IH [OF t(1) False] show ?thesis by simp
  next
    case True
    with t(2) snoc.prems(2) history_facts [OF assms t(1)] show ?thesis
      by (auto simp: replay_iteration_Inr split: if_splits)
  qed
qed (simp add: history_of_def)

lemma history_escalated:
  assumes "plan_ok plan" and "history_of env plan worker tree (length es) es s" and "ss_escalation s \<noteq> None"
  shows "\<exists>story \<in> set (pl_stories plan). sy_story_id story \<notin> set (accepted_ids s)"
proof (cases es rule: rev_cases)
  case Nil
  with assms(2,3) show ?thesis by (auto simp: history_of_def)
next
  case (snoc fs e)
  with assms(2) obtain t where t: "history_of env plan worker tree (length es) fs t"
    "replay_iteration env plan worker (length es) t e = Inr s"
    by (auto simp: history_snoc)
  then obtain story where a: "admissible_event env plan worker t story e" and s: "s = escalated_by e t"
    by (auto simp: replay_iteration_Inr)
  have "ss_escalation t = None" using history_escalated_length [OF assms(1) t(1)] snoc by (cases "ss_escalation t") auto
  with assms(3) have "it_outcome e = IT_ESCALATE" by (auto simp: s split: if_splits)
  then have "accepted_ids s = accepted_ids t"
    using accepted_recorded(1) [of worker story e t] a by (simp add: s admissible_event_def accepted_ids_def)
  moreover from a have "nextStory (se_locale_compare env) (pl_stories plan) (accepted_ids t) = Some story"
    by (simp add: admissible_event_def)
  ultimately show ?thesis using nextStory_Some(1,2) by metis
qed

lemma incomplete:
  assumes "story_inv plan s" and "story \<in> set (pl_stories plan)" and "sy_story_id story \<notin> set (accepted_ids s)"
  shows "length (ss_accepted s) < length (pl_stories plan)"
proof -
  let ?ids = "set (story_ids (pl_stories plan))"
  have "set (accepted_ids s) \<subset> ?ids" using assms by (auto simp: story_inv_def story_ids_def)
  then have "card (set (accepted_ids s)) < card ?ids" by (simp add: psubset_card_mono)
  moreover have "card (set (accepted_ids s)) = length (ss_accepted s)"
    using assms(1) distinct_card [of "accepted_ids s"] by (simp add: story_inv_def) (simp add: accepted_ids_def)
  moreover have "card ?ids \<le> length (pl_stories plan)"
    using card_length [of "story_ids (pl_stories plan)"] by (simp add: story_ids_def)
  ultimately show ?thesis by simp
qed

end
