(* ===== verification/Story_Decisions.thy ===== *)
theory Story_Decisions
  imports Story_History
begin

text \<open>
  The frontier decisions of a history: how their replay reacts to one more decision about the pending
  rejection and to one more recorded iteration.
\<close>

section \<open>One decision\<close>

lemma find_SomeD: "find P xs = Some x \<Longrightarrow> P x \<and> x \<in> set xs"
  by (induction xs) (auto split: if_splits)

lemma event_index_snoc:
  "event_index (es @ [e]) h = (if it_event_hash e = h then Some (length es) else event_index es h)"
proof -
  have "find (\<lambda>i. it_event_hash ((es @ [e]) ! i) = h) is = find (\<lambda>i. it_event_hash (es ! i) = h) is"
    if "\<forall>i \<in> set is. i < length es" for "is"
    using that by (induction "is") (auto simp: nth_append)
  then show ?thesis by (simp add: event_index_def)
qed

lemma event_index_Nil [simp]: "event_index [] h = None"
  by (simp add: event_index_def)

lemma event_index_Some: "event_index es h = Some i \<Longrightarrow> i < length es \<and> it_event_hash (es ! i) = h"
  by (induction es arbitrary: i rule: rev_induct) (auto simp: event_index_snoc nth_append split: if_splits)

definition linked :: "plan \<Rightarrow> decision_event list \<Rightarrow> decision_event \<Rightarrow> bool" where
  "linked plan earlier d =
     (dn_run_id d = pl_run_id plan \<and> dn_plan_hash d = pl_plan_hash plan \<and>
      dn_decision_index d = int (length earlier) + 1 \<and> dn_previous_decision_hash d = last_decision_hash earlier \<and>
      dn_decision_id d \<notin> set (map dn_decision_id earlier) \<and>
      dn_rejected_event_hash d \<notin> set (map dn_rejected_event_hash earlier))"

definition settles :: "decision_event \<Rightarrow> decision_state \<Rightarrow> decision_state" where
  "settles d t = (case dn_action d of RETRY_STORY \<Rightarrow> t\<lparr>dx_pending := Some d\<rparr> | ESCALATE_STORY \<Rightarrow> t\<lparr>dx_escalation := Some d\<rparr>)"

definition targeted :: "decision_event \<Rightarrow> nat \<Rightarrow> decision_state \<Rightarrow> decision_state" where
  "targeted d i s = s\<lparr>dx_decisions := dx_decisions s @ [d], dx_target := int i\<rparr>"

lemma settles_fields [simp]:
  "dx_decisions (settles d t) = dx_decisions t" "dx_target (settles d t) = dx_target t"
  "dx_pending (settles d t) = (if dn_action d = RETRY_STORY then Some d else dx_pending t)"
  "dx_escalation (settles d t) = (if dn_action d = ESCALATE_STORY then Some d else dx_escalation t)"
  by (simp_all add: settles_def split: decision_action.split)

lemma targeted_fields [simp]:
  "dx_decisions (targeted d i s) = dx_decisions s @ [d]" "dx_target (targeted d i s) = int i"
  "dx_pending (targeted d i s) = dx_pending s" "dx_escalation (targeted d i s) = dx_escalation s"
  by (simp_all add: targeted_def)

lemma replay_decision_Inr:
  "replay_decision plan es n s d = Inr t \<longleftrightarrow>
     linked plan (dx_decisions s) d \<and>
     (\<exists>i. event_index es (dn_rejected_event_hash d) = Some i \<and> it_outcome (es ! i) = IT_RETRY \<and> dx_target s < int i \<and>
       (if i + 1 < length es
        then dn_action d = RETRY_STORY \<and> consumed_decision (es ! (i + 1)) = Some (dn_decision_hash d) \<and> t = targeted d i s
        else length (dx_decisions s) + 1 = n \<and> t = settles d (targeted d i s)))"
  by (cases "dn_action d")
    (auto simp: replay_decision_def Let_def linked_def targeted_def settles_def split: option.splits if_splits)

section \<open>A chain of decisions\<close>

definition no_decisions :: decision_state where
  "no_decisions = \<lparr>dx_decisions = [], dx_target = - 1, dx_pending = None, dx_escalation = None\<rparr>"

definition chain_of :: "plan \<Rightarrow> iteration_event list \<Rightarrow> nat \<Rightarrow> decision_event list \<Rightarrow> decision_state \<Rightarrow> bool" where
  "chain_of plan es n ds t = (foldR (replay_decision plan es n) no_decisions ds = Inr t)"

lemma chain_Nil [simp]: "chain_of plan es n [] t \<longleftrightarrow> t = no_decisions"
  by (auto simp: chain_of_def)

lemma chain_snoc:
  "chain_of plan es n (ds @ [d]) t \<longleftrightarrow> (\<exists>s. chain_of plan es n ds s \<and> replay_decision plan es n s d = Inr t)"
  by (auto simp: chain_of_def foldR_snoc)

definition decides_last :: "iteration_event list \<Rightarrow> decision_event list \<Rightarrow> decision_event \<Rightarrow> bool" where
  "decides_last es ds d = (d \<in> set ds \<and> es \<noteq> [] \<and> it_event_hash (last es) = dn_rejected_event_hash d \<and>
     it_outcome (last es) = IT_RETRY)"

definition chain_inv :: "iteration_event list \<Rightarrow> nat \<Rightarrow> decision_event list \<Rightarrow> decision_state \<Rightarrow> bool" where
  "chain_inv es n ds t =
     (dx_decisions t = ds \<and> (length ds < n \<longrightarrow> dx_pending t = None \<and> dx_escalation t = None) \<and>
      (\<forall>d. dx_pending t = Some d \<longrightarrow> decides_last es ds d \<and> dn_action d = RETRY_STORY) \<and>
      (\<forall>d. dx_escalation t = Some d \<longrightarrow> decides_last es ds d \<and> dn_action d = ESCALATE_STORY) \<and>
      int (length ds) \<le> dx_target t + 1 \<and>
      (dx_pending t = None \<longrightarrow> dx_escalation t = None \<longrightarrow> dx_target t + 1 < int (length es) \<or> dx_target t = - 1))"

lemma chain_step:
  assumes "chain_inv es n ds s" and "length ds < n" and "replay_decision plan es n s d = Inr t"
  shows "chain_inv es n (ds @ [d]) t"
proof -
  from assms have s: "dx_decisions s = ds" "dx_pending s = None" "dx_escalation s = None" by (auto simp: chain_inv_def)
  from assms(3) obtain i where i: "event_index es (dn_rejected_event_hash d) = Some i" "it_outcome (es ! i) = IT_RETRY"
      "dx_target s < int i"
    and t: "if i + 1 < length es then t = targeted d i s else length ds + 1 = n \<and> t = settles d (targeted d i s)"
    by (auto simp: replay_decision_Inr s(1) split: if_splits)
  have grow: "int (length ds) \<le> dx_target s + 1" using assms(1) by (simp add: chain_inv_def)
  note e = event_index_Some [OF i(1)]
  show ?thesis
  proof (cases "i + 1 < length es")
    case True
    with t have t: "t = targeted d i s" by simp
    from True s i(3) grow show ?thesis unfolding t chain_inv_def by simp
  next
    case False
    with e have "i = length es - 1" "es \<noteq> []" by auto
    then have "last es = es ! i" by (simp add: last_conv_nth)
    with \<open>es \<noteq> []\<close> i e have "decides_last es (ds @ [d]) d" by (simp add: decides_last_def)
    moreover from False t have t: "t = settles d (targeted d i s)" and n: "length ds + 1 = n" by auto
    ultimately show ?thesis using s i(3) grow unfolding t chain_inv_def by (cases "dn_action d") simp_all
  qed
qed

lemma chain_facts: "chain_of plan es n ds t \<Longrightarrow> length ds \<le> n \<Longrightarrow> chain_inv es n ds t"
proof (induction ds arbitrary: t rule: rev_induct)
  case Nil
  then show ?case by (simp add: chain_inv_def no_decisions_def)
next
  case (snoc d ds)
  then obtain s where s: "chain_of plan es n ds s" "replay_decision plan es n s d = Inr t" by (auto simp: chain_snoc)
  show ?case using chain_step [OF snoc.IH [OF s(1)] _ s(2)] snoc.prems(2) by simp
qed

text \<open>Without a decision on the last event, the length of the chain plays no role.\<close>

lemma chain_any_length:
  "chain_of plan es n ds t \<Longrightarrow> length ds \<le> n \<Longrightarrow> dx_pending t = None \<Longrightarrow> dx_escalation t = None \<Longrightarrow> chain_of plan es m ds t"
proof (induction ds arbitrary: t rule: rev_induct)
  case (snoc d ds)
  then obtain s where s: "chain_of plan es n ds s" "replay_decision plan es n s d = Inr t" by (auto simp: chain_snoc)
  have none: "dx_pending s = None" "dx_escalation s = None" "dx_decisions s = ds"
    using chain_facts [OF s(1)] snoc.prems(2) by (auto simp: chain_inv_def)
  from s(2) obtain i where i: "linked plan (dx_decisions s) d" "event_index es (dn_rejected_event_hash d) = Some i"
    "it_outcome (es ! i) = IT_RETRY" "dx_target s < int i"
    and t: "if i + 1 < length es
        then dn_action d = RETRY_STORY \<and> consumed_decision (es ! (i + 1)) = Some (dn_decision_hash d) \<and> t = targeted d i s
        else t = settles d (targeted d i s)"
    by (auto simp: replay_decision_Inr split: if_splits)
  have "i + 1 < length es"
    using t snoc.prems(3,4) by (cases "i + 1 < length es"; cases "dn_action d") simp_all
  with t i have "replay_decision plan es m s d = Inr t" unfolding replay_decision_Inr by simp
  with snoc.IH [OF s(1)] snoc.prems(2) none show ?case by (auto simp: chain_snoc)
qed simp

text \<open>A decision on the last event, which nobody has decided yet.\<close>

lemma chain_add_decision:
  assumes "chain_of plan es (length ds) ds t" and "dx_pending t = None" and "dx_escalation t = None"
    and "linked plan ds d" and "es \<noteq> []" and "it_outcome (last es) = IT_RETRY" and "it_event_hash (last es) = dn_rejected_event_hash d"
  shows "chain_of plan es (length (ds @ [d])) (ds @ [d]) (settles d (targeted d (length es - 1) t))"
proof -
  from chain_facts [OF assms(1)] assms(2,3) have t: "dx_decisions t = ds" "dx_target t + 1 < int (length es) \<or> dx_target t = - 1"
    by (auto simp: chain_inv_def)
  have idx: "event_index es (dn_rejected_event_hash d) = Some (length es - 1)"
    using assms(5,7) event_index_snoc [of "butlast es" "last es"] by simp
  have "dx_target t < int (length es - 1)" using t(2) assms(5) by (cases es) auto
  moreover have "es ! (length es - 1) = last es" using assms(5) by (simp add: last_conv_nth)
  ultimately have "replay_decision plan es (length (ds @ [d])) t d = Inr (settles d (targeted d (length es - 1) t))"
    using idx assms(4,5,6) t(1) by (auto simp: replay_decision_Inr)
  with chain_any_length [OF assms(1)] assms(2,3) show ?thesis by (auto simp: chain_snoc)
qed

text \<open>One more event, which consumes the pending decision if there is one.\<close>

lemma dx_pending_none: "dx_pending s = None \<Longrightarrow> s\<lparr>dx_pending := None\<rparr> = s"
  by simp

lemma chain_add_event:
  assumes "chain_of plan es n ds t" and "length ds \<le> n" and "dx_escalation t = None"
    and "\<And>d. dx_pending t = Some d \<Longrightarrow> consumed_decision e = Some (dn_decision_hash d)"
    and "it_event_hash e \<notin> set (map it_event_hash es)"
  shows "chain_of plan (es @ [e]) n ds (t\<lparr>dx_pending := None\<rparr>)"
  using assms
proof (induction ds arbitrary: t rule: rev_induct)
  case Nil
  then show ?case by (simp add: no_decisions_def)
next
  case (snoc d ds)
  then obtain s where s: "chain_of plan es n ds s" "replay_decision plan es n s d = Inr t" by (auto simp: chain_snoc)
  have none: "dx_pending s = None" "dx_escalation s = None" "dx_decisions s = ds"
    using chain_facts [OF s(1)] snoc.prems(2) by (auto simp: chain_inv_def)
  have IH: "chain_of plan (es @ [e]) n ds s"
    using snoc.IH [OF s(1)] snoc.prems(2,5) none(1,2) by (simp add: dx_pending_none)
  from s(2) obtain i where i: "linked plan ds d" "event_index es (dn_rejected_event_hash d) = Some i"
    "it_outcome (es ! i) = IT_RETRY" "dx_target s < int i"
    and t: "if i + 1 < length es
        then dn_action d = RETRY_STORY \<and> consumed_decision (es ! (i + 1)) = Some (dn_decision_hash d) \<and> t = targeted d i s
        else t = settles d (targeted d i s)"
    by (auto simp: replay_decision_Inr none(3) split: if_splits)
  note at = event_index_Some [OF i(2)]
  have hash: "it_event_hash e \<noteq> dn_rejected_event_hash d" using at snoc.prems(5) nth_mem [of i es] by (metis image_eqI set_map)
  have "replay_decision plan (es @ [e]) n s d = Inr (t\<lparr>dx_pending := None\<rparr>)"
  proof (cases "i + 1 < length es")
    case True
    with t have t: "dn_action d = RETRY_STORY" "consumed_decision (es ! (i + 1)) = Some (dn_decision_hash d)" "t = targeted d i s"
      by auto
    then have "t\<lparr>dx_pending := None\<rparr> = t" using none(1) by (intro dx_pending_none) simp
    with True i t at hash none(3) show ?thesis
      by (simp add: replay_decision_Inr event_index_snoc nth_append)
  next
    case False
    with t have t': "t = settles d (targeted d i s)" by simp
    then have act: "dn_action d = RETRY_STORY" using snoc.prems(3) by (cases "dn_action d") simp_all
    then have "dx_pending t = Some d" by (simp add: t')
    then have "consumed_decision e = Some (dn_decision_hash d)" by (rule snoc.prems(4))
    moreover have "i + 1 = length es" using False at by simp
    ultimately show ?thesis
      using i at hash none act
      by (simp add: replay_decision_Inr event_index_snoc nth_append t' settles_def)
  qed
  with IH show ?case by (auto simp: chain_snoc)
qed

section \<open>Consumption\<close>

definition prior_of :: "iteration_event list \<Rightarrow> iteration_event option" where
  "prior_of es = (if es = [] then None else Some (last es))"

lemma prior_of_snoc [simp]: "prior_of (es @ [e]) = Some e" "prior_of [] = None"
  by (simp_all add: prior_of_def)

definition consumption_ok :: "control_mode \<Rightarrow> decision_event list \<Rightarrow> iteration_event list \<Rightarrow> bool" where
  "consumption_ok mode ds es = is_ok (foldR (check_consumption mode ds) None es)"

lemma check_consumption_Inr: "check_consumption mode ds prior e = Inr x \<Longrightarrow> x = Some e"
  by (auto simp: check_consumption_def split: if_splits option.splits)

lemma consumption_result: "foldR (check_consumption mode ds) None es = Inr x \<Longrightarrow> x = prior_of es"
  by (induction es rule: rev_induct) (auto simp: foldR_snoc dest: check_consumption_Inr)

lemma consumption_snoc:
  "consumption_ok mode ds (es @ [e]) \<longleftrightarrow> consumption_ok mode ds es \<and> is_ok (check_consumption mode ds (prior_of es) e)"
  by (auto simp: consumption_ok_def foldR_snoc bindR_def dest: consumption_result split: sum.splits)

lemma consumption_Nil [simp]: "consumption_ok mode ds []"
  by (simp add: consumption_ok_def)

lemma find_rev_extend:
  assumes "find (\<lambda>d. dn_decision_hash d = h) (rev ds) = Some k" and "dn_decision_hash d \<notin> set (map dn_decision_hash ds)"
  shows "find (\<lambda>d. dn_decision_hash d = h) (rev (ds @ [d])) = Some k"
proof -
  from find_SomeD [OF assms(1)] have "dn_decision_hash k = h" "k \<in> set ds" by auto
  with assms show ?thesis by auto
qed

lemma consumption_more_decisions:
  assumes "dn_decision_hash d \<notin> set (map dn_decision_hash ds)"
  shows "consumption_ok mode ds es \<Longrightarrow> consumption_ok mode (ds @ [d]) es"
proof (induction es rule: rev_induct)
  case (snoc e es)
  have "check_consumption mode (ds @ [d]) (prior_of es) e = check_consumption mode ds (prior_of es) e"
    if ok: "is_ok (check_consumption mode ds (prior_of es) e)"
  proof (cases "it_attempt e = 1 \<or> mode = AUTONOMOUS_BROKER")
    case False
    with ok obtain h k where h: "consumed_decision e = Some h" and k: "find (\<lambda>d. dn_decision_hash d = h) (rev ds) = Some k"
      by (cases "prior_of es"; cases "consumed_decision e")
        (auto simp: check_consumption_def split: option.splits)
    from find_rev_extend [OF k assms] h k show ?thesis by (simp add: check_consumption_def)
  qed (auto simp: check_consumption_def)
  with snoc show ?case by (simp add: consumption_snoc)
qed simp

section \<open>The whole replay\<close>

lemma load_decision_id: "loadFrontierDecisionEventV4 env d = Inr k \<Longrightarrow> k = d"
  by (auto simp: loadFrontierDecisionEventV4_def)

lemma load_decisions: "mapR (loadFrontierDecisionEventV4 env) ds = Inr ks \<longleftrightarrow>
    ks = ds \<and> list_all (\<lambda>d. loadFrontierDecisionEventV4 env d = Inr d) ds"
  by (induction ds arbitrary: ks) (auto dest: load_decision_id)

lemma replayFrontierDecisions_Inr:
  "replayFrontierDecisions env plan es ds mode = Inr f \<longleftrightarrow>
     int (length ds) \<le> pl_max_iterations plan \<and> list_all (\<lambda>d. loadFrontierDecisionEventV4 env d = Inr d) ds \<and>
     (mode = AUTONOMOUS_BROKER \<longrightarrow> ds = []) \<and> chain_of plan es (length ds) ds f \<and> consumption_ok mode ds es"
  by (auto simp: replayFrontierDecisions_def load_decisions chain_of_def no_decisions_def consumption_ok_def is_ok_iff)

lemma decisions_facts:
  assumes "replayFrontierDecisions env plan es ds mode = Inr f"
  shows "dx_decisions f = ds" and "dx_pending f = Some d \<Longrightarrow> decides_last es ds d \<and> dn_action d = RETRY_STORY"
    and "dx_escalation f = Some d \<Longrightarrow> decides_last es ds d \<and> dn_action d = ESCALATE_STORY"
    and "mode = AUTONOMOUS_BROKER \<Longrightarrow> ds = []"
    and "dx_pending f = None \<Longrightarrow> dx_escalation f = None \<Longrightarrow> es \<noteq> [] \<Longrightarrow> length ds < length es"
proof -
  from assms have c: "chain_of plan es (length ds) ds f" by (simp add: replayFrontierDecisions_Inr)
  note i = chain_facts [OF c order_refl, unfolded chain_inv_def]
  from i show "dx_decisions f = ds" by simp
  from i show "dx_pending f = Some d \<Longrightarrow> decides_last es ds d \<and> dn_action d = RETRY_STORY" by simp
  from i show "dx_escalation f = Some d \<Longrightarrow> decides_last es ds d \<and> dn_action d = ESCALATE_STORY" by simp
  from assms show "mode = AUTONOMOUS_BROKER \<Longrightarrow> ds = []" by (simp add: replayFrontierDecisions_Inr)
  from i show "length ds < length es" if "dx_pending f = None" "dx_escalation f = None" "es \<noteq> []"
    using that by (cases es) auto
qed

definition fresh_hashes :: "iteration_event list \<Rightarrow> decision_event list \<Rightarrow> bool" where
  "fresh_hashes es ds = (distinct (map it_event_hash es) \<and> distinct (map dn_decision_hash ds))"

lemma fresh_prefix: "fresh_hashes (es @ es') (ds @ ds') \<Longrightarrow> fresh_hashes es ds"
  by (simp add: fresh_hashes_def)

lemma decisions_add_decision:
  assumes "replayFrontierDecisions env plan es ds FRONTIER_LED = Inr f" and "dx_pending f = None" and "dx_escalation f = None"
    and "linked plan ds d" and "es \<noteq> []" and "it_outcome (last es) = IT_RETRY" and "it_event_hash (last es) = dn_rejected_event_hash d"
    and "loadFrontierDecisionEventV4 env d = Inr d" and "int (length ds) < pl_max_iterations plan"
    and "dn_decision_hash d \<notin> set (map dn_decision_hash ds)"
  shows "replayFrontierDecisions env plan es (ds @ [d]) FRONTIER_LED = Inr (settles d (targeted d (length es - 1) f))"
  using chain_add_decision [OF _ assms(2,3,4,5,6,7)] consumption_more_decisions [OF assms(10), of FRONTIER_LED es] assms(1,8,9)
  by (auto simp: replayFrontierDecisions_Inr)

lemma decisions_add_event:
  assumes "replayFrontierDecisions env plan es ds mode = Inr f" and "dx_escalation f = None"
    and "\<And>d. dx_pending f = Some d \<Longrightarrow> consumed_decision e = Some (dn_decision_hash d)"
    and "it_event_hash e \<notin> set (map it_event_hash es)" and "is_ok (check_consumption mode ds (prior_of es) e)"
  shows "replayFrontierDecisions env plan (es @ [e]) ds mode = Inr (f\<lparr>dx_pending := None\<rparr>)"
  using chain_add_event [OF _ _ assms(2,3,4)] assms(1,5) by (auto simp: replayFrontierDecisions_Inr consumption_snoc)

end
