(* ===== verification/Story_Runs.thy ===== *)
theory Story_Runs
  imports Story_Replay Story_Decisions
begin

text \<open>
  The executor's steps by weakest preconditions: each keeps the durable history replayable, each call
  it makes is allowed by that history, and what it returns agrees with a fresh inspection of it.
\<close>

section \<open>What a run maintains\<close>

definition frontier_now :: "('e) story_env_scheme \<Rightarrow> prepared \<Rightarrow> exec \<Rightarrow> decision_event option \<Rightarrow> bool" where
  "frontier_now env p c od =
     (let es = ss_events (ex_state c); ds = ex_decisions c in
      (fresh_hashes es ds \<longrightarrow> (\<exists>f. replayFrontierDecisions env (pp_plan p) es ds (pp_mode p) = Inr f \<and>
        dx_escalation f = None \<and> dx_pending f = od)) \<and>
      (case pp_mode p of
         AUTONOMOUS_BROKER \<Rightarrow> ds = [] \<and> ex_active_decision c = None \<and> od = None
       | FRONTIER_LED \<Rightarrow> (case od of None \<Rightarrow> pending_rejection (ex_state c) = None
           | Some d \<Rightarrow> decides_last es ds d \<and> dn_action d = RETRY_STORY \<and>
               ex_active_decision c = Some (dn_decision_hash d))))"

definition in_memory :: "('e) story_env_scheme \<Rightarrow> prepared \<Rightarrow> string \<Rightarrow> exec \<Rightarrow> bool" where
  "in_memory env p tree c =
     (tracked env (pp_plan p) (pp_worker p) tree (ex_state c) \<and>
      int (length (ss_events (ex_state c))) \<le> pl_max_iterations (pp_plan p) \<and>
      ex_durable c = (ss_events (ex_state c), ex_decisions c))"

definition replayable :: "('e) story_env_scheme \<Rightarrow> prepared \<Rightarrow> string \<Rightarrow> durable_history \<Rightarrow> bool" where
  "replayable env p tree h =
     ((\<exists>s. replay_iterations env (pp_plan p) tree (fst h) (pp_worker p) = Inr s) \<and>
      (fresh_hashes (fst h) (snd h) \<longrightarrow>
        (\<exists>f. replayFrontierDecisions env (pp_plan p) (fst h) (snd h) (pp_mode p) = Inr f)))"

definition start_allowed ::
    "('e) story_env_scheme \<Rightarrow> prepared \<Rightarrow> string \<Rightarrow> durable_history \<Rightarrow> story \<Rightarrow> int \<Rightarrow> int \<Rightarrow> string \<Rightarrow> string \<Rightarrow> receipt list \<Rightarrow> bool" where
  "start_allowed env p tree h story iteration attempt session input receipts =
     (\<exists>s. replay_iterations env (pp_plan p) tree (fst h) (pp_worker p) = Inr s \<and> ss_escalation s = None \<and>
        story \<in> set (pl_stories (pp_plan p)) \<and> sy_story_id story \<notin> set (accepted_ids s) \<and>
        set (sy_depends_on story) \<subseteq> set (accepted_ids s) \<and>
        iteration = int (length (fst h)) + 1 \<and> iteration \<le> pl_max_iterations (pp_plan p) \<and>
        attempt = next_attempt s (sy_story_id story) \<and> attempt \<le> sy_max_attempts story \<and>
        session \<notin> set (ss_sessions s) \<and> input = ss_tree_hash s \<and> receipts = ss_accepted s \<and>
        (pp_mode p = FRONTIER_LED \<longrightarrow> 1 < attempt \<longrightarrow> (\<exists>d. decides_last (fst h) (snd h) d \<and> dn_action d = RETRY_STORY)))"

definition iteration_of :: "executor_call \<Rightarrow> int set" where
  "iteration_of call = (case call of EXECUTE story k attempt session input receipts packet \<Rightarrow> {k} | _ \<Rightarrow> {})"

definition executed_iterations :: "executor_log \<Rightarrow> int set" where
  "executed_iterations l = (\<Union>(h, call) \<in> set l. iteration_of call)"

definition promotion_earned :: "executor_env \<Rightarrow> durable_history \<Rightarrow> executor_log \<Rightarrow> iteration_event \<Rightarrow> promotion \<Rightarrow> bool" where
  "promotion_earned env h older e pr =
     (\<exists>iteration attempt session receipts packet rest c v r.
        older = (h, REVIEW_TREE (pr_story pr) (pr_candidate_tree_hash pr) (va_manifest_hash v)) #
          (h, VALIDATE_TREE (pr_story pr) (pr_candidate_tree_hash pr)) #
          (h, EXECUTE (pr_story pr) iteration attempt session (pr_input_tree_hash pr) receipts packet) # rest \<and>
        xe_execute env (tl (tl older)) = Inr c \<and> xe_validate env (tl older) = Inr v \<and> xe_review env older = Inr r \<and>
        cx_candidate_tree_hash c = pr_candidate_tree_hash pr \<and> pr_candidate_tree_hash pr \<noteq> pr_input_tree_hash pr \<and>
        changesAreAuthorized (pr_story pr) (cx_changes c) \<and> cx_changed_lines c \<le> sy_max_changed_lines (pr_story pr) \<and>
        va_passed v \<and> va_finding_hashes v = [] \<and> ra_accepted r \<and> ra_finding_hashes r = [] \<and>
        it_outcome e = IT_ACCEPTED \<and> it_story_id e = sy_story_id (pr_story pr) \<and> it_iteration e = iteration \<and>
        it_changes e = cx_changes c \<and> it_changed_lines e = cx_changed_lines c \<and>
        it_input_tree_hash e = pr_input_tree_hash pr \<and>
        it_candidate_tree_hash e = pr_candidate_tree_hash pr \<and> it_validation_manifest_hash e = va_manifest_hash v \<and>
        it_review_attestation_hash e = Some (ra_attestation_hash r))"

definition step_allowed :: "executor_env \<Rightarrow> prepared \<Rightarrow> string \<Rightarrow> durable_history \<Rightarrow> executor_log \<Rightarrow> executor_call \<Rightarrow> bool" where
  "step_allowed env p tree h older call = (case call of
      EXECUTE story iteration attempt session input receipts packet \<Rightarrow>
        start_allowed env p tree h story iteration attempt session input receipts \<and>
        (\<forall>k \<in> executed_iterations older. k < iteration)
    | PERSIST_ITERATION e (Some pr) \<Rightarrow> promotion_earned env h older e pr
    | PERSIST_ITERATION e None \<Rightarrow> it_outcome e \<noteq> IT_ACCEPTED
    | _ \<Rightarrow> True)"

fun calls_allowed :: "executor_env \<Rightarrow> prepared \<Rightarrow> string \<Rightarrow> executor_log \<Rightarrow> bool" where
  "calls_allowed env p tree [] = True"
| "calls_allowed env p tree ((h, call) # older) = (step_allowed env p tree h older call \<and> calls_allowed env p tree older)"

lemma calls_allowed_at: "calls_allowed env p tree (newer @ (h, call) # older) \<Longrightarrow> step_allowed env p tree h older call"
  by (induction newer) auto

definition extends :: "durable_history \<Rightarrow> durable_history \<Rightarrow> bool" where
  "extends h g = (\<exists>es ds. g = (fst h @ es, snd h @ ds))"

lemma extends_refl [simp]: "extends h h"
  unfolding extends_def by (metis append_Nil2 prod.collapse)

lemma extends_event: "extends h (es, ds) \<Longrightarrow> extends h (es @ [e], ds)"
  and extends_decision: "extends h (es, ds) \<Longrightarrow> extends h (es, ds @ [d])"
  by (auto simp: extends_def)

definition stopped :: "executor_env \<Rightarrow> prepared \<Rightarrow> string \<Rightarrow> durable_history \<Rightarrow> exec \<Rightarrow> bool" where
  "stopped env p tree h c =
     (replayable env p tree (ex_durable c) \<and> calls_allowed env p tree (ex_log c) \<and> extends h (ex_durable c))"

definition live :: "executor_env \<Rightarrow> prepared \<Rightarrow> string \<Rightarrow> durable_history \<Rightarrow> exec \<Rightarrow> bool" where
  "live env p tree h c =
     (in_memory env p tree c \<and> (\<exists>od. frontier_now env p c od) \<and> calls_allowed env p tree (ex_log c) \<and> extends h (ex_durable c))"

abbreviation logged :: "executor_call \<Rightarrow> exec \<Rightarrow> exec" where
  "logged call c \<equiv> c\<lparr>ex_log := (ex_durable c, call) # ex_log c\<rparr>"

lemma live_stopped:
  assumes "plan_ok (pp_plan p)" and "live env p tree h c"
  shows "stopped env p tree h c"
proof -
  from assms(2) have m: "tracked env (pp_plan p) (pp_worker p) tree (ex_state c)"
    "int (length (ss_events (ex_state c))) \<le> pl_max_iterations (pp_plan p)"
    "ex_durable c = (ss_events (ex_state c), ex_decisions c)" by (simp_all add: live_def in_memory_def)
  from tracked_facts(3) [OF assms(1) m(1,2)] assms(2) m(3) show ?thesis
    by (auto simp: stopped_def live_def replayable_def frontier_now_def Let_def)
qed

lemma logged_same [simp]:
  "frontier_now env p (c\<lparr>ex_log := l\<rparr>) od = frontier_now env p c od"
  "in_memory env p tree (c\<lparr>ex_log := l\<rparr>) = in_memory env p tree c"
  by (cases "pp_mode p"; cases od; simp add: frontier_now_def Let_def) (simp add: in_memory_def)

lemma live_logged:
  "live env p tree h c \<Longrightarrow> step_allowed env p tree (ex_durable c) (ex_log c) call \<Longrightarrow> live env p tree h (logged call c)"
  by (simp add: live_def)

section \<open>Calls\<close>

lemma wp_call [simp]:
  "wp (call_port call answer) Q E = (\<lambda>c. case answer (ex_log (logged call c)) of
     Inl e \<Rightarrow> E (logged call c) | Inr x \<Rightarrow> Q x (logged call c))"
  by (simp add: wp_def call_port_def Let_def fun_eq_iff split: sum.splits)

lemma wp_persist [simp]:
  "wp (persist_call call answer add) Q E = (\<lambda>c. case answer (ex_log (logged call c)) of
     RECORDED \<Rightarrow> Q () ((logged call c)\<lparr>ex_durable := add (ex_durable c)\<rparr>)
   | NOT_RECORDED \<Rightarrow> E (logged call c)
   | RECORDED_THEN_FAILED \<Rightarrow> E ((logged call c)\<lparr>ex_durable := add (ex_durable c)\<rparr>))"
  by (simp add: wp_def persist_call_def Let_def fun_eq_iff split: persist_answer.splits)

lemma wp_session:
  assumes "stopped env p tree h c"
    and "\<And>session. sessionId_ok session \<Longrightarrow> session \<notin> set (ss_sessions (ex_state c)) \<Longrightarrow> Q session c"
  shows "wp (session_step env) Q (stopped env p tree h) c"
  using assms by (auto simp: session_step_def throw_if_def)

lemma wp_repair:
  assumes ok: "plan_ok (pp_plan p)" and l: "live env p tree h c"
    and none: "attempt \<le> 1 \<Longrightarrow> Q None c"
    and some: "\<And>failure packet. 1 < attempt \<Longrightarrow> mode = FRONTIER_LED \<longrightarrow> ex_active_decision c \<noteq> None \<Longrightarrow>
      is_hash (rk_packet_hash packet) \<Longrightarrow> length (rk_findings packet) \<le> 32 \<Longrightarrow>
      previous_failure (ss_events (ex_state c)) (sy_story_id story) = Some failure \<Longrightarrow>
      length (rk_findings packet) = length (it_finding_hashes failure) \<Longrightarrow>
      Q (Some packet) (logged (LOAD_REPAIR_PACKET story (it_attempt failure) (it_finding_hashes failure)) c)"
  shows "wp (repair_step env mode story attempt) Q (stopped env p tree h) c"
proof (cases "attempt \<le> 1")
  case True
  then show ?thesis using none by (simp add: repair_step_def)
next
  case False
  have s: "stopped env p tree h c" using live_stopped [OF ok l] .
  show ?thesis
  proof (cases "last_failure mode story attempt c")
    case (Inl e)
    then show ?thesis using False s by (simp add: repair_step_def)
  next
    case (Inr failure)
    then have f: "previous_failure (ss_events (ex_state c)) (sy_story_id story) = Some failure"
      "mode = FRONTIER_LED \<longrightarrow> ex_active_decision c \<noteq> None"
      by (auto simp: last_failure_def split: option.splits)
    let ?c = "logged (LOAD_REPAIR_PACKET story (it_attempt failure) (it_finding_hashes failure)) c"
    have sc: "stopped env p tree h ?c"
      by (rule live_stopped [OF ok live_logged [OF l]]) (simp add: step_allowed_def)
    show ?thesis
      using False sc some [OF _ f(2) _ _ f(1)]
      by (auto simp: repair_step_def Inr throw_if_def loadRepairPacketV4_Inr packet_differs_def packetBodySchema_def
          list_between_def split: sum.split)
  qed
qed

lemma candidate_ok_Inr:
  "candidate_ok story tree c = Inr d \<longleftrightarrow> d = c \<and> executionCandidateSchema c \<and> cx_candidate_tree_hash c \<noteq> tree \<and>
     changesAreAuthorized story (cx_changes c) \<and> cx_changed_lines c \<le> sy_max_changed_lines story"
  by (auto simp: candidate_ok_def)

lemma wp_execute:
  assumes ok: "plan_ok (pp_plan p)" and l: "live env p tree h c"
    and a: "step_allowed env p tree (ex_durable c) (ex_log c)
      (EXECUTE story iteration attempt session (ss_tree_hash (ex_state c)) (ss_accepted (ex_state c)) packet)"
    and Q: "\<And>cand d. d = logged (EXECUTE story iteration attempt session (ss_tree_hash (ex_state c)) (ss_accepted (ex_state c)) packet) c \<Longrightarrow>
      live env p tree h d \<Longrightarrow> xe_execute env (ex_log d) = Inr cand \<Longrightarrow>
      candidate_ok story (ss_tree_hash (ex_state c)) cand = Inr cand \<Longrightarrow> Q cand d"
  shows "wp (execute_step env story iteration attempt session packet) Q (stopped env p tree h) c"
proof -
  let ?d = "logged (EXECUTE story iteration attempt session (ss_tree_hash (ex_state c)) (ss_accepted (ex_state c)) packet) c"
  have d: "live env p tree h ?d" by (rule live_logged [OF l a])
  show ?thesis
  proof (cases "xe_execute env (ex_log ?d)")
    case (Inl e)
    then show ?thesis using live_stopped [OF ok d] by (simp add: execute_step_def)
  next
    case (Inr cand)
    show ?thesis
    proof (cases "candidate_ok story (ss_tree_hash (ex_state c)) cand")
      case (Inl e)
      then show ?thesis using live_stopped [OF ok d] Inr by (simp add: execute_step_def)
    next
      case r: (Inr x)
      then have "candidate_ok story (ss_tree_hash (ex_state c)) cand = Inr cand" by (auto simp: candidate_ok_Inr)
      from Q [OF refl d Inr this] r Inr this show ?thesis by (simp add: execute_step_def)
    qed
  qed
qed

lemma wp_validate:
  assumes ok: "plan_ok (pp_plan p)" and l: "live env p tree h c"
    and Q: "\<And>v d. d = logged (VALIDATE_TREE story (cx_candidate_tree_hash cand)) c \<Longrightarrow> live env p tree h d \<Longrightarrow>
      xe_validate env (ex_log d) = Inr v \<Longrightarrow> validationResultSchema v \<Longrightarrow> Q v d"
  shows "wp (validate_step env story cand) Q (stopped env p tree h) c"
proof -
  let ?d = "logged (VALIDATE_TREE story (cx_candidate_tree_hash cand)) c"
  have d: "live env p tree h ?d" by (rule live_logged [OF l]) (simp add: step_allowed_def)
  show ?thesis
    using Q [OF refl d] live_stopped [OF ok d] by (auto simp: validate_step_def throw_if_def split: sum.split)
qed

lemma wp_review:
  assumes ok: "plan_ok (pp_plan p)" and l: "live env p tree h c"
    and none: "\<not> va_passed v \<Longrightarrow> Q None c"
    and Q: "\<And>r d. va_passed v \<Longrightarrow> d = logged (REVIEW_TREE story (cx_candidate_tree_hash cand) (va_manifest_hash v)) c \<Longrightarrow>
      live env p tree h d \<Longrightarrow> xe_review env (ex_log d) = Inr r \<Longrightarrow> reviewResultSchema r \<Longrightarrow> Q (Some r) d"
  shows "wp (review_step env story cand v) Q (stopped env p tree h) c"
proof (cases "va_passed v")
  case True
  let ?d = "logged (REVIEW_TREE story (cx_candidate_tree_hash cand) (va_manifest_hash v)) c"
  have d: "live env p tree h ?d" by (rule live_logged [OF l]) (simp add: step_allowed_def)
  show ?thesis
    using True Q [OF True refl d] live_stopped [OF ok d] by (auto simp: review_step_def throw_if_def split: sum.split)
qed (use none in \<open>simp add: review_step_def\<close>)

end
