(* ===== verification/Story_Steps.thy ===== *)
theory Story_Steps
  imports Story_Runs
begin

text \<open>
  The iteration as a whole: the event it creates is admissible for the history it was made from, and
  recording it leaves a history that is replayed to the executor's own state.
\<close>

definition hashes_ok :: "('e) story_env_scheme \<Rightarrow> bool" where
  "hashes_ok env = ((\<forall>b. is_hash (se_event_hash env b)) \<and> (\<forall>b. is_hash (se_decision_hash env b)))"

section \<open>The recorded event\<close>

lemma created_event:
  assumes "createStoryIterationEventV4 env body = Inr e" and "hashes_ok env"
  shows "iteration_body.truncate e = body" and "loadStoryIterationEventV4 env e = Inr e"
proof -
  from assms(1) have s: "iterationBodySchema body" and e: "e = iteration_body.extend body \<lparr>it_event_hash = se_event_hash env body\<rparr>"
    by (auto simp: createStoryIterationEventV4_def)
  show t: "iteration_body.truncate e = body" by (simp add: e iteration_body.defs)
  have ev: "it_event_hash e = se_event_hash env body" by (simp add: e iteration_body.defs)
  have "iterationBodySchema e = iterationBodySchema (iteration_body.truncate e)"
    by (simp add: iterationBodySchema_def iteration_body.defs)
  with s t have "iterationBodySchema e" by simp
  then show "loadStoryIterationEventV4 env e = Inr e"
    using assms(2) by (simp add: loadStoryIterationEventV4_def hashes_ok_def ev t)
qed

lemma truncated_fields:
  "it_run_id (iteration_body.truncate e) = it_run_id e" "it_plan_hash (iteration_body.truncate e) = it_plan_hash e"
  "it_story_id (iteration_body.truncate e) = it_story_id e" "it_iteration (iteration_body.truncate e) = it_iteration e"
  "it_attempt (iteration_body.truncate e) = it_attempt e" "it_session_id (iteration_body.truncate e) = it_session_id e"
  "it_input_tree_hash (iteration_body.truncate e) = it_input_tree_hash e"
  "it_candidate_tree_hash (iteration_body.truncate e) = it_candidate_tree_hash e"
  "it_outcome (iteration_body.truncate e) = it_outcome e" "it_changes (iteration_body.truncate e) = it_changes e"
  "it_changed_lines (iteration_body.truncate e) = it_changed_lines e"
  "it_validation_manifest_hash (iteration_body.truncate e) = it_validation_manifest_hash e"
  "it_review_attestation_hash (iteration_body.truncate e) = it_review_attestation_hash e"
  "it_finding_hashes (iteration_body.truncate e) = it_finding_hashes e"
  "it_repair_packet_hash (iteration_body.truncate e) = it_repair_packet_hash e"
  "it_frontier_decision_hash (iteration_body.truncate e) = it_frontier_decision_hash e"
  "it_failure_signature_hash (iteration_body.truncate e) = it_failure_signature_hash e"
  "it_escalation_reason (iteration_body.truncate e) = it_escalation_reason e"
  by (simp_all add: iteration_body.defs)

lemma finding_union_Nil [simp]: "finding_union v r = [] \<longleftrightarrow>
    va_finding_hashes v = [] \<and> (case r of None \<Rightarrow> True | Some a \<Rightarrow> ra_finding_hashes a = [])"
  by (auto simp: finding_union_def js_unique_def split: option.splits)

lemma judge_Inr:
  "judge v r = Inr accepted \<Longrightarrow> accepted = review_accepts v r \<and> (accepted \<longleftrightarrow> finding_union v r = [])"
  by (auto simp: judge_def Let_def)

lemma review_accepts_Some:
  "review_accepts v r \<Longrightarrow> va_passed v \<and> (\<exists>a. r = Some a \<and> ra_accepted a)"
  by (auto simp: review_accepts_def split: option.splits)

text \<open>What the iteration has gathered before it records its event.\<close>

record gathered =
  ga_story :: story
  ga_attempt :: int
  ga_session :: string
  ga_packet :: "repair_packet option"
  ga_candidate :: candidate_result
  ga_validation :: validation_answer
  ga_review :: "review_answer option"
  ga_accepted :: bool

definition gathered_ok :: "executor_env \<Rightarrow> prepared \<Rightarrow> exec \<Rightarrow> gathered \<Rightarrow> bool" where
  "gathered_ok env p c g =
     (nextStory (se_locale_compare env) (pl_stories (pp_plan p)) (accepted_ids (ex_state c)) = Some (ga_story g) \<and>
      ga_attempt g = next_attempt (ex_state c) (sy_story_id (ga_story g)) \<and> ga_attempt g \<le> sy_max_attempts (ga_story g) \<and>
      int (length (ss_events (ex_state c))) < pl_max_iterations (pp_plan p) \<and>
      ga_session g \<notin> set (ss_sessions (ex_state c)) \<and> (ga_attempt g \<le> 1 \<longrightarrow> ga_packet g = None) \<and>
      (1 < ga_attempt g \<longrightarrow> ga_packet g \<noteq> None) \<and>
      candidate_ok (ga_story g) (ss_tree_hash (ex_state c)) (ga_candidate g) = Inr (ga_candidate g) \<and>
      judge (ga_validation g) (ga_review g) = Inr (ga_accepted g))"

definition gathered_body :: "executor_env \<Rightarrow> prepared \<Rightarrow> gathered \<Rightarrow> exec \<Rightarrow> iteration_body" where
  "gathered_body env p g c = iteration_body_of env (pp_plan p) (pp_worker p) (ga_story g)
     (int (length (ss_events (ex_state c))) + 1) (ga_attempt g) (ga_session g) (ga_packet g) (ga_candidate g)
     (ga_validation g) (ga_review g) (ga_accepted g) c"

lemma gathered_event:
  assumes "createStoryIterationEventV4 env (gathered_body env p g c) = Inr e" and "hashes_ok env"
  shows "it_run_id e = pl_run_id (pp_plan p)" "it_plan_hash e = pl_plan_hash (pp_plan p)"
    "it_story_id e = sy_story_id (ga_story g)" "it_iteration e = int (length (ss_events (ex_state c))) + 1"
    "it_attempt e = ga_attempt g" "it_session_id e = ga_session g" "it_input_tree_hash e = ss_tree_hash (ex_state c)"
    "it_candidate_tree_hash e = cx_candidate_tree_hash (ga_candidate g)" "it_changes e = cx_changes (ga_candidate g)"
    "it_changed_lines e = cx_changed_lines (ga_candidate g)" "it_validation_manifest_hash e = va_manifest_hash (ga_validation g)"
    "it_review_attestation_hash e = map_option ra_attestation_hash (ga_review g)"
    "it_finding_hashes e = finding_union (ga_validation g) (ga_review g)"
    "it_repair_packet_hash e = map_option rk_packet_hash (ga_packet g)"
    "it_frontier_decision_hash e = Some (if ga_attempt g > 1 then ex_active_decision c else None)"
    "it_failure_signature_hash e = failure_signature env (ga_accepted g) (ga_validation g) (ga_review g)"
    "it_escalation_reason e = escalation_of (pp_worker p) (ga_story g) (ga_attempt g) (ga_accepted g)
       (failure_signature env (ga_accepted g) (ga_validation g) (ga_review g)) (ex_state c)"
    "it_outcome e = outcome_of (ga_accepted g) (it_escalation_reason e)"
  unfolding truncated_fields [of e, symmetric] created_event(1) [OF assms]
  by (simp_all add: gathered_body_def iteration_body_of_def Let_def)

lemma gathered_admissible:
  assumes "gathered_ok env p c g" and "createStoryIterationEventV4 env (gathered_body env p g c) = Inr e" and "hashes_ok env"
  shows "admissible_event env (pp_plan p) (pp_worker p) (ex_state c) (ga_story g) e"
    and "(it_outcome e = IT_ACCEPTED) = ga_accepted g"
proof -
  note f = gathered_event [OF assms(2,3)]
  from assms(1) have j: "judge (ga_validation g) (ga_review g) = Inr (ga_accepted g)" by (simp add: gathered_ok_def)
  note acc = judge_Inr [OF j]
  show o: "(it_outcome e = IT_ACCEPTED) = ga_accepted g" by (simp add: f(18) outcome_of_def)
  have "outcome_consistent (pp_worker p) (ga_story g) e (ex_state c)"
  proof (cases "ga_accepted g")
    case True
    with acc obtain a where "ga_review g = Some a" using review_accepts_Some by blast
    moreover from True acc have "it_finding_hashes e = []" unfolding f(13) by blast
    ultimately show ?thesis
      using True o by (simp add: outcome_consistent_def f(12,16,17) failure_signature_def escalation_of_def)
  next
    case False
    have "it_outcome e = (if it_escalation_reason e = None then IT_RETRY else IT_ESCALATE)"
      using False by (simp add: f(18) outcome_of_def)
    moreover have "it_failure_signature_hash e \<noteq> None" using False by (simp add: f(16) failure_signature_def)
    moreover have "it_finding_hashes e \<noteq> []" using False acc unfolding f(13) by blast
    moreover have "it_escalation_reason e = expected_escalation (pp_worker p) (ga_story g) (it_attempt e)
        (repeats (ss_events (ex_state c)) (it_story_id e) (it_failure_signature_hash e))"
      using False by (simp add: f(17,16,5,3) escalation_of_def)
    ultimately show ?thesis by (simp add: outcome_consistent_def split: if_splits)
  qed
  then show "admissible_event env (pp_plan p) (pp_worker p) (ex_state c) (ga_story g) e"
    using assms(1) by (simp add: admissible_event_def f(1-11,14) gathered_ok_def candidate_ok_Inr)
qed

section \<open>The recorded history\<close>

lemma gathered_decisions:
  assumes ok: "plan_ok (pp_plan p)" and mem: "in_memory env p tree c" and now: "frontier_now env p c od"
    and g: "gathered_ok env p c g" and e: "createStoryIterationEventV4 env (gathered_body env p g c) = Inr e" and h: "hashes_ok env"
    and fresh: "fresh_hashes (ss_events (ex_state c) @ [e]) (ex_decisions c)"
  shows "\<exists>f. replayFrontierDecisions env (pp_plan p) (ss_events (ex_state c) @ [e]) (ex_decisions c) (pp_mode p) = Inr f \<and>
    dx_escalation f = None \<and> dx_pending f = None"
proof -
  let ?es = "ss_events (ex_state c)" and ?ds = "ex_decisions c"
  note a = gathered_event [OF e h]
  have tr: "tracked env (pp_plan p) (pp_worker p) tree (ex_state c)" using mem by (simp add: in_memory_def)
  from fresh have "fresh_hashes ?es ?ds" by (simp add: fresh_hashes_def)
  with now obtain f where f: "replayFrontierDecisions env (pp_plan p) ?es ?ds (pp_mode p) = Inr f"
    "dx_escalation f = None" "dx_pending f = od" by (auto simp: frontier_now_def Let_def)
  from g have st: "nextStory (se_locale_compare env) (pl_stories (pp_plan p)) (accepted_ids (ex_state c)) = Some (ga_story g)"
    and att: "ga_attempt g = next_attempt (ex_state c) (sy_story_id (ga_story g))" by (simp_all add: gathered_ok_def)
  have consumed: "consumed_decision e = (if ga_attempt g > 1 then ex_active_decision c else None)"
    by (simp add: consumed_decision_def a(15) split: option.split)
  have led: "\<exists>q d. pending_rejection (ex_state c) = Some q \<and> q = last ?es \<and> ?es \<noteq> [] \<and> it_outcome q = IT_RETRY \<and>
      it_story_id q = sy_story_id (ga_story g) \<and> od = Some d \<and> decides_last ?es ?ds d \<and> dn_action d = RETRY_STORY \<and>
      ex_active_decision c = Some (dn_decision_hash d)"
    if "pp_mode p = FRONTIER_LED" "1 < ga_attempt g"
  proof -
    from that(2) att have "1 < next_attempt (ex_state c) (sy_story_id (ga_story g))" by simp
    from open_attempt [OF ok tr this nextStory_Some(2) [OF st]] obtain q where q: "pending_rejection (ex_state c) = Some q"
      "it_story_id q = sy_story_id (ga_story g)" by blast
    with now that(1) obtain d where "od = Some d" by (auto simp: frontier_now_def Let_def split: option.splits)
    with q now that(1) show ?thesis by (auto simp: frontier_now_def Let_def pending_rejection_def split: if_splits)
  qed
  have pend: "consumed_decision e = Some (dn_decision_hash d)" if d: "dx_pending f = Some d" for d
  proof -
    have mode: "pp_mode p = FRONTIER_LED" using d f(3) now by (cases "pp_mode p") (simp_all add: frontier_now_def Let_def)
    with d f(3) now have act: "ex_active_decision c = Some (dn_decision_hash d)" "decides_last ?es ?ds d"
      by (simp_all add: frontier_now_def Let_def)
    from act(2) have "pending_rejection (ex_state c) = Some (last ?es)" by (simp add: decides_last_def pending_rejection_def)
    from after_rejection [OF ok tr this] st att have "1 < ga_attempt g" by auto
    with act(1) show ?thesis by (simp add: consumed)
  qed
  have "is_ok (check_consumption (pp_mode p) ?ds (prior_of ?es) e)"
  proof (cases "ga_attempt g = 1")
    case True
    then show ?thesis by (simp add: check_consumption_def a(5) consumed)
  next
    case False
    have "1 \<le> ga_attempt g"
      using tracked_facts(1) [OF ok tr] att by (simp add: story_inv_def)
    with False have more: "1 < ga_attempt g" by simp
    show ?thesis
    proof (cases "pp_mode p")
      case AUTONOMOUS_BROKER
      with now show ?thesis by (simp add: check_consumption_def consumed frontier_now_def Let_def)
    next
      case FRONTIER_LED
      from led [OF this more] obtain q d where q: "q = last ?es" "?es \<noteq> []" "it_outcome q = IT_RETRY"
        "it_story_id q = sy_story_id (ga_story g)" and d: "decides_last ?es ?ds d" "dn_action d = RETRY_STORY"
        "ex_active_decision c = Some (dn_decision_hash d)" by blast
      have "\<exists>k. find (\<lambda>k. dn_decision_hash k = dn_decision_hash d) (rev ?ds) = Some k"
        using d(1) by (cases "find (\<lambda>k. dn_decision_hash k = dn_decision_hash d) (rev ?ds)")
          (auto simp: find_None_iff decides_last_def)
      then obtain k where k: "find (\<lambda>k. dn_decision_hash k = dn_decision_hash d) (rev ?ds) = Some k" by blast
      from find_SomeD [OF k] have "dn_decision_hash k = dn_decision_hash d" "k \<in> set ?ds" by auto
      with d(1) fresh have "k = d" by (auto simp: fresh_hashes_def decides_last_def distinct_map inj_on_def)
      with k q d more FRONTIER_LED show ?thesis
        by (simp add: check_consumption_def a(3,5) consumed prior_of_def decides_last_def)
    qed
  qed
  moreover have "it_event_hash e \<notin> set (map it_event_hash ?es)" using fresh by (simp add: fresh_hashes_def)
  ultimately have "replayFrontierDecisions env (pp_plan p) (?es @ [e]) ?ds (pp_mode p) = Inr (f\<lparr>dx_pending := None\<rparr>)"
    using decisions_add_event [OF f(1,2) pend] by blast
  then show ?thesis using f(2) by auto
qed

definition agrees :: "execution_result \<Rightarrow> trajectory_snapshot \<Rightarrow> bool" where
  "agrees x t =
     (ts_tree_hash t = xr_tree_hash x \<and> ts_accepted_story_ids t = map rc_story_id (xr_accepted_receipts x) \<and>
      ts_events t = xr_events x \<and> ts_frontier_decisions t = xr_frontier_decisions x \<and>
      ts_escalation_story_id t = xr_escalation_story_id x \<and> ts_escalation_reason t = xr_escalation_reason x \<and>
      ts_status t = (case xr_status x of RUN_COMPLETE \<Rightarrow> TRAJECTORY_COMPLETE | RUN_ESCALATE \<Rightarrow> TRAJECTORY_ESCALATE
        | _ \<Rightarrow> TRAJECTORY_IN_PROGRESS))"

lemma result_fields [simp]:
  "xr_events (result_now st k reason c) = ss_events (ex_state c)"
  "xr_frontier_decisions (result_now st k reason c) = ex_decisions c" "xr_status (result_now st k reason c) = st"
  by (simp_all add: result_now_def)

definition reports :: "('e) story_env_scheme \<Rightarrow> prepared \<Rightarrow> string \<Rightarrow> execution_result \<Rightarrow> durable_history \<Rightarrow> bool" where
  "reports env p tree x h = (h = (xr_events x, xr_frontier_decisions x) \<and>
     (fresh_hashes (fst h) (snd h) \<longrightarrow> (\<exists>s f. replay_iterations env (pp_plan p) tree (fst h) (pp_worker p) = Inr s \<and>
        replayFrontierDecisions env (pp_plan p) (fst h) (snd h) (pp_mode p) = Inr f \<and>
        agrees x (snapshot_of_state (pp_plan p) s f))))"

text \<open>The state after the event: still running, escalated, or waiting for a decision.\<close>

lemma recorded_memory:
  assumes ok: "plan_ok (pp_plan p)" and mem: "in_memory env p tree c" and now: "frontier_now env p c od"
    and g: "gathered_ok env p c g" and e: "createStoryIterationEventV4 env (gathered_body env p g c) = Inr e" and h: "hashes_ok env"
    and d: "ex_state d = recorded e (ex_state c)" "ex_decisions d = ex_decisions c" "ex_active_decision d = ex_active_decision c"
      "ex_durable d = (ss_events (ex_state c) @ [e], ex_decisions c)"
  shows "replayable env p tree (ss_events (ex_state c) @ [e], ex_decisions c)"
    and "case after_iteration (pp_mode p) e d of
        None \<Rightarrow> in_memory env p tree d \<and> (\<exists>od. frontier_now env p d od)
      | Some x \<Rightarrow> reports env p tree x (ex_durable d)"
proof -
  let ?es = "ss_events (ex_state c)" and ?s = "escalated_by e (ex_state c)"
  note a = gathered_event [OF e h] and adm = gathered_admissible [OF g e h]
  have tr: "tracked env (pp_plan p) (pp_worker p) tree (ex_state c)"
    and len: "int (length ?es) < pl_max_iterations (pp_plan p)" using mem g by (simp_all add: in_memory_def gathered_ok_def)
  note ext = tracked_extend [OF tr created_event(2) [OF e h] adm(1) len]
  note dec = gathered_decisions [OF ok mem now g e h]
  show "replayable env p tree (?es @ [e], ex_decisions c)"
    using ext(1) dec by (auto simp: replayable_def)
  have next_story: "ga_story g \<in> set (pl_stories (pp_plan p))" "sy_story_id (ga_story g) \<notin> set (accepted_ids (ex_state c))"
    using nextStory_Some(1,2) [of "se_locale_compare env" "pl_stories (pp_plan p)" "accepted_ids (ex_state c)"] g
    by (simp_all add: gathered_ok_def)
  show "case after_iteration (pp_mode p) e d of
        None \<Rightarrow> in_memory env p tree d \<and> (\<exists>od. frontier_now env p d od)
      | Some x \<Rightarrow> reports env p tree x (ex_durable d)"
  proof (cases "after_iteration (pp_mode p) e d")
    case None
    then have o: "it_outcome e \<noteq> IT_ESCALATE" and cont: "it_outcome e = IT_ACCEPTED \<or> pp_mode p = AUTONOMOUS_BROKER"
      by (cases "it_outcome e"; cases "pp_mode p"; simp add: after_iteration_def)+
    have "in_memory env p tree d" using ext(2) [OF o] len by (simp add: in_memory_def d)
    moreover have "frontier_now env p d None"
      using cont dec now by (cases "pp_mode p") (auto simp: frontier_now_def Let_def d pending_rejection_def)
    ultimately show ?thesis using None by auto
  next
    case (Some x)
    then have o: "it_outcome e \<noteq> IT_ACCEPTED" by (auto simp: after_iteration_def)
    have same: "ss_tree_hash ?s = ss_tree_hash (ex_state c)" "accepted_ids ?s = accepted_ids (ex_state c)"
        "ss_accepted ?s = ss_accepted (ex_state c)"
      using o by (simp_all add: recorded_def record_attempt_def accepted_ids_def)
    have "story_inv (pp_plan p) ?s" using replay_iterations_facts(2) [OF ok ext(1)] .
    from incomplete [OF this next_story(1)] same(2) next_story(2)
    have inc: "length (ss_accepted ?s) \<noteq> length (pl_stories (pp_plan p))" by simp
    have x: "x = result_now (if it_outcome e = IT_ESCALATE then RUN_ESCALATE else RUN_AWAITING_FRONTIER_DECISION)
        (if it_outcome e = IT_ESCALATE then Some (it_story_id e) else None)
        (if it_outcome e = IT_ESCALATE then it_escalation_reason e else None) d"
      using Some o by (cases "it_outcome e") (auto simp: after_iteration_def split: if_splits)
    have reason: "it_outcome e = IT_ESCALATE \<longleftrightarrow> it_escalation_reason e \<noteq> None"
    proof -
      have "outcome_consistent (pp_worker p) (ga_story g) e (ex_state c)" using adm(1) by (simp only: admissible_event_def)
      with o show ?thesis unfolding outcome_consistent_def by (cases "it_outcome e"; simp only: iteration_outcome.case)
    qed
    have esc: "ss_escalation (ex_state c) = None" using tr by (simp add: tracked_def)
    have "agrees x (snapshot_of_state (pp_plan p) ?s f)"
      if f: "replayFrontierDecisions env (pp_plan p) (?es @ [e]) (ex_decisions c) (pp_mode p) = Inr f" "dx_escalation f = None" for f
      using inc same reason esc f(2) decisions_facts(1) [OF f(1)] o
      by (auto simp: agrees_def snapshot_of_state_def x result_now_def d escalated_story_def accepted_ids_def recorded_def
          record_attempt_def split: option.splits)
    moreover have "ex_durable d = (xr_events x, xr_frontier_decisions x)"
      by (simp add: x result_now_def d recorded_def record_attempt_def record_acceptance_def Let_def split: option.split)
    ultimately show ?thesis using ext(1) dec by (fastforce simp: Some reports_def d)
  qed
qed

end
