(* ===== verification/Story_Loop.thy ===== *)
theory Story_Loop
  imports Story_Steps
begin

text \<open>
  The executor's loop and a whole run: every round records one event or ends the run, and whatever the
  ports answer, the durable history stays replayable and the returned result agrees with it.
\<close>

lemma executed_Cons [simp]: "executed_iterations ((h, call) # l) = iteration_of call \<union> executed_iterations l"
  by (simp add: executed_iterations_def)

lemma iteration_of_simps [simp]:
  "iteration_of (EXECUTE story k attempt session input receipts packet) = {k}"
  "iteration_of (LOAD_REPAIR_PACKET story n hs) = {}" "iteration_of (VALIDATE_TREE story t) = {}"
  "iteration_of (REVIEW_TREE story t m) = {}" "iteration_of (PERSIST_ITERATION e pr) = {}"
  "iteration_of (PERSIST_DECISION d) = {}"
  by (simp_all add: iteration_of_def)

lemma executed_Nil [simp]: "executed_iterations [] = {}"
  by (simp add: executed_iterations_def)

definition events_so_far :: "exec \<Rightarrow> int" where
  "events_so_far c = int (length (ss_events (ex_state c)))"

definition round_post :: "executor_env \<Rightarrow> prepared \<Rightarrow> string \<Rightarrow> durable_history \<Rightarrow> int \<Rightarrow> execution_result option \<Rightarrow> exec \<Rightarrow> bool" where
  "round_post env p tree h n r d = (case r of
      None \<Rightarrow> live env p tree h d \<and> executed_iterations (ex_log d) \<subseteq> {..events_so_far d} \<and> events_so_far d = n + 1
    | Some x \<Rightarrow> stopped env p tree h d \<and> reports env p tree x (ex_durable d))"

section \<open>Recording an iteration\<close>

definition gather_promotion :: "exec \<Rightarrow> gathered \<Rightarrow> promotion" where
  "gather_promotion c g = \<lparr>pr_story = ga_story g, pr_input_tree_hash = ss_tree_hash (ex_state c),
     pr_candidate_tree_hash = cx_candidate_tree_hash (ga_candidate g)\<rparr>"

lemma wp_record:
  assumes ok: "plan_ok (pp_plan p)" and h: "hashes_ok env" and l: "live env p tree h0 c" and g: "gathered_ok env p c g"
    and ex: "executed_iterations (ex_log c) \<subseteq> {..events_so_far c + 1}"
    and earned: "\<And>e. createStoryIterationEventV4 env (gathered_body env p g c) = Inr e \<Longrightarrow> ga_accepted g \<Longrightarrow>
      promotion_earned env (ex_durable c) (ex_log c) e (gather_promotion c g)"
  shows "wp (ioBind (ioLift (createStoryIterationEventV4 env (gathered_body env p g c))) (\<lambda>e.
      ioBind (persist_step env (ga_story g) e) (\<lambda>_. ioBind (record_step e) (\<lambda>_. ioGet (after_iteration (pp_mode p) e)))))
    (round_post env p tree h0 (events_so_far c)) (stopped env p tree h0) c"
proof (cases "createStoryIterationEventV4 env (gathered_body env p g c)")
  case (Inl x)
  then show ?thesis using live_stopped [OF ok l] by simp
next
  case (Inr e)
  note adm = gathered_admissible [OF g Inr h] and a = gathered_event [OF Inr h]
  from l obtain od where mem: "in_memory env p tree c" and now: "frontier_now env p c od"
    and calls: "calls_allowed env p tree (ex_log c)" and grows: "extends h0 (ex_durable c)" by (auto simp: live_def)
  let ?call = "PERSIST_ITERATION e (if it_outcome e = IT_ACCEPTED then Some (gather_promotion c g) else None)"
  let ?new = "(ss_events (ex_state c) @ [e], ex_decisions c)"
  let ?d = "(logged ?call c)\<lparr>ex_durable := ?new\<rparr>"
  let ?r = "?d\<lparr>ex_state := recorded e (ex_state c)\<rparr>"
  have dur: "ex_durable c = (ss_events (ex_state c), ex_decisions c)" using mem by (simp add: in_memory_def)
  have call: "step_allowed env p tree (ex_durable c) (ex_log c) ?call"
    using earned [OF Inr] adm(2) by (simp add: step_allowed_def)
  note rec = recorded_memory [OF ok mem now g Inr h, of ?r]
  have stop: "stopped env p tree h0 ?d"
    using rec(1) calls call grows extends_event [of h0 "ss_events (ex_state c)" "ex_decisions c" e]
    by (simp add: stopped_def dur)
  have failed: "stopped env p tree h0 (logged ?call c)" by (rule live_stopped [OF ok live_logged [OF l call]])
  have pro: "\<lparr>pr_story = ga_story g, pr_input_tree_hash = ss_tree_hash (ex_state c),
      pr_candidate_tree_hash = it_candidate_tree_hash e\<rparr> = gather_promotion c g"
    by (simp add: gather_promotion_def a(8))
  have fin: "round_post env p tree h0 (events_so_far c) (after_iteration (pp_mode p) e ?r) ?r"
  proof (cases "after_iteration (pp_mode p) e ?r")
    case None
    with rec(2) have "in_memory env p tree ?r \<and> (\<exists>od. frontier_now env p ?r od)" by simp
    with None stop ex show ?thesis
      by (auto simp: round_post_def live_def stopped_def events_so_far_def)
  next
    case (Some x)
    with rec(2) have "reports env p tree x (ex_durable ?r)" by simp
    with Some stop show ?thesis by (simp add: round_post_def stopped_def)
  qed
  show ?thesis
    using stop failed fin
    by (cases "it_outcome e = IT_ACCEPTED")
      (simp_all add: Inr persist_step_def record_step_def pro dur split: persist_answer.split)
qed

section \<open>An iteration\<close>

lemma wp_repair_any:
  assumes ok: "plan_ok (pp_plan p)" and l: "live env p tree h c"
    and Q: "\<And>packet l. live env p tree h (c\<lparr>ex_log := l\<rparr>) \<Longrightarrow> executed_iterations l = executed_iterations (ex_log c) \<Longrightarrow>
      (attempt \<le> 1 \<longrightarrow> packet = None) \<Longrightarrow> (1 < attempt \<longrightarrow> packet \<noteq> None) \<Longrightarrow> Q packet (c\<lparr>ex_log := l\<rparr>)"
  shows "wp (repair_step env mode story attempt) Q (stopped env p tree h) c"
proof (rule wp_repair [OF ok l])
  show "Q None c" if "attempt \<le> 1" using Q [of "ex_log c" None] l that by simp
  fix failure packet
  assume "1 < attempt"
  moreover have "live env p tree h (logged (LOAD_REPAIR_PACKET story (it_attempt failure) (it_finding_hashes failure)) c)"
    by (rule live_logged [OF l]) (simp add: step_allowed_def)
  ultimately show "Q (Some packet) (logged (LOAD_REPAIR_PACKET story (it_attempt failure) (it_finding_hashes failure)) c)"
    by (intro Q) simp_all
qed

lemma gathered_ok_log [simp]:
  "gathered_ok env p (c\<lparr>ex_log := l\<rparr>) g = gathered_ok env p c g"
  "gathered_body env p g (c\<lparr>ex_log := l\<rparr>) = gathered_body env p g c"
  "events_so_far (c\<lparr>ex_log := l\<rparr>) = events_so_far c"
  by (simp_all add: gathered_ok_def gathered_body_def iteration_body_of_def events_so_far_def Let_def)

lemma start_allowed_now:
  assumes ok: "plan_ok (pp_plan p)" and l: "live env p tree h c"
    and nx: "nextStory (se_locale_compare env) (pl_stories (pp_plan p)) (accepted_ids (ex_state c)) = Some story"
    and att: "next_attempt (ex_state c) (sy_story_id story) \<le> sy_max_attempts story"
    and len: "events_so_far c < pl_max_iterations (pp_plan p)"
    and ex: "executed_iterations (ex_log c) \<subseteq> {..events_so_far c}"
    and session: "session \<notin> set (ss_sessions (ex_state c))"
  shows "step_allowed env p tree (ex_durable c) (ex_log c) (EXECUTE story (events_so_far c + 1)
    (next_attempt (ex_state c) (sy_story_id story)) session (ss_tree_hash (ex_state c)) (ss_accepted (ex_state c)) packet)"
proof -
  from l obtain od where tr: "tracked env (pp_plan p) (pp_worker p) tree (ex_state c)" and now: "frontier_now env p c od"
    and dur: "ex_durable c = (ss_events (ex_state c), ex_decisions c)" by (auto simp: live_def in_memory_def)
  note ns = nextStory_Some [OF nx]
  have led: "\<exists>d. decides_last (ss_events (ex_state c)) (ex_decisions c) d \<and> dn_action d = RETRY_STORY"
    if "pp_mode p = FRONTIER_LED" "1 < next_attempt (ex_state c) (sy_story_id story)"
  proof -
    from open_attempt [OF ok tr that(2) ns(2)] have "pending_rejection (ex_state c) \<noteq> None" by blast
    with now that(1) show ?thesis by (cases od) (auto simp: frontier_now_def Let_def)
  qed
  have "replay_iterations env (pp_plan p) tree (ss_events (ex_state c)) (pp_worker p) = Inr (ex_state c)"
    using tracked_facts(3) [OF ok tr] len by (simp add: events_so_far_def)
  then have "start_allowed env p tree (ex_durable c) story (events_so_far c + 1)
      (next_attempt (ex_state c) (sy_story_id story)) session (ss_tree_hash (ex_state c)) (ss_accepted (ex_state c))"
    using ns att len session tracked_facts(2) [OF ok tr] led by (simp add: start_allowed_def dur events_so_far_def)
  then show ?thesis using ex by (auto simp: step_allowed_def)
qed

lemma promotion_earned_now:
  assumes g: "gathered_ok env p c g" and h: "hashes_ok env"
    and e: "createStoryIterationEventV4 env (gathered_body env p g c) = Inr e" and acc: "ga_accepted g"
    and log: "ex_log c = (ex_durable c, REVIEW_TREE (ga_story g) (cx_candidate_tree_hash (ga_candidate g)) (va_manifest_hash (ga_validation g))) #
        (ex_durable c, VALIDATE_TREE (ga_story g) (cx_candidate_tree_hash (ga_candidate g))) #
        (ex_durable c, EXECUTE (ga_story g) (events_so_far c + 1) (ga_attempt g) (ga_session g) (ss_tree_hash (ex_state c))
          (ss_accepted (ex_state c)) (ga_packet g)) # rest"
    and run: "xe_execute env (tl (tl (ex_log c))) = Inr (ga_candidate g)"
    and val: "xe_validate env (tl (ex_log c)) = Inr (ga_validation g)"
    and rv: "ga_review g = Some r" "xe_review env (ex_log c) = Inr r"
  shows "promotion_earned env (ex_durable c) (ex_log c) e (gather_promotion c g)"
proof -
  from g have "judge (ga_validation g) (ga_review g) = Inr (ga_accepted g)" by (simp add: gathered_ok_def)
  note a = gathered_event [OF e h] and j = judge_Inr [OF this]
  have pass: "va_passed (ga_validation g)" "ra_accepted r"
    using j acc review_accepts_Some [of "ga_validation g" "ga_review g"] rv(1) by auto
  have "finding_union (ga_validation g) (ga_review g) = []" using j acc by blast
  then have none: "va_finding_hashes (ga_validation g) = []" "ra_finding_hashes r = []" using rv(1) by simp_all
  have o: "it_outcome e = IT_ACCEPTED" using gathered_admissible(2) [OF g e h] acc by simp
  have cand: "cx_candidate_tree_hash (ga_candidate g) \<noteq> ss_tree_hash (ex_state c)"
      "changesAreAuthorized (ga_story g) (cx_changes (ga_candidate g))"
      "cx_changed_lines (ga_candidate g) \<le> sy_max_changed_lines (ga_story g)"
    using g by (simp_all add: gathered_ok_def candidate_ok_Inr)
  show ?thesis
    unfolding promotion_earned_def
    by (rule exI [of _ "events_so_far c + 1"], rule exI [of _ "ga_attempt g"], rule exI [of _ "ga_session g"],
        rule exI [of _ "ss_accepted (ex_state c)"], rule exI [of _ "ga_packet g"], rule exI [of _ rest],
        rule exI [of _ "ga_candidate g"], rule exI [of _ "ga_validation g"], rule exI [of _ r])
      (use run val rv pass none o cand in \<open>simp add: log gather_promotion_def events_so_far_def a\<close>)
qed

lemma wp_conclude:
  assumes ok: "plan_ok (pp_plan p)" and h: "hashes_ok env" and l: "live env p tree h0 c"
    and g: "\<And>accepted. judge v r = Inr accepted \<Longrightarrow>
      gathered_ok env p c \<lparr>ga_story = story, ga_attempt = att, ga_session = session, ga_packet = packet,
        ga_candidate = cand, ga_validation = v, ga_review = r, ga_accepted = accepted\<rparr>"
    and ex: "executed_iterations (ex_log c) \<subseteq> {..events_so_far c + 1}"
    and rv: "review_accepts v r \<Longrightarrow> \<exists>a rest. r = Some a \<and> xe_review env (ex_log c) = Inr a \<and>
      xe_validate env (tl (ex_log c)) = Inr v \<and> xe_execute env (tl (tl (ex_log c))) = Inr cand \<and>
      ex_log c = (ex_durable c, REVIEW_TREE story (cx_candidate_tree_hash cand) (va_manifest_hash v)) #
        (ex_durable c, VALIDATE_TREE story (cx_candidate_tree_hash cand)) #
        (ex_durable c, EXECUTE story (events_so_far c + 1) att session (ss_tree_hash (ex_state c)) (ss_accepted (ex_state c)) packet) # rest"
  shows "wp (conclude env (pp_plan p) (pp_worker p) (pp_mode p) story (events_so_far c + 1) att session packet cand v r)
    (round_post env p tree h0 (events_so_far c)) (stopped env p tree h0) c"
proof (cases "judge v r")
  case (Inl x)
  then show ?thesis using live_stopped [OF ok l] by (simp add: conclude_def)
next
  case (Inr accepted)
  let ?g = "\<lparr>ga_story = story, ga_attempt = att, ga_session = session, ga_packet = packet, ga_candidate = cand,
    ga_validation = v, ga_review = r, ga_accepted = accepted\<rparr>"
  have body: "iteration_body_of env (pp_plan p) (pp_worker p) story (events_so_far c + 1) att session packet cand v r accepted c =
      gathered_body env p ?g c"
    by (simp add: gathered_body_def events_so_far_def)
  have "promotion_earned env (ex_durable c) (ex_log c) e (gather_promotion c ?g)"
    if e: "createStoryIterationEventV4 env (gathered_body env p ?g c) = Inr e" "ga_accepted ?g" for e
  proof -
    have "accepted" using e(2) by simp
    with judge_Inr [OF Inr] have "review_accepts v r" by blast
    from rv [OF this] obtain a rest where "r = Some a" "xe_review env (ex_log c) = Inr a"
      "xe_validate env (tl (ex_log c)) = Inr v" "xe_execute env (tl (tl (ex_log c))) = Inr cand"
      "ex_log c = (ex_durable c, REVIEW_TREE story (cx_candidate_tree_hash cand) (va_manifest_hash v)) #
        (ex_durable c, VALIDATE_TREE story (cx_candidate_tree_hash cand)) #
        (ex_durable c, EXECUTE story (events_so_far c + 1) att session (ss_tree_hash (ex_state c)) (ss_accepted (ex_state c)) packet) # rest"
      by blast
    then show ?thesis by (intro promotion_earned_now [OF g [OF Inr] h e]) simp_all
  qed
  from wp_record [OF ok h l g [OF Inr] ex this] show ?thesis
    by (simp add: conclude_def Inr body)
qed

lemma wp_examine:
  assumes ok: "plan_ok (pp_plan p)" and h: "hashes_ok env" and l: "live env p tree h0 c"
    and g: "\<And>v r accepted. judge v r = Inr accepted \<Longrightarrow>
      gathered_ok env p c \<lparr>ga_story = story, ga_attempt = att, ga_session = session, ga_packet = packet,
        ga_candidate = cand, ga_validation = v, ga_review = r, ga_accepted = accepted\<rparr>"
    and ex: "executed_iterations (ex_log c) \<subseteq> {..events_so_far c + 1}"
    and log: "ex_log c = (ex_durable c, EXECUTE story (events_so_far c + 1) att session (ss_tree_hash (ex_state c))
      (ss_accepted (ex_state c)) packet) # rest"
    and run: "xe_execute env (ex_log c) = Inr cand"
  shows "wp (examine env (pp_plan p) (pp_worker p) (pp_mode p) story (events_so_far c + 1) att session packet cand)
    (round_post env p tree h0 (events_so_far c)) (stopped env p tree h0) c"
  unfolding examine_def wp_bind
proof (rule wp_validate [OF ok l])
  let ?conclude = "conclude env (pp_plan p) (pp_worker p) (pp_mode p) story (events_so_far c + 1) att session packet cand"
  fix v d
  assume d: "d = logged (VALIDATE_TREE story (cx_candidate_tree_hash cand)) c" and ld: "live env p tree h0 d"
    and val: "xe_validate env (ex_log d) = Inr v"
  have same: "events_so_far d = events_so_far c" by (simp add: d)
  show "wp (review_step env story cand v) (\<lambda>r. wp (?conclude v r) (round_post env p tree h0 (events_so_far c)) (stopped env p tree h0))
    (stopped env p tree h0) d"
  proof (rule wp_review [OF ok ld])
    assume "\<not> va_passed v"
    then show "wp (?conclude v None) (round_post env p tree h0 (events_so_far c)) (stopped env p tree h0) d"
      using ex by (intro wp_conclude [OF ok h ld, unfolded same] g [unfolded gathered_ok_def] )
        (auto simp: d review_accepts_def dest: g)
  next
    fix r e
    assume e: "e = logged (REVIEW_TREE story (cx_candidate_tree_hash cand) (va_manifest_hash v)) d"
      and le: "live env p tree h0 e" and rv: "xe_review env (ex_log e) = Inr r"
    have same: "events_so_far e = events_so_far c" by (simp add: e d)
    show "wp (?conclude v (Some r)) (round_post env p tree h0 (events_so_far c)) (stopped env p tree h0) e"
    proof (rule wp_conclude [OF ok h le, unfolded same])
      fix accepted
      assume "judge v (Some r) = Inr accepted"
      from g [OF this] show "gathered_ok env p e \<lparr>ga_story = story, ga_attempt = att, ga_session = session, ga_packet = packet,
        ga_candidate = cand, ga_validation = v, ga_review = Some r, ga_accepted = accepted\<rparr>" by (simp add: e d)
    qed (use ex rv val run log in \<open>simp_all add: e d\<close>)
  qed
qed

lemma wp_attempt:
  assumes ok: "plan_ok (pp_plan p)" and h: "hashes_ok env" and l: "live env p tree h0 c"
    and nx: "nextStory (se_locale_compare env) (pl_stories (pp_plan p)) (accepted_ids (ex_state c)) = Some story"
    and att: "next_attempt (ex_state c) (sy_story_id story) \<le> sy_max_attempts story"
    and len: "events_so_far c < pl_max_iterations (pp_plan p)"
    and ex: "executed_iterations (ex_log c) \<subseteq> {..events_so_far c}"
  shows "wp (attempt_story env (pp_plan p) (pp_worker p) (pp_mode p) story (next_attempt (ex_state c) (sy_story_id story)))
    (round_post env p tree h0 (events_so_far c)) (stopped env p tree h0) c"
  unfolding attempt_story_def wp_bind wp_get events_so_far_def [symmetric]
proof (rule wp_session [OF live_stopped [OF ok l]], rule wp_repair_any [OF ok l])
  let ?att = "next_attempt (ex_state c) (sy_story_id story)"
  fix session and packet :: "repair_packet option" and log1
  let ?c = "c\<lparr>ex_log := log1\<rparr>"
  assume session: "session \<notin> set (ss_sessions (ex_state c))" and l1: "live env p tree h0 ?c"
    and ex1: "executed_iterations log1 = executed_iterations (ex_log c)"
    and packet: "?att \<le> 1 \<longrightarrow> packet = None" "1 < ?att \<longrightarrow> packet \<noteq> None"
  have same: "events_so_far ?c = events_so_far c" by simp
  have start: "step_allowed env p tree (ex_durable ?c) (ex_log ?c) (EXECUTE story (events_so_far c + 1) ?att session
      (ss_tree_hash (ex_state ?c)) (ss_accepted (ex_state ?c)) packet)"
    using start_allowed_now [OF ok l1, of story session packet] nx att len ex ex1 session by simp
  show "wp (execute_step env story (events_so_far c + 1) ?att session packet)
    (\<lambda>cand. wp (examine env (pp_plan p) (pp_worker p) (pp_mode p) story (events_so_far c + 1) ?att session packet cand)
      (round_post env p tree h0 (events_so_far c)) (stopped env p tree h0)) (stopped env p tree h0) ?c"
  proof (rule wp_execute [OF ok l1 start])
    fix cand d
    assume d: "d = logged (EXECUTE story (events_so_far c + 1) ?att session (ss_tree_hash (ex_state ?c)) (ss_accepted (ex_state ?c)) packet) ?c"
      and ld: "live env p tree h0 d" and run: "xe_execute env (ex_log d) = Inr cand"
      and cok: "candidate_ok story (ss_tree_hash (ex_state ?c)) cand = Inr cand"
    have same: "events_so_far d = events_so_far c" by (simp add: d)
    have g: "gathered_ok env p d \<lparr>ga_story = story, ga_attempt = ?att, ga_session = session, ga_packet = packet,
        ga_candidate = cand, ga_validation = v, ga_review = r, ga_accepted = accepted\<rparr>"
      if "judge v r = Inr accepted" for v r accepted
      using that nx att len session packet cok by (simp add: d gathered_ok_def events_so_far_def)
    have "executed_iterations (ex_log d) \<subseteq> {..events_so_far d + 1}" using ex ex1 by (auto simp: d)
    from wp_examine [OF ok h ld g this _ run, unfolded same]
    show "wp (examine env (pp_plan p) (pp_worker p) (pp_mode p) story (events_so_far c + 1) ?att session packet cand)
      (round_post env p tree h0 (events_so_far c)) (stopped env p tree h0) d"
      by (simp add: d)
  qed
qed

section \<open>The loop\<close>

lemma live_facts:
  assumes "live env p tree h c"
  shows "tracked env (pp_plan p) (pp_worker p) tree (ex_state c)" and "events_so_far c \<le> pl_max_iterations (pp_plan p)"
    and "ex_durable c = (ss_events (ex_state c), ex_decisions c)"
  using assms by (auto simp: live_def in_memory_def events_so_far_def)

text \<open>A result that does not escalate.\<close>

definition plain_status :: "prepared \<Rightarrow> exec \<Rightarrow> run_status \<Rightarrow> bool" where
  "plain_status p c st = (st \<noteq> RUN_ESCALATE \<and>
     (st = RUN_COMPLETE \<longleftrightarrow> length (ss_accepted (ex_state c)) = length (pl_stories (pp_plan p))))"

lemma reports_plain:
  assumes ok: "plan_ok (pp_plan p)" and mem: "in_memory env p tree c" and st: "plain_status p c st"
    and now: "fresh_hashes (ss_events (ex_state c)) (ex_decisions c) \<longrightarrow>
      (\<exists>f. replayFrontierDecisions env (pp_plan p) (ss_events (ex_state c)) (ex_decisions c) (pp_mode p) = Inr f \<and> dx_escalation f = None)"
  shows "reports env p tree (result_now st None None c) (ex_durable c)"
proof -
  from mem have tr: "tracked env (pp_plan p) (pp_worker p) tree (ex_state c)"
    and len: "int (length (ss_events (ex_state c))) \<le> pl_max_iterations (pp_plan p)"
    and dur: "ex_durable c = (ss_events (ex_state c), ex_decisions c)" by (simp_all add: in_memory_def)
  have "agrees (result_now st None None c) (snapshot_of_state (pp_plan p) (ex_state c) f)"
    if "replayFrontierDecisions env (pp_plan p) (ss_events (ex_state c)) (ex_decisions c) (pp_mode p) = Inr f" "dx_escalation f = None" for f
    using decisions_facts(1) [OF that(1)] that(2) st tracked_facts(2) [OF ok tr]
    by (cases st) (auto simp: agrees_def snapshot_of_state_def result_now_def escalated_story_def accepted_ids_def plain_status_def)
  with tracked_facts(3) [OF ok tr len] now show ?thesis by (fastforce simp: reports_def dur)
qed

lemma reports_live:
  assumes "plan_ok (pp_plan p)" and "live env p tree h c" and "plain_status p c st"
  shows "reports env p tree (result_now st None None c) (ex_durable c)"
  using assms(2) by (intro reports_plain [OF assms(1) _ assms(3)]) (auto simp: live_def frontier_now_def Let_def)

lemma wp_iterate:
  assumes ok: "plan_ok (pp_plan p)" and h: "hashes_ok env" and l: "live env p tree h0 c"
    and len: "events_so_far c < pl_max_iterations (pp_plan p)" and ex: "executed_iterations (ex_log c) \<subseteq> {..events_so_far c}"
  shows "wp (iterate env (pp_plan p) (pp_worker p) (pp_mode p)) (round_post env p tree h0 (events_so_far c)) (stopped env p tree h0) c"
proof (cases "nextStory (se_locale_compare env) (pl_stories (pp_plan p)) (accepted_ids (ex_state c))")
  case None
  have "round_post env p tree h0 (events_so_far c) (Some (result_now RUN_COMPLETE None None c)) c"
    if "length (ss_accepted (ex_state c)) = length (pl_stories (pp_plan p))"
    using reports_live [OF ok l, of RUN_COMPLETE] live_stopped [OF ok l] that by (simp add: round_post_def plain_status_def)
  with None live_stopped [OF ok l] show ?thesis by (simp add: iterate_def)
next
  case (Some story)
  note ns = nextStory_Some [OF Some]
  have "story_inv (pp_plan p) (ex_state c)" using tracked_facts(1) [OF ok live_facts(1) [OF l]] .
  with ns tracked_facts(2) [OF ok live_facts(1) [OF l]]
  have att: "next_attempt (ex_state c) (sy_story_id story) \<le> sy_max_attempts story" by (fastforce simp: story_inv_def)
  with wp_attempt [OF ok h l Some att len ex] Some show ?thesis by (simp add: iterate_def)
qed

definition run_post :: "executor_env \<Rightarrow> prepared \<Rightarrow> string \<Rightarrow> durable_history \<Rightarrow> execution_result \<Rightarrow> exec \<Rightarrow> bool" where
  "run_post env p tree h x d = (stopped env p tree h d \<and> reports env p tree x (ex_durable d))"

lemma wp_loop:
  assumes ok: "plan_ok (pp_plan p)" and h: "hashes_ok env"
  shows "live env p tree h0 c \<Longrightarrow> executed_iterations (ex_log c) \<subseteq> {..events_so_far c} \<Longrightarrow>
    wp (executor_loop env (pp_plan p) (pp_worker p) (pp_mode p) n) (run_post env p tree h0) (stopped env p tree h0) c"
proof (induction n arbitrary: c)
  case 0
  then show ?case using live_stopped [OF ok] by simp
next
  case (Suc n)
  let ?st = "if length (ss_accepted (ex_state c)) = length (pl_stories (pp_plan p)) then RUN_COMPLETE else RUN_ITERATION_LIMIT"
  have "run_post env p tree h0 (result_now ?st None None c) c"
    using reports_live [OF ok Suc.prems(1), of ?st] live_stopped [OF ok Suc.prems(1)] by (simp add: run_post_def plain_status_def)
  moreover have "wp (iterate env (pp_plan p) (pp_worker p) (pp_mode p))
      (\<lambda>r. wp (case r of None \<Rightarrow> executor_loop env (pp_plan p) (pp_worker p) (pp_mode p) n | Some x \<Rightarrow> ioRet x)
        (run_post env p tree h0) (stopped env p tree h0)) (stopped env p tree h0) c"
    if "events_so_far c < pl_max_iterations (pp_plan p)"
    by (rule wp_mono [OF wp_iterate [OF ok h Suc.prems(1) that Suc.prems(2)]])
      (auto simp: round_post_def run_post_def intro: Suc.IH split: option.splits)
  ultimately show ?case by (simp add: events_so_far_def)
qed

text \<open>The loop needs as many rounds as the plan has iterations left: more fuel changes nothing.\<close>

lemma iterate_records:
  "wp (iterate env plan worker mode) (\<lambda>r d. r = None \<longrightarrow> events_so_far d = events_so_far c + 1) (\<lambda>_. True) c"
proof -
  have loads: "wp (repair_step env mode story att) Q (\<lambda>_. True) d"
    if "\<And>packet l. Q packet (d\<lparr>ex_log := l\<rparr>)" for story att Q d
    using that [of None "ex_log d"] that
    by (auto simp: repair_step_def throw_if_def split: sum.split)
  have "wp (attempt_story env plan worker mode story att) (\<lambda>r d. r = None \<longrightarrow> events_so_far d = events_so_far c + 1) (\<lambda>_. True) c"
    for story att
    unfolding attempt_story_def wp_bind wp_get
    by (rule wp_mono [where Q = "\<lambda>_ d. ex_state d = ex_state c" and E = "\<lambda>_. True"], simp add: session_step_def throw_if_def,
        rule loads)
      (auto simp: execute_step_def examine_def validate_step_def review_step_def conclude_def persist_step_def record_step_def
        events_so_far_def throw_if_def split: sum.split persist_answer.split)
  then show ?thesis by (simp add: iterate_def split: option.split)
qed

end
