(* ===== verification/Story_Control.thy ===== *)
theory Story_Control
  imports Story_Loop
begin

text \<open>
  A whole run: the frontier's control over a retry, the preparation of a request, and what holds of the
  durable history, the calls and the result when the run has ended, with or without an error.
\<close>

section \<open>Decisions\<close>

lemma find_last:
  assumes "distinct (map f xs)" and "xs \<noteq> []"
  shows "find (\<lambda>x. f x = f (last xs)) xs = Some (last xs)"
  using assms
proof (induction xs)
  case (Cons x xs)
  then show ?case by (cases "xs = []") (auto dest: in_set_conv_decomp [THEN iffD1])
qed simp

lemma created_decision:
  assumes "createFrontierDecisionEventV4 env (decision_of plan earlier d) = Inr e" and "hashes_ok env"
    and "dn_decision_id d \<notin> set (map dn_decision_id earlier)"
    and "dn_rejected_event_hash d \<notin> set (map dn_rejected_event_hash earlier)"
  shows "linked plan earlier e" and "loadFrontierDecisionEventV4 env e = Inr e" and "dn_action e = dn_action d"
    and "dn_rejected_event_hash e = dn_rejected_event_hash d"
proof -
  let ?b = "decision_of plan earlier d"
  from assms(1) have s: "frontierDecisionBodySchema ?b" and e: "e = decision_body.extend ?b \<lparr>dn_decision_hash = se_decision_hash env ?b\<rparr>"
    by (auto simp: createFrontierDecisionEventV4_def)
  have f: "dn_decision_id e = dn_decision_id d" "dn_rejected_event_hash e = dn_rejected_event_hash d" "dn_action e = dn_action d"
      "dn_decision_owner_ref e = dn_decision_owner_ref d" "dn_authority_evidence_hash e = dn_authority_evidence_hash d"
      "dn_run_id e = pl_run_id plan" "dn_plan_hash e = pl_plan_hash plan" "dn_decision_index e = int (length earlier) + 1"
      "dn_previous_decision_hash e = last_decision_hash earlier" "dn_decision_hash e = se_decision_hash env ?b"
      "decision_body.truncate e = ?b"
    by (simp_all add: e decision_of_def decision_body.defs decision_input.defs)
  then show "linked plan earlier e" "dn_action e = dn_action d" "dn_rejected_event_hash e = dn_rejected_event_hash d"
    using assms(3,4) by (simp_all add: linked_def)
  have "frontierDecisionBodySchema e = frontierDecisionBodySchema (decision_body.truncate e)"
    by (simp add: frontierDecisionBodySchema_def frontierDecisionInputSchema_def decision_body.defs)
  with s f(11) have "frontierDecisionBodySchema e" by simp
  with assms(2) f(10,11) show "loadFrontierDecisionEventV4 env e = Inr e"
    by (simp add: loadFrontierDecisionEventV4_def hashes_ok_def)
qed

text \<open>The run waits for, or has just recorded, a decision on its last rejection.\<close>

definition waiting :: "executor_env \<Rightarrow> prepared \<Rightarrow> exec \<Rightarrow> iteration_event \<Rightarrow> decision_state \<Rightarrow> bool" where
  "waiting env p c rejected f =
     (pp_mode p = FRONTIER_LED \<and> pending_rejection (ex_state c) = Some rejected \<and>
      replayFrontierDecisions env (pp_plan p) (ss_events (ex_state c)) (ex_decisions c) FRONTIER_LED = Inr f \<and>
      dx_pending f = None \<and> dx_escalation f = None)"

lemma waiting_facts:
  assumes "plan_ok (pp_plan p)" and "in_memory env p tree c" and "waiting env p c r f"
  shows "ss_events (ex_state c) \<noteq> []" and "r = last (ss_events (ex_state c))" and "it_outcome r = IT_RETRY"
    and "length (ss_accepted (ex_state c)) < length (pl_stories (pp_plan p))"
    and "int (length (ex_decisions c)) < pl_max_iterations (pp_plan p)"
proof -
  have tr: "tracked env (pp_plan p) (pp_worker p) tree (ex_state c)"
    and len: "int (length (ss_events (ex_state c))) \<le> pl_max_iterations (pp_plan p)"
    using assms(2) by (simp_all add: in_memory_def)
  from assms(3) show ev: "ss_events (ex_state c) \<noteq> []" "r = last (ss_events (ex_state c))" "it_outcome r = IT_RETRY"
    by (auto simp: waiting_def pending_rejection_def split: if_splits)
  from assms(3) have pr: "pending_rejection (ex_state c) = Some r" by (simp add: waiting_def)
  from after_rejection [OF assms(1) tr pr] obtain story where
    "nextStory (se_locale_compare env) (pl_stories (pp_plan p)) (accepted_ids (ex_state c)) = Some story" by blast
  from nextStory_Some [OF this] incomplete [OF tracked_facts(1) [OF assms(1) tr]]
  show "length (ss_accepted (ex_state c)) < length (pl_stories (pp_plan p))" by blast
  have "length (ex_decisions c) < length (ss_events (ex_state c))"
    using assms(3) ev(1) decisions_facts(5) [of env "pp_plan p" "ss_events (ex_state c)" "ex_decisions c" FRONTIER_LED f]
    by (simp add: waiting_def)
  with len show "int (length (ex_decisions c)) < pl_max_iterations (pp_plan p)" by linarith
qed

definition decided :: "executor_env \<Rightarrow> prepared \<Rightarrow> exec \<Rightarrow> decision_event \<Rightarrow> exec" where
  "decided env p c e = c\<lparr>ex_log := (ex_durable c, PERSIST_DECISION e) # ex_log c,
     ex_durable := (ss_events (ex_state c), ex_decisions c @ [e]), ex_decisions := ex_decisions c @ [e],
     ex_active_decision := Some (dn_decision_hash e)\<rparr>"

lemma decided_facts:
  assumes ok: "plan_ok (pp_plan p)" and mem: "in_memory env p tree c" and w: "waiting env p c r f"
    and e: "linked (pp_plan p) (ex_decisions c) e" "loadFrontierDecisionEventV4 env e = Inr e"
      "dn_rejected_event_hash e = it_event_hash r"
  shows "in_memory env p tree (decided env p c e)"
    and "fresh_hashes (ss_events (ex_state c)) (ex_decisions c @ [e]) \<Longrightarrow>
      \<exists>g. replayFrontierDecisions env (pp_plan p) (ss_events (ex_state c)) (ex_decisions c @ [e]) FRONTIER_LED = Inr g \<and>
        dx_pending g = (if dn_action e = RETRY_STORY then Some e else None) \<and>
        dx_escalation g = (if dn_action e = ESCALATE_STORY then Some e else None) \<and> dx_decisions g = ex_decisions c @ [e]"
    and "decides_last (ss_events (ex_state c)) (ex_decisions c @ [e]) e"
proof -
  note wf = waiting_facts [OF ok mem w]
  from mem show "in_memory env p tree (decided env p c e)" by (simp add: in_memory_def decided_def)
  show "decides_last (ss_events (ex_state c)) (ex_decisions c @ [e]) e" using wf(1-3) e(3) by (simp add: decides_last_def)
  assume fresh: "fresh_hashes (ss_events (ex_state c)) (ex_decisions c @ [e])"
  from w have f: "replayFrontierDecisions env (pp_plan p) (ss_events (ex_state c)) (ex_decisions c) FRONTIER_LED = Inr f"
    "dx_pending f = None" "dx_escalation f = None" by (simp_all add: waiting_def)
  have "dn_decision_hash e \<notin> set (map dn_decision_hash (ex_decisions c))" using fresh by (simp add: fresh_hashes_def)
  from decisions_add_decision [OF f e(1) wf(1) _ _ e(2) wf(5) this] wf(2,3) e(3) f(2,3) decisions_facts(1) [OF f(1)]
  show "\<exists>g. replayFrontierDecisions env (pp_plan p) (ss_events (ex_state c)) (ex_decisions c @ [e]) FRONTIER_LED = Inr g \<and>
        dx_pending g = (if dn_action e = RETRY_STORY then Some e else None) \<and>
        dx_escalation g = (if dn_action e = ESCALATE_STORY then Some e else None) \<and> dx_decisions g = ex_decisions c @ [e]"
    by auto
qed

lemma memory_stopped:
  assumes "plan_ok (pp_plan p)" and "in_memory env p tree c" and "calls_allowed env p tree l" and "extends h0 (ex_durable c)"
    and "fresh_hashes (ss_events (ex_state c)) (ex_decisions c) \<longrightarrow>
      (\<exists>f. replayFrontierDecisions env (pp_plan p) (ss_events (ex_state c)) (ex_decisions c) (pp_mode p) = Inr f)"
  shows "stopped env p tree h0 (c\<lparr>ex_log := l\<rparr>)"
proof -
  have m: "tracked env (pp_plan p) (pp_worker p) tree (ex_state c)" "int (length (ss_events (ex_state c))) \<le> pl_max_iterations (pp_plan p)"
    "ex_durable c = (ss_events (ex_state c), ex_decisions c)" using assms(2) by (simp_all add: in_memory_def)
  from tracked_facts(3) [OF assms(1) m(1,2)] assms(3-5) m(3) show ?thesis
    by (auto simp: stopped_def replayable_def)
qed

lemma wp_record_decision:
  assumes ok: "plan_ok (pp_plan p)" and h: "hashes_ok env" and mem: "in_memory env p tree c" and w: "waiting env p c r f"
    and calls: "calls_allowed env p tree (ex_log c)" and grows: "extends h0 (ex_durable c)" and d: "dn_rejected_event_hash d = it_event_hash r"
    and Q: "\<And>e. linked (pp_plan p) (ex_decisions c) e \<Longrightarrow> loadFrontierDecisionEventV4 env e = Inr e \<Longrightarrow>
      dn_rejected_event_hash e = it_event_hash r \<Longrightarrow> dn_action e = dn_action d \<Longrightarrow> Q () (decided env p c e)"
  shows "wp (record_decision env (pp_plan p) d) Q (stopped env p tree h0) c"
proof -
  have dur: "ex_durable c = (ss_events (ex_state c), ex_decisions c)" using mem by (simp add: in_memory_def)
  have st: "stopped env p tree h0 (c\<lparr>ex_log := l\<rparr>)" if "calls_allowed env p tree l" for l
    using w by (intro memory_stopped [OF ok mem that grows]) (auto simp: waiting_def)
  have c: "stopped env p tree h0 c" using st [OF calls] by simp
  have "wp (case xe_persist_frontier_decision env of
       None \<Rightarrow> ioLift (Inl (story_violation ''frontier decision persistence is unavailable''))
     | Some persist \<Rightarrow>
         ioBind (ioLift (createFrontierDecisionEventV4 env (decision_of (pp_plan p) (ex_decisions c) d))) (\<lambda>e.
         ioBind (persist_call (PERSIST_DECISION e) persist (\<lambda>(events, decisions). (events, decisions @ [e]))) (\<lambda>_.
         ioModify (\<lambda>c. c\<lparr>ex_decisions := ex_decisions c @ [e], ex_active_decision := Some (dn_decision_hash e)\<rparr>))))
       Q (stopped env p tree h0) c"
    if ids: "dn_decision_id d \<notin> set (map dn_decision_id (ex_decisions c))"
      "dn_rejected_event_hash d \<notin> set (map dn_rejected_event_hash (ex_decisions c))"
  proof (cases "xe_persist_frontier_decision env")
    case None
    with c show ?thesis by simp
  next
    case (Some persist)
    show ?thesis
    proof (cases "createFrontierDecisionEventV4 env (decision_of (pp_plan p) (ex_decisions c) d)")
      case (Inl x)
      with c Some show ?thesis by simp
    next
      case (Inr e)
      note e = created_decision [OF Inr h ids]
      have er: "dn_rejected_event_hash e = it_event_hash r" using e(4) d by simp
      note df = decided_facts [OF ok mem w e(1,2) er]
      have mode: "pp_mode p = FRONTIER_LED" using w by (simp add: waiting_def)
      have l: "calls_allowed env p tree ((ex_durable c, PERSIST_DECISION e) # ex_log c)" using calls by (simp add: step_allowed_def)
      have g: "extends h0 (ex_durable (decided env p c e))" using grows extends_decision by (simp add: decided_def dur)
      have "stopped env p tree h0 (decided env p c e\<lparr>ex_log := ex_log (decided env p c e)\<rparr>)"
        by (rule memory_stopped [OF ok df(1) _ g]) (use l df(2) mode in \<open>auto simp: decided_def\<close>)
      then have "stopped env p tree h0 ((logged (PERSIST_DECISION e) c)\<lparr>ex_durable := (ss_events (ex_state c), ex_decisions c @ [e])\<rparr>)"
        by (simp add: stopped_def decided_def)
      with st [OF l] Q [OF e(1,2) er e(3)] show ?thesis
        by (simp add: Some Inr dur decided_def split: persist_answer.split)
    qed
  qed
  moreover have "list_ex (\<lambda>k. dn_decision_id k = dn_decision_id d \<or> dn_rejected_event_hash k = dn_rejected_event_hash d) (ex_decisions c) =
      (\<not> (dn_decision_id d \<notin> set (map dn_decision_id (ex_decisions c)) \<and>
        dn_rejected_event_hash d \<notin> set (map dn_rejected_event_hash (ex_decisions c))))"
    by (force simp: list_ex_iff)
  ultimately show ?thesis using c
    by (cases "dn_decision_id d \<notin> set (map dn_decision_id (ex_decisions c)) \<and>
        dn_rejected_event_hash d \<notin> set (map dn_rejected_event_hash (ex_decisions c))")
      (simp_all only: record_decision_def throw_if_def wp_bind wp_get wp_lift if_True if_False simp_thms sum.case)
qed

section \<open>Control\<close>

definition control_post :: "executor_env \<Rightarrow> prepared \<Rightarrow> string \<Rightarrow> durable_history \<Rightarrow> execution_result option \<Rightarrow> exec \<Rightarrow> bool" where
  "control_post env p tree h r d = (case r of
      None \<Rightarrow> live env p tree h d \<and> executed_iterations (ex_log d) = {}
    | Some x \<Rightarrow> run_post env p tree h x d)"

lemma decided_control:
  assumes ok: "plan_ok (pp_plan p)" and mem: "in_memory env p tree c" and w: "waiting env p c r f"
    and e: "linked (pp_plan p) (ex_decisions c) e" "loadFrontierDecisionEventV4 env e = Inr e"
      "dn_rejected_event_hash e = it_event_hash r"
    and log: "ex_log c = []" and h0: "ex_durable c = h0"
  shows "control_post env p tree h0 (if dn_action e = ESCALATE_STORY
      then Some (result_now RUN_ESCALATE (Some (it_story_id r)) (Some FRONTIER_DECISION) (decided env p c e)) else None)
    (decided env p c e)"
proof -
  let ?d = "decided env p c e"
  note df = decided_facts [OF ok mem w e] and wf = waiting_facts [OF ok mem w]
  have mode: "pp_mode p = FRONTIER_LED" using w by (simp add: waiting_def)
  have dur: "ex_durable c = (ss_events (ex_state c), ex_decisions c)" using mem by (simp add: in_memory_def)
  have g: "extends h0 (ex_durable ?d)" using extends_decision [of h0 "ss_events (ex_state c)" "ex_decisions c" e]
    by (simp add: decided_def h0 [symmetric] dur)
  have l: "calls_allowed env p tree (ex_log ?d)" by (simp add: decided_def log step_allowed_def)
  have same: "ex_state ?d = ex_state c" "ex_decisions ?d = ex_decisions c @ [e]" "ex_active_decision ?d = Some (dn_decision_hash e)"
    "ex_durable ?d = (ss_events (ex_state c), ex_decisions c @ [e])" "executed_iterations (ex_log ?d) = {}"
    by (simp_all add: decided_def log)
  show ?thesis
  proof (cases "dn_action e")
    case RETRY_STORY
    have "frontier_now env p ?d (Some e)"
      using RETRY_STORY mode df(2,3) by (auto simp: frontier_now_def Let_def same)
    with RETRY_STORY df(1) g l same(5) show ?thesis by (auto simp: control_post_def live_def)
  next
    case ESCALATE_STORY
    let ?x = "result_now RUN_ESCALATE (Some (it_story_id r)) (Some FRONTIER_DECISION) ?d"
    have tr: "tracked env (pp_plan p) (pp_worker p) tree (ex_state c)"
      and len: "int (length (ss_events (ex_state c))) \<le> pl_max_iterations (pp_plan p)" using mem by (simp_all add: in_memory_def)
    have "reports env p tree ?x (ex_durable ?d)"
    proof (cases "fresh_hashes (ss_events (ex_state c)) (ex_decisions c @ [e])")
      case True
      from df(2) [OF True] ESCALATE_STORY obtain k where
        k: "replayFrontierDecisions env (pp_plan p) (ss_events (ex_state c)) (ex_decisions c @ [e]) FRONTIER_LED = Inr k"
        "dx_escalation k = Some e" "dx_decisions k = ex_decisions c @ [e]" by auto
      have "find (\<lambda>v. it_event_hash v = dn_rejected_event_hash e) (ss_events (ex_state c)) = Some r"
        using find_last [of it_event_hash "ss_events (ex_state c)"] True wf(1,2) e(3) by (simp add: fresh_hashes_def)
      then have "agrees ?x (snapshot_of_state (pp_plan p) (ex_state c) k)"
        using k wf(4) tracked_facts(2) [OF ok tr]
        by (simp add: agrees_def snapshot_of_state_def result_now_def escalated_story_def accepted_ids_def same)
      with k(1) tracked_facts(3) [OF ok tr len] mode show ?thesis by (auto simp: reports_def same)
    qed (simp add: reports_def same)
    moreover have "stopped env p tree h0 (?d\<lparr>ex_log := ex_log ?d\<rparr>)"
      by (rule memory_stopped [OF ok df(1) l g]) (use df(2) mode in \<open>auto simp: same\<close>)
    ultimately show ?thesis using ESCALATE_STORY by (simp add: control_post_def run_post_def)
  qed
qed

lemma wp_frontier_control:
  assumes ok: "plan_ok (pp_plan p)" and h: "hashes_ok env" and mem: "in_memory env p tree c"
    and f: "replayFrontierDecisions env (pp_plan p) (ss_events (ex_state c)) (ex_decisions c) (pp_mode p) = Inr f"
    and esc: "dx_escalation f = None" and act: "ex_active_decision c = map_option dn_decision_hash (dx_pending f)"
    and log: "ex_log c = []" and h0: "ex_durable c = h0"
  shows "wp (frontier_control env (pp_plan p) (pp_mode p) (pp_decision p) (dx_pending f))
    (control_post env p tree h0) (stopped env p tree h0) c"
proof -
  have grows: "extends h0 (ex_durable c)" by (simp add: h0)
  have calls: "calls_allowed env p tree (ex_log c)" by (simp add: log)
  have "stopped env p tree h0 (c\<lparr>ex_log := ex_log c\<rparr>)" using f by (intro memory_stopped [OF ok mem calls grows]) auto
  then have st: "stopped env p tree h0 c" by simp
  have go: "control_post env p tree h0 None c" if "frontier_now env p c (dx_pending f)"
    using that mem grows calls by (auto simp: control_post_def live_def log)
  show ?thesis
  proof (cases "pp_mode p")
    case AUTONOMOUS_BROKER
    with decisions_facts(4) [OF f] have ds: "ex_decisions c = []" by simp
    with decisions_facts(2) [OF f] have pend: "dx_pending f = None" by (cases "dx_pending f") (auto simp: decides_last_def)
    have "frontier_now env p c (dx_pending f)"
      using AUTONOMOUS_BROKER f esc act ds pend by (simp add: frontier_now_def Let_def)
    from go [OF this] st AUTONOMOUS_BROKER show ?thesis by (simp add: frontier_control_def throw_if_def)
  next
    case FRONTIER_LED
    have now: "frontier_now env p c (dx_pending f)" if "dx_pending f = None \<longrightarrow> pending_rejection (ex_state c) = None"
      using that FRONTIER_LED f esc act decisions_facts(2) [OF f] by (auto simp: frontier_now_def Let_def split: option.split)
    show ?thesis
    proof (cases "pending_rejection (ex_state c)")
      case None
      with go [OF now] st FRONTIER_LED show ?thesis by (simp add: frontier_control_def throw_if_def)
    next
      case (Some r)
      show ?thesis
      proof (cases "dx_pending f")
        case p: (Some k)
        with go [OF now] st FRONTIER_LED Some show ?thesis
          by (cases "pp_decision p") (simp_all add: frontier_control_def throw_if_def)
      next
        case p: None
        then have w: "waiting env p c r f" using FRONTIER_LED Some f esc by (simp add: waiting_def)
        note wf = waiting_facts [OF ok mem w]
        show ?thesis
        proof (cases "pp_decision p")
          case None
          have "reports env p tree (result_now RUN_AWAITING_FRONTIER_DECISION None None c) (ex_durable c)"
            using wf(4) f esc by (intro reports_plain [OF ok mem]) (auto simp: plain_status_def)
          with st p None Some FRONTIER_LED show ?thesis
            by (simp add: frontier_control_def throw_if_def control_post_def run_post_def)
        next
          case d: (Some d)
          have settled: "control_post env p tree h0 (if dn_action d = ESCALATE_STORY
              then Some (result_now RUN_ESCALATE (Some (it_story_id r)) (Some FRONTIER_DECISION) (decided env p c e)) else None)
              (decided env p c e)"
            if e: "linked (pp_plan p) (ex_decisions c) e" "loadFrontierDecisionEventV4 env e = Inr e"
              "dn_rejected_event_hash e = it_event_hash r" "dn_action e = dn_action d" for e
            using decided_control [OF ok mem w e(1-3) log h0] e(4) by simp
          show ?thesis
          proof (cases "dn_rejected_event_hash d = it_event_hash r")
            case True
            have "wp (record_decision env (pp_plan p) d) (\<lambda>_ c'. control_post env p tree h0 (if dn_action d = ESCALATE_STORY
              then Some (result_now RUN_ESCALATE (Some (it_story_id r)) (Some FRONTIER_DECISION) c') else None) c')
              (stopped env p tree h0) c"
              using settled by (intro wp_record_decision [OF ok h mem w calls grows True]) auto
            with True st p d Some FRONTIER_LED show ?thesis
              by (cases "dn_action d") (simp_all add: frontier_control_def throw_if_def)
          next
            case False
            with st p d Some FRONTIER_LED show ?thesis by (simp add: frontier_control_def throw_if_def)
          qed
        qed
      qed
    qed
  qed
qed

section \<open>Runs\<close>

definition supplied_decisions :: "execution_request \<Rightarrow> decision_event list" where
  "supplied_decisions q = (case xq_prior_frontier_decisions q of None \<Rightarrow> [] | Some ds \<Rightarrow> ds)"

definition supplied_control :: "execution_request \<Rightarrow> review_control" where
  "supplied_control q = (case xq_review_control q of
      None \<Rightarrow> \<lparr>vc_mode = AUTONOMOUS_BROKER, vc_frontier_decision = None\<rparr> | Some v \<Rightarrow> v)"

lemma prepare_steps:
  "prepare env q = Inr p \<longleftrightarrow> (\<exists>worker plan s f.
     loadWorkerCapabilityV4 (se_worker_hash env) (xq_worker q) = Inr worker \<and>
     loadIterativeStoryPlanV4 env (xq_contract q) worker (xq_plan q) = Inr plan \<and>
     opt_all frontierDecisionInputSchema (vc_frontier_decision (supplied_control q)) \<and>
     replay_iterations env plan (xq_initial_tree_hash q) (xq_prior_events q) worker = Inr s \<and>
     replayFrontierDecisions env plan (ss_events s) (supplied_decisions q) (vc_mode (supplied_control q)) = Inr f \<and>
     p = \<lparr>pp_worker = worker, pp_plan = plan, pp_mode = vc_mode (supplied_control q),
       pp_decision = vc_frontier_decision (supplied_control q), pp_state = s, pp_frontier = f\<rparr>)"
  by (auto simp: prepare_def Let_def supplied_decisions_def supplied_control_def)

lemma prepare_Inr:
  assumes "prepare env q = Inr p"
  shows "loadWorkerCapabilityV4 (se_worker_hash env) (xq_worker q) = Inr (pp_worker p)"
    and "loadIterativeStoryPlanV4 env (xq_contract q) (pp_worker p) (xq_plan q) = Inr (pp_plan p)"
    and "replay_iterations env (pp_plan p) (xq_initial_tree_hash q) (xq_prior_events q) (pp_worker p) = Inr (pp_state p)"
    and "replayFrontierDecisions env (pp_plan p) (xq_prior_events q) (supplied_decisions q) (pp_mode p) = Inr (pp_frontier p)"
    and "plan_ok (pp_plan p)" and "ss_events (pp_state p) = xq_prior_events q" and "dx_decisions (pp_frontier p) = supplied_decisions q"
proof -
  from assms obtain worker plan s f where w: "loadWorkerCapabilityV4 (se_worker_hash env) (xq_worker q) = Inr worker"
    and l: "loadIterativeStoryPlanV4 env (xq_contract q) worker (xq_plan q) = Inr plan"
    and s: "replay_iterations env plan (xq_initial_tree_hash q) (xq_prior_events q) worker = Inr s"
    and f: "replayFrontierDecisions env plan (ss_events s) (supplied_decisions q) (vc_mode (supplied_control q)) = Inr f"
    and p: "p = \<lparr>pp_worker = worker, pp_plan = plan, pp_mode = vc_mode (supplied_control q),
        pp_decision = vc_frontier_decision (supplied_control q), pp_state = s, pp_frontier = f\<rparr>"
    unfolding prepare_steps by blast
  note ok = loaded_plan_ok [OF l]
  show "loadWorkerCapabilityV4 (se_worker_hash env) (xq_worker q) = Inr (pp_worker p)"
    "loadIterativeStoryPlanV4 env (xq_contract q) (pp_worker p) (xq_plan q) = Inr (pp_plan p)"
    "replay_iterations env (pp_plan p) (xq_initial_tree_hash q) (xq_prior_events q) (pp_worker p) = Inr (pp_state p)"
    "plan_ok (pp_plan p)" using w l s ok by (simp_all add: p)
  show ev: "ss_events (pp_state p) = xq_prior_events q" using replay_iterations_facts(1) [OF ok s] by (simp add: p)
  show "replayFrontierDecisions env (pp_plan p) (xq_prior_events q) (supplied_decisions q) (pp_mode p) = Inr (pp_frontier p)"
    using f ev by (simp add: p)
  then show "dx_decisions (pp_frontier p) = supplied_decisions q" by (rule decisions_facts(1))
qed

lemma entered_fields [simp]:
  "ex_state (entered_run p) = pp_state p" "ex_decisions (entered_run p) = dx_decisions (pp_frontier p)"
  "ex_durable (entered_run p) = (ss_events (pp_state p), dx_decisions (pp_frontier p))" "ex_log (entered_run p) = []"
  "ex_active_decision (entered_run p) = map_option dn_decision_hash (dx_pending (pp_frontier p))"
  by (simp_all add: entered_run_def)

text \<open>A history that is escalated already is reported as it is.\<close>

lemma escalated_reports:
  assumes ok: "plan_ok (pp_plan p)"
    and s: "replay_iterations env (pp_plan p) tree (ss_events (pp_state p)) (pp_worker p) = Inr (pp_state p)"
    and f: "replayFrontierDecisions env (pp_plan p) (ss_events (pp_state p)) (dx_decisions (pp_frontier p)) (pp_mode p) = Inr (pp_frontier p)"
    and esc: "case ss_escalation (pp_state p) of Some (k, r) \<Rightarrow> st = Some k \<and> reason = r
      | None \<Rightarrow> dx_escalation (pp_frontier p) \<noteq> None \<and> st = escalated_story (pp_state p) (pp_frontier p) \<and> reason = FRONTIER_DECISION"
  shows "reports env p tree (result_now RUN_ESCALATE st (Some reason) (entered_run p)) (ex_durable (entered_run p))"
proof -
  note inv = replay_iterations_facts(2) [OF ok s]
  have h: "history_of env (pp_plan p) (pp_worker p) tree (length (ss_events (pp_state p))) (ss_events (pp_state p)) (pp_state p)"
    using s by (simp add: replay_iterations_Inr)
  have "\<exists>story \<in> set (pl_stories (pp_plan p)). sy_story_id story \<notin> set (accepted_ids (pp_state p))"
  proof (cases "ss_escalation (pp_state p)")
    case None
    with esc obtain d where "dx_escalation (pp_frontier p) = Some d" by auto
    from decisions_facts(3) [OF f this] have "pending_rejection (pp_state p) = Some (last (ss_events (pp_state p)))"
      by (simp add: pending_rejection_def decides_last_def)
    from after_rejection [OF ok replay_iterations_facts(4) [OF ok s None] this] obtain story where
      "nextStory (se_locale_compare env) (pl_stories (pp_plan p)) (accepted_ids (pp_state p)) = Some story" by blast
    from nextStory_Some [OF this] show ?thesis by blast
  next
    case (Some x)
    then show ?thesis by (intro history_escalated [OF ok h]) simp
  qed
  then have inc: "length (ss_accepted (pp_state p)) < length (pl_stories (pp_plan p))" using incomplete [OF inv] by blast
  have "agrees (result_now RUN_ESCALATE st (Some reason) (entered_run p)) (snapshot_of_state (pp_plan p) (pp_state p) (pp_frontier p))"
    using inc esc
    by (auto simp: agrees_def snapshot_of_state_def result_now_def escalated_story_def accepted_ids_def split: option.splits)
  with s f show ?thesis by (fastforce simp: reports_def)
qed

lemma wp_run_prepared:
  assumes ok: "plan_ok (pp_plan p)" and h: "hashes_ok env"
    and s: "replay_iterations env (pp_plan p) tree (ss_events (pp_state p)) (pp_worker p) = Inr (pp_state p)"
    and f: "replayFrontierDecisions env (pp_plan p) (ss_events (pp_state p)) (dx_decisions (pp_frontier p)) (pp_mode p) = Inr (pp_frontier p)"
  shows "wp (run_prepared env p) (run_post env p tree (ex_durable (entered_run p))) (stopped env p tree (ex_durable (entered_run p)))
    (entered_run p)"
proof -
  have st: "stopped env p tree (ex_durable (entered_run p)) (entered_run p)"
    using s f by (auto simp: stopped_def replayable_def)
  show ?thesis
  proof (cases "ss_escalation (pp_state p)")
    case esc: (Some x)
    obtain k r where x: "x = (k, r)" by (cases x)
    have "reports env p tree (result_now RUN_ESCALATE (Some k) (Some r) (entered_run p)) (ex_durable (entered_run p))"
      by (rule escalated_reports [OF ok s f]) (simp add: esc x)
    with st show ?thesis by (simp add: run_prepared_def esc x run_post_def)
  next
    case None
    have len: "int (length (ss_events (pp_state p))) \<le> pl_max_iterations (pp_plan p)" using s by (simp add: replay_iterations_Inr)
    have mem: "in_memory env p tree (entered_run p)"
      using replay_iterations_facts(4) [OF ok s None] len by (simp add: in_memory_def)
    show ?thesis
    proof (cases "dx_escalation (pp_frontier p)")
      case (Some d)
      have "reports env p tree (result_now RUN_ESCALATE (escalated_story (pp_state p) (pp_frontier p)) (Some FRONTIER_DECISION) (entered_run p))
          (ex_durable (entered_run p))"
        by (rule escalated_reports [OF ok s f]) (simp add: None Some)
      with st show ?thesis by (simp add: run_prepared_def None Some run_post_def)
    next
      case e: None
      let ?h0 = "ex_durable (entered_run p)"
      have "wp (frontier_control env (pp_plan p) (pp_mode p) (pp_decision p) (dx_pending (pp_frontier p)))
          (control_post env p tree ?h0) (stopped env p tree ?h0) (entered_run p)"
        using f e by (intro wp_frontier_control [OF ok h mem]) simp_all
      then have "wp (frontier_control env (pp_plan p) (pp_mode p) (pp_decision p) (dx_pending (pp_frontier p)))
          (\<lambda>r. wp (case r of Some x \<Rightarrow> ioRet x
             | None \<Rightarrow> executor_loop env (pp_plan p) (pp_worker p) (pp_mode p) (nat (pl_max_iterations (pp_plan p)) + 1))
           (run_post env p tree ?h0) (stopped env p tree ?h0)) (stopped env p tree ?h0) (entered_run p)"
      proof (rule wp_mono)
        fix r d
        assume r: "control_post env p tree ?h0 r d"
        show "wp (case r of Some x \<Rightarrow> ioRet x
             | None \<Rightarrow> executor_loop env (pp_plan p) (pp_worker p) (pp_mode p) (nat (pl_max_iterations (pp_plan p)) + 1))
           (run_post env p tree ?h0) (stopped env p tree ?h0) d"
        proof (cases r)
          case None
          with r have "live env p tree ?h0 d" "executed_iterations (ex_log d) = {}" by (simp_all add: control_post_def)
          then have "wp (executor_loop env (pp_plan p) (pp_worker p) (pp_mode p) (nat (pl_max_iterations (pp_plan p)) + 1))
              (run_post env p tree ?h0) (stopped env p tree ?h0) d"
            by (intro wp_loop [OF ok h]) simp_all
          with None show ?thesis by simp
        qed (use r in \<open>simp add: control_post_def\<close>)
      qed
      then show ?thesis by (simp only: run_prepared_def None e option.case wp_bind)
    qed
  qed
qed

text \<open>Both kinds of end, for a run of an accepted request.\<close>

lemma run_ends:
  assumes "hashes_ok env" and "prepare env q = Inr p" and "runIterativeExecutorV4 env q = ((h, l), r)"
  shows "replayable env p (xq_initial_tree_hash q) h" and "calls_allowed env p (xq_initial_tree_hash q) l"
    and "extends (xq_prior_events q, supplied_decisions q) h"
    and "r = Inr x \<Longrightarrow> reports env p (xq_initial_tree_hash q) x h"
proof -
  note p = prepare_Inr [OF assms(2)]
  have w: "wp (run_prepared env p) (run_post env p (xq_initial_tree_hash q) (ex_durable (entered_run p)))
      (stopped env p (xq_initial_tree_hash q) (ex_durable (entered_run p))) (entered_run p)"
    using p by (intro wp_run_prepared [OF p(5) assms(1)]) simp_all
  obtain c y where run: "run_prepared env p (entered_run p) = (c, y)" by (cases "run_prepared env p (entered_run p)")
  with assms(2,3) have c: "h = ex_durable c" "l = ex_log c" "r = y" by (auto simp: runIterativeExecutorV4_def)
  have st: "stopped env p (xq_initial_tree_hash q) (ex_durable (entered_run p)) c"
    using w run by (cases y) (auto simp: wp_def run_post_def)
  then show "replayable env p (xq_initial_tree_hash q) h" "calls_allowed env p (xq_initial_tree_hash q) l"
    "extends (xq_prior_events q, supplied_decisions q) h" using p by (simp_all add: stopped_def c)
  show "reports env p (xq_initial_tree_hash q) x h" if "r = Inr x"
    using w run that by (simp add: wp_def run_post_def c)
qed

section \<open>The rounds of the loop\<close>

text \<open>The loop returns within one round more than the plan has iterations left.\<close>

lemma executor_rounds_return:
  "pl_max_iterations plan \<le> events_so_far c + int n \<Longrightarrow>
   wp (executor_rounds env plan worker mode (Suc n)) (\<lambda>r _. r \<noteq> None) (\<lambda>_. True) c"
proof (induction n arbitrary: c)
  case 0
  then show ?case by (simp add: events_so_far_def)
next
  case (Suc n)
  have "wp (iterate env plan worker mode)
      (\<lambda>r. wp (case r of Some x \<Rightarrow> ioRet (Some x) | None \<Rightarrow> executor_rounds env plan worker mode (Suc n)) (\<lambda>r _. r \<noteq> None) (\<lambda>_. True))
      (\<lambda>_. True) c"
  proof (rule wp_mono [OF iterate_records])
    fix r :: "execution_result option" and d :: exec
    assume d: "r = None \<longrightarrow> events_so_far d = events_so_far c + 1"
    show "wp (case r of Some x \<Rightarrow> ioRet (Some x) | None \<Rightarrow> executor_rounds env plan worker mode (Suc n))
        (\<lambda>r _. r \<noteq> None) (\<lambda>_. True) d"
      using Suc.IH [of d] Suc.prems d by (cases r) simp_all
  qed simp
  then show ?case unfolding executor_rounds.simps(2) [of env plan worker mode "Suc n"]  by (simp del: executor_rounds.simps)
qed

lemma executor_ends: "snd (executor_rounds env plan worker mode (nat (pl_max_iterations plan) + 1) c) \<noteq> Inr None"
proof
  let ?m = "executor_rounds env plan worker mode (Suc (nat (pl_max_iterations plan)))"
  assume "snd (executor_rounds env plan worker mode (nat (pl_max_iterations plan) + 1) c) = Inr None"
  then have run: "?m c = (fst (?m c), Inr None)" unfolding add.right_neutral Suc_eq_plus1 by (metis prod.collapse)
  have "pl_max_iterations plan \<le> events_so_far c + int (nat (pl_max_iterations plan))" by (simp add: events_so_far_def)
  from wp_result [OF executor_rounds_return [OF this] run] show False by simp
qed

end
