(* ===== verification/Story_Properties.thy ===== *)
theory Story_Properties
  imports Story_Control
begin

text \<open>
  The properties of the story executor: what its durable history, its calls and its result satisfy
  whatever the host, the economy worker, the validation and the review answer.
\<close>

section \<open>Calls\<close>

fun iterations_run :: "executor_log \<Rightarrow> int list" where
  "iterations_run [] = []"
| "iterations_run ((h, EXECUTE story k attempt session input receipts packet) # l) = k # iterations_run l"
| "iterations_run (_ # l) = iterations_run l"

lemma iterations_run_set: "set (iterations_run l) = executed_iterations l"
  by (induction l rule: iterations_run.induct) simp_all

lemma iterations_run_bounds:
  "calls_allowed env p tree l \<Longrightarrow> distinct (iterations_run l) \<and> set (iterations_run l) \<subseteq> {1..pl_max_iterations (pp_plan p)}"
proof (induction l rule: iterations_run.induct)
  case (2 h story k attempt session input receipts packet l)
  then have "k \<notin> executed_iterations l" "1 \<le> k" "k \<le> pl_max_iterations (pp_plan p)"
    by (auto simp: step_allowed_def start_allowed_def)
  with 2 show ?case by (simp add: iterations_run_set)
qed simp_all

lemma plan_bounds:
  assumes "prepare env q = Inr p" and "story \<in> set (pl_stories (pp_plan p))"
  shows "pl_max_iterations (pp_plan p) \<le> 64" and "sy_max_attempts story \<le> 3"
    and "check_story env (xq_contract q) (pp_worker p) story = Inr ()"
proof -
  note l = prepare_Inr(2) [OF assms(1)]
  show "pl_max_iterations (pp_plan p) \<le> 64" by (rule loaded_plan_schema(2) [OF l])
  have "storySchema story" using loaded_plan_schema(5) [OF l] assms(2) by simp
  then show "sy_max_attempts story \<le> 3" by (simp add: storySchema_def storyBodySchema_def int_between_def)
  from loaded_plan(1,5) [OF l] assms(2) obtain w where w: "loadWorkerCapabilityV4 (se_worker_hash env) (pp_worker p) = Inr w"
    "check_story env (xq_contract q) w story = Inr ()" by auto
  with prepare_Inr(1) [OF assms(1)] show "check_story env (xq_contract q) (pp_worker p) story = Inr ()"
    using loaded_capability_loads by fastforce
qed

text \<open>
  C6. No candidate is promoted by an accepted story unless this run executed the story on the accepted
  tree, the validation of exactly that candidate passed without findings and its review accepted it
  without findings, in that order and with no call between; the candidate differs from its input, and
  its changes stay within the story and within the implementation targets and limits of the contract.
\<close>

theorem promotions_are_earned:
  assumes "hashes_ok env" and "prepare env q = Inr p" and "runIterativeExecutorV4 env q = ((h, l), r)"
    and "l = newer @ (g, PERSIST_ITERATION e (Some pr)) # older"
  shows "promotion_earned env g older e pr \<and> pr_story pr \<in> set (pl_stories (pp_plan p)) \<and>
    list_all (\<lambda>c. \<exists>ops. allowed_operations (tr_implementation_targets (xq_contract q)) (ch_path c) = Some ops \<and>
      ch_operation c \<in> set ops) (it_changes e) \<and>
    int (length (it_changes e)) \<le> tr_max_files_changed (xq_contract q) \<and>
    it_changed_lines e \<le> tr_max_changed_lines (xq_contract q)"
proof -
  from run_ends(2) [OF assms(1-3)] have ca: "calls_allowed env p (xq_initial_tree_hash q) l" .
  from calls_allowed_at [OF ca [unfolded assms(4)]] have pe: "promotion_earned env g older e pr" by (simp add: step_allowed_def)
  then obtain iteration attempt session receipts packet rest
      and v :: validation_answer and c :: candidate_result where
    older: "older = (g, REVIEW_TREE (pr_story pr) (pr_candidate_tree_hash pr) (va_manifest_hash v)) #
      (g, VALIDATE_TREE (pr_story pr) (pr_candidate_tree_hash pr)) #
      (g, EXECUTE (pr_story pr) iteration attempt session (pr_input_tree_hash pr) receipts packet) # rest"
    and c: "changesAreAuthorized (pr_story pr) (cx_changes c)" "cx_changed_lines c \<le> sy_max_changed_lines (pr_story pr)"
      "it_changes e = cx_changes c" "it_changed_lines e = cx_changed_lines c"
    unfolding promotion_earned_def by blast
  have auth: "changesAreAuthorized (pr_story pr) (it_changes e)" "it_changed_lines e \<le> sy_max_changed_lines (pr_story pr)"
    using c by simp_all
  have "step_allowed env p (xq_initial_tree_hash q) g rest
      (EXECUTE (pr_story pr) iteration attempt session (pr_input_tree_hash pr) receipts packet)"
    using ca older by (intro calls_allowed_at [of env p _ "newer @ (g, PERSIST_ITERATION e (Some pr)) #
      [(g, REVIEW_TREE (pr_story pr) (pr_candidate_tree_hash pr) (va_manifest_hash v)),
       (g, VALIDATE_TREE (pr_story pr) (pr_candidate_tree_hash pr))]"]) (simp add: assms(4))
  then have st: "pr_story pr \<in> set (pl_stories (pp_plan p))" by (auto simp: step_allowed_def start_allowed_def)
  note ch = plan_bounds(3) [OF assms(2) st]
  have "list_all (\<lambda>c. \<exists>ops. allowed_operations (tr_implementation_targets (xq_contract q)) (ch_path c) = Some ops \<and>
      ch_operation c \<in> set ops) (it_changes e)"
    using authorized_within_contract [OF ch auth(1)] by (simp add: list_all_iff)
  with pe st authorized_files [OF ch auth(1)] check_story_Inr(3) [OF ch] auth(2) show ?thesis by linarith
qed

text \<open>
  C9. A story is executed only when the durable history replays without escalation, the story is
  pending and everything it depends on is accepted, on the accepted tree, in a fresh session, as the
  next iteration within the plan's budget and the next attempt within the story's; a retry led by the
  frontier needs a durable decision to retry the last rejection. No iteration is executed twice.
\<close>

theorem executions_follow_plan:
  assumes "hashes_ok env" and "prepare env q = Inr p" and "runIterativeExecutorV4 env q = ((h, l), r)"
    and "l = newer @ (g, EXECUTE story iteration attempt session input receipts packet) # older"
  shows "start_allowed env p (xq_initial_tree_hash q) g story iteration attempt session input receipts \<and>
    iteration \<le> 64 \<and> attempt \<le> 3 \<and> iteration \<notin> executed_iterations older"
proof -
  have s: "step_allowed env p (xq_initial_tree_hash q) g older (EXECUTE story iteration attempt session input receipts packet)"
    using run_ends(2) [OF assms(1-3)] assms(4) by (auto intro: calls_allowed_at)
  then have "story \<in> set (pl_stories (pp_plan p))" "iteration \<le> pl_max_iterations (pp_plan p)" "attempt \<le> sy_max_attempts story"
    by (auto simp: step_allowed_def start_allowed_def)
  with plan_bounds(1,2) [OF assms(2)] s show ?thesis by (fastforce simp: step_allowed_def)
qed

text \<open>A run executes the worker at most as often as the plan has iterations, so at most 64 times.\<close>

theorem executions_bounded:
  assumes "hashes_ok env" and "prepare env q = Inr p" and "runIterativeExecutorV4 env q = ((h, l), r)"
  shows "int (length (iterations_run l)) \<le> pl_max_iterations (pp_plan p) \<and> pl_max_iterations (pp_plan p) \<le> 64"
proof -
  note b = iterations_run_bounds [OF run_ends(2) [OF assms]]
  then have "card (set (iterations_run l)) \<le> card {1..pl_max_iterations (pp_plan p)}" by (intro card_mono) auto
  moreover have "card (set (iterations_run l)) = length (iterations_run l)" using b by (intro distinct_card) simp
  moreover have "1 \<le> pl_max_iterations (pp_plan p)" using prepare_Inr(5) [OF assms(2)] by (simp add: plan_ok_def)
  ultimately show ?thesis using loaded_plan_schema(2) [OF prepare_Inr(2) [OF assms(2)]] by simp
qed

section \<open>History\<close>

text \<open>
  C7. However a run ends, the durable history extends the one it was given and is accepted when the
  request is made again with it, provided no two events and no two decisions share a hash.
\<close>

theorem interrupted_runs_resume:
  assumes "hashes_ok env" and "prepare env q = Inr p" and "runIterativeExecutorV4 env q = ((h, l), r)"
    and "fresh_hashes (fst h) (snd h)"
  shows "(\<exists>es ds. h = (xq_prior_events q @ es, supplied_decisions q @ ds)) \<and>
    is_ok (prepare env (q\<lparr>xq_prior_events := fst h, xq_prior_frontier_decisions := Some (snd h)\<rparr>))"
proof -
  let ?q = "q\<lparr>xq_prior_events := fst h, xq_prior_frontier_decisions := Some (snd h)\<rparr>"
  from run_ends(1) [OF assms(1-3)] assms(4) obtain s f where
    s: "replay_iterations env (pp_plan p) (xq_initial_tree_hash q) (fst h) (pp_worker p) = Inr s"
    and f: "replayFrontierDecisions env (pp_plan p) (fst h) (snd h) (pp_mode p) = Inr f" by (auto simp: replayable_def)
  have same: "supplied_decisions ?q = snd h" "supplied_control ?q = supplied_control q"
    by (simp_all add: supplied_decisions_def supplied_control_def)
  have mode: "pp_mode p = vc_mode (supplied_control q)" "opt_all frontierDecisionInputSchema (vc_frontier_decision (supplied_control q))"
    using assms(2) by (auto simp: prepare_steps)
  have "ss_events s = fst h" using replay_iterations_facts(1) [OF prepare_Inr(5) [OF assms(2)] s] .
  then have "\<exists>k. prepare env ?q = Inr k"
    using prepare_Inr(1,2) [OF assms(2)] s f mode by (simp add: prepare_steps same)
  moreover have "\<exists>es ds. h = (xq_prior_events q @ es, supplied_decisions q @ ds)"
    using run_ends(3) [OF assms(1-3)] by (simp add: extends_def)
  ultimately show ?thesis by (auto simp: is_ok_iff)
qed

text \<open>
  C8. The result of a run tells what a fresh inspection of the durable history tells: the same tree,
  accepted stories, events, decisions and escalation, and a status that says COMPLETE exactly when the
  trajectory is complete and ESCALATE exactly when it is escalated.
\<close>

theorem result_agrees_with_inspection:
  assumes "hashes_ok env" and "prepare env q = Inr p" and "runIterativeExecutorV4 env q = ((h, l), Inr x)"
    and "fresh_hashes (fst h) (snd h)"
  shows "\<exists>t. inspectIterativeTrajectoryV4 env (xq_contract q) (xq_worker q) (xq_plan q) (xq_initial_tree_hash q)
      (fst h) (Some (pp_mode p)) (Some (snd h)) = Inr t \<and> agrees x t"
proof -
  from run_ends(4) [OF assms(1-3) refl] assms(4) obtain s f where
    s: "replay_iterations env (pp_plan p) (xq_initial_tree_hash q) (fst h) (pp_worker p) = Inr s"
    and f: "replayFrontierDecisions env (pp_plan p) (fst h) (snd h) (pp_mode p) = Inr f"
    and a: "agrees x (snapshot_of_state (pp_plan p) s f)" by (auto simp: reports_def)
  have "ss_events s = fst h" using replay_iterations_facts(1) [OF prepare_Inr(5) [OF assms(2)] s] .
  with s f prepare_Inr(1,2) [OF assms(2)] a show ?thesis by (simp add: inspectIterativeTrajectoryV4_def)
qed

section \<open>Progress\<close>

text \<open>
  C23. The dependencies of an accepted plan can always be worked off: as long as a story is pending,
  some pending story has all its dependencies accepted and is selected, whatever has been accepted.
\<close>

theorem plan_never_stuck:
  assumes "loadIterativeStoryPlanV4 env contract worker input = Inr plan" and "story \<in> set (pl_stories plan)"
    and "sy_story_id story \<notin> set accepted"
  shows "\<exists>s. nextStory (se_locale_compare env) (pl_stories plan) accepted = Some s \<and> s \<in> set (pl_stories plan) \<and>
    sy_story_id s \<notin> set accepted \<and> set (sy_depends_on s) \<subseteq> set accepted"
proof -
  have "assertDag (pl_stories plan) = Inr ()" using loaded_plan(1,6) [OF assms(1)] by simp
  from dag_progress [OF this assms(2,3)] obtain s where s: "nextStory (se_locale_compare env) (pl_stories plan) accepted = Some s" by auto
  from nextStory_Some [OF s] s show ?thesis by blast
qed

section \<open>A failure that cannot be retried\<close>

lemma wp_repair_large:
  assumes "1 < attempt" and "previous_failure (ss_events (ex_state c)) (sy_story_id story) = Some f" and "32 < length (it_finding_hashes f)"
  shows "wp (repair_step env mode story attempt) (\<lambda>_ _. False) (\<lambda>d. ex_durable d = ex_durable c) c"
  using assms
  by (auto simp: repair_step_def last_failure_def throw_if_def loadRepairPacketV4_Inr packet_differs_def packetBodySchema_def
      list_between_def split: sum.split)

lemma last_retry:
  assumes ok: "plan_ok plan" and s: "replay_iterations env plan tree es worker = Inr s"
    and "es \<noteq> []" and "it_outcome (last es) = IT_RETRY"
  shows "ss_escalation s = None" and "\<exists>story. nextStory (se_locale_compare env) (pl_stories plan) (accepted_ids s) = Some story \<and>
    1 < next_attempt s (sy_story_id story) \<and> next_attempt s (sy_story_id story) \<le> sy_max_attempts story \<and>
    previous_failure (ss_events s) (sy_story_id story) = Some (last es)"
proof -
  have ev: "ss_events s = es" and inv: "story_inv plan s" using replay_iterations_facts(1,2) [OF ok s] by auto
  have h: "history_of env plan worker tree (length es) es s" using s by (simp add: replay_iterations_Inr)
  from assms(3) obtain fs e where es: "es = fs @ [e]" by (cases es rule: rev_cases) auto
  with h obtain t where t: "history_of env plan worker tree (length es) fs t" "replay_iteration env plan worker (length es) t e = Inr s"
    by (auto simp: history_snoc)
  have "ss_escalation t = None" using history_escalated_length [OF ok t(1)] es by (cases "ss_escalation t") auto
  with t(2) assms(4) es show none: "ss_escalation s = None" by (auto simp: replay_iteration_Inr)
  have pr: "pending_rejection s = Some e" using assms(3,4) by (simp add: pending_rejection_def ev es)
  from h ev have "history_of env plan worker tree (length es) (ss_events s) s" by simp
  from history_rejection [OF ok this pr] obtain story where
    st: "nextStory (se_locale_compare env) (pl_stories plan) (accepted_ids s) = Some story" "sy_story_id story = it_story_id e"
      "1 < next_attempt s (it_story_id e)" by blast
  moreover have "next_attempt s (sy_story_id story) \<le> sy_max_attempts story"
    using inv none nextStory_Some(1,2) [OF st(1)] by (fastforce simp: story_inv_def)
  moreover have "previous_failure es (sy_story_id story) = Some e" using assms(4) st(2) by (simp add: es previous_failure_snoc)
  ultimately show "\<exists>story. nextStory (se_locale_compare env) (pl_stories plan) (accepted_ids s) = Some story \<and>
    1 < next_attempt s (sy_story_id story) \<and> next_attempt s (sy_story_id story) \<le> sy_max_attempts story \<and>
    previous_failure (ss_events s) (sy_story_id story) = Some (last es)" by (auto simp: ev es)
qed

text \<open>
  C22. An iteration event may carry up to 128 findings and a repair packet at most 32, and they must be
  the same findings: when the last recorded event of a plan with iterations left is a RETRY with more than 32
  findings, every autonomous run from that history fails and leaves it as it was, so the retry is never made.
\<close>

theorem large_failure_never_retried:
  assumes "prepare env q = Inr p" and "pp_mode p = AUTONOMOUS_BROKER" and "xq_prior_events q \<noteq> []"
    and "it_outcome (last (xq_prior_events q)) = IT_RETRY" and "32 < length (it_finding_hashes (last (xq_prior_events q)))"
    and "int (length (xq_prior_events q)) < pl_max_iterations (pp_plan p)"
  shows "(\<exists>e. snd (runIterativeExecutorV4 env q) = Inl e) \<and>
    fst (fst (runIterativeExecutorV4 env q)) = (xq_prior_events q, supplied_decisions q)"
proof -
  note p = prepare_Inr [OF assms(1)]
  let ?c = "entered_run p" and ?E = "\<lambda>d. ex_durable d = (xq_prior_events q, supplied_decisions q)"
  note lr = last_retry [OF p(5,3) assms(3,4)]
  have dur: "?E ?c" by (simp add: p)
  from lr(2) obtain story where st: "nextStory (se_locale_compare env) (pl_stories (pp_plan p)) (accepted_ids (pp_state p)) = Some story"
    "1 < next_attempt (pp_state p) (sy_story_id story)" "next_attempt (pp_state p) (sy_story_id story) \<le> sy_max_attempts story"
    "previous_failure (ss_events (pp_state p)) (sy_story_id story) = Some (last (xq_prior_events q))" by blast
  let ?att = "next_attempt (pp_state p) (sy_story_id story)"
  have "wp (repair_step env (pp_mode p) story ?att) (\<lambda>_ _. False) ?E ?c"
    using wp_repair_large [OF st(2), of ?c] st(4) assms(5) by (simp add: p)
  then have rep: "wp (repair_step env (pp_mode p) story ?att) Q ?E ?c" for Q by (rule wp_mono) simp_all
  have "wp (attempt_story env (pp_plan p) (pp_worker p) (pp_mode p) story ?att) (\<lambda>_ _. False) ?E ?c"
    unfolding attempt_story_def session_step_def using rep dur by (simp add: throw_if_def)
  then have it: "wp (iterate env (pp_plan p) (pp_worker p) (pp_mode p)) (\<lambda>_ _. False) ?E ?c"
    using st(1,3) by (simp add: iterate_def)
  have loop: "wp (executor_loop env (pp_plan p) (pp_worker p) (pp_mode p) (Suc n)) (\<lambda>_ _. False) ?E ?c" for n
    using wp_mono [OF it, of "\<lambda>r. wp (case r of Some x \<Rightarrow> ioRet x | None \<Rightarrow> executor_loop env (pp_plan p) (pp_worker p) (pp_mode p) n) (\<lambda>_ _. False) ?E" ?E]
      assms(6) by (simp add: p)
  have ds: "supplied_decisions q = []" using decisions_facts(4) [OF p(4)] assms(2) by simp
  have "dx_escalation (pp_frontier p) = None"
    using decisions_facts(3) [OF p(4)] ds by (cases "dx_escalation (pp_frontier p)") (auto simp: decides_last_def)
  then have "wp (run_prepared env p) (\<lambda>_ _. False) ?E ?c"
    using loop [of "nat (pl_max_iterations (pp_plan p))"] lr(1) assms(2) dur
    by (simp add: run_prepared_def frontier_control_def throw_if_def)
  then show ?thesis using assms(1) by (auto simp: wp_def runIterativeExecutorV4_def split: prod.splits sum.splits)
qed

end
