(* ===== verification/Story_Samples.thy ===== *)
theory Story_Samples
  imports Story_Properties Samples
begin

text \<open>
  A plan of two stories, the second depending on the first, and an executor with concrete ports. The
  history of the first story is given; the run executes the second story, which is validated, reviewed
  and accepted. The properties are applied to this run.
\<close>

definition sample_deployment :: deployment where
  "sample_deployment = \<lparr>wd_provider_ref = ''p'', wd_model_ref = ''m'', wd_model_revision = ''r1'', wd_model_artifact_hash = None,
     wd_endpoint_revision = ''e1'', wd_harness_ref = ''h'', wd_harness_revision = ''h1'', wd_tool_protocol = ''t'',
     wd_tool_parser_revision = ''t1'', wd_tool_bundle_hash = hash_of CHR ''1'', wd_instruction_bundle_hash = hash_of CHR ''2'',
     wd_qualification_evidence_hash = hash_of CHR ''3''\<rparr>"

definition sample_limits :: worker_limits where
  "sample_limits = \<lparr>wl_max_story_files = 1, wl_max_story_changed_lines = 10, wl_max_story_context_bytes = 2048,
     wl_max_acceptance_criteria = 1, wl_max_dependency_depth = 1, wl_max_steps_per_attempt = 4, wl_max_attempts = 2,
     wl_no_progress_repeat_limit = 2\<rparr>"

definition sample_worker :: worker_capability where
  "sample_worker = \<lparr>wk_binding_ref = ''economy'', wk_deployment = sample_deployment, wk_capabilities = [''typescript''],
     wk_limits = sample_limits, wk_hash = hash_of CHR ''b''\<rparr>"

definition sample_story :: "string \<Rightarrow> string list \<Rightarrow> story" where
  "sample_story k deps = \<lparr>sy_story_id = k, sy_title = ''t'', sy_objective = ''o'', sy_priority = 1, sy_depends_on = deps,
     sy_allowed_changes = [sample_change], sy_validation_ids = [''unit''], sy_acceptance_criteria = [''works''],
     sy_required_capabilities = [''typescript''], sy_context_budget_bytes = 1024, sy_max_changed_lines = 10, sy_max_steps = 2,
     sy_max_attempts = 2, sy_story_hash = hash_of CHR ''c''\<rparr>"

abbreviation first_story :: story where "first_story \<equiv> sample_story ''story_0001'' []"
abbreviation second_story :: story where "second_story \<equiv> sample_story ''story_0002'' [''story_0001'']"

definition sample_plan :: plan where
  "sample_plan = \<lparr>pl_run_id = ''run_0123456789abcdef'', pl_contract_hash = hash_of CHR ''7'', pl_base_sha = replicate 40 CHR ''2'',
     pl_worker_capability_hash = hash_of CHR ''b'', pl_max_iterations = 4, pl_stories = [second_story, first_story],
     pl_plan_hash = hash_of CHR ''d''\<rparr>"

definition sample_candidate_result :: candidate_result where
  "sample_candidate_result = \<lparr>cx_candidate_tree_hash = hash_of CHR ''2'',
     cx_changes = [\<lparr>ch_path = ''src/a.ts'', ch_operation = MODIFY\<rparr>], cx_changed_lines = 3, cx_result_hash = hash_of CHR ''e''\<rparr>"

definition sample_verdict :: validation_answer where
  "sample_verdict = \<lparr>va_passed = True, va_manifest_hash = hash_of CHR ''8'', va_finding_hashes = [], va_failure_signature_hash = None\<rparr>"

definition sample_attestation :: review_answer where
  "sample_attestation = \<lparr>ra_accepted = True, ra_attestation_hash = hash_of CHR ''9'', ra_finding_hashes = [],
     ra_failure_signature_hash = None\<rparr>"

definition sample_executor_env :: executor_env where
  "sample_executor_env = \<lparr>se_contract_hash = (\<lambda>_. hash_of CHR ''7''), se_worker_hash = (\<lambda>_. hash_of CHR ''b''),
     se_story_hash = (\<lambda>_. hash_of CHR ''c''), se_plan_hash = (\<lambda>_. hash_of CHR ''d''), se_locale_compare = (\<lambda>_ _. 0),
     se_packet_hash = (\<lambda>_. hash_of CHR ''f''), se_event_hash = (\<lambda>b. hash_of (if it_iteration b = 1 then CHR ''3'' else CHR ''4'')),
     se_decision_hash = (\<lambda>_. hash_of CHR ''5''), se_failure_hash = (\<lambda>_. hash_of CHR ''6''),
     xe_create_session_id = (\<lambda>_. ''session_fedcba9876543210''), xe_load_repair_packet = (\<lambda>_. Inl (Error PORT_ERROR ''no packet'')),
     xe_execute = (\<lambda>_. Inr sample_candidate_result), xe_validate = (\<lambda>_. Inr sample_verdict), xe_review = (\<lambda>_. Inr sample_attestation),
     xe_persist_iteration = (\<lambda>_. RECORDED), xe_persist_frontier_decision = None\<rparr>"

definition sample_execution :: "iteration_event list \<Rightarrow> execution_request" where
  "sample_execution es = \<lparr>xq_contract = sample_contract, xq_worker = sample_worker, xq_plan = sample_plan,
     xq_initial_tree_hash = hash_of CHR ''0'', xq_prior_events = es, xq_prior_frontier_decisions = None,
     xq_review_control = None\<rparr>"

definition sample_event :: "string \<Rightarrow> int \<Rightarrow> string \<Rightarrow> char \<Rightarrow> char \<Rightarrow> char \<Rightarrow> iteration_event" where
  "sample_event k i session input candidate h = \<lparr>it_run_id = ''run_0123456789abcdef'', it_plan_hash = hash_of CHR ''d'',
     it_story_id = k, it_iteration = i, it_attempt = 1, it_session_id = session, it_input_tree_hash = hash_of input,
     it_candidate_tree_hash = hash_of candidate, it_outcome = IT_ACCEPTED,
     it_changes = [\<lparr>ch_path = ''src/a.ts'', ch_operation = MODIFY\<rparr>], it_changed_lines = 3,
     it_execution_result_hash = hash_of CHR ''e'', it_validation_manifest_hash = hash_of CHR ''8'',
     it_review_attestation_hash = Some (hash_of CHR ''9''), it_finding_hashes = [], it_repair_packet_hash = None,
     it_frontier_decision_hash = Some None, it_failure_signature_hash = None, it_escalation_reason = None,
     it_event_hash = hash_of h\<rparr>"

definition first_event :: iteration_event where
  "first_event = sample_event ''story_0001'' 1 ''session_0123456789abcdef'' CHR ''0'' CHR ''1'' CHR ''3''"

definition second_event :: iteration_event where
  "second_event = sample_event ''story_0002'' 2 ''session_fedcba9876543210'' CHR ''1'' CHR ''2'' CHR ''4''"

definition sample_receipt :: "string \<Rightarrow> char \<Rightarrow> receipt" where
  "sample_receipt k candidate = \<lparr>rc_story_id = k, rc_output_tree_hash = hash_of candidate,
     rc_changes = [\<lparr>ch_path = ''src/a.ts'', ch_operation = MODIFY\<rparr>], rc_validation_manifest_hash = hash_of CHR ''8'',
     rc_review_attestation_hash = hash_of CHR ''9''\<rparr>"

definition sample_promotion :: promotion where
  "sample_promotion = \<lparr>pr_story = second_story, pr_input_tree_hash = hash_of CHR ''1'', pr_candidate_tree_hash = hash_of CHR ''2''\<rparr>"

definition first_history :: durable_history where
  "first_history = ([first_event], [])"

definition sample_calls :: executor_log where
  "sample_calls = [(first_history, PERSIST_ITERATION second_event (Some sample_promotion)),
     (first_history, REVIEW_TREE second_story (hash_of CHR ''2'') (hash_of CHR ''8'')),
     (first_history, VALIDATE_TREE second_story (hash_of CHR ''2'')),
     (first_history, EXECUTE second_story 2 1 ''session_fedcba9876543210'' (hash_of CHR ''1'')
        [sample_receipt ''story_0001'' CHR ''1''] None)]"

definition sample_outcome :: execution_result where
  "sample_outcome = \<lparr>xr_status = RUN_COMPLETE, xr_tree_hash = hash_of CHR ''2'',
     xr_accepted_receipts = [sample_receipt ''story_0001'' CHR ''1'', sample_receipt ''story_0002'' CHR ''2''],
     xr_events = [first_event, second_event], xr_frontier_decisions = [], xr_escalation_story_id = None, xr_escalation_reason = None\<rparr>"

lemma sample_story_run: "runIterativeExecutorV4 sample_executor_env (sample_execution [first_event]) =
    ((([first_event, second_event], []), sample_calls), Inr sample_outcome)"
  by code_simp

lemma sample_hashes_ok: "hashes_ok sample_executor_env"
proof -
  have "is_hash (hash_of CHR ''3'')" "is_hash (hash_of CHR ''4'')" "is_hash (hash_of CHR ''5'')" by code_simp+
  then show ?thesis by (simp add: hashes_ok_def sample_executor_env_def)
qed

lemma sample_fresh: "fresh_hashes [first_event, second_event] []"
  by code_simp

lemma sample_prepared: "\<exists>p. prepare sample_executor_env (sample_execution [first_event]) = Inr p"
proof (cases "prepare sample_executor_env (sample_execution [first_event])")
  case (Inl e)
  with sample_story_run show ?thesis by (simp add: runIterativeExecutorV4_def sample_execution_def)
qed simp

definition sample_start :: prepared where
  "sample_start = (case prepare sample_executor_env (sample_execution [first_event]) of Inr p \<Rightarrow> p | Inl e \<Rightarrow> undefined)"

lemma sample_start_prepared: "prepare sample_executor_env (sample_execution [first_event]) = Inr sample_start"
  using sample_prepared by (auto simp: sample_start_def)

lemma sample_plan_loaded:
  assumes "prepare sample_executor_env (sample_execution es) = Inr p"
  shows "pp_plan p = sample_plan \<and> pp_mode p = AUTONOMOUS_BROKER"
proof -
  have "pp_plan p = sample_plan" using loaded_plan(1) [OF prepare_Inr(2) [OF assms]] by (simp add: sample_execution_def)
  moreover from assms have "pp_mode p = vc_mode (supplied_control (sample_execution es))" unfolding prepare_steps by auto
  ultimately show ?thesis by (simp add: sample_execution_def supplied_control_def)
qed

section \<open>Witnesses\<close>

theorem promotions_are_earned_witness:
  "promotion_earned sample_executor_env first_history (tl sample_calls) second_event sample_promotion \<and>
     it_changed_lines second_event \<le> 10"
  using promotions_are_earned [OF sample_hashes_ok sample_start_prepared sample_story_run, of "[]"]
  by (simp add: sample_calls_def second_event_def sample_event_def)

theorem executions_follow_plan_witness:
  "start_allowed sample_executor_env sample_start (hash_of CHR ''0'') first_history second_story 2 1
     ''session_fedcba9876543210'' (hash_of CHR ''1'') [sample_receipt ''story_0001'' CHR ''1'']"
  using executions_follow_plan [OF sample_hashes_ok sample_start_prepared sample_story_run, of "take 3 sample_calls"]
  by (simp add: sample_calls_def sample_execution_def)

theorem executions_bounded_witness: "int (length (iterations_run sample_calls)) \<le> 4"
  using executions_bounded [OF sample_hashes_ok sample_start_prepared sample_story_run] sample_plan_loaded [OF sample_start_prepared]
  by (simp add: sample_plan_def)

theorem interrupted_runs_resume_witness:
  "is_ok (prepare sample_executor_env ((sample_execution [first_event])\<lparr>xq_prior_events := [first_event, second_event],
     xq_prior_frontier_decisions := Some []\<rparr>))"
  using interrupted_runs_resume [OF sample_hashes_ok sample_start_prepared sample_story_run] sample_fresh by simp

theorem result_agrees_with_inspection_witness:
  "\<exists>t. inspectIterativeTrajectoryV4 sample_executor_env sample_contract sample_worker sample_plan (hash_of CHR ''0'')
     [first_event, second_event] (Some AUTONOMOUS_BROKER) (Some []) = Inr t \<and> agrees sample_outcome t"
  using result_agrees_with_inspection [OF sample_hashes_ok sample_start_prepared sample_story_run] sample_fresh
    sample_plan_loaded [OF sample_start_prepared] by (simp add: sample_execution_def)

theorem plan_never_stuck_witness:
  "\<exists>s. nextStory (se_locale_compare sample_executor_env) (pl_stories sample_plan) [''story_0001''] = Some s"
proof -
  have "loadIterativeStoryPlanV4 sample_executor_env sample_contract (pp_worker sample_start) sample_plan = Inr sample_plan"
    using prepare_Inr(2) [OF sample_start_prepared] sample_plan_loaded [OF sample_start_prepared] by (simp add: sample_execution_def)
  from plan_never_stuck [OF this, of second_story "[''story_0001'']"] show ?thesis
    by (auto simp: sample_plan_def sample_story_def)
qed

text \<open>A first attempt that was rejected with 48 findings.\<close>

definition many_findings :: "string list" where
  "many_findings = map (\<lambda>(a, b). a # b # replicate 62 CHR ''0'') (List.product ''012'' ''0123456789abcdef'')"

definition rejected_event :: iteration_event where
  "rejected_event = first_event\<lparr>it_outcome := IT_RETRY, it_review_attestation_hash := None, it_finding_hashes := many_findings,
     it_failure_signature_hash := Some (hash_of CHR ''6'')\<rparr>"

lemma sample_rejected: "is_ok (prepare sample_executor_env (sample_execution [rejected_event]))"
  by code_simp

lemma many_findings_length: "length many_findings = 48"
  by (simp add: many_findings_def)

theorem large_failure_never_retried_witness:
  "fst (fst (runIterativeExecutorV4 sample_executor_env (sample_execution [rejected_event]))) = ([rejected_event], [])"
proof -
  from sample_rejected obtain p where p: "prepare sample_executor_env (sample_execution [rejected_event]) = Inr p"
    by (auto simp: is_ok_iff)
  from large_failure_never_retried [OF p] sample_plan_loaded [OF p] show ?thesis
    by (simp add: sample_execution_def rejected_event_def many_findings_length sample_plan_def supplied_decisions_def)
qed

end
