(* ===== verification/Run_Locks.thy ===== *)
theory Run_Locks
  imports Effects
begin

text \<open>
  The lock discipline that finalize.ts and publication.ts share: the lock of the run, then the lock of
  the repository, the operation, and the releases in \<open>finally\<close>, whose failures are ignored.

  The state is the log of all calls, newest first. \<open>locked_operation\<close> states what an operation owes to the
  discipline, to issue nothing but its own calls, and what the discipline guarantees in return.
\<close>

section \<open>Calls under locks\<close>

datatype 'c run_call = ACQUIRE_RUN_LOCK | ACQUIRE_REPOSITORY_LOCK | RELEASE_REPOSITORY_LOCK | RELEASE_RUN_LOCK | CALL 'c

type_synonym 'c run_log = "'c run_call list"

record 'c lock_ports =
  lk_acquire_run :: "'c run_log \<Rightarrow> unit result"
  lk_acquire_repository :: "'c run_log \<Rightarrow> unit result"

definition log_call :: "'c run_call \<Rightarrow> ('c run_log \<Rightarrow> 'a result) \<Rightarrow> ('c run_log, 'a) io" where
  "log_call call answer l = (call # l, answer (call # l))"

text \<open>\<open>try { m } finally { f }\<close>, where \<open>f\<close> does not throw.\<close>

definition ioFinally :: "('s, 'a) io \<Rightarrow> ('s \<Rightarrow> 's) \<Rightarrow> ('s, 'a) io" where
  "ioFinally m f c = (case m c of (d, r) \<Rightarrow> (f d, r))"

definition under_locks :: "'c lock_ports \<Rightarrow> ('c run_log, 'a) io \<Rightarrow> ('c run_log, 'a) io" where
  "under_locks k body =
     ioBind (log_call ACQUIRE_RUN_LOCK (lk_acquire_run k)) (\<lambda>_.
     ioFinally
       (ioBind (log_call ACQUIRE_REPOSITORY_LOCK (lk_acquire_repository k)) (\<lambda>_. ioFinally body (Cons RELEASE_REPOSITORY_LOCK)))
       (Cons RELEASE_RUN_LOCK))"

lemma wp_log_call [simp]:
  "wp (log_call call answer) Q E = (\<lambda>l. case answer (call # l) of Inl e \<Rightarrow> E (call # l) | Inr x \<Rightarrow> Q x (call # l))"
  by (simp add: wp_def log_call_def fun_eq_iff split: sum.splits)

lemma wp_finally [simp]: "wp (ioFinally m f) Q E = wp m (\<lambda>x c. Q x (f c)) (\<lambda>c. E (f c))"
  by (simp add: wp_def ioFinally_def fun_eq_iff split: prod.splits sum.splits)

section \<open>Operations that issue only their own calls\<close>

definition only_calls :: "('c run_log, 'a) io \<Rightarrow> bool" where
  "only_calls m = (\<forall>l. \<exists>cs. fst (m l) = map CALL cs @ l)"

named_theorems calls_rules \<open>which steps issue only their own calls\<close>

lemma only_calls_ret [calls_rules]: "only_calls (ioRet x)"
  by (simp add: only_calls_def ioRet_def)

lemma only_calls_lift [calls_rules]: "only_calls (ioLift r)"
  by (simp add: only_calls_def ioLift_def)

lemma only_calls_get [calls_rules]: "only_calls (ioGet f)"
  by (simp add: only_calls_def ioGet_def)

lemma only_calls_call [calls_rules]: "only_calls (log_call (CALL c) answer)"
proof -
  have "fst (log_call (CALL c) answer l) = map CALL [c] @ l" for l by (simp add: log_call_def)
  then show ?thesis unfolding only_calls_def by blast
qed

lemma only_calls_bind [calls_rules]:
  assumes "only_calls m" and "\<And>x. only_calls (k x)"
  shows "only_calls (ioBind m k)"
  unfolding only_calls_def
proof
  fix l
  from assms(1) obtain cs where cs: "fst (m l) = map CALL cs @ l" by (auto simp: only_calls_def)
  show "\<exists>cs. fst (ioBind m k l) = map CALL cs @ l"
  proof (cases "m l")
    case (Pair d r)
    show ?thesis
    proof (cases r)
      case (Inl e)
      with cs Pair show ?thesis by (auto simp: ioBind_def)
    next
      case (Inr x)
      from assms(2) [of x] obtain ds where "fst (k x d) = map CALL ds @ d" by (auto simp: only_calls_def)
      with cs Pair Inr have "fst (ioBind m k l) = map CALL (ds @ cs) @ l" by (simp add: ioBind_def)
      then show ?thesis by blast
    qed
  qed
qed

lemma only_calls_if [calls_rules]: "only_calls m \<Longrightarrow> only_calls n \<Longrightarrow> only_calls (if b then m else n)"
  by simp

lemma only_calls_option [calls_rules]:
  "only_calls m \<Longrightarrow> (\<And>x. only_calls (k x)) \<Longrightarrow> only_calls (case v of None \<Rightarrow> m | Some x \<Rightarrow> k x)"
  by (cases v) simp_all

section \<open>The discipline\<close>

locale locked_operation =
  fixes ports :: "'c lock_ports" and body :: "('c run_log, 'a) io"
  assumes body_calls: "only_calls body"
begin

text \<open>The log of a whole operation: which locks were taken, and everything else in between.\<close>

lemma locked_log:
  "(\<exists>cs. fst (under_locks ports body l) = RELEASE_RUN_LOCK # RELEASE_REPOSITORY_LOCK # map CALL cs @
      ACQUIRE_REPOSITORY_LOCK # ACQUIRE_RUN_LOCK # l) \<or>
   (fst (under_locks ports body l) = RELEASE_RUN_LOCK # ACQUIRE_REPOSITORY_LOCK # ACQUIRE_RUN_LOCK # l \<and>
      (\<exists>e. snd (under_locks ports body l) = Inl e)) \<or>
   (fst (under_locks ports body l) = ACQUIRE_RUN_LOCK # l \<and> (\<exists>e. snd (under_locks ports body l) = Inl e))"
proof -
  let ?l = "ACQUIRE_REPOSITORY_LOCK # ACQUIRE_RUN_LOCK # l"
  from body_calls obtain cs where cs: "fst (body ?l) = map CALL cs @ ?l" by (auto simp: only_calls_def)
  obtain d r where b: "body ?l = (d, r)" by (cases "body ?l")
  show ?thesis
    using cs b
    by (auto simp: under_locks_def ioBind_def log_call_def ioFinally_def split: sum.splits prod.splits)
qed

text \<open>What holds of the body holds of the whole operation, in the state the body left.\<close>

lemma locked_result:
  assumes "under_locks ports body l = (d, Inr x)"
  shows "\<exists>c. d = RELEASE_RUN_LOCK # RELEASE_REPOSITORY_LOCK # c \<and> body (ACQUIRE_REPOSITORY_LOCK # ACQUIRE_RUN_LOCK # l) = (c, Inr x)"
  using assms by (auto simp: under_locks_def ioBind_def log_call_def ioFinally_def split: sum.splits prod.splits)

lemma locked_wp:
  assumes "wp body (\<lambda>x c. Q x (RELEASE_RUN_LOCK # RELEASE_REPOSITORY_LOCK # c)) (\<lambda>c. E (RELEASE_RUN_LOCK # RELEASE_REPOSITORY_LOCK # c))
      (ACQUIRE_REPOSITORY_LOCK # ACQUIRE_RUN_LOCK # l)"
    and "E (ACQUIRE_RUN_LOCK # l)" and "E (RELEASE_RUN_LOCK # ACQUIRE_REPOSITORY_LOCK # ACQUIRE_RUN_LOCK # l)"
  shows "wp (under_locks ports body) Q E l"
  using assms by (simp add: under_locks_def split: sum.split)

end

end
