(* ===== verification/Review_Evidence.thy ===== *)
theory Review_Evidence
  imports Contract_Schemas
begin

text \<open>
  runtime/review-attestation.ts and runtime/delegation-provenance.ts: the checks on the two pieces of
  signed evidence that finalization and publication rest on.

  Parameters: the canonical hash of an attestation and of a provenance body without their hashes,
  zod's \<open>datetime\<close> check, and the Ed25519 operations of node:crypto (reading a public key to its
  identifier, signing, verifying, base64).
\<close>

section \<open>Review attestations\<close>

record attestation_binding =
  ab_contract_hash :: string
  ab_base_sha :: string
  ab_tree_hash :: string
  ab_diff_hash :: string
  ab_validation_manifest_hash :: string
  ab_allowed_session_id :: string
  ab_prior_session_ids :: "string list"

definition attestation_mismatch :: "(review_attestation \<Rightarrow> string) \<Rightarrow> review_attestation \<Rightarrow> attestation_binding \<Rightarrow> bool" where
  "attestation_mismatch hash a b =
     (let ids = map rv_id (ra_findings a) in
      ra_attestation_hash a \<noteq> hash (a\<lparr>ra_attestation_hash := []\<rparr>) \<or>
      ra_contract_hash a \<noteq> ab_contract_hash b \<or> ra_base_sha a \<noteq> ab_base_sha b \<or>
      ra_reviewed_tree_hash a \<noteq> ab_tree_hash b \<or> ra_reviewed_diff_hash a \<noteq> ab_diff_hash b \<or>
      ra_validation_manifest_hash a \<noteq> ab_validation_manifest_hash b \<or>
      ra_reviewer_session_id a \<noteq> ab_allowed_session_id b \<or>
      ra_reviewer_session_id a \<in> set (ab_prior_session_ids b) \<or>
      \<not> distinct ids \<or> list_ex (\<lambda>k. k \<notin> set ids) (ra_unresolved_finding_ids a) \<or>
      (ra_decision a = REJECT \<and> ra_unresolved_finding_ids a = []) \<or>
      (ra_decision a = REQUEST_CONTEXT \<and> ra_requested_context_hashes a = []) \<or>
      (ra_decision a = ACCEPT \<and> (ra_unresolved_finding_ids a \<noteq> [] \<or> ra_requested_context_hashes a \<noteq> [])))"

definition verifyReviewAttestation ::
    "(review_attestation \<Rightarrow> string) \<Rightarrow> review_attestation \<Rightarrow> attestation_binding \<Rightarrow> review_attestation result" where
  "verifyReviewAttestation hash a b =
     throw_if (\<not> reviewAttestationV4Schema a)
       (Error REVIEW_ATTESTATION_INVALID ''attestation does not match the strict contract'')
     (throw_if (attestation_mismatch hash a b)
       (Error REVIEW_ATTESTATION_INVALID ''attestation is stale, forged, reused, or mismatched'') (Inr a))"

lemma verified_attestation:
  assumes "verifyReviewAttestation hash a b = Inr c"
  shows "c = a" and "ra_reviewed_tree_hash a = ab_tree_hash b" and "ra_reviewed_diff_hash a = ab_diff_hash b"
    and "ra_validation_manifest_hash a = ab_validation_manifest_hash b" and "ra_contract_hash a = ab_contract_hash b"
    and "ra_reviewer_session_id a = ab_allowed_session_id b" and "ra_reviewer_session_id a \<notin> set (ab_prior_session_ids b)"
    and "ra_attestation_hash a = hash (a\<lparr>ra_attestation_hash := []\<rparr>)"
    and "ra_decision a = ACCEPT \<Longrightarrow> ra_unresolved_finding_ids a = []"
  using assms by (auto simp: verifyReviewAttestation_def attestation_mismatch_def Let_def)

section \<open>Delegation provenance\<close>

datatype disposition = DELEGATED | FRONTIER_ONLY_EXEMPTION
datatype provenance_route = ROUTE_ECONOMY | ROUTE_ORCHESTRATED | ROUTE_FRONTIER_EXECUTION

record exemption =
  ex_reason_code :: string
  ex_authority_ref :: string
  ex_authority_evidence_hash :: string

record provenance_body =
  pv_run_id :: string
  pv_route :: provenance_route
  pv_disposition :: disposition
  pv_contract_hash :: string
  pv_policy_hash :: string
  pv_profile_hash :: string
  pv_worker_capability_hash :: "string option"
  pv_base_sha :: string
  pv_commit_sha :: string
  pv_git_tree_sha :: string
  pv_evidence_tree_hash :: string
  pv_diff_hash :: string
  pv_validation_manifest_hash :: string
  pv_review_attestation_hash :: string
  pv_accepted_story_receipt_hashes :: "string list"
  pv_frontier_decision_hashes :: "string list"
  pv_exemption :: "exemption option"
  pv_created_at :: string

record provenance = provenance_body +
  pv_provenance_hash :: string
  pv_signer_key_id :: string
  pv_signature :: string

record provenance_binding =
  pb_commit_sha :: string
  pb_git_tree_sha :: string
  pb_policy_hash :: string
  pb_profile_hash :: string

record provenance_env =
  pve_hash :: "provenance_body \<Rightarrow> string"
  pve_datetime_ok :: "string \<Rightarrow> bool"
  pve_key_id :: "string \<Rightarrow> string option"
  pve_verify :: "string \<Rightarrow> string \<Rightarrow> string \<Rightarrow> bool"
  pve_base64 :: "string \<Rightarrow> string"

definition upper_digit_underscore :: "char \<Rightarrow> bool" where
  "upper_digit_underscore c = (c \<in> set ''ABCDEFGHIJKLMNOPQRSTUVWXYZ0123456789_'')"

definition reason_code_ok :: "string \<Rightarrow> bool" where
  "reason_code_ok s = (case s of [] \<Rightarrow> False
     | c # cs \<Rightarrow> c \<in> set ''ABCDEFGHIJKLMNOPQRSTUVWXYZ'' \<and> bounded_length 2 63 cs \<and> list_all upper_digit_underscore cs)"

definition authority_char :: "char \<Rightarrow> bool" where
  "authority_char c = (alnum c \<or> c \<in> set ''._:/@+-'')"

definition authority_ref_ok :: "string \<Rightarrow> bool" where
  "authority_ref_ok s = lead_class alnum authority_char 255 s"

definition exemptionSchema :: "exemption \<Rightarrow> bool" where
  "exemptionSchema e = (reason_code_ok (ex_reason_code e) \<and> authority_ref_ok (ex_authority_ref e) \<and>
     is_hash (ex_authority_evidence_hash e))"

definition unique_hashes :: "string list \<Rightarrow> bool" where
  "unique_hashes hs = (list_between 0 64 is_hash hs \<and> distinct hs)"

definition disposition_ok :: "('a) provenance_body_scheme \<Rightarrow> bool" where
  "disposition_ok v = (case pv_disposition v of
      DELEGATED \<Rightarrow> pv_route v \<noteq> ROUTE_FRONTIER_EXECUTION \<and> pv_worker_capability_hash v \<noteq> None \<and>
        pv_accepted_story_receipt_hashes v \<noteq> [] \<and> pv_exemption v = None
    | FRONTIER_ONLY_EXEMPTION \<Rightarrow> pv_route v = ROUTE_FRONTIER_EXECUTION \<and> pv_exemption v \<noteq> None \<and>
        pv_accepted_story_receipt_hashes v = [])"

definition provenanceBodySchema :: "provenance_env \<Rightarrow> ('a) provenance_body_scheme \<Rightarrow> bool" where
  "provenanceBodySchema env v =
     (run_id_ok (pv_run_id v) \<and> is_hash (pv_contract_hash v) \<and> is_hash (pv_policy_hash v) \<and> is_hash (pv_profile_hash v) \<and>
      opt_all is_hash (pv_worker_capability_hash v) \<and> is_git_sha (pv_base_sha v) \<and> is_git_sha (pv_commit_sha v) \<and>
      is_git_sha (pv_git_tree_sha v) \<and> is_hash (pv_evidence_tree_hash v) \<and> is_hash (pv_diff_hash v) \<and>
      is_hash (pv_validation_manifest_hash v) \<and> is_hash (pv_review_attestation_hash v) \<and>
      unique_hashes (pv_accepted_story_receipt_hashes v) \<and> unique_hashes (pv_frontier_decision_hashes v) \<and>
      opt_all exemptionSchema (pv_exemption v) \<and> pve_datetime_ok env (pv_created_at v) \<and> disposition_ok v)"

text \<open>\<open>^[A-Za-z0-9+/]+={0,2}$\<close>.\<close>

definition base64_char :: "char \<Rightarrow> bool" where
  "base64_char c = (alnum c \<or> c = CHR ''+'' \<or> c = CHR ''/'')"

definition signature_ok :: "string \<Rightarrow> bool" where
  "signature_ok s = (let pad = length (takeWhile (\<lambda>c. c = CHR ''='') (rev s)) in
     pad \<le> 2 \<and> pad < length s \<and> list_all base64_char (take (length s - pad) s))"

definition evidenceSchema :: "provenance_env \<Rightarrow> provenance \<Rightarrow> bool" where
  "evidenceSchema env v = (provenanceBodySchema env v \<and> is_hash (pv_provenance_hash v) \<and> is_hash (pv_signer_key_id v) \<and>
     signature_ok (pv_signature v))"

abbreviation provenance_invalid :: "string \<Rightarrow> error" where
  "provenance_invalid m \<equiv> Error DELEGATION_PROVENANCE_INVALID m"

text \<open>The signer: the identifier of its public key and the signature of a hash, as bytes.\<close>

definition createDelegationProvenanceV4 ::
    "provenance_env \<Rightarrow> provenance_body \<Rightarrow> string \<Rightarrow> (string \<Rightarrow> string) \<Rightarrow> provenance result" where
  "createDelegationProvenanceV4 env body key_id sign =
     throw_if (\<not> provenanceBodySchema env body) (provenance_invalid ''evidence body is invalid'')
     (let h = pve_hash env body; signature = sign h in
      throw_if (length signature \<noteq> 64) (provenance_invalid ''host signer returned an invalid Ed25519 signature'')
      (Inr (provenance_body.extend body
        \<lparr>pv_provenance_hash = h, pv_signer_key_id = key_id, pv_signature = pve_base64 env signature\<rparr>)))"

definition verifyDelegationProvenanceV4 ::
    "provenance_env \<Rightarrow> provenance \<Rightarrow> provenance_binding \<Rightarrow> string \<Rightarrow> provenance result" where
  "verifyDelegationProvenanceV4 env v b key =
     throw_if (\<not> evidenceSchema env v) (provenance_invalid ''evidence schema is invalid'')
     (throw_if (pv_provenance_hash v \<noteq> pve_hash env (provenance_body.truncate v)) (provenance_invalid ''self-hash does not match'')
     (case pve_key_id env key of
        None \<Rightarrow> Inl (provenance_invalid ''trusted public key is invalid'')
      | Some key_id \<Rightarrow>
          throw_if (key_id \<noteq> pv_signer_key_id v) (provenance_invalid ''signer key identity does not match'')
          (throw_if (\<not> pve_verify env key (pv_provenance_hash v) (pv_signature v)) (provenance_invalid ''host signature does not match'')
          (throw_if (pv_commit_sha v \<noteq> pb_commit_sha b \<or> pv_git_tree_sha v \<noteq> pb_git_tree_sha b)
            (provenance_invalid ''commit or tree binding does not match'')
          (throw_if (pv_policy_hash v \<noteq> pb_policy_hash b \<or> pv_profile_hash v \<noteq> pb_profile_hash b)
            (provenance_invalid ''policy or profile binding does not match'') (Inr v))))))"

lemma created_provenance:
  assumes "createDelegationProvenanceV4 env body key_id sign = Inr v"
  shows "provenance_body.truncate v = body" and "provenanceBodySchema env v" and "pv_provenance_hash v = pve_hash env body"
    and "pv_signer_key_id v = key_id" and "pv_signature v = pve_base64 env (sign (pve_hash env body))"
proof -
  from assms have s: "provenanceBodySchema env body"
    and v: "v = provenance_body.extend body \<lparr>pv_provenance_hash = pve_hash env body, pv_signer_key_id = key_id,
        pv_signature = pve_base64 env (sign (pve_hash env body))\<rparr>"
    by (auto simp: createDelegationProvenanceV4_def Let_def)
  show t: "provenance_body.truncate v = body" by (simp add: v provenance_body.defs)
  show "pv_provenance_hash v = pve_hash env body" "pv_signer_key_id v = key_id"
    "pv_signature v = pve_base64 env (sign (pve_hash env body))" by (simp_all add: v provenance_body.defs)
  have "provenanceBodySchema env v = provenanceBodySchema env (provenance_body.truncate v)"
    by (simp add: provenanceBodySchema_def disposition_ok_def provenance_body.defs split: disposition.split)
  with s t show "provenanceBodySchema env v" by simp
qed

lemma verified_provenance:
  assumes "verifyDelegationProvenanceV4 env v b key = Inr w"
  shows "w = v" and "pve_key_id env key = Some (pv_signer_key_id v)" and "pve_verify env key (pv_provenance_hash v) (pv_signature v)"
    and "pv_provenance_hash v = pve_hash env (provenance_body.truncate v)" and "pv_commit_sha v = pb_commit_sha b"
    and "pv_git_tree_sha v = pb_git_tree_sha b" and "pv_policy_hash v = pb_policy_hash b" and "pv_profile_hash v = pb_profile_hash b"
    and "disposition_ok v"
  using assms by (auto simp: verifyDelegationProvenanceV4_def evidenceSchema_def provenanceBodySchema_def split: option.splits)

end
