(* ===== verification/Finalization.thy ===== *)
theory Finalization
  imports Run_Locks Review_Evidence Run_State
begin

text \<open>
  runtime/finalize.ts, \<open>finalizeRun\<close>: the checks on the accepted evidence, the second look at the diff
  and the snapshot under the locks, and the commit, whose reference is moved by compare and swap before
  the COMMIT_CREATED event is appended.

  Parameters (\<open>finalize_env\<close>): the canonical hashes, SHA-256 of the bytes of a file, the case folding of
  \<open>toLocaleLowerCase('en-US')\<close>, and the ports, which answer as functions of the log of all calls.
\<close>

section \<open>Data\<close>

record diff_change =
  dc_path :: string
  dc_operation :: change_operation
  dc_content_hash :: "string option"

record diff_result =
  dr_changes :: "diff_change list"
  dr_changed_files :: int
  dr_changed_lines :: int
  dr_diff_hash :: string
  dr_tree_hash :: string

record artifact_reference =
  af_kind :: string
  af_content_hash :: string
  af_byte_length :: int
  af_storage_key :: string

record validation_evidence_body =
  ve_validation_id :: string
  ve_passed :: bool
  ve_failure_code :: "string option"
  ve_policy_hash :: string
  ve_sandbox_policy_hash :: string
  ve_sandbox_backend_id :: string
  ve_sandbox_certification_hash :: string
  ve_exit_code :: "int option"
  ve_duration_ms :: int
  ve_stdout_preview :: string
  ve_stderr_preview :: string
  ve_stdout_artifact :: artifact_reference
  ve_stderr_artifact :: artifact_reference
  ve_validated_tree_hash :: string

record validation_evidence = validation_evidence_body +
  ve_result_hash :: string

record manifest_entry =
  mn_validation_id :: string
  mn_passed :: bool
  mn_result_hash :: string
  mn_validated_tree_hash :: string

record validation_manifest =
  vm_results :: "validation_evidence list"
  vm_manifest_hash :: string

record tree_entry =
  te_path :: string
  te_mode :: string
  te_bytes :: string

record commit_object =
  co_tree_sha :: string
  co_base_sha :: string
  co_message :: string
  co_author_name :: string
  co_author_email :: string
  co_authored_at :: string

record finalize_input =
  fi_contract :: work_contract
  fi_expected_policy_hash :: string
  fi_expected_profile_hash :: string
  fi_accepted_diff :: diff_result
  fi_validation_manifest :: validation_manifest
  fi_review_attestation :: review_attestation
  fi_reviewer_session_id :: string
  fi_prior_session_ids :: "string list"
  fi_task_ref :: string
  fi_expected_old_sha :: string
  fi_commit_message :: string
  fi_author_name :: string
  fi_author_email :: string
  fi_author_timestamp :: string

record finalized_run =
  fr_run_id :: string
  fr_task_ref :: string
  fr_commit_sha :: string
  fr_git_tree_sha :: string
  fr_evidence_tree_hash :: string
  fr_diff_hash :: string
  fr_review_attestation_hash :: string

datatype finalize_call =
    REINSPECT_DIFF
  | SNAPSHOT_ACCEPTED_TREE
  | WRITE_ACCEPTED_TREE "tree_entry list"
  | CREATE_COMMIT commit_object
  | READ_TASK_REF string
  | UPDATE_TASK_REF string string string
  | APPEND_COMMIT broker_command

type_synonym finalize_log = "finalize_call run_log"

record finalize_env =
  fe_contract_hash :: "work_contract \<Rightarrow> string"
  fe_diff_hash :: "diff_result \<Rightarrow> string"
  fe_manifest_hash :: "manifest_entry list \<Rightarrow> string"
  fe_validation_hash :: "validation_evidence_body \<Rightarrow> string"
  fe_attestation_hash :: "review_attestation \<Rightarrow> string"
  fe_sha256 :: "string \<Rightarrow> string"
  fe_fold :: "string \<Rightarrow> string"
  fe_locks :: "finalize_call lock_ports"
  fe_reinspect_diff :: "finalize_log \<Rightarrow> diff_result result"
  fe_snapshot_accepted_tree :: "finalize_log \<Rightarrow> tree_entry list result"
  fe_write_accepted_tree :: "finalize_log \<Rightarrow> string result"
  fe_create_commit :: "finalize_log \<Rightarrow> string result"
  fe_read_task_ref :: "finalize_log \<Rightarrow> string option result"
  fe_update_task_ref :: "finalize_log \<Rightarrow> unit result"
  fe_append_commit :: "finalize_log \<Rightarrow> unit result"

abbreviation evidence_failure :: "string \<Rightarrow> error" where
  "evidence_failure m \<equiv> Error EVIDENCE_HASH_MISMATCH m"

abbreviation finalization_failure :: "string \<Rightarrow> error" where
  "finalization_failure m \<equiv> Error FINALIZATION_FAILED m"

section \<open>Checks\<close>

definition task_ref_of :: "string \<Rightarrow> string" where
  "task_ref_of run = ''refs/heads/codex/auto/'' @ run"

definition verifyContract :: "finalize_env \<Rightarrow> finalize_input \<Rightarrow> unit result" where
  "verifyContract env i =
     (let c = fi_contract i in
      throw_if (wc_contract_hash c \<noteq> fe_contract_hash env (c\<lparr>wc_contract_hash := []\<rparr>))
        (evidence_failure ''work contract self-hash is invalid'')
      (throw_if (wc_policy_hash c \<noteq> fi_expected_policy_hash i \<or> wc_profile_hash c \<noteq> fi_expected_profile_hash i)
        (evidence_failure ''policy or profile hash is stale'')
      (throw_if (wc_base_sha c \<noteq> fi_expected_old_sha i \<or> \<not> is_git_sha (fi_expected_old_sha i))
        (evidence_failure ''finalization base does not match the contract'')
      (throw_if (fi_task_ref i \<noteq> task_ref_of (wc_run_id c))
        (evidence_failure ''task ref is not bound to this run'') (Inr ())))))"

definition manifest_entry_of :: "validation_evidence \<Rightarrow> manifest_entry" where
  "manifest_entry_of v = \<lparr>mn_validation_id = ve_validation_id v, mn_passed = ve_passed v, mn_result_hash = ve_result_hash v,
     mn_validated_tree_hash = ve_validated_tree_hash v\<rparr>"

definition result_unusable :: "finalize_env \<Rightarrow> finalize_input \<Rightarrow> validation_evidence \<Rightarrow> bool" where
  "result_unusable env i v =
     (ve_result_hash v \<noteq> fe_validation_hash env (validation_evidence_body.truncate v) \<or> \<not> ve_passed v \<or>
      ve_validated_tree_hash v \<noteq> dr_tree_hash (fi_accepted_diff i) \<or> ve_policy_hash v \<noteq> fi_expected_policy_hash i)"

definition verifyValidation :: "finalize_env \<Rightarrow> finalize_input \<Rightarrow> unit result" where
  "verifyValidation env i =
     (let m = fi_validation_manifest i in
      throw_if (vm_manifest_hash m \<noteq> fe_manifest_hash env (map manifest_entry_of (vm_results m)))
        (evidence_failure ''validation manifest hash is invalid'')
      (throw_if (vm_results m = []) (evidence_failure ''validation manifest is empty'')
      (throw_if (list_ex (result_unusable env i) (vm_results m))
        (evidence_failure ''validation is failed, forged, or stale'') (Inr ()))))"

definition find_entry :: "(string \<Rightarrow> string) \<Rightarrow> tree_entry list \<Rightarrow> string \<Rightarrow> tree_entry option" where
  "find_entry lower entries path = find (\<lambda>e. lower (te_path e) = lower path) entries"

definition verify_change :: "finalize_env \<Rightarrow> tree_entry list \<Rightarrow> diff_change \<Rightarrow> unit result" where
  "verify_change env entries c =
     (let entry = find_entry (fe_fold env) entries (dc_path c) in
      if dc_operation c = DELETE
      then throw_if (entry \<noteq> None) (evidence_failure ''deleted path remains in accepted snapshot'') (Inr ())
      else case (entry, dc_content_hash c) of
          (Some e, Some h) \<Rightarrow>
            throw_if (te_path e \<noteq> dc_path c) (evidence_failure ''changed path is absent from accepted snapshot'')
            (throw_if (fe_sha256 env (te_bytes e) \<noteq> h) (evidence_failure ''accepted bytes changed after review'') (Inr ()))
        | _ \<Rightarrow> Inl (evidence_failure ''changed path is absent from accepted snapshot''))"

definition verifySnapshot :: "finalize_env \<Rightarrow> tree_entry list \<Rightarrow> diff_result \<Rightarrow> unit result" where
  "verifySnapshot env entries diff =
     throw_if (\<not> distinct (map (\<lambda>e. fe_fold env (te_path e)) entries))
       (evidence_failure ''accepted snapshot has ambiguous path'')
     (foldR (\<lambda>_. verify_change env entries) () (dr_changes diff))"

definition exactCanonical :: "('a \<Rightarrow> string) \<Rightarrow> 'a \<Rightarrow> 'a \<Rightarrow> string \<Rightarrow> unit result" where
  "exactCanonical hash left right label =
     throw_if (hash left \<noteq> hash right) (evidence_failure (label @ '' changed after acceptance'')) (Inr ())"

definition attestation_binding_of :: "finalize_input \<Rightarrow> attestation_binding" where
  "attestation_binding_of i =
     \<lparr>ab_contract_hash = wc_contract_hash (fi_contract i), ab_base_sha = wc_base_sha (fi_contract i),
      ab_tree_hash = dr_tree_hash (fi_accepted_diff i), ab_diff_hash = dr_diff_hash (fi_accepted_diff i),
      ab_validation_manifest_hash = vm_manifest_hash (fi_validation_manifest i),
      ab_allowed_session_id = fi_reviewer_session_id i, ab_prior_session_ids = fi_prior_session_ids i\<rparr>"

definition verifyEvidence :: "finalize_env \<Rightarrow> finalize_input \<Rightarrow> review_attestation result" where
  "verifyEvidence env i =
     bindR (verifyContract env i) (\<lambda>_.
     throw_if (\<not> is_hash (dr_tree_hash (fi_accepted_diff i)) \<or> \<not> is_hash (dr_diff_hash (fi_accepted_diff i)))
       (evidence_failure ''accepted diff identity is invalid'')
     (bindR (verifyValidation env i) (\<lambda>_.
      bindR (verifyReviewAttestation (fe_attestation_hash env) (fi_review_attestation i) (attestation_binding_of i)) (\<lambda>a.
      throw_if (ra_decision a \<noteq> ACCEPT \<or> ra_run_id a \<noteq> wc_run_id (fi_contract i))
        (evidence_failure ''review did not accept this run'') (Inr a)))))"

section \<open>Under the locks\<close>

definition confirm_diff :: "finalize_env \<Rightarrow> finalize_input \<Rightarrow> string \<Rightarrow> (finalize_log, unit) io" where
  "confirm_diff env i label =
     ioBind (log_call (CALL REINSPECT_DIFF) (fe_reinspect_diff env)) (\<lambda>d.
     ioLift (exactCanonical (fe_diff_hash env) d (fi_accepted_diff i) label))"

definition accepted_entries :: "finalize_env \<Rightarrow> finalize_input \<Rightarrow> (finalize_log, tree_entry list) io" where
  "accepted_entries env i =
     ioBind (confirm_diff env i ''diff evidence'') (\<lambda>_.
     ioBind (log_call (CALL SNAPSHOT_ACCEPTED_TREE) (fe_snapshot_accepted_tree env)) (\<lambda>entries.
     ioBind (ioLift (verifySnapshot env entries (fi_accepted_diff i))) (\<lambda>_.
     ioBind (confirm_diff env i ''tree snapshot'') (\<lambda>_. ioRet entries))))"

definition commit_of :: "finalize_input \<Rightarrow> string \<Rightarrow> commit_object" where
  "commit_of i tree = \<lparr>co_tree_sha = tree, co_base_sha = wc_base_sha (fi_contract i), co_message = fi_commit_message i,
     co_author_name = fi_author_name i, co_author_email = fi_author_email i, co_authored_at = fi_author_timestamp i\<rparr>"

definition move_ref :: "finalize_env \<Rightarrow> finalize_input \<Rightarrow> string \<Rightarrow> (finalize_log, unit) io" where
  "move_ref env i commit =
     ioBind (log_call (CALL (READ_TASK_REF (fi_task_ref i))) (fe_read_task_ref env)) (\<lambda>current.
     ioBind (if current = Some commit then ioRet ()
       else if current \<noteq> Some (fi_expected_old_sha i) then ioLift (Inl (finalization_failure ''task ref changed concurrently''))
       else log_call (CALL (UPDATE_TASK_REF (fi_task_ref i) commit (fi_expected_old_sha i))) (fe_update_task_ref env)) (\<lambda>_.
     ioBind (log_call (CALL (READ_TASK_REF (fi_task_ref i))) (fe_read_task_ref env)) (\<lambda>verified.
     ioLift (throw_if (verified \<noteq> Some commit)
       (finalization_failure ''task ref does not resolve to intended commit'') (Inr ())))))"

definition commit_created_of :: "finalize_input \<Rightarrow> review_attestation \<Rightarrow> string \<Rightarrow> string \<Rightarrow> commit_created" where
  "commit_created_of i a tree commit =
     \<lparr>cm_task_ref = fi_task_ref i, cm_base_sha = wc_base_sha (fi_contract i), cm_git_tree_sha = tree,
      cm_evidence_tree_hash = dr_tree_hash (fi_accepted_diff i), cm_commit_sha = commit,
      cm_contract_hash = wc_contract_hash (fi_contract i), cm_diff_hash = dr_diff_hash (fi_accepted_diff i),
      cm_validation_manifest_hash = vm_manifest_hash (fi_validation_manifest i),
      cm_review_attestation_hash = ra_attestation_hash a\<rparr>"

definition commit_command :: "finalize_input \<Rightarrow> review_attestation \<Rightarrow> string \<Rightarrow> string \<Rightarrow> broker_command" where
  "commit_command i a tree commit =
     (let run = wc_run_id (fi_contract i) in
      RUN_EVENT (''commit-created:'' @ run) run (COMMIT_CREATED (commit_created_of i a tree commit)))"

definition finalized_of :: "finalize_input \<Rightarrow> review_attestation \<Rightarrow> string \<Rightarrow> string \<Rightarrow> finalized_run" where
  "finalized_of i a tree commit =
     \<lparr>fr_run_id = wc_run_id (fi_contract i), fr_task_ref = fi_task_ref i, fr_commit_sha = commit, fr_git_tree_sha = tree,
      fr_evidence_tree_hash = dr_tree_hash (fi_accepted_diff i), fr_diff_hash = dr_diff_hash (fi_accepted_diff i),
      fr_review_attestation_hash = ra_attestation_hash a\<rparr>"

definition finalize_body :: "finalize_env \<Rightarrow> finalize_input \<Rightarrow> review_attestation \<Rightarrow> (finalize_log, finalized_run) io" where
  "finalize_body env i a =
     ioBind (accepted_entries env i) (\<lambda>entries.
     ioBind (log_call (CALL (WRITE_ACCEPTED_TREE entries)) (fe_write_accepted_tree env)) (\<lambda>tree.
     ioBind (log_call (CALL (CREATE_COMMIT (commit_of i tree))) (fe_create_commit env)) (\<lambda>commit.
     ioBind (move_ref env i commit) (\<lambda>_.
     ioBind (log_call (CALL (APPEND_COMMIT (commit_command i a tree commit))) (fe_append_commit env)) (\<lambda>_.
     ioRet (finalized_of i a tree commit))))))"

definition finalizeRun :: "finalize_env \<Rightarrow> finalize_input \<Rightarrow> (finalize_log, finalized_run) io" where
  "finalizeRun env i =
     ioBind (ioLift (verifyEvidence env i)) (\<lambda>a. under_locks (fe_locks env) (finalize_body env i a))"

section \<open>Locks\<close>

lemma finalize_only_calls: "only_calls (finalize_body env i a)"
  unfolding finalize_body_def accepted_entries_def confirm_diff_def move_ref_def
  by (intro calls_rules)

interpretation finalization: locked_operation "fe_locks env" "finalize_body env i a" for env i a
  by unfold_locales (rule finalize_only_calls)

section \<open>What the checks establish\<close>

lemma verified_contract:
  assumes "verifyContract env i = Inr u"
  shows "wc_contract_hash (fi_contract i) = fe_contract_hash env ((fi_contract i)\<lparr>wc_contract_hash := []\<rparr>)"
    and "wc_base_sha (fi_contract i) = fi_expected_old_sha i" and "is_git_sha (fi_expected_old_sha i)"
    and "fi_task_ref i = task_ref_of (wc_run_id (fi_contract i))"
    and "wc_policy_hash (fi_contract i) = fi_expected_policy_hash i"
  using assms by (auto simp: verifyContract_def Let_def)

lemma verified_validation:
  assumes "verifyValidation env i = Inr u"
  shows "vm_results (fi_validation_manifest i) \<noteq> []"
    and "v \<in> set (vm_results (fi_validation_manifest i)) \<Longrightarrow> ve_passed v \<and> ve_policy_hash v = fi_expected_policy_hash i \<and>
      ve_validated_tree_hash v = dr_tree_hash (fi_accepted_diff i)"
  using assms by (auto simp: verifyValidation_def Let_def result_unusable_def list_ex_iff)

lemma verified_evidence:
  assumes "verifyEvidence env i = Inr a"
  shows "verifyContract env i = Inr ()" and "verifyValidation env i = Inr ()"
    and "verifyReviewAttestation (fe_attestation_hash env) (fi_review_attestation i) (attestation_binding_of i) = Inr a"
    and "ra_decision a = ACCEPT" and "ra_run_id a = wc_run_id (fi_contract i)" and "is_hash (dr_diff_hash (fi_accepted_diff i))"
  using assms by (auto simp: verifyEvidence_def)

text \<open>A snapshot that passes has the reviewed bytes of every changed file and no deleted file.\<close>

definition snapshot_agrees :: "finalize_env \<Rightarrow> tree_entry list \<Rightarrow> diff_result \<Rightarrow> bool" where
  "snapshot_agrees env entries diff = (\<forall>c\<in>set (dr_changes diff).
     if dc_operation c = DELETE then \<forall>e\<in>set entries. te_path e \<noteq> dc_path c
     else \<exists>e\<in>set entries. te_path e = dc_path c \<and> dc_content_hash c = Some (fe_sha256 env (te_bytes e)))"

lemma verified_change:
  assumes "verify_change env entries c = Inr u"
  shows "if dc_operation c = DELETE then \<forall>e\<in>set entries. te_path e \<noteq> dc_path c
     else \<exists>e\<in>set entries. te_path e = dc_path c \<and> dc_content_hash c = Some (fe_sha256 env (te_bytes e))"
  using assms
  by (auto simp: verify_change_def find_entry_def Let_def find_None_iff find_Some_iff
      split: if_splits option.splits dest: nth_mem)

lemma verified_snapshot: "verifySnapshot env entries diff = Inr u \<Longrightarrow> snapshot_agrees env entries diff"
proof -
  have "\<forall>c\<in>set cs. verify_change env entries c = Inr ()" if "foldR (\<lambda>_. verify_change env entries) () cs = Inr v" for cs v
    using that by (induction cs) (auto simp: bindR_eq_Inr)
  then show "verifySnapshot env entries diff = Inr u \<Longrightarrow> snapshot_agrees env entries diff"
    by (fastforce simp: verifySnapshot_def snapshot_agrees_def dest: verified_change)
qed

section \<open>The commit event\<close>

text \<open>The log up to the moved reference, for the entries, the tree and the commit the ports gave.\<close>

definition commit_prefix :: "finalize_input \<Rightarrow> tree_entry list \<Rightarrow> string \<Rightarrow> finalize_log" where
  "commit_prefix i entries tree =
     [CALL (CREATE_COMMIT (commit_of i tree)), CALL (WRITE_ACCEPTED_TREE entries), CALL REINSPECT_DIFF,
      CALL SNAPSHOT_ACCEPTED_TREE, CALL REINSPECT_DIFF, ACQUIRE_REPOSITORY_LOCK, ACQUIRE_RUN_LOCK]"

definition ref_moves :: "finalize_input \<Rightarrow> string \<Rightarrow> finalize_log \<Rightarrow> bool" where
  "ref_moves i commit l = (let r = CALL (READ_TASK_REF (fi_task_ref i)) in
     l = [r, r] \<or> l = [r, CALL (UPDATE_TASK_REF (fi_task_ref i) commit (fi_expected_old_sha i)), r])"

text \<open>
  The answers of the ports on the way to the commit: the diff is looked at twice, before and after the snapshot, and
  has both times the canonical hash of the accepted one; the entries are the snapshot's, the tree is the one
  written from them and the commit the one created of this tree. A port's answer is read at the log that ends with
  its call.
\<close>

definition same_diff :: "finalize_env \<Rightarrow> finalize_input \<Rightarrow> finalize_log \<Rightarrow> bool" where
  "same_diff env i l = (case fe_reinspect_diff env l of Inl e \<Rightarrow> False | Inr d \<Rightarrow> fe_diff_hash env d = fe_diff_hash env (fi_accepted_diff i))"

definition commit_answers :: "finalize_env \<Rightarrow> finalize_input \<Rightarrow> tree_entry list \<Rightarrow> string \<Rightarrow> string \<Rightarrow> bool" where
  "commit_answers env i entries tree commit =
     (let l = commit_prefix i entries tree in
      same_diff env i (drop 4 l) \<and> fe_snapshot_accepted_tree env (drop 3 l) = Inr entries \<and> same_diff env i (drop 2 l) \<and>
      fe_write_accepted_tree env (drop 1 l) = Inr tree \<and> fe_create_commit env l = Inr commit)"

definition committed :: "finalize_env \<Rightarrow> finalize_input \<Rightarrow> tree_entry list \<Rightarrow> string \<Rightarrow> string \<Rightarrow> finalize_log \<Rightarrow> bool" where
  "committed env i entries tree commit l =
     (\<exists>moves. ref_moves i commit moves \<and> l = moves @ commit_prefix i entries tree \<and> commit_answers env i entries tree commit \<and>
        fe_read_task_ref env l = Inr (Some commit) \<and> snapshot_agrees env entries (fi_accepted_diff i))"

definition commit_evidence :: "finalize_env \<Rightarrow> finalize_input \<Rightarrow> review_attestation \<Rightarrow> finalize_log \<Rightarrow> bool" where
  "commit_evidence env i a l = (\<forall>c. CALL (APPEND_COMMIT c) \<in> set l \<longrightarrow>
     (\<exists>after before entries tree commit. l = after @ CALL (APPEND_COMMIT c) # before \<and> CALL (APPEND_COMMIT c) \<notin> set after \<and>
        c = commit_command i a tree commit \<and> committed env i entries tree commit before))"

lemma no_commit_yet: "(\<And>c. CALL (APPEND_COMMIT c) \<notin> set l) \<Longrightarrow> commit_evidence env i a l"
  by (simp add: commit_evidence_def)

lemma commit_now:
  "committed env i entries tree commit l \<Longrightarrow> set after \<subseteq> {RELEASE_RUN_LOCK, RELEASE_REPOSITORY_LOCK} \<Longrightarrow>
   commit_evidence env i a (after @ CALL (APPEND_COMMIT (commit_command i a tree commit)) # l)"
  unfolding commit_evidence_def committed_def ref_moves_def commit_prefix_def Let_def
  by fastforce

lemma body_commits:
  "wp (finalize_body env i a)
     (\<lambda>x l. \<exists>entries tree commit before. l = CALL (APPEND_COMMIT (commit_command i a tree commit)) # before \<and>
        committed env i entries tree commit before \<and> x = finalized_of i a tree commit)
     (\<lambda>l. (\<forall>c. CALL (APPEND_COMMIT c) \<notin> set l) \<or>
        (\<exists>entries tree commit before. l = CALL (APPEND_COMMIT (commit_command i a tree commit)) # before \<and>
          committed env i entries tree commit before))
     [ACQUIRE_REPOSITORY_LOCK, ACQUIRE_RUN_LOCK]"
  by (auto simp: finalize_body_def accepted_entries_def confirm_diff_def move_ref_def committed_def ref_moves_def
      commit_prefix_def commit_answers_def same_diff_def exactCanonical_def throw_if_def Let_def numeral_eq_Suc
      dest: verified_snapshot split: sum.splits if_splits)

lemma finalize_commits:
  "wp (finalizeRun env i)
     (\<lambda>x l. \<exists>a entries tree commit before. verifyEvidence env i = Inr a \<and>
        l = [RELEASE_RUN_LOCK, RELEASE_REPOSITORY_LOCK] @ CALL (APPEND_COMMIT (commit_command i a tree commit)) # before \<and>
        committed env i entries tree commit before \<and> x = finalized_of i a tree commit)
     (\<lambda>l. (\<forall>c. CALL (APPEND_COMMIT c) \<notin> set l) \<or> (\<exists>a. verifyEvidence env i = Inr a \<and> commit_evidence env i a l)) []"
proof (cases "verifyEvidence env i")
  case (Inr a)
  have released: "commit_evidence env i a (RELEASE_RUN_LOCK # RELEASE_REPOSITORY_LOCK #
      CALL (APPEND_COMMIT (commit_command i a tree commit)) # before)"
    if "committed env i entries tree commit before" for entries tree commit before
    using commit_now [OF that, of "[RELEASE_RUN_LOCK, RELEASE_REPOSITORY_LOCK]" a] by simp
  show ?thesis
    unfolding finalizeRun_def wp_bind Inr wp_lift sum.case
    by (rule finalization.locked_wp, rule wp_mono [OF body_commits]) (auto intro: released)
qed (simp add: finalizeRun_def)

text \<open>
  C11. A COMMIT_CREATED event is appended only for an accepted run: when one is in the log of a run of
  \<open>finalizeRun\<close>, the work contract carries its own hash, there are validations and all of them passed on the accepted
  tree, the attestation is bound to the run and accepts it with no unresolved finding, and what precedes the
  event is exactly both locks, a look at the diff before and after the snapshot that each time found the accepted
  diff (by its canonical hash), a tree written from the entries of that snapshot, which are the reviewed bytes of every
  changed file, a commit created of this tree on the contract's base, and a task reference that moved and, read
  again, is the commit of the event.
\<close>

theorem commit_rests_on_accepted_evidence:
  assumes "CALL (APPEND_COMMIT c) \<in> set (fst (finalizeRun env i []))"
  shows "\<exists>a after before entries tree commit.
     fst (finalizeRun env i []) = after @ CALL (APPEND_COMMIT c) # before \<and> CALL (APPEND_COMMIT c) \<notin> set after \<and>
     c = commit_command i a tree commit \<and> committed env i entries tree commit before \<and>
     ra_decision a = ACCEPT \<and> ra_run_id a = wc_run_id (fi_contract i) \<and> ra_unresolved_finding_ids a = [] \<and>
     ra_reviewed_diff_hash a = dr_diff_hash (fi_accepted_diff i) \<and> ra_reviewed_tree_hash a = dr_tree_hash (fi_accepted_diff i) \<and>
     ra_reviewer_session_id a \<notin> set (fi_prior_session_ids i) \<and>
     vm_results (fi_validation_manifest i) \<noteq> [] \<and>
     (\<forall>v\<in>set (vm_results (fi_validation_manifest i)). ve_passed v \<and> ve_validated_tree_hash v = dr_tree_hash (fi_accepted_diff i)) \<and>
     wc_contract_hash (fi_contract i) = fe_contract_hash env ((fi_contract i)\<lparr>wc_contract_hash := []\<rparr>)"
proof -
  obtain l r where run: "finalizeRun env i [] = (l, r)" by (cases "finalizeRun env i []")
  have "\<exists>a. verifyEvidence env i = Inr a \<and> commit_evidence env i a l"
  proof (cases r)
    case (Inl e)
    with wp_error [OF finalize_commits, of env i l e] run assms show ?thesis by auto
  next
    case (Inr x)
    with wp_result [OF finalize_commits, of env i l x] run
    obtain a entries tree commit before where a: "verifyEvidence env i = Inr a"
      and l: "l = [RELEASE_RUN_LOCK, RELEASE_REPOSITORY_LOCK] @ CALL (APPEND_COMMIT (commit_command i a tree commit)) # before"
      and k: "committed env i entries tree commit before" by blast
    from commit_now [OF k, of "[RELEASE_RUN_LOCK, RELEASE_REPOSITORY_LOCK]" a] a l show ?thesis by auto
  qed
  then obtain a where a: "verifyEvidence env i = Inr a" and e: "commit_evidence env i a l" by blast
  note review = verified_evidence(3) [OF a]
  from e assms run obtain after before entries tree commit where
    "l = after @ CALL (APPEND_COMMIT c) # before" "CALL (APPEND_COMMIT c) \<notin> set after"
    "c = commit_command i a tree commit" "committed env i entries tree commit before"
    by (auto simp: commit_evidence_def)
  moreover from verified_attestation [OF review] verified_evidence(4,5) [OF a]
  have "ra_decision a = ACCEPT \<and> ra_run_id a = wc_run_id (fi_contract i) \<and> ra_unresolved_finding_ids a = [] \<and>
     ra_reviewed_diff_hash a = dr_diff_hash (fi_accepted_diff i) \<and> ra_reviewed_tree_hash a = dr_tree_hash (fi_accepted_diff i) \<and>
     ra_reviewer_session_id a \<notin> set (fi_prior_session_ids i)"
    by (simp add: attestation_binding_of_def)
  moreover note verified_validation [OF verified_evidence(2) [OF a]] verified_contract(1) [OF verified_evidence(1) [OF a]]
  ultimately show ?thesis by (simp add: run) blast
qed

section \<open>Finalization and the broker's state\<close>

text \<open>The run that the broker has accepted for review: what finalization is started from.\<close>

definition accepted_run :: "run_state \<Rightarrow> finalize_input \<Rightarrow> bool" where
  "accepted_run r i = (rr_state (rs_result r) = S_REVIEW_ACCEPTED \<and> \<not> rs_inspection_required r \<and> rs_external_process r = None \<and>
     rs_contract r = fi_contract i \<and> rr_branch (rs_result r) = ''codex/auto/'' @ wc_run_id (fi_contract i) \<and>
     rr_diff_hash (rs_result r) = dr_diff_hash (fi_accepted_diff i) \<and>
     rr_tree_hash (rs_result r) = dr_tree_hash (fi_accepted_diff i) \<and>
     rr_review_attestation_hash (rs_result r) = Some (ra_attestation_hash (fi_review_attestation i)))"

lemma accepted_commit:
  assumes "accepted_run r i" and a: "verifyEvidence env i = Inr a"
  shows "\<exists>r'. run_step r (COMMIT_CREATED (commit_created_of i a tree commit)) = Inr r' \<and> rs_contract r' = rs_contract r \<and>
     rr_state (rs_result r') = S_READY_FOR_PUBLICATION \<and> rr_commit_sha (rs_result r') = Some commit \<and>
     rr_branch (rs_result r') = rr_branch (rs_result r)"
  using assms(1) verified_attestation(1) [OF verified_evidence(3) [OF a]] verified_contract(4) [OF verified_evidence(1) [OF a]]
  by (simp add: accepted_run_def run_step_def terminal_state_def commit_step_def commit_created_of_def task_ref_of_def)

text \<open>
  Finalization refines the broker's state machine: when \<open>finalizeRun\<close> returns, the last event it appended is
  a COMMIT_CREATED of the run, the reducer accepts it for the run that was accepted in review, and the run is then
  ready for publication with the commit that \<open>finalizeRun\<close> returned.
\<close>

theorem finalized_run_is_ready_for_publication:
  assumes "snd (finalizeRun env i []) = Inr x" and "accepted_run r i"
  shows "\<exists>m before r'. fst (finalizeRun env i []) = [RELEASE_RUN_LOCK, RELEASE_REPOSITORY_LOCK,
       CALL (APPEND_COMMIT (RUN_EVENT (''commit-created:'' @ wc_run_id (fi_contract i)) (wc_run_id (fi_contract i)) (COMMIT_CREATED m)))] @ before \<and>
     run_step r (COMMIT_CREATED m) = Inr r' \<and> rr_state (rs_result r') = S_READY_FOR_PUBLICATION \<and>
     rr_commit_sha (rs_result r') = Some (fr_commit_sha x) \<and> fr_task_ref x = ''refs/heads/'' @ rr_branch (rs_result r')"
proof -
  obtain l where "finalizeRun env i [] = (l, Inr x)" using assms(1) by (cases "finalizeRun env i []") simp
  with wp_result [OF finalize_commits this]
  obtain a entries tree commit before where a: "verifyEvidence env i = Inr a"
    and l: "fst (finalizeRun env i []) = [RELEASE_RUN_LOCK, RELEASE_REPOSITORY_LOCK,
        CALL (APPEND_COMMIT (commit_command i a tree commit))] @ before"
    and x: "x = finalized_of i a tree commit" by auto
  from accepted_commit [OF assms(2) a, of tree commit] obtain r' where r: "run_step r (COMMIT_CREATED (commit_created_of i a tree commit)) = Inr r'"
    "rr_state (rs_result r') = S_READY_FOR_PUBLICATION" "rr_commit_sha (rs_result r') = Some commit"
    "rr_branch (rs_result r') = rr_branch (rs_result r)" by blast
  have "fr_task_ref x = ''refs/heads/'' @ rr_branch (rs_result r')"
    using assms(2) r(4) x verified_contract(4) [OF verified_evidence(1) [OF a]]
    by (simp add: accepted_run_def finalized_of_def task_ref_of_def)
  with l r x show ?thesis by (auto simp: commit_command_def Let_def finalized_of_def)
qed

end
