(* ===== verification/Publication.thy ===== *)
theory Publication
  imports Finalization
begin

text \<open>
  runtime/publication.ts: the check of a finalized run against policy, contract and signed provenance,
  the publication of its commit (push, pull request, required checks, merge) with one event after each
  step, and the event of a run that is not published.

  Parameters (\<open>publication_env\<close>): the canonical hashes, the case folding of \<open>toLocaleLowerCase('en-US')\<close>,
  the checks of signed provenance, and the adapter, whose answers are functions of the log of all calls.
\<close>

section \<open>Data\<close>

datatype pull_request_state = OPEN_PR | MERGED_PR

record pull_request =
  pq_number :: int
  pq_url :: string
  pq_state :: pull_request_state
  pq_head_sha :: string
  pq_head_branch :: string
  pq_base_branch :: string
  pq_merge_commit_sha :: "string option"

datatype publication_call =
    PUSH_EXACT string string string
  | FIND_PULL_REQUEST string string
  | CREATE_PULL_REQUEST string string string string
  | WAIT_FOR_REQUIRED_CHECKS int int
  | MERGE_PULL_REQUEST int string merge_method int
  | APPEND_PUBLICATION broker_command

type_synonym publication_log = "publication_call run_log"

datatype provenance_gate = GATE_DISABLED | GATE_REQUIRED "provenance option" string

record publication_input =
  pi_contract :: work_contract
  pi_finalized :: finalized_run
  pi_policy :: repository_policy
  pi_expected_policy_hash :: string
  pi_title :: string
  pi_body :: string
  pi_gate :: "provenance_gate option"

record published_run =
  pd_pull_request :: pull_request
  pd_run_id :: string
  pd_local_commit_sha :: string

record publication_env =
  pe_policy_hash :: "repository_policy \<Rightarrow> string"
  pe_contract_hash :: "work_contract \<Rightarrow> string"
  pe_fold :: "string \<Rightarrow> string"
  pe_provenance :: provenance_env
  pe_locks :: "publication_call lock_ports"
  pe_push_exact :: "publication_log \<Rightarrow> string result"
  pe_find_pull_request :: "publication_log \<Rightarrow> pull_request option result"
  pe_create_pull_request :: "publication_log \<Rightarrow> pull_request result"
  pe_wait_for_required_checks :: "publication_log \<Rightarrow> unit result"
  pe_merge_pull_request :: "publication_log \<Rightarrow> pull_request result"
  pe_append :: "publication_log \<Rightarrow> unit result"

abbreviation denied :: "string \<Rightarrow> error" where
  "denied m \<equiv> Error PUBLICATION_POLICY_DENIED m"

abbreviation failed :: "string \<Rightarrow> error" where
  "failed m \<equiv> Error PUBLICATION_FAILED m"

abbreviation provenance_required :: "string \<Rightarrow> error" where
  "provenance_required m \<equiv> Error DELEGATION_PROVENANCE_REQUIRED m"

section \<open>Checks\<close>

definition publicationIdentity :: "publication_env \<Rightarrow> publication_input \<Rightarrow> string result" where
  "publicationIdentity env i =
     (let c = pi_contract i; f = pi_finalized i; h = pe_policy_hash env (pi_policy i) in
      throw_if (h \<noteq> pi_expected_policy_hash i \<or> wc_policy_hash c \<noteq> h) (denied ''repository policy identity is stale'')
      (throw_if (wc_contract_hash c \<noteq> pe_contract_hash env (c\<lparr>wc_contract_hash := []\<rparr>))
        (denied ''work contract identity is invalid'')
      (throw_if (\<not> run_id_ok (fr_run_id f) \<or> fr_run_id f \<noteq> wc_run_id c \<or> \<not> is_git_sha (fr_commit_sha f) \<or>
          fr_task_ref f \<noteq> task_ref_of (wc_run_id c))
        (denied ''finalized run identity is invalid'') (Inr h))))"

definition provenance_binding_of :: "publication_input \<Rightarrow> string \<Rightarrow> provenance_binding" where
  "provenance_binding_of i h = \<lparr>pb_commit_sha = fr_commit_sha (pi_finalized i), pb_git_tree_sha = fr_git_tree_sha (pi_finalized i),
     pb_policy_hash = h, pb_profile_hash = wc_profile_hash (pi_contract i)\<rparr>"

definition describes_run :: "publication_input \<Rightarrow> provenance \<Rightarrow> bool" where
  "describes_run i v =
     (pv_run_id v = wc_run_id (pi_contract i) \<and> pv_contract_hash v = wc_contract_hash (pi_contract i) \<and>
      pv_diff_hash v = fr_diff_hash (pi_finalized i) \<and> pv_evidence_tree_hash v = fr_evidence_tree_hash (pi_finalized i) \<and>
      pv_review_attestation_hash v = fr_review_attestation_hash (pi_finalized i))"

text \<open>The catch block passes on its own error and turns every other into ``invalid or stale''.\<close>

definition provenance_gate_check :: "publication_env \<Rightarrow> publication_input \<Rightarrow> string \<Rightarrow> unit result" where
  "provenance_gate_check env i h = (case pi_gate i of
      Some (GATE_REQUIRED evidence key) \<Rightarrow> (case evidence of
          None \<Rightarrow> Inl (provenance_required ''signed evidence is missing'')
        | Some v \<Rightarrow> (case verifyDelegationProvenanceV4 (pe_provenance env) v (provenance_binding_of i h) key of
            Inl _ \<Rightarrow> Inl (provenance_required ''signed evidence is invalid or stale'')
          | Inr w \<Rightarrow> throw_if (\<not> describes_run i w)
              (provenance_required ''evidence does not describe the finalized run'') (Inr ())))
    | _ \<Rightarrow> Inr ())"

definition publication_prohibited :: "publication_env \<Rightarrow> work_contract \<Rightarrow> bool" where
  "publication_prohibited env c =
     (let prohibited = set (map (pe_fold env) (tr_prohibited_actions c)) in
      ''push'' \<in> prohibited \<or> ''merge'' \<in> prohibited \<or> ''publish'' \<in> prohibited)"

definition control_char :: "char \<Rightarrow> bool" where
  "control_char c = (of_char c < (32::nat) \<or> of_char c = (127::nat))"

definition metadata_ok :: "string \<Rightarrow> string \<Rightarrow> bool" where
  "metadata_ok title body = (1 \<le> length title \<and> length title \<le> 256 \<and> length body \<le> 16384 \<and> \<not> list_ex control_char title)"

definition publication_branch :: "publication_input \<Rightarrow> string" where
  "publication_branch i = ''codex/auto/'' @ wc_run_id (pi_contract i)"

definition verify :: "publication_env \<Rightarrow> publication_input \<Rightarrow> string result" where
  "verify env i =
     bindR (publicationIdentity env i) (\<lambda>h.
     bindR (provenance_gate_check env i h) (\<lambda>_.
     throw_if (\<not> pp_enabled (po_publication (pi_policy i))) (denied ''publication is disabled'')
     (throw_if (pp_baseBranch (po_publication (pi_policy i)) \<notin> set (po_allowedBranches (pi_policy i)))
       (denied ''publication base is not allowed'')
     (throw_if (publication_prohibited env (pi_contract i)) (denied ''task contract prohibits publication'')
     (throw_if (\<not> metadata_ok (pi_title i) (pi_body i)) (denied ''pull request metadata is invalid'') (Inr h))))))"

section \<open>Events\<close>

definition publication_event :: "publication_input \<Rightarrow> string \<Rightarrow> run_event \<Rightarrow> broker_command" where
  "publication_event i prefix ev = (let run = wc_run_id (pi_contract i) in RUN_EVENT (prefix @ run) run ev)"

definition pushed_event :: "publication_input \<Rightarrow> string \<Rightarrow> run_event" where
  "pushed_event i h = BRANCH_PUSHED \<lparr>bp_commit_sha = fr_commit_sha (pi_finalized i), bp_branch = publication_branch i,
     bp_remote = pp_remote (po_publication (pi_policy i)), bp_publication_policy_hash = h\<rparr>"

definition pull_request_event :: "publication_input \<Rightarrow> string \<Rightarrow> pull_request \<Rightarrow> run_event" where
  "pull_request_event i h p = PULL_REQUEST_RECORDED \<lparr>pr_commit_sha = fr_commit_sha (pi_finalized i),
     pr_pull_request = pq_number p, pr_pull_request_url = pq_url p, pr_base_branch = pq_base_branch p,
     pr_publication_policy_hash = h\<rparr>"

definition checks_event :: "publication_input \<Rightarrow> string \<Rightarrow> pull_request \<Rightarrow> run_event" where
  "checks_event i h p = REQUIRED_CHECKS_PASSED \<lparr>ck_commit_sha = fr_commit_sha (pi_finalized i),
     ck_pull_request = pq_number p, ck_publication_policy_hash = h\<rparr>"

definition merged_event :: "publication_input \<Rightarrow> string \<Rightarrow> pull_request \<Rightarrow> string \<Rightarrow> run_event" where
  "merged_event i h p sha = RUN_MERGED \<lparr>me_commit_sha = fr_commit_sha (pi_finalized i), me_pull_request = pq_number p,
     me_pull_request_url = pq_url p, me_merge_commit_sha = sha, me_publication_policy_hash = h\<rparr>"

definition append_publication :: "publication_env \<Rightarrow> publication_input \<Rightarrow> string \<Rightarrow> run_event \<Rightarrow> (publication_log, unit) io" where
  "append_publication env i prefix ev = log_call (CALL (APPEND_PUBLICATION (publication_event i prefix ev))) (pe_append env)"

section \<open>Publication\<close>

definition push_branch :: "publication_env \<Rightarrow> publication_input \<Rightarrow> string \<Rightarrow> (publication_log, unit) io" where
  "push_branch env i h =
     ioBind (log_call (CALL (PUSH_EXACT (fr_commit_sha (pi_finalized i)) (publication_branch i)
       (pp_remote (po_publication (pi_policy i))))) (pe_push_exact env)) (\<lambda>remote_sha.
     ioBind (ioLift (throw_if (remote_sha \<noteq> fr_commit_sha (pi_finalized i))
       (failed ''remote branch does not resolve to the accepted commit'') (Inr ()))) (\<lambda>_.
     append_publication env i ''branch-pushed:'' (pushed_event i h)))"

definition open_pull_request :: "publication_env \<Rightarrow> publication_input \<Rightarrow> string \<Rightarrow> (publication_log, pull_request) io" where
  "open_pull_request env i h =
     (let base = pp_baseBranch (po_publication (pi_policy i)) in
      ioBind (log_call (CALL (FIND_PULL_REQUEST (publication_branch i) base)) (pe_find_pull_request env)) (\<lambda>found.
      ioBind (case found of Some p \<Rightarrow> ioRet p
        | None \<Rightarrow> log_call (CALL (CREATE_PULL_REQUEST (publication_branch i) base (pi_title i) (pi_body i)))
            (pe_create_pull_request env)) (\<lambda>p.
      ioBind (ioLift (throw_if (pq_head_sha p \<noteq> fr_commit_sha (pi_finalized i) \<or> pq_head_branch p \<noteq> publication_branch i \<or>
          pq_base_branch p \<noteq> base) (failed ''pull request identity differs from the accepted commit'') (Inr ()))) (\<lambda>_.
      ioBind (append_publication env i ''pull-request-recorded:'' (pull_request_event i h p)) (\<lambda>_. ioRet p)))))"

definition merge_pull_request :: "publication_env \<Rightarrow> publication_input \<Rightarrow> string \<Rightarrow> pull_request \<Rightarrow> (publication_log, pull_request) io" where
  "merge_pull_request env i h p =
     (let policy = po_publication (pi_policy i) in
      if pq_state p = MERGED_PR then ioRet p
      else ioBind (if pp_requireRequiredChecks policy
          then ioBind (log_call (CALL (WAIT_FOR_REQUIRED_CHECKS (pq_number p) (pp_timeoutSeconds policy))) (pe_wait_for_required_checks env))
            (\<lambda>_. append_publication env i ''required-checks-passed:'' (checks_event i h p))
          else ioRet ()) (\<lambda>_.
        log_call (CALL (MERGE_PULL_REQUEST (pq_number p) (fr_commit_sha (pi_finalized i)) (pp_mergeMethod policy)
          (pp_timeoutSeconds policy))) (pe_merge_pull_request env)))"

definition record_merge :: "publication_env \<Rightarrow> publication_input \<Rightarrow> string \<Rightarrow> pull_request \<Rightarrow> (publication_log, published_run) io" where
  "record_merge env i h p =
     (case (if pq_state p \<noteq> MERGED_PR \<or> pq_head_sha p \<noteq> fr_commit_sha (pi_finalized i) then None else pq_merge_commit_sha p) of
        None \<Rightarrow> ioLift (Inl (failed ''merge result is missing or stale''))
      | Some sha \<Rightarrow>
          ioBind (ioLift (throw_if (\<not> is_git_sha sha) (failed ''merge result is missing or stale'') (Inr ()))) (\<lambda>_.
          ioBind (append_publication env i ''run-merged:'' (merged_event i h p sha)) (\<lambda>_.
          ioRet \<lparr>pd_pull_request = p, pd_run_id = wc_run_id (pi_contract i), pd_local_commit_sha = fr_commit_sha (pi_finalized i)\<rparr>)))"

definition publish_body :: "publication_env \<Rightarrow> publication_input \<Rightarrow> string \<Rightarrow> (publication_log, published_run) io" where
  "publish_body env i h =
     ioBind (push_branch env i h) (\<lambda>_.
     ioBind (open_pull_request env i h) (\<lambda>p.
     ioBind (merge_pull_request env i h p) (\<lambda>q. record_merge env i h q)))"

definition publishFinalizedRunV4 :: "publication_env \<Rightarrow> publication_input \<Rightarrow> (publication_log, published_run) io" where
  "publishFinalizedRunV4 env i =
     ioBind (ioLift (verify env i)) (\<lambda>h. under_locks (pe_locks env) (publish_body env i h))"

section \<open>Publication skipped\<close>

definition skip_reason_of :: "publication_env \<Rightarrow> publication_input \<Rightarrow> skip_reason option" where
  "skip_reason_of env i =
     (if \<not> pp_enabled (po_publication (pi_policy i)) then Some POLICY_DISABLED
      else if publication_prohibited env (pi_contract i) then Some CONTRACT_PROHIBITED else None)"

definition skipped_event :: "publication_input \<Rightarrow> string \<Rightarrow> skip_reason \<Rightarrow> run_event" where
  "skipped_event i h reason = PUBLICATION_SKIPPED \<lparr>sk_commit_sha = fr_commit_sha (pi_finalized i),
     sk_publication_policy_hash = h, sk_reason = reason\<rparr>"

definition skipFinalizedRunPublicationV4 :: "publication_env \<Rightarrow> publication_input \<Rightarrow> (publication_log, unit) io" where
  "skipFinalizedRunPublicationV4 env i =
     ioBind (ioLift (publicationIdentity env i)) (\<lambda>h.
     case skip_reason_of env i of
        None \<Rightarrow> ioLift (Inl (denied ''publication is required by policy and contract''))
      | Some reason \<Rightarrow> append_publication env i ''publication-skipped:'' (skipped_event i h reason))"

section \<open>Locks\<close>

lemma publish_only_calls: "only_calls (publish_body env i h)"
  unfolding publish_body_def push_branch_def open_pull_request_def merge_pull_request_def record_merge_def
    append_publication_def Let_def
  by (intro calls_rules)

interpretation publication: locked_operation "pe_locks env" "publish_body env i h" for env i h
  by unfold_locales (rule publish_only_calls)

end
