(* ===== verification/Publication_Properties.thy ===== *)
theory Publication_Properties
  imports Publication
begin

text \<open>
  Publication against the broker's state machine: the events that a publication appends, read off its log,
  drive the run from ready for publication to finalized. Then what the checks guarantee of every publication
  that makes a call, the composition with finalization, and the run that is not published.
\<close>

section \<open>The events of a log\<close>

fun event_of_call :: "publication_call run_call \<Rightarrow> run_event list" where
  "event_of_call (CALL (APPEND_PUBLICATION (RUN_EVENT _ _ ev))) = [ev]"
| "event_of_call _ = []"

definition publication_events :: "publication_log \<Rightarrow> run_event list" where
  "publication_events l = concat (map event_of_call (rev l))"

lemma publication_events_simps [simp]:
  "publication_events [] = []"
  "publication_events (k # l) = publication_events l @ event_of_call k"
  by (simp_all add: publication_events_def)

text \<open>\<open>tracks r l t\<close>: the events of the log \<open>l\<close> lead from the run \<open>r\<close> to the run \<open>t\<close>.\<close>

definition tracks :: "run_state \<Rightarrow> publication_log \<Rightarrow> run_state \<Rightarrow> bool" where
  "tracks r l t = (foldR run_step r (publication_events l) = Inr t)"

lemma tracks_call: "event_of_call k = [] \<Longrightarrow> tracks r (k # l) t = tracks r l t"
  by (simp add: tracks_def)

lemma tracks_append:
  "tracks r l t \<Longrightarrow> run_step t ev = Inr u \<Longrightarrow> tracks r (CALL (APPEND_PUBLICATION (publication_event i prefix ev)) # l) u"
  by (simp add: tracks_def foldR_append publication_event_def Let_def)

lemma wp_append [simp]:
  "wp (append_publication env i prefix ev) Q E l =
     (let l' = CALL (APPEND_PUBLICATION (publication_event i prefix ev)) # l in
      case pe_append env l' of Inl e \<Rightarrow> E l' | Inr x \<Rightarrow> Q x l')"
  by (simp add: append_publication_def Let_def)

section \<open>The stages of a publication\<close>

definition same_run :: "publication_input \<Rightarrow> string \<Rightarrow> run_state \<Rightarrow> bool" where
  "same_run i h r = (wc_policy_hash (rs_contract r) = h \<and> rr_commit_sha (rs_result r) = Some (fr_commit_sha (pi_finalized i)) \<and>
     rr_branch (rs_result r) = publication_branch i)"

definition run_names :: "run_state \<Rightarrow> pull_request \<Rightarrow> bool" where
  "run_names r p = (pu_pull_request (rr_publication (rs_result r)) = Some (pq_number p) \<and>
     pu_pull_request_url (rr_publication (rs_result r)) = Some (pq_url p))"

lemmas stage_defs = same_run_def run_names_def run_step_def terminal_state_def publication_event_def

lemma push_accepted:
  assumes "same_run i h r" and "rr_state (rs_result r) = S_READY_FOR_PUBLICATION"
  shows "\<exists>t. run_step r (pushed_event i h) = Inr t \<and> same_run i h t \<and> rr_state (rs_result t) = S_PUBLICATION_PUSHED"
  using assms by (simp add: stage_defs pushed_event_def push_step_def)

lemma pull_request_accepted:
  assumes "same_run i h r" and "rr_state (rs_result r) = S_PUBLICATION_PUSHED"
  shows "\<exists>t. run_step r (pull_request_event i h p) = Inr t \<and> same_run i h t \<and> run_names t p \<and>
    rr_state (rs_result t) = S_PULL_REQUEST_OPEN"
  using assms by (simp add: stage_defs pull_request_event_def pull_request_step_def)

lemma checks_accepted:
  assumes "same_run i h r" and "run_names r p" and "rr_state (rs_result r) = S_PULL_REQUEST_OPEN"
  shows "\<exists>t. run_step r (checks_event i h p) = Inr t \<and> same_run i h t \<and> run_names t p \<and>
    rr_state (rs_result t) = S_REQUIRED_CHECKS_PASSED"
  using assms by (simp add: stage_defs checks_event_def checks_step_def)

lemma merge_accepted:
  assumes "same_run i h r" and "run_names r p" and "rr_state (rs_result r) \<in> {S_PULL_REQUEST_OPEN, S_REQUIRED_CHECKS_PASSED}"
  shows "\<exists>t. run_step r (merged_event i h p sha) = Inr t \<and> rr_state (rs_result t) = S_FINALIZED \<and>
    rr_head_sha (rs_result t) = Some sha \<and> pu_state (rr_publication (rs_result t)) = MERGED"
  using assms by (auto simp: stage_defs merged_event_def merge_step_def)

text \<open>
  The pull request the adapter named when it was found or created, by the last answer to such a call. The code
  records its number and its address, and later those of the merge answer, which may differ.
\<close>

fun named_pull_request :: "publication_env \<Rightarrow> publication_log \<Rightarrow> pull_request option" where
  "named_pull_request env (CALL (CREATE_PULL_REQUEST b base t d) # l) =
     (case pe_create_pull_request env (CALL (CREATE_PULL_REQUEST b base t d) # l) of Inl _ \<Rightarrow> None | Inr p \<Rightarrow> Some p)"
| "named_pull_request env (CALL (FIND_PULL_REQUEST b base) # l) =
     (case pe_find_pull_request env (CALL (FIND_PULL_REQUEST b base) # l) of Inl _ \<Rightarrow> None | Inr found \<Rightarrow> found)"
| "named_pull_request env (_ # l) = named_pull_request env l"
| "named_pull_request env [] = None"

definition names_same :: "pull_request option \<Rightarrow> int \<Rightarrow> string \<Rightarrow> bool" where
  "names_same named number url = (map_option (\<lambda>p. (pq_number p, pq_url p)) named = Some (number, url))"

section \<open>Each step of the code keeps the run in step\<close>

lemma push_tracks:
  assumes "tracks r l s" and "same_run i h s" and "rr_state (rs_result s) = S_READY_FOR_PUBLICATION"
  shows "wp (push_branch env i h)
    (\<lambda>_ l. \<exists>t. tracks r l t \<and> same_run i h t \<and> rr_state (rs_result t) = S_PUBLICATION_PUSHED) (\<lambda>l. \<exists>t. tracks r l t) l"
proof -
  let ?l = "CALL (PUSH_EXACT (fr_commit_sha (pi_finalized i)) (publication_branch i) (pp_remote (po_publication (pi_policy i)))) # l"
  have l: "tracks r ?l s" using assms(1) by (simp add: tracks_call)
  obtain t where t: "run_step s (pushed_event i h) = Inr t" "same_run i h t" "rr_state (rs_result t) = S_PUBLICATION_PUSHED"
    using push_accepted [OF assms(2,3)] by blast
  from l tracks_append [OF l t(1)] t(2,3) show ?thesis
    by (auto simp: push_branch_def throw_if_def Let_def split: sum.split)
qed

lemma open_tracks:
  assumes "tracks r l s" and "same_run i h s" and "rr_state (rs_result s) = S_PUBLICATION_PUSHED"
  shows "wp (open_pull_request env i h)
    (\<lambda>p l. \<exists>t. tracks r l t \<and> same_run i h t \<and> run_names t p \<and> rr_state (rs_result t) = S_PULL_REQUEST_OPEN \<and>
       named_pull_request env l = Some p)
    (\<lambda>l. \<exists>t. tracks r l t) l"
proof -
  have recorded: "\<exists>t. tracks r (CALL (APPEND_PUBLICATION (publication_event i n (pull_request_event i h p))) # k) t \<and>
      same_run i h t \<and> run_names t p \<and> rr_state (rs_result t) = S_PULL_REQUEST_OPEN" if k: "tracks r k s" for k p n
    using pull_request_accepted [OF assms(2,3), of p] tracks_append [OF k] by blast
  have "tracks r (CALL (FIND_PULL_REQUEST b c) # l) s" "tracks r (CALL (CREATE_PULL_REQUEST b c d e) # CALL (FIND_PULL_REQUEST b c) # l) s"
    for b c d e using assms(1) by (simp_all add: tracks_call)
  then show ?thesis
    by (auto simp: open_pull_request_def throw_if_def Let_def split: sum.split option.split dest: recorded) (use recorded in blast)+
qed

lemma merge_tracks:
  assumes "tracks r l s" and "same_run i h s" and "run_names s p" and "rr_state (rs_result s) = S_PULL_REQUEST_OPEN"
    and named: "named_pull_request env l = Some p"
  shows "wp (merge_pull_request env i h p)
    (\<lambda>q l. named_pull_request env l = Some p \<and> (\<exists>t. tracks r l t \<and> same_run i h t \<and> run_names t p \<and>
       rr_state (rs_result t) \<in> {S_PULL_REQUEST_OPEN, S_REQUIRED_CHECKS_PASSED}))
    (\<lambda>l. \<exists>t. tracks r l t) l"
proof -
  obtain t where t: "run_step s (checks_event i h p) = Inr t" "same_run i h t" "run_names t p"
    "rr_state (rs_result t) = S_REQUIRED_CHECKS_PASSED"
    using checks_accepted [OF assms(2,3,4)] by blast
  have w: "tracks r (CALL (WAIT_FOR_REQUIRED_CHECKS a b) # l) s" for a b using assms(1) by (simp add: tracks_call)
  let ?goal = "\<lambda>k. \<exists>u. tracks r k u \<and> same_run i h u \<and> run_names u p \<and>
    rr_state (rs_result u) \<in> {S_PULL_REQUEST_OPEN, S_REQUIRED_CHECKS_PASSED}"
  have checked: "?goal (CALL (APPEND_PUBLICATION (publication_event i n (checks_event i h p))) # CALL (WAIT_FOR_REQUIRED_CHECKS a b) # l)"
    for n a b using tracks_append [OF w t(1)] t(2-4) by blast
  have merging: "?goal k \<Longrightarrow> ?goal (CALL (MERGE_PULL_REQUEST a b c d) # k)" for a b c d k by (simp add: tracks_call)
  have start: "?goal l" using assms by blast
  have failing: "?goal k \<Longrightarrow> \<exists>u. tracks r k u" for k by blast
  have waiting: "\<exists>u. tracks r (CALL (WAIT_FOR_REQUIRED_CHECKS a b) # l) u" for a b using w by blast
  show ?thesis
    unfolding merge_pull_request_def Let_def wp_if wp_bind wp_log_call wp_append wp_ret
    using start checked merging failing waiting named by (auto split: sum.split simp del: insert_iff)
qed

text \<open>What the log holds at the end: every event was accepted, or only the merge of another pull request was not.\<close>

definition events_accepted :: "publication_env \<Rightarrow> run_state \<Rightarrow> publication_log \<Rightarrow> bool" where
  "events_accepted env r l = ((\<exists>t. tracks r l t) \<or>
     (\<exists>before m t. publication_events l = before @ [RUN_MERGED m] \<and> foldR run_step r before = Inr t \<and>
        \<not> names_same (named_pull_request env l) (me_pull_request m) (me_pull_request_url m)))"

definition merged_run :: "run_state \<Rightarrow> run_event list \<Rightarrow> published_run \<Rightarrow> bool" where
  "merged_run r evs x = (\<exists>t sha. foldR run_step r evs = Inr t \<and> rr_state (rs_result t) = S_FINALIZED \<and>
     pq_merge_commit_sha (pd_pull_request x) = Some sha \<and> rr_head_sha (rs_result t) = Some sha \<and>
     pu_state (rr_publication (rs_result t)) = MERGED)"

definition refused_merge :: "run_state \<Rightarrow> run_event list \<Rightarrow> published_run \<Rightarrow> bool" where
  "refused_merge r evs x = (\<exists>before m t. evs = before @ [RUN_MERGED m] \<and> foldR run_step r before = Inr t \<and>
     \<not> is_ok (run_step t (RUN_MERGED m)) \<and>
     me_pull_request m = pq_number (pd_pull_request x) \<and> me_pull_request_url m = pq_url (pd_pull_request x))"

text \<open>A publication that returned finalized the run exactly if the merge answer named the recorded pull request.\<close>

definition publication_outcome :: "publication_env \<Rightarrow> run_state \<Rightarrow> publication_log \<Rightarrow> published_run \<Rightarrow> bool" where
  "publication_outcome env r l x =
     (if names_same (named_pull_request env l) (pq_number (pd_pull_request x)) (pq_url (pd_pull_request x))
      then merged_run r (publication_events l) x else refused_merge r (publication_events l) x)"

lemma tracks_accepted: "tracks r l t \<Longrightarrow> events_accepted env r l"
  by (auto simp: events_accepted_def)

lemma record_tracks:
  assumes "tracks r l s" and "same_run i h s" and "rr_state (rs_result s) \<in> {S_PULL_REQUEST_OPEN, S_REQUIRED_CHECKS_PASSED}"
    and "run_names s p" and "named_pull_request env l = Some p"
  shows "wp (record_merge env i h q) (\<lambda>x l. publication_outcome env r l x) (events_accepted env r) l"
proof -
  have merged: "publication_outcome env r k (published_run.make q a b) \<and> events_accepted env r k"
    if sha: "pq_merge_commit_sha q = Some sha"
      and k: "k = CALL (APPEND_PUBLICATION (publication_event i n (merged_event i h q sha))) # l" for sha k n a b
  proof -
    have named: "names_same (named_pull_request env k) (pq_number q) (pq_url q) = run_names s q"
      using assms(4,5) by (auto simp: names_same_def run_names_def k)
    let ?m = "\<lparr>me_commit_sha = fr_commit_sha (pi_finalized i), me_pull_request = pq_number q,
       me_pull_request_url = pq_url q, me_merge_commit_sha = sha, me_publication_policy_hash = h\<rparr>"
    have events: "publication_events k = publication_events l @ [RUN_MERGED ?m]"
      by (simp add: k publication_event_def Let_def merged_event_def)
    show ?thesis
    proof (cases "run_names s q")
      case True
      from merge_accepted [OF assms(2) True assms(3)] obtain t where t: "run_step s (merged_event i h q sha) = Inr t"
        "rr_state (rs_result t) = S_FINALIZED" "rr_head_sha (rs_result t) = Some sha" "pu_state (rr_publication (rs_result t)) = MERGED"
        by blast
      have "tracks r k t" unfolding k by (rule tracks_append [OF assms(1) t(1)])
      with t(2-) sha True named show ?thesis
        by (auto simp: publication_outcome_def merged_run_def tracks_def published_run.defs events_accepted_def)
    next
      case False
      have "\<not> is_ok (run_step s (RUN_MERGED ?m))"
        using False by (auto simp: run_names_def run_step_def merge_step_def throw_if_def is_ok_def split: sum.splits)
      with events assms(1) named False show ?thesis
        unfolding publication_outcome_def refused_merge_def events_accepted_def tracks_def published_run.defs
        by (simp del: publication_events_simps)
    qed
  qed
  show ?thesis
  proof (cases "pq_merge_commit_sha q")
    case None
    then show ?thesis using tracks_accepted [OF assms(1)] by (simp add: record_merge_def)
  next
    case (Some sha)
    from merged [OF Some refl, of "''run-merged:''" "wc_run_id (pi_contract i)" "fr_commit_sha (pi_finalized i)"]
      tracks_accepted [OF assms(1)] Some
    show ?thesis
      by (simp add: record_merge_def throw_if_def Let_def published_run.defs split: sum.split)
  qed
qed

lemma publish_tracks:
  assumes "same_run i h r" and "rr_state (rs_result r) = S_READY_FOR_PUBLICATION" and "publication_events l = []"
  shows "wp (publish_body env i h) (\<lambda>x l. publication_outcome env r l x) (events_accepted env r) l"
proof -
  have start: "tracks r l r" using assms(3) by (simp add: tracks_def)
  show ?thesis unfolding publish_body_def wp_bind
    by (rule wp_mono [OF push_tracks [OF start assms(1,2)]], elim exE conjE,
      rule wp_mono [OF open_tracks], assumption+, elim exE conjE,
      rule wp_mono [OF merge_tracks], assumption+, elim exE conjE,
      rule record_tracks, assumption+) (auto intro: tracks_accepted)
qed

section \<open>What precedes a merge\<close>

fun some_suffix :: "('a list \<Rightarrow> bool) \<Rightarrow> 'a list \<Rightarrow> bool" where
  "some_suffix P [] = False"
| "some_suffix P (k # l) = (P (k # l) \<or> some_suffix P l)"

text \<open>The calls of a log, newest first, that pushed the accepted commit and that waited for its checks.\<close>

definition pushed_exactly :: "publication_env \<Rightarrow> publication_input \<Rightarrow> publication_log \<Rightarrow> bool" where
  "pushed_exactly env i l = (let sha = fr_commit_sha (pi_finalized i) in
     hd l = CALL (PUSH_EXACT sha (publication_branch i) (pp_remote (po_publication (pi_policy i)))) \<and> pe_push_exact env l = Inr sha)"

definition checks_passed_for :: "publication_env \<Rightarrow> publication_input \<Rightarrow> int \<Rightarrow> publication_log \<Rightarrow> bool" where
  "checks_passed_for env i n l =
     (hd l = CALL (WAIT_FOR_REQUIRED_CHECKS n (pp_timeoutSeconds (po_publication (pi_policy i)))) \<and>
      pe_wait_for_required_checks env l = Inr ())"

fun merge_justified :: "publication_env \<Rightarrow> publication_input \<Rightarrow> publication_log \<Rightarrow> bool" where
  "merge_justified env i [] = True"
| "merge_justified env i (CALL (MERGE_PULL_REQUEST n sha m t) # l) =
     (sha = fr_commit_sha (pi_finalized i) \<and> m = pp_mergeMethod (po_publication (pi_policy i)) \<and>
      some_suffix (pushed_exactly env i) l \<and>
      (if pp_requireRequiredChecks (po_publication (pi_policy i)) then some_suffix (checks_passed_for env i n) l else True) \<and>
      merge_justified env i l)"
| "merge_justified env i (_ # l) = merge_justified env i l"

lemma push_justifies:
  assumes "merge_justified env i l"
  shows "wp (push_branch env i h) (\<lambda>_ l. merge_justified env i l \<and> some_suffix (pushed_exactly env i) l) (merge_justified env i) l"
  using assms by (auto simp: push_branch_def pushed_exactly_def throw_if_def Let_def split: sum.split)

lemma open_justified:
  assumes "merge_justified env i l \<and> some_suffix (pushed_exactly env i) l"
  shows "wp (open_pull_request env i h) (\<lambda>_ l. merge_justified env i l \<and> some_suffix (pushed_exactly env i) l) (merge_justified env i) l"
  using assms by (auto simp: open_pull_request_def throw_if_def Let_def split: sum.split option.split)

lemma merge_is_justified:
  assumes "merge_justified env i l \<and> some_suffix (pushed_exactly env i) l"
  shows "wp (merge_pull_request env i h p) (\<lambda>_. merge_justified env i) (merge_justified env i) l"
  using assms by (auto simp: merge_pull_request_def checks_passed_for_def Let_def split: sum.split)

lemma record_justified:
  assumes "merge_justified env i l"
  shows "wp (record_merge env i h q) (\<lambda>x l. merge_justified env i l \<and> pq_state (pd_pull_request x) = MERGED_PR \<and>
     pq_head_sha (pd_pull_request x) = fr_commit_sha (pi_finalized i)) (merge_justified env i) l"
  using assms by (auto simp: record_merge_def throw_if_def Let_def split: sum.split option.split)

lemma publish_justified:
  assumes "merge_justified env i l"
  shows "wp (publish_body env i h) (\<lambda>x l. merge_justified env i l \<and> pq_state (pd_pull_request x) = MERGED_PR \<and>
     pq_head_sha (pd_pull_request x) = fr_commit_sha (pi_finalized i)) (merge_justified env i) l"
  unfolding publish_body_def wp_bind
  by (rule wp_mono [OF push_justifies [OF assms]], rule wp_mono [OF open_justified], assumption,
    rule wp_mono [OF merge_is_justified], assumption) (auto intro: record_justified)

text \<open>
  C13. Nothing but the accepted commit is merged, and only once it is published and checked: in every run of
  \<open>publishFinalizedRunV4\<close>, whatever the adapter answers, a merge is asked for the finalized commit by the method of
  the policy, after a push of this commit that the remote confirmed and, where the policy requires checks, after a wait
  for the checks of the same pull request that succeeded; and a publication that returns, returns a pull request
  that is merged with the finalized commit as its head.
\<close>

theorem merge_follows_push_and_checks:
  "merge_justified env i (fst (publishFinalizedRunV4 env i [])) \<and>
   (case snd (publishFinalizedRunV4 env i []) of Inl _ \<Rightarrow> True
    | Inr x \<Rightarrow> pq_state (pd_pull_request x) = MERGED_PR \<and> pq_head_sha (pd_pull_request x) = fr_commit_sha (pi_finalized i))"
proof -
  have locked: "wp (under_locks (pe_locks env) (publish_body env i h))
    (\<lambda>x l. merge_justified env i l \<and> pq_state (pd_pull_request x) = MERGED_PR \<and>
     pq_head_sha (pd_pull_request x) = fr_commit_sha (pi_finalized i)) (merge_justified env i) []" for h
    by (rule publication.locked_wp) (simp_all add: publish_justified)
  have "wp (publishFinalizedRunV4 env i)
    (\<lambda>x l. merge_justified env i l \<and> pq_state (pd_pull_request x) = MERGED_PR \<and>
     pq_head_sha (pd_pull_request x) = fr_commit_sha (pi_finalized i)) (merge_justified env i) []"
    using locked by (simp add: publishFinalizedRunV4_def split: sum.split)
  then show ?thesis by (auto simp: wp_def split: prod.splits sum.splits)
qed

section \<open>The published run\<close>

lemma verified_publication:
  assumes "verify env i = Inr h"
  shows "publicationIdentity env i = Inr h" and "provenance_gate_check env i h = Inr ()"
    and "pp_enabled (po_publication (pi_policy i))" and "\<not> publication_prohibited env (pi_contract i)"
    and "pp_baseBranch (po_publication (pi_policy i)) \<in> set (po_allowedBranches (pi_policy i))"
  using assms by (auto simp: verify_def)

lemma identified_publication:
  assumes "publicationIdentity env i = Inr h"
  shows "h = pe_policy_hash env (pi_policy i)" and "wc_policy_hash (pi_contract i) = h"
    and "fr_run_id (pi_finalized i) = wc_run_id (pi_contract i)" and "is_git_sha (fr_commit_sha (pi_finalized i))"
    and "wc_contract_hash (pi_contract i) = pe_contract_hash env ((pi_contract i)\<lparr>wc_contract_hash := []\<rparr>)"
  using assms by (auto simp: publicationIdentity_def Let_def)

lemma passed_gate:
  assumes "provenance_gate_check env i h = Inr ()" and "pi_gate i = Some (GATE_REQUIRED evidence key)"
  shows "\<exists>v. evidence = Some v \<and> verifyDelegationProvenanceV4 (pe_provenance env) v (provenance_binding_of i h) key = Inr v \<and>
    describes_run i v"
proof -
  from assms obtain v w where v: "evidence = Some v"
    "verifyDelegationProvenanceV4 (pe_provenance env) v (provenance_binding_of i h) key = Inr w" "describes_run i w"
    by (auto simp: provenance_gate_check_def split: option.splits sum.splits)
  with verified_provenance(1) [OF v(2)] show ?thesis by blast
qed

definition ready_run :: "publication_input \<Rightarrow> run_state \<Rightarrow> bool" where
  "ready_run i r = (rr_state (rs_result r) = S_READY_FOR_PUBLICATION \<and> rs_contract r = pi_contract i \<and>
     rr_commit_sha (rs_result r) = Some (fr_commit_sha (pi_finalized i)) \<and> rr_branch (rs_result r) = publication_branch i)"

text \<open>The locks are not part of what a log says of the run.\<close>

lemma locks_ignored:
  assumes "k \<in> {ACQUIRE_RUN_LOCK, ACQUIRE_REPOSITORY_LOCK, RELEASE_RUN_LOCK, RELEASE_REPOSITORY_LOCK}"
  shows "publication_outcome env r (k # l) x = publication_outcome env r l x" "events_accepted env r (k # l) = events_accepted env r l"
  using assms by (auto simp: publication_outcome_def events_accepted_def tracks_def)

lemma events_accepted_Nil: "events_accepted env r []"
  by (simp add: events_accepted_def tracks_def)

lemma publication_tracks:
  assumes "ready_run i r"
  shows "wp (publishFinalizedRunV4 env i) (\<lambda>x l. publication_outcome env r l x) (events_accepted env r) []"
proof (cases "verify env i")
  case (Inr h)
  have "same_run i h r"
    using assms identified_publication(2) [OF verified_publication(1) [OF Inr]] by (simp add: ready_run_def same_run_def)
  from publish_tracks [OF this, of "[ACQUIRE_REPOSITORY_LOCK, ACQUIRE_RUN_LOCK]" env] assms
  have body: "wp (publish_body env i h) (\<lambda>x l. publication_outcome env r l x) (events_accepted env r)
      [ACQUIRE_REPOSITORY_LOCK, ACQUIRE_RUN_LOCK]"
    by (simp add: ready_run_def)
  show ?thesis unfolding publishFinalizedRunV4_def wp_bind Inr wp_lift sum.case
    by (rule publication.locked_wp) (use body in \<open>simp_all add: locks_ignored events_accepted_Nil\<close>)
qed (simp add: publishFinalizedRunV4_def events_accepted_Nil)

text \<open>
  C12. Publication refines the broker's state machine: run on a run that is ready for publication, the events that
  \<open>publishFinalizedRunV4\<close> appended before it returned or failed are accepted by the reducer one after the other, with one
  exception. When it returns and the adapter's merge answer names the pull request the adapter had named when it was
  found or created, the events take the run to FINALIZED, its head the merge commit of that pull request. When the
  merge answer names another pull request, the code records it all the same, and the RUN_MERGED event is refused:
  this is the only event that can be refused.
\<close>

theorem publication_follows_the_run:
  assumes "ready_run i r"
  shows "case publishFinalizedRunV4 env i [] of
     (l, Inl _) \<Rightarrow> events_accepted env r l
   | (l, Inr x) \<Rightarrow> publication_outcome env r l x"
  using publication_tracks [OF assms, of env] by (simp add: wp_def)

lemma tail_extends:
  assumes "run_step r ev = Inr t"
  shows "merged_run t evs x \<Longrightarrow> merged_run r (ev # evs) x"
  by (simp add: merged_run_def assms)

text \<open>
  C14. A publication calls nothing, not even a lock, unless it is permitted: the policy has the hash the run was contracted
  under and enables publication to an allowed base branch, the contract carries its own hash and does not prohibit
  publication, the finalized run is the contract's, and where the host requires provenance, the evidence carries the
  hash of its own body, the trusted key signed this hash, and the body describes this run under its contract,
  policy and profile, this commit, this tree, this diff and this review.
\<close>

theorem publication_needs_permission:
  assumes "fst (publishFinalizedRunV4 env i l) \<noteq> l"
  shows "pp_enabled (po_publication (pi_policy i)) \<and>
    pp_baseBranch (po_publication (pi_policy i)) \<in> set (po_allowedBranches (pi_policy i)) \<and>
    \<not> publication_prohibited env (pi_contract i) \<and>
    wc_policy_hash (pi_contract i) = pe_policy_hash env (pi_policy i) \<and>
    wc_contract_hash (pi_contract i) = pe_contract_hash env ((pi_contract i)\<lparr>wc_contract_hash := []\<rparr>) \<and>
    fr_run_id (pi_finalized i) = wc_run_id (pi_contract i) \<and>
    (\<forall>evidence key. pi_gate i = Some (GATE_REQUIRED evidence key) \<longrightarrow>
       (\<exists>v. evidence = Some v \<and> pve_verify (pe_provenance env) key (pv_provenance_hash v) (pv_signature v) \<and>
          pve_key_id (pe_provenance env) key = Some (pv_signer_key_id v) \<and>
          pv_provenance_hash v = pve_hash (pe_provenance env) (provenance_body.truncate v) \<and>
          pv_contract_hash v = wc_contract_hash (pi_contract i) \<and> pv_policy_hash v = pe_policy_hash env (pi_policy i) \<and>
          pv_profile_hash v = wc_profile_hash (pi_contract i) \<and> pv_evidence_tree_hash v = fr_evidence_tree_hash (pi_finalized i) \<and>
          pv_commit_sha v = fr_commit_sha (pi_finalized i) \<and> pv_git_tree_sha v = fr_git_tree_sha (pi_finalized i) \<and>
          pv_diff_hash v = fr_diff_hash (pi_finalized i) \<and> pv_run_id v = wc_run_id (pi_contract i) \<and>
          pv_review_attestation_hash v = fr_review_attestation_hash (pi_finalized i)))"
proof -
  obtain h where h: "verify env i = Inr h"
  proof (cases "verify env i")
    case (Inl e)
    then have "fst (publishFinalizedRunV4 env i l) = l" by (simp add: publishFinalizedRunV4_def ioBind_def ioLift_def)
    with assms show ?thesis by contradiction
  qed
  note identity = identified_publication [OF verified_publication(1) [OF h]]
  have gate: "\<exists>v. evidence = Some v \<and> pve_verify (pe_provenance env) key (pv_provenance_hash v) (pv_signature v) \<and>
          pve_key_id (pe_provenance env) key = Some (pv_signer_key_id v) \<and>
          pv_provenance_hash v = pve_hash (pe_provenance env) (provenance_body.truncate v) \<and>
          pv_contract_hash v = wc_contract_hash (pi_contract i) \<and> pv_policy_hash v = pe_policy_hash env (pi_policy i) \<and>
          pv_profile_hash v = wc_profile_hash (pi_contract i) \<and> pv_evidence_tree_hash v = fr_evidence_tree_hash (pi_finalized i) \<and>
          pv_commit_sha v = fr_commit_sha (pi_finalized i) \<and> pv_git_tree_sha v = fr_git_tree_sha (pi_finalized i) \<and>
          pv_diff_hash v = fr_diff_hash (pi_finalized i) \<and> pv_run_id v = wc_run_id (pi_contract i) \<and>
          pv_review_attestation_hash v = fr_review_attestation_hash (pi_finalized i)"
    if "pi_gate i = Some (GATE_REQUIRED evidence key)" for evidence key
  proof -
    from passed_gate [OF verified_publication(2) [OF h] that] obtain v where v: "evidence = Some v"
      and checked: "verifyDelegationProvenanceV4 (pe_provenance env) v (provenance_binding_of i h) key = Inr v" and "describes_run i v"
      by blast
    with verified_provenance(2-8) [OF checked] identity(1) show ?thesis by (simp add: describes_run_def provenance_binding_of_def)
  qed
  from verified_publication(3-5) [OF h] identity gate show ?thesis by simp
qed

section \<open>A run from review to the merge\<close>

text \<open>
  C10. Finalization and publication compose: when both return, the second on what the first returned, and the merge
  answer names the pull request that was found or created, the event of the first followed by the events of the
  second are accepted one after the other from the run that was accepted in review, and end in FINALIZED with the
  merge commit as its head.
\<close>

theorem accepted_run_is_published:
  assumes "snd (finalizeRun fenv i []) = Inr x" and "accepted_run r i"
    and "pi_contract p = fi_contract i" and "pi_finalized p = x" and "publishFinalizedRunV4 penv p [] = (l, Inr y)"
    and "names_same (named_pull_request penv l) (pq_number (pd_pull_request y)) (pq_url (pd_pull_request y))"
  shows "\<exists>m k. CALL (APPEND_COMMIT (RUN_EVENT k (wc_run_id (fi_contract i)) (COMMIT_CREATED m))) \<in> set (fst (finalizeRun fenv i [])) \<and>
    cm_commit_sha m = fr_commit_sha x \<and> merged_run r (COMMIT_CREATED m # publication_events l) y"
proof -
  obtain k where "finalizeRun fenv i [] = (k, Inr x)" using assms(1) by (cases "finalizeRun fenv i []") simp
  with wp_result [OF finalize_commits this]
  obtain a entries tree commit before where a: "verifyEvidence fenv i = Inr a"
    and log: "fst (finalizeRun fenv i []) = [RELEASE_RUN_LOCK, RELEASE_REPOSITORY_LOCK] @
        CALL (APPEND_COMMIT (commit_command i a tree commit)) # before"
    and x: "x = finalized_of i a tree commit" by (metis fst_conv)
  from log have k: "CALL (APPEND_COMMIT (commit_command i a tree commit)) \<in> set (fst (finalizeRun fenv i []))" by simp
  from accepted_commit [OF assms(2) a, of tree commit] obtain t where
    t: "run_step r (COMMIT_CREATED (commit_created_of i a tree commit)) = Inr t" and t': "rs_contract t = rs_contract r"
    "rr_state (rs_result t) = S_READY_FOR_PUBLICATION" "rr_commit_sha (rs_result t) = Some commit"
    "rr_branch (rs_result t) = rr_branch (rs_result r)" by blast
  from t' assms(2-4) x have "ready_run p t"
    by (simp add: ready_run_def accepted_run_def finalized_of_def publication_branch_def)
  from wp_result [OF publication_tracks [OF this] assms(5)] assms(6) have "merged_run t (publication_events l) y"
    by (simp add: publication_outcome_def)
  from tail_extends [OF t this] k show ?thesis
    by (auto simp: commit_command_def Let_def x finalized_of_def commit_created_of_def)
qed

section \<open>The run that is not published\<close>

text \<open>
  Skipping and publishing exclude each other, and a skip ends the run: a skip that returns appended one event,
  \<open>PUBLICATION_SKIPPED\<close>, which the reducer accepts for a run ready for publication and which makes it FINALIZED, and
  \<open>publishFinalizedRunV4\<close> fails on the same input without a call.
\<close>

theorem skipped_run_is_finalized:
  assumes "skipFinalizedRunPublicationV4 env i [] = (l, Inr u)" and "ready_run i r"
  shows "\<exists>t. foldR run_step r (publication_events l) = Inr t \<and> rr_state (rs_result t) = S_FINALIZED \<and>
    pu_state (rr_publication (rs_result t)) = SKIPPED \<and> (\<exists>e. publishFinalizedRunV4 env i k = (k, Inl e))"
proof -
  from assms(1) obtain h reason where h: "publicationIdentity env i = Inr h" and reason: "skip_reason_of env i = Some reason"
    and l: "l = [CALL (APPEND_PUBLICATION (publication_event i ''publication-skipped:'' (skipped_event i h reason)))]"
    by (auto simp: skipFinalizedRunPublicationV4_def ioBind_def ioLift_def append_publication_def log_call_def
        split: sum.splits option.splits)
  have "verify env i \<noteq> Inr g" for g
    using reason by (auto simp: verify_def skip_reason_of_def split: if_splits)
  then obtain e where "verify env i = Inl e" by (cases "verify env i") auto
  then have "publishFinalizedRunV4 env i k = (k, Inl e)" by (simp add: publishFinalizedRunV4_def ioBind_def ioLift_def)
  with assms(2) identified_publication(2) [OF h] show ?thesis
    by (simp add: l publication_event_def Let_def ready_run_def run_step_def terminal_state_def skipped_event_def skip_step_def)
qed

end
