(* ===== verification/Publication_Samples.thy ===== *)
theory Publication_Samples
  imports Publication_Properties Samples
begin

text \<open>
  One run finalized, published and, under a policy that disables publication, skipped: the concrete inputs
  at which the theorems on finalization and publication are applied.
\<close>

section \<open>A finalization\<close>

definition sample_commit :: string where
  "sample_commit = replicate 40 CHR ''c''"

definition sample_tree :: string where
  "sample_tree = replicate 40 CHR ''d''"

definition sample_bytes :: string where
  "sample_bytes = ''reviewed''"

definition sample_diff :: diff_result where
  "sample_diff = \<lparr>dr_changes = [\<lparr>dc_path = ''src/a.ts'', dc_operation = MODIFY, dc_content_hash = Some (hash_of CHR ''a'')\<rparr>,
     \<lparr>dc_path = ''src/old.ts'', dc_operation = DELETE, dc_content_hash = None\<rparr>],
     dr_changed_files = 2, dr_changed_lines = 3, dr_diff_hash = hash_of CHR ''b'', dr_tree_hash = hash_of CHR ''e''\<rparr>"

definition sample_artifact :: artifact_reference where
  "sample_artifact = \<lparr>af_kind = ''log'', af_content_hash = hash_of CHR ''0'', af_byte_length = 0, af_storage_key = ''k''\<rparr>"

definition sample_evidence :: validation_evidence where
  "sample_evidence = \<lparr>ve_validation_id = ''unit'', ve_passed = True, ve_failure_code = None, ve_policy_hash = hash_of CHR ''5'',
     ve_sandbox_policy_hash = hash_of CHR ''4'', ve_sandbox_backend_id = ''docker'', ve_sandbox_certification_hash = hash_of CHR ''4'',
     ve_exit_code = Some 0, ve_duration_ms = 5, ve_stdout_preview = [], ve_stderr_preview = [],
     ve_stdout_artifact = sample_artifact, ve_stderr_artifact = sample_artifact, ve_validated_tree_hash = hash_of CHR ''e'',
     ve_result_hash = hash_of CHR ''f''\<rparr>"

definition sample_review :: review_attestation where
  "sample_review = \<lparr>ra_review_id = ''review'', ra_reviewer_binding_ref = ''reviewer'', ra_reviewer_session_id = ''session'',
     ra_run_id = ''run_0123456789abcdef'', ra_contract_hash = hash_of CHR ''7'', ra_base_sha = replicate 40 CHR ''2'',
     ra_reviewed_tree_hash = hash_of CHR ''e'', ra_reviewed_diff_hash = hash_of CHR ''b'',
     ra_validation_manifest_hash = hash_of CHR ''9'', ra_decision = ACCEPT, ra_findings = [], ra_requested_context_hashes = [],
     ra_unresolved_finding_ids = [], ra_created_at = ''2026-01-02T03:04:05Z'', ra_attestation_hash = hash_of CHR ''1''\<rparr>"

definition sample_finalization :: finalize_input where
  "sample_finalization = \<lparr>fi_contract = sample_contract, fi_expected_policy_hash = hash_of CHR ''5'',
     fi_expected_profile_hash = hash_of CHR ''6'', fi_accepted_diff = sample_diff,
     fi_validation_manifest = \<lparr>vm_results = [sample_evidence], vm_manifest_hash = hash_of CHR ''9''\<rparr>,
     fi_review_attestation = sample_review, fi_reviewer_session_id = ''session'', fi_prior_session_ids = [''executor''],
     fi_task_ref = ''refs/heads/codex/auto/run_0123456789abcdef'', fi_expected_old_sha = replicate 40 CHR ''2'',
     fi_commit_message = ''m'', fi_author_name = ''n'', fi_author_email = ''e'', fi_author_timestamp = ''t''\<rparr>"

definition open_locks :: "'c lock_ports" where
  "open_locks = \<lparr>lk_acquire_run = (\<lambda>_. Inr ()), lk_acquire_repository = (\<lambda>_. Inr ())\<rparr>"

text \<open>The reference is the base until it has been updated.\<close>

fun ref_updated :: "finalize_log \<Rightarrow> bool" where
  "ref_updated [] = False"
| "ref_updated (CALL (UPDATE_TASK_REF _ _ _) # _) = True"
| "ref_updated (_ # l) = ref_updated l"

definition sample_finalize_env :: finalize_env where
  "sample_finalize_env = \<lparr>fe_contract_hash = (\<lambda>_. hash_of CHR ''7''), fe_diff_hash = dr_diff_hash,
     fe_manifest_hash = (\<lambda>_. hash_of CHR ''9''), fe_validation_hash = (\<lambda>_. hash_of CHR ''f''),
     fe_attestation_hash = (\<lambda>_. hash_of CHR ''1''),
     fe_sha256 = (\<lambda>b. if b = sample_bytes then hash_of CHR ''a'' else hash_of CHR ''0''), fe_fold = to_lower,
     fe_locks = open_locks, fe_reinspect_diff = (\<lambda>_. Inr sample_diff),
     fe_snapshot_accepted_tree = (\<lambda>_. Inr [\<lparr>te_path = ''src/a.ts'', te_mode = ''100644'', te_bytes = sample_bytes\<rparr>]),
     fe_write_accepted_tree = (\<lambda>_. Inr sample_tree), fe_create_commit = (\<lambda>_. Inr sample_commit),
     fe_read_task_ref = (\<lambda>l. Inr (Some (if ref_updated l then sample_commit else replicate 40 CHR ''2''))),
     fe_update_task_ref = (\<lambda>_. Inr ()), fe_append_commit = (\<lambda>_. Inr ())\<rparr>"

definition sample_finalized :: finalized_run where
  "sample_finalized = finalized_of sample_finalization sample_review sample_tree sample_commit"

lemma sample_run_finalized: "snd (finalizeRun sample_finalize_env sample_finalization []) = Inr sample_finalized"
  by code_simp

lemma sample_commit_appended:
  "CALL (APPEND_COMMIT (commit_command sample_finalization sample_review sample_tree sample_commit))
     \<in> set (fst (finalizeRun sample_finalize_env sample_finalization []))"
  by code_simp

definition sample_accepted_run :: run_state where
  "sample_accepted_run = \<lparr>rs_contract = sample_contract,
     rs_result = sample_result\<lparr>rr_state := S_REVIEW_ACCEPTED, rr_diff_hash := hash_of CHR ''b'', rr_tree_hash := hash_of CHR ''e'',
       rr_review_attestation_hash := Some (hash_of CHR ''1'')\<rparr>,
     rs_request_hash = hash_of CHR ''0'', rs_inspection_epoch = 2, rs_inspection_required = False, rs_external_process = None,
     rs_review_verdict = None\<rparr>"

lemma sample_run_accepted: "accepted_run sample_accepted_run sample_finalization"
  by code_simp

section \<open>A publication\<close>

definition sample_policy :: "bool \<Rightarrow> repository_policy" where
  "sample_policy enabled = \<lparr>po_repositoryId = ''repo'', po_allowedBranches = [''main''], po_worktreeParentRef = ''w'',
     po_frontierRiskClasses = [], po_frontierTaskClasses = [], po_frontierPaths = [], po_frontierSourceSensitivity = [],
     po_validation = [], po_dataScope = SOURCE_CODE_ONLY, po_sourceSensitivity = PUBLIC, po_requiredBackend = ''docker'',
     po_requiredProfiles = [], po_approvedSources = [],
     po_publication = \<lparr>pp_enabled = enabled, pp_remote = ''origin'', pp_baseBranch = ''main'', pp_mergeMethod = squash,
       pp_requireRequiredChecks = True, pp_timeoutSeconds = 600\<rparr>\<rparr>"

definition sample_provenance :: provenance where
  "sample_provenance = \<lparr>pv_run_id = ''run_0123456789abcdef'', pv_route = ROUTE_ECONOMY, pv_disposition = DELEGATED,
     pv_contract_hash = hash_of CHR ''7'', pv_policy_hash = hash_of CHR ''5'', pv_profile_hash = hash_of CHR ''6'',
     pv_worker_capability_hash = Some (hash_of CHR ''3''), pv_base_sha = replicate 40 CHR ''2'', pv_commit_sha = sample_commit,
     pv_git_tree_sha = sample_tree, pv_evidence_tree_hash = hash_of CHR ''e'', pv_diff_hash = hash_of CHR ''b'',
     pv_validation_manifest_hash = hash_of CHR ''9'', pv_review_attestation_hash = hash_of CHR ''1'',
     pv_accepted_story_receipt_hashes = [hash_of CHR ''8''], pv_frontier_decision_hashes = [], pv_exemption = None,
     pv_created_at = ''2026-01-02T03:04:05Z'', pv_provenance_hash = hash_of CHR ''4'', pv_signer_key_id = hash_of CHR ''2'',
     pv_signature = ''c2ln''\<rparr>"

definition sample_publication_input :: "bool \<Rightarrow> publication_input" where
  "sample_publication_input enabled = \<lparr>pi_contract = sample_contract, pi_finalized = sample_finalized,
     pi_policy = sample_policy enabled, pi_expected_policy_hash = hash_of CHR ''5'', pi_title = ''title'', pi_body = ''body'',
     pi_gate = Some (GATE_REQUIRED (Some sample_provenance) ''key'')\<rparr>"

definition sample_pull_request :: "pull_request_state \<Rightarrow> string option \<Rightarrow> pull_request" where
  "sample_pull_request state merge = \<lparr>pq_number = 7, pq_url = ''https://github.com/o/r/pull/7'', pq_state = state,
     pq_head_sha = sample_commit, pq_head_branch = ''codex/auto/run_0123456789abcdef'', pq_base_branch = ''main'',
     pq_merge_commit_sha = merge\<rparr>"

definition sample_publication_env :: publication_env where
  "sample_publication_env = \<lparr>pe_policy_hash = (\<lambda>_. hash_of CHR ''5''), pe_contract_hash = (\<lambda>_. hash_of CHR ''7''),
     pe_fold = to_lower,
     pe_provenance = \<lparr>pve_hash = (\<lambda>_. hash_of CHR ''4''), pve_datetime_ok = (\<lambda>_. True),
       pve_key_id = (\<lambda>k. if k = ''key'' then Some (hash_of CHR ''2'') else None),
       pve_verify = (\<lambda>k h s. s = ''c2ln''), pve_base64 = (\<lambda>s. s)\<rparr>,
     pe_locks = open_locks, pe_push_exact = (\<lambda>_. Inr sample_commit), pe_find_pull_request = (\<lambda>_. Inr None),
     pe_create_pull_request = (\<lambda>_. Inr (sample_pull_request OPEN_PR None)), pe_wait_for_required_checks = (\<lambda>_. Inr ()),
     pe_merge_pull_request = (\<lambda>_. Inr (sample_pull_request MERGED_PR (Some (replicate 40 CHR ''a'')))),
     pe_append = (\<lambda>_. Inr ())\<rparr>"

definition sample_ready_run :: run_state where
  "sample_ready_run = sample_accepted_run\<lparr>rs_result := (rs_result sample_accepted_run)\<lparr>rr_state := S_READY_FOR_PUBLICATION,
     rr_head_sha := Some sample_commit, rr_commit_sha := Some sample_commit\<rparr>\<rparr>"

lemma sample_run_ready: "ready_run (sample_publication_input b) sample_ready_run"
  by (cases b) code_simp+

definition sample_published :: published_run where
  "sample_published = \<lparr>pd_pull_request = sample_pull_request MERGED_PR (Some (replicate 40 CHR ''a'')),
     pd_run_id = ''run_0123456789abcdef'', pd_local_commit_sha = sample_commit\<rparr>"

definition sample_publication_log :: publication_log where
  "sample_publication_log = fst (publishFinalizedRunV4 sample_publication_env (sample_publication_input True) [])"

lemma sample_publication:
  "publishFinalizedRunV4 sample_publication_env (sample_publication_input True) [] = (sample_publication_log, Inr sample_published)"
proof -
  have "snd (publishFinalizedRunV4 sample_publication_env (sample_publication_input True) []) = Inr sample_published" by code_simp
  then show ?thesis by (simp add: sample_publication_log_def prod_eq_iff)
qed

lemma sample_publication_length: "length sample_publication_log = 13"
  by code_simp

section \<open>The theorems at these inputs\<close>

theorem commit_rests_on_accepted_evidence_witness:
  "\<exists>(a :: review_attestation) after before entries tree commit. fst (finalizeRun sample_finalize_env sample_finalization []) = after @
     CALL (APPEND_COMMIT (commit_command sample_finalization sample_review sample_tree sample_commit)) # before \<and>
     committed sample_finalize_env sample_finalization entries tree commit before \<and> ra_decision a = ACCEPT"
  using commit_rests_on_accepted_evidence [OF sample_commit_appended] by blast

theorem finalized_run_is_ready_for_publication_witness:
  "\<exists>m r'. run_step sample_accepted_run (COMMIT_CREATED m) = Inr r' \<and> rr_state (rs_result r') = S_READY_FOR_PUBLICATION \<and>
     rr_commit_sha (rs_result r') = Some (fr_commit_sha sample_finalized)"
  using finalized_run_is_ready_for_publication [OF sample_run_finalized sample_run_accepted] by blast

lemma sample_merge_names: "names_same (named_pull_request sample_publication_env sample_publication_log)
    (pq_number (pd_pull_request sample_published)) (pq_url (pd_pull_request sample_published))"
  by code_simp

theorem publication_follows_the_run_witness:
  "merged_run sample_ready_run (publication_events sample_publication_log) sample_published"
  using publication_follows_the_run [OF sample_run_ready, of sample_publication_env True] sample_merge_names
  by (simp add: sample_publication publication_outcome_def)

theorem publication_needs_permission_witness:
  "pp_enabled (po_publication (sample_policy True)) \<and> pv_commit_sha sample_provenance = fr_commit_sha sample_finalized"
proof -
  have "fst (publishFinalizedRunV4 sample_publication_env (sample_publication_input True) []) \<noteq> []"
    using sample_publication_length by (auto simp: sample_publication)
  from publication_needs_permission [OF this] show ?thesis by (simp add: sample_publication_input_def)
qed

theorem accepted_run_is_published_witness:
  "\<exists>m. merged_run sample_accepted_run (COMMIT_CREATED m # publication_events sample_publication_log) sample_published"
proof -
  have "pi_contract (sample_publication_input True) = fi_contract sample_finalization"
    "pi_finalized (sample_publication_input True) = sample_finalized"
    by (simp_all add: sample_publication_input_def sample_finalization_def)
  from accepted_run_is_published [OF sample_run_finalized sample_run_accepted this sample_publication sample_merge_names]
  show ?thesis by blast
qed

theorem skipped_run_is_finalized_witness:
  "\<exists>l t. foldR run_step sample_ready_run (publication_events l) = Inr t \<and> rr_state (rs_result t) = S_FINALIZED"
proof -
  have "snd (skipFinalizedRunPublicationV4 sample_publication_env (sample_publication_input False) []) = Inr ()" by code_simp
  then obtain l where "skipFinalizedRunPublicationV4 sample_publication_env (sample_publication_input False) [] = (l, Inr ())"
    by (metis prod.collapse)
  from skipped_run_is_finalized [OF this sample_run_ready] show ?thesis by blast
qed

end
