(* ===== verification/Story_Supervisor.thy ===== *)
theory Story_Supervisor
  imports Story_Control
begin

text \<open>
  runtime/frontier-supervisor.ts, \<open>runFrontierSupervisorV4\<close>: the loop that runs the story executor under
  FRONTIER_LED control, asks the frontier for a decision on every rejection and runs it again with the
  recorded history and that decision.

  The ports of the executor see the calls of all earlier runs (\<open>after_calls\<close>). The decision port answers
  as a function of those calls and of the question it is asked.
\<close>

section \<open>The supervisor\<close>

record supervisor_decision =
  sd_decision_id :: string
  sd_decision_owner_ref :: string
  sd_authority_evidence_hash :: string
  sd_action :: decision_action

record supervisor_question =
  su_rejected_event :: iteration_event
  su_tree_hash :: string
  su_accepted_story_ids :: "string list"
  su_decision_index :: int

type_synonym decide_port = "executor_log \<Rightarrow> supervisor_question \<Rightarrow> supervisor_decision result"

definition supervisorDecisionSchema :: "supervisor_decision \<Rightarrow> bool" where
  "supervisorDecisionSchema d =
     (tagged_id ''decision_'' 4 96 (sd_decision_id d) \<and> reference_ok (sd_decision_owner_ref d) \<and>
      is_hash (sd_authority_evidence_hash d))"

definition after_calls :: "executor_log \<Rightarrow> executor_env \<Rightarrow> executor_env" where
  "after_calls past env = env
     \<lparr>xe_create_session_id := \<lambda>l. xe_create_session_id env (l @ past),
      xe_load_repair_packet := \<lambda>l. xe_load_repair_packet env (l @ past),
      xe_execute := \<lambda>l. xe_execute env (l @ past), xe_validate := \<lambda>l. xe_validate env (l @ past),
      xe_review := \<lambda>l. xe_review env (l @ past), xe_persist_iteration := \<lambda>l. xe_persist_iteration env (l @ past),
      xe_persist_frontier_decision := map_option (\<lambda>f l. f (l @ past)) (xe_persist_frontier_decision env)\<rparr>"

definition led_request :: "execution_request \<Rightarrow> durable_history \<Rightarrow> decision_input option \<Rightarrow> execution_request" where
  "led_request q h d = q\<lparr>xq_prior_events := fst h, xq_prior_frontier_decisions := Some (snd h),
     xq_review_control := Some \<lparr>vc_mode = FRONTIER_LED, vc_frontier_decision = d\<rparr>\<rparr>"

text \<open>What follows an awaiting result: the error, or the decision the next run is given.\<close>

definition ask_frontier :: "decide_port \<Rightarrow> int \<Rightarrow> executor_log \<Rightarrow> execution_result \<Rightarrow> decision_input result" where
  "ask_frontier decide budget past x =
     throw_if (int (length (xr_frontier_decisions x)) \<ge> budget)
       (Error SUPERVISOR_BUDGET_EXHAUSTED ''frontier decision budget reached'')
     (throw_if (xr_events x = [] \<or> it_outcome (last (xr_events x)) \<noteq> IT_RETRY)
       (Error SUPERVISOR_POLICY_VIOLATION ''pending frontier decision lacks rejected evidence'')
     (let rejected = last (xr_events x) in
      bindR (decide past \<lparr>su_rejected_event = rejected, su_tree_hash = xr_tree_hash x,
          su_accepted_story_ids = map rc_story_id (xr_accepted_receipts x),
          su_decision_index = int (length (xr_frontier_decisions x)) + 1\<rparr>) (\<lambda>d.
      throw_if (\<not> supervisorDecisionSchema d)
        (Error SUPERVISOR_POLICY_VIOLATION ''frontier returned an invalid decision'')
      (Inr \<lparr>dn_decision_id = sd_decision_id d, dn_decision_owner_ref = sd_decision_owner_ref d,
            dn_authority_evidence_hash = sd_authority_evidence_hash d, dn_rejected_event_hash = it_event_hash rejected,
            dn_action = sd_action d\<rparr>))))"

text \<open>
  The loop on fuel, with the history and the calls so far; \<open>None\<close> is a loop that is still running when the
  rounds are used up. Every round but the first records a decision, so the budget of at most 64 decisions bounds
  the rounds.
\<close>

fun supervise ::
    "executor_env \<Rightarrow> decide_port \<Rightarrow> int \<Rightarrow> execution_request \<Rightarrow> nat \<Rightarrow> decision_input option \<Rightarrow> durable_history \<Rightarrow> executor_log \<Rightarrow>
     ((durable_history \<times> executor_log) \<times> execution_result result) option" where
  "supervise env decide budget q 0 d h past = None"
| "supervise env decide budget q (Suc n) d h past =
     (case runIterativeExecutorV4 (after_calls past env) (led_request q h d) of ((h', l), r) \<Rightarrow>
      (case r of
         Inl e \<Rightarrow> Some ((h', l @ past), Inl e)
       | Inr x \<Rightarrow>
           if xr_status x \<noteq> RUN_AWAITING_FRONTIER_DECISION then Some ((h', l @ past), Inr x)
           else case ask_frontier decide budget (l @ past) x of
               Inl e \<Rightarrow> Some ((h', l @ past), Inl e)
             | Inr k \<Rightarrow> supervise env decide budget q n (Some k) (xr_events x, xr_frontier_decisions x) (l @ past)))"

definition prior_history :: "execution_request \<Rightarrow> durable_history" where
  "prior_history q = (xq_prior_events q, case xq_prior_frontier_decisions q of None \<Rightarrow> [] | Some ds \<Rightarrow> ds)"

definition runFrontierSupervisorV4 ::
    "executor_env \<Rightarrow> decide_port \<Rightarrow> int \<Rightarrow> execution_request \<Rightarrow> (durable_history \<times> executor_log) \<times> execution_result result" where
  "runFrontierSupervisorV4 env decide budget q =
     (if budget < 1 \<or> budget > 64
      then ((prior_history q, []), Inl (story_invalid ''supervisor frontier decision budget is invalid''))
      else case supervise env decide budget q (nat budget + 1) None (prior_history q) [] of
          None \<Rightarrow> ((prior_history q, []), Inl (Error RANGE_ERROR ''does not terminate''))
        | Some out \<Rightarrow> out)"

section \<open>The executor under the supervisor\<close>

text \<open>Neither the hashes nor what a request is prepared to depend on the calls so far.\<close>

lemma after_calls_fields [simp]:
  "se_contract_hash (after_calls past env) = se_contract_hash env" "se_worker_hash (after_calls past env) = se_worker_hash env"
  "se_story_hash (after_calls past env) = se_story_hash env" "se_plan_hash (after_calls past env) = se_plan_hash env"
  "se_locale_compare (after_calls past env) = se_locale_compare env" "se_packet_hash (after_calls past env) = se_packet_hash env"
  "se_event_hash (after_calls past env) = se_event_hash env" "se_decision_hash (after_calls past env) = se_decision_hash env"
  "se_failure_hash (after_calls past env) = se_failure_hash env" "hashes_ok (after_calls past env) = hashes_ok env"
  by (simp_all add: after_calls_def hashes_ok_def)

lemma led_request_fields [simp]:
  "xq_contract (led_request q h d) = xq_contract q" "xq_worker (led_request q h d) = xq_worker q"
  "xq_plan (led_request q h d) = xq_plan q" "xq_initial_tree_hash (led_request q h d) = xq_initial_tree_hash q"
  "xq_prior_events (led_request q h d) = fst h" "supplied_decisions (led_request q h d) = snd h"
  "supplied_control (led_request q h d) = \<lparr>vc_mode = FRONTIER_LED, vc_frontier_decision = d\<rparr>"
  by (simp_all add: led_request_def supplied_decisions_def supplied_control_def)

lemma led_prepared:
  assumes "prepare env (led_request q h d) = Inr p"
  shows "pp_mode p = FRONTIER_LED" and "pp_decision p = d"
  using assms by (auto simp: prepare_steps)

text \<open>Decisions are recorded before the loop, and never in it.\<close>

lemma keeps_call_port [keeps_rules]:
  "(\<And>c l. P (c\<lparr>ex_log := l\<rparr>) = P c) \<Longrightarrow> keeps P (call_port call answer)"
  by (rule keepsI) (simp split: sum.split)

lemma keeps_persist_events [keeps_rules]:
  "keeps (\<lambda>c. ex_decisions c = ds) (persist_call call answer add)"
  by (rule keepsI) (simp split: persist_answer.split)

lemma keeps_decisions:
  "keeps (\<lambda>c. ex_decisions c = ds) (attempt_story env plan worker mode story att)"
  unfolding attempt_story_def session_step_def repair_step_def execute_step_def examine_def validate_step_def review_step_def
    conclude_def persist_step_def record_step_def
  by (intro keeps_rules; (rule keepsI)?; simp)

lemma wp_always: "(\<And>x c. Q x c) \<Longrightarrow> (\<And>c. E c) \<Longrightarrow> wp m Q E c"
  by (simp add: wp_def split: prod.split sum.split)

definition reported :: "(exec, execution_result option) io \<Rightarrow> bool" where
  "reported m = (\<forall>c. wp m (\<lambda>r d. \<forall>x. r = Some x \<longrightarrow> xr_frontier_decisions x = ex_decisions d) (\<lambda>_. True) c)"

lemma reported_bind: "(\<And>x. reported (k x)) \<Longrightarrow> reported (ioBind m k)"
  unfolding reported_def wp_bind by (blast intro: wp_always)

lemma reported_attempt: "reported (attempt_story env plan worker mode story att)"
proof -
  have "reported (ioGet (after_iteration mode e))" for e
    by (simp add: reported_def after_iteration_def result_now_def split: iteration_outcome.split)
  then show ?thesis
    unfolding attempt_story_def examine_def conclude_def by (intro reported_bind)
qed

lemma iterate_keeps_decisions:
  "wp (iterate env plan worker mode) (\<lambda>r d. ex_decisions d = ex_decisions c \<and> (\<forall>x. r = Some x \<longrightarrow> xr_frontier_decisions x = ex_decisions c))
    (\<lambda>_. True) c"
proof -
  have "wp (attempt_story env plan worker mode story att)
      (\<lambda>r d. ex_decisions d = ex_decisions c \<and> (\<forall>x. r = Some x \<longrightarrow> xr_frontier_decisions x = ex_decisions c)) (\<lambda>_. True) c"
    for story att
  proof -
    have "wp (attempt_story env plan worker mode story att) (\<lambda>_ d. ex_decisions d = ex_decisions c) (\<lambda>_. True) c"
      using keeps_decisions [of "ex_decisions c" env plan worker mode story att] by (auto simp: keeps_def elim: wp_mono)
    moreover have "wp (attempt_story env plan worker mode story att)
        (\<lambda>r d. \<forall>x. r = Some x \<longrightarrow> xr_frontier_decisions x = ex_decisions d) (\<lambda>_. True) c"
      using reported_attempt [of env plan worker mode story att] by (simp add: reported_def)
    ultimately have "wp (attempt_story env plan worker mode story att) (\<lambda>r d. ex_decisions d = ex_decisions c \<and>
        (\<forall>x. r = Some x \<longrightarrow> xr_frontier_decisions x = ex_decisions d)) (\<lambda>_. True) c" by (simp add: wp_conj)
    then show ?thesis by (rule wp_mono) auto
  qed
  then show ?thesis by (simp add: iterate_def result_now_def split: option.split)
qed

lemma loop_keeps_decisions:
  "wp (executor_loop env plan worker mode n) (\<lambda>x d. xr_frontier_decisions x = ex_decisions c) (\<lambda>_. True) c"
proof (induction n arbitrary: c)
  case (Suc n)
  have "wp (iterate env plan worker mode)
      (\<lambda>r. wp (case r of None \<Rightarrow> executor_loop env plan worker mode n | Some x \<Rightarrow> ioRet x)
        (\<lambda>x d. xr_frontier_decisions x = ex_decisions c) (\<lambda>_. True)) (\<lambda>_. True) c"
  proof (rule wp_mono [OF iterate_keeps_decisions])
    fix r :: "execution_result option" and d :: exec
    assume "ex_decisions d = ex_decisions c \<and> (\<forall>x. r = Some x \<longrightarrow> xr_frontier_decisions x = ex_decisions c)"
    with Suc [of d] show "wp (case r of None \<Rightarrow> executor_loop env plan worker mode n | Some x \<Rightarrow> ioRet x)
        (\<lambda>x d. xr_frontier_decisions x = ex_decisions c) (\<lambda>_. True) d" by (cases r) simp_all
  qed simp
  then show ?case by (simp add: result_now_def)
qed simp

text \<open>A run that is given a decision records it, or fails.\<close>

lemma control_records:
  assumes "ex_decisions c = ds"
  shows "wp (frontier_control env plan FRONTIER_LED (Some d) pending)
    (\<lambda>r c'. length (ex_decisions c') = length ds + 1 \<and>
      (\<forall>x. r = Some x \<longrightarrow> xr_frontier_decisions x = ex_decisions c' \<and> xr_status x \<noteq> RUN_AWAITING_FRONTIER_DECISION)) (\<lambda>_. True) c"
proof -
  have rec: "wp (record_decision env plan d) (\<lambda>_ c'. length (ex_decisions c') = length ds + 1) (\<lambda>_. True) c"
    using assms by (auto simp: record_decision_def throw_if_def split: option.split sum.split persist_answer.split)
  show ?thesis
  proof (cases "pending_rejection (ex_state c)")
    case None
    then show ?thesis by (simp add: frontier_control_def throw_if_def)
  next
    case (Some r)
    have "wp (record_decision env plan d)
        (\<lambda>_ c'. wp (if dn_action d = ESCALATE_STORY
           then ioGet (\<lambda>c. Some (result_now RUN_ESCALATE (Some (it_story_id r)) (Some FRONTIER_DECISION) c)) else ioRet None)
          (\<lambda>r c'. length (ex_decisions c') = length ds + 1 \<and>
            (\<forall>x. r = Some x \<longrightarrow> xr_frontier_decisions x = ex_decisions c' \<and> xr_status x \<noteq> RUN_AWAITING_FRONTIER_DECISION))
          (\<lambda>_. True) c') (\<lambda>_. True) c"
      by (rule wp_mono [OF rec]) (simp_all add: result_now_def)
    then show ?thesis by (simp add: frontier_control_def throw_if_def Some)
  qed
qed

definition recorded_decisions :: "decision_input option \<Rightarrow> nat" where
  "recorded_decisions d = (if d = None then 0 else 1)"

lemma control_decisions:
  assumes "ex_decisions c = ds"
  shows "wp (frontier_control env plan FRONTIER_LED d pending)
    (\<lambda>r c'. length (ex_decisions c') = length ds + recorded_decisions d \<and>
      (\<forall>x. r = Some x \<longrightarrow> xr_frontier_decisions x = ex_decisions c')) (\<lambda>_. True) c"
proof (cases d)
  case None
  then show ?thesis using assms
    by (simp add: frontier_control_def throw_if_def recorded_decisions_def result_now_def split: option.split)
next
  case (Some k)
  show ?thesis unfolding Some
    by (rule wp_mono [OF control_records [OF assms, of env plan k pending]]) (simp_all add: recorded_decisions_def)
qed

lemma awaiting_records:
  assumes "prepare env (led_request q h d) = Inr p" and "runIterativeExecutorV4 env (led_request q h d) = (s, Inr x)"
    and "xr_status x = RUN_AWAITING_FRONTIER_DECISION"
  shows "length (xr_frontier_decisions x) = length (snd h) + recorded_decisions d"
proof -
  note p = led_prepared [OF assms(1)] prepare_Inr(7) [OF assms(1)]
  have "wp (run_prepared env p) (\<lambda>x _. xr_status x = RUN_AWAITING_FRONTIER_DECISION \<longrightarrow>
      length (xr_frontier_decisions x) = length (snd h) + recorded_decisions d) (\<lambda>_. True) (entered_run p)"
  proof (cases "ss_escalation (pp_state p) = None \<and> dx_escalation (pp_frontier p) = None")
    case True
    have "wp (frontier_control env (pp_plan p) FRONTIER_LED d (dx_pending (pp_frontier p)))
        (\<lambda>r. wp (case r of Some x \<Rightarrow> ioRet x
          | None \<Rightarrow> executor_loop env (pp_plan p) (pp_worker p) FRONTIER_LED (nat (pl_max_iterations (pp_plan p)) + 1))
         (\<lambda>x _. xr_status x = RUN_AWAITING_FRONTIER_DECISION \<longrightarrow> length (xr_frontier_decisions x) = length (snd h) + recorded_decisions d) (\<lambda>_. True))
        (\<lambda>_. True) (entered_run p)"
    proof (rule wp_mono [OF control_decisions [of "entered_run p" "snd h"]])
      show "ex_decisions (entered_run p) = snd h" using p by simp
      fix r :: "execution_result option" and c :: exec
      assume r: "length (ex_decisions c) = length (snd h) + recorded_decisions d \<and>
        (\<forall>x. r = Some x \<longrightarrow> xr_frontier_decisions x = ex_decisions c)"
      show "wp (case r of Some x \<Rightarrow> ioRet x
          | None \<Rightarrow> executor_loop env (pp_plan p) (pp_worker p) FRONTIER_LED (nat (pl_max_iterations (pp_plan p)) + 1))
         (\<lambda>x _. xr_status x = RUN_AWAITING_FRONTIER_DECISION \<longrightarrow> length (xr_frontier_decisions x) = length (snd h) + recorded_decisions d) (\<lambda>_. True) c"
      proof (cases r)
        case None
        have "wp (executor_loop env (pp_plan p) (pp_worker p) FRONTIER_LED (nat (pl_max_iterations (pp_plan p)) + 1))
            (\<lambda>x _. xr_status x = RUN_AWAITING_FRONTIER_DECISION \<longrightarrow> length (xr_frontier_decisions x) = length (snd h) + recorded_decisions d) (\<lambda>_. True) c"
          by (rule wp_mono [OF loop_keeps_decisions]) (use r in simp_all)
        with None show ?thesis by simp
      qed (use r in simp)
    qed simp
    with True p(1,2) show ?thesis by (simp only: run_prepared_def option.case wp_bind)
  next
    case False
    then show ?thesis by (auto simp: run_prepared_def result_now_def split: option.split)
  qed
  with assms show ?thesis
    by (auto simp: runIterativeExecutorV4_def wp_def split: prod.splits)
qed

section \<open>The supervisor ends\<close>

lemma run_accepted_request: "runIterativeExecutorV4 env q = (s, Inr x) \<Longrightarrow> \<exists>p. prepare env q = Inr p"
  by (cases "prepare env q") (auto simp: runIterativeExecutorV4_def)

lemma ask_frontier_budget: "ask_frontier decide budget past x = Inr k \<Longrightarrow> int (length (xr_frontier_decisions x)) < budget"
  by (auto simp: ask_frontier_def Let_def)

lemma supervise_returns:
  "budget \<le> int (length (snd h)) + int n + int (recorded_decisions d) \<Longrightarrow>
   \<exists>out. \<forall>k. supervise env decide budget q (Suc n + k) d h past = Some out"
proof (induction n arbitrary: d h past)
  case 0
  obtain h' l r where run: "runIterativeExecutorV4 (after_calls past env) (led_request q h d) = ((h', l), r)" by (metis prod.exhaust)
  have last: "\<exists>e. ask_frontier decide budget (l @ past) x = Inl e" if "r = Inr x" and "xr_status x = RUN_AWAITING_FRONTIER_DECISION" for x
    using awaiting_records [OF _ run [unfolded that(1)] that(2)] run_accepted_request [OF run [unfolded that(1)]]
      ask_frontier_budget [of decide budget "l @ past" x] 0 by (cases "ask_frontier decide budget (l @ past) x") auto
  show ?case
  proof (cases r)
    case (Inr x)
    with run last [OF Inr] show ?thesis
      by (cases "ask_frontier decide budget (l @ past) x"; cases "xr_status x = RUN_AWAITING_FRONTIER_DECISION") auto
  qed (simp add: run)
next
  case (Suc n)
  obtain h' l r where run: "runIterativeExecutorV4 (after_calls past env) (led_request q h d) = ((h', l), r)" by (metis prod.exhaust)
  show ?case
  proof (cases "\<exists>x j. r = Inr x \<and> xr_status x = RUN_AWAITING_FRONTIER_DECISION \<and> ask_frontier decide budget (l @ past) x = Inr j")
    case True
    then obtain x j where x: "r = Inr x" "xr_status x = RUN_AWAITING_FRONTIER_DECISION" "ask_frontier decide budget (l @ past) x = Inr j"
      by blast
    have "\<exists>out. \<forall>k. supervise env decide budget q (Suc n + k) (Some j) (xr_events x, xr_frontier_decisions x) (l @ past) = Some out"
      using awaiting_records [OF _ run [unfolded x(1)] x(2)] run_accepted_request [OF run [unfolded x(1)]] Suc.prems
      by (intro Suc.IH) (auto simp: recorded_decisions_def)
    with run x show ?thesis by simp
  next
    case False
    then show ?thesis
    proof (cases r)
      case (Inr x)
      with run False show ?thesis
      by (cases "ask_frontier decide budget (l @ past) x"; cases "xr_status x = RUN_AWAITING_FRONTIER_DECISION") auto
    qed (simp add: run)
  qed
qed

lemma supervisor_rounds:
  assumes "\<not> (budget < 1 \<or> budget > 64)"
  shows "supervise env decide budget q (nat budget + 1 + k) None (prior_history q) [] = Some (runFrontierSupervisorV4 env decide budget q)"
proof -
  obtain out where out: "supervise env decide budget q (Suc (nat budget) + k) None (prior_history q) [] = Some out" for k
    using supervise_returns [of budget "prior_history q" "nat budget" None env decide q "[]"] assms
    by (auto simp: recorded_decisions_def)
  from out [of 0] have "runFrontierSupervisorV4 env decide budget q = out"
    unfolding runFrontierSupervisorV4_def if_not_P [OF assms] by (simp del: supervise.simps)
  with out [of k] show ?thesis by (simp del: supervise.simps)
qed

section \<open>The supervisor's history and result\<close>

lemma plan_after_calls [simp]:
  "loadIterativeStoryPlanV4 (after_calls past env) contract worker p = loadIterativeStoryPlanV4 env contract worker p"
proof -
  have "check_story (after_calls past env) contract = check_story env contract" by (simp add: fun_eq_iff check_story_def)
  then show ?thesis by (simp add: loadIterativeStoryPlanV4_def)
qed

lemma replay_after_calls [simp]:
  "replay_iterations (after_calls past env) plan tree es worker = replay_iterations env plan tree es worker"
proof -
  have "replay_iteration (after_calls past env) plan worker n = replay_iteration env plan worker n" for n
    by (simp add: fun_eq_iff replay_iteration_def)
  moreover have "loadStoryIterationEventV4 (after_calls past env) = loadStoryIterationEventV4 env"
    by (simp add: fun_eq_iff loadStoryIterationEventV4_def)
  ultimately show ?thesis by (simp add: replay_iterations_def)
qed

lemma decisions_after_calls [simp]:
  "replayFrontierDecisions (after_calls past env) plan es ds mode = replayFrontierDecisions env plan es ds mode"
proof -
  have "loadFrontierDecisionEventV4 (after_calls past env) = loadFrontierDecisionEventV4 env"
    by (simp add: fun_eq_iff loadFrontierDecisionEventV4_def)
  then show ?thesis by (simp add: replayFrontierDecisions_def)
qed

lemma prepare_after_calls [simp]: "prepare (after_calls past env) q = prepare env q"
  by (simp add: prepare_def)

text \<open>What an inspection of the history tells, as the result of a run led by the frontier.\<close>

definition supervised_agrees :: "executor_env \<Rightarrow> execution_request \<Rightarrow> durable_history \<Rightarrow> execution_result \<Rightarrow> bool" where
  "supervised_agrees env q h x = (h = (xr_events x, xr_frontier_decisions x) \<and>
     (fresh_hashes (fst h) (snd h) \<longrightarrow> (\<exists>t. inspectIterativeTrajectoryV4 env (xq_contract q) (xq_worker q) (xq_plan q)
        (xq_initial_tree_hash q) (fst h) (Some FRONTIER_LED) (Some (snd h)) = Inr t \<and> agrees x t)))"

lemma led_run:
  assumes "hashes_ok env" and "runIterativeExecutorV4 (after_calls past env) (led_request q h d) = ((g, l), r)"
  shows "extends h g" and "r = Inr x \<Longrightarrow> supervised_agrees env q g x"
proof -
  show "extends h g"
  proof (cases "prepare env (led_request q h d)")
    case (Inl e)
    with assms(2) show ?thesis by (auto simp: runIterativeExecutorV4_def led_request_def)
  next
    case (Inr p)
    then show ?thesis using run_ends(3) [OF _ _ assms(2)] assms(1) by simp
  qed
  assume r: "r = Inr x"
  with run_accepted_request [OF assms(2) [unfolded r]] obtain p where p: "prepare env (led_request q h d) = Inr p" by auto
  from p have p': "prepare (after_calls past env) (led_request q h d) = Inr p" by simp
  from run_ends(4) [OF _ p' assms(2) r] assms(1)
  have rep: "reports (after_calls past env) p (xq_initial_tree_hash q) x g" by simp
  have "\<exists>t. inspectIterativeTrajectoryV4 env (xq_contract q) (xq_worker q) (xq_plan q) (xq_initial_tree_hash q) (fst g)
      (Some FRONTIER_LED) (Some (snd g)) = Inr t \<and> agrees x t" if "fresh_hashes (fst g) (snd g)"
  proof -
    from rep that obtain s f where
      s: "replay_iterations env (pp_plan p) (xq_initial_tree_hash q) (fst g) (pp_worker p) = Inr s"
      and f: "replayFrontierDecisions env (pp_plan p) (fst g) (snd g) FRONTIER_LED = Inr f"
      and a: "agrees x (snapshot_of_state (pp_plan p) s f)" by (auto simp: reports_def led_prepared(1) [OF p])
    have "ss_events s = fst g" using replay_iterations_facts(1) [OF prepare_Inr(5) [OF p] s] .
    with s f prepare_Inr(1,2) [OF p] a show ?thesis by (simp add: inspectIterativeTrajectoryV4_def)
  qed
  with rep show "supervised_agrees env q g x" by (simp add: supervised_agrees_def reports_def)
qed

lemma extends_trans: "extends h g \<Longrightarrow> extends g k \<Longrightarrow> extends h k"
  unfolding extends_def by auto

lemma supervise_facts:
  assumes "hashes_ok env"
  shows "supervise env decide budget q n d h past = Some ((g, l), r) \<Longrightarrow>
    extends h g \<and> (\<forall>x. r = Inr x \<longrightarrow> supervised_agrees env q g x \<and> xr_status x \<noteq> RUN_AWAITING_FRONTIER_DECISION)"
proof (induction n arbitrary: d h past)
  case (Suc n)
  obtain g1 l1 r1 where run: "runIterativeExecutorV4 (after_calls past env) (led_request q h d) = ((g1, l1), r1)"
    by (metis prod.exhaust)
  note led = led_run [OF assms run]
  show ?case
  proof (cases r1)
    case (Inl e)
    with Suc.prems run led(1) show ?thesis by auto
  next
    case (Inr x)
    show ?thesis
    proof (cases "xr_status x = RUN_AWAITING_FRONTIER_DECISION \<and> (\<exists>k. ask_frontier decide budget (l1 @ past) x = Inr k)")
      case True
      then obtain k where k: "ask_frontier decide budget (l1 @ past) x = Inr k" by blast
      with True Suc.prems run Inr
      have "supervise env decide budget q n (Some k) (xr_events x, xr_frontier_decisions x) (l1 @ past) = Some ((g, l), r)" by simp
      from Suc.IH [OF this] led(1) led(2) [OF Inr] extends_trans show ?thesis by (auto simp: supervised_agrees_def)
    next
      case False
      with Suc.prems run Inr led(1) led(2) [OF Inr] show ?thesis by (auto split: if_splits sum.splits)
    qed
  qed
qed auto

section \<open>Properties\<close>

text \<open>
  C15. A supervised run only adds to the durable history, and when it returns, it has reached an end that
  needs no further decision and its result is what a fresh inspection of the history shows.
\<close>

theorem supervised_result_agrees:
  assumes "hashes_ok env" and "runFrontierSupervisorV4 env decide budget q = ((h, l), r)"
  shows "(\<exists>es ds. h = (fst (prior_history q) @ es, snd (prior_history q) @ ds)) \<and>
    (\<forall>x. r = Inr x \<longrightarrow> supervised_agrees env q h x \<and> xr_status x \<noteq> RUN_AWAITING_FRONTIER_DECISION)"
proof (cases "budget < 1 \<or> budget > 64")
  case True
  with assms(2) show ?thesis by (auto simp: runFrontierSupervisorV4_def prior_history_def)
next
  case False
  then have "supervise env decide budget q (nat budget + 1) None (prior_history q) [] = Some ((h, l), r)"
    using supervisor_rounds [of budget env decide q 0] assms(2) by simp
  from supervise_facts [OF assms(1) this] show ?thesis by (simp add: extends_def)
qed

text \<open>
  C16. A supervised run ends: the supervisor returns within one round more than its decision budget, since every
  decision it is given is recorded before the executor can wait again, and more rounds change nothing; and the loop
  of every executor run in it returns or fails within one round more than the iterations of its plan.
\<close>

theorem supervisor_terminates:
  assumes "1 \<le> budget" and "budget \<le> 64"
  shows "supervise env decide budget q (nat budget + 1 + k) None (prior_history q) [] =
      Some (runFrontierSupervisorV4 env decide budget q) \<and>
    snd (executor_rounds (after_calls past env) plan worker mode (nat (pl_max_iterations plan) + 1) c) \<noteq> Inr None"
  using supervisor_rounds [of budget env decide q k] executor_ends assms by simp

text \<open>
  The supervisor admits decision identifiers of 4 characters, the executor asks for 16: a decision the
  supervisor has accepted with a shorter identifier is refused and ends the supervised run.
\<close>

theorem short_decision_refused:
  assumes "1 \<le> budget" and "budget \<le> 64"
    and "runIterativeExecutorV4 (after_calls [] env) (led_request q (prior_history q) None) = ((h, l), Inr x)"
    and "xr_status x = RUN_AWAITING_FRONTIER_DECISION" and "ask_frontier decide budget l x = Inr k"
    and "\<not> decisionId_ok (dn_decision_id k)"
  shows "runFrontierSupervisorV4 env decide budget q =
    (((xr_events x, xr_frontier_decisions x), l), Inl (story_invalid ''review control is invalid''))"
proof -
  from run_accepted_request [OF assms(3)] obtain p where p: "prepare env (led_request q (prior_history q) None) = Inr p" by auto
  have "prepare env (led_request q h' (Some k)) = Inl (story_invalid ''review control is invalid'')" for h'
  proof -
    have "\<not> opt_all frontierDecisionInputSchema (Some k)" using assms(6) by (simp add: opt_all_def frontierDecisionInputSchema_def)
    with prepare_Inr(1,2) [OF p] show ?thesis by (simp add: prepare_def led_request_def)
  qed
  then have "runIterativeExecutorV4 (after_calls l env) (led_request q (xr_events x, xr_frontier_decisions x) (Some k)) =
      (((xr_events x, xr_frontier_decisions x), []), Inl (story_invalid ''review control is invalid''))"
    by (simp add: runIterativeExecutorV4_def) (simp add: led_request_def)
  moreover obtain n where "nat budget = Suc n" using assms(1) by (cases "nat budget") auto
  ultimately show ?thesis using assms supervisor_rounds [of budget env decide q 0] by simp
qed

end
