(* ===== verification/Supervisor_Samples.thy ===== *)
theory Supervisor_Samples
  imports Story_Supervisor Story_Samples
begin

text \<open>
  A supervised run whose only candidate fails its validation: the frontier is asked, decides to escalate,
  and the run ends; with a decision identifier that is too short for the executor, it fails.
\<close>

definition failing_env :: executor_env where
  "failing_env = sample_executor_env
     \<lparr>xe_validate := \<lambda>_. Inr \<lparr>va_passed = False, va_manifest_hash = hash_of CHR ''8'', va_finding_hashes = [hash_of CHR ''a''],
        va_failure_signature_hash = Some (hash_of CHR ''b'')\<rparr>,
      xe_persist_frontier_decision := Some (\<lambda>_. RECORDED)\<rparr>"

definition escalate_as :: "string \<Rightarrow> decide_port" where
  "escalate_as k past question = Inr \<lparr>sd_decision_id = k, sd_decision_owner_ref = ''owner'',
     sd_authority_evidence_hash = hash_of CHR ''c'', sd_action = ESCALATE_STORY\<rparr>"

definition escalation :: decide_port where
  "escalation = escalate_as ''decision_0123456789abcdef''"

definition short_escalation :: decide_port where
  "short_escalation = escalate_as ''decision_abcd''"

lemma failing_hashes_ok: "hashes_ok failing_env"
  using sample_hashes_ok by (simp add: failing_env_def hashes_ok_def)

lemma supervised_sample:
  "case runFrontierSupervisorV4 failing_env escalation 2 (sample_execution []) of
     ((h, l), Inr x) \<Rightarrow> xr_status x = RUN_ESCALATE \<and> length (snd h) = 1 | (_, Inl e) \<Rightarrow> False"
  by code_simp

theorem supervised_result_agrees_witness:
  "\<exists>h l x. runFrontierSupervisorV4 failing_env escalation 2 (sample_execution []) = ((h, l), Inr x) \<and>
     supervised_agrees failing_env (sample_execution []) h x"
proof -
  obtain h l x where run: "runFrontierSupervisorV4 failing_env escalation 2 (sample_execution []) = ((h, l), Inr x)"
    using supervised_sample by (auto split: prod.splits sum.splits)
  from supervised_result_agrees [OF failing_hashes_ok run] run show ?thesis by blast
qed

theorem supervisor_terminates_witness:
  "supervise failing_env escalation 2 (sample_execution []) 6 None (prior_history (sample_execution [])) [] =
   Some (runFrontierSupervisorV4 failing_env escalation 2 (sample_execution []))"
  using supervisor_terminates [of 2 failing_env escalation "sample_execution []" 3] by simp

definition first_round :: "(durable_history \<times> executor_log) \<times> execution_result result" where
  "first_round = runIterativeExecutorV4 (after_calls [] failing_env)
     (led_request (sample_execution []) (prior_history (sample_execution [])) None)"

lemma first_round_awaits:
  "case first_round of
     ((h, l), Inr x) \<Rightarrow> xr_status x = RUN_AWAITING_FRONTIER_DECISION \<and>
       (case ask_frontier short_escalation 2 l x of Inr k \<Rightarrow> \<not> decisionId_ok (dn_decision_id k) | Inl e \<Rightarrow> False)
   | (_, Inl e) \<Rightarrow> False"
  by code_simp

theorem short_decision_refused_witness:
  "snd (runFrontierSupervisorV4 failing_env short_escalation 2 (sample_execution [])) =
     Inl (story_invalid ''review control is invalid'')"
proof -
  obtain h l x where round: "first_round = ((h, l), Inr x)" using first_round_awaits by (auto split: prod.splits sum.splits)
  from first_round_awaits obtain k where "xr_status x = RUN_AWAITING_FRONTIER_DECISION" "ask_frontier short_escalation 2 l x = Inr k"
    "\<not> decisionId_ok (dn_decision_id k)" unfolding round by (auto split: sum.splits)
  from short_decision_refused [OF _ _ round [unfolded first_round_def] this] show ?thesis by simp
qed

end
