(* ===== verification/Spec2Isabelle.thy ===== *)
theory Spec2Isabelle
  imports Idempotency Binding_Health Adaptive_Execution Broker_Daemon Routing Evaluation_Samples Dispatch_Samples Story_Samples Publication_Samples Supervisor_Samples
begin

text \<open>
  Verification development for the agent-orchestration runtime (v4) and its routing pilot (v3).

  \<^bold>\<open>The program.\<close> A broker accepts task requests, derives a work contract for each (which binding executes it, on
  which route, in which sandbox), drives a run through its states on an append-only journal, and commits and publishes
  what was accepted in review. An executor works a plan of stories off with an economy worker, under validation,
  review and, on request, decisions of a frontier model. A dispatcher claims tasks from a task source and runs them on
  the broker. A pilot records what such runs did in an audit log of its own and decides from it, stage by stage, whether
  cheap-first routing may be promoted. All paths below are under \<open>src/src\<close>.

  \<^bold>\<open>What the theories model.\<close>

  \<^item> Shared. \<open>Prelude\<close> (errors as values, loops that stop at the first error as \<open>foldR\<close>/\<open>mapR\<close>, insertion-ordered
    maps, stable sorting, the locale \<open>replay_machine\<close> of reducers that replay a log), \<open>JS_Lib\<close>, \<open>JS_Date\<close>, \<open>JS_Number\<close>
    (dictionaries with prototypes, strings, code-unit order, \<open>Date\<close>, doubles as rounded rationals), \<open>Effects\<close>
    (asynchronous code as a state monad with errors, with weakest preconditions), \<open>Canonical_JSON\<close> (string quoting).
  \<^item> Contracts. \<open>Contracts\<close> (\<open>runtime/contracts.ts\<close>, \<open>failures.ts\<close>), \<open>Contract_Schemas\<close> (\<open>contract-schemas.ts\<close>,
    \<open>load.ts\<close>), \<open>Idempotency\<close> (\<open>request-idempotency.ts\<close>; locale \<open>request_registry\<close>).
  \<^item> Routing. \<open>Binding_Health\<close> (\<open>binding-health.ts\<close>), \<open>Adaptive_Execution\<close> (\<open>adaptive-execution.ts\<close>), \<open>Routing\<close>
    (\<open>bindings.ts\<close>, \<open>readiness.ts\<close>, \<open>repository-policy.ts\<close>, \<open>routing.ts\<close>).
  \<^item> Broker. \<open>Run_State\<close> and \<open>Run_History\<close> (\<open>run-state.ts\<close>: commands, reducer, replay, cache, recovery; what a journal
    proves about a run), \<open>Journal\<close> (\<open>journal.ts\<close>), \<open>Broker_Daemon\<close> (\<open>persist\<close> in \<open>broker-daemon.ts\<close>).
  \<^item> Publication. \<open>Run_Locks\<close> (locale \<open>locked_operation\<close>), \<open>Review_Evidence\<close> (\<open>review-attestation.ts\<close>,
    \<open>delegation-provenance.ts\<close>), \<open>Finalization\<close> (\<open>finalize.ts\<close>), \<open>Publication\<close> and \<open>Publication_Properties\<close>
    (\<open>publication.ts\<close> and its composition with the reducer).
  \<^item> Stories. \<open>Worker_Capability\<close>, \<open>Repair_Packet\<close>, \<open>Story_Plan\<close>, \<open>Story_Graph\<close>, \<open>Story_History\<close>, \<open>Story_Executor\<close>
    (\<open>worker-capability.ts\<close>, \<open>repair-packet.ts\<close>, \<open>iterative-executor.ts\<close>), \<open>Story_Replay\<close>, \<open>Story_Decisions\<close>,
    \<open>Story_Runs\<close>, \<open>Story_Steps\<close>, \<open>Story_Loop\<close>, \<open>Story_Control\<close>, \<open>Story_Properties\<close> (their proofs, one layer of the
    executor each), \<open>Story_Supervisor\<close> (\<open>frontier-supervisor.ts\<close>).
  \<^item> Dispatcher. \<open>Dispatcher\<close>, \<open>Dispatch_Safety\<close>, \<open>Dispatch_Properties\<close> (\<open>autonomous-dispatcher.ts\<close>, with the
    inductive set of the states any sequence of operations reaches).
  \<^item> Pilot (\<open>pilot/\<close>). \<open>Pilot_Types\<close>, \<open>Pilot_Observation\<close>, \<open>Pilot_Report\<close> (\<open>contracts.ts\<close>), \<open>Pilot_Store\<close>
    (\<open>event-store.ts\<close>, \<open>sensitive-guard.ts\<close>), \<open>Pilot_Machine\<close>, \<open>Pilot_Replay\<close>, \<open>Pilot_History\<close> (\<open>state-machine.ts\<close>),
    \<open>Pilot_Usage\<close> (\<open>usage-cost.ts\<close>), \<open>Pilot_Manifest\<close> (\<open>manifest.ts\<close>), \<open>Pilot_Reducer\<close> (\<open>reducer.ts\<close>), \<open>Pilot_Metrics\<close>
    (\<open>metrics.ts\<close>), \<open>Pilot_Evaluation\<close> (\<open>evaluate.ts\<close>), and their properties in \<open>Pilot_Outcomes\<close>, \<open>Pilot_Admission\<close>,
    \<open>Pilot_Promotion\<close>, \<open>Pilot_Reports\<close>.
  \<^item> \<open>Samples\<close>, \<open>Story_Samples\<close>, \<open>Supervisor_Samples\<close>, \<open>Dispatch_Samples\<close>, \<open>Publication_Samples\<close>, \<open>Pilot_Samples\<close> and
    \<open>Evaluation_Samples\<close> hold concrete inputs: every theorem with a hypothesis is applied there at inputs that meet it.

  \<^bold>\<open>Conventions.\<close> An interface is a record, a literal union a datatype, a zod schema a predicate, a function that can
  throw returns \<open>error + 'a\<close>. Definitions keep the names of the source; a branch or loop body that the source leaves
  unnamed gets a name of its own. Integers are unbounded and rationals exact where the source checks safe-integer bounds
  or works on decimals; \<open>JS_Number\<close> rounds wherever the source computes with doubles.

  \<^bold>\<open>Parameters.\<close> Code that is not in the repository is an argument: SHA-256 and canonical hashes, Ed25519, zod's
  \<open>url\<close> and \<open>datetime\<close> checks, \<open>localeCompare\<close>, \<open>toLocaleLowerCase\<close>, and the ports (worker, validation, review, frontier,
  task source, git, GitHub, locks, file system), whose answers are functions of the log of all calls made so far; so
  the properties hold for every behaviour of the ports. Where a property needs more, it says so: the format of
  hashes (\<open>hashes_ok\<close>), distinct hashes of the events of one history (\<open>fresh_hashes\<close>), the round trip of the journal's
  codec, \<open>localeCompare\<close> as an order on the identifiers in use, collision freedom on the records compared.

  \<^bold>\<open>What the properties say.\<close>

  \<^item> Broker: the evidence behind every commit, publication and accepted candidate of a replayed journal, the lifecycle of
    a run, requests and runs in bijection, recovery as replay, the daemon's memory as the replay of its journal, the
    journal's round trip and tamper evidence.
  \<^item> Publication: a commit rests on the accepted, unchanged evidence; the events of finalization and publication refine
    the reducer up to FINALIZED, save for the one event that a differing merge answer makes unacceptable; nothing is
    merged before it is pushed and checked, and nothing is called without permission.
  \<^item> Stories: executions follow the plan, promotions are earned, an interrupted run resumes, the result is what an
    inspection of the durable history shows, the dependency graph never blocks, supervised runs end.
  \<^item> Dispatcher: starts are claimed, completions verified, active tasks bounded, claims resolved.
  \<^item> Routing: the chosen lane is safe, policies are well typed, contracts bind their inputs, frontier rules bind requests,
    unhealthy bindings stay out until canaries pass, health does not depend on the order of the evidence.
  \<^item> Pilot: arms are balanced, executions follow their arm, inactive events are projected out, accepted observations rest
    on an independent review of the last execution, only comparable triplets count, a promotion is supported on every
    criterion, reports form a chain.
  \<^item> Errors: behaviours of the code that contradict its own schemas or documents are stated as theorems too (a lost claim,
    a large failure, a short decision identifier, a failed cache write, a rejected run, a rate above one, a rejected
    pilot, a backward clock).

  \<^bold>\<open>Bounds and fuel.\<close> A loop that may not end returns \<open>None\<close> when its rounds are used up. \<open>executor_rounds\<close> gets
  \<open>max_iterations + 1\<close> rounds, each of which records one event; \<open>supervise\<close> gets one round more than its decision budget
  of at most 64, each of which records one decision; \<open>supervisor_terminates\<close> shows that neither is used up. The
  rejection sampling of a bootstrap draw tries \<open>vx_nonces\<close> nonces; \<open>indices_with_more_nonces\<close> shows that an answer
  does not depend on that number. \<open>shortest_decimal\<close> tries 400 digits after the point, more than a double of the
  program has. All other loops are structural or fold over lists.

  \<^bold>\<open>Not modelled.\<close> Process control, Docker, sockets, sandbox certification and the egress gateway
  (\<open>docker-sandbox.ts\<close>, \<open>broker-ipc.ts\<close>, \<open>provider-egress-gateway.ts\<close>, ...), since what they do is the behaviour of the
  operating system; git and GitHub adapters, the file system and locks, which are ports here; the request handlers
  of the daemon and of the MCP server; runners, hosts and the renderer of configuration files; prompt and capsule
  construction; telemetry and reports about the broker; capability probes and their scoring; the plan of the
  repository's own pilot and its review packets. Canonical JSON beyond string quoting is a parameter of every hash.
\<close>

end
